(* ===== verification/Prelude.thy ===== *)
theory Prelude
  imports "HOL-Library.Word" "HOL-Library.State_Monad"
begin

text \<open>
  Shared vocabulary of the development.

  \<^item> The fixed-width integers of \<open>Source/Common/types.h\<close> as words: every \<open>+\<close>, \<open>-\<close> and shift
    wraps exactly as the C++ casts make it wrap.
  \<^item> Byte and word composition (\<open>lo | (hi << 8)\<close>, \<open>v >> 8\<close>, \<open>v & 0xFF\<close>) and the bit-flag idiom
    (\<open>P & MASK\<close>, \<open>P |= MASK\<close>, \<open>P &= ~MASK\<close>), with the lemmas that let \<open>simp\<close> compute on them.
  \<^item> A few combinators on the library's state monad (reading a field, updating the state) and the
    calculus the component proofs use: \<open>keeps f m\<close> (the projection \<open>f\<close> of the state is untouched),
    \<open>pres I m\<close> (the invariant \<open>I\<close> is preserved), and \<open>yields I m P\<close> (under \<open>I\<close>, the result
    satisfies \<open>P\<close> and \<open>I\<close> is preserved). Their composition rules are collected in the
    named theorems \<open>keeps_intros\<close> and \<open>pres_intros\<close>.
\<close>

unbundle bit_operations_syntax

section \<open>Machine integers\<close>

type_synonym u8 = "8 word"
type_synonym u16 = "16 word"
type_synonym u32 = "32 word"
type_synonym u64 = "64 word"

definition lo8 :: "u16 \<Rightarrow> u8" where
  "lo8 v = ucast v"

definition hi8 :: "u16 \<Rightarrow> u8" where
  "hi8 v = ucast (drop_bit 8 v)"

definition word16 :: "u8 \<Rightarrow> u8 \<Rightarrow> u16" where
  "word16 lo hi = ucast lo OR push_bit 8 (ucast hi)"

text \<open>\<open>((u32)bank << 16) | addr\<close>\<close>

definition bank_addr :: "u8 \<Rightarrow> u16 \<Rightarrow> u32" where
  "bank_addr b a = push_bit 16 (ucast b) OR ucast a"

definition SCPU_ADDR_MASK :: u32 where
  "SCPU_ADDR_MASK = 0x00FFFFFF"

text \<open>Testing, setting and clearing bits of a register through a mask.\<close>

definition has :: "'a::len word \<Rightarrow> 'a word \<Rightarrow> bool" where
  "has p msk = (p AND msk \<noteq> 0)"

definition set_flag :: "'a::len word \<Rightarrow> bool \<Rightarrow> 'a word \<Rightarrow> 'a word" where
  "set_flag msk on p = (if on then p OR msk else p AND NOT msk)"

lemma ucast_le_255 [simp]: "(ucast (v :: u8) :: u16) \<le> 0xFF"
proof -
  have "take_bit 8 (ucast v :: u16) = ucast v"
    by (rule bit_word_eqI) (auto simp: bit_simps dest: bit_imp_le_length)
  then have "(ucast v :: u16) AND 0xFF = ucast v"
    by (simp add: take_bit_eq_mask mask_eq_exp_minus_1)
  then show ?thesis
    by (metis word_and_le1)
qed

lemma and_255_le [simp]: "(v :: u16) AND 0xFF \<le> 0xFF"
  by (rule word_and_le1)

lemma le_255_iff: "(v :: u16) \<le> 0xFF \<longleftrightarrow> v AND 0xFF = v"
proof
  assume "v \<le> 0xFF"
  then have "unat v < 2 ^ 8" by (simp add: word_le_nat_alt)
  then have "take_bit 8 v = v"
    by (metis take_bit_nat_eq_self_iff unsigned_take_bit_eq unsigned_word_eqI)
  then show "v AND 0xFF = v"
    by (simp add: take_bit_eq_mask mask_eq_exp_minus_1)
qed (metis word_and_le1)

lemma word8_eqI:
  fixes a b :: u8
  assumes "bit a 0 = bit b 0" "bit a 1 = bit b 1" "bit a 2 = bit b 2" "bit a 3 = bit b 3"
    "bit a 4 = bit b 4" "bit a 5 = bit b 5" "bit a 6 = bit b 6" "bit a 7 = bit b 7"
  shows "a = b"
  by (rule bit_word_eqI) (use assms in \<open>auto simp: less_Suc_eq numeral_eq_Suc\<close>)

lemma word8_eq_iff:
  fixes a b :: u8
  shows "a = b \<longleftrightarrow> (bit a 0 = bit b 0 \<and> bit a 1 = bit b 1 \<and> bit a 2 = bit b 2 \<and> bit a 3 = bit b 3 \<and>
    bit a 4 = bit b 4 \<and> bit a 5 = bit b 5 \<and> bit a 6 = bit b 6 \<and> bit a 7 = bit b 7)"
  by (auto intro: word8_eqI)

named_theorems mask_bits \<comment> \<open>a test through a one-bit mask is a test of that bit\<close>

lemma and_mask_bit:
  fixes p :: "'a::len word"
  assumes "msk = 2 ^ n"
  shows "(p AND msk = 0) = (\<not> bit p n)"
  using assms by (simp add: and_exp_eq_0_iff_not_bit)

lemma mask_bits_eqs [mask_bits]:
  fixes p :: "'a::len word"
  shows "(p AND 1 = 0) = (\<not> bit p 0)" "(p AND 2 = 0) = (\<not> bit p 1)"
    "(p AND 4 = 0) = (\<not> bit p 2)" "(p AND 8 = 0) = (\<not> bit p 3)"
    "(p AND 16 = 0) = (\<not> bit p 4)" "(p AND 32 = 0) = (\<not> bit p 5)"
    "(p AND 64 = 0) = (\<not> bit p 6)" "(p AND 128 = 0) = (\<not> bit p 7)"
    "(p AND 0x4000 = 0) = (\<not> bit p 14)" "(p AND 0x8000 = 0) = (\<not> bit p 15)"
  by (rule and_mask_bit, simp)+

lemma small_take_bit:
  fixes c :: "'a::len word"
  assumes "unat c < 2 ^ k"
  shows "take_bit k c = c"
  using assms by (metis take_bit_nat_eq_self_iff unsigned_take_bit_eq unsigned_word_eqI)

lemma small_not_bit:
  fixes c :: "'a::len word"
  assumes "unat c < 2 ^ k" "k \<le> n"
  shows "\<not> bit c n"
  using small_take_bit [OF assms(1)] assms(2) by (metis bit_take_bit_iff not_less)

lemma lo8_word16 [simp]: "lo8 (word16 lo hi) = lo"
  by (rule bit_word_eqI) (auto simp: lo8_def word16_def bit_simps)

lemma hi8_word16 [simp]: "hi8 (word16 lo hi) = hi"
  by (rule bit_word_eqI)
    (auto simp: hi8_def word16_def bit_simps dest: bit_imp_le_length)

lemma word16_lo8_hi8 [simp]: "word16 (lo8 v) (hi8 v) = v"
  by (rule bit_word_eqI) (auto simp: hi8_def lo8_def word16_def bit_simps)

lemma has_exp [simp]: "has p (2 ^ n) = bit p n"
  by (simp add: has_def and_exp_eq_0_iff_not_bit)

lemma add_mod_cancel_left: "(a + i) mod m = (a + j) mod m \<Longrightarrow> i mod m = j mod m" for a i j m :: nat
proof -
  assume "(a + i) mod m = (a + j) mod m"
  then have "int (a + i) mod int m = int (a + j) mod int m" by (simp only: zmod_int [symmetric])
  then have "(int (a + i) - int a) mod int m = (int (a + j) - int a) mod int m" by (rule mod_diff_cong) simp
  then have "int (i mod m) = int (j mod m)" by (simp add: zmod_int)
  then show ?thesis by simp
qed

section \<open>The state monad\<close>

abbreviation ret :: "'a \<Rightarrow> ('s, 'a) state" where
  "ret \<equiv> State_Monad.return"

definition gets :: "('s \<Rightarrow> 'a) \<Rightarrow> ('s, 'a) state" where
  "gets f = State (\<lambda>s. (f s, s))"

definition modify :: "('s \<Rightarrow> 's) \<Rightarrow> ('s, unit) state" where
  "modify f = State (\<lambda>s. ((), f s))"

definition whenM :: "bool \<Rightarrow> ('s, unit) state \<Rightarrow> ('s, unit) state" where
  "whenM b m = (if b then m else ret ())"

definition ifM :: "('s \<Rightarrow> bool) \<Rightarrow> ('s, 'a) state \<Rightarrow> ('s, 'a) state \<Rightarrow> ('s, 'a) state" where
  "ifM c m n = State (\<lambda>s. if c s then run_state m s else run_state n s)"

lemma run_gets [simp]: "run_state (gets f) s = (f s, s)"
  by (simp add: gets_def)

lemma run_modify [simp]: "run_state (modify f) s = ((), f s)"
  by (simp add: modify_def)

lemma run_ifM [simp]:
  "run_state (ifM c m n) s = (if c s then run_state m s else run_state n s)"
  by (simp add: ifM_def)

lemma whenM_simps [simp]: "whenM True m = m" "whenM False m = ret ()"
  by (simp_all add: whenM_def)

abbreviation exec_state :: "('s, 'a) state \<Rightarrow> 's \<Rightarrow> 's" where
  "exec_state m s \<equiv> snd (run_state m s)"

abbreviation eval_state :: "('s, 'a) state \<Rightarrow> 's \<Rightarrow> 'a" where
  "eval_state m s \<equiv> fst (run_state m s)"

section \<open>Frame and invariant calculus\<close>

named_theorems keeps_intros
named_theorems pres_intros

definition keeps :: "('s \<Rightarrow> 'x) \<Rightarrow> ('s, 'a) state \<Rightarrow> bool" where
  "keeps f m \<longleftrightarrow> (\<forall>s. f (exec_state m s) = f s)"

definition pres :: "('s \<Rightarrow> bool) \<Rightarrow> ('s, 'a) state \<Rightarrow> bool" where
  "pres I m \<longleftrightarrow> (\<forall>s. I s \<longrightarrow> I (exec_state m s))"

definition yields :: "('s \<Rightarrow> bool) \<Rightarrow> ('s, 'a) state \<Rightarrow> ('s \<Rightarrow> 'a \<Rightarrow> bool) \<Rightarrow> bool" where
  "yields I m P \<longleftrightarrow> (\<forall>s. I s \<longrightarrow> I (exec_state m s) \<and> P (exec_state m s) (eval_state m s))"

lemma keepsI: "(\<And>s. f (exec_state m s) = f s) \<Longrightarrow> keeps f m"
  by (simp add: keeps_def)

lemma keepsD: "keeps f m \<Longrightarrow> f (exec_state m s) = f s"
  by (simp add: keeps_def)

lemma keeps_ret [keeps_intros]: "keeps f (ret a)"
  by (simp add: keeps_def)

lemma keeps_gets [keeps_intros]: "keeps f (gets g)"
  by (simp add: keeps_def)

lemma keeps_modify [keeps_intros]: "(\<And>s. f (g s) = f s) \<Longrightarrow> keeps f (modify g)"
  by (simp add: keeps_def)

lemma keeps_bind [keeps_intros]:
  assumes "keeps f m" "\<And>a. keeps f (g a)"
  shows "keeps f (State_Monad.bind m g)"
  using assms by (simp add: keeps_def case_prod_beta)

lemma keeps_if [keeps_intros]: "keeps f m \<Longrightarrow> keeps f n \<Longrightarrow> keeps f (if b then m else n)"
  by simp

lemma keeps_ifM [keeps_intros]: "keeps f m \<Longrightarrow> keeps f n \<Longrightarrow> keeps f (ifM c m n)"
  by (simp add: keeps_def)

lemma keeps_whenM [keeps_intros]: "keeps f m \<Longrightarrow> keeps f (whenM b m)"
  by (simp add: whenM_def keeps_ret)

lemma keeps_Let [keeps_intros]: "(\<And>x. keeps f (m x)) \<Longrightarrow> keeps f (Let v m)"
  by simp

lemma presI: "(\<And>s. I s \<Longrightarrow> I (exec_state m s)) \<Longrightarrow> pres I m"
  by (simp add: pres_def)

lemma presD: "pres I m \<Longrightarrow> I s \<Longrightarrow> I (exec_state m s)"
  by (simp add: pres_def)

lemma pres_keeps:
  assumes "keeps f m" "\<And>s. I s = J (f s)"
  shows "pres I m"
  using assms by (simp add: keeps_def pres_def)

lemma pres_ret [pres_intros]: "pres I (ret a)"
  by (simp add: pres_def)

lemma pres_gets [pres_intros]: "pres I (gets g)"
  by (simp add: pres_def)

lemma pres_modify: "(\<And>s. I s \<Longrightarrow> I (g s)) \<Longrightarrow> pres I (modify g)"
  by (simp add: pres_def)

lemma pres_bind [pres_intros]:
  assumes "pres I m" "\<And>a. pres I (g a)"
  shows "pres I (State_Monad.bind m g)"
  using assms by (simp add: pres_def case_prod_beta)

lemma pres_if [pres_intros]: "pres I m \<Longrightarrow> pres I n \<Longrightarrow> pres I (if b then m else n)"
  by simp

lemma pres_ifM [pres_intros]: "pres I m \<Longrightarrow> pres I n \<Longrightarrow> pres I (ifM c m n)"
  by (simp add: pres_def)

lemma pres_whenM [pres_intros]: "pres I m \<Longrightarrow> pres I (whenM b m)"
  by (simp add: whenM_def pres_ret)

lemma pres_Let [pres_intros]: "(\<And>x. pres I (m x)) \<Longrightarrow> pres I (Let v m)"
  by simp

lemma yieldsI:
  "(\<And>s. I s \<Longrightarrow> I (exec_state m s) \<and> P (exec_state m s) (eval_state m s)) \<Longrightarrow> yields I m P"
  by (simp add: yields_def)

lemma pres_bind_yields:
  assumes "yields I m P" "\<And>a s. I s \<Longrightarrow> P s a \<Longrightarrow> I (exec_state (g a) s)"
  shows "pres I (State_Monad.bind m g)"
  using assms by (simp add: pres_def yields_def case_prod_beta)

end
