(* ===== verification/CpuBus.thy ===== *)
theory CpuBus
  imports Prelude
begin

text \<open>
  The bus interface of the processor cores (\<open>Source/CPU/cpu_bus.h\<close>) and the second, concrete
  attachment of the 65816 core (\<open>attachFastBus\<close> and the \<open>bus*\<close> helpers at the top of
  \<open>Source/CPU/W65C816/w65c816_addressing.h\<close>).

  A bus is a record of operations over its own state \<open>'b\<close>. Two points of aliasing of the C++
  program are visible in the types: a read receives the processor's emulation flag, because the
  register file behind the bus holds a pointer to \<open>CW65C816::m_E\<close>
  (\<open>CSuperCPURegisters::trackEmulationMode\<close>), and a write or a tick reports whether it called back
  into \<open>requestRunBreak\<close> (the speed hook of \<open>CSuperCPU\<close> does). A null \<open>m_Bus\<close> is not modelled:
  the program attaches a bus before it resets or steps a core.
\<close>

record 'b icpu_bus =
  ib_read8 :: "bool \<Rightarrow> u32 \<Rightarrow> 'b \<Rightarrow> u8 \<times> 'b"
  ib_write8 :: "u32 \<Rightarrow> u8 \<Rightarrow> 'b \<Rightarrow> bool \<times> 'b"
  ib_irqAsserted :: "'b \<Rightarrow> bool \<times> 'b"
  ib_nmiAsserted :: "'b \<Rightarrow> bool \<times> 'b"
  ib_tick :: "u32 \<Rightarrow> 'b \<Rightarrow> bool \<times> 'b"

record 'b fast_bus =
  fb_read8 :: "bool \<Rightarrow> u32 \<Rightarrow> 'b \<Rightarrow> u8 \<times> 'b"
  fb_write8 :: "u32 \<Rightarrow> u8 \<Rightarrow> 'b \<Rightarrow> bool \<times> 'b"
  fb_sampleIRQNMIFast :: "'b \<Rightarrow> (bool \<times> bool) \<times> 'b"
  fb_fineTicksRequired :: "'b \<Rightarrow> bool"
  fb_tick :: "u32 \<Rightarrow> 'b \<Rightarrow> bool \<times> 'b"
  fb_noteNMITaken :: "'b \<Rightarrow> 'b"
  fb_interruptRerouteActive :: "bool \<Rightarrow> 'b \<Rightarrow> bool"
  fb_rerouteVector :: "bool \<Rightarrow> u16 \<Rightarrow> 'b \<Rightarrow> u16 \<times> 'b"

text \<open>The two bus pointers of the 65816 core; \<open>m_FastBus\<close> may be null.\<close>

record 'b buses =
  m_Bus :: "'b icpu_bus"
  m_FastBus :: "'b fast_bus option"

definition bus_read :: "'b buses \<Rightarrow> bool \<Rightarrow> u32 \<Rightarrow> 'b \<Rightarrow> u8 \<times> 'b" where
  "bus_read B e a b =
     (case m_FastBus B of Some F \<Rightarrow> fb_read8 F e a b | None \<Rightarrow> ib_read8 (m_Bus B) e a b)"

definition bus_write :: "'b buses \<Rightarrow> u32 \<Rightarrow> u8 \<Rightarrow> 'b \<Rightarrow> bool \<times> 'b" where
  "bus_write B a v b =
     (case m_FastBus B of Some F \<Rightarrow> fb_write8 F a v b | None \<Rightarrow> ib_write8 (m_Bus B) a v b)"

definition bus_interrupts :: "'b buses \<Rightarrow> 'b \<Rightarrow> (bool \<times> bool) \<times> 'b" where
  "bus_interrupts B b =
     (case m_FastBus B of
        Some F \<Rightarrow> fb_sampleIRQNMIFast F b
      | None \<Rightarrow>
          (let (irq, b1) = ib_irqAsserted (m_Bus B) b;
               (nmi, b2) = ib_nmiAsserted (m_Bus B) b1
           in ((irq, nmi), b2)))"

definition bus_fine_ticks :: "'b buses \<Rightarrow> 'b \<Rightarrow> bool" where
  "bus_fine_ticks B b =
     (case m_FastBus B of Some F \<Rightarrow> fb_fineTicksRequired F b | None \<Rightarrow> False)"

definition bus_tick :: "'b buses \<Rightarrow> u32 \<Rightarrow> 'b \<Rightarrow> bool \<times> 'b" where
  "bus_tick B n b =
     (case m_FastBus B of Some F \<Rightarrow> fb_tick F n b | None \<Rightarrow> ib_tick (m_Bus B) n b)"

definition bus_note_nmi :: "'b buses \<Rightarrow> 'b \<Rightarrow> 'b" where
  "bus_note_nmi B b = (case m_FastBus B of Some F \<Rightarrow> fb_noteNMITaken F b | None \<Rightarrow> b)"

text \<open>
  A bus whose storage behaves as memory on a set of addresses: what a processor may rely on when
  the addresses it touches are RAM. \<open>view\<close> reads the stored byte without a bus access.
\<close>

locale ram_bus =
  fixes B :: "'b buses" and view :: "'b \<Rightarrow> u32 \<Rightarrow> u8" and ram :: "u32 set"
  assumes read_value: "a \<in> ram \<Longrightarrow> fst (bus_read B e a b) = view b a"
    and read_keeps: "a \<in> ram \<Longrightarrow> view (snd (bus_read B e a b)) = view b"
    and write_view: "a \<in> ram \<Longrightarrow> view (snd (bus_write B a v b)) = (view b)(a := v)"
begin

lemma read_after_write:
  "a \<in> ram \<Longrightarrow> fst (bus_read B e a (snd (bus_write B a v b))) = v"
  by (simp add: read_value write_view)

lemma read_after_other_write:
  "a \<in> ram \<Longrightarrow> a' \<in> ram \<Longrightarrow> a' \<noteq> a \<Longrightarrow>
     fst (bus_read B e a' (snd (bus_write B a v b))) = view b a'"
  by (simp add: read_value write_view)

end

text \<open>
  The plain-memory bus of the host tests (a 16 MB array, no interrupts): \<open>addr\<close> is masked to 24
  bits on every access.
\<close>

definition flat_bus :: "(u32 \<Rightarrow> u8) icpu_bus" where
  "flat_bus = \<lparr> ib_read8 = (\<lambda>_ a m. (m (a AND SCPU_ADDR_MASK), m)),
               ib_write8 = (\<lambda>a v m. (False, m(a AND SCPU_ADDR_MASK := v))),
               ib_irqAsserted = (\<lambda>m. (False, m)), ib_nmiAsserted = (\<lambda>m. (False, m)),
               ib_tick = (\<lambda>_ m. (False, m)) \<rparr>"

definition flat_buses :: "(u32 \<Rightarrow> u8) buses" where
  "flat_buses = \<lparr> m_Bus = flat_bus, m_FastBus = None \<rparr>"

interpretation flat: ram_bus flat_buses "\<lambda>m a. m a" "{a. a AND SCPU_ADDR_MASK = a}"
  by unfold_locales (auto simp: flat_buses_def flat_bus_def bus_read_def bus_write_def fun_eq_iff)

end
