(* ===== verification/W65Opcodes.thy ===== *)
theory W65Opcodes
  imports Prelude
begin

text \<open>
  The 65816 opcode table (\<open>w65c816_opcodes.h\<close>, \<open>w65c816_opcodes.cpp\<close>): mnemonic, addressing mode,
  base cycles and cycle adjustments of all 256 encodings; instruction lengths and cycle counts as
  functions of the processor state; and the packed table \<open>w65c816CycleLUT\<close> the interpreter indexes
  at run time. The lemmas bound every cycle count by nine (the bound \<open>run()\<close> relies on when it
  batches instructions) and show that the packed table together with the interpreter's residual
  penalties reproduces the reference function in every state.
\<close>

datatype EW65Mode =
    W65M_IMP | W65M_ACC | W65M_IMM8 | W65M_IMMM | W65M_IMMX | W65M_ZP | W65M_ZPX | W65M_ZPY
  | W65M_IZX | W65M_IZY | W65M_IZP | W65M_IZL | W65M_IZLY | W65M_ABS | W65M_ABX | W65M_ABY
  | W65M_ABL | W65M_ABLX | W65M_IND | W65M_IAX | W65M_INDL | W65M_SR | W65M_SRY | W65M_REL
  | W65M_RELL | W65M_BM

definition W65C_M1 :: u8 where "W65C_M1 = 0x01"
definition W65C_M2 :: u8 where "W65C_M2 = 0x02"
definition W65C_X1 :: u8 where "W65C_X1 = 0x04"
definition W65C_W :: u8 where "W65C_W = 0x08"
definition W65C_P :: u8 where "W65C_P = 0x10"
definition W65C_E0 :: u8 where "W65C_E0 = 0x20"
definition W65C_BR :: u8 where "W65C_BR = 0x40"
definition W65C_PE :: u8 where "W65C_PE = 0x80"

definition W65CL_P :: u8 where "W65CL_P = 0x10"
definition W65CL_BR :: u8 where "W65CL_BR = 0x20"
definition W65CL_PE :: u8 where "W65CL_PE = 0x40"

lemmas w65_cycle_flag_defs =
  W65C_M1_def W65C_M2_def W65C_X1_def W65C_W_def W65C_P_def W65C_E0_def W65C_BR_def W65C_PE_def
  W65CL_P_def W65CL_BR_def W65CL_PE_def

record w65_opcode =
  op_mnemonic :: string
  op_mode :: EW65Mode
  op_baseCycles :: u8
  op_cycleFlags :: u8

definition opc :: "string \<Rightarrow> EW65Mode \<Rightarrow> u8 \<Rightarrow> u8 \<Rightarrow> w65_opcode" where
  "opc mn mode c f = \<lparr>op_mnemonic = mn, op_mode = mode, op_baseCycles = c, op_cycleFlags = f\<rparr>"

definition w65c816Opcodes_00_7F :: "w65_opcode list" where
  "w65c816Opcodes_00_7F = [
    opc ''BRK'' W65M_IMM8 7 W65C_E0,
    opc ''ORA'' W65M_IZX 6 (W65C_M1 OR W65C_W),
    opc ''COP'' W65M_IMM8 7 W65C_E0,
    opc ''ORA'' W65M_SR 4 W65C_M1,
    opc ''TSB'' W65M_ZP 5 (W65C_M2 OR W65C_W),
    opc ''ORA'' W65M_ZP 3 (W65C_M1 OR W65C_W),
    opc ''ASL'' W65M_ZP 5 (W65C_M2 OR W65C_W),
    opc ''ORA'' W65M_IZL 6 (W65C_M1 OR W65C_W),
    opc ''PHP'' W65M_IMP 3 0,
    opc ''ORA'' W65M_IMMM 2 W65C_M1,
    opc ''ASL'' W65M_ACC 2 0,
    opc ''PHD'' W65M_IMP 4 0,
    opc ''TSB'' W65M_ABS 6 W65C_M2,
    opc ''ORA'' W65M_ABS 4 W65C_M1,
    opc ''ASL'' W65M_ABS 6 W65C_M2,
    opc ''ORA'' W65M_ABL 5 W65C_M1,
    opc ''BPL'' W65M_REL 2 W65C_BR,
    opc ''ORA'' W65M_IZY 5 (W65C_M1 OR W65C_W OR W65C_P),
    opc ''ORA'' W65M_IZP 5 (W65C_M1 OR W65C_W),
    opc ''ORA'' W65M_SRY 7 W65C_M1,
    opc ''TRB'' W65M_ZP 5 (W65C_M2 OR W65C_W),
    opc ''ORA'' W65M_ZPX 4 (W65C_M1 OR W65C_W),
    opc ''ASL'' W65M_ZPX 6 (W65C_M2 OR W65C_W),
    opc ''ORA'' W65M_IZLY 6 (W65C_M1 OR W65C_W),
    opc ''CLC'' W65M_IMP 2 0,
    opc ''ORA'' W65M_ABY 4 (W65C_M1 OR W65C_P),
    opc ''INC'' W65M_ACC 2 0,
    opc ''TCS'' W65M_IMP 2 0,
    opc ''TRB'' W65M_ABS 6 W65C_M2,
    opc ''ORA'' W65M_ABX 4 (W65C_M1 OR W65C_P),
    opc ''ASL'' W65M_ABX 7 W65C_M2,
    opc ''ORA'' W65M_ABLX 5 W65C_M1,
    opc ''JSR'' W65M_ABS 6 0,
    opc ''AND'' W65M_IZX 6 (W65C_M1 OR W65C_W),
    opc ''JSL'' W65M_ABL 8 0,
    opc ''AND'' W65M_SR 4 W65C_M1,
    opc ''BIT'' W65M_ZP 3 (W65C_M1 OR W65C_W),
    opc ''AND'' W65M_ZP 3 (W65C_M1 OR W65C_W),
    opc ''ROL'' W65M_ZP 5 (W65C_M2 OR W65C_W),
    opc ''AND'' W65M_IZL 6 (W65C_M1 OR W65C_W),
    opc ''PLP'' W65M_IMP 4 0,
    opc ''AND'' W65M_IMMM 2 W65C_M1,
    opc ''ROL'' W65M_ACC 2 0,
    opc ''PLD'' W65M_IMP 5 0,
    opc ''BIT'' W65M_ABS 4 W65C_M1,
    opc ''AND'' W65M_ABS 4 W65C_M1,
    opc ''ROL'' W65M_ABS 6 W65C_M2,
    opc ''AND'' W65M_ABL 5 W65C_M1,
    opc ''BMI'' W65M_REL 2 W65C_BR,
    opc ''AND'' W65M_IZY 5 (W65C_M1 OR W65C_W OR W65C_P),
    opc ''AND'' W65M_IZP 5 (W65C_M1 OR W65C_W),
    opc ''AND'' W65M_SRY 7 W65C_M1,
    opc ''BIT'' W65M_ZPX 4 (W65C_M1 OR W65C_W),
    opc ''AND'' W65M_ZPX 4 (W65C_M1 OR W65C_W),
    opc ''ROL'' W65M_ZPX 6 (W65C_M2 OR W65C_W),
    opc ''AND'' W65M_IZLY 6 (W65C_M1 OR W65C_W),
    opc ''SEC'' W65M_IMP 2 0,
    opc ''AND'' W65M_ABY 4 (W65C_M1 OR W65C_P),
    opc ''DEC'' W65M_ACC 2 0,
    opc ''TSC'' W65M_IMP 2 0,
    opc ''BIT'' W65M_ABX 4 (W65C_M1 OR W65C_P),
    opc ''AND'' W65M_ABX 4 (W65C_M1 OR W65C_P),
    opc ''ROL'' W65M_ABX 7 W65C_M2,
    opc ''AND'' W65M_ABLX 5 W65C_M1,
    opc ''RTI'' W65M_IMP 6 W65C_E0,
    opc ''EOR'' W65M_IZX 6 (W65C_M1 OR W65C_W),
    opc ''WDM'' W65M_IMM8 2 0,
    opc ''EOR'' W65M_SR 4 W65C_M1,
    opc ''MVP'' W65M_BM 7 0,
    opc ''EOR'' W65M_ZP 3 (W65C_M1 OR W65C_W),
    opc ''LSR'' W65M_ZP 5 (W65C_M2 OR W65C_W),
    opc ''EOR'' W65M_IZL 6 (W65C_M1 OR W65C_W),
    opc ''PHA'' W65M_IMP 3 W65C_M1,
    opc ''EOR'' W65M_IMMM 2 W65C_M1,
    opc ''LSR'' W65M_ACC 2 0,
    opc ''PHK'' W65M_IMP 3 0,
    opc ''JMP'' W65M_ABS 3 0,
    opc ''EOR'' W65M_ABS 4 W65C_M1,
    opc ''LSR'' W65M_ABS 6 W65C_M2,
    opc ''EOR'' W65M_ABL 5 W65C_M1,
    opc ''BVC'' W65M_REL 2 W65C_BR,
    opc ''EOR'' W65M_IZY 5 (W65C_M1 OR W65C_W OR W65C_P),
    opc ''EOR'' W65M_IZP 5 (W65C_M1 OR W65C_W),
    opc ''EOR'' W65M_SRY 7 W65C_M1,
    opc ''MVN'' W65M_BM 7 0,
    opc ''EOR'' W65M_ZPX 4 (W65C_M1 OR W65C_W),
    opc ''LSR'' W65M_ZPX 6 (W65C_M2 OR W65C_W),
    opc ''EOR'' W65M_IZLY 6 (W65C_M1 OR W65C_W),
    opc ''CLI'' W65M_IMP 2 0,
    opc ''EOR'' W65M_ABY 4 (W65C_M1 OR W65C_P),
    opc ''PHY'' W65M_IMP 3 W65C_X1,
    opc ''TCD'' W65M_IMP 2 0,
    opc ''JML'' W65M_ABL 4 0,
    opc ''EOR'' W65M_ABX 4 (W65C_M1 OR W65C_P),
    opc ''LSR'' W65M_ABX 7 W65C_M2,
    opc ''EOR'' W65M_ABLX 5 W65C_M1,
    opc ''RTS'' W65M_IMP 6 0,
    opc ''ADC'' W65M_IZX 6 (W65C_M1 OR W65C_W),
    opc ''PER'' W65M_RELL 6 0,
    opc ''ADC'' W65M_SR 4 W65C_M1,
    opc ''STZ'' W65M_ZP 3 (W65C_M1 OR W65C_W),
    opc ''ADC'' W65M_ZP 3 (W65C_M1 OR W65C_W),
    opc ''ROR'' W65M_ZP 5 (W65C_M2 OR W65C_W),
    opc ''ADC'' W65M_IZL 6 (W65C_M1 OR W65C_W),
    opc ''PLA'' W65M_IMP 4 W65C_M1,
    opc ''ADC'' W65M_IMMM 2 W65C_M1,
    opc ''ROR'' W65M_ACC 2 0,
    opc ''RTL'' W65M_IMP 6 0,
    opc ''JMP'' W65M_IND 5 0,
    opc ''ADC'' W65M_ABS 4 W65C_M1,
    opc ''ROR'' W65M_ABS 6 W65C_M2,
    opc ''ADC'' W65M_ABL 5 W65C_M1,
    opc ''BVS'' W65M_REL 2 W65C_BR,
    opc ''ADC'' W65M_IZY 5 (W65C_M1 OR W65C_W OR W65C_P),
    opc ''ADC'' W65M_IZP 5 (W65C_M1 OR W65C_W),
    opc ''ADC'' W65M_SRY 7 W65C_M1,
    opc ''STZ'' W65M_ZPX 4 (W65C_M1 OR W65C_W),
    opc ''ADC'' W65M_ZPX 4 (W65C_M1 OR W65C_W),
    opc ''ROR'' W65M_ZPX 6 (W65C_M2 OR W65C_W),
    opc ''ADC'' W65M_IZLY 6 (W65C_M1 OR W65C_W),
    opc ''SEI'' W65M_IMP 2 0,
    opc ''ADC'' W65M_ABY 4 (W65C_M1 OR W65C_P),
    opc ''PLY'' W65M_IMP 4 W65C_X1,
    opc ''TDC'' W65M_IMP 2 0,
    opc ''JMP'' W65M_IAX 6 0,
    opc ''ADC'' W65M_ABX 4 (W65C_M1 OR W65C_P),
    opc ''ROR'' W65M_ABX 7 W65C_M2,
    opc ''ADC'' W65M_ABLX 5 W65C_M1]"

definition w65c816Opcodes_80_FF :: "w65_opcode list" where
  "w65c816Opcodes_80_FF = [
    opc ''BRA'' W65M_REL 3 W65C_PE,
    opc ''STA'' W65M_IZX 6 (W65C_M1 OR W65C_W),
    opc ''BRL'' W65M_RELL 4 0,
    opc ''STA'' W65M_SR 4 W65C_M1,
    opc ''STY'' W65M_ZP 3 (W65C_X1 OR W65C_W),
    opc ''STA'' W65M_ZP 3 (W65C_M1 OR W65C_W),
    opc ''STX'' W65M_ZP 3 (W65C_X1 OR W65C_W),
    opc ''STA'' W65M_IZL 6 (W65C_M1 OR W65C_W),
    opc ''DEY'' W65M_IMP 2 0,
    opc ''BIT'' W65M_IMMM 2 W65C_M1,
    opc ''TXA'' W65M_IMP 2 0,
    opc ''PHB'' W65M_IMP 3 0,
    opc ''STY'' W65M_ABS 4 W65C_X1,
    opc ''STA'' W65M_ABS 4 W65C_M1,
    opc ''STX'' W65M_ABS 4 W65C_X1,
    opc ''STA'' W65M_ABL 5 W65C_M1,
    opc ''BCC'' W65M_REL 2 W65C_BR,
    opc ''STA'' W65M_IZY 6 (W65C_M1 OR W65C_W),
    opc ''STA'' W65M_IZP 5 (W65C_M1 OR W65C_W),
    opc ''STA'' W65M_SRY 7 W65C_M1,
    opc ''STY'' W65M_ZPX 4 (W65C_X1 OR W65C_W),
    opc ''STA'' W65M_ZPX 4 (W65C_M1 OR W65C_W),
    opc ''STX'' W65M_ZPY 4 (W65C_X1 OR W65C_W),
    opc ''STA'' W65M_IZLY 6 (W65C_M1 OR W65C_W),
    opc ''TYA'' W65M_IMP 2 0,
    opc ''STA'' W65M_ABY 5 W65C_M1,
    opc ''TXS'' W65M_IMP 2 0,
    opc ''TXY'' W65M_IMP 2 0,
    opc ''STZ'' W65M_ABS 4 W65C_M1,
    opc ''STA'' W65M_ABX 5 W65C_M1,
    opc ''STZ'' W65M_ABX 5 W65C_M1,
    opc ''STA'' W65M_ABLX 5 W65C_M1,
    opc ''LDY'' W65M_IMMX 2 W65C_X1,
    opc ''LDA'' W65M_IZX 6 (W65C_M1 OR W65C_W),
    opc ''LDX'' W65M_IMMX 2 W65C_X1,
    opc ''LDA'' W65M_SR 4 W65C_M1,
    opc ''LDY'' W65M_ZP 3 (W65C_X1 OR W65C_W),
    opc ''LDA'' W65M_ZP 3 (W65C_M1 OR W65C_W),
    opc ''LDX'' W65M_ZP 3 (W65C_X1 OR W65C_W),
    opc ''LDA'' W65M_IZL 6 (W65C_M1 OR W65C_W),
    opc ''TAY'' W65M_IMP 2 0,
    opc ''LDA'' W65M_IMMM 2 W65C_M1,
    opc ''TAX'' W65M_IMP 2 0,
    opc ''PLB'' W65M_IMP 4 0,
    opc ''LDY'' W65M_ABS 4 W65C_X1,
    opc ''LDA'' W65M_ABS 4 W65C_M1,
    opc ''LDX'' W65M_ABS 4 W65C_X1,
    opc ''LDA'' W65M_ABL 5 W65C_M1,
    opc ''BCS'' W65M_REL 2 W65C_BR,
    opc ''LDA'' W65M_IZY 5 (W65C_M1 OR W65C_W OR W65C_P),
    opc ''LDA'' W65M_IZP 5 (W65C_M1 OR W65C_W),
    opc ''LDA'' W65M_SRY 7 W65C_M1,
    opc ''LDY'' W65M_ZPX 4 (W65C_X1 OR W65C_W),
    opc ''LDA'' W65M_ZPX 4 (W65C_M1 OR W65C_W),
    opc ''LDX'' W65M_ZPY 4 (W65C_X1 OR W65C_W),
    opc ''LDA'' W65M_IZLY 6 (W65C_M1 OR W65C_W),
    opc ''CLV'' W65M_IMP 2 0,
    opc ''LDA'' W65M_ABY 4 (W65C_M1 OR W65C_P),
    opc ''TSX'' W65M_IMP 2 0,
    opc ''TYX'' W65M_IMP 2 0,
    opc ''LDY'' W65M_ABX 4 (W65C_X1 OR W65C_P),
    opc ''LDA'' W65M_ABX 4 (W65C_M1 OR W65C_P),
    opc ''LDX'' W65M_ABY 4 (W65C_X1 OR W65C_P),
    opc ''LDA'' W65M_ABLX 5 W65C_M1,
    opc ''CPY'' W65M_IMMX 2 W65C_X1,
    opc ''CMP'' W65M_IZX 6 (W65C_M1 OR W65C_W),
    opc ''REP'' W65M_IMM8 3 0,
    opc ''CMP'' W65M_SR 4 W65C_M1,
    opc ''CPY'' W65M_ZP 3 (W65C_X1 OR W65C_W),
    opc ''CMP'' W65M_ZP 3 (W65C_M1 OR W65C_W),
    opc ''DEC'' W65M_ZP 5 (W65C_M2 OR W65C_W),
    opc ''CMP'' W65M_IZL 6 (W65C_M1 OR W65C_W),
    opc ''INY'' W65M_IMP 2 0,
    opc ''CMP'' W65M_IMMM 2 W65C_M1,
    opc ''DEX'' W65M_IMP 2 0,
    opc ''WAI'' W65M_IMP 3 0,
    opc ''CPY'' W65M_ABS 4 W65C_X1,
    opc ''CMP'' W65M_ABS 4 W65C_M1,
    opc ''DEC'' W65M_ABS 6 W65C_M2,
    opc ''CMP'' W65M_ABL 5 W65C_M1,
    opc ''BNE'' W65M_REL 2 W65C_BR,
    opc ''CMP'' W65M_IZY 5 (W65C_M1 OR W65C_W OR W65C_P),
    opc ''CMP'' W65M_IZP 5 (W65C_M1 OR W65C_W),
    opc ''CMP'' W65M_SRY 7 W65C_M1,
    opc ''PEI'' W65M_ZP 6 W65C_W,
    opc ''CMP'' W65M_ZPX 4 (W65C_M1 OR W65C_W),
    opc ''DEC'' W65M_ZPX 6 (W65C_M2 OR W65C_W),
    opc ''CMP'' W65M_IZLY 6 (W65C_M1 OR W65C_W),
    opc ''CLD'' W65M_IMP 2 0,
    opc ''CMP'' W65M_ABY 4 (W65C_M1 OR W65C_P),
    opc ''PHX'' W65M_IMP 3 W65C_X1,
    opc ''STP'' W65M_IMP 3 0,
    opc ''JML'' W65M_INDL 6 0,
    opc ''CMP'' W65M_ABX 4 (W65C_M1 OR W65C_P),
    opc ''DEC'' W65M_ABX 7 W65C_M2,
    opc ''CMP'' W65M_ABLX 5 W65C_M1,
    opc ''CPX'' W65M_IMMX 2 W65C_X1,
    opc ''SBC'' W65M_IZX 6 (W65C_M1 OR W65C_W),
    opc ''SEP'' W65M_IMM8 3 0,
    opc ''SBC'' W65M_SR 4 W65C_M1,
    opc ''CPX'' W65M_ZP 3 (W65C_X1 OR W65C_W),
    opc ''SBC'' W65M_ZP 3 (W65C_M1 OR W65C_W),
    opc ''INC'' W65M_ZP 5 (W65C_M2 OR W65C_W),
    opc ''SBC'' W65M_IZL 6 (W65C_M1 OR W65C_W),
    opc ''INX'' W65M_IMP 2 0,
    opc ''SBC'' W65M_IMMM 2 W65C_M1,
    opc ''NOP'' W65M_IMP 2 0,
    opc ''XBA'' W65M_IMP 3 0,
    opc ''CPX'' W65M_ABS 4 W65C_X1,
    opc ''SBC'' W65M_ABS 4 W65C_M1,
    opc ''INC'' W65M_ABS 6 W65C_M2,
    opc ''SBC'' W65M_ABL 5 W65C_M1,
    opc ''BEQ'' W65M_REL 2 W65C_BR,
    opc ''SBC'' W65M_IZY 5 (W65C_M1 OR W65C_W OR W65C_P),
    opc ''SBC'' W65M_IZP 5 (W65C_M1 OR W65C_W),
    opc ''SBC'' W65M_SRY 7 W65C_M1,
    opc ''PEA'' W65M_ABS 5 0,
    opc ''SBC'' W65M_ZPX 4 (W65C_M1 OR W65C_W),
    opc ''INC'' W65M_ZPX 6 (W65C_M2 OR W65C_W),
    opc ''SBC'' W65M_IZLY 6 (W65C_M1 OR W65C_W),
    opc ''SED'' W65M_IMP 2 0,
    opc ''SBC'' W65M_ABY 4 (W65C_M1 OR W65C_P),
    opc ''PLX'' W65M_IMP 4 W65C_X1,
    opc ''XCE'' W65M_IMP 2 0,
    opc ''JSR'' W65M_IAX 8 0,
    opc ''SBC'' W65M_ABX 4 (W65C_M1 OR W65C_P),
    opc ''INC'' W65M_ABX 7 W65C_M2,
    opc ''SBC'' W65M_ABLX 5 W65C_M1]"

definition w65c816Opcodes :: "w65_opcode list" where
  "w65c816Opcodes = w65c816Opcodes_00_7F @ w65c816Opcodes_80_FF"

definition opcode_info :: "u8 \<Rightarrow> w65_opcode" where
  "opcode_info opcode = w65c816Opcodes ! unat opcode"

section \<open>Instruction length\<close>

fun w65c816ModeLength :: "EW65Mode \<Rightarrow> u8" where
  "w65c816ModeLength W65M_IMP = 1"
| "w65c816ModeLength W65M_ACC = 1"
| "w65c816ModeLength W65M_IMM8 = 2"
| "w65c816ModeLength W65M_IMMM = 2"
| "w65c816ModeLength W65M_IMMX = 2"
| "w65c816ModeLength W65M_ZP = 2"
| "w65c816ModeLength W65M_ZPX = 2"
| "w65c816ModeLength W65M_ZPY = 2"
| "w65c816ModeLength W65M_IZX = 2"
| "w65c816ModeLength W65M_IZY = 2"
| "w65c816ModeLength W65M_IZP = 2"
| "w65c816ModeLength W65M_IZL = 2"
| "w65c816ModeLength W65M_IZLY = 2"
| "w65c816ModeLength W65M_ABS = 3"
| "w65c816ModeLength W65M_ABX = 3"
| "w65c816ModeLength W65M_ABY = 3"
| "w65c816ModeLength W65M_ABL = 4"
| "w65c816ModeLength W65M_ABLX = 4"
| "w65c816ModeLength W65M_IND = 3"
| "w65c816ModeLength W65M_IAX = 3"
| "w65c816ModeLength W65M_INDL = 3"
| "w65c816ModeLength W65M_SR = 2"
| "w65c816ModeLength W65M_SRY = 2"
| "w65c816ModeLength W65M_REL = 2"
| "w65c816ModeLength W65M_RELL = 3"
| "w65c816ModeLength W65M_BM = 3"

definition w65c816Length :: "u8 \<Rightarrow> bool \<Rightarrow> bool \<Rightarrow> u8" where
  "w65c816Length opcode m8 x8 =
     (let mode = op_mode (opcode_info opcode);
          len = w65c816ModeLength mode;
          len = (if mode = W65M_IMMM \<and> \<not> m8 then len + 1 else len)
      in (if mode = W65M_IMMX \<and> \<not> x8 then len + 1 else len))"

section \<open>Cycle counts\<close>

definition op_cycles :: "w65_opcode \<Rightarrow> bool \<Rightarrow> bool \<Rightarrow> bool \<Rightarrow> bool \<Rightarrow> bool \<Rightarrow> bool \<Rightarrow> u8" where
  "op_cycles oi m8 x8 emulation dpUnaligned pageCross branchTaken =
     (let c = op_baseCycles oi; f = op_cycleFlags oi in
      if f = 0 then c else
      let c = (if has f W65C_M1 \<and> \<not> m8 then c + 1 else c);
          c = (if has f W65C_M2 \<and> \<not> m8 then c + 2 else c);
          c = (if has f W65C_X1 \<and> \<not> x8 then c + 1 else c);
          c = (if has f W65C_W \<and> dpUnaligned then c + 1 else c);
          c = (if has f W65C_E0 \<and> \<not> emulation then c + 1 else c);
          c = (if has f W65C_P \<and> (\<not> x8 \<or> pageCross) then c + 1 else c);
          c = (if has f W65C_BR \<and> branchTaken
               then (if emulation \<and> pageCross then c + 1 + 1 else c + 1) else c);
          c = (if has f W65C_PE \<and> emulation \<and> pageCross then c + 1 else c)
      in c)"

definition w65c816Cycles :: "u8 \<Rightarrow> bool \<Rightarrow> bool \<Rightarrow> bool \<Rightarrow> bool \<Rightarrow> bool \<Rightarrow> bool \<Rightarrow> u8" where
  "w65c816Cycles opcode = op_cycles (opcode_info opcode)"

text \<open>The index into the packed table, from the width flags, E and an unaligned direct page
  (\<open>m_CycKey\<close>).\<close>

definition cyc_key :: "bool \<Rightarrow> bool \<Rightarrow> bool \<Rightarrow> bool \<Rightarrow> u8" where
  "cyc_key m8 x8 e dp =
     (if m8 then 1 else 0) OR (if x8 then 2 else 0) OR (if e then 4 else 0) OR (if dp then 8 else 0)"

text \<open>One entry of the packed table, and the table as \<open>w65c816InitCycleLUT\<close> fills it.\<close>

definition lut_entry :: "nat \<Rightarrow> nat \<Rightarrow> u8" where
  "lut_entry key opcode =
     (let m8 = odd key; x8 = odd (key div 2); e = odd (key div 4); dp = odd (key div 8);
          base = w65c816Cycles (of_nat opcode) m8 x8 e dp False False;
          enc = (if base \<le> 15 then base else 15);
          f = op_cycleFlags (opcode_info (of_nat opcode));
          enc = (if has f W65C_P \<and> x8 then enc OR W65CL_P else enc);
          enc = (if has f W65C_BR then enc OR W65CL_BR else enc)
      in (if has f W65C_PE \<and> e then enc OR W65CL_PE else enc))"

definition w65c816CycleLUT :: "u8 list list" where
  "w65c816CycleLUT = map (\<lambda>key. map (lut_entry key) [0..<256]) [0..<16]"

text \<open>The interpreter's epilogue: base count from the packed table plus the residual penalties.\<close>

definition lut_cycles :: "u8 \<Rightarrow> u8 \<Rightarrow> bool \<Rightarrow> bool \<Rightarrow> u32" where
  "lut_cycles cycKey opcode pageCross branchTaken =
     (let enc = w65c816CycleLUT ! unat cycKey ! unat opcode;
          used = ucast (enc AND 0x0F) in
      if enc AND 0xF0 \<noteq> 0 then
        let used = (if has enc W65CL_P \<and> pageCross then used + 1 else used);
            used = (if has enc W65CL_BR \<and> branchTaken
                    then (if cycKey AND 4 \<noteq> 0 \<and> pageCross then used + 1 + 1 else used + 1)
                    else used)
        in (if has enc W65CL_PE \<and> pageCross then used + 1 else used)
      else used)"

section \<open>Facts about the table\<close>

lemma length_opcodes [simp]: "length w65c816Opcodes = 256"
  by (simp add: w65c816Opcodes_def w65c816Opcodes_00_7F_def w65c816Opcodes_80_FF_def)

lemma opcode_info_in_table: "opcode_info opcode \<in> set w65c816Opcodes"
proof -
  have "unat opcode < 256" using unsigned_less [of opcode, where ?'a = nat] by simp
  then show ?thesis by (simp add: opcode_info_def)
qed

definition cycle_extras :: "u8 \<Rightarrow> bool \<Rightarrow> bool \<Rightarrow> bool \<Rightarrow> bool \<Rightarrow> bool \<Rightarrow> bool \<Rightarrow> nat" where
  "cycle_extras f m8 x8 e dp pc bt =
     of_bool (has f W65C_M1 \<and> \<not> m8) + 2 * of_bool (has f W65C_M2 \<and> \<not> m8)
     + of_bool (has f W65C_X1 \<and> \<not> x8) + of_bool (has f W65C_W \<and> dp)
     + of_bool (has f W65C_E0 \<and> \<not> e) + of_bool (has f W65C_P \<and> (\<not> x8 \<or> pc))
     + of_bool (has f W65C_BR \<and> bt) + of_bool (has f W65C_BR \<and> bt \<and> e \<and> pc)
     + of_bool (has f W65C_PE \<and> e \<and> pc)"

definition max_cycles :: "w65_opcode \<Rightarrow> nat" where
  "max_cycles oi = unat (op_baseCycles oi)
     + of_bool (has (op_cycleFlags oi) W65C_M1) + 2 * of_bool (has (op_cycleFlags oi) W65C_M2)
     + of_bool (has (op_cycleFlags oi) W65C_X1) + of_bool (has (op_cycleFlags oi) W65C_W)
     + of_bool (has (op_cycleFlags oi) W65C_E0) + of_bool (has (op_cycleFlags oi) W65C_P)
     + 2 * of_bool (has (op_cycleFlags oi) W65C_BR) + of_bool (has (op_cycleFlags oi) W65C_PE)"

lemma table_max: "list_all (\<lambda>oi. 2 \<le> unat (op_baseCycles oi) \<and> max_cycles oi \<le> 9) w65c816Opcodes"
  by (simp add: w65c816Opcodes_def w65c816Opcodes_00_7F_def w65c816Opcodes_80_FF_def opc_def max_cycles_def w65_cycle_flag_defs has_def)

lemma opcode_info_bounds:
  "2 \<le> unat (op_baseCycles (opcode_info opcode))" "max_cycles (opcode_info opcode) \<le> 9"
  using table_max opcode_info_in_table [of opcode] by (auto simp: list_all_iff)

lemma if_add_of_bool:
  "(if b then c + 1 else c) = c + of_bool b" "(if b then c + 2 else c) = c + 2 * of_bool b"
  for c :: "'a::semiring_1"
  by simp_all

lemma op_cycles_eq:
  "op_cycles oi m8 x8 e dp pc bt =
     op_baseCycles oi + of_nat (cycle_extras (op_cycleFlags oi) m8 x8 e dp pc bt)"
proof (cases "op_cycleFlags oi = 0")
  case True
  then show ?thesis by (simp add: op_cycles_def cycle_extras_def has_def)
next
  case False
  have br: "(if b \<and> t then (if e \<and> p then c + 1 + 1 else c + 1) else c)
      = c + (of_bool (b \<and> t) + of_bool (b \<and> t \<and> e \<and> p))" for b t e p and c :: u8
    by simp
  show ?thesis
    using False
    unfolding op_cycles_def cycle_extras_def Let_def br if_add_of_bool
    by (simp add: add.assoc)
qed

lemma cycle_extras_le:
  "unat (op_baseCycles oi) + cycle_extras (op_cycleFlags oi) m8 x8 e dp pc bt \<le> max_cycles oi"
proof -
  define f where "f = op_cycleFlags oi"
  have le: "of_bool (a \<and> c) \<le> (of_bool a :: nat)" for a c by simp
  have br: "of_bool (a \<and> x) + of_bool (a \<and> x \<and> d) \<le> (2 * of_bool a :: nat)" for a x d by simp
  show ?thesis
    unfolding cycle_extras_def max_cycles_def f_def [symmetric]
    using le [of "has f W65C_M1" "\<not> m8"] le [of "has f W65C_M2" "\<not> m8"]
      le [of "has f W65C_X1" "\<not> x8"] le [of "has f W65C_W" dp] le [of "has f W65C_E0" "\<not> e"]
      le [of "has f W65C_P" "\<not> x8 \<or> pc"] br [of "has f W65C_BR" bt "e \<and> pc"]
      le [of "has f W65C_PE" "e \<and> pc"]
    by linarith
qed

lemma unat_op_cycles:
  assumes "oi \<in> set w65c816Opcodes"
  shows "unat (op_cycles oi m8 x8 e dp pc bt)
    = unat (op_baseCycles oi) + cycle_extras (op_cycleFlags oi) m8 x8 e dp pc bt"
proof -
  have "max_cycles oi \<le> 9" using table_max assms by (auto simp: list_all_iff)
  with cycle_extras_le [of oi m8 x8 e dp pc bt]
  have "unat (op_baseCycles oi) + cycle_extras (op_cycleFlags oi) m8 x8 e dp pc bt \<le> 9" by linarith
  then show ?thesis
    by (simp add: op_cycles_eq unat_word_ariths unat_of_nat)
qed

definition add_bits :: "u8 \<Rightarrow> bool \<Rightarrow> bool \<Rightarrow> bool \<Rightarrow> u8" where
  "add_bits c p br pe =
     (let e = (if p then c OR W65CL_P else c); e = (if br then e OR W65CL_BR else e)
      in (if pe then e OR W65CL_PE else e))"

lemma add_bits_fields:
  assumes "unat c \<le> 15"
  shows "add_bits c p br pe AND 0x0F = c" "has (add_bits c p br pe) W65CL_P = p"
    "has (add_bits c p br pe) W65CL_BR = br" "has (add_bits c p br pe) W65CL_PE = pe"
    "(add_bits c p br pe AND 0xF0 \<noteq> 0) = (p \<or> br \<or> pe)"
proof -
  have hi: "\<not> bit c n" if "4 \<le> n" for n
    by (rule small_not_bit [of c 4]) (use assms that in auto)
  show lo: "add_bits c p br pe AND 0x0F = c"
    by (rule word8_eqI) (simp_all add: add_bits_def Let_def bit_simps hi w65_cycle_flag_defs)
  show "has (add_bits c p br pe) W65CL_P = p" "has (add_bits c p br pe) W65CL_BR = br"
    "has (add_bits c p br pe) W65CL_PE = pe"
    by (simp_all add: has_def w65_cycle_flag_defs mask_bits)
       (simp_all add: add_bits_def Let_def bit_simps hi w65_cycle_flag_defs)
  show "(add_bits c p br pe AND 0xF0 \<noteq> 0) = (p \<or> br \<or> pe)"
    by (simp add: word8_eq_iff bit_simps) (simp add: add_bits_def Let_def bit_simps hi w65_cycle_flag_defs)
qed

lemma op_cycles_le_9: "unat (w65c816Cycles opcode m8 x8 e dp pc bt) \<le> 9"
  using unat_op_cycles [OF opcode_info_in_table, of opcode m8 x8 e dp pc bt]
    opcode_info_bounds(2) [of opcode]
    cycle_extras_le [of "opcode_info opcode" m8 x8 e dp pc bt]
  by (simp add: w65c816Cycles_def)

lemma lut_entry_eq:
  "lut_entry key opcode =
     (let oi = opcode_info (of_nat opcode); f = op_cycleFlags oi
      in add_bits (op_cycles oi (odd key) (odd (key div 2)) (odd (key div 4)) (odd (key div 8)) False False)
           (has f W65C_P \<and> odd (key div 2)) (has f W65C_BR) (has f W65C_PE \<and> odd (key div 4)))"
proof -
  have "w65c816Cycles (of_nat opcode) m x e d False False \<le> 15" for m x e d
    using op_cycles_le_9 [of "of_nat opcode" m x e d False False]
    by (simp add: word_le_nat_alt)
  then show ?thesis
    by (simp add: lut_entry_def add_bits_def w65c816Cycles_def Let_def)
qed

lemma unat_cyc_key:
  "unat (cyc_key m8 x8 e dp)
   = of_bool m8 + 2 * of_bool x8 + 4 * of_bool e + 8 * of_bool dp"
  by (cases m8; cases x8; cases e; cases dp) (simp_all add: cyc_key_def)

lemma cyc_key_e:
  "(cyc_key m8 x8 e dp) AND 4
   \<noteq> (0 :: u8) \<longleftrightarrow> e"
  by (cases m8; cases x8; cases e; cases dp) (simp_all add: cyc_key_def)

lemma LUT_nth:
  "w65c816CycleLUT ! unat (cyc_key m8 x8 e dp)
     ! unat (opcode :: u8) =
   (let oi = opcode_info opcode; f = op_cycleFlags oi
    in add_bits (op_cycles oi m8 x8 e dp False False) (has f W65C_P \<and> x8) (has f W65C_BR) (has f W65C_PE \<and> e))"
proof -
  have "unat opcode < 256" using unsigned_less [of opcode, where ?'a = nat] by simp
  then show ?thesis
    unfolding unat_cyc_key w65c816CycleLUT_def
    by (cases m8; cases x8; cases e; cases dp) (simp_all add: lut_entry_eq)
qed

lemma add_bits_low: "unat c \<le> 15 \<Longrightarrow> ucast (add_bits c p br pe AND 0x0F) = (ucast c :: u32)"
  by (simp only: add_bits_fields(1))

lemma lut_exact:
  "lut_cycles (cyc_key m8 x8 e dp) opcode pc bt
   = ucast (w65c816Cycles opcode m8 x8 e dp pc bt)"
proof -
  define oi where "oi = opcode_info opcode"
  define f where "f = op_cycleFlags oi"
  define c0 where "c0 = op_cycles oi m8 x8 e dp False False"
  define c1 where "c1 = op_cycles oi m8 x8 e dp pc bt"
  define p where "p = (has f W65C_P \<and> x8)"
  define br where "br = has f W65C_BR"
  define pe where "pe = (has f W65C_PE \<and> e)"
  have le: "unat c0 \<le> 15" "unat c1 \<le> 9"
    using op_cycles_le_9 [of opcode m8 x8 e dp False False] op_cycles_le_9 [of opcode m8 x8 e dp pc bt]
    by (simp_all add: c0_def c1_def oi_def w65c816Cycles_def)
  have nat: "unat c1 = unat c0 + of_bool (p \<and> pc) + of_bool (br \<and> bt)
      + of_bool (br \<and> bt \<and> e \<and> pc) + of_bool (pe \<and> pc)"
    using unat_op_cycles [OF opcode_info_in_table, of opcode m8 x8 e dp False False]
      unat_op_cycles [OF opcode_info_in_table, of opcode m8 x8 e dp pc bt]
    unfolding c0_def c1_def p_def br_def pe_def f_def oi_def cycle_extras_def
    by (cases x8) (auto simp: of_bool_def)
  have u32: "(ucast c :: u32) = of_nat (unat c)" for c :: u8
    by simp
  have "lut_cycles (cyc_key m8 x8 e dp) opcode pc bt
     = of_nat (unat c0) + of_bool (p \<and> pc) + of_bool (br \<and> bt)
      + of_bool (br \<and> bt \<and> e \<and> pc) + of_bool (pe \<and> pc)"
    unfolding lut_cycles_def LUT_nth cyc_key_e Let_def oi_def [symmetric] f_def [symmetric]
      c0_def [symmetric] p_def [symmetric] br_def [symmetric] pe_def [symmetric]
      add_bits_fields [OF le(1)]
    by auto
  also have "\<dots> = of_nat (unat c1)" unfolding nat by simp
  finally show ?thesis by (simp add: c1_def oi_def w65c816Cycles_def)
qed

lemma cycles_range:
  "2 \<le> unat (w65c816Cycles opcode m8 x8 e dp pc bt)" "unat (w65c816Cycles opcode m8 x8 e dp pc bt) \<le> 9"
  using unat_op_cycles [OF opcode_info_in_table, of opcode m8 x8 e dp pc bt]
    opcode_info_bounds [of opcode] op_cycles_le_9 [of opcode m8 x8 e dp pc bt]
  by (simp_all add: w65c816Cycles_def)

text \<open>C1. The packed cycle table together with the interpreter's residual penalties (page cross,
  branch taken) gives, for every opcode and every processor state, exactly the count of the reference
  function \<open>w65c816Cycles\<close>: the run-time optimisation loses no cycle and adds none.\<close>

lemma lut_cycles_exact:
  "lut_cycles (cyc_key m8 x8 e dp) opcode pc bt = ucast (w65c816Cycles opcode m8 x8 e dp pc bt)"
  by (rule lut_exact)

text \<open>Every instruction costs between two and nine cycles whatever the state; \<open>run()\<close> relies on
  the upper bound when it batches instructions without checking the budget.\<close>

lemma w65c816Cycles_bounds:
  "2 \<le> unat (w65c816Cycles opcode m8 x8 e dp pc bt) \<and> unat (w65c816Cycles opcode m8 x8 e dp pc bt) \<le> 9"
  using cycles_range by blast

end
