(* ===== verification/W65Core.thy ===== *)
theory W65Core
  imports CpuBus W65Opcodes
begin

text \<open>
  The WDC 65C816 core, part one: the register file of \<open>w65c816.h\<close>, the cached register widths,
  and the memory side of the processor, \<open>w65c816_addressing.h\<close> (instruction stream, data access,
  the two stack classes, effective addresses). Every access goes through the bus record of
  \<open>CpuBus\<close>; the operations are programs of the state monad over the register file, whose last
  field holds the state of the bus. Where C++ leaves the order of two reads inside one expression
  unspecified (the 24-bit pointer of \<open>eaIndirectLong\<close>), the model reads left to right.
\<close>

section \<open>Registers\<close>

record 'b w65 =
  m_C :: u16
  m_X :: u16
  m_Y :: u16
  m_S :: u16
  m_D :: u16
  m_PC :: u16
  m_PBR :: u8
  m_DBR :: u8
  m_P :: u8
  m_E :: bool
  m_Stopped :: bool
  m_Waiting :: bool
  m_NativeInstructions :: u64
  m_IRQsTaken :: u64
  m_NMIsTaken :: u64
  m_NMIsDeferred :: u64
  m_DeferNativeNMI :: bool
  m_LastNMITakeCycles :: u64
  m_Cycles :: u64
  m_RunBreak :: bool
  m_NMIPrevLevel :: bool
  m_NMIPending :: bool
  m_M8 :: bool
  m_X8 :: bool
  m_CycKey :: u8
  m_Pending :: u8
  m_PageCross :: bool
  m_BranchTaken :: bool
  m_EABank0 :: bool
  w_bus :: 'b

type_synonym ('b, 'a) cpu = "('b w65, 'a) state"

text \<open>Status register bits (\<open>W65_*\<close>) and the pending-work bits (\<open>W65_PEND_*\<close>).\<close>

definition W65_C :: u8 where "W65_C = 0x01"
definition W65_Z :: u8 where "W65_Z = 0x02"
definition W65_I :: u8 where "W65_I = 0x04"
definition W65_D :: u8 where "W65_D = 0x08"
definition W65_X :: u8 where "W65_X = 0x10"
definition W65_M :: u8 where "W65_M = 0x20"
definition W65_V :: u8 where "W65_V = 0x40"
definition W65_N :: u8 where "W65_N = 0x80"
definition W65_B :: u8 where "W65_B = W65_X"

definition W65_PEND_STOPPED :: u8 where "W65_PEND_STOPPED = 1"
definition W65_PEND_WAITING :: u8 where "W65_PEND_WAITING = 2"
definition W65_PEND_NMI :: u8 where "W65_PEND_NMI = 4"
definition W65_PEND_SAMPLE :: u8 where "W65_PEND_SAMPLE = 8"
definition W65_PEND_IRQLINE :: u8 where "W65_PEND_IRQLINE = 16"

lemmas w65_flag_defs =
  W65_C_def W65_Z_def W65_I_def W65_D_def W65_X_def W65_M_def W65_V_def W65_N_def W65_B_def

section \<open>Register widths\<close>

definition memory8 :: "'b w65 \<Rightarrow> bool" where "memory8 s = m_M8 s"
definition index8 :: "'b w65 \<Rightarrow> bool" where "index8 s = m_X8 s"

definition dp_unaligned :: "'b w65 \<Rightarrow> bool" where
  "dp_unaligned s = (m_D s AND 0xFF \<noteq> 0)"

definition force_widths :: "'b w65 \<Rightarrow> 'b w65" where
  "force_widths s =
     (if m_E s then
        s\<lparr>m_P := m_P s OR (W65_M OR W65_X), m_S := 0x0100 OR (m_S s AND 0x00FF),
          m_X := m_X s AND 0x00FF, m_Y := m_Y s AND 0x00FF\<rparr>
      else if has (m_P s) W65_X then
        s\<lparr>m_X := m_X s AND 0x00FF, m_Y := m_Y s AND 0x00FF\<rparr>
      else s)"

definition cache_widths :: "'b w65 \<Rightarrow> 'b w65" where
  "cache_widths s =
     (let m8 = (m_E s \<or> has (m_P s) W65_M); x8 = (m_E s \<or> has (m_P s) W65_X)
      in s\<lparr>m_M8 := m8, m_X8 := x8, m_CycKey := cyc_key m8 x8 (m_E s) (dp_unaligned s)\<rparr>)"

definition applyE :: "'b w65 \<Rightarrow> 'b w65" where
  "applyE s = cache_widths (force_widths s)"

definition getA :: "'b w65 \<Rightarrow> u8" where
  "getA s = ucast (m_C s AND 0xFF)"

definition setA :: "u8 \<Rightarrow> 'b w65 \<Rightarrow> 'b w65" where
  "setA v s = s\<lparr>m_C := (m_C s AND 0xFF00) OR ucast v\<rparr>"

definition getAcc :: "'b w65 \<Rightarrow> u16" where
  "getAcc s = (if memory8 s then m_C s AND 0xFF else m_C s)"

definition setAcc :: "u16 \<Rightarrow> 'b w65 \<Rightarrow> 'b w65" where
  "setAcc v s =
     (if memory8 s then s\<lparr>m_C := (m_C s AND 0xFF00) OR (v AND 0xFF)\<rparr> else s\<lparr>m_C := v\<rparr>)"

definition getX :: "'b w65 \<Rightarrow> u16" where
  "getX s = (if index8 s then m_X s AND 0xFF else m_X s)"

definition getY :: "'b w65 \<Rightarrow> u16" where
  "getY s = (if index8 s then m_Y s AND 0xFF else m_Y s)"

section \<open>Flags\<close>

definition setFlag :: "u8 \<Rightarrow> bool \<Rightarrow> 'b w65 \<Rightarrow> 'b w65" where
  "setFlag msk on s = s\<lparr>m_P := set_flag msk on (m_P s)\<rparr>"

definition setZN8 :: "u8 \<Rightarrow> 'b w65 \<Rightarrow> 'b w65" where
  "setZN8 v s = setFlag W65_N (v AND 0x80 \<noteq> 0) (setFlag W65_Z (v = 0) s)"

definition setZN16 :: "u16 \<Rightarrow> 'b w65 \<Rightarrow> 'b w65" where
  "setZN16 v s = setFlag W65_N (v AND 0x8000 \<noteq> 0) (setFlag W65_Z (v = 0) s)"

definition setZNM :: "u16 \<Rightarrow> 'b w65 \<Rightarrow> 'b w65" where
  "setZNM v s = (if memory8 s then setZN8 (ucast v) s else setZN16 v s)"

definition setZNX :: "u16 \<Rightarrow> 'b w65 \<Rightarrow> 'b w65" where
  "setZNX v s = (if index8 s then setZN8 (ucast v) s else setZN16 v s)"

definition rebuildPending :: "'b w65 \<Rightarrow> 'b w65" where
  "rebuildPending s = s\<lparr>m_Pending :=
     (if m_Stopped s then W65_PEND_STOPPED else 0) OR (if m_Waiting s then W65_PEND_WAITING else 0)
     OR (if m_NMIPending s then W65_PEND_NMI else 0) OR W65_PEND_SAMPLE\<rparr>"

section \<open>Bus access\<close>

definition busRead8 :: "'b buses \<Rightarrow> u32 \<Rightarrow> ('b, u8) cpu" where
  "busRead8 B a = State (\<lambda>s. let (v, b) = bus_read B (m_E s) a (w_bus s) in (v, s\<lparr>w_bus := b\<rparr>))"

definition busWrite8 :: "'b buses \<Rightarrow> u32 \<Rightarrow> u8 \<Rightarrow> ('b, unit) cpu" where
  "busWrite8 B a v = State (\<lambda>s. let (brk, b) = bus_write B a v (w_bus s)
                                in ((), s\<lparr>w_bus := b, m_RunBreak := m_RunBreak s \<or> brk\<rparr>))"

definition busInterrupts :: "'b buses \<Rightarrow> ('b, bool \<times> bool) cpu" where
  "busInterrupts B = State (\<lambda>s. let (l, b) = bus_interrupts B (w_bus s) in (l, s\<lparr>w_bus := b\<rparr>))"

definition busTick :: "'b buses \<Rightarrow> u32 \<Rightarrow> ('b, unit) cpu" where
  "busTick B n = State (\<lambda>s. let (brk, b) = bus_tick B n (w_bus s)
                            in ((), s\<lparr>w_bus := b, m_RunBreak := m_RunBreak s \<or> brk\<rparr>))"

section \<open>Instruction stream and data\<close>

definition fetch8 :: "'b buses \<Rightarrow> ('b, u8) cpu" where
  "fetch8 B = do {
     pc \<leftarrow> gets (\<lambda>s. bank_addr (m_PBR s) (m_PC s));
     v \<leftarrow> busRead8 B pc;
     modify (\<lambda>s. s\<lparr>m_PC := m_PC s + 1\<rparr>);
     ret v }"

definition fetch16 :: "'b buses \<Rightarrow> ('b, u16) cpu" where
  "fetch16 B = do { lo \<leftarrow> fetch8 B; hi \<leftarrow> fetch8 B; ret (word16 lo hi) }"

definition fetch24 :: "'b buses \<Rightarrow> ('b, u32) cpu" where
  "fetch24 B = do { lo \<leftarrow> fetch16 B; bk \<leftarrow> fetch8 B; ret (bank_addr bk lo) }"

definition read8 :: "'b buses \<Rightarrow> u32 \<Rightarrow> ('b, u8) cpu" where
  "read8 B a = busRead8 B (a AND SCPU_ADDR_MASK)"

definition write8 :: "'b buses \<Rightarrow> u32 \<Rightarrow> u8 \<Rightarrow> ('b, unit) cpu" where
  "write8 B a v = busWrite8 B (a AND SCPU_ADDR_MASK) v"

definition read16 :: "'b buses \<Rightarrow> u32 \<Rightarrow> ('b, u16) cpu" where
  "read16 B a = do { lo \<leftarrow> read8 B a; hi \<leftarrow> read8 B (a + 1); ret (word16 lo hi) }"

definition write16 :: "'b buses \<Rightarrow> u32 \<Rightarrow> u16 \<Rightarrow> ('b, unit) cpu" where
  "write16 B a v = do { write8 B a (lo8 v); write8 B (a + 1) (hi8 v) }"

definition read16Bank0 :: "'b buses \<Rightarrow> u16 \<Rightarrow> ('b, u16) cpu" where
  "read16Bank0 B a = do { lo \<leftarrow> read8 B (ucast a); hi \<leftarrow> read8 B (ucast (a + 1)); ret (word16 lo hi) }"

text \<open>\<open>W65C816_DP_POINTER_WRAP\<close> is 1: the pointer's high byte wraps inside an aligned direct page.\<close>

definition readDPPointer :: "'b buses \<Rightarrow> u32 \<Rightarrow> ('b, u16) cpu" where
  "readDPPointer B ptr = do {
     lo \<leftarrow> read8 B (ucast (ucast ptr :: u16));
     hiAddr \<leftarrow> gets (\<lambda>s. if m_E s \<and> \<not> dp_unaligned s
                         then (m_D s AND 0xFF00) OR ucast ((ptr + 1) AND 0xFF)
                         else ucast (ptr + 1) :: u16);
     hi \<leftarrow> read8 B (ucast hiAddr);
     ret (word16 lo hi) }"

definition operandNext :: "u32 \<Rightarrow> 'b w65 \<Rightarrow> u32" where
  "operandNext a s = (if m_EABank0 s then ucast (ucast (a + 1) :: u16) else a + 1)"

definition rmwWrite :: "'b buses \<Rightarrow> u32 \<Rightarrow> u16 \<Rightarrow> u16 \<Rightarrow> ('b, unit) cpu" where
  "rmwWrite B a original v =
     ifM m_E
       (do { write8 B a (lo8 original); write8 B a (lo8 v) })
       (ifM memory8
          (write8 B a (lo8 v))
          (do { nx \<leftarrow> gets (operandNext a); write8 B nx (hi8 v); write8 B a (lo8 v) }))"

definition read16Operand :: "'b buses \<Rightarrow> u32 \<Rightarrow> ('b, u16) cpu" where
  "read16Operand B a = do {
     lo \<leftarrow> read8 B a; nx \<leftarrow> gets (operandNext a); hi \<leftarrow> read8 B nx; ret (word16 lo hi) }"

definition write16Operand :: "'b buses \<Rightarrow> u32 \<Rightarrow> u16 \<Rightarrow> ('b, unit) cpu" where
  "write16Operand B a v = do {
     write8 B a (lo8 v); nx \<leftarrow> gets (operandNext a); write8 B nx (hi8 v) }"

definition readM :: "'b buses \<Rightarrow> u32 \<Rightarrow> ('b, u16) cpu" where
  "readM B a = ifM memory8 (do { v \<leftarrow> read8 B a; ret (ucast v) }) (read16Operand B a)"

definition writeM :: "'b buses \<Rightarrow> u32 \<Rightarrow> u16 \<Rightarrow> ('b, unit) cpu" where
  "writeM B a v = ifM memory8 (write8 B a (lo8 v)) (write16Operand B a v)"

definition readX :: "'b buses \<Rightarrow> u32 \<Rightarrow> ('b, u16) cpu" where
  "readX B a = ifM index8 (do { v \<leftarrow> read8 B a; ret (ucast v) }) (read16Operand B a)"

definition writeX :: "'b buses \<Rightarrow> u32 \<Rightarrow> u16 \<Rightarrow> ('b, unit) cpu" where
  "writeX B a v = ifM index8 (write8 B a (lo8 v)) (write16Operand B a v)"

definition immediateM :: "'b buses \<Rightarrow> ('b, u16) cpu" where
  "immediateM B = ifM memory8 (do { v \<leftarrow> fetch8 B; ret (ucast v) }) (fetch16 B)"

definition immediateX :: "'b buses \<Rightarrow> ('b, u16) cpu" where
  "immediateX B = ifM index8 (do { v \<leftarrow> fetch8 B; ret (ucast v) }) (fetch16 B)"

section \<open>Stack\<close>

definition stack_dec :: "'b w65 \<Rightarrow> 'b w65" where
  "stack_dec s = s\<lparr>m_S := if m_E s then 0x0100 OR ((m_S s - 1) AND 0xFF) else m_S s - 1\<rparr>"

definition stack_inc :: "'b w65 \<Rightarrow> 'b w65" where
  "stack_inc s = s\<lparr>m_S := if m_E s then 0x0100 OR ((m_S s + 1) AND 0xFF) else m_S s + 1\<rparr>"

definition push8 :: "'b buses \<Rightarrow> u8 \<Rightarrow> ('b, unit) cpu" where
  "push8 B v = do { sp \<leftarrow> gets m_S; write8 B (ucast sp) v; modify stack_dec }"

definition pull8 :: "'b buses \<Rightarrow> ('b, u8) cpu" where
  "pull8 B = do { modify stack_inc; sp \<leftarrow> gets m_S; read8 B (ucast sp) }"

definition push16 :: "'b buses \<Rightarrow> u16 \<Rightarrow> ('b, unit) cpu" where
  "push16 B v = do { push8 B (hi8 v); push8 B (lo8 v) }"

definition pull16 :: "'b buses \<Rightarrow> ('b, u16) cpu" where
  "pull16 B = do { lo \<leftarrow> pull8 B; hi \<leftarrow> pull8 B; ret (word16 lo hi) }"

definition push8New :: "'b buses \<Rightarrow> u8 \<Rightarrow> ('b, unit) cpu" where
  "push8New B v = do { sp \<leftarrow> gets m_S; write8 B (ucast sp) v; modify (\<lambda>s. s\<lparr>m_S := m_S s - 1\<rparr>) }"

definition pull8New :: "'b buses \<Rightarrow> ('b, u8) cpu" where
  "pull8New B = do { modify (\<lambda>s. s\<lparr>m_S := m_S s + 1\<rparr>); sp \<leftarrow> gets m_S; read8 B (ucast sp) }"

definition push16New :: "'b buses \<Rightarrow> u16 \<Rightarrow> ('b, unit) cpu" where
  "push16New B v = do { push8New B (hi8 v); push8New B (lo8 v) }"

definition pull16New :: "'b buses \<Rightarrow> ('b, u16) cpu" where
  "pull16New B = do { lo \<leftarrow> pull8New B; hi \<leftarrow> pull8New B; ret (word16 lo hi) }"

section \<open>Effective addresses\<close>

definition set_EABank0 :: "bool \<Rightarrow> 'b w65 \<Rightarrow> 'b w65" where
  "set_EABank0 v s = s\<lparr>m_EABank0 := v\<rparr>"

definition page_crossed :: "u16 \<Rightarrow> u16 \<Rightarrow> bool" where
  "page_crossed base eff = ((base XOR eff) AND 0xFF00 \<noteq> 0)"

definition note_page_cross :: "bool \<Rightarrow> 'b w65 \<Rightarrow> 'b w65" where
  "note_page_cross c s = (if c then s\<lparr>m_PageCross := True\<rparr> else s)"

definition eaDirect :: "'b buses \<Rightarrow> ('b, u32) cpu" where
  "eaDirect B = do {
     off \<leftarrow> fetch8 B;
     modify (set_EABank0 True);
     gets (\<lambda>s. ucast (ucast off + m_D s)) }"

definition eaDirectIndexed :: "'b buses \<Rightarrow> u16 \<Rightarrow> ('b, u32) cpu" where
  "eaDirectIndexed B index = do {
     off \<leftarrow> fetch8 B;
     modify (set_EABank0 True);
     gets (\<lambda>s. if m_E s \<and> \<not> dp_unaligned s
               then ucast (lo8 (ucast off + index)) + ucast (m_D s)
               else ucast (ucast off + index + m_D s)) }"

definition eaAbsolute :: "'b buses \<Rightarrow> ('b, u32) cpu" where
  "eaAbsolute B = do {
     a \<leftarrow> fetch16 B;
     modify (set_EABank0 False);
     gets (\<lambda>s. bank_addr (m_DBR s) a) }"

definition eaAbsoluteIndexed :: "'b buses \<Rightarrow> u16 \<Rightarrow> ('b, u32) cpu" where
  "eaAbsoluteIndexed B index = do {
     base \<leftarrow> fetch16 B;
     modify (set_EABank0 False);
     modify (note_page_cross (page_crossed base (base + index)));
     gets (\<lambda>s. (bank_addr (m_DBR s) base + ucast index) AND SCPU_ADDR_MASK) }"

definition eaLong :: "'b buses \<Rightarrow> ('b, u32) cpu" where
  "eaLong B = do {
     modify (set_EABank0 False);
     a \<leftarrow> fetch24 B;
     ret (a AND SCPU_ADDR_MASK) }"

definition eaLongIndexed :: "'b buses \<Rightarrow> u16 \<Rightarrow> ('b, u32) cpu" where
  "eaLongIndexed B index = do {
     modify (set_EABank0 False);
     a \<leftarrow> fetch24 B;
     ret ((a + ucast index) AND SCPU_ADDR_MASK) }"

definition eaIndirect :: "'b buses \<Rightarrow> ('b, u32) cpu" where
  "eaIndirect B = do {
     ptr \<leftarrow> eaDirect B;
     target \<leftarrow> readDPPointer B ptr;
     modify (set_EABank0 False);
     gets (\<lambda>s. bank_addr (m_DBR s) target) }"

definition eaIndirectX :: "'b buses \<Rightarrow> ('b, u32) cpu" where
  "eaIndirectX B = do {
     x \<leftarrow> gets getX;
     ptr \<leftarrow> eaDirectIndexed B x;
     target \<leftarrow> readDPPointer B ptr;
     modify (set_EABank0 False);
     gets (\<lambda>s. bank_addr (m_DBR s) target) }"

definition eaIndirectY :: "'b buses \<Rightarrow> ('b, u32) cpu" where
  "eaIndirectY B = do {
     ptr \<leftarrow> eaDirect B;
     target \<leftarrow> readDPPointer B ptr;
     modify (set_EABank0 False);
     y \<leftarrow> gets getY;
     modify (note_page_cross (page_crossed target (target + y)));
     gets (\<lambda>s. (bank_addr (m_DBR s) target + ucast y) AND SCPU_ADDR_MASK) }"

definition eaIndirectLong :: "'b buses \<Rightarrow> ('b, u32) cpu" where
  "eaIndirectLong B = do {
     ptr \<leftarrow> eaDirect B;
     b0 \<leftarrow> read8 B (ucast (ucast ptr :: u16));
     b1 \<leftarrow> read8 B (ucast (ucast (ptr + 1) :: u16));
     b2 \<leftarrow> read8 B (ucast (ucast (ptr + 2) :: u16));
     modify (set_EABank0 False);
     ret (bank_addr b2 (word16 b0 b1) AND SCPU_ADDR_MASK) }"

definition eaIndirectLongY :: "'b buses \<Rightarrow> ('b, u32) cpu" where
  "eaIndirectLongY B = do {
     a \<leftarrow> eaIndirectLong B;
     y \<leftarrow> gets getY;
     ret ((a + ucast y) AND SCPU_ADDR_MASK) }"

definition eaStackRelative :: "'b buses \<Rightarrow> ('b, u32) cpu" where
  "eaStackRelative B = do {
     off \<leftarrow> fetch8 B;
     modify (set_EABank0 True);
     gets (\<lambda>s. ucast (ucast off + m_S s)) }"

definition eaStackRelativeIndirectY :: "'b buses \<Rightarrow> ('b, u32) cpu" where
  "eaStackRelativeIndirectY B = do {
     ptr \<leftarrow> eaStackRelative B;
     target \<leftarrow> read16Bank0 B (ucast ptr);
     modify (set_EABank0 False);
     y \<leftarrow> gets getY;
     gets (\<lambda>s. (bank_addr (m_DBR s) target + ucast y) AND SCPU_ADDR_MASK) }"

text \<open>The indexed forms with the index register read first, as \<open>eaX(getX())\<close> does.\<close>

definition eaDirectX :: "'b buses \<Rightarrow> ('b, u32) cpu" where
  "eaDirectX B = do { x \<leftarrow> gets getX; eaDirectIndexed B x }"

definition eaDirectY :: "'b buses \<Rightarrow> ('b, u32) cpu" where
  "eaDirectY B = do { y \<leftarrow> gets getY; eaDirectIndexed B y }"

definition eaAbsoluteX :: "'b buses \<Rightarrow> ('b, u32) cpu" where
  "eaAbsoluteX B = do { x \<leftarrow> gets getX; eaAbsoluteIndexed B x }"

definition eaAbsoluteY :: "'b buses \<Rightarrow> ('b, u32) cpu" where
  "eaAbsoluteY B = do { y \<leftarrow> gets getY; eaAbsoluteIndexed B y }"

definition eaLongX :: "'b buses \<Rightarrow> ('b, u32) cpu" where
  "eaLongX B = do { x \<leftarrow> gets getX; eaLongIndexed B x }"

section \<open>Vectors, construction and reset\<close>

definition W65_VEC_NATIVE_COP :: u32 where "W65_VEC_NATIVE_COP = 0x00FFE4"
definition W65_VEC_NATIVE_BRK :: u32 where "W65_VEC_NATIVE_BRK = 0x00FFE6"
definition W65_VEC_NATIVE_NMI :: u32 where "W65_VEC_NATIVE_NMI = 0x00FFEA"
definition W65_VEC_NATIVE_IRQ :: u32 where "W65_VEC_NATIVE_IRQ = 0x00FFEE"
definition W65_VEC_EMU_COP :: u32 where "W65_VEC_EMU_COP = 0x00FFF4"
definition W65_VEC_EMU_NMI :: u32 where "W65_VEC_EMU_NMI = 0x00FFFA"
definition W65_VEC_EMU_RESET :: u32 where "W65_VEC_EMU_RESET = 0x00FFFC"
definition W65_VEC_EMU_IRQ :: u32 where "W65_VEC_EMU_IRQ = 0x00FFFE"
definition W65_VEC_EMU_BRK :: u32 where "W65_VEC_EMU_BRK = 0x00FFFE"

lemmas w65_vector_defs =
  W65_VEC_NATIVE_COP_def W65_VEC_NATIVE_BRK_def W65_VEC_NATIVE_NMI_def W65_VEC_NATIVE_IRQ_def
  W65_VEC_EMU_COP_def W65_VEC_EMU_NMI_def W65_VEC_EMU_RESET_def W65_VEC_EMU_IRQ_def
  W65_VEC_EMU_BRK_def

text \<open>The constructor leaves \<open>m_Pending\<close> uninitialised (the model's 0); every entry that reads it
  rebuilds it first.\<close>

definition w65_new :: "'b \<Rightarrow> 'b w65" where
  "w65_new b = applyE
     \<lparr> m_C = 0, m_X = 0, m_Y = 0, m_S = 0x01FD, m_D = 0, m_PC = 0, m_PBR = 0, m_DBR = 0,
       m_P = W65_M OR W65_X OR W65_I, m_E = True, m_Stopped = False, m_Waiting = False,
       m_NativeInstructions = 0, m_IRQsTaken = 0, m_NMIsTaken = 0, m_NMIsDeferred = 0,
       m_DeferNativeNMI = False, m_LastNMITakeCycles = 0, m_Cycles = 0, m_RunBreak = False,
       m_NMIPrevLevel = False, m_NMIPending = False, m_M8 = True, m_X8 = True, m_CycKey = 0,
       m_Pending = 0, m_PageCross = False, m_BranchTaken = False, m_EABank0 = False, w_bus = b \<rparr>"

definition reset_registers :: "'b w65 \<Rightarrow> 'b w65" where
  "reset_registers s = s\<lparr>
     m_E := True, m_P := W65_M OR W65_X OR W65_I, m_C := 0, m_X := 0, m_Y := 0, m_S := 0x01FD,
     m_D := 0, m_DBR := 0, m_PBR := 0, m_Stopped := False, m_Waiting := False,
     m_NMIPrevLevel := False, m_NMIPending := False, m_RunBreak := False, m_Cycles := 0,
     m_NativeInstructions := 0, m_PageCross := False, m_BranchTaken := False, m_EABank0 := False\<rparr>"

definition w65_reset :: "'b buses \<Rightarrow> ('b, unit) cpu" where
  "w65_reset B = do {
     modify reset_registers;
     pc \<leftarrow> read16Bank0 B (ucast W65_VEC_EMU_RESET);
     modify (\<lambda>s. s\<lparr>m_PC := pc\<rparr>);
     modify applyE;
     modify rebuildPending }"

section \<open>Flag and accumulator algebra\<close>

text \<open>\<open>flag_simps\<close> reduces a test of the status register after any chain of flag updates to bits.\<close>

named_theorems flag_simps

lemma has_flag_bit [flag_simps]:
  "has p W65_C = bit p 0" "has p W65_Z = bit p 1" "has p W65_I = bit p 2" "has p W65_D = bit p 3"
  "has p W65_X = bit p 4" "has p W65_M = bit p 5" "has p W65_V = bit p 6" "has p W65_N = bit p 7"
  "has p W65_B = bit p 4"
  by (simp_all add: has_def w65_flag_defs mask_bits)

lemma bit_set_flag_exp: "bit (set_flag (2 ^ k) b p) n = (if n = k then b \<and> k < LENGTH('a) else bit p n)"
  for p :: "'a::len word"
  by (auto simp: set_flag_def bit_simps dest: bit_imp_le_length)

lemma bit_set_flag [flag_simps]:
  "bit (set_flag W65_C b p) n = (if n = 0 then b else bit p n)"
  "bit (set_flag W65_Z b p) n = (if n = 1 then b else bit p n)"
  "bit (set_flag W65_I b p) n = (if n = 2 then b else bit p n)"
  "bit (set_flag W65_D b p) n = (if n = 3 then b else bit p n)"
  "bit (set_flag W65_X b p) n = (if n = 4 then b else bit p n)"
  "bit (set_flag W65_M b p) n = (if n = 5 then b else bit p n)"
  "bit (set_flag W65_V b p) n = (if n = 6 then b else bit p n)"
  "bit (set_flag W65_N b p) n = (if n = 7 then b else bit p n)"
  "bit (set_flag W65_B b p) n = (if n = 4 then b else bit p n)"
  using bit_set_flag_exp [of 0 b p n] bit_set_flag_exp [of 1 b p n] bit_set_flag_exp [of 2 b p n]
    bit_set_flag_exp [of 3 b p n] bit_set_flag_exp [of 4 b p n] bit_set_flag_exp [of 5 b p n]
    bit_set_flag_exp [of 6 b p n] bit_set_flag_exp [of 7 b p n]
  by (simp_all add: w65_flag_defs)

lemma setFlag_simps [simp]:
  "m_P (setFlag f b s) = set_flag f b (m_P s)" "m_C (setFlag f b s) = m_C s" "m_X (setFlag f b s) = m_X s"
  "m_Y (setFlag f b s) = m_Y s" "m_S (setFlag f b s) = m_S s" "m_D (setFlag f b s) = m_D s"
  "m_PC (setFlag f b s) = m_PC s" "m_PBR (setFlag f b s) = m_PBR s" "m_DBR (setFlag f b s) = m_DBR s"
  "m_E (setFlag f b s) = m_E s" "m_M8 (setFlag f b s) = m_M8 s" "m_X8 (setFlag f b s) = m_X8 s"
  "m_CycKey (setFlag f b s) = m_CycKey s" "memory8 (setFlag f b s) = memory8 s"
  "index8 (setFlag f b s) = index8 s" "getAcc (setFlag f b s) = getAcc s"
  by (simp_all add: setFlag_def memory8_def index8_def getAcc_def)

lemma setAcc_simps [simp]:
  "m_P (setAcc v s) = m_P s" "m_X (setAcc v s) = m_X s" "m_Y (setAcc v s) = m_Y s"
  "m_S (setAcc v s) = m_S s" "m_D (setAcc v s) = m_D s" "m_PC (setAcc v s) = m_PC s"
  "m_PBR (setAcc v s) = m_PBR s" "m_DBR (setAcc v s) = m_DBR s" "m_E (setAcc v s) = m_E s"
  "m_M8 (setAcc v s) = m_M8 s" "m_X8 (setAcc v s) = m_X8 s" "m_CycKey (setAcc v s) = m_CycKey s"
  "memory8 (setAcc v s) = memory8 s" "index8 (setAcc v s) = index8 s"
  by (simp_all add: setAcc_def memory8_def index8_def)

lemma and_or_bytes: "((c AND 0xFF00) OR (v AND 0xFF)) AND 0xFF = v AND 0xFF"
  "((c AND 0xFF00) OR (v AND 0xFF)) AND 0xFF00 = c AND 0xFF00" for c v :: u16
proof -
  have z: "(x AND 0xFF00) AND 0xFF = 0" "(x AND 0xFF) AND 0xFF00 = 0" for x :: u16
    by (simp_all add: and.assoc)
  show "((c AND 0xFF00) OR (v AND 0xFF)) AND 0xFF = v AND 0xFF"
    "((c AND 0xFF00) OR (v AND 0xFF)) AND 0xFF00 = c AND 0xFF00"
    by (simp_all add: bit.conj_disj_distrib2 z)
qed

lemma getAcc_setAcc: "getAcc (setAcc v s) = (if memory8 s then v AND 0xFF else v)"
  by (simp add: getAcc_def setAcc_def memory8_def and_or_bytes)

lemma setAcc_high: "memory8 s \<Longrightarrow> m_C (setAcc v s) AND 0xFF00 = m_C s AND 0xFF00"
  by (simp add: setAcc_def and_or_bytes)

lemma setZN_simps [simp]:
  "m_C (setZN8 v s) = m_C s" "m_C (setZN16 w s) = m_C s"
  "memory8 (setZN8 v s) = memory8 s" "memory8 (setZN16 w s) = memory8 s"
  "getAcc (setZN8 v s) = getAcc s" "getAcc (setZN16 w s) = getAcc s"
  by (simp_all add: setZN8_def setZN16_def)

lemma setZN_flags [flag_simps]:
  "bit (m_P (setZN8 v s)) n = (if n = 7 then bit v 7 else if n = 1 then v = 0 else bit (m_P s) n)"
  "bit (m_P (setZN16 w s)) n = (if n = 7 then bit w 15 else if n = 1 then w = 0 else bit (m_P s) n)"
  by (simp_all add: setZN8_def setZN16_def flag_simps mask_bits)

end
