(* ===== verification/W65Alu.thy ===== *)
theory W65Alu
  imports W65Core
begin

text \<open>
  The arithmetic of the 65C816 core: \<open>opADC\<close>, \<open>opSBC\<close>, \<open>opCMP\<close> and \<open>opBIT\<close> of \<open>w65c816.cpp\<close>, at
  either accumulator width, binary and decimal. The lemmas show what the four instructions compute:
  binary addition and subtraction with the right carry and signed overflow, and, for valid packed
  BCD operands, decimal addition and subtraction digit by digit.
\<close>

unbundle bit_operations_syntax

section \<open>Addition\<close>

definition carry_in :: "'b w65 \<Rightarrow> u32" where
  "carry_in s = (if has (m_P s) W65_C then 1 else 0)"

definition sign_bit :: "bool \<Rightarrow> u16" where
  "sign_bit m8 = (if m8 then 0x0080 else 0x8000)"

definition setZN_width :: "bool \<Rightarrow> u32 \<Rightarrow> 'b w65 \<Rightarrow> 'b w65" where
  "setZN_width m8 r = (if m8 then setZN8 (ucast r) else setZN16 (ucast r))"

text \<open>One round of the decimal loop; the state is \<open>(result, pre, carry)\<close>.\<close>

definition adc_digit :: "nat \<Rightarrow> u16 \<Rightarrow> u16 \<Rightarrow> nat \<Rightarrow> u32 \<times> u32 \<times> u32 \<Rightarrow> u32 \<times> u32 \<times> u32" where
  "adc_digit nd a v i = (\<lambda>(result, pre, carry).
     let sh = i * 4;
         dg = ucast (drop_bit sh a AND 0xF) + ucast (drop_bit sh v AND 0xF) + carry;
         pre' = (if i = nd - 1 then result OR push_bit sh dg else pre);
         fix = dg > 9;
         dg' = (if fix then dg + 6 else dg)
     in (result OR push_bit sh (dg' AND 0xF), pre', if fix then 1 else 0))"

definition adc_decimal :: "nat \<Rightarrow> u16 \<Rightarrow> u16 \<Rightarrow> u32 \<Rightarrow> u32 \<times> u32 \<times> u32" where
  "adc_decimal nd a v c = fold (adc_digit nd a v) [0..<nd] (0, 0, c)"

definition adc_overflow :: "u16 \<Rightarrow> u16 \<Rightarrow> u32 \<Rightarrow> u16 \<Rightarrow> bool" where
  "adc_overflow a v r sb =
     (NOT (ucast a XOR ucast v) AND (ucast a XOR r) AND ucast sb \<noteq> (0 :: u32))"

definition opADC :: "u16 \<Rightarrow> 'b w65 \<Rightarrow> 'b w65" where
  "opADC v s =
     (let m8 = memory8 s; a = getAcc s; c = carry_in s; sb = sign_bit m8 in
      if has (m_P s) W65_D then
        let (result, pre, carry) = adc_decimal (if m8 then 2 else 4) a v c;
            s = setFlag W65_C (carry \<noteq> 0) s;
            s = setFlag W65_V (adc_overflow a v pre sb) s;
            s = setAcc (ucast result) s
        in setZN_width m8 result s
      else
        let r = ucast a + ucast v + c :: u32;
            s = setFlag W65_V (adc_overflow a v r sb) s;
            s = setFlag W65_C (r > (if m8 then 0xFF else 0xFFFF)) s;
            s = setAcc (ucast r) s
        in setZN_width m8 r s)"

section \<open>Subtraction, comparison, bit test\<close>

text \<open>One round of the decimal loop; the digit is a signed integer, the state \<open>(result, borrow)\<close>.\<close>

definition sbc_digit :: "u16 \<Rightarrow> u16 \<Rightarrow> nat \<Rightarrow> u32 \<times> int \<Rightarrow> u32 \<times> int" where
  "sbc_digit a v i = (\<lambda>(result, borrow).
     let sh = i * 4;
         dg = uint (drop_bit sh a AND 0xF) - uint (drop_bit sh v AND 0xF) - borrow;
         low = dg < 0;
         dg' = (if low then dg - 6 else dg)
     in (result OR push_bit sh (word_of_int dg' AND 0xF), if low then 1 else 0))"

definition sbc_decimal :: "nat \<Rightarrow> u16 \<Rightarrow> u16 \<Rightarrow> u32 \<Rightarrow> u32 \<times> int" where
  "sbc_decimal nd a v c = fold (sbc_digit a v) [0..<nd] (0, 1 - uint c)"

definition opSBC :: "u16 \<Rightarrow> 'b w65 \<Rightarrow> 'b w65" where
  "opSBC v s =
     (let m8 = memory8 s; a = getAcc s; c = carry_in s; sb = sign_bit m8;
          msk = (if m8 then 0xFF else 0xFFFF :: u32);
          vc = ucast (NOT (ucast v) AND msk) :: u16;
          bin = ucast a + ucast vc + c :: u32;
          s = setFlag W65_C (bin > msk) s;
          s = setFlag W65_V
                ((ucast a XOR ucast v) AND (ucast a XOR (bin AND msk)) AND ucast sb \<noteq> (0 :: u32)) s
      in if has (m_P s) W65_D then
           let result = fst (sbc_decimal (if m8 then 2 else 4) a v c)
           in setZN_width m8 result (setAcc (ucast result) s)
         else setZN_width m8 bin (setAcc (ucast bin) s))"

definition opCMP :: "u16 \<Rightarrow> u16 \<Rightarrow> bool \<Rightarrow> 'b w65 \<Rightarrow> 'b w65" where
  "opCMP reg v eightBit s =
     (let r = ucast reg - ucast v :: u32
      in setZN_width eightBit r (setFlag W65_C (reg \<ge> v) s))"

definition opBIT :: "u16 \<Rightarrow> bool \<Rightarrow> 'b w65 \<Rightarrow> 'b w65" where
  "opBIT v immediate s =
     (let s1 = setFlag W65_Z (getAcc s AND v = 0) s in
      if immediate then s1
      else let nb = (if memory8 s1 then 0x0080 else 0x8000);
               vb = (if memory8 s1 then 0x0040 else 0x4000)
           in setFlag W65_V (v AND vb \<noteq> 0) (setFlag W65_N (v AND nb \<noteq> 0) s1))"

section \<open>Packed decimal numbers\<close>

fun bcd :: "nat \<Rightarrow> nat \<Rightarrow> nat" where
  "bcd 0 n = 0"
| "bcd (Suc k) n = n mod 16 + 10 * bcd k (n div 16)"

fun bcd_ok :: "nat \<Rightarrow> nat \<Rightarrow> bool" where
  "bcd_ok 0 n = True"
| "bcd_ok (Suc k) n = (n mod 16 \<le> 9 \<and> bcd_ok k (n div 16))"

lemma bcd_top: "bcd (Suc k) n = bcd k n + (n div 16 ^ k) mod 16 * 10 ^ k"
proof (induction k arbitrary: n)
  case (Suc k)
  have "bcd (Suc (Suc k)) n = n mod 16 + 10 * bcd (Suc k) (n div 16)" by simp
  also have "\<dots> = n mod 16 + 10 * (bcd k (n div 16) + (n div 16 div 16 ^ k) mod 16 * 10 ^ k)"
    by (simp only: Suc.IH)
  also have "\<dots> = bcd (Suc k) n + (n div 16 ^ Suc k) mod 16 * 10 ^ Suc k"
    by (simp add: div_mult2_eq algebra_simps)
  finally show ?case .
qed simp

lemma bcd_ok_top: "bcd_ok (Suc k) n \<longleftrightarrow> bcd_ok k n \<and> (n div 16 ^ k) mod 16 \<le> 9"
proof (induction k arbitrary: n)
  case (Suc k)
  have "bcd_ok (Suc (Suc k)) n \<longleftrightarrow> n mod 16 \<le> 9 \<and> bcd_ok (Suc k) (n div 16)" by simp
  also have "\<dots> \<longleftrightarrow> n mod 16 \<le> 9 \<and> bcd_ok k (n div 16) \<and> (n div 16 div 16 ^ k) mod 16 \<le> 9"
    by (simp only: Suc.IH)
  also have "\<dots> \<longleftrightarrow> bcd_ok (Suc k) n \<and> (n div 16 ^ Suc k) mod 16 \<le> 9"
    by (simp add: div_mult2_eq)
  finally show ?case .
qed simp

lemma mod_16_Suc: "n mod 16 ^ Suc k div 16 = n div 16 mod 16 ^ k" "n mod 16 ^ Suc k mod 16 = n mod 16"
  for n :: nat
  using mod_mult2_eq [of n 16 "16 ^ k"] by simp_all

lemma bcd_mod: "bcd k (n mod 16 ^ k) = bcd k n" "bcd_ok k (n mod 16 ^ k) = bcd_ok k n"
proof (induction k arbitrary: n)
  case (Suc k)
  { case 1 show ?case by (simp only: bcd.simps mod_16_Suc Suc.IH) }
  { case 2 show ?case by (simp only: bcd_ok.simps mod_16_Suc Suc.IH) }
qed simp_all

lemma bcd_append:
  assumes "r < 16 ^ k" "d < 16"
  shows "bcd (Suc k) (r + d * 16 ^ k) = bcd k r + d * 10 ^ k"
    "bcd_ok (Suc k) (r + d * 16 ^ k) \<longleftrightarrow> bcd_ok k r \<and> d \<le> 9"
proof -
  have m: "(r + d * 16 ^ k) mod 16 ^ k = r mod 16 ^ k" by simp
  have "bcd k (r + d * 16 ^ k) = bcd k r" "bcd_ok k (r + d * 16 ^ k) = bcd_ok k r"
    using bcd_mod [of k "r + d * 16 ^ k"] bcd_mod [of k r] unfolding m by simp_all
  moreover have "(r + d * 16 ^ k) div 16 ^ k = d" using assms by simp
  ultimately show "bcd (Suc k) (r + d * 16 ^ k) = bcd k r + d * 10 ^ k"
    "bcd_ok (Suc k) (r + d * 16 ^ k) \<longleftrightarrow> bcd_ok k r \<and> d \<le> 9"
    using assms(2) by (simp_all only: bcd_top bcd_ok_top mod_less)
qed

lemma bcd_less: "bcd_ok k n \<Longrightarrow> bcd k n < 10 ^ k"
  by (induction k n rule: bcd.induct) fastforce+

lemma unat_or_shift:
  fixes r d :: u32
  assumes "unat r < 2 ^ n" "unat d < 16" "n \<le> 28"
  shows "unat (r OR push_bit n d) = unat r + unat d * 2 ^ n"
proof -
  have "r AND push_bit n d = 0"
    by (rule bit_word_eqI) (auto simp: bit_simps small_not_bit [OF assms(1)] not_le)
  then have "r OR push_bit n d = r + push_bit n d"
    by (simp add: disjunctive_add_eq_or)
  moreover have "unat (push_bit n d) = unat d * 2 ^ n"
  proof -
    have "unat d * 2 ^ n < 16 * 2 ^ 28"
      using assms(2,3) by (intro mult_less_le_imp_less) (use power_increasing [of n 28 "2::nat"] in auto)
    then show ?thesis unfolding unsigned_push_bit_eq
      by (simp add: push_bit_eq_mult take_bit_nat_eq_self)
  qed
  moreover have "unat r + unat d * 2 ^ n < 2 ^ 32"
  proof -
    have "unat r + unat d * 2 ^ n < 2 ^ n + 15 * 2 ^ n"
      using assms(1,2) by (intro add_less_le_mono) auto
    also have "\<dots> = 16 * 2 ^ n" by simp
    also have "\<dots> \<le> 16 * 2 ^ 28" using assms(3) by (intro mult_left_mono power_increasing) auto
    finally show ?thesis by simp
  qed
  ultimately show ?thesis by (simp add: unat_word_ariths)
qed

lemma unat_digit: "unat (drop_bit (i * 4) a AND 0xF) = unat a div 16 ^ i mod 16" for a :: u16
proof -
  have d: "drop_bit (i * 4) a AND 0xF = take_bit 4 (drop_bit (4 * i) a)"
    by (simp only: take_bit_eq_mask mask_eq_exp_minus_1 mult.commute [of i]) simp
  have "unat (take_bit 4 (drop_bit (4 * i) a)) = unat a div 16 ^ i mod 16"
    unfolding unsigned_take_bit_eq unsigned_drop_bit_eq
    using unsigned_less [of a, where ?'a = nat]
    by (simp add: take_bit_eq_mod drop_bit_eq_div power_mult)
  then show ?thesis by (simp only: d)
qed

text \<open>The decimal adder: after \<open>i\<close> digits.\<close>

lemma adc_loop:
  assumes "bcd_ok i (unat a)" "bcd_ok i (unat v)" "unat c \<le> 1" "i \<le> 4"
  shows "\<exists>res pre carry. fold (adc_digit nd a v) [0..<i] (0, 0, c) = (res, pre, carry)
     \<and> unat carry \<le> 1 \<and> unat res < 16 ^ i \<and> bcd_ok i (unat res)
     \<and> bcd i (unat res) + unat carry * 10 ^ i = bcd i (unat a) + bcd i (unat v) + unat c"
  using assms
proof (induction i)
  case (Suc i)
  then obtain res pre carry where IH: "fold (adc_digit nd a v) [0..<i] (0, 0, c) = (res, pre, carry)"
    "unat carry \<le> 1" "unat res < 16 ^ i" "bcd_ok i (unat res)"
    "bcd i (unat res) + unat carry * 10 ^ i = bcd i (unat a) + bcd i (unat v) + unat c"
    by (auto simp: bcd_ok_top simp del: bcd_ok.simps)
  define da where "da = unat a div 16 ^ i mod 16"
  define dv where "dv = unat v div 16 ^ i mod 16"
  have d9: "da \<le> 9" "dv \<le> 9"
    using Suc.prems(1,2) by (auto simp: bcd_ok_top da_def dv_def simp del: bcd_ok.simps)
  define dg where "dg = ucast (drop_bit (i * 4) a AND 0xF) + ucast (drop_bit (i * 4) v AND 0xF) + carry"
  have dg: "unat dg = da + dv + unat carry"
    using d9 IH(2) unfolding dg_def
    by (simp add: unat_word_ariths unsigned_ucast_eq take_bit_nat_eq_self unat_digit da_def dv_def)
  define low where "low = (if dg > 9 then dg + 6 else dg) AND 0xF"
  have gt: "dg > 9 \<longleftrightarrow> da + dv + unat carry > 9"
    by (simp add: word_less_nat_alt dg)
  have low: "unat low = (if dg > 9 then da + dv + unat carry - 10 else da + dv + unat carry)"
  proof -
    have "low = take_bit 4 (if dg > 9 then dg + 6 else dg)"
      by (simp add: low_def take_bit_eq_mask mask_eq_exp_minus_1)
    then show ?thesis
      using d9 IH(2) by (auto simp: unsigned_take_bit_eq take_bit_nat_def unat_word_ariths dg gt) (simp add: mod_if add.assoc)
  qed
  have low9: "unat low \<le> 9" using low d9 IH(2) by (auto simp: gt)
  have or: "unat (res OR push_bit (i * 4) low) = unat res + unat low * 16 ^ i"
    using unat_or_shift [of res "i * 4" low] IH(3) low9 Suc.prems(4)
    by (simp add: power_mult mult.commute [of i])
  have step: "fold (adc_digit nd a v) [0..<Suc i] (0, 0, c) =
      (res OR push_bit (i * 4) low, if i = nd - 1 then res OR push_bit (i * 4) dg else pre,
       if dg > 9 then 1 else 0)"
    by (simp add: IH(1) adc_digit_def Let_def dg_def low_def)
  have app: "bcd (Suc i) (unat res + unat low * 16 ^ i) = bcd i (unat res) + unat low * 10 ^ i"
    "bcd_ok (Suc i) (unat res + unat low * 16 ^ i)"
    using bcd_append [OF IH(3), of "unat low"] low9 IH(4) by simp_all
  have lt: "unat res + unat low * 16 ^ i < 16 ^ Suc i"
  proof -
    have "unat res + unat low * 16 ^ i < 16 ^ i + 9 * 16 ^ i"
      using IH(3) low9 by (intro add_less_le_mono mult_right_mono) auto
    then show ?thesis by simp
  qed
  have tops: "bcd (Suc i) (unat a) = bcd i (unat a) + da * 10 ^ i"
    "bcd (Suc i) (unat v) = bcd i (unat v) + dv * 10 ^ i"
    by (simp_all only: bcd_top da_def dv_def)
  have split: "unat low + (if dg > 9 then 10 else 0) = da + dv + unat carry"
    using low gt by auto
  have "bcd i (unat res) + unat low * 10 ^ i + (if dg > 9 then 1 else 0) * 10 ^ Suc i
     = bcd i (unat res) + (unat low + (if dg > 9 then 10 else 0)) * 10 ^ i"
    by (simp add: algebra_simps)
  also have "\<dots> = bcd i (unat res) + (da + dv + unat carry) * 10 ^ i"
    by (simp only: split)
  also have "\<dots> = bcd (Suc i) (unat a) + bcd (Suc i) (unat v) + unat c"
  proof -
    have "(da + dv + unat carry) * 10 ^ i = da * 10 ^ i + dv * 10 ^ i + unat carry * 10 ^ i"
      by (simp only: add_mult_distrib)
    then show ?thesis unfolding tops using IH(5) by linarith
  qed
  finally have sum: "bcd (Suc i) (unat res + unat low * 16 ^ i) + (if dg > 9 then 1 else 0) * 10 ^ Suc i
     = bcd (Suc i) (unat a) + bcd (Suc i) (unat v) + unat c"
    by (simp only: app)
  have carry: "unat (if dg > 9 then 1 else 0 :: u32) = (if dg > 9 then 1 else 0)" by simp
  show ?case
    unfolding step
    by (intro exI conjI, rule refl) (insert sum app(2) lt, simp_all only: or carry, simp)
qed simp


lemma adc_decimal_correct:
  assumes "bcd_ok nd (unat a)" "bcd_ok nd (unat v)" "unat c \<le> 1" "nd \<le> 4"
    "adc_decimal nd a v c = (res, pre, carry)"
  shows "bcd_ok nd (unat res)" "unat res < 16 ^ nd" "unat carry \<le> 1"
    "bcd nd (unat res) = (bcd nd (unat a) + bcd nd (unat v) + unat c) mod 10 ^ nd"
    "carry \<noteq> 0 \<longleftrightarrow> bcd nd (unat a) + bcd nd (unat v) + unat c \<ge> 10 ^ nd"
proof -
  have L: "unat carry \<le> 1" "unat res < 16 ^ nd" "bcd_ok nd (unat res)"
    "bcd nd (unat res) + unat carry * 10 ^ nd = bcd nd (unat a) + bcd nd (unat v) + unat c"
    using adc_loop [OF assms(1-4), of nd] assms(5) by (auto simp: adc_decimal_def)
  then show "bcd_ok nd (unat res)" "unat res < 16 ^ nd" "unat carry \<le> 1" by simp_all
  have lt: "bcd nd (unat res) < 10 ^ nd"
    using bcd_less [OF L(3)] .
  then show "bcd nd (unat res) = (bcd nd (unat a) + bcd nd (unat v) + unat c) mod 10 ^ nd"
    unfolding L(4) [symmetric] by simp
  have "carry \<noteq> 0 \<longleftrightarrow> unat carry = 1" using L(1) by (auto simp: unat_eq_0 le_Suc_eq)
  then show "carry \<noteq> 0 \<longleftrightarrow> bcd nd (unat a) + bcd nd (unat v) + unat c \<ge> 10 ^ nd"
    unfolding L(4) [symmetric] using lt L(1) by (cases "unat carry") auto
qed

text \<open>The decimal subtracter.\<close>

lemma sbc_loop:
  assumes "bcd_ok i (unat a)" "bcd_ok i (unat v)" "unat c \<le> 1" "i \<le> 4"
  shows "\<exists>res borrow. fold (sbc_digit a v) [0..<i] (0, 1 - uint c) = (res, borrow)
     \<and> borrow \<in> {0, 1} \<and> unat res < 16 ^ i \<and> bcd_ok i (unat res)
     \<and> int (bcd i (unat res)) = int (bcd i (unat a)) - int (bcd i (unat v)) - (1 - uint c) + borrow * 10 ^ i"
  using assms
proof (induction i)
  case 0
  have "int (unat c) = 0 \<or> int (unat c) = 1" using assms(3) by linarith
  then show ?case by auto
next
  case (Suc i)
  then obtain res borrow where IH: "fold (sbc_digit a v) [0..<i] (0, 1 - uint c) = (res, borrow)"
    "borrow \<in> {0, 1}" "unat res < 16 ^ i" "bcd_ok i (unat res)"
    "int (bcd i (unat res)) = int (bcd i (unat a)) - int (bcd i (unat v)) - (1 - uint c) + borrow * 10 ^ i"
    by (auto simp: bcd_ok_top simp del: bcd_ok.simps)
  define da where "da = unat a div 16 ^ i mod 16"
  define dv where "dv = unat v div 16 ^ i mod 16"
  have d9: "da \<le> 9" "dv \<le> 9"
    using Suc.prems(1,2) by (auto simp: bcd_ok_top da_def dv_def simp del: bcd_ok.simps)
  define dg where "dg = uint (drop_bit (i * 4) a AND 0xF) - uint (drop_bit (i * 4) v AND 0xF) - borrow"
  have dg: "dg = int da - int dv - borrow"
    by (simp only: dg_def uint_nat unat_digit da_def dv_def)
  define low :: u32 where "low = word_of_int (if dg < 0 then dg - 6 else dg) AND 0xF"
  have "low = take_bit 4 (word_of_int (if dg < 0 then dg - 6 else dg))"
    by (simp add: low_def take_bit_eq_mask mask_eq_exp_minus_1)
  then have "uint low = take_bit 4 (uint (word_of_int (if dg < 0 then dg - 6 else dg) :: u32))"
    by (simp only: unsigned_take_bit_eq)
  also have "\<dots> = take_bit 4 (take_bit 32 (if dg < 0 then dg - 6 else dg))"
    by (simp only: unsigned_of_int) simp
  also have "\<dots> = (if dg < 0 then dg - 6 else dg) mod 16"
    by (simp only: take_bit_take_bit) (simp add: take_bit_eq_mod)
  also have "\<dots> = (if dg < 0 then dg + 10 else dg)"
  proof (cases "dg < 0")
    case True
    have "(dg - 6) mod 16 = (dg - 6 + 16) mod 16" by (simp only: mod_add_self2)
    also have "\<dots> = dg + 10" using True d9 IH(2) by (simp add: dg mod_pos_pos_trivial) auto
    finally show ?thesis using True by simp
  next
    case False
    then show ?thesis using d9 IH(2) by (auto simp: dg mod_pos_pos_trivial)
  qed
  finally have low: "int (unat low) = (if dg < 0 then dg + 10 else dg)" by simp
  have "int (unat low) \<le> 9" unfolding low using d9 IH(2) dg by auto
  then have low9: "unat low \<le> 9" by linarith
  have or: "unat (res OR push_bit (i * 4) low) = unat res + unat low * 16 ^ i"
    using unat_or_shift [of res "i * 4" low] IH(3) low9 Suc.prems(4)
    by (simp add: power_mult mult.commute [of i])
  have step: "fold (sbc_digit a v) [0..<Suc i] (0, 1 - uint c) =
      (res OR push_bit (i * 4) low, if dg < 0 then 1 else 0)"
    by (simp add: IH(1) sbc_digit_def Let_def dg_def low_def)
  have app: "bcd (Suc i) (unat res + unat low * 16 ^ i) = bcd i (unat res) + unat low * 10 ^ i"
    "bcd_ok (Suc i) (unat res + unat low * 16 ^ i)"
    using bcd_append [OF IH(3), of "unat low"] low9 IH(4) by simp_all
  have lt: "unat res + unat low * 16 ^ i < 16 ^ Suc i"
  proof -
    have "unat res + unat low * 16 ^ i < 16 ^ i + 9 * 16 ^ i"
      using IH(3) low9 by (intro add_less_le_mono mult_right_mono) auto
    then show ?thesis by simp
  qed
  have tops: "bcd (Suc i) (unat a) = bcd i (unat a) + da * 10 ^ i"
    "bcd (Suc i) (unat v) = bcd i (unat v) + dv * 10 ^ i"
    by (simp_all only: bcd_top da_def dv_def)
  have "int (unat low) = int da - int dv - borrow + 10 * (if dg < 0 then 1 else 0)"
    using low dg by auto
  then have "int (unat low) * 10 ^ i = (int da - int dv - borrow + 10 * (if dg < 0 then 1 else 0)) * 10 ^ i"
    by (simp only:)
  also have "\<dots> = int da * 10 ^ i - int dv * 10 ^ i - borrow * 10 ^ i + (if dg < 0 then 1 else 0) * 10 ^ Suc i"
    by (simp add: algebra_simps)
  finally have shifted: "int (unat low) * 10 ^ i
      = int da * 10 ^ i - int dv * 10 ^ i - borrow * 10 ^ i + (if dg < 0 then 1 else 0) * 10 ^ Suc i" .
  have sum: "int (bcd (Suc i) (unat res + unat low * 16 ^ i)) =
      int (bcd (Suc i) (unat a)) - int (bcd (Suc i) (unat v)) - (1 - uint c)
      + (if dg < 0 then 1 else 0) * 10 ^ Suc i"
    unfolding app(1) tops using IH(5) shifted by simp
  show ?case
    unfolding step
    by (intro exI conjI, rule refl) (insert sum app(2) lt, simp_all only: or, simp)
qed


lemma sbc_decimal_correct:
  assumes "bcd_ok nd (unat a)" "bcd_ok nd (unat v)" "unat c \<le> 1" "nd \<le> 4"
  defines "res \<equiv> fst (sbc_decimal nd a v c)"
  shows "bcd_ok nd (unat res)" "unat res < 16 ^ nd"
    "int (bcd nd (unat res)) = (int (bcd nd (unat a)) - int (bcd nd (unat v)) - (1 - uint c)) mod 10 ^ nd"
proof -
  obtain borrow where L: "borrow \<in> {0, 1}" "unat res < 16 ^ nd" "bcd_ok nd (unat res)"
    "int (bcd nd (unat res)) = int (bcd nd (unat a)) - int (bcd nd (unat v)) - (1 - uint c) + borrow * 10 ^ nd"
    using sbc_loop [OF assms(1-4)] by (auto simp: res_def sbc_decimal_def)
  then show "bcd_ok nd (unat res)" "unat res < 16 ^ nd" by simp_all
  have "int (bcd nd (unat res)) < 10 ^ nd" using bcd_less [OF L(3)] by (simp flip: of_nat_less_iff)
  then have "int (bcd nd (unat res)) = int (bcd nd (unat res)) mod 10 ^ nd" by simp
  also have "\<dots> = (int (bcd nd (unat a)) - int (bcd nd (unat v)) - (1 - uint c)) mod 10 ^ nd"
    unfolding L(4) by simp
  finally show "int (bcd nd (unat res)) = (int (bcd nd (unat a)) - int (bcd nd (unat v)) - (1 - uint c)) mod 10 ^ nd" .
qed


lemma sign_odd:
  fixes A V c M :: nat
  assumes "A < 2 * M" "V < 2 * M" "c \<le> 1" "0 < M"
  shows "odd ((A + V + c) div M) \<longleftrightarrow> (M \<le> A + V + c \<and> A + V + c < 2 * M) \<or> 3 * M \<le> A + V + c"
proof -
  let ?R = "A + V + c"
  have lt: "?R < 4 * M" using assms by linarith
  consider "?R < M" | "M \<le> ?R" "?R < 2 * M" | "2 * M \<le> ?R" "?R < 3 * M" | "3 * M \<le> ?R" using lt by linarith
  then show ?thesis
  proof cases
    case 1 then show ?thesis by simp
  next
    case 2 then have "?R div M = 1" using assms(4) by (intro div_nat_eqI) auto
    then show ?thesis using 2 by simp
  next
    case 3 then have "?R div M = 2" using assms(4) by (intro div_nat_eqI) auto
    then show ?thesis using 3 by simp
  next
    case 4 then have "?R div M = 3" using assms(4) lt by (intro div_nat_eqI) auto
    then show ?thesis using 4 by simp
  qed
qed

lemma signed_overflow:
  fixes A V c M :: nat
  assumes "A < 2 * M" "V < 2 * M" "c \<le> 1" "0 < M"
  defines "sg x \<equiv> int x - (if M \<le> x then 2 * int M else 0)"
  shows "((M \<le> A) = (M \<le> V) \<and> (M \<le> A) \<noteq> odd ((A + V + c) div M))
    \<longleftrightarrow> \<not> (- int M \<le> sg A + sg V + int c \<and> sg A + sg V + int c < int M)"
  unfolding sign_odd [OF assms(1-4)] sg_def using assms(1-4)
  by (cases "M \<le> A"; cases "M \<le> V") (simp_all, linarith+)

lemma bit_top_unat:
  fixes x :: "'a::len word"
  assumes "unat x < 2 * 2 ^ n"
  shows "bit x n \<longleftrightarrow> 2 ^ n \<le> unat x"
proof -
  have "bit x n \<longleftrightarrow> odd (unat x div 2 ^ n)"
    by (simp add: bit_unsigned_iff flip: bit_iff_odd)
  moreover have "unat x div 2 ^ n < 2" using assms by (simp add: less_mult_imp_div_less)
  moreover have "unat x div 2 ^ n * 2 ^ n \<le> unat x" by (rule div_times_less_eq_dividend)
  ultimately show ?thesis
    by (cases "unat x div 2 ^ n") (auto simp: div_eq_0_iff not_le le_div_geq dest: less_2_cases)
qed

lemma sint_unat:
  fixes x :: "'a::len word"
  shows "sint x = int (unat x) - (if bit x (LENGTH('a) - 1) then 2 ^ LENGTH('a) else 0)"
  by (simp add: sint_uint signed_take_bit_eq_take_bit_minus bit_uint_iff take_bit_int_eq_self)

definition acc_bits :: "bool \<Rightarrow> nat" where
  "acc_bits m8 = (if m8 then 8 else 16)"

definition signed_val :: "bool \<Rightarrow> u16 \<Rightarrow> int" where
  "signed_val m8 x = (if m8 then sint (lo8 x) else sint x)"

lemma adc_overflow_signed:
  assumes "unat a < 2 ^ acc_bits m8" "unat v < 2 ^ acc_bits m8" "unat c \<le> 1"
  shows "adc_overflow a v (ucast a + ucast v + c) (sign_bit m8) \<longleftrightarrow>
    \<not> (- (2 ^ (acc_bits m8 - 1)) \<le> signed_val m8 a + signed_val m8 v + uint c
       \<and> signed_val m8 a + signed_val m8 v + uint c < 2 ^ (acc_bits m8 - 1))"
proof -
  define n where "n = acc_bits m8 - 1"
  have n: "n = 7 \<and> m8 \<or> n = 15 \<and> \<not> m8" "acc_bits m8 = Suc n"
    by (auto simp: n_def acc_bits_def)
  let ?M = "2 ^ n :: nat"
  have lt: "unat a < 2 * ?M" "unat v < 2 * ?M" using assms(1,2) by (simp_all add: n(2))
  have le32: "2 * ?M \<le> 65536" using n(1) by auto
  have r: "unat (ucast a + ucast v + c :: u32) = unat a + unat v + unat c"
    using lt le32 assms(3) by (simp add: unat_word_ariths unsigned_ucast_eq take_bit_nat_eq_self)
  have sb: "ucast (sign_bit m8) = (2 ^ n :: u32)"
    using n(1) by (auto simp: sign_bit_def)
  have bit_r: "bit (ucast a + ucast v + c :: u32) n \<longleftrightarrow> odd ((unat a + unat v + unat c) div ?M)"
    using n(1) by (auto simp: r [symmetric] bit_unsigned_iff simp flip: bit_iff_odd)
  have bits: "bit a n \<longleftrightarrow> ?M \<le> unat a" "bit v n \<longleftrightarrow> ?M \<le> unat v"
    using lt by (simp_all add: bit_top_unat)
  have "adc_overflow a v (ucast a + ucast v + c) (sign_bit m8) \<longleftrightarrow>
     (bit a n = bit v n) \<and> (bit a n \<noteq> bit (ucast a + ucast v + c :: u32) n)"
  proof -
    have "n < 16" using n(1) by auto
    then show ?thesis
      unfolding adc_overflow_def sb and.assoc [symmetric] and_exp_eq_0_iff_not_bit
      by (auto simp: bit_simps)
  qed
  also have "\<dots> \<longleftrightarrow> (?M \<le> unat a) = (?M \<le> unat v) \<and> (?M \<le> unat a) \<noteq> odd ((unat a + unat v + unat c) div ?M)"
    unfolding bit_r bits ..
  also have "\<dots> \<longleftrightarrow> \<not> (- int ?M \<le> signed_val m8 a + signed_val m8 v + int (unat c)
       \<and> signed_val m8 a + signed_val m8 v + int (unat c) < int ?M)"
  proof -
    have sv: "signed_val m8 x = int (unat x) - (if ?M \<le> unat x then 2 * int ?M else 0)"
      if "unat x < 2 * ?M" for x
    proof (cases m8)
      case True
      then have n7: "n = 7" using n(1) by simp
      have "bit (lo8 x) 7 = bit x 7" by (simp add: lo8_def bit_simps)
      moreover have "unat (lo8 x) = unat x"
        using that n7 by (simp add: lo8_def unsigned_ucast_eq take_bit_nat_eq_self)
      ultimately show ?thesis
        using True n7 bit_top_unat [of x 7] that by (simp add: signed_val_def sint_unat)
    next
      case False
      then have n15: "n = 15" using n(1) by simp
      then show ?thesis
        using False bit_top_unat [of x 15] that by (simp add: signed_val_def sint_unat)
    qed
    show ?thesis unfolding sv [OF lt(1)] sv [OF lt(2)] by (rule signed_overflow [OF lt assms(3)]) simp
  qed
  finally show ?thesis by (simp add: n_def)
qed

lemma unat_and_FF: "unat (x AND 0xFF) = unat x mod 256" for x :: u16
proof -
  have "x AND 0xFF = take_bit 8 x" by (simp add: take_bit_eq_mask mask_eq_exp_minus_1)
  then show ?thesis by (simp only: unsigned_take_bit_eq) (simp add: take_bit_eq_mod)
qed

lemma unat_acc_value:
  "unat (if m8 then ucast r AND 0xFF else ucast r :: u16) = unat r mod 2 ^ acc_bits m8" for r :: u32
  by (simp add: acc_bits_def unat_and_FF unsigned_ucast_eq take_bit_eq_mod mod_mod_cancel)

lemma getAcc_lt: "unat (getAcc s) < 2 ^ acc_bits (memory8 s)"
  using unsigned_less [of "m_C s", where ?'a = nat]
  by (simp add: getAcc_def acc_bits_def unat_and_FF)

lemma carry_in_le: "unat (carry_in s) \<le> 1"
  by (simp add: carry_in_def)

lemma unat_carry_in: "unat (carry_in s) = of_bool (has (m_P s) W65_C)"
  by (simp add: carry_in_def)

lemma setZN_width_simps [simp]:
  "m_C (setZN_width m8 r s) = m_C s" "getAcc (setZN_width m8 r s) = getAcc s"
  "memory8 (setZN_width m8 r s) = memory8 s"
  by (simp_all add: setZN_width_def)

lemma setZN_width_flags [flag_simps]:
  "bit (m_P (setZN_width m8 r s)) n =
    (if n = 7 then bit r (acc_bits m8 - 1) else if n = 1 then unat r mod 2 ^ acc_bits m8 = 0 else bit (m_P s) n)"
proof -
  have "(ucast r = (0 :: u8)) \<longleftrightarrow> unat r mod 256 = 0" "(ucast r = (0 :: u16)) \<longleftrightarrow> unat r mod 65536 = 0"
    by (simp_all add: unat_eq_0 [symmetric] unsigned_ucast_eq take_bit_eq_mod del: unat_eq_0)
  then show ?thesis
    by (simp add: setZN_width_def flag_simps acc_bits_def bit_simps)
qed

text \<open>C2. Binary addition at either width: the accumulator holds the sum modulo the register size, C is the
  carry out, V the overflow of the signed sum, Z and N describe the result, and in 8-bit mode the high
  accumulator byte B survives.\<close>

lemma opADC_binary:
  assumes "\<not> has (m_P s) W65_D" "unat v < 2 ^ acc_bits (memory8 s)"
  shows "let w = acc_bits (memory8 s); c = of_bool (has (m_P s) W65_C);
      total = unat (getAcc s) + unat v + c;
      signed = signed_val (memory8 s) (getAcc s) + signed_val (memory8 s) v + of_bool (has (m_P s) W65_C);
      s' = opADC v s
    in unat (getAcc s') = total mod 2 ^ w
     \<and> has (m_P s') W65_C = (2 ^ w \<le> total)
     \<and> has (m_P s') W65_Z = (getAcc s' = 0)
     \<and> has (m_P s') W65_N = bit (getAcc s') (w - 1)
     \<and> has (m_P s') W65_V = (signed < - (2 ^ (w - 1)) \<or> 2 ^ (w - 1) \<le> signed)
     \<and> (memory8 s \<longrightarrow> m_C s' AND 0xFF00 = m_C s AND 0xFF00)"
proof -
  define r :: u32 where "r = ucast (getAcc s) + ucast v + carry_in s"
  define w where "w = acc_bits (memory8 s)"
  have lt: "unat (getAcc s) < 2 ^ w" "unat v < 2 ^ w" using getAcc_lt assms(2) by (simp_all add: w_def)
  have w: "w = 8 \<or> w = 16" by (auto simp: w_def acc_bits_def)
  have r: "unat r = unat (getAcc s) + unat v + of_bool (has (m_P s) W65_C)"
  proof -
    have "unat (getAcc s) < 65536" "unat v < 65536" using lt w by auto
    then show ?thesis using carry_in_le [of s]
      by (simp add: r_def unat_word_ariths unsigned_ucast_eq take_bit_nat_eq_self unat_carry_in)
  qed
  have res: "opADC v s = setZN_width (memory8 s) r (setAcc (ucast r)
      (setFlag W65_C (r > (if memory8 s then 0xFF else 0xFFFF))
        (setFlag W65_V (adc_overflow (getAcc s) v r (sign_bit (memory8 s))) s)))"
    using assms(1) by (simp add: opADC_def Let_def r_def)
  have acc: "getAcc (opADC v s) = (if memory8 s then ucast r AND 0xFF else ucast r)"
    by (simp add: res getAcc_setAcc)
  have C: "(r > (if memory8 s then 0xFF else 0xFFFF)) \<longleftrightarrow> 2 ^ w \<le> unat r"
    by (auto simp: w_def acc_bits_def word_less_nat_alt)
  have V: "adc_overflow (getAcc s) v r (sign_bit (memory8 s)) \<longleftrightarrow>
      \<not> (- (2 ^ (w - 1)) \<le> signed_val (memory8 s) (getAcc s) + signed_val (memory8 s) v + uint (carry_in s)
       \<and> signed_val (memory8 s) (getAcc s) + signed_val (memory8 s) v + uint (carry_in s) < 2 ^ (w - 1))"
    unfolding r_def w_def by (rule adc_overflow_signed) (use assms(2) getAcc_lt carry_in_le in auto)
  have uc: "uint (carry_in s) = of_bool (has (m_P s) W65_C)" by (simp add: carry_in_def)
  have u: "unat (getAcc (opADC v s)) = unat r mod 2 ^ w"
    unfolding acc by (simp add: unat_acc_value w_def)
  have Z: "(getAcc (opADC v s) = 0) \<longleftrightarrow> unat r mod 2 ^ w = 0"
    unfolding u [symmetric] by (simp add: unat_eq_0)
  have N: "bit (getAcc (opADC v s)) (w - 1) = bit r (w - 1)"
    unfolding acc by (auto simp: w_def acc_bits_def bit_simps)
  have P: "has (m_P (opADC v s)) W65_C = (2 ^ w \<le> unat r)"
    "has (m_P (opADC v s)) W65_Z = (unat r mod 2 ^ w = 0)"
    "has (m_P (opADC v s)) W65_N = bit r (w - 1)"
    "has (m_P (opADC v s)) W65_V = adc_overflow (getAcc s) v r (sign_bit (memory8 s))"
    by (simp_all add: res flag_simps C w_def)
  have hi: "memory8 s \<longrightarrow> m_C (opADC v s) AND 0xFF00 = m_C s AND 0xFF00"
    by (simp add: res setAcc_high)
  show ?thesis
    unfolding Let_def w_def [symmetric] P V uc Z N u r [symmetric] using hi by auto
qed


lemma bcd_ok_4_2: "bcd_ok 4 n \<Longrightarrow> bcd_ok 2 n"
proof -
  have "(4 :: nat) = Suc (Suc 2)" by simp
  then show "bcd_ok 4 n \<Longrightarrow> bcd_ok 2 n" by (simp only: bcd_ok_top)
qed

text \<open>Decimal addition of valid packed BCD operands (two digits in 8-bit, four in 16-bit mode) is exact:
  the result is valid BCD of the decimal sum, C is the decimal carry, N and Z come from the BCD result
  (the 65C02 rule) and B survives in 8-bit mode.\<close>

lemma opADC_decimal:
  assumes "has (m_P s) W65_D" "unat v < 2 ^ acc_bits (memory8 s)"
    "bcd_ok 4 (unat (getAcc s))" "bcd_ok 4 (unat v)"
  shows "let nd = (if memory8 s then 2 else 4);
      total = bcd nd (unat (getAcc s)) + bcd nd (unat v) + of_bool (has (m_P s) W65_C);
      s' = opADC v s
    in bcd_ok nd (unat (getAcc s'))
     \<and> bcd nd (unat (getAcc s')) = total mod 10 ^ nd
     \<and> has (m_P s') W65_C = (10 ^ nd \<le> total)
     \<and> has (m_P s') W65_Z = (getAcc s' = 0)
     \<and> has (m_P s') W65_N = bit (getAcc s') (acc_bits (memory8 s) - 1)
     \<and> (memory8 s \<longrightarrow> m_C s' AND 0xFF00 = m_C s AND 0xFF00)"
proof -
  define nd where "nd = (if memory8 s then 2 else 4 :: nat)"
  define w where "w = acc_bits (memory8 s)"
  have w: "w = 4 * nd" "nd \<le> 4" by (auto simp: w_def acc_bits_def nd_def)
  have ok: "bcd_ok nd (unat (getAcc s))" "bcd_ok nd (unat v)"
    using assms(3,4) bcd_ok_4_2 by (auto simp: nd_def)
  obtain res pre carry where d: "adc_decimal nd (getAcc s) v (carry_in s) = (res, pre, carry)"
    by (metis prod_cases3)
  note L = adc_decimal_correct [OF ok carry_in_le w(2) d]
  have lt: "unat res < 2 ^ w" using L(2) by (simp add: w(1) power_mult)
  have res: "opADC v s = setZN_width (memory8 s) res (setAcc (ucast res)
      (setFlag W65_V (adc_overflow (getAcc s) v pre (sign_bit (memory8 s))) (setFlag W65_C (carry \<noteq> 0) s)))"
    using assms(1) d by (simp add: opADC_def Let_def nd_def)
  have acc: "getAcc (opADC v s) = (if memory8 s then ucast res AND 0xFF else ucast res)"
    by (simp add: res getAcc_setAcc)
  have u: "unat (getAcc (opADC v s)) = unat res"
    unfolding acc using lt by (simp add: unat_acc_value w_def)
  have Z: "(getAcc (opADC v s) = 0) \<longleftrightarrow> unat res = 0"
    unfolding u [symmetric] by (simp add: unat_eq_0)
  have N: "bit (getAcc (opADC v s)) (w - 1) = bit res (w - 1)"
    unfolding acc by (auto simp: w_def acc_bits_def bit_simps)
  have P: "has (m_P (opADC v s)) W65_C = (carry \<noteq> 0)"
    "has (m_P (opADC v s)) W65_Z = (unat res = 0)"
    "has (m_P (opADC v s)) W65_N = bit res (w - 1)"
    using lt by (simp_all add: res flag_simps w_def)
  have hi: "memory8 s \<longrightarrow> m_C (opADC v s) AND 0xFF00 = m_C s AND 0xFF00"
    by (simp add: res setAcc_high)
  show ?thesis
    unfolding Let_def w_def [symmetric] nd_def [symmetric] P Z N u
    using hi L by (simp add: unat_carry_in)
qed

lemma opSBC_shape:
  fixes s :: "'b w65" and v :: u16
  defines "msk \<equiv> (if memory8 s then 0xFF else 0xFFFF :: u32)"
  defines "bin \<equiv> ucast (getAcc s) + ucast (ucast (NOT (ucast v) AND msk) :: u16) + carry_in s"
  defines "s1 \<equiv> setFlag W65_V ((ucast (getAcc s) XOR ucast v) AND (ucast (getAcc s) XOR (bin AND msk))
         AND ucast (sign_bit (memory8 s)) \<noteq> (0 :: u32)) (setFlag W65_C (bin > msk) s)"
  shows "opSBC v s =
    (if has (m_P s) W65_D
     then let r = fst (sbc_decimal (if memory8 s then 2 else 4) (getAcc s) v (carry_in s))
          in setZN_width (memory8 s) r (setAcc (ucast r) s1)
     else setZN_width (memory8 s) bin (setAcc (ucast bin) s1))"
  unfolding opSBC_def Let_def msk_def [symmetric] bin_def [symmetric] s1_def [symmetric]
  by (simp add: s1_def flag_simps)

lemma sbc_bin:
  fixes s :: "'b w65" and v :: u16
  assumes "unat v < 2 ^ acc_bits (memory8 s)"
  defines "msk \<equiv> (if memory8 s then 0xFF else 0xFFFF :: u32)"
  defines "vc \<equiv> ucast (NOT (ucast v) AND msk) :: u16"
  defines "bin \<equiv> ucast (getAcc s) + ucast vc + carry_in s :: u32"
  defines "w \<equiv> acc_bits (memory8 s)"
  shows "unat vc = 2 ^ w - 1 - unat v"
    "unat bin = unat (getAcc s) + (2 ^ w - 1 - unat v) + of_bool (has (m_P s) W65_C)"
    "(bin > msk) = (2 ^ w \<le> unat bin)"
    "((ucast (getAcc s) XOR ucast v) AND (ucast (getAcc s) XOR (bin AND msk))
         AND ucast (sign_bit (memory8 s)) \<noteq> (0 :: u32))
     = (let d = signed_val (memory8 s) (getAcc s) - signed_val (memory8 s) v
             - (1 - of_bool (has (m_P s) W65_C))
        in d < - (2 ^ (w - 1)) \<or> 2 ^ (w - 1) \<le> d)"
proof -
  have w: "w = 8 \<and> memory8 s \<or> w = 16 \<and> \<not> memory8 s" by (auto simp: w_def acc_bits_def)
  have vb: "\<not> bit v n" if "w \<le> n" for n
    by (rule small_not_bit [OF _ that]) (use assms(1) w_def in simp)
  have mm: "msk = mask w" using w by (auto simp: msk_def mask_eq_exp_minus_1)
  have vlt: "n < w" if "bit v n" for n using vb [of n] that by (simp add: not_le [symmetric]) blast
  have vc_bit: "bit vc n \<longleftrightarrow> n < w \<and> \<not> bit v n" for n
    using w by (auto simp: vc_def mm bit_simps)
  have "vc = mask w - v"
  proof -
    have "v + vc = v OR vc"
      by (rule disjunctive_add_eq_or) (rule bit_word_eqI, auto simp: bit_simps vc_bit)
    also have "\<dots> = mask w"
      by (intro bit_word_eqI) (use w in \<open>auto simp: bit_simps vc_bit dest: vlt\<close>)
    finally show ?thesis by (simp add: algebra_simps)
  qed
  moreover have m: "unat (mask w :: u16) = 2 ^ w - 1" using w by (auto simp: mask_eq_exp_minus_1)
  moreover have "v \<le> mask w" using m assms(1) by (simp add: word_le_nat_alt w_def)
  ultimately show vc: "unat vc = 2 ^ w - 1 - unat v" by (simp add: unat_sub)
  have lt: "unat (getAcc s) < 2 ^ w" using getAcc_lt by (simp add: w_def)
  show bin: "unat bin = unat (getAcc s) + (2 ^ w - 1 - unat v) + of_bool (has (m_P s) W65_C)"
    using lt w carry_in_le [of s] unsigned_less [of "getAcc s", where ?'a = nat]
    by (auto simp: bin_def unat_word_ariths unsigned_ucast_eq take_bit_nat_eq_self unat_carry_in vc)
  show "(bin > msk) = (2 ^ w \<le> unat bin)"
    using w by (auto simp: msk_def word_less_nat_alt)
  have ov: "adc_overflow (getAcc s) vc bin (sign_bit (memory8 s)) \<longleftrightarrow>
      \<not> (- (2 ^ (w - 1)) \<le> signed_val (memory8 s) (getAcc s) + signed_val (memory8 s) vc + uint (carry_in s)
       \<and> signed_val (memory8 s) (getAcc s) + signed_val (memory8 s) vc + uint (carry_in s) < 2 ^ (w - 1))"
    unfolding bin_def w_def
    by (rule adc_overflow_signed) (use getAcc_lt carry_in_le vc assms(1) in \<open>auto simp: w_def\<close>)
  have sb: "ucast (sign_bit (memory8 s)) = (2 ^ (w - 1) :: u32)" using w by (auto simp: sign_bit_def)
  have same: "((ucast (getAcc s) XOR ucast v) AND (ucast (getAcc s) XOR (bin AND msk))
         AND ucast (sign_bit (memory8 s)) \<noteq> (0 :: u32)) = adc_overflow (getAcc s) vc bin (sign_bit (memory8 s))"
    unfolding adc_overflow_def sb and.assoc [symmetric] and_exp_eq_0_iff_not_bit
    using w by (auto simp: bit_simps vc_bit mm)
  have neg: "signed_val (memory8 s) vc = - 1 - signed_val (memory8 s) v"
  proof -
    have "signed_val (memory8 s) x = int (unat x) - (if bit x (w - 1) then 2 ^ w else 0)"
      if "unat x < 2 ^ w" for x
    proof (cases "memory8 s")
      case True
      then have "unat (lo8 x) = unat x" "bit (lo8 x) 7 = bit x 7"
        using that w by (auto simp: lo8_def unsigned_ucast_eq take_bit_nat_eq_self bit_simps)
      then show ?thesis using True w by (auto simp: signed_val_def sint_unat)
    next
      case False
      then show ?thesis using w by (auto simp: signed_val_def sint_unat)
    qed
    moreover have "uint vc = 2 ^ w - 1 - uint v"
    proof -
      have "unat vc + unat v + 1 = 2 ^ w" using vc assms(1) by (simp add: w_def)
      then have "int (unat vc + unat v + 1) = int (2 ^ w)" by (simp only:)
      then show ?thesis by simp
    qed
    moreover have "unat vc < 2 ^ w" "unat v < 2 ^ w" using vc assms(1) by (simp_all add: w_def)
    ultimately show ?thesis
      using vc_bit [of "w - 1"] w by auto
  qed
  have uc: "uint (carry_in s) = of_bool (has (m_P s) W65_C)" by (simp add: carry_in_def)
  show "((ucast (getAcc s) XOR ucast v) AND (ucast (getAcc s) XOR (bin AND msk))
         AND ucast (sign_bit (memory8 s)) \<noteq> (0 :: u32))
     = (let d = signed_val (memory8 s) (getAcc s) - signed_val (memory8 s) v
             - (1 - of_bool (has (m_P s) W65_C))
        in d < - (2 ^ (w - 1)) \<or> 2 ^ (w - 1) \<le> d)"
    unfolding same ov neg uc Let_def by auto
qed

text \<open>C3. Subtraction: binary mode gives the difference modulo the register size, decimal mode the exact
  BCD difference modulo 100 or 10000; in both modes C is "no borrow" and V the signed overflow of the
  binary difference, while N and Z describe the value stored.\<close>

lemma opSBC_spec:
  assumes "unat v < 2 ^ acc_bits (memory8 s)"
    "has (m_P s) W65_D \<longrightarrow> bcd_ok 4 (unat (getAcc s)) \<and> bcd_ok 4 (unat v)"
  shows "let w = acc_bits (memory8 s); nd = (if memory8 s then 2 else 4);
      borrow = 1 - of_bool (has (m_P s) W65_C);
      signed = signed_val (memory8 s) (getAcc s) - signed_val (memory8 s) v - borrow;
      s' = opSBC v s
    in (if has (m_P s) W65_D
        then bcd_ok nd (unat (getAcc s')) \<and>
          int (bcd nd (unat (getAcc s'))) =
            (int (bcd nd (unat (getAcc s))) - int (bcd nd (unat v)) - borrow) mod 10 ^ nd
        else int (unat (getAcc s')) = (int (unat (getAcc s)) - int (unat v) - borrow) mod 2 ^ w)
     \<and> has (m_P s') W65_C = (int (unat v) + borrow \<le> int (unat (getAcc s)))
     \<and> has (m_P s') W65_Z = (getAcc s' = 0)
     \<and> has (m_P s') W65_N = bit (getAcc s') (w - 1)
     \<and> has (m_P s') W65_V = (signed < - (2 ^ (w - 1)) \<or> 2 ^ (w - 1) \<le> signed)
     \<and> (memory8 s \<longrightarrow> m_C s' AND 0xFF00 = m_C s AND 0xFF00)"
proof -
  define w where "w = acc_bits (memory8 s)"
  define nd where "nd = (if memory8 s then 2 else 4 :: nat)"
  define msk where "msk = (if memory8 s then 0xFF else 0xFFFF :: u32)"
  define bin where "bin = ucast (getAcc s) + ucast (ucast (NOT (ucast v) AND msk) :: u16) + carry_in s"
  define ovf where "ovf = ((ucast (getAcc s) XOR ucast v) AND (ucast (getAcc s) XOR (bin AND msk))
         AND ucast (sign_bit (memory8 s)) \<noteq> (0 :: u32))"
  define r where "r = (if has (m_P s) W65_D then fst (sbc_decimal nd (getAcc s) v (carry_in s)) else bin)"
  have w: "w = 4 * nd" "nd \<le> 4" by (auto simp: w_def acc_bits_def nd_def)
  note B = sbc_bin [OF assms(1), folded msk_def, folded bin_def, folded ovf_def, folded w_def]
  have res: "opSBC v s = setZN_width (memory8 s) r (setAcc (ucast r)
      (setFlag W65_V ovf (setFlag W65_C (bin > msk) s)))"
    unfolding opSBC_shape r_def nd_def ovf_def bin_def msk_def by (simp add: Let_def)
  have acc: "getAcc (opSBC v s) = (if memory8 s then ucast r AND 0xFF else ucast r)"
    by (simp add: res getAcc_setAcc)
  have u: "unat (getAcc (opSBC v s)) = unat r mod 2 ^ w"
    unfolding acc by (simp add: unat_acc_value w_def)
  have Z: "(getAcc (opSBC v s) = 0) \<longleftrightarrow> unat r mod 2 ^ w = 0"
    unfolding u [symmetric] by (simp add: unat_eq_0)
  have N: "bit (getAcc (opSBC v s)) (w - 1) = bit r (w - 1)"
    unfolding acc by (auto simp: w_def acc_bits_def bit_simps)
  have P: "has (m_P (opSBC v s)) W65_C = (bin > msk)"
    "has (m_P (opSBC v s)) W65_Z = (unat r mod 2 ^ w = 0)"
    "has (m_P (opSBC v s)) W65_N = bit r (w - 1)"
    "has (m_P (opSBC v s)) W65_V = ovf"
    by (simp_all add: res flag_simps w_def)
  have hi: "memory8 s \<longrightarrow> m_C (opSBC v s) AND 0xFF00 = m_C s AND 0xFF00"
    by (simp add: res setAcc_high)
  have "unat v < 2 ^ w" using assms(1) by (simp add: w_def)
  then have bin: "int (unat bin) = int (unat (getAcc s)) + (2 ^ w - 1 - int (unat v)) + of_bool (has (m_P s) W65_C)"
    unfolding B(2) by (simp add: of_nat_diff)
  have C: "(bin > msk) = (int (unat v) + (1 - of_bool (has (m_P s) W65_C)) \<le> int (unat (getAcc s)))"
  proof -
    have "(bin > msk) = (int (2 ^ w) \<le> int (unat bin))" unfolding B(3) by (simp only: of_nat_le_iff)
    then have "(bin > msk) = (2 ^ w \<le> int (unat bin))" by simp
    then show ?thesis unfolding bin by auto
  qed
  have val: "if has (m_P s) W65_D
        then bcd_ok nd (unat (getAcc (opSBC v s))) \<and>
          int (bcd nd (unat (getAcc (opSBC v s)))) =
            (int (bcd nd (unat (getAcc s))) - int (bcd nd (unat v)) - (1 - of_bool (has (m_P s) W65_C))) mod 10 ^ nd
        else int (unat (getAcc (opSBC v s)))
           = (int (unat (getAcc s)) - int (unat v) - (1 - of_bool (has (m_P s) W65_C))) mod 2 ^ w"
  proof (cases "has (m_P s) W65_D")
    case True
    have ok: "bcd_ok nd (unat (getAcc s))" "bcd_ok nd (unat v)"
      using assms(2) True bcd_ok_4_2 by (auto simp: nd_def)
    note L = sbc_decimal_correct [OF ok carry_in_le [of s] w(2)]
    have r: "r = fst (sbc_decimal nd (getAcc s) v (carry_in s))" using True by (simp add: r_def)
    have "unat r < 2 ^ w" using L(2) by (simp add: r w(1) power_mult)
    then have "unat (getAcc (opSBC v s)) = unat r" unfolding u by simp
    then show ?thesis using True L(1,3) by (simp add: r carry_in_def)
  next
    case False
    have "int (unat (getAcc (opSBC v s))) = int (unat bin) mod 2 ^ w"
      unfolding u using False by (simp add: r_def of_nat_mod)
    also have "\<dots> = (int (unat (getAcc s)) - int (unat v) - (1 - of_bool (has (m_P s) W65_C)) + 2 ^ w) mod 2 ^ w"
      unfolding bin by (simp add: algebra_simps)
    finally show ?thesis using False by (simp only: mod_add_self2) simp
  qed
  have V: "ovf = (signed_val (memory8 s) (getAcc s) - signed_val (memory8 s) v
       - (1 - of_bool (has (m_P s) W65_C)) < - (2 ^ (w - 1))
     \<or> 2 ^ (w - 1) \<le> signed_val (memory8 s) (getAcc s) - signed_val (memory8 s) v
       - (1 - of_bool (has (m_P s) W65_C)))"
    using B(4) by (simp only: Let_def)
  show ?thesis
    unfolding Let_def w_def [symmetric] nd_def [symmetric] P(1,4) C V
    using val hi P(2,3) Z N by simp
qed

section \<open>Concrete instances\<close>

definition sample_cpu :: "unit w65" where
  "sample_cpu = w65_new ()"

lemma sample_widths:
  "memory8 (sample_cpu\<lparr>m_C := c, m_P := p\<rparr>)" "getAcc (sample_cpu\<lparr>m_C := c, m_P := p\<rparr>) = c AND 0xFF"
  by (simp_all add: sample_cpu_def w65_new_def applyE_def force_widths_def cache_widths_def Let_def
      memory8_def getAcc_def)

lemma opADC_binary_witness:
  "let s = sample_cpu\<lparr>m_C := 0x127F, m_P := 0x35\<rparr>; s' = opADC 1 s
   in unat (getAcc s') = 0x81 \<and> has (m_P s') W65_V"
proof -
  let ?s = "sample_cpu\<lparr>m_C := 0x127F, m_P := 0x35\<rparr>"
  have m8: "memory8 ?s" by (simp add: sample_cpu_def w65_new_def applyE_def force_widths_def cache_widths_def Let_def memory8_def)
  have 1: "\<not> has (m_P ?s) W65_D" "unat (1 :: u16) < 2 ^ acc_bits (memory8 ?s)"
    "has (m_P ?s) W65_C" "unat (getAcc ?s) = 0x7F"
    by (simp_all add: has_def w65_flag_defs acc_bits_def m8 getAcc_def)
  from opADC_binary [OF 1(1,2)] show ?thesis
    by (simp only: Let_def 1 m8) (simp add: acc_bits_def signed_val_def lo8_def getAcc_def m8)
qed

lemma bcd_numeral:
  "bcd 2 n = n mod 16 + 10 * (n div 16 mod 16)"
  "bcd_ok 4 n \<longleftrightarrow> n mod 16 \<le> 9 \<and> n div 16 mod 16 \<le> 9 \<and> n div 256 mod 16 \<le> 9 \<and> n div 4096 mod 16 \<le> 9"
proof -
  have n: "2 = Suc (Suc 0)" "4 = Suc (Suc (Suc (Suc 0)))" by simp_all
  show "bcd 2 n = n mod 16 + 10 * (n div 16 mod 16)"
    unfolding n(1) by (simp only: bcd.simps) simp
  show "bcd_ok 4 n \<longleftrightarrow> n mod 16 \<le> 9 \<and> n div 16 mod 16 \<le> 9 \<and> n div 256 mod 16 \<le> 9 \<and> n div 4096 mod 16 \<le> 9"
    unfolding n(2) by (simp only: bcd_ok.simps div_mult2_eq [symmetric]) simp
qed

lemma opADC_decimal_witness:
  "let s = sample_cpu\<lparr>m_C := 0x1258, m_P := 0x3D\<rparr>; s' = opADC 0x46 s
   in bcd 2 (unat (getAcc s')) = 5 \<and> has (m_P s') W65_C \<and> m_C s' AND 0xFF00 = 0x1200"
proof -
  let ?s = "sample_cpu\<lparr>m_C := 0x1258, m_P := 0x3D\<rparr>"
  have 1: "has (m_P ?s) W65_D" "unat (0x46 :: u16) < 2 ^ acc_bits (memory8 ?s)"
    "bcd_ok 4 (unat (getAcc ?s))" "bcd_ok 4 (unat (0x46 :: u16))" "has (m_P ?s) W65_C"
    "bcd 2 (unat (getAcc ?s)) = 58" "bcd 2 (unat (0x46 :: u16)) = 46"
    by (simp_all only: sample_widths) (simp_all add: has_def w65_flag_defs acc_bits_def bcd_numeral)
  from opADC_decimal [OF 1(1-4)] show ?thesis
    by (simp only: Let_def 1 sample_widths) (simp add: bcd_numeral(1))
qed

lemma opSBC_spec_witness:
  "let s = sample_cpu\<lparr>m_C := 0x1210, m_P := 0x34\<rparr>; s' = opSBC 0x20 s
   in int (unat (getAcc s')) = 0xEF \<and> \<not> has (m_P s') W65_C"
proof -
  let ?s = "sample_cpu\<lparr>m_C := 0x1210, m_P := 0x34\<rparr>"
  have 1: "unat (0x20 :: u16) < 2 ^ acc_bits (memory8 ?s)"
    "\<not> has (m_P ?s) W65_D" "\<not> has (m_P ?s) W65_C" "unat (getAcc ?s) = 0x10"
    by (simp_all add: sample_widths) (simp_all add: has_def w65_flag_defs acc_bits_def)
  have 2: "has (m_P ?s) W65_D \<longrightarrow> bcd_ok 4 (unat (getAcc ?s)) \<and> bcd_ok 4 (unat (0x20 :: u16))"
    using 1 by simp
  from opSBC_spec [OF 1(1) 2] show ?thesis
    by (simp only: Let_def 1 sample_widths) (simp add: acc_bits_def)
qed
end
