(* ===== verification/W65Switch.thy ===== *)
theory W65Switch
  imports W65Alu
begin

text \<open>
  The instruction bodies of the 65C816: \<open>serviceInterrupt\<close> and the generic \<open>switch\<close> of
  \<open>CW65C816::stepInner\<close> in \<open>w65c816.cpp\<close>. Each commented section of the C++ switch is one table from
  opcode to instruction body, in the order of the source; a body is a program over the register
  file. \<open>generic_switch\<close> looks the opcode up in the concatenation of the tables.
\<close>

unbundle bit_operations_syntax

section \<open>Interrupts\<close>

definition fetch_vector :: "'b buses \<Rightarrow> u16 \<Rightarrow> ('b, u16) cpu" where
  "fetch_vector B vec = State (\<lambda>s.
     case m_FastBus B of
       Some F \<Rightarrow>
         if fb_interruptRerouteActive F (m_E s) (w_bus s)
         then let (pc, b) = fb_rerouteVector F (m_E s) vec (w_bus s) in (pc, s\<lparr>w_bus := b\<rparr>)
         else run_state (read16Bank0 B vec) s
     | None \<Rightarrow> run_state (read16Bank0 B vec) s)"

definition serviceInterrupt :: "'b buses \<Rightarrow> u32 \<Rightarrow> u32 \<Rightarrow> bool \<Rightarrow> ('b, unit) cpu" where
  "serviceInterrupt B vectorNative vectorEmu isBRKorCOP = do {
     ifM m_E
       (do { pc \<leftarrow> gets m_PC; push16 B pc;
             p \<leftarrow> gets m_P;
             push8 B (if isBRKorCOP then p OR W65_B else p AND NOT W65_B) })
       (do { k \<leftarrow> gets m_PBR; push8 B k;
             pc \<leftarrow> gets m_PC; push16 B pc;
             p \<leftarrow> gets m_P; push8 B p });
     modify (\<lambda>s. s\<lparr>m_P := m_P s OR W65_I\<rparr>);
     modify (\<lambda>s. s\<lparr>m_P := m_P s AND NOT W65_D\<rparr>);
     modify (\<lambda>s. s\<lparr>m_PBR := 0\<rparr>);
     vec \<leftarrow> gets (\<lambda>s. ucast (if m_E s then vectorEmu else vectorNative));
     pc \<leftarrow> fetch_vector B vec;
     modify (\<lambda>s. s\<lparr>m_PC := pc\<rparr>);
     modify applyE }"

section \<open>Instruction shapes\<close>

definition memM :: "'b buses \<Rightarrow> ('b, u32) cpu \<Rightarrow> ('b, u16) cpu" where
  "memM B address = do { ea \<leftarrow> address; readM B ea }"

definition memX :: "'b buses \<Rightarrow> ('b, u32) cpu \<Rightarrow> ('b, u16) cpu" where
  "memX B address = do { ea \<leftarrow> address; readX B ea }"

definition lda :: "('b, u16) cpu \<Rightarrow> ('b, unit) cpu" where
  "lda src = do { v \<leftarrow> src; modify (setAcc v); modify (setZNM v) }"

definition ldx :: "('b, u16) cpu \<Rightarrow> ('b, unit) cpu" where
  "ldx src = do { v \<leftarrow> src; modify (\<lambda>s. s\<lparr>m_X := v\<rparr>); modify (\<lambda>s. setZNX (m_X s) s) }"

definition ldy :: "('b, u16) cpu \<Rightarrow> ('b, unit) cpu" where
  "ldy src = do { v \<leftarrow> src; modify (\<lambda>s. s\<lparr>m_Y := v\<rparr>); modify (\<lambda>s. setZNX (m_Y s) s) }"

definition store :: "('b, u32) cpu \<Rightarrow> (u32 \<Rightarrow> u16 \<Rightarrow> ('b, unit) cpu) \<Rightarrow> ('b w65 \<Rightarrow> u16) \<Rightarrow> ('b, unit) cpu" where
  "store address wr reg = do { ea \<leftarrow> address; v \<leftarrow> gets reg; wr ea v }"

text \<open>\<open>W65_SETACC\<close>\<close>

definition logic :: "(u16 \<Rightarrow> u16 \<Rightarrow> u16) \<Rightarrow> ('b, u16) cpu \<Rightarrow> ('b, unit) cpu" where
  "logic f src = do {
     v \<leftarrow> src;
     modify (\<lambda>s. setAcc (f (getAcc s) v) s);
     modify (\<lambda>s. setZNM (getAcc s) s) }"

definition operand :: "('b, u16) cpu \<Rightarrow> (u16 \<Rightarrow> 'b w65 \<Rightarrow> 'b w65) \<Rightarrow> ('b, unit) cpu" where
  "operand src f = do { v \<leftarrow> src; modify (f v) }"

text \<open>\<open>opCMP( reg, src, width )\<close>, and \<open>W65_CMPA\<close>\<close>

definition compare :: "('b w65 \<Rightarrow> u16) \<Rightarrow> ('b, u16) cpu \<Rightarrow> bool \<Rightarrow> ('b, unit) cpu" where
  "compare reg src eightBit = do { v \<leftarrow> src; modify (\<lambda>s. opCMP (reg s) v eightBit s) }"

definition test_and_modify :: "'b buses \<Rightarrow> ('b, u32) cpu \<Rightarrow> (u16 \<Rightarrow> u16 \<Rightarrow> u16) \<Rightarrow> ('b, unit) cpu" where
  "test_and_modify B address f = do {
     ea \<leftarrow> address;
     v \<leftarrow> readM B ea;
     modify (\<lambda>s. setFlag W65_Z (getAcc s AND v = 0) s);
     t \<leftarrow> gets (\<lambda>s. f v (getAcc s));
     rmwWrite B ea v t }"

definition incdec_acc :: "u16 \<Rightarrow> ('b, unit) cpu" where
  "incdec_acc delta = do {
     modify (\<lambda>s. setAcc (getAcc s + delta) s);
     modify (\<lambda>s. setZNM (getAcc s) s) }"

definition index_add :: "u16 \<Rightarrow> u16 \<Rightarrow> 'b w65 \<Rightarrow> u16" where
  "index_add v delta s = (if index8 s then ucast (lo8 (v + delta)) else v + delta)"

definition incdec_x :: "u16 \<Rightarrow> ('b, unit) cpu" where
  "incdec_x delta = do {
     modify (\<lambda>s. s\<lparr>m_X := index_add (m_X s) delta s\<rparr>); modify (\<lambda>s. setZNX (m_X s) s) }"

definition incdec_y :: "u16 \<Rightarrow> ('b, unit) cpu" where
  "incdec_y delta = do {
     modify (\<lambda>s. s\<lparr>m_Y := index_add (m_Y s) delta s\<rparr>); modify (\<lambda>s. setZNX (m_Y s) s) }"

text \<open>\<open>W65_INCDEC\<close>\<close>

definition incdec_mem :: "'b buses \<Rightarrow> ('b, u32) cpu \<Rightarrow> u16 \<Rightarrow> ('b, unit) cpu" where
  "incdec_mem B address delta = do {
     ea \<leftarrow> address;
     v \<leftarrow> readM B ea;
     rmwWrite B ea v (v + delta);
     modify (setZNM (v + delta)) }"

text \<open>The shift bodies (\<open>W65_ASL_BODY\<close> ...): new value and new flags from the operand.\<close>

definition top_bit :: "'b w65 \<Rightarrow> u16" where
  "top_bit s = (if memory8 s then 0x80 else 0x8000)"

definition asl_body :: "u16 \<Rightarrow> 'b w65 \<Rightarrow> u16 \<times> 'b w65" where
  "asl_body t s = (push_bit 1 t, setFlag W65_C (t AND top_bit s \<noteq> 0) s)"

definition lsr_body :: "u16 \<Rightarrow> 'b w65 \<Rightarrow> u16 \<times> 'b w65" where
  "lsr_body t s = (if memory8 s then drop_bit 1 t AND 0x7F else drop_bit 1 t,
                   setFlag W65_C (t AND 1 \<noteq> 0) s)"

definition rol_body :: "u16 \<Rightarrow> 'b w65 \<Rightarrow> u16 \<times> 'b w65" where
  "rol_body t s =
     (let cin = (if has (m_P s) W65_C then 1 else 0)
      in (push_bit 1 t OR cin, setFlag W65_C (t AND top_bit s \<noteq> 0) s))"

definition ror_body :: "u16 \<Rightarrow> 'b w65 \<Rightarrow> u16 \<times> 'b w65" where
  "ror_body t s =
     (let cin = (if has (m_P s) W65_C then top_bit s else 0);
          t' = drop_bit 1 t OR cin
      in (if memory8 s then t' AND 0xFF else t', setFlag W65_C (t AND 1 \<noteq> 0) s))"

definition shift_acc :: "(u16 \<Rightarrow> 'b w65 \<Rightarrow> u16 \<times> 'b w65) \<Rightarrow> ('b, unit) cpu" where
  "shift_acc body = do {
     t0 \<leftarrow> gets getAcc;
     t \<leftarrow> State (body t0);
     modify (setAcc t);
     modify (\<lambda>s. setZNM (getAcc s) s) }"

definition shift_mem :: "'b buses \<Rightarrow> ('b, u32) cpu \<Rightarrow> (u16 \<Rightarrow> 'b w65 \<Rightarrow> u16 \<times> 'b w65) \<Rightarrow> ('b, unit) cpu" where
  "shift_mem B address body = do {
     ea \<leftarrow> address;
     v \<leftarrow> readM B ea;
     t \<leftarrow> State (body v);
     rmwWrite B ea v t;
     modify (setZNM t) }"

text \<open>Transfers: \<open>index8() ? (u16)( v & 0xFF ) : v\<close>.\<close>

definition index_width :: "u16 \<Rightarrow> 'b w65 \<Rightarrow> u16" where
  "index_width v s = (if index8 s then v AND 0xFF else v)"

definition transfer_x :: "('b w65 \<Rightarrow> u16) \<Rightarrow> ('b, unit) cpu" where
  "transfer_x src = do {
     modify (\<lambda>s. s\<lparr>m_X := index_width (src s) s\<rparr>); modify (\<lambda>s. setZNX (m_X s) s) }"

definition transfer_y :: "('b w65 \<Rightarrow> u16) \<Rightarrow> ('b, unit) cpu" where
  "transfer_y src = do {
     modify (\<lambda>s. s\<lparr>m_Y := index_width (src s) s\<rparr>); modify (\<lambda>s. setZNX (m_Y s) s) }"

definition transfer_a :: "('b w65 \<Rightarrow> u16) \<Rightarrow> ('b, unit) cpu" where
  "transfer_a src = do {
     modify (\<lambda>s. setAcc (src s) s); modify (\<lambda>s. setZNM (getAcc s) s) }"

text \<open>\<open>W65_BRANCH\<close>\<close>

definition W65_BRANCH :: "'b buses \<Rightarrow> ('b w65 \<Rightarrow> bool) \<Rightarrow> ('b, unit) cpu" where
  "W65_BRANCH B cond = do {
     disp \<leftarrow> fetch8 B;
     target \<leftarrow> gets (\<lambda>s. m_PC s + scast disp);
     modify (\<lambda>s. if page_crossed (m_PC s) target then s\<lparr>m_PageCross := True\<rparr> else s);
     modify (\<lambda>s. if cond s then s\<lparr>m_BranchTaken := True, m_PC := target\<rparr> else s) }"

section \<open>The switch\<close>

definition switch_lda :: "'b buses \<Rightarrow> (u8 \<times> ('b, unit) cpu) list" where
  "switch_lda B = [
    (0xA9, lda (immediateM B)),
    (0xA5, lda (memM B (eaDirect B))),
    (0xB5, lda (memM B (eaDirectX B))),
    (0xAD, lda (memM B (eaAbsolute B))),
    (0xBD, lda (memM B (eaAbsoluteX B))),
    (0xB9, lda (memM B (eaAbsoluteY B))),
    (0xAF, lda (memM B (eaLong B))),
    (0xBF, lda (memM B (eaLongX B))),
    (0xA1, lda (memM B (eaIndirectX B))),
    (0xB1, lda (memM B (eaIndirectY B))),
    (0xB2, lda (memM B (eaIndirect B))),
    (0xA7, lda (memM B (eaIndirectLong B))),
    (0xB7, lda (memM B (eaIndirectLongY B))),
    (0xA3, lda (memM B (eaStackRelative B))),
    (0xB3, lda (memM B (eaStackRelativeIndirectY B)))]"

definition switch_ldx_ldy :: "'b buses \<Rightarrow> (u8 \<times> ('b, unit) cpu) list" where
  "switch_ldx_ldy B = [
    (0xA2, ldx (immediateX B)),
    (0xA6, ldx (memX B (eaDirect B))),
    (0xB6, ldx (memX B (eaDirectY B))),
    (0xAE, ldx (memX B (eaAbsolute B))),
    (0xBE, ldx (memX B (eaAbsoluteY B))),
    (0xA0, ldy (immediateX B)),
    (0xA4, ldy (memX B (eaDirect B))),
    (0xB4, ldy (memX B (eaDirectX B))),
    (0xAC, ldy (memX B (eaAbsolute B))),
    (0xBC, ldy (memX B (eaAbsoluteX B)))]"

definition switch_sta :: "'b buses \<Rightarrow> (u8 \<times> ('b, unit) cpu) list" where
  "switch_sta B = [
    (0x85, store (eaDirect B) (writeM B) getAcc),
    (0x95, store (eaDirectX B) (writeM B) getAcc),
    (0x8D, store (eaAbsolute B) (writeM B) getAcc),
    (0x9D, store (eaAbsoluteX B) (writeM B) getAcc),
    (0x99, store (eaAbsoluteY B) (writeM B) getAcc),
    (0x8F, store (eaLong B) (writeM B) getAcc),
    (0x9F, store (eaLongX B) (writeM B) getAcc),
    (0x81, store (eaIndirectX B) (writeM B) getAcc),
    (0x91, store (eaIndirectY B) (writeM B) getAcc),
    (0x92, store (eaIndirect B) (writeM B) getAcc),
    (0x87, store (eaIndirectLong B) (writeM B) getAcc),
    (0x97, store (eaIndirectLongY B) (writeM B) getAcc),
    (0x83, store (eaStackRelative B) (writeM B) getAcc),
    (0x93, store (eaStackRelativeIndirectY B) (writeM B) getAcc)]"

definition switch_stx_sty_stz :: "'b buses \<Rightarrow> (u8 \<times> ('b, unit) cpu) list" where
  "switch_stx_sty_stz B = [
    (0x86, store (eaDirect B) (writeX B) m_X),
    (0x96, store (eaDirectY B) (writeX B) m_X),
    (0x8E, store (eaAbsolute B) (writeX B) m_X),
    (0x84, store (eaDirect B) (writeX B) m_Y),
    (0x94, store (eaDirectX B) (writeX B) m_Y),
    (0x8C, store (eaAbsolute B) (writeX B) m_Y),
    (0x64, store (eaDirect B) (writeM B) (\<lambda>_. 0)),
    (0x74, store (eaDirectX B) (writeM B) (\<lambda>_. 0)),
    (0x9C, store (eaAbsolute B) (writeM B) (\<lambda>_. 0)),
    (0x9E, store (eaAbsoluteX B) (writeM B) (\<lambda>_. 0))]"

definition switch_transfers :: "(u8 \<times> ('b, unit) cpu) list" where
  "switch_transfers = [
    (0xAA, transfer_x m_C),
    (0xA8, transfer_y m_C),
    (0x8A, transfer_a getX),
    (0x98, transfer_a getY),
    (0xBA, transfer_x m_S),
    (0x9A, modify (\<lambda>s. s\<lparr>m_S := if m_E s then 0x0100 OR (m_X s AND 0xFF) else getX s\<rparr>)),
    (0x9B, transfer_y m_X),
    (0xBB, transfer_x m_Y),
    (0x5B, do {
       modify (\<lambda>s. s\<lparr>m_D := m_C s\<rparr>);
       modify (\<lambda>s. setZN16 (m_D s) s);
       modify (\<lambda>s. s\<lparr>m_CycKey := (m_CycKey s AND NOT 8) OR (if dp_unaligned s then 8 else 0)\<rparr>) }),
    (0x7B, do { modify (\<lambda>s. s\<lparr>m_C := m_D s\<rparr>); modify (\<lambda>s. setZN16 (m_C s) s) }),
    (0x1B, modify (\<lambda>s. s\<lparr>m_S := if m_E s then 0x0100 OR (m_C s AND 0xFF) else m_C s\<rparr>)),
    (0x3B, do { modify (\<lambda>s. s\<lparr>m_C := m_S s\<rparr>); modify (\<lambda>s. setZN16 (m_C s) s) }),
    (0xEB, do {
       modify (\<lambda>s. s\<lparr>m_C := drop_bit 8 (m_C s) OR push_bit 8 (m_C s)\<rparr>);
       modify (\<lambda>s. setZN8 (ucast (m_C s AND 0xFF)) s) })]"

definition push_reg :: "'b buses \<Rightarrow> ('b w65 \<Rightarrow> bool) \<Rightarrow> ('b w65 \<Rightarrow> u8) \<Rightarrow> ('b w65 \<Rightarrow> u16) \<Rightarrow> ('b, unit) cpu" where
  "push_reg B width reg8 reg16 =
     ifM width (do { v \<leftarrow> gets reg8; push8 B v }) (do { v \<leftarrow> gets reg16; push16 B v })"

definition switch_stack_old :: "'b buses \<Rightarrow> (u8 \<times> ('b, unit) cpu) list" where
  "switch_stack_old B = [
    (0x48, push_reg B memory8 getA m_C),
    (0xDA, push_reg B index8 (\<lambda>s. lo8 (m_X s)) m_X),
    (0x5A, push_reg B index8 (\<lambda>s. lo8 (m_Y s)) m_Y),
    (0x08, do { v \<leftarrow> gets (\<lambda>s. if m_E s then m_P s OR W65_B else m_P s); push8 B v }),
    (0x8B, do { v \<leftarrow> gets m_DBR; push8 B v }),
    (0x4B, do { v \<leftarrow> gets m_PBR; push8 B v }),
    (0x68, ifM memory8
       (do { b \<leftarrow> pull8 B; modify (setAcc (ucast b)); modify (setZN8 b) })
       (do { v \<leftarrow> pull16 B; modify (\<lambda>s. s\<lparr>m_C := v\<rparr>); modify (\<lambda>s. setZN16 (m_C s) s) })),
    (0xFA, ifM index8
       (do { v \<leftarrow> pull8 B; modify (\<lambda>s. s\<lparr>m_X := ucast v\<rparr>); modify (\<lambda>s. setZN8 (lo8 (m_X s)) s) })
       (do { v \<leftarrow> pull16 B; modify (\<lambda>s. s\<lparr>m_X := v\<rparr>); modify (\<lambda>s. setZN16 (m_X s) s) })),
    (0x7A, ifM index8
       (do { v \<leftarrow> pull8 B; modify (\<lambda>s. s\<lparr>m_Y := ucast v\<rparr>); modify (\<lambda>s. setZN8 (lo8 (m_Y s)) s) })
       (do { v \<leftarrow> pull16 B; modify (\<lambda>s. s\<lparr>m_Y := v\<rparr>); modify (\<lambda>s. setZN16 (m_Y s) s) })),
    (0x28, do { v \<leftarrow> pull8 B; modify (\<lambda>s. s\<lparr>m_P := v\<rparr>); modify applyE }),
    (0xAB, do { v \<leftarrow> pull8 B; modify (\<lambda>s. s\<lparr>m_DBR := v\<rparr>); modify (\<lambda>s. setZN8 (m_DBR s) s) })]"

definition switch_stack_new :: "'b buses \<Rightarrow> (u8 \<times> ('b, unit) cpu) list" where
  "switch_stack_new B = [
    (0x0B, do { d \<leftarrow> gets m_D; push16New B d; modify applyE }),
    (0x2B, do { v \<leftarrow> pull16New B; modify (\<lambda>s. s\<lparr>m_D := v\<rparr>); modify (\<lambda>s. setZN16 (m_D s) s);
                modify applyE }),
    (0xF4, do { v \<leftarrow> fetch16 B; push16New B v; modify applyE }),
    (0xD4, do { ea \<leftarrow> eaDirect B; v \<leftarrow> read16Bank0 B (ucast ea); push16New B v; modify applyE }),
    (0x62, do { disp \<leftarrow> fetch16 B; v \<leftarrow> gets (\<lambda>s. m_PC s + disp); push16New B v; modify applyE })]"

definition switch_and :: "'b buses \<Rightarrow> (u8 \<times> ('b, unit) cpu) list" where
  "switch_and B = [
    (0x29, logic (AND) (immediateM B)),
    (0x25, logic (AND) (memM B (eaDirect B))),
    (0x35, logic (AND) (memM B (eaDirectX B))),
    (0x2D, logic (AND) (memM B (eaAbsolute B))),
    (0x3D, logic (AND) (memM B (eaAbsoluteX B))),
    (0x39, logic (AND) (memM B (eaAbsoluteY B))),
    (0x2F, logic (AND) (memM B (eaLong B))),
    (0x3F, logic (AND) (memM B (eaLongX B))),
    (0x21, logic (AND) (memM B (eaIndirectX B))),
    (0x31, logic (AND) (memM B (eaIndirectY B))),
    (0x32, logic (AND) (memM B (eaIndirect B))),
    (0x27, logic (AND) (memM B (eaIndirectLong B))),
    (0x37, logic (AND) (memM B (eaIndirectLongY B))),
    (0x23, logic (AND) (memM B (eaStackRelative B))),
    (0x33, logic (AND) (memM B (eaStackRelativeIndirectY B)))]"

definition switch_ora :: "'b buses \<Rightarrow> (u8 \<times> ('b, unit) cpu) list" where
  "switch_ora B = [
    (0x09, logic (OR) (immediateM B)),
    (0x05, logic (OR) (memM B (eaDirect B))),
    (0x15, logic (OR) (memM B (eaDirectX B))),
    (0x0D, logic (OR) (memM B (eaAbsolute B))),
    (0x1D, logic (OR) (memM B (eaAbsoluteX B))),
    (0x19, logic (OR) (memM B (eaAbsoluteY B))),
    (0x0F, logic (OR) (memM B (eaLong B))),
    (0x1F, logic (OR) (memM B (eaLongX B))),
    (0x01, logic (OR) (memM B (eaIndirectX B))),
    (0x11, logic (OR) (memM B (eaIndirectY B))),
    (0x12, logic (OR) (memM B (eaIndirect B))),
    (0x07, logic (OR) (memM B (eaIndirectLong B))),
    (0x17, logic (OR) (memM B (eaIndirectLongY B))),
    (0x03, logic (OR) (memM B (eaStackRelative B))),
    (0x13, logic (OR) (memM B (eaStackRelativeIndirectY B)))]"

definition switch_eor :: "'b buses \<Rightarrow> (u8 \<times> ('b, unit) cpu) list" where
  "switch_eor B = [
    (0x49, logic (XOR) (immediateM B)),
    (0x45, logic (XOR) (memM B (eaDirect B))),
    (0x55, logic (XOR) (memM B (eaDirectX B))),
    (0x4D, logic (XOR) (memM B (eaAbsolute B))),
    (0x5D, logic (XOR) (memM B (eaAbsoluteX B))),
    (0x59, logic (XOR) (memM B (eaAbsoluteY B))),
    (0x4F, logic (XOR) (memM B (eaLong B))),
    (0x5F, logic (XOR) (memM B (eaLongX B))),
    (0x41, logic (XOR) (memM B (eaIndirectX B))),
    (0x51, logic (XOR) (memM B (eaIndirectY B))),
    (0x52, logic (XOR) (memM B (eaIndirect B))),
    (0x47, logic (XOR) (memM B (eaIndirectLong B))),
    (0x57, logic (XOR) (memM B (eaIndirectLongY B))),
    (0x43, logic (XOR) (memM B (eaStackRelative B))),
    (0x53, logic (XOR) (memM B (eaStackRelativeIndirectY B)))]"

definition switch_bit :: "'b buses \<Rightarrow> (u8 \<times> ('b, unit) cpu) list" where
  "switch_bit B = [
    (0x89, operand (immediateM B) (\<lambda>v. opBIT v True)),
    (0x24, operand (memM B (eaDirect B)) (\<lambda>v. opBIT v False)),
    (0x34, operand (memM B (eaDirectX B)) (\<lambda>v. opBIT v False)),
    (0x2C, operand (memM B (eaAbsolute B)) (\<lambda>v. opBIT v False)),
    (0x3C, operand (memM B (eaAbsoluteX B)) (\<lambda>v. opBIT v False))]"

definition switch_trb_tsb :: "'b buses \<Rightarrow> (u8 \<times> ('b, unit) cpu) list" where
  "switch_trb_tsb B = [
    (0x14, test_and_modify B (eaDirect B) (\<lambda>v acc. v AND NOT acc)),
    (0x1C, test_and_modify B (eaAbsolute B) (\<lambda>v acc. v AND NOT acc)),
    (0x04, test_and_modify B (eaDirect B) (\<lambda>v acc. v OR acc)),
    (0x0C, test_and_modify B (eaAbsolute B) (\<lambda>v acc. v OR acc))]"

definition switch_adc_sbc :: "'b buses \<Rightarrow> (u8 \<times> ('b, unit) cpu) list" where
  "switch_adc_sbc B = [
    (0x69, operand (immediateM B) opADC),
    (0x65, operand (memM B (eaDirect B)) opADC),
    (0x75, operand (memM B (eaDirectX B)) opADC),
    (0x6D, operand (memM B (eaAbsolute B)) opADC),
    (0x7D, operand (memM B (eaAbsoluteX B)) opADC),
    (0x79, operand (memM B (eaAbsoluteY B)) opADC),
    (0x6F, operand (memM B (eaLong B)) opADC),
    (0x7F, operand (memM B (eaLongX B)) opADC),
    (0x61, operand (memM B (eaIndirectX B)) opADC),
    (0x71, operand (memM B (eaIndirectY B)) opADC),
    (0x72, operand (memM B (eaIndirect B)) opADC),
    (0x67, operand (memM B (eaIndirectLong B)) opADC),
    (0x77, operand (memM B (eaIndirectLongY B)) opADC),
    (0x63, operand (memM B (eaStackRelative B)) opADC),
    (0x73, operand (memM B (eaStackRelativeIndirectY B)) opADC),
    (0xE9, operand (immediateM B) opSBC),
    (0xE5, operand (memM B (eaDirect B)) opSBC),
    (0xF5, operand (memM B (eaDirectX B)) opSBC),
    (0xED, operand (memM B (eaAbsolute B)) opSBC),
    (0xFD, operand (memM B (eaAbsoluteX B)) opSBC),
    (0xF9, operand (memM B (eaAbsoluteY B)) opSBC),
    (0xEF, operand (memM B (eaLong B)) opSBC),
    (0xFF, operand (memM B (eaLongX B)) opSBC),
    (0xE1, operand (memM B (eaIndirectX B)) opSBC),
    (0xF1, operand (memM B (eaIndirectY B)) opSBC),
    (0xF2, operand (memM B (eaIndirect B)) opSBC),
    (0xE7, operand (memM B (eaIndirectLong B)) opSBC),
    (0xF7, operand (memM B (eaIndirectLongY B)) opSBC),
    (0xE3, operand (memM B (eaStackRelative B)) opSBC),
    (0xF3, operand (memM B (eaStackRelativeIndirectY B)) opSBC)]"

definition switch_cmp :: "'b buses \<Rightarrow> bool \<Rightarrow> bool \<Rightarrow> (u8 \<times> ('b, unit) cpu) list" where
  "switch_cmp B m8Entry x8Entry = [
    (0xC9, compare getAcc (immediateM B) m8Entry),
    (0xC5, compare getAcc (memM B (eaDirect B)) m8Entry),
    (0xD5, compare getAcc (memM B (eaDirectX B)) m8Entry),
    (0xCD, compare getAcc (memM B (eaAbsolute B)) m8Entry),
    (0xDD, compare getAcc (memM B (eaAbsoluteX B)) m8Entry),
    (0xD9, compare getAcc (memM B (eaAbsoluteY B)) m8Entry),
    (0xCF, compare getAcc (memM B (eaLong B)) m8Entry),
    (0xDF, compare getAcc (memM B (eaLongX B)) m8Entry),
    (0xC1, compare getAcc (memM B (eaIndirectX B)) m8Entry),
    (0xD1, compare getAcc (memM B (eaIndirectY B)) m8Entry),
    (0xD2, compare getAcc (memM B (eaIndirect B)) m8Entry),
    (0xC7, compare getAcc (memM B (eaIndirectLong B)) m8Entry),
    (0xD7, compare getAcc (memM B (eaIndirectLongY B)) m8Entry),
    (0xC3, compare getAcc (memM B (eaStackRelative B)) m8Entry),
    (0xD3, compare getAcc (memM B (eaStackRelativeIndirectY B)) m8Entry),
    (0xE0, compare getX (immediateX B) x8Entry),
    (0xE4, compare getX (memX B (eaDirect B)) x8Entry),
    (0xEC, compare getX (memX B (eaAbsolute B)) x8Entry),
    (0xC0, compare getY (immediateX B) x8Entry),
    (0xC4, compare getY (memX B (eaDirect B)) x8Entry),
    (0xCC, compare getY (memX B (eaAbsolute B)) x8Entry)]"

definition switch_inc_dec :: "'b buses \<Rightarrow> (u8 \<times> ('b, unit) cpu) list" where
  "switch_inc_dec B = [
    (0x1A, incdec_acc (1)),
    (0x3A, incdec_acc (-1)),
    (0xE8, incdec_x (1)),
    (0xC8, incdec_y (1)),
    (0xCA, incdec_x (-1)),
    (0x88, incdec_y (-1)),
    (0xE6, incdec_mem B (eaDirect B) (1)),
    (0xF6, incdec_mem B (eaDirectX B) (1)),
    (0xEE, incdec_mem B (eaAbsolute B) (1)),
    (0xFE, incdec_mem B (eaAbsoluteX B) (1)),
    (0xC6, incdec_mem B (eaDirect B) (-1)),
    (0xD6, incdec_mem B (eaDirectX B) (-1)),
    (0xCE, incdec_mem B (eaAbsolute B) (-1)),
    (0xDE, incdec_mem B (eaAbsoluteX B) (-1))]"

definition switch_shift :: "'b buses \<Rightarrow> (u8 \<times> ('b, unit) cpu) list" where
  "switch_shift B = [
    (0x0A, shift_acc asl_body),
    (0x4A, shift_acc lsr_body),
    (0x2A, shift_acc rol_body),
    (0x6A, shift_acc ror_body),
    (0x06, shift_mem B (eaDirect B) asl_body),
    (0x16, shift_mem B (eaDirectX B) asl_body),
    (0x0E, shift_mem B (eaAbsolute B) asl_body),
    (0x1E, shift_mem B (eaAbsoluteX B) asl_body),
    (0x46, shift_mem B (eaDirect B) lsr_body),
    (0x56, shift_mem B (eaDirectX B) lsr_body),
    (0x4E, shift_mem B (eaAbsolute B) lsr_body),
    (0x5E, shift_mem B (eaAbsoluteX B) lsr_body),
    (0x26, shift_mem B (eaDirect B) rol_body),
    (0x36, shift_mem B (eaDirectX B) rol_body),
    (0x2E, shift_mem B (eaAbsolute B) rol_body),
    (0x3E, shift_mem B (eaAbsoluteX B) rol_body),
    (0x66, shift_mem B (eaDirect B) ror_body),
    (0x76, shift_mem B (eaDirectX B) ror_body),
    (0x6E, shift_mem B (eaAbsolute B) ror_body),
    (0x7E, shift_mem B (eaAbsoluteX B) ror_body)]"

text \<open>A pointer in the program bank, for \<open>JMP (abs,X)\<close> and \<open>JSR (abs,X)\<close>.\<close>

definition read_pbr_pointer :: "'b buses \<Rightarrow> u16 \<Rightarrow> ('b, u16) cpu" where
  "read_pbr_pointer B ptr = do {
     k \<leftarrow> gets m_PBR;
     lo \<leftarrow> read8 B (bank_addr k ptr);
     hi \<leftarrow> read8 B (bank_addr k (ptr + 1));
     ret (word16 lo hi) }"

definition set_PC :: "u16 \<Rightarrow> ('b, unit) cpu" where
  "set_PC pc = modify (\<lambda>s. s\<lparr>m_PC := pc\<rparr>)"

definition set_PBR :: "u8 \<Rightarrow> ('b, unit) cpu" where
  "set_PBR k = modify (\<lambda>s. s\<lparr>m_PBR := k\<rparr>)"

definition switch_jump :: "'b buses \<Rightarrow> (u8 \<times> ('b, unit) cpu) list" where
  "switch_jump B = [
    (0x4C, do { t \<leftarrow> fetch16 B; set_PC t }),
    (0x6C, do { ea \<leftarrow> fetch16 B; t \<leftarrow> read16Bank0 B ea; set_PC t }),
    (0x7C, do { base \<leftarrow> fetch16 B; x \<leftarrow> gets getX; t \<leftarrow> read_pbr_pointer B (base + x); set_PC t }),
    (0x5C, do { t \<leftarrow> fetch24 B; set_PC (ucast (t AND 0xFFFF)); set_PBR (ucast (drop_bit 16 t)) }),
    (0xDC, do { ea \<leftarrow> fetch16 B; t \<leftarrow> read16Bank0 B ea; set_PC t;
                k \<leftarrow> read8 B (ucast (ea + 2)); set_PBR k }),
    (0x20, do { t \<leftarrow> fetch16 B; pc \<leftarrow> gets m_PC; push16 B (pc - 1); set_PC t }),
    (0xFC, do { base \<leftarrow> fetch16 B; x \<leftarrow> gets getX; pc \<leftarrow> gets m_PC; push16New B (pc - 1);
                t \<leftarrow> read_pbr_pointer B (base + x); set_PC t; modify applyE }),
    (0x22, do { t \<leftarrow> fetch24 B; k \<leftarrow> gets m_PBR; push8New B k;
                pc \<leftarrow> gets m_PC; push16New B (pc - 1);
                set_PC (ucast (t AND 0xFFFF)); set_PBR (ucast (drop_bit 16 t)); modify applyE }),
    (0x60, do { t \<leftarrow> pull16 B; set_PC (t + 1) }),
    (0x6B, do { t \<leftarrow> pull16New B; set_PC (t + 1); k \<leftarrow> pull8New B; set_PBR k; modify applyE }),
    (0x40, do { p \<leftarrow> pull8 B; modify (\<lambda>s. s\<lparr>m_P := p\<rparr>);
                t \<leftarrow> pull16 B; set_PC t;
                ifM (\<lambda>s. \<not> m_E s) (do { k \<leftarrow> pull8 B; set_PBR k }) (ret ());
                modify applyE })]"

definition switch_branch :: "'b buses \<Rightarrow> (u8 \<times> ('b, unit) cpu) list" where
  "switch_branch B = [
    (0x10, W65_BRANCH B (\<lambda>s. \<not> has (m_P s) W65_N)),
    (0x30, W65_BRANCH B (\<lambda>s. has (m_P s) W65_N)),
    (0x50, W65_BRANCH B (\<lambda>s. \<not> has (m_P s) W65_V)),
    (0x70, W65_BRANCH B (\<lambda>s. has (m_P s) W65_V)),
    (0x90, W65_BRANCH B (\<lambda>s. \<not> has (m_P s) W65_C)),
    (0xB0, W65_BRANCH B (\<lambda>s. has (m_P s) W65_C)),
    (0xD0, W65_BRANCH B (\<lambda>s. \<not> has (m_P s) W65_Z)),
    (0xF0, W65_BRANCH B (\<lambda>s. has (m_P s) W65_Z)),
    (0x80, W65_BRANCH B (\<lambda>_. True)),
    (0x82, do { disp \<leftarrow> fetch16 B; pc \<leftarrow> gets m_PC; set_PC (pc + disp) })]"

definition clear_P :: "u8 \<Rightarrow> ('b, unit) cpu" where
  "clear_P msk = modify (\<lambda>s. s\<lparr>m_P := m_P s AND NOT msk\<rparr>)"

definition set_P :: "u8 \<Rightarrow> ('b, unit) cpu" where
  "set_P msk = modify (\<lambda>s. s\<lparr>m_P := m_P s OR msk\<rparr>)"

definition exchange_carry_emulation :: "'b w65 \<Rightarrow> 'b w65" where
  "exchange_carry_emulation s =
     (let oldE = m_E s; s = s\<lparr>m_E := has (m_P s) W65_C\<rparr>
      in applyE (setFlag W65_C oldE s))"

definition switch_flags :: "'b buses \<Rightarrow> (u8 \<times> ('b, unit) cpu) list" where
  "switch_flags B = [
    (0x18, clear_P W65_C),
    (0x38, set_P W65_C),
    (0x58, clear_P W65_I),
    (0x78, set_P W65_I),
    (0xB8, clear_P W65_V),
    (0xD8, clear_P W65_D),
    (0xF8, set_P W65_D),
    (0xC2, do { v \<leftarrow> fetch8 B; clear_P v; modify applyE }),
    (0xE2, do { v \<leftarrow> fetch8 B; set_P v; modify applyE }),
    (0xFB, modify exchange_carry_emulation)]"

text \<open>One iteration of a block move: the byte, the bank, the counters, and the program counter parked
  on the opcode until the count runs out.\<close>

definition move_counters :: "bool \<Rightarrow> 'b w65 \<Rightarrow> 'b w65" where
  "move_counters up s =
     (let nx = (if up then m_X s + 1 else m_X s - 1);
          ny = (if up then m_Y s + 1 else m_Y s - 1)
      in if index8 s then s\<lparr>m_X := nx AND 0xFF, m_Y := ny AND 0xFF\<rparr>
         else s\<lparr>m_X := nx, m_Y := ny\<rparr>)"

definition block_move :: "'b buses \<Rightarrow> bool \<Rightarrow> ('b, unit) cpu" where
  "block_move B up = do {
     dstBank \<leftarrow> fetch8 B;
     srcBank \<leftarrow> fetch8 B;
     src \<leftarrow> gets (\<lambda>s. bank_addr srcBank (getX s));
     v \<leftarrow> read8 B src;
     dst \<leftarrow> gets (\<lambda>s. bank_addr dstBank (getY s));
     write8 B dst v;
     modify (\<lambda>s. s\<lparr>m_DBR := dstBank\<rparr>);
     modify (move_counters up);
     modify (\<lambda>s. s\<lparr>m_C := m_C s - 1\<rparr>);
     modify (\<lambda>s. if m_C s \<noteq> 0xFFFF then s\<lparr>m_PC := m_PC s - 3\<rparr> else s) }"

definition switch_block :: "'b buses \<Rightarrow> (u8 \<times> ('b, unit) cpu) list" where
  "switch_block B = [(0x54, block_move B True), (0x44, block_move B False)]"

definition switch_control :: "'b buses \<Rightarrow> (u8 \<times> ('b, unit) cpu) list" where
  "switch_control B = [
    (0x00, do { _ \<leftarrow> fetch8 B; serviceInterrupt B W65_VEC_NATIVE_BRK W65_VEC_EMU_BRK True }),
    (0x02, do { _ \<leftarrow> fetch8 B; serviceInterrupt B W65_VEC_NATIVE_COP W65_VEC_EMU_COP True }),
    (0xDB, modify (\<lambda>s. s\<lparr>m_Stopped := True, m_Pending := m_Pending s OR W65_PEND_STOPPED\<rparr>)),
    (0xCB, modify (\<lambda>s. s\<lparr>m_Waiting := True, m_Pending := m_Pending s OR W65_PEND_WAITING\<rparr>)),
    (0xEA, ret ()),
    (0x42, do { _ \<leftarrow> fetch8 B; ret () })]"

definition switch_table :: "'b buses \<Rightarrow> bool \<Rightarrow> bool \<Rightarrow> (u8 \<times> ('b, unit) cpu) list" where
  "switch_table B m8Entry x8Entry =
     switch_lda B @ switch_ldx_ldy B @ switch_sta B @ switch_stx_sty_stz B @ switch_transfers
     @ switch_stack_old B @ switch_stack_new B @ switch_and B @ switch_ora B @ switch_eor B
     @ switch_bit B @ switch_trb_tsb B @ switch_adc_sbc B @ switch_cmp B m8Entry x8Entry
     @ switch_inc_dec B @ switch_shift B @ switch_jump B @ switch_branch B @ switch_flags B
     @ switch_block B @ switch_control B"

lemmas switch_defs =
  switch_lda_def switch_ldx_ldy_def switch_sta_def switch_stx_sty_stz_def switch_transfers_def
  switch_stack_old_def switch_stack_new_def switch_and_def switch_ora_def switch_eor_def
  switch_bit_def switch_trb_tsb_def switch_adc_sbc_def switch_cmp_def switch_inc_dec_def
  switch_shift_def switch_jump_def switch_branch_def switch_flags_def switch_block_def
  switch_control_def

definition generic_switch :: "'b buses \<Rightarrow> bool \<Rightarrow> bool \<Rightarrow> u8 \<Rightarrow> ('b, unit) cpu" where
  "generic_switch B m8Entry x8Entry opcode =
     (case map_of (switch_table B m8Entry x8Entry) opcode of Some m \<Rightarrow> m | None \<Rightarrow> ret ())"

end
