(* ===== verification/W65Step.thy ===== *)
theory W65Step
  imports W65Switch "HOL-Library.While_Combinator"
begin

text \<open>
  Execution of the 65C816 core: the cold prologue (stop, interrupt sampling, NMI, WAI, IRQ), the
  flattened fast path for emulation mode, the generic path with its table-driven cycle count, and the
  entries \<open>step\<close>, \<open>stepNoTick\<close> and \<open>run\<close> of \<open>w65c816.cpp\<close>. An early \<open>return\<close> of \<open>stepInner\<close> is the
  value \<open>Some cycles\<close>; falling through is \<open>None\<close>. \<open>run\<close> is a \<open>while_option\<close>: a run that never returned
  would be \<open>None\<close>.
\<close>

unbundle bit_operations_syntax

section \<open>The cold prologue\<close>

definition add_cycles :: "u32 \<Rightarrow> 'b w65 \<Rightarrow> 'b w65" where
  "add_cycles c s = s\<lparr>m_Cycles := m_Cycles s + ucast c\<rparr>"

definition note_lines :: "bool \<Rightarrow> bool \<Rightarrow> 'b w65 \<Rightarrow> 'b w65" where
  "note_lines irq nmiLevel s =
     (let s = (if nmiLevel \<and> \<not> m_NMIPrevLevel s then s\<lparr>m_NMIPending := True\<rparr> else s);
          s = s\<lparr>m_NMIPrevLevel := nmiLevel\<rparr>
      in s\<lparr>m_Pending :=
           (m_Pending s AND NOT (W65_PEND_SAMPLE OR W65_PEND_IRQLINE OR W65_PEND_NMI))
           OR (if irq then W65_PEND_IRQLINE else 0)
           OR (if m_NMIPending s then W65_PEND_NMI else 0)\<rparr>)"

definition sample_lines :: "'b buses \<Rightarrow> ('b, bool) cpu" where
  "sample_lines B = do {
     lines \<leftarrow> busInterrupts B;
     modify (note_lines (fst lines) (snd lines));
     ret (fst lines) }"

definition interrupt_cycles :: "'b w65 \<Rightarrow> u32" where
  "interrupt_cycles s = (if m_E s then 7 else 8)"

definition take_nmi :: "'b buses \<Rightarrow> ('b, u32 option) cpu" where
  "take_nmi B = do {
     modify (\<lambda>s. s\<lparr>m_NMIPending := False, m_Waiting := False,
                   m_Pending := m_Pending s AND NOT (W65_PEND_NMI OR W65_PEND_WAITING),
                   m_NMIsTaken := m_NMIsTaken s + 1, m_LastNMITakeCycles := m_Cycles s,
                   w_bus := bus_note_nmi B (w_bus s)\<rparr>);
     c \<leftarrow> gets interrupt_cycles;
     serviceInterrupt B W65_VEC_NATIVE_NMI W65_VEC_EMU_NMI False;
     modify (add_cycles c);
     ret (Some c) }"

definition take_irq :: "'b buses \<Rightarrow> ('b, u32 option) cpu" where
  "take_irq B = do {
     modify (\<lambda>s. s\<lparr>m_IRQsTaken := m_IRQsTaken s + 1\<rparr>);
     c \<leftarrow> gets interrupt_cycles;
     serviceInterrupt B W65_VEC_NATIVE_IRQ W65_VEC_EMU_IRQ False;
     modify (add_cycles c);
     ret (Some c) }"

definition idle_cycle :: "('b, u32 option) cpu" where
  "idle_cycle = do { modify (add_cycles 1); ret (Some 1) }"

definition nmi_due :: "'b w65 \<Rightarrow> bool" where
  "nmi_due s = (m_NMIPending s \<and> \<not> (m_DeferNativeNMI s \<and> \<not> m_E s))"

definition count_deferred :: "'b w65 \<Rightarrow> 'b w65" where
  "count_deferred s =
     (if m_NMIPending s \<and> m_DeferNativeNMI s \<and> \<not> m_E s
      then s\<lparr>m_NMIsDeferred := m_NMIsDeferred s + 1\<rparr> else s)"

definition wake :: "'b w65 \<Rightarrow> 'b w65" where
  "wake s = (if m_Waiting s
             then s\<lparr>m_Waiting := False, m_Pending := m_Pending s AND NOT W65_PEND_WAITING\<rparr> else s)"

definition prologue :: "'b buses \<Rightarrow> ('b, u32 option) cpu" where
  "prologue B = ifM m_Stopped idle_cycle (do {
     irq0 \<leftarrow> gets (\<lambda>s. has (m_Pending s) W65_PEND_IRQLINE);
     irq \<leftarrow> ifM (\<lambda>s. has (m_Pending s) W65_PEND_SAMPLE) (sample_lines B) (ret irq0);
     ifM nmi_due (take_nmi B) (do {
       modify count_deferred;
       ifM (\<lambda>s. m_Waiting s \<and> \<not> irq) idle_cycle (do {
         modify wake;
         ifM (\<lambda>s. irq \<and> \<not> has (m_P s) W65_I) (take_irq B) (ret None) }) }) })"

section \<open>The emulation-mode fast path\<close>

definition rd8E :: "'b buses \<Rightarrow> u32 \<Rightarrow> ('b, u8) cpu" where
  "rd8E B a = busRead8 B (a AND SCPU_ADDR_MASK)"

definition wr8E :: "'b buses \<Rightarrow> u32 \<Rightarrow> u8 \<Rightarrow> ('b, unit) cpu" where
  "wr8E B a v = busWrite8 B (a AND SCPU_ADDR_MASK) v"

definition f8E :: "'b buses \<Rightarrow> ('b, u8) cpu" where
  "f8E B = do {
     pc \<leftarrow> gets (\<lambda>s. bank_addr (m_PBR s) (m_PC s));
     v \<leftarrow> rd8E B pc;
     modify (\<lambda>s. s\<lparr>m_PC := m_PC s + 1\<rparr>);
     ret v }"

definition pushE8 :: "'b buses \<Rightarrow> u8 \<Rightarrow> ('b, unit) cpu" where
  "pushE8 B v = do {
     sp \<leftarrow> gets m_S;
     wr8E B (ucast sp) v;
     modify (\<lambda>s. s\<lparr>m_S := 0x0100 OR ((m_S s - 1) AND 0xFF)\<rparr>) }"

definition pullE8 :: "'b buses \<Rightarrow> ('b, u8) cpu" where
  "pullE8 B = do {
     modify (\<lambda>s. s\<lparr>m_S := 0x0100 OR ((m_S s + 1) AND 0xFF)\<rparr>);
     sp \<leftarrow> gets m_S;
     rd8E B (ucast sp) }"

definition znE :: "u8 \<Rightarrow> 'b w65 \<Rightarrow> 'b w65" where
  "znE v s = s\<lparr>m_P := (m_P s AND NOT (W65_Z OR W65_N)) OR (if v = 0 then W65_Z else 0) OR (v AND 0x80)\<rparr>"

definition emuDoneE :: "u32 \<Rightarrow> ('b, u32) cpu" where
  "emuDoneE used = do { modify (add_cycles used); ret used }"

definition dp_penalty :: "'b w65 \<Rightarrow> u32" where
  "dp_penalty s = (if dp_unaligned s then 1 else 0)"

definition fast_set_A :: "u8 \<Rightarrow> 'b w65 \<Rightarrow> 'b w65" where
  "fast_set_A n s = znE n (setA n s)"

definition fast_abs :: "'b buses \<Rightarrow> ('b, u32) cpu" where
  "fast_abs B = do { lo \<leftarrow> f8E B; hi \<leftarrow> f8E B; gets (\<lambda>s. bank_addr (m_DBR s) (word16 lo hi)) }"

definition fast_lda_indexed :: "'b buses \<Rightarrow> ('b w65 \<Rightarrow> u16) \<Rightarrow> ('b, u32) cpu" where
  "fast_lda_indexed B reg = do {
     lo \<leftarrow> f8E B; hi \<leftarrow> f8E B;
     idx \<leftarrow> gets reg;
     a \<leftarrow> gets (\<lambda>s. (bank_addr (m_DBR s) (word16 lo hi) + ucast idx) AND SCPU_ADDR_MASK);
     n \<leftarrow> rd8E B a;
     modify (fast_set_A n);
     emuDoneE (4 + (if page_crossed (word16 lo hi) (word16 lo hi + idx) then 1 else 0)) }"

definition fast_logic :: "'b buses \<Rightarrow> (u8 \<Rightarrow> u8 \<Rightarrow> u8) \<Rightarrow> ('b, u32) cpu" where
  "fast_logic B f = do { v \<leftarrow> f8E B; modify (\<lambda>s. fast_set_A (f (getA s) v) s); emuDoneE 2 }"

definition fast_step_x :: "u8 \<Rightarrow> ('b, u32) cpu" where
  "fast_step_x d = do {
     modify (\<lambda>s. s\<lparr>m_X := ucast (lo8 (m_X s) + d)\<rparr>);
     modify (\<lambda>s. znE (lo8 (m_X s)) s); emuDoneE 2 }"

definition fast_step_y :: "u8 \<Rightarrow> ('b, u32) cpu" where
  "fast_step_y d = do {
     modify (\<lambda>s. s\<lparr>m_Y := ucast (lo8 (m_Y s) + d)\<rparr>);
     modify (\<lambda>s. znE (lo8 (m_Y s)) s); emuDoneE 2 }"

definition flagSel :: "u8 list" where
  "flagSel = [W65_N, W65_V, W65_C, W65_Z]"

definition fast_branch :: "'b buses \<Rightarrow> u8 \<Rightarrow> ('b, u32) cpu" where
  "fast_branch B opcode = do {
     disp \<leftarrow> f8E B;
     target \<leftarrow> gets (\<lambda>s. m_PC s + scast disp);
     crossed \<leftarrow> gets (\<lambda>s. page_crossed (m_PC s) target);
     cond \<leftarrow> gets (\<lambda>s. has (m_P s) (flagSel ! unat (drop_bit 6 opcode)) = (opcode AND 0x20 \<noteq> 0));
     modify (\<lambda>s. if cond then s\<lparr>m_PC := target\<rparr> else s);
     emuDoneE (2 + (if cond then 1 + (if crossed then 1 else 0) else 0)) }"

definition fast_table :: "'b buses \<Rightarrow> (u8 \<times> ('b, u32) cpu) list" where
  "fast_table B = [
    (0xA9, do { n \<leftarrow> f8E B; modify (fast_set_A n); emuDoneE 2 }),
    (0xA5, do { off \<leftarrow> f8E B; a \<leftarrow> gets (\<lambda>s. ucast (ucast off + m_D s));
                n \<leftarrow> rd8E B a; modify (fast_set_A n);
                p \<leftarrow> gets dp_penalty; emuDoneE (3 + p) }),
    (0xAD, do { a \<leftarrow> fast_abs B; n \<leftarrow> rd8E B a; modify (fast_set_A n); emuDoneE 4 }),
    (0xBD, fast_lda_indexed B m_X),
    (0xB9, fast_lda_indexed B m_Y),
    (0xA2, do { n \<leftarrow> f8E B; modify (\<lambda>s. s\<lparr>m_X := ucast n\<rparr>); modify (\<lambda>s. znE (lo8 (m_X s)) s);
                emuDoneE 2 }),
    (0xA0, do { n \<leftarrow> f8E B; modify (\<lambda>s. s\<lparr>m_Y := ucast n\<rparr>); modify (\<lambda>s. znE (lo8 (m_Y s)) s);
                emuDoneE 2 }),
    (0x85, do { off \<leftarrow> f8E B; a \<leftarrow> gets (\<lambda>s. ucast (ucast off + m_D s));
                v \<leftarrow> gets getA; wr8E B a v;
                p \<leftarrow> gets dp_penalty; emuDoneE (3 + p) }),
    (0x8D, do { a \<leftarrow> fast_abs B; v \<leftarrow> gets getA; wr8E B a v; emuDoneE 4 }),
    (0x49, fast_logic B (XOR)),
    (0x29, fast_logic B (AND)),
    (0x09, fast_logic B (OR)),
    (0xC9, do { n \<leftarrow> f8E B; a \<leftarrow> gets getA;
                modify (\<lambda>s. s\<lparr>m_P := (m_P s AND NOT W65_C) OR (if a \<ge> n then W65_C else 0)\<rparr>);
                modify (znE (a - n)); emuDoneE 2 }),
    (0xE8, fast_step_x 1),
    (0xCA, fast_step_x (-1)),
    (0xC8, fast_step_y 1),
    (0x88, fast_step_y (-1)),
    (0x10, fast_branch B 0x10), (0x30, fast_branch B 0x30), (0x90, fast_branch B 0x90),
    (0xB0, fast_branch B 0xB0), (0xD0, fast_branch B 0xD0), (0xF0, fast_branch B 0xF0),
    (0x4C, do { lo \<leftarrow> f8E B; hi \<leftarrow> f8E B; set_PC (word16 lo hi); emuDoneE 3 }),
    (0x20, do { lo \<leftarrow> f8E B; hi \<leftarrow> f8E B; r \<leftarrow> gets (\<lambda>s. m_PC s - 1);
                pushE8 B (hi8 r); pushE8 B (lo8 r);
                set_PC (word16 lo hi); emuDoneE 6 }),
    (0x60, do { lo \<leftarrow> pullE8 B; hi \<leftarrow> pullE8 B; set_PC (word16 lo hi + 1); emuDoneE 6 }),
    (0x18, do { clear_P W65_C; emuDoneE 2 }),
    (0x38, do { set_P W65_C; emuDoneE 2 })]"

definition fast_switch :: "'b buses \<Rightarrow> u8 \<Rightarrow> ('b, u32 option) cpu" where
  "fast_switch B opcode =
     (case map_of (fast_table B) opcode of
        Some m \<Rightarrow> do { used \<leftarrow> m; ret (Some used) }
      | None \<Rightarrow> ret None)"

section \<open>The generic path and single steps\<close>

definition clear_scratch :: "'b w65 \<Rightarrow> 'b w65" where
  "clear_scratch s = s\<lparr>m_PageCross := False, m_BranchTaken := False, m_EABank0 := False\<rparr>"

definition count_native :: "'b w65 \<Rightarrow> 'b w65" where
  "count_native s = (if m_E s then s else s\<lparr>m_NativeInstructions := m_NativeInstructions s + 1\<rparr>)"

definition generic_path :: "'b buses \<Rightarrow> u8 \<Rightarrow> ('b, u32) cpu" where
  "generic_path B opcode = do {
     modify clear_scratch;
     cycKey \<leftarrow> gets m_CycKey;
     modify count_native;
     generic_switch B (has cycKey 1) (has cycKey 2) opcode;
     used \<leftarrow> gets (\<lambda>s. lut_cycles cycKey opcode (m_PageCross s) (m_BranchTaken s));
     modify (add_cycles used);
     ret used }"

definition dispatch :: "'b buses \<Rightarrow> u8 \<Rightarrow> ('b, u32) cpu" where
  "dispatch B opcode = do {
     fast \<leftarrow> ifM m_E (fast_switch B opcode) (ret None);
     case fast of Some used \<Rightarrow> ret used | None \<Rightarrow> generic_path B opcode }"

definition stepInner :: "'b buses \<Rightarrow> ('b, u32) cpu" where
  "stepInner B = do {
     early \<leftarrow> ifM (\<lambda>s. m_Pending s \<noteq> 0) (prologue B) (ret None);
     case early of
       Some c \<Rightarrow> ret c
     | None \<Rightarrow> do { opcode \<leftarrow> fetch8 B; dispatch B opcode } }"

definition stepNoTick :: "'b buses \<Rightarrow> ('b, u32) cpu" where
  "stepNoTick B = do { modify rebuildPending; stepInner B }"

definition w65_step :: "'b buses \<Rightarrow> ('b, u32) cpu" where
  "w65_step B = do { used \<leftarrow> stepNoTick B; busTick B used; ret used }"

section \<open>The run loop\<close>

primrec batch :: "'b buses \<Rightarrow> nat \<Rightarrow> ('b, unit) cpu" where
  "batch B 0 = ret ()"
| "batch B (Suc k) = do {
     _ \<leftarrow> stepInner B;
     ifM (\<lambda>s. m_RunBreak s \<or> m_Stopped s) (ret ())
       (ifM (\<lambda>s. bus_fine_ticks B (w_bus s)) (ret ()) (batch B k)) }"

definition run_iteration :: "'b buses \<Rightarrow> u64 \<Rightarrow> u64 \<Rightarrow> ('b, unit) cpu" where
  "run_iteration B start nCycles = do {
     tickBase \<leftarrow> gets m_Cycles;
     ifM (\<lambda>s. nCycles - (m_Cycles s - start) > 80)
       (batch B 8)
       (do { _ \<leftarrow> stepInner B; ret () });
     used \<leftarrow> gets (\<lambda>s. ucast (m_Cycles s - tickBase));
     busTick B used;
     modify (\<lambda>s. s\<lparr>m_Pending := m_Pending s OR W65_PEND_SAMPLE\<rparr>) }"

definition run_loop :: "'b buses \<Rightarrow> u64 \<Rightarrow> u64 \<Rightarrow> 'b w65 \<Rightarrow> (bool \<times> 'b w65) option" where
  "run_loop B start nCycles s =
     while_option
       (\<lambda>(halted, s). \<not> halted \<and> m_Cycles s - start < nCycles \<and> \<not> m_RunBreak s)
       (\<lambda>(halted, s). let s' = exec_state (run_iteration B start nCycles) s in (m_Stopped s', s'))
       (False, s)"

definition w65_run :: "'b buses \<Rightarrow> u64 \<Rightarrow> 'b w65 \<Rightarrow> (u64 \<times> 'b w65) option" where
  "w65_run B nCycles s =
     (case run_loop B (m_Cycles s) nCycles (rebuildPending (s\<lparr>m_RunBreak := False\<rparr>)) of
        None \<Rightarrow> None
      | Some (halted, s') \<Rightarrow> Some (m_Cycles s' - m_Cycles s, s'))"

end
