(* ===== verification/W65Invariant.thy ===== *)
theory W65Invariant
  imports W65Step
begin

text \<open>
  The register invariant of the 65C816 core (the comment at \<open>applyE\<close> in \<open>w65c816.h\<close>): while E is
  set, m and x read as set and S stays in page 1; with 8-bit index registers X and Y fit in a byte;
  the cached widths and the cycle-table key agree with the registers. \<open>applyE\<close> establishes it from
  any state, and every one of the 256 instruction bodies, the fast path, the interrupt entry, \<open>step\<close>
  and \<open>run\<close> preserve it, so it holds in every state reachable from a reset.
\<close>

unbundle bit_operations_syntax

definition width_view :: "'b w65 \<Rightarrow> bool \<times> bool \<times> bool \<times> u16 \<times> u16 \<times> u16 \<times> u16 \<times> bool \<times> bool \<times> u8" where
  "width_view s = (m_E s, has (m_P s) W65_M, has (m_P s) W65_X, m_S s, m_X s, m_Y s, m_D s, m_M8 s, m_X8 s, m_CycKey s)"

definition cpu_ok :: "'b w65 \<Rightarrow> bool" where
  "cpu_ok s \<longleftrightarrow>
     (m_E s \<longrightarrow> has (m_P s) W65_M \<and> has (m_P s) W65_X \<and> m_S s AND 0xFF00 = 0x0100)
     \<and> m_M8 s = (m_E s \<or> has (m_P s) W65_M) \<and> m_X8 s = (m_E s \<or> has (m_P s) W65_X)
     \<and> (m_X8 s \<longrightarrow> m_X s \<le> 0xFF \<and> m_Y s \<le> 0xFF)
     \<and> m_CycKey s = cyc_key (m_M8 s) (m_X8 s) (m_E s) (dp_unaligned s)"

lemma cpu_ok_view:
  "cpu_ok s = (\<lambda>(e, pm, px, sp, x, y, d, m8, x8, ck).
     (e \<longrightarrow> pm \<and> px \<and> sp AND 0xFF00 = 0x0100) \<and> m8 = (e \<or> pm) \<and> x8 = (e \<or> px)
     \<and> (x8 \<longrightarrow> x \<le> 0xFF \<and> y \<le> 0xFF) \<and> ck = cyc_key m8 x8 e (d AND 0xFF \<noteq> 0)) (width_view s)"
  by (simp add: cpu_ok_def width_view_def dp_unaligned_def)

lemma pres_view: "keeps width_view m \<Longrightarrow> pres cpu_ok m"
  by (erule pres_keeps) (rule cpu_ok_view)

definition establishes :: "('s \<Rightarrow> bool) \<Rightarrow> ('s, 'a) state \<Rightarrow> bool" where
  "establishes I m \<longleftrightarrow> (\<forall>s. I (exec_state m s))"

lemma establishes_pres: "establishes I m \<Longrightarrow> pres I m"
  by (simp add: establishes_def pres_def)

lemma establishes_bind: "(\<And>a. establishes I (g a)) \<Longrightarrow> establishes I (State_Monad.bind m g)"
  by (simp add: establishes_def case_prod_beta)

lemma and_FF_or: "(0x0100 OR (v AND 0xFF)) AND 0xFF00 = 0x0100" for v :: u16
proof -
  have "(v AND 0xFF) AND 0xFF00 = 0" by (simp add: and.assoc)
  then show ?thesis by (simp add: bit.conj_disj_distrib2)
qed

lemma and_or_FF: "(0x0100 OR v AND 0xFF) AND 0xFF00 = 0x0100" for v :: u16
  by (rule and_FF_or)

lemma cpu_ok_applyE: "cpu_ok (applyE s)"
proof -
  have M: "has (p OR (W65_M OR W65_X)) W65_M" "has (p OR (W65_M OR W65_X)) W65_X" for p
    by (simp_all add: flag_simps) (simp_all add: w65_flag_defs bit_simps)
  show ?thesis
    by (auto simp: cpu_ok_def applyE_def force_widths_def cache_widths_def Let_def dp_unaligned_def
        M and_FF_or)
qed

lemma establishes_applyE: "establishes cpu_ok (modify applyE)"
  by (simp add: establishes_def cpu_ok_applyE)

lemma keeps_State: "(\<And>s. f (snd (g s)) = f s) \<Longrightarrow> keeps f (State g)"
  by (simp add: keeps_def)

lemma keeps_bus [keeps_intros]:
  "keeps width_view (busRead8 B a)" "keeps width_view (busWrite8 B a v)"
  "keeps width_view (busInterrupts B)" "keeps width_view (busTick B n)"
  by (auto simp: keeps_def busRead8_def busWrite8_def busInterrupts_def busTick_def width_view_def
      Let_def split: prod.splits)

lemma view_PC [simp]: "width_view (s\<lparr>m_PC := p\<rparr>) = width_view s"
  "width_view (s\<lparr>m_PBR := k\<rparr>) = width_view s" "width_view (s\<lparr>m_DBR := k\<rparr>) = width_view s"
  "width_view (s\<lparr>m_C := c\<rparr>) = width_view s" "width_view (s\<lparr>m_PageCross := b\<rparr>) = width_view s"
  "width_view (s\<lparr>m_BranchTaken := b\<rparr>) = width_view s" "width_view (s\<lparr>m_EABank0 := b\<rparr>) = width_view s"
  "width_view (s\<lparr>m_Stopped := b\<rparr>) = width_view s" "width_view (s\<lparr>m_Waiting := b\<rparr>) = width_view s"
  "width_view (s\<lparr>m_Pending := q\<rparr>) = width_view s" "width_view (s\<lparr>w_bus := bus\<rparr>) = width_view s"
  "width_view (s\<lparr>m_Cycles := n\<rparr>) = width_view s"
  by (simp_all add: width_view_def)

lemmas memory_defs =
  fetch8_def fetch16_def fetch24_def read8_def write8_def read16_def write16_def read16Bank0_def
  readDPPointer_def rmwWrite_def read16Operand_def write16Operand_def readM_def writeM_def
  readX_def writeX_def immediateM_def immediateX_def

lemma keeps_memory [keeps_intros]:
  "keeps width_view (fetch8 B)" "keeps width_view (fetch16 B)" "keeps width_view (fetch24 B)"
  "keeps width_view (read8 B a)" "keeps width_view (write8 B a b)"
  "keeps width_view (read16Bank0 B w)" "keeps width_view (readDPPointer B a)"
  "keeps width_view (rmwWrite B a w w')" "keeps width_view (readM B a)" "keeps width_view (writeM B a w)"
  "keeps width_view (readX B a)" "keeps width_view (writeX B a w)"
  "keeps width_view (immediateM B)" "keeps width_view (immediateX B)"
  by (unfold memory_defs) (intro keeps_intros; simp)+

lemma view_scratch [simp]: "width_view (set_EABank0 b s) = width_view s"
  "width_view (note_page_cross b s) = width_view s"
  by (simp_all add: set_EABank0_def note_page_cross_def)

lemmas ea_defs =
  eaDirect_def eaDirectIndexed_def eaAbsolute_def eaAbsoluteIndexed_def eaLong_def eaLongIndexed_def
  eaIndirect_def eaIndirectX_def eaIndirectY_def eaIndirectLong_def eaIndirectLongY_def
  eaStackRelative_def eaStackRelativeIndirectY_def eaDirectX_def eaDirectY_def eaAbsoluteX_def
  eaAbsoluteY_def eaLongX_def

lemma keeps_ea [keeps_intros]:
  "keeps width_view (eaDirect B)" "keeps width_view (eaDirectIndexed B i)" "keeps width_view (eaAbsolute B)"
  "keeps width_view (eaAbsoluteIndexed B i)" "keeps width_view (eaLong B)" "keeps width_view (eaLongIndexed B i)"
  "keeps width_view (eaIndirect B)" "keeps width_view (eaIndirectX B)" "keeps width_view (eaIndirectY B)"
  "keeps width_view (eaIndirectLong B)" "keeps width_view (eaIndirectLongY B)"
  "keeps width_view (eaStackRelative B)" "keeps width_view (eaStackRelativeIndirectY B)"
  "keeps width_view (eaDirectX B)" "keeps width_view (eaDirectY B)" "keeps width_view (eaAbsoluteX B)"
  "keeps width_view (eaAbsoluteY B)" "keeps width_view (eaLongX B)"
  by (unfold ea_defs) (intro keeps_intros; simp)+

lemma keeps_mem [keeps_intros]:
  "keeps width_view a \<Longrightarrow> keeps width_view (memM B a)" "keeps width_view a \<Longrightarrow> keeps width_view (memX B a)"
  by (simp_all add: memM_def memX_def keeps_intros)

section \<open>Register updates\<close>

lemma view_setAcc [simp]: "width_view (setAcc v s) = width_view s" "width_view (setA b s) = width_view s"
  by (simp_all add: setAcc_def setA_def)

lemma view_setFlag:
  "f \<in> {W65_C, W65_Z, W65_I, W65_D, W65_V, W65_N} \<Longrightarrow> width_view (setFlag f b s) = width_view s"
  by (auto simp: width_view_def flag_simps)

lemma view_setZN [simp]:
  "width_view (setZN8 b s) = width_view s" "width_view (setZN16 v s) = width_view s"
  "width_view (setZNM v s) = width_view s" "width_view (setZNX v s) = width_view s"
  "width_view (setZN_width m r s) = width_view s"
  by (simp_all add: setZN8_def setZN16_def setZNM_def setZNX_def setZN_width_def view_setFlag)

lemma view_alu [simp]:
  "width_view (opADC v s) = width_view s" "width_view (opSBC v s) = width_view s"
  "width_view (opCMP r v e s) = width_view s" "width_view (opBIT v i s) = width_view s"
  by (simp_all add: opADC_def opSBC_def opCMP_def opBIT_def Let_def view_setFlag split: prod.splits)

lemma view_set_clear:
  assumes "\<not> bit msk 4" "\<not> bit msk 5"
  shows "width_view (s\<lparr>m_P := m_P s OR msk\<rparr>) = width_view s"
    "width_view (s\<lparr>m_P := m_P s AND NOT msk\<rparr>) = width_view s"
  using assms by (simp_all add: width_view_def flag_simps bit_simps)

lemma keeps_instructions [keeps_intros]:
  "keeps width_view src \<Longrightarrow> keeps width_view (lda src)"
  "keeps width_view src \<Longrightarrow> (\<And>v s. width_view (h v s) = width_view s) \<Longrightarrow> keeps width_view (operand src h)"
  "keeps width_view src \<Longrightarrow> keeps width_view (logic g src)"
  "keeps width_view src \<Longrightarrow> keeps width_view (compare r src w)"
  "keeps width_view ad \<Longrightarrow> (\<And>a v. keeps width_view (wr a v)) \<Longrightarrow> keeps width_view (store ad wr r)"
  "keeps width_view ad \<Longrightarrow> keeps width_view (test_and_modify B ad g)"
  "keeps width_view ad \<Longrightarrow> keeps width_view (incdec_mem B ad d)"
  "keeps width_view (incdec_acc d)"
  "keeps width_view (transfer_a r)"
  "keeps width_view (W65_BRANCH B c)"
  by (unfold lda_def operand_def logic_def compare_def store_def test_and_modify_def incdec_mem_def
      incdec_acc_def transfer_a_def W65_BRANCH_def)
    (intro keeps_intros; simp add: view_setFlag)+

lemma keeps_shift_body:
  "keeps width_view (State (asl_body t))" "keeps width_view (State (lsr_body t))"
  "keeps width_view (State (rol_body t))" "keeps width_view (State (ror_body t))"
  by (simp_all add: keeps_def asl_body_def lsr_body_def rol_body_def ror_body_def Let_def view_setFlag)

lemma keeps_shift:
  assumes "\<And>t. keeps width_view (State (body t))"
  shows "keeps width_view (shift_acc body)"
    "keeps width_view ad \<Longrightarrow> keeps width_view (shift_mem B ad body)"
  by (unfold shift_acc_def shift_mem_def) (intro keeps_intros assms; simp)+

lemma keeps_PC [keeps_intros]: "keeps width_view (set_PC p)" "keeps width_view (set_PBR k)"
  "keeps width_view (read_pbr_pointer B q)"
  by (unfold set_PC_def set_PBR_def read_pbr_pointer_def) (intro keeps_intros; simp)+

section \<open>Index registers and the stack\<close>

text \<open>A source of an index value: in 8-bit index mode it yields one byte.\<close>

definition index_source :: "('b, u16) cpu \<Rightarrow> bool" where
  "index_source m \<longleftrightarrow> keeps width_view m \<and> (\<forall>s. m_X8 s \<longrightarrow> eval_state m s \<le> 0xFF)"

lemma index_source_read: "index_source (readX B a)" "index_source (immediateX B)"
proof -
  have "\<forall>s. m_X8 s \<longrightarrow> eval_state (readX B a) s \<le> 0xFF" "\<forall>s. m_X8 s \<longrightarrow> eval_state (immediateX B) s \<le> 0xFF"
    by (simp_all add: readX_def immediateX_def index8_def case_prod_beta)
  then show "index_source (readX B a)" "index_source (immediateX B)"
    by (simp_all add: index_source_def keeps_memory)
qed

lemma view_X8: "width_view s = width_view s' \<Longrightarrow> m_X8 s = m_X8 s'"
  by (simp add: width_view_def)

lemma index_source_memX:
  assumes "keeps width_view ad"
  shows "index_source (memX B ad)"
proof -
  have "eval_state (memX B ad) s \<le> 0xFF" if "m_X8 s" for s
  proof -
    have "m_X8 (exec_state ad s)" using that view_X8 [OF keepsD [OF assms]] by simp
    then show ?thesis
      using index_source_read(1) [of B "eval_state ad s"] by (simp add: index_source_def memX_def case_prod_beta)
  qed
  then show ?thesis using assms by (simp add: index_source_def keeps_mem)
qed

lemma cpu_ok_index:
  assumes "cpu_ok s" "m_X8 s \<longrightarrow> v \<le> 0xFF"
  shows "cpu_ok (s\<lparr>m_X := v\<rparr>)" "cpu_ok (s\<lparr>m_Y := v\<rparr>)"
  using assms by (auto simp: cpu_ok_def dp_unaligned_def)

lemma cpu_ok_cong: "width_view s = width_view s' \<Longrightarrow> cpu_ok s = cpu_ok s'"
  by (simp only: cpu_ok_view)

lemma cpu_ok_setZNX [simp]: "cpu_ok (setZNX v s) = cpu_ok s" "cpu_ok (setZN8 b s) = cpu_ok s"
  "cpu_ok (setZN16 v s) = cpu_ok s"
  by (rule cpu_ok_cong; simp)+

lemma cpu_ok_frame [simp]:
  "cpu_ok (setAcc v s) = cpu_ok s" "cpu_ok (s\<lparr>m_C := v\<rparr>) = cpu_ok s" "cpu_ok (s\<lparr>m_DBR := k\<rparr>) = cpu_ok s"
  "cpu_ok (s\<lparr>m_PC := v\<rparr>) = cpu_ok s" "cpu_ok (s\<lparr>m_PBR := k\<rparr>) = cpu_ok s"
  "cpu_ok (s\<lparr>m_Pending := k\<rparr>) = cpu_ok s" "cpu_ok (s\<lparr>w_bus := bus\<rparr>) = cpu_ok s"
  "cpu_ok (s\<lparr>m_Cycles := n\<rparr>) = cpu_ok s"
  by (rule cpu_ok_cong; simp)+

lemma pres_ldxy [pres_intros]:
  assumes "index_source src"
  shows "pres cpu_ok (ldx src)" "pres cpu_ok (ldy src)"
proof -
  have "cpu_ok (exec_state src s)" "m_X8 (exec_state src s) \<longrightarrow> eval_state src s \<le> 0xFF" if "cpu_ok s" for s
    using assms that presD [OF pres_view] view_X8 [OF keepsD] by (fastforce simp: index_source_def)+
  then show "pres cpu_ok (ldx src)" "pres cpu_ok (ldy src)"
    by (simp_all add: pres_def ldx_def ldy_def case_prod_beta cpu_ok_index)
qed

lemma index_width_le: "m_X8 s \<longrightarrow> index_width v s \<le> 0xFF" "m_X8 s \<longrightarrow> index_add v d s \<le> 0xFF"
  by (simp_all add: index_width_def index_add_def index8_def)

lemma pres_index_ops [pres_intros]:
  "pres cpu_ok (transfer_x r)" "pres cpu_ok (transfer_y r)" "pres cpu_ok (incdec_x d)" "pres cpu_ok (incdec_y d)"
  by (simp_all add: pres_def transfer_x_def transfer_y_def incdec_x_def incdec_y_def cpu_ok_index index_width_le)

lemma cpu_ok_stack: "cpu_ok s \<Longrightarrow> cpu_ok (stack_dec s)" "cpu_ok s \<Longrightarrow> cpu_ok (stack_inc s)"
  by (auto simp: cpu_ok_def stack_dec_def stack_inc_def dp_unaligned_def and_or_FF)

lemma pres_stack [pres_intros]:
  "pres cpu_ok (push8 B b)" "pres cpu_ok (pull8 B)" "pres cpu_ok (push16 B v)" "pres cpu_ok (pull16 B)"
  by (unfold push16_def pull16_def push8_def pull8_def)
    (intro pres_intros pres_modify cpu_ok_stack pres_view keeps_intros; assumption)+

lemma pres_push_reg [pres_intros]: "pres cpu_ok (push_reg B w r q)"
  by (unfold push_reg_def) (intro pres_intros)

section \<open>Every instruction preserves the invariant\<close>

lemma pres_table:
  assumes "list_all (\<lambda>(opcode, m). pres I m) t"
  shows "pres I (case map_of t opcode of Some m \<Rightarrow> m | None \<Rightarrow> ret ())"
  using assms by (auto simp: list_all_iff pres_ret split: option.splits dest!: map_of_SomeD)

lemma pres_ends_applyE:
  "pres cpu_ok (modify applyE)"
  "(\<And>a. establishes cpu_ok (g a)) \<Longrightarrow> pres cpu_ok (State_Monad.bind m g)"
  by (auto intro: establishes_pres establishes_applyE establishes_bind)

lemmas table_intros =
  pres_view keeps_instructions keeps_mem keeps_ea keeps_memory

lemma table_loads:
  "list_all (\<lambda>(opcode, m). pres cpu_ok m) (switch_lda B @ switch_ldx_ldy B @ switch_sta B @ switch_stx_sty_stz B)"
  unfolding switch_defs
  by simp (intro conjI pres_view pres_ldxy index_source_memX index_source_read keeps_intros; simp)

lemma table_logic:
  "list_all (\<lambda>(opcode, m). pres cpu_ok m)
     (switch_and B @ switch_ora B @ switch_eor B @ switch_bit B @ switch_trb_tsb B @ switch_adc_sbc B
      @ switch_cmp B m8 x8)"
  unfolding switch_defs
  by simp (intro conjI pres_view keeps_intros; simp)

lemma table_shift:
  "list_all (\<lambda>(opcode, m). pres cpu_ok m) (switch_inc_dec B @ switch_shift B @ switch_branch B)"
  unfolding switch_defs
  by simp (intro conjI pres_index_ops pres_view keeps_shift keeps_shift_body keeps_intros)


lemma cyc_key_dp: "(cyc_key m x e dp AND NOT 8) OR (if dp' then 8 else 0) = cyc_key m x e dp'"
  by (cases m; cases x; cases e; cases dp; cases dp') (simp_all add: cyc_key_def)

lemma cpu_ok_TCD:
  assumes "cpu_ok s"
  shows "cpu_ok (let s1 = setZN16 (m_C s) (s\<lparr>m_D := m_C s\<rparr>)
    in s1\<lparr>m_CycKey := (m_CycKey s1 AND NOT 8) OR (if dp_unaligned s1 then 8 else 0)\<rparr>)"
proof -
  define s1 where "s1 = setZN16 (m_C s) (s\<lparr>m_D := m_C s\<rparr>)"
  have v: "width_view s1 = width_view (s\<lparr>m_D := m_C s\<rparr>)" by (simp add: s1_def)
  have k: "m_CycKey s1 = cyc_key (m_M8 s) (m_X8 s) (m_E s) (dp_unaligned s)"
    and same: "m_M8 s1 = m_M8 s" "m_X8 s1 = m_X8 s" "m_E s1 = m_E s"
    using v assms by (auto simp: width_view_def cpu_ok_def)
  have "cpu_ok s1 = cpu_ok (s\<lparr>m_D := m_C s\<rparr>)" by (rule cpu_ok_cong [OF v])
  show ?thesis
    using assms v unfolding s1_def [symmetric] Let_def k cyc_key_dp
    by (auto simp: cpu_ok_def dp_unaligned_def width_view_def)
qed

lemma cpu_ok_set_S:
  "cpu_ok s \<Longrightarrow> cpu_ok (s\<lparr>m_S := if m_E s then 0x0100 OR (v AND 0xFF) else w\<rparr>)"
  by (auto simp: cpu_ok_def dp_unaligned_def and_or_FF)

lemma table_transfers: "list_all (\<lambda>(opcode, m). pres cpu_ok m) switch_transfers"
proof -
  have TCD: "pres cpu_ok (do { modify (\<lambda>s. s\<lparr>m_D := m_C s\<rparr>); modify (\<lambda>s. setZN16 (m_D s) s);
       modify (\<lambda>s. s\<lparr>m_CycKey := (m_CycKey s AND NOT 8) OR (if dp_unaligned s then 8 else 0)\<rparr>) })"
    using cpu_ok_TCD by (auto simp: pres_def Let_def split del: if_split)
  have TXS: "pres cpu_ok (modify (\<lambda>s. s\<lparr>m_S := if m_E s then 0x0100 OR (r s AND 0xFF) else q s\<rparr>))" for r q
    by (rule pres_modify) (rule cpu_ok_set_S)
  show ?thesis
    unfolding switch_transfers_def
    by (simp only: list.pred_inject prod.case, intro conjI TCD TXS pres_index_ops pres_view keeps_intros TrueI; simp)
qed

lemma table_stack:
  "list_all (\<lambda>(opcode, m). pres cpu_ok m) (switch_stack_old B @ switch_stack_new B)"
proof -
  have pulled: "pres cpu_ok (do { v \<leftarrow> pull8 B; modify (\<lambda>s. s\<lparr>m_X := ucast v\<rparr>); modify (\<lambda>s. setZN8 (lo8 (m_X s)) s) })"
    "pres cpu_ok (do { v \<leftarrow> pull8 B; modify (\<lambda>s. s\<lparr>m_Y := ucast v\<rparr>); modify (\<lambda>s. setZN8 (lo8 (m_Y s)) s) })"
    by (intro pres_bind pres_stack pres_modify; simp add: cpu_ok_index)+
  have wide: "pres cpu_ok (ifM index8 m (do { v \<leftarrow> pull16 B; modify (\<lambda>s. s\<lparr>m_X := v\<rparr>); modify (\<lambda>s. setZN16 (m_X s) s) }))"
    "pres cpu_ok (ifM index8 m (do { v \<leftarrow> pull16 B; modify (\<lambda>s. s\<lparr>m_Y := v\<rparr>); modify (\<lambda>s. setZN16 (m_Y s) s) }))"
    if m: "pres cpu_ok m" for m
  proof -
    have X8: "keeps m_X8 (pull16 B)"
      by (auto simp: keeps_def pull16_def pull8_def stack_inc_def read8_def busRead8_def Let_def case_prod_beta
          split: prod.splits)
    have "cpu_ok (exec_state (pull16 B) s)" "m_X8 (exec_state (pull16 B) s) = m_X8 s" if "cpu_ok s" for s
      using presD [OF pres_stack(4) that] keepsD [OF X8] by blast+
    then show "pres cpu_ok (ifM index8 m (do { v \<leftarrow> pull16 B; modify (\<lambda>s. s\<lparr>m_X := v\<rparr>); modify (\<lambda>s. setZN16 (m_X s) s) }))"
      "pres cpu_ok (ifM index8 m (do { v \<leftarrow> pull16 B; modify (\<lambda>s. s\<lparr>m_Y := v\<rparr>); modify (\<lambda>s. setZN16 (m_Y s) s) }))"
      using m by (simp_all add: pres_def index8_def case_prod_beta cpu_ok_index)
  qed
  have narrow: "pres cpu_ok (do { b \<leftarrow> pull8 B; modify (setAcc (ucast b)); modify (setZN8 b) })"
    "pres cpu_ok (do { v \<leftarrow> pull16 B; modify (\<lambda>s. s\<lparr>m_C := v\<rparr>); modify (\<lambda>s. setZN16 (m_C s) s) })"
    "pres cpu_ok (do { v \<leftarrow> pull8 B; modify (\<lambda>s. s\<lparr>m_DBR := v\<rparr>); modify (\<lambda>s. setZN8 (m_DBR s) s) })"
    by (intro pres_bind pres_stack pres_modify; simp)+
  have PLP: "pres cpu_ok (do { v \<leftarrow> pull8 B; modify (\<lambda>s. s\<lparr>m_P := v\<rparr>); modify applyE })"
    by (intro establishes_pres establishes_bind establishes_applyE)
  have pushes: "pres cpu_ok (do { v \<leftarrow> gets r; push8 B v })" for r
    by (intro pres_bind pres_gets pres_stack)
  have old: "list_all (\<lambda>(opcode, m). pres cpu_ok m) (switch_stack_old B)"
    unfolding switch_defs
    by (simp only: list.pred_inject prod.case) (intro conjI TrueI PLP wide pulled narrow pushes pres_ifM pres_push_reg)
  have new: "list_all (\<lambda>(opcode, m). pres cpu_ok m) (switch_stack_new B)"
    unfolding switch_defs
    by (simp only: list.pred_inject prod.case) (intro conjI TrueI establishes_pres establishes_bind establishes_applyE)
  show ?thesis using old new by simp
qed

lemma pres_serviceInterrupt [pres_intros]: "pres cpu_ok (serviceInterrupt B n e brk)"
  unfolding serviceInterrupt_def by (intro establishes_pres establishes_bind establishes_applyE)

lemma table_jump: "list_all (\<lambda>(opcode, m). pres cpu_ok m) (switch_jump B)"
proof -
  have subroutine:
    "pres cpu_ok (do { t \<leftarrow> fetch16 B; pc \<leftarrow> gets m_PC; push16 B (pc - 1); set_PC t })"
    "pres cpu_ok (do { t \<leftarrow> pull16 B; set_PC (t + 1) })"
    by (intro pres_bind pres_gets pres_stack; intro pres_view keeps_intros)+
  show ?thesis
    unfolding switch_defs
    by (simp only: list.pred_inject prod.case)
      (intro conjI TrueI subroutine;
        ((intro establishes_pres establishes_bind establishes_applyE; fail)
         | (intro pres_view keeps_intros; fail)))
qed

lemma keeps_set_P:
  "m \<in> {W65_C, W65_I, W65_D, W65_V} \<Longrightarrow> keeps width_view (clear_P m)"
  "m \<in> {W65_C, W65_I, W65_D, W65_V} \<Longrightarrow> keeps width_view (set_P m)"
  unfolding clear_P_def set_P_def
  by (intro keeps_modify view_set_clear; auto simp: w65_flag_defs bit_simps)+

lemma cpu_ok_counters: "cpu_ok s \<Longrightarrow> cpu_ok (move_counters up s)"
  by (auto simp: cpu_ok_def move_counters_def Let_def index8_def dp_unaligned_def)

lemma pres_block_move [pres_intros]: "pres cpu_ok (block_move B up)"
  unfolding block_move_def
  by (intro pres_bind pres_gets pres_modify cpu_ok_counters; (intro pres_view keeps_intros; fail)?; simp)

lemma pres_exchange: "pres cpu_ok (modify exchange_carry_emulation)"
  by (simp add: pres_def exchange_carry_emulation_def Let_def cpu_ok_applyE)

lemma table_flags:
  "list_all (\<lambda>(opcode, m). pres cpu_ok m) (switch_flags B @ switch_block B @ switch_control B)"
proof -
  have flags: "list_all (\<lambda>(opcode, m). pres cpu_ok m) (switch_flags B)"
    unfolding switch_defs
    by (simp only: list.pred_inject prod.case)
      (intro conjI TrueI pres_exchange;
        ((intro establishes_pres establishes_bind establishes_applyE; fail)
         | (rule pres_view, rule keeps_set_P, simp)))
  have control: "list_all (\<lambda>(opcode, m). pres cpu_ok m) (switch_block B @ switch_control B)"
    unfolding switch_defs append.simps
    by (simp only: list.pred_inject prod.case)
      (intro conjI TrueI pres_block_move;
        ((intro pres_view keeps_intros; simp; fail) | (intro pres_bind pres_serviceInterrupt; intro pres_view keeps_intros)))
  show ?thesis using flags control by simp
qed

lemma pres_generic_switch: "pres cpu_ok (generic_switch B m8 x8 opcode)"
  unfolding generic_switch_def switch_table_def
  using table_loads [of B] table_transfers table_stack [of B] table_logic [of B m8 x8] table_shift [of B]
    table_jump [of B] table_flags [of B]
  by (intro pres_table) simp

lemma pres_generic_path: "pres cpu_ok (generic_path B opcode)"
  unfolding generic_path_def
  by (intro pres_bind pres_gets pres_ret pres_generic_switch pres_modify;
      simp add: clear_scratch_def count_native_def add_cycles_def cpu_ok_def dp_unaligned_def)

section \<open>The fast path, interrupts and steps\<close>

lemma view_znE [simp]: "width_view (znE v s) = width_view s" "width_view (fast_set_A v s) = width_view s"
  "width_view (add_cycles n s) = width_view s"
proof -
  show "width_view (znE v s) = width_view s" for s :: "'a w65"
    by (simp add: width_view_def znE_def flag_simps) (simp add: w65_flag_defs bit_simps)
  then show "width_view (fast_set_A v s) = width_view s" by (simp add: fast_set_A_def)
qed (simp add: add_cycles_def)

lemma keeps_fast [keeps_intros]:
  "keeps width_view (f8E B)" "keeps width_view (rd8E B a)" "keeps width_view (wr8E B a v)"
  "keeps width_view (emuDoneE n)" "keeps width_view (fast_abs B)" "keeps width_view (fast_lda_indexed B r)"
  "keeps width_view (fast_logic B g)" "keeps width_view (fast_branch B opcode)"
  by (unfold fast_abs_def fast_lda_indexed_def fast_logic_def fast_branch_def f8E_def rd8E_def wr8E_def emuDoneE_def)
    (intro keeps_intros; simp)+

lemma cpu_ok_page1: "cpu_ok s \<Longrightarrow> cpu_ok (s\<lparr>m_S := 0x0100 OR (v AND 0xFF)\<rparr>)"
  by (auto simp: cpu_ok_def dp_unaligned_def and_or_FF)

lemma pres_stackE [pres_intros]: "pres cpu_ok (pushE8 B v)" "pres cpu_ok (pullE8 B)"
  unfolding pushE8_def pullE8_def
  by (intro pres_bind pres_gets pres_modify cpu_ok_page1; (intro pres_view keeps_intros; fail)?; simp)+

lemma cpu_ok_znE [simp]: "cpu_ok (znE v s) = cpu_ok s" "cpu_ok (add_cycles n s) = cpu_ok s"
  by (rule cpu_ok_cong, simp)+

lemma pres_fast_index [pres_intros]:
  "pres cpu_ok (do { modify (\<lambda>s. s\<lparr>m_X := ucast (f s)\<rparr>); modify (\<lambda>s. znE (lo8 (m_X s)) s); emuDoneE 2 })"
  "pres cpu_ok (do { modify (\<lambda>s. s\<lparr>m_Y := ucast (f s)\<rparr>); modify (\<lambda>s. znE (lo8 (m_Y s)) s); emuDoneE 2 })"
  for f :: "'b w65 \<Rightarrow> u8"
  by (simp_all add: pres_def emuDoneE_def cpu_ok_index)

lemma table_fast: "list_all (\<lambda>(opcode, m). pres cpu_ok m) (fast_table B)"
proof -
  have imm: "pres cpu_ok (do { n \<leftarrow> f8E B; modify (\<lambda>s. s\<lparr>m_X := ucast n\<rparr>); modify (\<lambda>s. znE (lo8 (m_X s)) s); emuDoneE 2 })"
    "pres cpu_ok (do { n \<leftarrow> f8E B; modify (\<lambda>s. s\<lparr>m_Y := ucast n\<rparr>); modify (\<lambda>s. znE (lo8 (m_Y s)) s); emuDoneE 2 })"
    by (intro pres_bind [OF pres_view [OF keeps_fast(1)]] pres_fast_index)+
  have steps: "pres cpu_ok (fast_step_x d)" "pres cpu_ok (fast_step_y d)" for d :: u8
    unfolding fast_step_x_def fast_step_y_def by (rule pres_fast_index)+
  have calls: "pres cpu_ok (do { lo \<leftarrow> f8E B; hi \<leftarrow> f8E B; r \<leftarrow> gets (\<lambda>s. m_PC s - 1);
                pushE8 B (hi8 r); pushE8 B (lo8 r); set_PC (word16 lo hi); emuDoneE 6 })"
    "pres cpu_ok (do { lo \<leftarrow> pullE8 B; hi \<leftarrow> pullE8 B; set_PC (word16 lo hi + 1); emuDoneE 6 })"
    by (intro pres_bind pres_gets pres_stackE; intro pres_view keeps_intros)+
  have cmp: "keeps width_view (modify (\<lambda>s. s\<lparr>m_P := (m_P s AND NOT W65_C) OR (if c then W65_C else 0)\<rparr>))" for c
    by (rule keeps_modify) (simp add: width_view_def flag_simps, simp add: w65_flag_defs bit_simps)
  show ?thesis
    unfolding fast_table_def
    by (simp only: list.pred_inject prod.case)
      (intro conjI TrueI imm steps calls; intro pres_view keeps_set_P cmp keeps_intros; simp)
qed

lemma pres_fast_switch: "pres cpu_ok (fast_switch B opcode)"
  using table_fast [of B]
  by (auto simp: fast_switch_def list_all_iff intro!: pres_bind pres_ret dest!: map_of_SomeD split: option.splits)

lemma pres_dispatch: "pres cpu_ok (dispatch B opcode)"
  unfolding dispatch_def
  by (intro pres_bind pres_ifM pres_fast_switch pres_ret) (simp split: option.split add: pres_ret pres_generic_path)

lemma view_prologue [simp]:
  "width_view (note_lines i n s) = width_view s" "width_view (count_deferred s) = width_view s"
  "width_view (wake s) = width_view s"
  by (simp_all add: note_lines_def count_deferred_def wake_def width_view_def Let_def)

lemma pres_prologue: "pres cpu_ok (prologue B)"
proof -
  have idle: "pres cpu_ok idle_cycle"
    unfolding idle_cycle_def by (intro pres_view keeps_intros; simp)
  have irq: "pres cpu_ok (take_irq B)" "pres cpu_ok (take_nmi B)"
    unfolding take_irq_def take_nmi_def
    by (intro pres_bind pres_gets pres_ret pres_serviceInterrupt;
        intro pres_view keeps_intros; simp add: width_view_def add_cycles_def)+
  have sample: "pres cpu_ok (sample_lines B)"
    unfolding sample_lines_def by (intro pres_view keeps_intros; simp)
  show ?thesis
    unfolding prologue_def
    by (intro pres_ifM idle pres_bind pres_gets sample pres_ret irq; intro pres_view keeps_intros; simp)
qed

lemma pres_stepInner: "pres cpu_ok (stepInner B)"
  unfolding stepInner_def
  by (intro pres_bind pres_ifM pres_prologue pres_ret)
    (simp split: option.split add: pres_ret pres_bind pres_dispatch pres_view keeps_memory)

lemma pres_step: "pres cpu_ok (w65_step B)"
proof -
  have "width_view (rebuildPending s) = width_view s" for s :: "'a w65"
    by (simp add: rebuildPending_def width_view_def)
  then show ?thesis
    unfolding w65_step_def stepNoTick_def
    by (intro pres_bind pres_stepInner pres_ret; intro pres_view keeps_intros; simp)
qed

lemma pres_batch: "pres cpu_ok (batch B k)"
  by (induction k) (auto intro!: pres_intros pres_stepInner)

lemma pres_run_iteration: "pres cpu_ok (run_iteration B start n)"
  unfolding run_iteration_def
  by (intro pres_bind pres_gets pres_ifM pres_batch pres_stepInner pres_ret; intro pres_view keeps_intros; simp)

lemma w65_new_ok: "cpu_ok (w65_new b)"
  unfolding w65_new_def by (rule cpu_ok_applyE)

lemma establishes_reset: "establishes cpu_ok (w65_reset B)"
proof -
  have "width_view (rebuildPending s) = width_view s" for s :: "'a w65"
    by (simp add: rebuildPending_def width_view_def)
  then have "cpu_ok (rebuildPending (applyE s))" for s :: "'a w65"
    using cpu_ok_applyE cpu_ok_cong by blast
  then show ?thesis
    by (simp add: w65_reset_def establishes_def case_prod_beta)
qed

lemma run_preserves:
  assumes "cpu_ok s" "w65_run B n s = Some (used, s')"
  shows "cpu_ok s'"
proof -
  define s0 where "s0 = rebuildPending (s\<lparr>m_RunBreak := False\<rparr>)"
  have "width_view s0 = width_view s" by (simp add: s0_def rebuildPending_def width_view_def)
  then have s0: "cpu_ok s0" using assms(1) cpu_ok_cong by blast
  obtain h where "run_loop B (m_Cycles s) n s0 = Some (h, s')"
    using assms(2) by (auto simp: w65_run_def s0_def split: option.splits prod.splits)
  then have "cpu_ok (snd (h, s'))"
    unfolding run_loop_def
    by (rule while_option_rule [where P = "\<lambda>p. cpu_ok (snd p)", rotated])
      (use s0 presD [OF pres_run_iteration] in \<open>auto simp: Let_def\<close>)
  then show ?thesis by simp
qed

section \<open>Reachable states\<close>

text \<open>A core is reset, stepped and run; between calls the surrounding program may change the bus and
  request that a run stop (\<open>requestRunBreak\<close>).\<close>

inductive w65_reachable :: "'b buses \<Rightarrow> 'b w65 \<Rightarrow> bool" for B :: "'b buses" where
  after_reset: "w65_reachable B (exec_state (w65_reset B) s)"
| after_step: "w65_reachable B s \<Longrightarrow> w65_reachable B (exec_state (w65_step B) s)"
| after_run: "w65_reachable B s \<Longrightarrow> w65_run B n s = Some (used, s') \<Longrightarrow> w65_reachable B s'"
| environment: "w65_reachable B s \<Longrightarrow> w65_reachable B (s\<lparr>w_bus := b, m_RunBreak := r\<rparr>)"

lemma reachable_cpu_ok: "w65_reachable B s \<Longrightarrow> cpu_ok s"
proof (induction rule: w65_reachable.induct)
  case (after_reset s)
  show ?case using establishes_reset [of B] by (simp add: establishes_def)
next
  case (after_step s)
  then show ?case using presD [OF pres_step] by blast
next
  case (after_run s n used s')
  then show ?case using run_preserves by blast
next
  case (environment s b r)
  then show ?case by (simp add: cpu_ok_def dp_unaligned_def)
qed

text \<open>C4. In every state reachable from a reset by steps, runs and changes of the surroundings:
  emulation mode holds m and x at 1 and S in page 1; 8-bit index registers have empty high bytes;
  and the cached widths and cycle-table key are the ones the registers determine.\<close>

theorem reachable_register_invariant:
  assumes "w65_reachable B s"
  shows "(m_E s \<longrightarrow> has (m_P s) W65_M \<and> has (m_P s) W65_X \<and> m_S s AND 0xFF00 = 0x0100)
    \<and> (index8 s \<longrightarrow> m_X s \<le> 0xFF \<and> m_Y s \<le> 0xFF)
    \<and> memory8 s = (m_E s \<or> has (m_P s) W65_M) \<and> index8 s = (m_E s \<or> has (m_P s) W65_X)
    \<and> m_CycKey s = cyc_key (memory8 s) (index8 s) (m_E s) (dp_unaligned s)"
  using reachable_cpu_ok [OF assms] by (simp add: cpu_ok_def memory8_def index8_def)

lemma reachable_register_invariant_witness:
  "m_S (exec_state (w65_reset flat_buses) (w65_new (\<lambda>_. 0xEA))) AND 0xFF00 = 0x0100"
proof -
  let ?s = "exec_state (w65_reset flat_buses) (w65_new (\<lambda>_. 0xEA))"
  have r: "w65_reachable flat_buses ?s" by (rule after_reset)
  have "m_E ?s"
    by (simp add: w65_reset_def read16Bank0_def read8_def busRead8_def flat_buses_def flat_bus_def
        bus_read_def Let_def reset_registers_def applyE_def force_widths_def cache_widths_def
        rebuildPending_def)
  with reachable_register_invariant [OF r] show ?thesis by blast
qed

end
