(* ===== verification/W65Dispatch.thy ===== *)
theory W65Dispatch
  imports W65Invariant "HOL-Library.Multiset"
begin

text \<open>
  Instruction dispatch. The generic \<open>switch\<close> has exactly one case for each of the 256 opcodes, and
  the flattened emulation-mode path computes, for every opcode it claims, what the generic switch and
  the cycle table compute: the optimisation is not observable outside the three scratch fields that
  every generic instruction clears before use.
\<close>

unbundle bit_operations_syntax

section \<open>One case per opcode\<close>

text \<open>The case labels in the order of the source.\<close>

definition opcode_order :: "nat list" where
  "opcode_order = [
    169, 165, 181, 173, 189, 185, 175, 191, 161, 177, 178, 167, 183, 163, 179, 162, 166,
    182, 174, 190, 160, 164, 180, 172, 188, 133, 149, 141, 157, 153, 143, 159, 129, 145,
    146, 135, 151, 131, 147, 134, 150, 142, 132, 148, 140, 100, 116, 156, 158, 170, 168,
    138, 152, 186, 154, 155, 187, 91, 123, 27, 59, 235, 72, 218, 90, 8, 139, 75, 104, 250,
    122, 40, 171, 11, 43, 244, 212, 98, 41, 37, 53, 45, 61, 57, 47, 63, 33, 49, 50, 39, 55,
    35, 51, 9, 5, 21, 13, 29, 25, 15, 31, 1, 17, 18, 7, 23, 3, 19, 73, 69, 85, 77, 93, 89,
    79, 95, 65, 81, 82, 71, 87, 67, 83, 137, 36, 52, 44, 60, 20, 28, 4, 12, 105, 101, 117,
    109, 125, 121, 111, 127, 97, 113, 114, 103, 119, 99, 115, 233, 229, 245, 237, 253, 249,
    239, 255, 225, 241, 242, 231, 247, 227, 243, 201, 197, 213, 205, 221, 217, 207, 223,
    193, 209, 210, 199, 215, 195, 211, 224, 228, 236, 192, 196, 204, 26, 58, 232, 200, 202,
    136, 230, 246, 238, 254, 198, 214, 206, 222, 10, 74, 42, 106, 6, 22, 14, 30, 70, 86, 78,
    94, 38, 54, 46, 62, 102, 118, 110, 126, 76, 108, 124, 92, 220, 32, 252, 34, 96, 107, 64,
    16, 48, 80, 112, 144, 176, 208, 240, 128, 130, 24, 56, 88, 120, 184, 216, 248, 194, 226,
    251, 84, 68, 0, 2, 219, 203, 234, 66]"

fun merge_nat :: "nat list \<Rightarrow> nat list \<Rightarrow> nat list" where
  "merge_nat [] ys = ys"
| "merge_nat xs [] = xs"
| "merge_nat (x # xs) (y # ys) = (if x < y then x # merge_nat xs (y # ys) else y # merge_nat (x # xs) ys)"

fun merge_pairs :: "nat list list \<Rightarrow> nat list list" where
  "merge_pairs (a # b # r) = merge_nat a b # merge_pairs r"
| "merge_pairs r = r"

lemma mset_merge: "mset (merge_nat xs ys) = mset xs + mset ys"
  by (induction xs ys rule: merge_nat.induct) auto

lemma mset_pairs: "mset (concat (merge_pairs r)) = mset (concat r)"
  by (induction r rule: merge_pairs.induct) (auto simp: mset_merge)

lemma opcode_order_sorted:
  "(merge_pairs ^^ 8) (map (\<lambda>x. [x]) opcode_order) = [[0..<256]]"
proof -
  have eight: "8 = Suc (Suc (Suc (Suc (Suc (Suc (Suc (Suc 0)))))))" by simp
  show ?thesis
    unfolding eight funpow.simps comp_apply id_apply
    by (simp add: opcode_order_def upt_conv_Cons)
qed

lemma mset_opcode_order: "mset opcode_order = mset [0..<256]"
proof -
  have "mset (concat ((merge_pairs ^^ n) r)) = mset (concat r)" for n r
    by (induction n) (simp_all add: mset_pairs)
  from this [of 8 "map (\<lambda>x. [x]) opcode_order"] show ?thesis
    by (simp add: opcode_order_sorted concat_map_singleton [where f = "\<lambda>x. x", simplified])
qed

lemma switch_labels: "map (unat \<circ> fst) (switch_table B m x) = opcode_order"
  by (simp add: switch_table_def switch_defs opcode_order_def)

lemma switch_distinct: "distinct (map fst (switch_table B m x))"
proof -
  have "distinct opcode_order"
    using mset_opcode_order by (metis distinct_upt mset_eq_imp_distinct_iff)
  then have "distinct (map unat (map fst (switch_table B m x)))"
    using switch_labels [of B m x] by (simp add: comp_def)
  then show ?thesis by (simp only: distinct_map)
qed

lemma switch_entry:
  assumes "(opcode, body) \<in> set (switch_table B m x)"
  shows "generic_switch B m x opcode = body"
  using map_of_is_SomeI [OF switch_distinct assms] by (simp add: generic_switch_def)

lemma switch_defined: "(opcode, generic_switch B m8 x8 opcode) \<in> set (switch_table B m8 x8)"
proof -
  have "set opcode_order = {0..<256}"
    using mset_opcode_order by (metis set_mset_mset set_upt)
  moreover have "unat opcode < 256" using unsigned_less [of opcode, where ?'a = nat] by simp
  ultimately have "unat opcode \<in> (unat \<circ> fst) ` set (switch_table B m8 x8)"
    using switch_labels [of B m8 x8] by (metis atLeastLessThan_iff le0 list.set_map)
  then obtain body where "(opcode, body) \<in> set (switch_table B m8 x8)"
    by (auto simp: word_unat_eq_iff [symmetric])
  then show ?thesis using switch_entry by metis
qed

lemma one_entry:
  "distinct (map fst t) \<Longrightarrow> k \<in> fst ` set t \<Longrightarrow> length (filter (\<lambda>(l, _). l = k) t) = 1"
proof (induction t)
  case (Cons a t)
  have "filter (\<lambda>(l, _). l = k) t = []" if "k \<notin> fst ` set t"
    using that by (force simp: filter_empty_conv)
  then show ?case using Cons by (auto simp: image_iff split: prod.splits)
qed simp

text \<open>The dispatch is total and unambiguous: whatever the widths at entry, exactly one case of the
  switch carries a given opcode byte, and its body is the one executed. No opcode falls through.\<close>

theorem switch_total:
  "length (filter (\<lambda>(label, _). label = opcode) (switch_table B m8 x8)) = 1
   \<and> (opcode, generic_switch B m8 x8 opcode) \<in> set (switch_table B m8 x8)"
  using switch_defined [of opcode B m8 x8] one_entry [OF switch_distinct, of opcode B m8 x8] by force

section \<open>The fast path\<close>

lemma bank_addr_masked [simp]: "bank_addr k a AND SCPU_ADDR_MASK = bank_addr k a"
proof -
  have "SCPU_ADDR_MASK = mask 24" by (simp add: SCPU_ADDR_MASK_def mask_eq_exp_minus_1)
  then show ?thesis
    unfolding \<open>SCPU_ADDR_MASK = mask 24\<close>
    by (intro bit_word_eqI) (auto simp: bank_addr_def bit_simps dest: bit_imp_le_length)
qed

lemma fast_memory: "rd8E B a = read8 B a" "wr8E B a v = write8 B a v" "f8E B = fetch8 B"
  by (simp_all add: rd8E_def wr8E_def read8_def write8_def f8E_def fetch8_def gets_def State_Monad.bind_def)

lemma znE_setZN8: "znE v s = setZN8 v s"
proof -
  have "(m_P s AND NOT (W65_Z OR W65_N)) OR (if v = 0 then W65_Z else 0) OR (v AND 0x80)
      = set_flag W65_N (v AND 0x80 \<noteq> 0) (set_flag W65_Z (v = 0) (m_P s))"
    by (rule word8_eqI) (auto simp: flag_simps bit_simps mask_bits, simp_all add: w65_flag_defs)
  then show ?thesis by (simp add: znE_def setZN8_def setFlag_def)
qed

lemma setA_setAcc: "m_M8 s \<Longrightarrow> setA n s = setAcc (ucast n) s"
proof -
  have "(ucast n :: u16) AND 0xFF = ucast n" using ucast_le_255 le_255_iff by blast
  then show "m_M8 s \<Longrightarrow> setA n s = setAcc (ucast n) s" by (simp add: setA_def setAcc_def memory8_def)
qed

lemma lo8_add: "lo8 (a + b) = lo8 a + lo8 b" "lo8 (a - b) = lo8 a - lo8 b"
  by (simp_all add: lo8_def word_uint_eq_iff unsigned_ucast_eq take_bit_eq_mod uint_word_ariths
      mod_simps mod_mod_cancel)

lemma opcode_info_numeral:
  "opcode_info (numeral n) = w65c816Opcodes ! unat (numeral n :: u8)"
  by (simp add: opcode_info_def)

lemma fast_cycles:
  "w65c816Cycles 0xA9 True True True dp pc bt = 2"
  "w65c816Cycles 0xA5 True True True dp pc bt = (if dp then 4 else 3)"
  "w65c816Cycles 0xAD True True True dp pc bt = 4"
  "w65c816Cycles 0xBD True True True dp pc bt = (if pc then 5 else 4)"
  "w65c816Cycles 0xB9 True True True dp pc bt = (if pc then 5 else 4)"
  "w65c816Cycles 0xA2 True True True dp pc bt = 2"
  "w65c816Cycles 0xA0 True True True dp pc bt = 2"
  "w65c816Cycles 0x85 True True True dp pc bt = (if dp then 4 else 3)"
  "w65c816Cycles 0x8D True True True dp pc bt = 4"
  "w65c816Cycles 0x49 True True True dp pc bt = 2"
  "w65c816Cycles 0x29 True True True dp pc bt = 2"
  "w65c816Cycles 0x09 True True True dp pc bt = 2"
  "w65c816Cycles 0xC9 True True True dp pc bt = 2"
  "w65c816Cycles 0xE8 True True True dp pc bt = 2"
  "w65c816Cycles 0xCA True True True dp pc bt = 2"
  "w65c816Cycles 0xC8 True True True dp pc bt = 2"
  "w65c816Cycles 0x88 True True True dp pc bt = 2"
  "w65c816Cycles 0x4C True True True dp pc bt = 3"
  "w65c816Cycles 0x20 True True True dp pc bt = 6"
  "w65c816Cycles 0x60 True True True dp pc bt = 6"
  "w65c816Cycles 0x18 True True True dp pc bt = 2"
  "w65c816Cycles 0x38 True True True dp pc bt = 2"
  by (simp_all add: w65c816Cycles_def opcode_info_numeral w65c816Opcodes_def w65c816Opcodes_00_7F_def
      w65c816Opcodes_80_FF_def opc_def op_cycles_def w65_cycle_flag_defs has_def Let_def)

lemma branch_cycles:
  "w65c816Cycles 0x10 True True True dp pc bt = (if bt then (if pc then 4 else 3) else 2)"
  "w65c816Cycles 0x30 True True True dp pc bt = (if bt then (if pc then 4 else 3) else 2)"
  "w65c816Cycles 0x90 True True True dp pc bt = (if bt then (if pc then 4 else 3) else 2)"
  "w65c816Cycles 0xB0 True True True dp pc bt = (if bt then (if pc then 4 else 3) else 2)"
  "w65c816Cycles 0xD0 True True True dp pc bt = (if bt then (if pc then 4 else 3) else 2)"
  "w65c816Cycles 0xF0 True True True dp pc bt = (if bt then (if pc then 4 else 3) else 2)"
  by (simp_all add: w65c816Cycles_def opcode_info_numeral w65c816Opcodes_def w65c816Opcodes_00_7F_def
      w65c816Opcodes_80_FF_def opc_def op_cycles_def w65_cycle_flag_defs has_def Let_def)

lemma generic_path_E:
  assumes "cpu_ok s" "m_E s"
  shows "run_state (generic_path B opcode) s =
    (let s1 = exec_state (generic_switch B True True opcode) (clear_scratch s);
         used = ucast (w65c816Cycles opcode True True True (dp_unaligned s) (m_PageCross s1) (m_BranchTaken s1))
     in (used, add_cycles used s1))"
proof -
  have w: "m_M8 s" "m_X8 s" "m_CycKey s = cyc_key True True True (dp_unaligned s)"
    using assms by (simp_all add: cpu_ok_def)
  have k: "has (cyc_key True True True (dp_unaligned s)) 1" "has (cyc_key True True True (dp_unaligned s)) 2"
    by (cases "dp_unaligned s"; simp add: cyc_key_def has_def)+
  show ?thesis
    using assms(2) by (simp add: generic_path_def w k count_native_def clear_scratch_def lut_exact Let_def case_prod_beta)
qed

lemma generic_lookup:
  "generic_switch B m x 0xA9 = lda (immediateM B)"
  "generic_switch B m x 0xA5 = lda (memM B (eaDirect B))"
  "generic_switch B m x 0xAD = lda (memM B (eaAbsolute B))"
  "generic_switch B m x 0xBD = lda (memM B (eaAbsoluteX B))"
  "generic_switch B m x 0xB9 = lda (memM B (eaAbsoluteY B))"
  "generic_switch B m x 0xA2 = ldx (immediateX B)"
  "generic_switch B m x 0xA0 = ldy (immediateX B)"
  "generic_switch B m x 0x85 = store (eaDirect B) (writeM B) getAcc"
  "generic_switch B m x 0x8D = store (eaAbsolute B) (writeM B) getAcc"
  "generic_switch B m x 0x49 = logic (XOR) (immediateM B)"
  "generic_switch B m x 0x29 = logic (AND) (immediateM B)"
  "generic_switch B m x 0x09 = logic (OR) (immediateM B)"
  "generic_switch B m x 0xC9 = compare getAcc (immediateM B) m"
  "generic_switch B m x 0xE8 = incdec_x 1"
  "generic_switch B m x 0xCA = incdec_x (-1)"
  "generic_switch B m x 0xC8 = incdec_y 1"
  "generic_switch B m x 0x88 = incdec_y (-1)"
  "generic_switch B m x 0x4C = do { t \<leftarrow> fetch16 B; set_PC t }"
  "generic_switch B m x 0x20 = do { t \<leftarrow> fetch16 B; pc \<leftarrow> gets m_PC; push16 B (pc - 1); set_PC t }"
  "generic_switch B m x 0x60 = do { t \<leftarrow> pull16 B; set_PC (t + 1) }"
  "generic_switch B m x 0x18 = clear_P W65_C"
  "generic_switch B m x 0x38 = set_P W65_C"
  "generic_switch B m x 0x10 = W65_BRANCH B (\<lambda>s. \<not> has (m_P s) W65_N)"
  "generic_switch B m x 0x30 = W65_BRANCH B (\<lambda>s. has (m_P s) W65_N)"
  "generic_switch B m x 0x90 = W65_BRANCH B (\<lambda>s. \<not> has (m_P s) W65_C)"
  "generic_switch B m x 0xB0 = W65_BRANCH B (\<lambda>s. has (m_P s) W65_C)"
  "generic_switch B m x 0xD0 = W65_BRANCH B (\<lambda>s. \<not> has (m_P s) W65_Z)"
  "generic_switch B m x 0xF0 = W65_BRANCH B (\<lambda>s. has (m_P s) W65_Z)"
  by (rule switch_entry, simp add: switch_table_def switch_defs)+

definition same_run :: "('b, 'a) cpu \<Rightarrow> ('b, 'a) cpu \<Rightarrow> 'b w65 \<Rightarrow> bool" where
  "same_run m n s \<longleftrightarrow> eval_state m s = eval_state n s
     \<and> clear_scratch (exec_state m s) = clear_scratch (exec_state n s)"

lemmas run_defs =
  fast_memory lda_def ldx_def ldy_def memM_def store_def logic_def compare_def immediateM_def immediateX_def
  readM_def writeM_def memory8_def index8_def fetch16_def fetch8_def busRead8_def busWrite8_def
  read8_def write8_def Let_def case_prod_beta clear_scratch_def emuDoneE_def add_cycles_def
  fast_set_A_def znE_setZN8 setA_setAcc setZNM_def setZNX_def setAcc_def setZN8_def setFlag_def
  eaDirect_def eaAbsolute_def set_EABank0_def dp_penalty_def dp_unaligned_def fast_abs_def set_PC_def clear_P_def set_P_def
  getAcc_def getA_def lo8_def

lemma E_widths:
  assumes "cpu_ok s" "m_E s"
  shows "m_M8 s" "m_X8 s" "m_X s AND 0xFF = m_X s" "m_Y s AND 0xFF = m_Y s"
  using assms by (simp_all add: cpu_ok_def le_255_iff)

lemma ucast_byte [simp]: "(ucast (n :: u8) :: u16) AND 0xFF = ucast n"
  using ucast_le_255 le_255_iff by blast

lemma byte_round [simp]: "(ucast (ucast (n :: u8) :: u16) :: u8) = n"
  by (rule bit_word_eqI) (auto simp: bit_simps dest: bit_imp_le_length)

lemma fast_loads:
  assumes "cpu_ok s" "m_E s"
  shows "same_run (do { n \<leftarrow> f8E B; modify (fast_set_A n); emuDoneE 2 }) (generic_path B 0xA9) s"
    "same_run (do { a \<leftarrow> fast_abs B; n \<leftarrow> rd8E B a; modify (fast_set_A n); emuDoneE 4 }) (generic_path B 0xAD) s"
    "same_run (do { n \<leftarrow> f8E B; modify (\<lambda>s. s\<lparr>m_X := ucast n\<rparr>); modify (\<lambda>s. znE (lo8 (m_X s)) s);
                emuDoneE 2 }) (generic_path B 0xA2) s"
    "same_run (do { n \<leftarrow> f8E B; modify (\<lambda>s. s\<lparr>m_Y := ucast n\<rparr>); modify (\<lambda>s. znE (lo8 (m_Y s)) s);
                emuDoneE 2 }) (generic_path B 0xA0) s"
    "same_run (do { lo \<leftarrow> f8E B; hi \<leftarrow> f8E B; set_PC (word16 lo hi); emuDoneE 3 }) (generic_path B 0x4C) s"
  unfolding same_run_def generic_path_E [OF assms] generic_lookup fast_cycles
  using assms(2) E_widths [OF assms]
  by (simp_all add: run_defs)

text \<open>Bus accesses neither read nor write the scratch fields and keep the registers: the accesses stay
  opaque in the longer comparisons below.\<close>

named_theorems blind

lemma bus_blind [blind]:
  "run_state (read8 B a) (s\<lparr>m_PageCross := x\<rparr>) = (eval_state (read8 B a) s, (exec_state (read8 B a) s)\<lparr>m_PageCross := x\<rparr>)"
  "run_state (read8 B a) (s\<lparr>m_BranchTaken := x\<rparr>) = (eval_state (read8 B a) s, (exec_state (read8 B a) s)\<lparr>m_BranchTaken := x\<rparr>)"
  "run_state (read8 B a) (s\<lparr>m_EABank0 := x\<rparr>) = (eval_state (read8 B a) s, (exec_state (read8 B a) s)\<lparr>m_EABank0 := x\<rparr>)"
  "run_state (write8 B a v) (s\<lparr>m_PageCross := x\<rparr>) = ((), (exec_state (write8 B a v) s)\<lparr>m_PageCross := x\<rparr>)"
  "run_state (write8 B a v) (s\<lparr>m_BranchTaken := x\<rparr>) = ((), (exec_state (write8 B a v) s)\<lparr>m_BranchTaken := x\<rparr>)"
  "run_state (write8 B a v) (s\<lparr>m_EABank0 := x\<rparr>) = ((), (exec_state (write8 B a v) s)\<lparr>m_EABank0 := x\<rparr>)"
  "run_state (fetch8 B) (s\<lparr>m_PageCross := x\<rparr>) = (eval_state (fetch8 B) s, (exec_state (fetch8 B) s)\<lparr>m_PageCross := x\<rparr>)"
  "run_state (fetch8 B) (s\<lparr>m_BranchTaken := x\<rparr>) = (eval_state (fetch8 B) s, (exec_state (fetch8 B) s)\<lparr>m_BranchTaken := x\<rparr>)"
  "run_state (fetch8 B) (s\<lparr>m_EABank0 := x\<rparr>) = (eval_state (fetch8 B) s, (exec_state (fetch8 B) s)\<lparr>m_EABank0 := x\<rparr>)"
  by (simp_all add: read8_def write8_def fetch8_def busRead8_def busWrite8_def Let_def case_prod_beta)

lemma bus_registers [blind]:
  "m_E (exec_state (read8 B a) s) = m_E s" "m_M8 (exec_state (read8 B a) s) = m_M8 s"
  "m_X8 (exec_state (read8 B a) s) = m_X8 s" "m_X (exec_state (read8 B a) s) = m_X s"
  "m_Y (exec_state (read8 B a) s) = m_Y s" "m_D (exec_state (read8 B a) s) = m_D s"
  "m_C (exec_state (read8 B a) s) = m_C s" "m_DBR (exec_state (read8 B a) s) = m_DBR s"
  "m_PageCross (exec_state (read8 B a) s) = m_PageCross s"
  "m_E (exec_state (write8 B a v) s) = m_E s" "m_M8 (exec_state (write8 B a v) s) = m_M8 s"
  "m_X8 (exec_state (write8 B a v) s) = m_X8 s" "m_D (exec_state (write8 B a v) s) = m_D s"
  "m_E (exec_state (fetch8 B) s) = m_E s" "m_M8 (exec_state (fetch8 B) s) = m_M8 s"
  "m_X8 (exec_state (fetch8 B) s) = m_X8 s" "m_X (exec_state (fetch8 B) s) = m_X s"
  "m_Y (exec_state (fetch8 B) s) = m_Y s" "m_D (exec_state (fetch8 B) s) = m_D s"
  "m_C (exec_state (fetch8 B) s) = m_C s" "m_DBR (exec_state (fetch8 B) s) = m_DBR s"
  "m_PageCross (exec_state (fetch8 B) s) = m_PageCross s"
  by (simp_all add: read8_def write8_def fetch8_def busRead8_def busWrite8_def Let_def case_prod_beta)

lemmas outer_defs =
  fast_memory lda_def memM_def store_def readM_def writeM_def memory8_def index8_def fetch16_def Let_def case_prod_beta
  clear_scratch_def emuDoneE_def add_cycles_def fast_set_A_def znE_setZN8 setA_setAcc setZNM_def setAcc_def
  setZN8_def setFlag_def eaDirect_def eaAbsolute_def set_EABank0_def dp_penalty_def dp_unaligned_def fast_abs_def
  set_PC_def getAcc_def getA_def lo8_def

lemma fast_dp:
  assumes "cpu_ok s" "m_E s"
  shows "same_run (do { off \<leftarrow> f8E B; a \<leftarrow> gets (\<lambda>s. ucast (ucast off + m_D s));
                n \<leftarrow> rd8E B a; modify (fast_set_A n);
                p \<leftarrow> gets dp_penalty; emuDoneE (3 + p) }) (generic_path B 0xA5) s"
    "same_run (do { off \<leftarrow> f8E B; a \<leftarrow> gets (\<lambda>s. ucast (ucast off + m_D s));
                v \<leftarrow> gets getA; wr8E B a v;
                p \<leftarrow> gets dp_penalty; emuDoneE (3 + p) }) (generic_path B 0x85) s"
    "same_run (do { a \<leftarrow> fast_abs B; v \<leftarrow> gets getA; wr8E B a v; emuDoneE 4 }) (generic_path B 0x8D) s"
  unfolding same_run_def generic_path_E [OF assms] generic_lookup fast_cycles
  using assms(2) E_widths [OF assms]
  by (cases "m_D s AND 255 = 0"; simp add: outer_defs blind)+

lemma getAcc_byte: "m_M8 s \<Longrightarrow> getAcc s = ucast (getA s)"
proof -
  have "ucast (ucast (c AND 0xFF) :: u8) = c AND (0xFF :: u16)" for c :: u16
  proof -
    have "c AND 0xFF = take_bit 8 c" by (simp add: take_bit_eq_mask mask_eq_exp_minus_1)
    then show ?thesis by (simp only:) (rule bit_word_eqI, auto simp: bit_simps)
  qed
  then show "m_M8 s \<Longrightarrow> getAcc s = ucast (getA s)" by (simp add: getAcc_def getA_def memory8_def)
qed

lemma fast_set_A_eq: "m_M8 s \<Longrightarrow> setZNM (getAcc (setAcc (ucast n) s)) (setAcc (ucast n) s) = fast_set_A n s"
  by (simp add: fast_set_A_def znE_setZN8 setA_setAcc getAcc_setAcc setZNM_def memory8_def)

lemma fast_logic_same:
  assumes "cpu_ok s" "m_E s" "\<And>a b. ucast (f a b) = g (ucast a) (ucast (b :: u8))"
    "generic_switch B True True opcode = logic g (immediateM B)"
    "\<And>dp pc bt. w65c816Cycles opcode True True True dp pc bt = 2"
  shows "same_run (fast_logic B f) (generic_path B opcode) s"
proof -
  have step: "setZNM (getAcc (setAcc (g (getAcc t) (ucast n)) t)) (setAcc (g (getAcc t) (ucast n)) t)
      = fast_set_A (f (getA t) n) t" if "m_M8 t" for t :: "'a w65" and n
    using fast_set_A_eq [OF that, of "f (getA t) n"] assms(3) by (simp add: getAcc_byte that)
  have scratch: "clear_scratch (add_cycles 2 (fast_set_A (f (getA (clear_scratch t)) n) (clear_scratch t)))
     = clear_scratch (add_cycles 2 (fast_set_A (f (getA t) n) t))" for t :: "'a w65" and n
    by (simp add: clear_scratch_def add_cycles_def fast_set_A_def znE_def setA_def getA_def)
  have fetch: "fetch8 B = f8E B" by (simp add: fast_memory)
  have fe: "run_state (fetch8 B) (clear_scratch s) =
      (fst (run_state (fetch8 B) s), clear_scratch (snd (run_state (fetch8 B) s)))"
    by (simp add: fetch8_def busRead8_def Let_def case_prod_beta clear_scratch_def)
  have m8: "m_M8 (clear_scratch (exec_state (fetch8 B) s))" "m_M8 (clear_scratch s)"
    using E_widths [OF assms(1,2)]
    by (simp_all add: fetch8_def busRead8_def Let_def case_prod_beta clear_scratch_def)
  show ?thesis
    unfolding same_run_def generic_path_E [OF assms(1,2)] assms(4,5)
    by (simp add: fast_logic_def fast_memory logic_def immediateM_def memory8_def m8 fe step Let_def
        case_prod_beta emuDoneE_def scratch)
qed

lemma fast_logics:
  assumes "cpu_ok s" "m_E s"
  shows "same_run (fast_logic B (XOR)) (generic_path B 0x49) s"
    "same_run (fast_logic B (AND)) (generic_path B 0x29) s"
    "same_run (fast_logic B (OR)) (generic_path B 0x09) s"
proof -
  have bits: "ucast (a XOR b) = (ucast a XOR ucast b :: u16)" "ucast (a AND b) = (ucast a AND ucast b :: u16)"
    "ucast (a OR b) = (ucast a OR ucast b :: u16)" for a b :: u8
    by (rule bit_word_eqI; auto simp: bit_simps)+
  show "same_run (fast_logic B (XOR)) (generic_path B 0x49) s"
    "same_run (fast_logic B (AND)) (generic_path B 0x29) s"
    "same_run (fast_logic B (OR)) (generic_path B 0x09) s"
    using fast_logic_same [OF assms bits(1) generic_lookup(10) fast_cycles(10)]
      fast_logic_same [OF assms bits(2) generic_lookup(11) fast_cycles(11)]
      fast_logic_same [OF assms bits(3) generic_lookup(12) fast_cycles(12)] by simp_all
qed

lemma fast_CMP:
  assumes "cpu_ok s" "m_E s"
  shows "same_run (do { n \<leftarrow> f8E B; a \<leftarrow> gets getA;
                modify (\<lambda>s. s\<lparr>m_P := (m_P s AND NOT W65_C) OR (if a \<ge> n then W65_C else 0)\<rparr>);
                modify (znE (a - n)); emuDoneE 2 }) (generic_path B 0xC9) s"
proof -
  have P: "(p AND NOT W65_C) OR (if c then W65_C else 0) = set_flag W65_C c p" for p c
    by (rule word8_eqI) (simp_all add: set_flag_def w65_flag_defs bit_simps)
  have sub: "ucast (ucast (ucast a :: u16) - ucast (ucast n :: u16) :: u32) = a - n" for a n :: u8
  proof -
    have "ucast (x - y) = (ucast x - ucast y :: u8)" for x y :: u32
      by (simp add: word_uint_eq_iff unsigned_ucast_eq take_bit_eq_mod uint_word_ariths mod_simps mod_mod_cancel)
    moreover have "ucast (ucast (ucast a :: u16) :: u32) = a" for a :: u8
      by (rule bit_word_eqI) (auto simp: bit_simps dest: bit_imp_le_length)
    ultimately show ?thesis by simp
  qed
  have le: "((ucast n :: u16) \<le> ucast a) = (n \<le> a)" for a n :: u8
    using unsigned_less [of a, where ?'a = nat] unsigned_less [of n, where ?'a = nat]
    by (simp add: word_le_nat_alt unsigned_ucast_eq take_bit_nat_eq_self)
  have cmp: "opCMP (getAcc t) (ucast n) True t = znE (getA t - n) (t\<lparr>m_P := (m_P t AND NOT W65_C) OR (if getA t \<ge> n then W65_C else 0)\<rparr>)"
    if "m_M8 t" for t :: "'a w65" and n
    by (simp add: opCMP_def getAcc_byte [OF that] znE_setZN8 setZN_width_def P sub le setFlag_def)
  show ?thesis
    unfolding same_run_def generic_path_E [OF assms] generic_lookup fast_cycles
    using assms(2) E_widths [OF assms]
    by (simp add: fast_memory compare_def immediateM_def memory8_def fetch8_def busRead8_def Let_def case_prod_beta
        clear_scratch_def cmp emuDoneE_def add_cycles_def getA_def znE_def)
qed

lemma fast_index:
  assumes "cpu_ok s" "m_E s"
  shows "same_run (fast_step_x 1) (generic_path B 0xE8) s" "same_run (fast_step_x (-1)) (generic_path B 0xCA) s"
    "same_run (fast_step_y 1) (generic_path B 0xC8) s" "same_run (fast_step_y (-1)) (generic_path B 0x88) s"
  unfolding same_run_def generic_path_E [OF assms] generic_lookup fast_cycles
  using assms(2) E_widths [OF assms]
  by (simp_all add: fast_step_x_def fast_step_y_def incdec_x_def incdec_y_def index_add_def index8_def lo8_add Let_def
        clear_scratch_def emuDoneE_def add_cycles_def znE_setZN8 setZNX_def setZN8_def setFlag_def)
   (simp_all add: lo8_def)

lemma fast_flags:
  assumes "cpu_ok s" "m_E s"
  shows "same_run (do { clear_P W65_C; emuDoneE 2 }) (generic_path B 0x18) s"
    "same_run (do { set_P W65_C; emuDoneE 2 }) (generic_path B 0x38) s"
  unfolding same_run_def generic_path_E [OF assms] generic_lookup fast_cycles
  by (simp_all add: clear_P_def set_P_def Let_def clear_scratch_def emuDoneE_def add_cycles_def)


lemma fast_branches:
  assumes "cpu_ok s" "m_E s" "opcode \<in> {0x10, 0x30, 0x90, 0xB0, 0xD0, 0xF0}"
  shows "same_run (fast_branch B opcode) (generic_path B opcode) s"
proof -
  have shape: "same_run (fast_branch B opcode) (generic_path B opcode) s"
    if g: "generic_switch B True True opcode = W65_BRANCH B (\<lambda>s. c (m_P s))"
      and f: "\<And>p. (has p (flagSel ! unat (drop_bit 6 opcode)) = (opcode AND 0x20 \<noteq> 0)) = c p"
      and cyc: "\<And>dp pc bt. w65c816Cycles opcode True True True dp pc bt = (if bt then (if pc then 4 else 3) else 2)"
    for c
    unfolding same_run_def generic_path_E [OF assms(1,2)] g cyc
    by (simp add: fast_branch_def f fast_memory W65_BRANCH_def fetch8_def busRead8_def Let_def case_prod_beta
        clear_scratch_def emuDoneE_def add_cycles_def)
  have sel: "flagSel ! 0 = W65_N" "flagSel ! 2 = W65_C" "flagSel ! 3 = W65_Z"
    by (simp_all add: flagSel_def)
  note cyc = branch_cycles
  consider "opcode = 0x10" | "opcode = 0x30" | "opcode = 0x90" | "opcode = 0xB0" | "opcode = 0xD0" | "opcode = 0xF0"
    using assms(3) by auto
  then show ?thesis
  proof cases
    case 1 show ?thesis unfolding 1
      by (rule shape [unfolded 1, OF generic_lookup(23) _ branch_cycles(1)]) (simp add: sel)
  next
    case 2 show ?thesis unfolding 2
      by (rule shape [unfolded 2, OF generic_lookup(24) _ branch_cycles(2)]) (simp add: sel)
  next
    case 3 show ?thesis unfolding 3
      by (rule shape [unfolded 3, OF generic_lookup(25) _ branch_cycles(3)]) (simp add: sel)
  next
    case 4 show ?thesis unfolding 4
      by (rule shape [unfolded 4, OF generic_lookup(26) _ branch_cycles(4)]) (simp add: sel)
  next
    case 5 show ?thesis unfolding 5
      by (rule shape [unfolded 5, OF generic_lookup(27) _ branch_cycles(5)]) (simp add: sel)
  next
    case 6 show ?thesis unfolding 6
      by (rule shape [unfolded 6, OF generic_lookup(28) _ branch_cycles(6)]) (simp add: sel)
  qed
qed

lemma fast_indexed:
  assumes "cpu_ok s" "m_E s"
  shows "same_run (fast_lda_indexed B m_X) (generic_path B 0xBD) s"
    "same_run (fast_lda_indexed B m_Y) (generic_path B 0xB9) s"
proof -
  define lo where "lo = eval_state (fetch8 B) s"
  define s1 where "s1 = exec_state (fetch8 B) s"
  define hi where "hi = eval_state (fetch8 B) s1"
  define s2 where "s2 = exec_state (fetch8 B) s1"
  have f: "run_state (fetch8 B) s = (lo, s1)" "run_state (fetch8 B) s1 = (hi, s2)"
    by (simp_all add: lo_def s1_def hi_def s2_def)
  have r: "m_E s2" "m_M8 s2" "m_X8 s2" "m_X s2 = m_X s" "m_Y s2 = m_Y s" "m_DBR s2 = m_DBR s" "m_DBR s1 = m_DBR s"
    "m_C s2 = m_C s" "m_C s1 = m_C s"
    "m_PageCross s2 = m_PageCross s" "m_E s1" "m_M8 s1" "m_X8 s1" "m_X s1 = m_X s" "m_Y s1 = m_Y s"
    using assms(2) E_widths [OF assms] by (simp_all add: s1_def s2_def blind)
  have w: "m_E s" "m_M8 s" "m_X8 s" "m_X s AND 0xFF = m_X s" "m_Y s AND 0xFF = m_Y s"
    using assms(2) E_widths [OF assms] by simp_all
  show "same_run (fast_lda_indexed B m_X) (generic_path B 0xBD) s"
    unfolding same_run_def generic_path_E [OF assms] generic_lookup fast_cycles
    by (cases "page_crossed (word16 lo hi) (word16 lo hi + m_X s)")
      (simp_all add: f r w outer_defs blind fast_lda_indexed_def eaAbsoluteX_def eaAbsoluteIndexed_def
        getX_def note_page_cross_def)
  show "same_run (fast_lda_indexed B m_Y) (generic_path B 0xB9) s"
    unfolding same_run_def generic_path_E [OF assms] generic_lookup fast_cycles
    by (cases "page_crossed (word16 lo hi) (word16 lo hi + m_Y s)")
      (simp_all add: f r w outer_defs blind fast_lda_indexed_def eaAbsoluteY_def eaAbsoluteIndexed_def
        getY_def note_page_cross_def)
qed

lemma push_E: "m_E s \<Longrightarrow> run_state (pushE8 B v) s = run_state (push8 B v) s"
  by (simp add: pushE8_def push8_def fast_memory stack_dec_def case_prod_beta blind)

lemma pull_E: "m_E s \<Longrightarrow> run_state (pullE8 B) s = run_state (pull8 B) s"
  by (simp add: pullE8_def pull8_def fast_memory stack_inc_def)

lemma stack_blind [blind]:
  "run_state (push8 B v) (clear_scratch s) = ((), clear_scratch (exec_state (push8 B v) s))"
  "run_state (pull8 B) (clear_scratch s) = (eval_state (pull8 B) s, clear_scratch (exec_state (pull8 B) s))"
  "run_state (fetch8 B) (clear_scratch s) = (eval_state (fetch8 B) s, clear_scratch (exec_state (fetch8 B) s))"
  by (simp_all add: push8_def pull8_def stack_dec_def stack_inc_def clear_scratch_def case_prod_beta blind
      read8_def write8_def fetch8_def busRead8_def busWrite8_def Let_def)

lemma stack_E [blind]: "m_E (exec_state (push8 B v) s) = m_E s" "m_E (exec_state (pull8 B) s) = m_E s"
  by (simp_all add: push8_def pull8_def stack_dec_def stack_inc_def case_prod_beta blind)

lemma fast_subroutine:
  assumes "cpu_ok s" "m_E s"
  shows "same_run (do { lo \<leftarrow> f8E B; hi \<leftarrow> f8E B; r \<leftarrow> gets (\<lambda>s. m_PC s - 1);
                pushE8 B (hi8 r); pushE8 B (lo8 r);
                set_PC (word16 lo hi); emuDoneE 6 }) (generic_path B 0x20) s"
    "same_run (do { lo \<leftarrow> pullE8 B; hi \<leftarrow> pullE8 B; set_PC (word16 lo hi + 1); emuDoneE 6 }) (generic_path B 0x60) s"
proof -
  have pc: "m_PC (clear_scratch t) = m_PC t" "clear_scratch (clear_scratch t) = clear_scratch t"
    "clear_scratch (t\<lparr>m_PC := p\<rparr>) = (clear_scratch t)\<lparr>m_PC := p\<rparr>"
    "clear_scratch (t\<lparr>m_Cycles := n\<rparr>) = (clear_scratch t)\<lparr>m_Cycles := n\<rparr>"
    "m_Cycles (clear_scratch t) = m_Cycles t" for t :: "'a w65" and p n
    by (simp_all add: clear_scratch_def)
  show "same_run (do { lo \<leftarrow> f8E B; hi \<leftarrow> f8E B; r \<leftarrow> gets (\<lambda>s. m_PC s - 1);
                pushE8 B (hi8 r); pushE8 B (lo8 r);
                set_PC (word16 lo hi); emuDoneE 6 }) (generic_path B 0x20) s"
    "same_run (do { lo \<leftarrow> pullE8 B; hi \<leftarrow> pullE8 B; set_PC (word16 lo hi + 1); emuDoneE 6 }) (generic_path B 0x60) s"
    unfolding same_run_def generic_path_E [OF assms] generic_lookup fast_cycles
    using assms(2)
    by (simp_all add: push_E pull_E blind fast_memory fetch16_def push16_def pull16_def set_PC_def emuDoneE_def
        add_cycles_def Let_def case_prod_beta pc)
qed

lemma fast_entries:
  assumes "cpu_ok s" "m_E s" "(opcode, m) \<in> set (fast_table B)"
  shows "same_run m (generic_path B opcode) s"
  using assms(3) fast_loads [OF assms(1,2)] fast_dp [OF assms(1,2)] fast_logics [OF assms(1,2)]
    fast_CMP [OF assms(1,2)] fast_index [OF assms(1,2)] fast_flags [OF assms(1,2)]
    fast_branches [OF assms(1,2)] fast_indexed [OF assms(1,2)] fast_subroutine [OF assms(1,2)]
  unfolding fast_table_def by (simp only: set_simps insert_iff empty_iff prod.inject) (elim disjE; simp)

lemma dispatch_same:
  assumes "cpu_ok s"
  shows "same_run (dispatch B opcode) (generic_path B opcode) s"
proof (cases "m_E s")
  case True
  show ?thesis
  proof (cases "map_of (fast_table B) opcode")
    case None
    then show ?thesis using True by (simp add: dispatch_def fast_switch_def same_run_def)
  next
    case (Some m)
    from fast_entries [OF assms True map_of_SomeD [OF Some]] Some True show ?thesis
      by (simp add: dispatch_def fast_switch_def same_run_def case_prod_beta)
  qed
qed (simp add: dispatch_def same_run_def)

text \<open>C5. The emulation-mode fast path is an optimisation only: from any state that satisfies the register
  invariant, dispatching an opcode returns the same cycle count and leaves the same machine (all
  registers, counters and the bus) as the generic path, the three scratch fields excepted.\<close>

theorem dispatch_generic:
  assumes "cpu_ok s"
  shows "eval_state (dispatch B opcode) s = eval_state (generic_path B opcode) s
    \<and> clear_scratch (exec_state (dispatch B opcode) s) = clear_scratch (exec_state (generic_path B opcode) s)"
  using dispatch_same [OF assms, of B opcode] by (simp add: same_run_def)

lemma dispatch_generic_witness:
  "eval_state (dispatch flat_buses 0xA9) (w65_new (\<lambda>_. 0x42)) = eval_state (generic_path flat_buses 0xA9) (w65_new (\<lambda>_. 0x42))"
  using dispatch_generic [OF w65_new_ok [of "\<lambda>_. 0x42"], where B = flat_buses and opcode = "0xA9"] by blast

end
