(* ===== verification/W65Run.thy ===== *)
theory W65Run
  imports W65Dispatch
begin

text \<open>
  Scheduling of the 65C816 core. \<open>sched_view\<close> collects the fields that drive the prologue and the
  run loop; every instruction body except STP and WAI leaves them alone. From that: every step costs
  between one and nine cycles, \<open>run()\<close> returns after at most eight cycles beyond its budget, and
  skipping the cold prologue while the pending byte is zero is sound.
\<close>

unbundle bit_operations_syntax

section \<open>What drives the scheduler\<close>

type_synonym sched = "u64 \<times> bool \<times> bool \<times> bool \<times> bool \<times> u8 \<times> bool"

definition sched_view :: "'b w65 \<Rightarrow> sched" where
  "sched_view s = (m_Cycles s, m_Stopped s, m_Waiting s, m_NMIPending s, m_NMIPrevLevel s, m_Pending s, m_DeferNativeNMI s)"

lemma sched_regs [simp]:
  "sched_view (s\<lparr>m_C := w\<rparr>) = sched_view s" "sched_view (s\<lparr>m_X := w\<rparr>) = sched_view s"
  "sched_view (s\<lparr>m_Y := w\<rparr>) = sched_view s" "sched_view (s\<lparr>m_S := w\<rparr>) = sched_view s"
  "sched_view (s\<lparr>m_D := w\<rparr>) = sched_view s" "sched_view (s\<lparr>m_PC := w\<rparr>) = sched_view s"
  "sched_view (s\<lparr>m_PBR := k\<rparr>) = sched_view s" "sched_view (s\<lparr>m_DBR := k\<rparr>) = sched_view s"
  "sched_view (s\<lparr>m_P := k\<rparr>) = sched_view s" "sched_view (s\<lparr>m_E := b\<rparr>) = sched_view s"
  "sched_view (s\<lparr>m_CycKey := k\<rparr>) = sched_view s" "sched_view (s\<lparr>m_PageCross := b\<rparr>) = sched_view s"
  "sched_view (s\<lparr>m_BranchTaken := b\<rparr>) = sched_view s" "sched_view (s\<lparr>m_EABank0 := b\<rparr>) = sched_view s"
  "sched_view (s\<lparr>w_bus := bus\<rparr>) = sched_view s" "sched_view (s\<lparr>m_RunBreak := b\<rparr>) = sched_view s"
  "sched_view (s\<lparr>m_NativeInstructions := n\<rparr>) = sched_view s" "sched_view (s\<lparr>m_IRQsTaken := n\<rparr>) = sched_view s"
  "sched_view (s\<lparr>m_NMIsTaken := n\<rparr>) = sched_view s" "sched_view (s\<lparr>m_LastNMITakeCycles := n\<rparr>) = sched_view s"
  "sched_view (s\<lparr>m_NMIsDeferred := n\<rparr>) = sched_view s" "sched_view (s\<lparr>m_M8 := b\<rparr>) = sched_view s"
  "sched_view (s\<lparr>m_X8 := b\<rparr>) = sched_view s"
  by (simp_all add: sched_view_def)

lemma sched_ops [simp]:
  "sched_view (setFlag f b s) = sched_view s" "sched_view (setAcc v s) = sched_view s" "sched_view (setA a s) = sched_view s"
  "sched_view (setZN8 a s) = sched_view s" "sched_view (setZN16 v s) = sched_view s"
  "sched_view (setZNM v s) = sched_view s" "sched_view (setZNX v s) = sched_view s"
  "sched_view (setZN_width m r s) = sched_view s" "sched_view (applyE s) = sched_view s"
  "sched_view (opADC v s) = sched_view s" "sched_view (opSBC v s) = sched_view s"
  "sched_view (opCMP w v e s) = sched_view s" "sched_view (opBIT v i s) = sched_view s"
  "sched_view (stack_dec s) = sched_view s" "sched_view (stack_inc s) = sched_view s"
  "sched_view (set_EABank0 b s) = sched_view s" "sched_view (note_page_cross b s) = sched_view s"
  "sched_view (move_counters b s) = sched_view s" "sched_view (exchange_carry_emulation s) = sched_view s"
  "sched_view (znE a s) = sched_view s" "sched_view (fast_set_A a s) = sched_view s"
  by (simp_all add: sched_view_def setFlag_def setAcc_def setA_def setZN8_def setZN16_def setZNM_def setZNX_def
      setZN_width_def applyE_def force_widths_def cache_widths_def opADC_def opSBC_def opCMP_def opBIT_def
      stack_dec_def stack_inc_def set_EABank0_def note_page_cross_def move_counters_def
      exchange_carry_emulation_def znE_def fast_set_A_def Let_def split: prod.splits)

lemma sched_bus [keeps_intros]:
  "keeps sched_view (busRead8 B a)" "keeps sched_view (busWrite8 B a v)"
  "keeps sched_view (busInterrupts B)" "keeps sched_view (busTick B n)"
  by (auto simp: keeps_def busRead8_def busWrite8_def busInterrupts_def busTick_def Let_def split: prod.splits)

lemma sched_memory [keeps_intros]:
  "keeps sched_view (fetch8 B)" "keeps sched_view (fetch16 B)" "keeps sched_view (fetch24 B)"
  "keeps sched_view (read8 B a)" "keeps sched_view (write8 B a b)"
  "keeps sched_view (read16Bank0 B w)" "keeps sched_view (readDPPointer B a)"
  "keeps sched_view (rmwWrite B a w w')" "keeps sched_view (readM B a)" "keeps sched_view (writeM B a w)"
  "keeps sched_view (readX B a)" "keeps sched_view (writeX B a w)"
  "keeps sched_view (immediateM B)" "keeps sched_view (immediateX B)"
  by (unfold memory_defs) (intro keeps_intros; simp)+

lemma sched_stack [keeps_intros]:
  "keeps sched_view (push8 B b)" "keeps sched_view (pull8 B)" "keeps sched_view (push16 B v)" "keeps sched_view (pull16 B)"
  "keeps sched_view (push8New B b)" "keeps sched_view (pull8New B)" "keeps sched_view (push16New B v)"
  "keeps sched_view (pull16New B)" "keeps sched_view (push_reg B w r q)"
  by (unfold push_reg_def push16_def pull16_def push8_def pull8_def push16New_def pull16New_def push8New_def pull8New_def)
    (intro keeps_intros; simp)+

lemma sched_ea [keeps_intros]:
  "keeps sched_view (eaDirect B)" "keeps sched_view (eaDirectIndexed B i)" "keeps sched_view (eaAbsolute B)"
  "keeps sched_view (eaAbsoluteIndexed B i)" "keeps sched_view (eaLong B)" "keeps sched_view (eaLongIndexed B i)"
  "keeps sched_view (eaIndirect B)" "keeps sched_view (eaIndirectX B)" "keeps sched_view (eaIndirectY B)"
  "keeps sched_view (eaIndirectLong B)" "keeps sched_view (eaIndirectLongY B)"
  "keeps sched_view (eaStackRelative B)" "keeps sched_view (eaStackRelativeIndirectY B)"
  "keeps sched_view (eaDirectX B)" "keeps sched_view (eaDirectY B)" "keeps sched_view (eaAbsoluteX B)"
  "keeps sched_view (eaAbsoluteY B)" "keeps sched_view (eaLongX B)"
  by (unfold ea_defs) (intro keeps_intros; simp)+

lemma sched_shapes [keeps_intros]:
  "keeps sched_view ad \<Longrightarrow> keeps sched_view (memM B ad)" "keeps sched_view ad \<Longrightarrow> keeps sched_view (memX B ad)"
  "keeps sched_view src \<Longrightarrow> keeps sched_view (lda src)" "keeps sched_view src \<Longrightarrow> keeps sched_view (ldx src)"
  "keeps sched_view src \<Longrightarrow> keeps sched_view (ldy src)"
  "keeps sched_view src \<Longrightarrow> (\<And>v s. sched_view (h v s) = sched_view s) \<Longrightarrow> keeps sched_view (operand src h)"
  "keeps sched_view src \<Longrightarrow> keeps sched_view (logic g src)"
  "keeps sched_view src \<Longrightarrow> keeps sched_view (compare r src w)"
  "keeps sched_view ad \<Longrightarrow> (\<And>a v. keeps sched_view (wr a v)) \<Longrightarrow> keeps sched_view (store ad wr r)"
  "keeps sched_view ad \<Longrightarrow> keeps sched_view (test_and_modify B ad g)"
  "keeps sched_view ad \<Longrightarrow> keeps sched_view (incdec_mem B ad d)"
  "keeps sched_view (incdec_acc d)" "keeps sched_view (incdec_x d)" "keeps sched_view (incdec_y d)"
  "keeps sched_view (transfer_a r)" "keeps sched_view (transfer_x r)" "keeps sched_view (transfer_y r)"
  "keeps sched_view (W65_BRANCH B c)" "keeps sched_view (set_PC p)" "keeps sched_view (set_PBR k)"
  "keeps sched_view (read_pbr_pointer B q)" "keeps sched_view (clear_P k)" "keeps sched_view (set_P k)"
  "keeps sched_view (block_move B up)"
  by (unfold memM_def memX_def lda_def ldx_def ldy_def operand_def logic_def compare_def store_def test_and_modify_def incdec_mem_def
      incdec_acc_def incdec_x_def incdec_y_def transfer_a_def transfer_x_def transfer_y_def W65_BRANCH_def
      set_PC_def set_PBR_def read_pbr_pointer_def clear_P_def set_P_def block_move_def)
    (intro keeps_intros; simp)+

lemma sched_shift [keeps_intros]:
  "keeps sched_view (shift_acc asl_body)" "keeps sched_view (shift_acc lsr_body)"
  "keeps sched_view (shift_acc rol_body)" "keeps sched_view (shift_acc ror_body)"
  "keeps sched_view ad \<Longrightarrow> keeps sched_view (shift_mem B ad asl_body)"
  "keeps sched_view ad \<Longrightarrow> keeps sched_view (shift_mem B ad lsr_body)"
  "keeps sched_view ad \<Longrightarrow> keeps sched_view (shift_mem B ad rol_body)"
  "keeps sched_view ad \<Longrightarrow> keeps sched_view (shift_mem B ad ror_body)"
proof -
  have b: "keeps sched_view (State (asl_body t))" "keeps sched_view (State (lsr_body t))"
    "keeps sched_view (State (rol_body t))" "keeps sched_view (State (ror_body t))" for t
    by (simp_all add: keeps_def asl_body_def lsr_body_def rol_body_def ror_body_def Let_def)
  show "keeps sched_view (shift_acc asl_body)" "keeps sched_view (shift_acc lsr_body)"
    "keeps sched_view (shift_acc rol_body)" "keeps sched_view (shift_acc ror_body)"
    "keeps sched_view ad \<Longrightarrow> keeps sched_view (shift_mem B ad asl_body)"
    "keeps sched_view ad \<Longrightarrow> keeps sched_view (shift_mem B ad lsr_body)"
    "keeps sched_view ad \<Longrightarrow> keeps sched_view (shift_mem B ad rol_body)"
    "keeps sched_view ad \<Longrightarrow> keeps sched_view (shift_mem B ad ror_body)"
    unfolding shift_acc_def shift_mem_def by (intro keeps_intros b; simp)+
qed

lemma sched_vector [keeps_intros]: "keeps sched_view (fetch_vector B v)" "keeps sched_view (serviceInterrupt B n e brk)"
proof -
  show v: "keeps sched_view (fetch_vector B v)" for v
    using keepsD [OF sched_memory(6) [of B v]]
    by (auto simp: keeps_def fetch_vector_def Let_def case_prod_beta split: option.splits)
  show "keeps sched_view (serviceInterrupt B n e brk)"
    unfolding serviceInterrupt_def by (intro keeps_intros v; simp)
qed

lemma sched_table:
  "list_all (\<lambda>(opcode, m). opcode \<noteq> 0xDB \<and> opcode \<noteq> 0xCB \<longrightarrow> keeps sched_view m) (switch_table B m8 x8)"
  unfolding switch_table_def switch_defs append.simps
  by (simp only: list.pred_inject prod.case) (intro conjI impI TrueI keeps_intros; simp)

section \<open>The cost of one step\<close>

lemma view_Cycles: "sched_view s = sched_view t \<Longrightarrow> m_Cycles s = m_Cycles t"
  by (simp add: sched_view_def)

lemma keeps_Cycles: "keeps sched_view m \<Longrightarrow> keeps m_Cycles m"
  using view_Cycles by (fastforce simp: keeps_def)

lemma switch_Cycles: "keeps m_Cycles (generic_switch B m8 x8 opcode)"
proof -
  obtain m where m: "(opcode, m) \<in> set (switch_table B m8 x8)" "generic_switch B m8 x8 opcode = m"
    using switch_defined [of opcode B m8 x8] by blast
  show ?thesis
  proof (cases "opcode = 0xDB \<or> opcode = 0xCB")
    case True
    have "generic_switch B m8 x8 0xDB = modify (\<lambda>s. s\<lparr>m_Stopped := True, m_Pending := m_Pending s OR W65_PEND_STOPPED\<rparr>)"
      "generic_switch B m8 x8 0xCB = modify (\<lambda>s. s\<lparr>m_Waiting := True, m_Pending := m_Pending s OR W65_PEND_WAITING\<rparr>)"
      by (rule switch_entry, simp add: switch_table_def switch_defs)+
    then show ?thesis using True by (auto simp: keeps_def)
  next
    case False
    then show ?thesis
      using sched_table [of B m8 x8] m keeps_Cycles by (auto simp: list_all_iff)
  qed
qed

definition costs :: "('b, 'c) cpu \<Rightarrow> ('c \<Rightarrow> u32) \<Rightarrow> 'b w65 \<Rightarrow> bool" where
  "costs m f s \<longleftrightarrow> (let c = f (eval_state m s)
     in 1 \<le> unat c \<and> unat c \<le> 9 \<and> m_Cycles (exec_state m s) = m_Cycles s + ucast c)"

lemma costs_generic:
  assumes "cpu_ok s"
  shows "costs (generic_path B opcode) id s"
proof -
  have ck: "m_CycKey s = cyc_key (m_M8 s) (m_X8 s) (m_E s) (dp_unaligned s)"
    using assms by (simp add: cpu_ok_def)
  have cyc: "m_Cycles (count_native (clear_scratch s)) = m_Cycles s"
    by (simp add: count_native_def clear_scratch_def)
  have b: "2 \<le> unat (w65c816Cycles opcode m x e d pc bt)" "unat (w65c816Cycles opcode m x e d pc bt) \<le> 9" for m x e d pc bt
    using cycles_range by blast+
  have u: "unat (ucast c :: u32) = unat c" for c :: u8
    using unsigned_less [of c, where ?'a = nat] by (simp add: unsigned_ucast_eq take_bit_nat_eq_self)
  have k: "m_CycKey (clear_scratch s) = m_CycKey s" by (simp add: clear_scratch_def)
  show ?thesis
    unfolding costs_def generic_path_def
    using keepsD [OF switch_Cycles, of B _ _ opcode "count_native (clear_scratch s)"]
    by (simp add: Let_def case_prod_beta k ck lut_exact add_cycles_def u b cyc le_trans [OF _ b(1)])
qed

lemma costs_dispatch:
  assumes "cpu_ok s"
  shows "costs (dispatch B opcode) id s"
proof -
  have "same_run (dispatch B opcode) (generic_path B opcode) s" by (rule dispatch_same [OF assms])
  moreover have "m_Cycles (clear_scratch t) = m_Cycles t" for t :: "'a w65" by (simp add: clear_scratch_def)
  ultimately have "m_Cycles (exec_state (dispatch B opcode) s) = m_Cycles (exec_state (generic_path B opcode) s)"
    "eval_state (dispatch B opcode) s = eval_state (generic_path B opcode) s"
    unfolding same_run_def by metis+
  then show ?thesis using costs_generic [OF assms, of B opcode] by (simp add: costs_def)
qed

definition early_cost :: "('b, u32 option) cpu \<Rightarrow> 'b w65 \<Rightarrow> bool" where
  "early_cost m s \<longleftrightarrow> (case eval_state m s of
     None \<Rightarrow> m_Cycles (exec_state m s) = m_Cycles s
   | Some c \<Rightarrow> 1 \<le> unat c \<and> unat c \<le> 9 \<and> m_Cycles (exec_state m s) = m_Cycles s + ucast c)"

lemma cyc_simps [simp]: "m_Cycles (add_cycles c s) = m_Cycles s + ucast c" "m_Cycles (count_deferred s) = m_Cycles s"
  "m_Cycles (wake s) = m_Cycles s" "m_Cycles (note_lines i n s) = m_Cycles s"
  by (simp_all add: add_cycles_def count_deferred_def wake_def note_lines_def Let_def)

lemma cyc_service [simp]: "m_Cycles (exec_state (serviceInterrupt B n e brk) s) = m_Cycles s"
  by (rule keepsD [OF keeps_Cycles [OF sched_vector(2)]])

lemma early_idle: "early_cost idle_cycle s"
  by (simp add: early_cost_def idle_cycle_def)

lemma early_taken: "early_cost (take_nmi B) s" "early_cost (take_irq B) s"
  by (simp_all add: early_cost_def take_nmi_def take_irq_def interrupt_cycles_def case_prod_beta)

lemma cyc_sample: "m_Cycles (exec_state (sample_lines B) s) = m_Cycles s"
  using keepsD [OF keeps_Cycles [OF sched_bus(3)], of B s]
  by (simp add: sample_lines_def case_prod_beta)

lemma early_bind:
  assumes "m_Cycles (exec_state m s) = m_Cycles s" "early_cost (g (eval_state m s)) (exec_state m s)"
  shows "early_cost (State_Monad.bind m g) s"
  using assms by (simp add: early_cost_def case_prod_beta split: option.splits)

lemma early_ifM:
  assumes "c s \<Longrightarrow> early_cost m s" "\<not> c s \<Longrightarrow> early_cost n s"
  shows "early_cost (ifM c m n) s"
  using assms by (cases "c s") (simp_all add: early_cost_def split: option.splits)

lemma early_prologue: "early_cost (prologue B) s"
proof -
  have none: "early_cost (ret None) t" for t :: "'a w65" by (simp add: early_cost_def)
  show ?thesis
    unfolding prologue_def
    by (intro early_ifM early_idle early_bind early_taken none; simp add: cyc_sample)
qed

lemma costs_stepInner:
  assumes "cpu_ok s"
  shows "costs (stepInner B) id s"
proof -
  define p where "p = ifM (\<lambda>s. m_Pending s \<noteq> 0) (prologue B) (ret None)"
  have "early_cost (ret None) s" by (simp add: early_cost_def)
  then have p: "early_cost p s" unfolding p_def by (intro early_ifM early_prologue)
  have ok: "cpu_ok (exec_state p s)"
    unfolding p_def by (intro presD [where I = cpu_ok, OF _ assms] pres_ifM pres_prologue pres_ret)
  show ?thesis
  proof (cases "eval_state p s")
    case (Some c)
    then show ?thesis using p
      by (simp add: costs_def stepInner_def p_def [symmetric] early_cost_def case_prod_beta)
  next
    case None
    let ?t = "exec_state (fetch8 B) (exec_state p s)"
    have "cpu_ok ?t" using presD [OF pres_view [OF keeps_memory(1)] ok] .
    from costs_dispatch [OF this, of B "eval_state (fetch8 B) (exec_state p s)"] None p show ?thesis
      using keepsD [OF keeps_Cycles [OF sched_memory(1)], of B "exec_state p s"]
      by (simp add: costs_def stepInner_def p_def [symmetric] early_cost_def case_prod_beta)
  qed
qed

section \<open>The run loop\<close>

lemma unat_add_small:
  "unat a + unat c < 2 ^ 64 \<Longrightarrow> unat (a + ucast (c :: u32)) = unat a + unat c" for a :: u64
  using unsigned_less [of c, where ?'a = nat]
  by (simp add: unat_word_ariths unsigned_ucast_eq take_bit_nat_eq_self)

definition elapsed :: "u64 \<Rightarrow> 'b w65 \<Rightarrow> nat" where
  "elapsed start s = unat (m_Cycles s - start)"

lemma elapsed_step:
  assumes "cpu_ok s" "elapsed start s + 9 < 2 ^ 64"
  shows "elapsed start s + 1 \<le> elapsed start (exec_state (stepInner B) s)"
    "elapsed start (exec_state (stepInner B) s) \<le> elapsed start s + 9"
proof -
  define c where "c = eval_state (stepInner B) s"
  have c: "1 \<le> unat c" "unat c \<le> 9" "m_Cycles (exec_state (stepInner B) s) = m_Cycles s + ucast c"
    using costs_stepInner [OF assms(1), of B] by (simp_all add: costs_def c_def Let_def)
  have "elapsed start (exec_state (stepInner B) s) = unat ((m_Cycles s - start) + ucast c)"
    by (simp add: elapsed_def c(3) algebra_simps)
  also have "\<dots> = elapsed start s + unat c"
    using assms(2) c(2) unat_add_small [of "m_Cycles s - start" c] by (simp add: elapsed_def)
  finally show "elapsed start s + 1 \<le> elapsed start (exec_state (stepInner B) s)"
    "elapsed start (exec_state (stepInner B) s) \<le> elapsed start s + 9" using c by simp_all
qed

lemma elapsed_batch:
  "cpu_ok s \<Longrightarrow> elapsed start s + 9 * k < 2 ^ 64 \<Longrightarrow>
    (0 < k \<longrightarrow> elapsed start s + 1 \<le> elapsed start (exec_state (batch B k) s))
    \<and> elapsed start s \<le> elapsed start (exec_state (batch B k) s)
    \<and> elapsed start (exec_state (batch B k) s) \<le> elapsed start s + 9 * k"
proof (induction k arbitrary: s)
  case (Suc k)
  let ?t = "exec_state (stepInner B) s"
  have e: "elapsed start s + 1 \<le> elapsed start ?t" "elapsed start ?t \<le> elapsed start s + 9"
    using elapsed_step [OF Suc.prems(1), of start B] Suc.prems(2) by simp_all
  have ok: "cpu_ok ?t" by (rule presD [where I = cpu_ok, OF pres_stepInner Suc.prems(1)])
  have IH: "elapsed start ?t \<le> elapsed start (exec_state (batch B k) ?t)
     \<and> elapsed start (exec_state (batch B k) ?t) \<le> elapsed start ?t + 9 * k"
    using Suc.IH [OF ok] e Suc.prems(2) by simp
  have "exec_state (batch B (Suc k)) s = ?t \<or> exec_state (batch B (Suc k)) s = exec_state (batch B k) ?t"
    by (simp add: case_prod_beta)
  then show ?case using e IH by auto
qed simp

lemma elapsed_iteration:
  fixes B :: "'b buses"
  assumes "cpu_ok s" "elapsed start s < unat n" "unat n + 9 < 2 ^ 64"
  defines "t \<equiv> exec_state (run_iteration B start n) s"
  shows "elapsed start s < elapsed start t" "elapsed start t < unat n + 9"
proof -
  define m where "m = ifM (\<lambda>s. n - (m_Cycles s - start) > 80) (batch B 8) (do { _ \<leftarrow> stepInner B; ret () })"
  have "m_Cycles t = m_Cycles (exec_state m s)"
    using keepsD [OF keeps_Cycles [OF sched_bus(4)]]
    by (simp add: t_def run_iteration_def m_def [symmetric] case_prod_beta)
  then have t: "elapsed start t = elapsed start (exec_state m s)" by (simp add: elapsed_def)
  have left: "unat (n - (m_Cycles s - start)) = unat n - elapsed start s"
    using assms(2) by (simp add: elapsed_def unat_sub word_le_nat_alt)
  show "elapsed start s < elapsed start t" "elapsed start t < unat n + 9"
  proof (atomize (full), cases "n - (m_Cycles s - start) > 80")
    case True
    then have "elapsed start s + 80 < unat n" using left by (simp add: word_less_nat_alt)
    moreover have "exec_state m s = exec_state (batch B 8) s" using True by (simp add: m_def)
    ultimately show "elapsed start s < elapsed start t \<and> elapsed start t < unat n + 9"
      using elapsed_batch [OF assms(1), of start 8 B] assms(3) t by simp
  next
    case False
    then have "exec_state m s = exec_state (stepInner B) s" by (simp add: m_def case_prod_beta)
    then show "elapsed start s < elapsed start t \<and> elapsed start t < unat n + 9"
      using elapsed_step [OF assms(1), of start B] assms(2,3) t by simp
  qed
qed

definition run_inv :: "u64 \<Rightarrow> u64 \<Rightarrow> bool \<times> 'b w65 \<Rightarrow> bool" where
  "run_inv start n p \<longleftrightarrow> cpu_ok (snd p) \<and> elapsed start (snd p) < unat n + 9 \<and> (fst p \<longrightarrow> m_Stopped (snd p))"

lemma run_step:
  fixes B :: "'b buses"
  assumes "run_inv start n p" "\<not> fst p \<and> m_Cycles (snd p) - start < n \<and> \<not> m_RunBreak (snd p)"
    "unat n + 9 < 2 ^ 64"
  defines "t \<equiv> exec_state (run_iteration B start n) (snd p)"
  shows "run_inv start n (m_Stopped t, t)"
    "unat n + 9 - elapsed start t < unat n + 9 - elapsed start (snd p)"
proof -
  have ok: "cpu_ok (snd p)" using assms(1) by (simp add: run_inv_def)
  have lt: "elapsed start (snd p) < unat n" using assms(2) by (simp add: elapsed_def word_less_nat_alt)
  note E = elapsed_iteration [OF ok lt assms(3), where B = B, folded t_def]
  have "cpu_ok t" unfolding t_def by (rule presD [where I = cpu_ok, OF pres_run_iteration ok])
  then show "run_inv start n (m_Stopped t, t)" using E(2) by (simp add: run_inv_def)
  show "unat n + 9 - elapsed start t < unat n + 9 - elapsed start (snd p)" using E by linarith
qed

lemma run_loop_returns:
  assumes "run_inv start n (False, s)" "unat n + 9 < 2 ^ 64"
  shows "\<exists>p. run_loop B start n s = Some p \<and> run_inv start n p
    \<and> (fst p \<or> n \<le> m_Cycles (snd p) - start \<or> m_RunBreak (snd p))"
proof -
  define b where "b = (\<lambda>(halted, s :: 'a w65). \<not> halted \<and> m_Cycles s - start < n \<and> \<not> m_RunBreak s)"
  define c where "c = (\<lambda>(halted :: bool, s). let s' = exec_state (run_iteration B start n) s in (m_Stopped s', s'))"
  have bc: "b p = (\<not> fst p \<and> m_Cycles (snd p) - start < n \<and> \<not> m_RunBreak (snd p))"
    "c p = (m_Stopped (exec_state (run_iteration B start n) (snd p)), exec_state (run_iteration B start n) (snd p))" for p
    by (simp_all add: b_def c_def case_prod_beta Let_def)
  have step: "run_inv start n (c p) \<and> unat n + 9 - elapsed start (snd (c p)) < unat n + 9 - elapsed start (snd p)"
    if "run_inv start n p" "b p" for p
    using run_step [OF that(1) that(2) [unfolded bc] assms(2), of B] by (simp add: bc(2))
  obtain p where p: "while_option b c (False, s) = Some p"
    using measure_while_option_Some [of "run_inv start n" b c "\<lambda>p. unat n + 9 - elapsed start (snd p)" "(False, s)"]
      step assms(1) by blast
  have "run_inv start n p" using while_option_rule [of "run_inv start n", OF _ p assms(1)] step by blast
  moreover have "\<not> b p" by (rule while_option_stop [OF p])
  ultimately show ?thesis using p by (auto simp: run_loop_def b_def c_def not_less)
qed

text \<open>C6. \<open>run()\<close> terminates: from any state that satisfies the register invariant it returns, it
  overshoots its budget by at most eight cycles, although it checks the budget only once per batch of
  eight instructions, and it stops early only on a run break or after STP.\<close>

theorem run_returns:
  assumes "cpu_ok s" "unat n + 9 < 2 ^ 64"
  shows "\<exists>used s'. w65_run B n s = Some (used, s') \<and> unat used < unat n + 9
    \<and> (n \<le> used \<or> m_RunBreak s' \<or> m_Stopped s')"
proof -
  define s0 where "s0 = rebuildPending (s\<lparr>m_RunBreak := False\<rparr>)"
  have "width_view s0 = width_view s" by (simp add: s0_def rebuildPending_def width_view_def)
  then have "cpu_ok s0" using assms(1) cpu_ok_cong by blast
  then have "run_inv (m_Cycles s) n (False, s0)"
    by (simp add: run_inv_def elapsed_def s0_def rebuildPending_def)
  from run_loop_returns [OF this assms(2), of B] obtain h t where
    "run_loop B (m_Cycles s) n s0 = Some (h, t)" "run_inv (m_Cycles s) n (h, t)"
    "h \<or> n \<le> m_Cycles t - m_Cycles s \<or> m_RunBreak t" by auto
  then show ?thesis by (auto simp: w65_run_def s0_def run_inv_def elapsed_def)
qed

lemma run_returns_witness:
  "\<exists>used s'. w65_run flat_buses 1000 (w65_new (\<lambda>_. 0xEA)) = Some (used, s') \<and> unat used < 1009"
  using run_returns [OF w65_new_ok [of "\<lambda>_. 0xEA"], where B = flat_buses and n = 1000] by auto

section \<open>The pending byte\<close>

definition pending_ok :: "'b w65 \<Rightarrow> bool" where
  "pending_ok s \<longleftrightarrow> (m_Stopped s \<longrightarrow> has (m_Pending s) W65_PEND_STOPPED)
     \<and> (m_Waiting s \<longrightarrow> has (m_Pending s) W65_PEND_WAITING) \<and> (m_NMIPending s \<longrightarrow> has (m_Pending s) W65_PEND_NMI)"

lemma has_pend [flag_simps]:
  "has p W65_PEND_STOPPED = bit p 0" "has p W65_PEND_WAITING = bit p 1" "has p W65_PEND_NMI = bit p 2"
  "has p W65_PEND_SAMPLE = bit p 3" "has p W65_PEND_IRQLINE = bit p 4"
  by (simp_all add: has_def W65_PEND_STOPPED_def W65_PEND_WAITING_def W65_PEND_NMI_def W65_PEND_SAMPLE_def
      W65_PEND_IRQLINE_def mask_bits)

lemma bit_pend: "bit W65_PEND_STOPPED n = (n = 0)" "bit W65_PEND_WAITING n = (n = 1)" "bit W65_PEND_NMI n = (n = 2)"
  "bit W65_PEND_SAMPLE n = (n = 3)" "bit W65_PEND_IRQLINE n = (n = 4)"
proof -
  have two: "bit (2 ^ k :: u8) n = (n = k)" if "k < 8" for k using that by (auto simp: bit_simps)
  show "bit W65_PEND_STOPPED n = (n = 0)" "bit W65_PEND_WAITING n = (n = 1)" "bit W65_PEND_NMI n = (n = 2)"
    "bit W65_PEND_SAMPLE n = (n = 3)" "bit W65_PEND_IRQLINE n = (n = 4)"
    using two [of 0] two [of 1] two [of 2] two [of 3] two [of 4]
    by (simp_all add: W65_PEND_STOPPED_def W65_PEND_WAITING_def W65_PEND_NMI_def W65_PEND_SAMPLE_def W65_PEND_IRQLINE_def)
qed

lemma pending_view: "sched_view s = sched_view t \<Longrightarrow> pending_ok s = pending_ok t"
  by (simp add: sched_view_def pending_ok_def)

lemma pending_keeps: "keeps sched_view m \<Longrightarrow> pres pending_ok m"
  using pending_view by (fastforce simp: keeps_def pres_def)

lemma pending_switch: "pres pending_ok (generic_switch B m8 x8 opcode)"
proof -
  have e: "(opcode, generic_switch B m8 x8 opcode) \<in> set (switch_table B m8 x8)"
    by (rule switch_defined)
  show ?thesis
  proof (cases "opcode = 0xDB \<or> opcode = 0xCB")
    case True
    have "generic_switch B m8 x8 0xDB = modify (\<lambda>s. s\<lparr>m_Stopped := True, m_Pending := m_Pending s OR W65_PEND_STOPPED\<rparr>)"
      "generic_switch B m8 x8 0xCB = modify (\<lambda>s. s\<lparr>m_Waiting := True, m_Pending := m_Pending s OR W65_PEND_WAITING\<rparr>)"
      by (rule switch_entry, simp add: switch_table_def switch_defs)+
    then show ?thesis using True
      by (auto simp: pres_def pending_ok_def flag_simps bit_simps bit_pend)
  next
    case False
    then show ?thesis
      using sched_table [of B m8 x8] e pending_keeps by (auto simp: list_all_iff)
  qed
qed

lemma pending_ok_simps [simp]: "pending_ok (add_cycles c s) = pending_ok s" "pending_ok (clear_scratch s) = pending_ok s"
  "pending_ok (count_native s) = pending_ok s" "pending_ok (count_deferred s) = pending_ok s"
  by (simp_all add: pending_ok_def add_cycles_def clear_scratch_def count_native_def count_deferred_def)

lemma pending_generic: "pres pending_ok (generic_path B opcode)"
  unfolding generic_path_def
  by (intro pres_bind pres_modify pres_gets pres_ret pending_switch; simp)

lemma pending_dispatch: "cpu_ok s \<Longrightarrow> pending_ok s \<Longrightarrow> pending_ok (exec_state (dispatch B opcode) s)"
  using dispatch_same [of s B opcode] presD [OF pending_generic, of s B opcode]
  by (metis pending_ok_simps(2) same_run_def)

lemma pending_wake: "pending_ok s \<Longrightarrow> pending_ok (wake s)" "pending_ok s \<Longrightarrow> pending_ok (note_lines i n s)"
  by (auto simp: pending_ok_def wake_def note_lines_def Let_def flag_simps bit_simps bit_pend)

lemma pending_prologue: "pres pending_ok (prologue B)"
proof -
  have idle: "pres pending_ok idle_cycle" unfolding idle_cycle_def by (intro pres_bind pres_modify pres_ret; simp)
  have irq: "pres pending_ok (take_irq B)" "pres pending_ok (take_nmi B)"
    unfolding take_irq_def take_nmi_def
    by (intro pres_bind pres_gets pres_ret pres_modify pending_keeps [OF sched_vector(2)];
        simp add: pending_ok_def flag_simps bit_simps bit_pend add_cycles_def)+
  have sample: "pres pending_ok (sample_lines B)"
    unfolding sample_lines_def by (intro pres_bind pres_ret pres_modify pending_wake pending_keeps [OF sched_bus(3)]; assumption)
  show ?thesis
    unfolding prologue_def
    by (intro pres_ifM idle pres_bind pres_gets sample pres_ret irq pres_modify pending_wake; simp)
qed

definition uncached_step :: "'b buses \<Rightarrow> ('b, u32) cpu" where
  "uncached_step B = do {
     early \<leftarrow> prologue B;
     case early of
       Some c \<Rightarrow> ret c
     | None \<Rightarrow> do { opcode \<leftarrow> fetch8 B; dispatch B opcode } }"

lemma prologue_idle:
  assumes "pending_ok s" "m_Pending s = 0"
  shows "run_state (prologue B) s = (None, s)"
  using assms by (simp add: prologue_def pending_ok_def flag_simps nmi_due_def count_deferred_def wake_def)

text \<open>The pending byte is only an optimisation: while it covers the pending work, a step that skips the
  cold prologue when the byte is zero does exactly what a step through the full prologue does, and the
  byte still covers the pending work (STP, WAI, a latched NMI) afterwards.\<close>

theorem pending_byte_sound:
  assumes "cpu_ok s" "pending_ok s"
  shows "run_state (stepInner B) s = run_state (uncached_step B) s \<and> pending_ok (exec_state (stepInner B) s)"
proof -
  have eq: "run_state (stepInner B) s = run_state (uncached_step B) s"
    using prologue_idle [OF assms(2), of B]
    by (cases "m_Pending s = 0") (simp_all add: stepInner_def uncached_step_def)
  let ?p = "run_state (prologue B) s"
  have ok: "cpu_ok (snd ?p)" "pending_ok (snd ?p)"
    using presD [where I = cpu_ok, OF pres_prologue assms(1)] presD [where I = pending_ok, OF pending_prologue assms(2)] by simp_all
  let ?f = "exec_state (fetch8 B) (snd ?p)"
  have "cpu_ok ?f" "pending_ok ?f"
    using presD [where I = cpu_ok, OF pres_view [OF keeps_memory(1)] ok(1)]
      presD [where I = pending_ok, OF pending_keeps [OF sched_memory(1)] ok(2)] by simp_all
  then have "pending_ok (exec_state (uncached_step B) s)"
    using ok(2) pending_dispatch by (auto simp: uncached_step_def case_prod_beta split: option.splits)
  then show ?thesis using eq by simp
qed

lemma pending_byte_sound_witness:
  "run_state (stepInner flat_buses) (w65_new (\<lambda>_. 0xEA)) = run_state (uncached_step flat_buses) (w65_new (\<lambda>_. 0xEA))"
proof -
  have "pending_ok (w65_new (\<lambda>_. 0xEA))"
    by (simp add: w65_new_def pending_ok_def applyE_def force_widths_def cache_widths_def Let_def)
  then show ?thesis using pending_byte_sound [OF w65_new_ok [of "\<lambda>_. 0xEA"], where B = flat_buses] by blast
qed

end
