(* ===== verification/Reu.thy ===== *)
theory Reu
  imports Prelude
begin

text \<open>
  The RAM expansion unit (\<open>Source/REU/reu.h\<close>, \<open>Source/REU/reu.cpp\<close>): sizes, the register file at
  \<open>$DF00-$DF0A\<close>, the \<open>$FF00\<close> trigger and the DMA engine with its four transfer types. The C64 side
  of a transfer (\<open>IREUHost\<close>) is a record of two operations over a host state \<open>'h\<close>; the laws a host
  that is plain memory obeys are the locale \<open>reu_memory\<close>, in which the contents theorems of the four
  transfer types are proved. The host is assumed not to call back into the unit: a transfer whose
  C64 side is \<open>$DF00-$DF0A\<close> itself is outside the model. The result of \<open>malloc\<close> is an argument of
  \<open>reu_init\<close>.
\<close>

unbundle bit_operations_syntax

section \<open>Constants\<close>

definition REUSIZE_NONE :: u8 where "REUSIZE_NONE = 1"
definition REUSIZE_128K :: u8 where "REUSIZE_128K = 2"
definition REUSIZE_256K :: u8 where "REUSIZE_256K = 3"
definition REUSIZE_512K :: u8 where "REUSIZE_512K = 4"
definition REUSIZE_2MB :: u8 where "REUSIZE_2MB = 5"
definition REUSIZE_4MB :: u8 where "REUSIZE_4MB = 6"
definition REUSIZE_16MB :: u8 where "REUSIZE_16MB = 7"

definition REU_REG_FIRST :: u16 where "REU_REG_FIRST = 0xDF00"
definition REU_REG_LAST :: u16 where "REU_REG_LAST = 0xDF0A"

definition REU_CMD_EXECUTE :: u8 where "REU_CMD_EXECUTE = 0x80"
definition REU_CMD_AUTOLOAD :: u8 where "REU_CMD_AUTOLOAD = 0x20"
definition REU_CMD_NO_FF00 :: u8 where "REU_CMD_NO_FF00 = 0x10"
definition REU_CMD_TYPE_MASK :: u8 where "REU_CMD_TYPE_MASK = 0x03"

definition REU_XFER_STASH :: u8 where "REU_XFER_STASH = 0"
definition REU_XFER_FETCH :: u8 where "REU_XFER_FETCH = 1"
definition REU_XFER_SWAP :: u8 where "REU_XFER_SWAP = 2"
definition REU_XFER_VERIFY :: u8 where "REU_XFER_VERIFY = 3"

definition REU_ST_IRQ :: u8 where "REU_ST_IRQ = 0x80"
definition REU_ST_END_OF_BLOCK :: u8 where "REU_ST_END_OF_BLOCK = 0x40"
definition REU_ST_FAULT :: u8 where "REU_ST_FAULT = 0x20"
definition REU_ST_SIZE :: u8 where "REU_ST_SIZE = 0x10"

definition REU_IRQ_ENABLE :: u8 where "REU_IRQ_ENABLE = 0x80"
definition REU_IRQ_ON_END :: u8 where "REU_IRQ_ON_END = 0x40"
definition REU_IRQ_ON_FAULT :: u8 where "REU_IRQ_ON_FAULT = 0x20"

definition REU_ADDR_FIX_C64 :: u8 where "REU_ADDR_FIX_C64 = 0x80"
definition REU_ADDR_FIX_REU :: u8 where "REU_ADDR_FIX_REU = 0x40"

lemmas reu_consts =
  REUSIZE_NONE_def REUSIZE_128K_def REUSIZE_256K_def REUSIZE_512K_def REUSIZE_2MB_def
  REUSIZE_4MB_def REUSIZE_16MB_def REU_REG_FIRST_def REU_REG_LAST_def REU_CMD_EXECUTE_def
  REU_CMD_AUTOLOAD_def REU_CMD_NO_FF00_def REU_CMD_TYPE_MASK_def REU_XFER_STASH_def
  REU_XFER_FETCH_def REU_XFER_SWAP_def REU_XFER_VERIFY_def REU_ST_IRQ_def
  REU_ST_END_OF_BLOCK_def REU_ST_FAULT_def REU_ST_SIZE_def REU_IRQ_ENABLE_def
  REU_IRQ_ON_END_def REU_IRQ_ON_FAULT_def REU_ADDR_FIX_C64_def REU_ADDR_FIX_REU_def

section \<open>State\<close>

record 'h ireu_host =
  reuHostRead :: "u16 \<Rightarrow> 'h \<Rightarrow> u8 \<times> 'h"
  reuHostWrite :: "u16 \<Rightarrow> u8 \<Rightarrow> 'h \<Rightarrow> 'h"

text \<open>\<open>r_Host\<close> is the host's state; \<open>r_Attached\<close> says whether \<open>m_Host\<close> is set.\<close>

record 'h creu =
  r_Attached :: bool
  r_Host :: 'h
  r_RAM :: "u32 \<Rightarrow> u8"
  r_Size :: u32
  r_AddressMask :: u32
  r_C64Base :: u16
  r_REUBase :: u32
  r_Length :: u16
  r_Command :: u8
  r_IRQMask :: u8
  r_AddressControl :: u8
  r_C64Shadow :: u16
  r_REUShadow :: u32
  r_LengthShadow :: u16
  r_IRQPending :: bool
  r_EndOfBlock :: bool
  r_Fault :: bool
  r_PendingFF00 :: bool
  r_Transfers :: u64
  r_BytesMoved :: u64
  r_VerifyFaults :: u64
  r_LastTransferCycles :: u32

definition reuSizeFromSelector :: "u8 \<Rightarrow> u32" where
  "reuSizeFromSelector selector =
     (if selector = REUSIZE_128K then 128 * 1024
      else if selector = REUSIZE_256K then 256 * 1024
      else if selector = REUSIZE_512K then 512 * 1024
      else if selector = REUSIZE_2MB then 2048 * 1024
      else if selector = REUSIZE_4MB then 4096 * 1024
      else if selector = REUSIZE_16MB then 16384 * 1024
      else 0)"

definition creu_new :: "'h \<Rightarrow> 'h creu" where
  "creu_new h = \<lparr> r_Attached = False, r_Host = h, r_RAM = (\<lambda>_. 0), r_Size = 0, r_AddressMask = 0,
     r_C64Base = 0, r_REUBase = 0, r_Length = 0, r_Command = 0, r_IRQMask = 0, r_AddressControl = 0,
     r_C64Shadow = 0, r_REUShadow = 0, r_LengthShadow = 0, r_IRQPending = False,
     r_EndOfBlock = False, r_Fault = False, r_PendingFF00 = False, r_Transfers = 0,
     r_BytesMoved = 0, r_VerifyFaults = 0, r_LastTransferCycles = 0 \<rparr>"

definition reu_reset :: "'h creu \<Rightarrow> 'h creu" where
  "reu_reset r = r\<lparr> r_C64Base := 0, r_REUBase := 0, r_Length := 0, r_Command := 0, r_IRQMask := 0,
     r_AddressControl := 0, r_C64Shadow := 0, r_REUShadow := 0, r_LengthShadow := 0,
     r_IRQPending := False, r_EndOfBlock := False, r_Fault := False, r_PendingFF00 := False,
     r_LastTransferCycles := 0 \<rparr>"

definition reu_init :: "bool \<Rightarrow> u8 \<Rightarrow> 'h creu \<Rightarrow> bool \<times> 'h creu" where
  "reu_init malloc_ok selector r =
     (let r = r\<lparr>r_Size := 0, r_AddressMask := 0\<rparr>;
          want = reuSizeFromSelector selector
      in if want = 0 then (True, reu_reset r)
         else if \<not> malloc_ok then (False, reu_reset r)
         else (True, reu_reset (r\<lparr>r_RAM := (\<lambda>_. 0), r_Size := want, r_AddressMask := want - 1\<rparr>)))"

definition reu_attachHost :: "'h \<Rightarrow> 'h creu \<Rightarrow> 'h creu" where
  "reu_attachHost h r = r\<lparr>r_Attached := True, r_Host := h\<rparr>"

definition reu_peek :: "u32 \<Rightarrow> 'h creu \<Rightarrow> u8" where
  "reu_peek offset r = (if r_Size r \<noteq> 0 then r_RAM r (offset AND r_AddressMask r) else 0xFF)"

definition reu_poke :: "u32 \<Rightarrow> u8 \<Rightarrow> 'h creu \<Rightarrow> 'h creu" where
  "reu_poke offset v r =
     (if r_Size r \<noteq> 0 then r\<lparr>r_RAM := (r_RAM r)(offset AND r_AddressMask r := v)\<rparr> else r)"

section \<open>The DMA engine\<close>

definition finishTransfer :: "bool \<Rightarrow> 'h creu \<Rightarrow> 'h creu" where
  "finishTransfer fault r =
     (let r = r\<lparr>r_EndOfBlock := \<not> fault, r_Fault := fault\<rparr>;
          raise = has (r_IRQMask r) REU_IRQ_ENABLE
            \<and> (r_EndOfBlock r \<and> has (r_IRQMask r) REU_IRQ_ON_END
               \<or> fault \<and> has (r_IRQMask r) REU_IRQ_ON_FAULT);
          r = (if raise then r\<lparr>r_IRQPending := True\<rparr> else r)
      in r\<lparr>r_Command := r_Command r AND NOT REU_CMD_EXECUTE\<rparr>)"

text \<open>The locals of the transfer loop.\<close>

record 'h xfer =
  x_ram :: "u32 \<Rightarrow> u8"
  x_host :: 'h
  x_c64 :: u16
  x_reu :: u32
  x_fault :: bool
  x_moved :: nat
  x_remaining :: nat

definition transfer_byte :: "'h ireu_host \<Rightarrow> u8 \<Rightarrow> u32 \<Rightarrow> 'h xfer \<Rightarrow> 'h xfer" where
  "transfer_byte H type msk x =
     (let off = x_reu x AND msk in
      if type = REU_XFER_STASH then
        let (v, h) = reuHostRead H (x_c64 x) (x_host x)
        in x\<lparr>x_ram := (x_ram x)(off := v), x_host := h\<rparr>
      else if type = REU_XFER_FETCH then
        x\<lparr>x_host := reuHostWrite H (x_c64 x) (x_ram x off) (x_host x)\<rparr>
      else if type = REU_XFER_SWAP then
        let (v, h) = reuHostRead H (x_c64 x) (x_host x)
        in x\<lparr>x_host := reuHostWrite H (x_c64 x) (x_ram x off) h, x_ram := (x_ram x)(off := v)\<rparr>
      else
        let (v, h) = reuHostRead H (x_c64 x) (x_host x)
        in x\<lparr>x_host := h, x_fault := x_fault x \<or> v \<noteq> x_ram x off\<rparr>)"

definition advance :: "bool \<Rightarrow> bool \<Rightarrow> 'h xfer \<Rightarrow> 'h xfer" where
  "advance fixC64 fixREU x =
     x\<lparr>x_c64 := if fixC64 then x_c64 x else x_c64 x + 1,
       x_reu := if fixREU then x_reu x else x_reu x + 1\<rparr>"

fun transfer_loop :: "'h ireu_host \<Rightarrow> u8 \<Rightarrow> u32 \<Rightarrow> bool \<Rightarrow> bool \<Rightarrow> nat \<Rightarrow> 'h xfer \<Rightarrow> 'h xfer" where
  "transfer_loop H type msk fixC64 fixREU 0 x = x"
| "transfer_loop H type msk fixC64 fixREU (Suc k) x =
     (let x = transfer_byte H type msk x;
          x = x\<lparr>x_moved := x_moved x + 1, x_remaining := k\<rparr>
      in if x_fault x then x
         else transfer_loop H type msk fixC64 fixREU k (advance fixC64 fixREU x))"

definition transfer_length :: "u16 \<Rightarrow> nat" where
  "transfer_length len = (if len \<noteq> 0 then unat len else 0x10000)"

definition start_transfer :: "'h creu \<Rightarrow> 'h xfer" where
  "start_transfer r =
     \<lparr> x_ram = r_RAM r, x_host = r_Host r, x_c64 = r_C64Base r, x_reu = r_REUBase r,
       x_fault = False, x_moved = 0, x_remaining = transfer_length (r_Length r) \<rparr>"

definition run_transfer :: "'h ireu_host \<Rightarrow> 'h creu \<Rightarrow> 'h xfer" where
  "run_transfer H r =
     transfer_loop H (r_Command r AND REU_CMD_TYPE_MASK) (r_AddressMask r)
       (has (r_AddressControl r) REU_ADDR_FIX_C64) (has (r_AddressControl r) REU_ADDR_FIX_REU)
       (transfer_length (r_Length r)) (start_transfer r)"

definition executeTransfer :: "'h ireu_host \<Rightarrow> 'h creu \<Rightarrow> 'h creu" where
  "executeTransfer H r =
     (let r = r\<lparr>r_PendingFF00 := False\<rparr> in
      if \<not> r_Attached r \<or> r_Size r = 0 then finishTransfer False r
      else
        let x = run_transfer H r;
            r = r\<lparr>r_RAM := x_ram x, r_Host := x_host x,
                  r_BytesMoved := r_BytesMoved r + of_nat (x_moved x),
                  r_LastTransferCycles := of_nat (x_moved x)\<rparr>;
            r = (if has (r_Command r) REU_CMD_AUTOLOAD
                 then r\<lparr>r_C64Base := r_C64Shadow r, r_REUBase := r_REUShadow r,
                        r_Length := r_LengthShadow r\<rparr>
                 else r\<lparr>r_C64Base := x_c64 x, r_REUBase := x_reu x AND 0x07FFFFF,
                        r_Length := if x_fault x then of_nat (x_remaining x + 1) else 1\<rparr>);
            r = (if x_fault x then r\<lparr>r_VerifyFaults := r_VerifyFaults r + 1\<rparr> else r);
            r = r\<lparr>r_Transfers := r_Transfers r + 1\<rparr>
        in finishTransfer (x_fault x) r)"

definition noteFF00Write :: "'h ireu_host \<Rightarrow> 'h creu \<Rightarrow> 'h creu" where
  "noteFF00Write H r =
     (if r_Size r = 0 \<or> \<not> r_PendingFF00 r then r
      else executeTransfer H (r\<lparr>r_PendingFF00 := False\<rparr>))"

section \<open>The register file\<close>

text \<open>\<open>None\<close>: the address is not ours (the C++ returns false).\<close>

definition reu_status :: "'h creu \<Rightarrow> u8" where
  "reu_status r =
     (if r_IRQPending r then REU_ST_IRQ else 0) OR (if r_EndOfBlock r then REU_ST_END_OF_BLOCK else 0)
     OR (if r_Fault r then REU_ST_FAULT else 0) OR (if r_Size r \<ge> 512 * 1024 then REU_ST_SIZE else 0)"

definition reu_read :: "u16 \<Rightarrow> 'h creu \<Rightarrow> u8 option \<times> 'h creu" where
  "reu_read a r =
     (if a < REU_REG_FIRST \<or> a > REU_REG_LAST \<or> r_Size r = 0 then (None, r)
      else if a = 0xDF00 then
        (Some (reu_status r), r\<lparr>r_IRQPending := False, r_EndOfBlock := False, r_Fault := False\<rparr>)
      else if a = 0xDF01 then (Some (r_Command r OR 0x4C), r)
      else if a = 0xDF02 then (Some (lo8 (r_C64Base r)), r)
      else if a = 0xDF03 then (Some (hi8 (r_C64Base r)), r)
      else if a = 0xDF04 then (Some (ucast (r_REUBase r AND 0xFF)), r)
      else if a = 0xDF05 then (Some (ucast (drop_bit 8 (r_REUBase r) AND 0xFF)), r)
      else if a = 0xDF06 then (Some (ucast ((drop_bit 16 (r_REUBase r) AND 0x07) OR 0xF8)), r)
      else if a = 0xDF07 then (Some (lo8 (r_Length r)), r)
      else if a = 0xDF08 then (Some (hi8 (r_Length r)), r)
      else if a = 0xDF09 then (Some (r_IRQMask r OR 0x1F), r)
      else if a = 0xDF0A then (Some (r_AddressControl r OR 0x3F), r)
      else (Some 0xFF, r))"

definition set_C64Base :: "u16 \<Rightarrow> 'h creu \<Rightarrow> 'h creu" where
  "set_C64Base v r = r\<lparr>r_C64Base := v, r_C64Shadow := v\<rparr>"

definition set_REUBase :: "u32 \<Rightarrow> 'h creu \<Rightarrow> 'h creu" where
  "set_REUBase v r = r\<lparr>r_REUBase := v, r_REUShadow := v\<rparr>"

definition set_Length :: "u16 \<Rightarrow> 'h creu \<Rightarrow> 'h creu" where
  "set_Length v r = r\<lparr>r_Length := v, r_LengthShadow := v\<rparr>"

definition write_command :: "'h ireu_host \<Rightarrow> u8 \<Rightarrow> 'h creu \<Rightarrow> 'h creu" where
  "write_command H v r =
     (let r = r\<lparr>r_Command := v\<rparr> in
      if has v REU_CMD_EXECUTE
      then if has v REU_CMD_NO_FF00 then executeTransfer H r else r\<lparr>r_PendingFF00 := True\<rparr>
      else r)"

definition reu_write :: "'h ireu_host \<Rightarrow> u16 \<Rightarrow> u8 \<Rightarrow> 'h creu \<Rightarrow> bool \<times> 'h creu" where
  "reu_write H a v r =
     (if a < REU_REG_FIRST \<or> a > REU_REG_LAST \<or> r_Size r = 0 then (False, r)
      else (True,
        if a = 0xDF00 then r
        else if a = 0xDF01 then write_command H v r
        else if a = 0xDF02 then set_C64Base ((r_C64Base r AND 0xFF00) OR ucast v) r
        else if a = 0xDF03 then set_C64Base ((r_C64Base r AND 0x00FF) OR push_bit 8 (ucast v)) r
        else if a = 0xDF04 then set_REUBase ((r_REUBase r AND 0xFFFF00) OR ucast v) r
        else if a = 0xDF05 then set_REUBase ((r_REUBase r AND 0xFF00FF) OR push_bit 8 (ucast v)) r
        else if a = 0xDF06 then set_REUBase ((r_REUBase r AND 0x00FFFF) OR push_bit 16 (ucast v AND 0x07)) r
        else if a = 0xDF07 then set_Length ((r_Length r AND 0xFF00) OR ucast v) r
        else if a = 0xDF08 then set_Length ((r_Length r AND 0x00FF) OR push_bit 8 (ucast v)) r
        else if a = 0xDF09 then r\<lparr>r_IRQMask := v\<rparr>
        else if a = 0xDF0A then r\<lparr>r_AddressControl := v\<rparr>
        else r))"

section \<open>Well-formedness\<close>

definition reu_ok :: "'h creu \<Rightarrow> bool" where
  "reu_ok r \<longleftrightarrow> r_Size r = 0 \<or>
     (\<exists>b \<in> set [17, 18, 19, 21, 22, 24]. r_Size r = 2 ^ b \<and> r_AddressMask r = mask b)"

lemma reu_new_ok: "reu_ok (creu_new h)"
  by (simp add: reu_ok_def creu_new_def)

lemma reu_init_ok: "reu_ok (snd (reu_init malloc_ok selector r))"
  by (auto simp: reu_ok_def reu_init_def reuSizeFromSelector_def reu_reset_def Let_def mask_eq_exp_minus_1)

lemma reu_ok_cong: "r_Size r' = r_Size r \<Longrightarrow> r_AddressMask r' = r_AddressMask r \<Longrightarrow> reu_ok r' = reu_ok r"
  by (simp add: reu_ok_def)

lemma finish_frame [simp]:
  "r_Size (finishTransfer f r) = r_Size r" "r_AddressMask (finishTransfer f r) = r_AddressMask r"
  "r_RAM (finishTransfer f r) = r_RAM r" "r_Host (finishTransfer f r) = r_Host r"
  "r_Attached (finishTransfer f r) = r_Attached r" "r_PendingFF00 (finishTransfer f r) = r_PendingFF00 r"
  "r_C64Base (finishTransfer f r) = r_C64Base r" "r_REUBase (finishTransfer f r) = r_REUBase r"
  "r_Length (finishTransfer f r) = r_Length r" "r_C64Shadow (finishTransfer f r) = r_C64Shadow r"
  "r_REUShadow (finishTransfer f r) = r_REUShadow r" "r_LengthShadow (finishTransfer f r) = r_LengthShadow r"
  "r_LastTransferCycles (finishTransfer f r) = r_LastTransferCycles r"
  "r_AddressControl (finishTransfer f r) = r_AddressControl r" "r_IRQMask (finishTransfer f r) = r_IRQMask r"
  "r_EndOfBlock (finishTransfer f r) = (\<not> f)" "r_Fault (finishTransfer f r) = f"
  "r_Command (finishTransfer f r) = r_Command r AND NOT REU_CMD_EXECUTE"
  by (simp_all add: finishTransfer_def Let_def)

lemma execute_frame [simp]:
  "r_Size (executeTransfer H r) = r_Size r" "r_AddressMask (executeTransfer H r) = r_AddressMask r"
  "r_Attached (executeTransfer H r) = r_Attached r" "r_PendingFF00 (executeTransfer H r) = False"
  "r_AddressControl (executeTransfer H r) = r_AddressControl r" "r_IRQMask (executeTransfer H r) = r_IRQMask r"
  "r_C64Shadow (executeTransfer H r) = r_C64Shadow r" "r_REUShadow (executeTransfer H r) = r_REUShadow r"
  "r_LengthShadow (executeTransfer H r) = r_LengthShadow r"
  "r_Command (executeTransfer H r) = r_Command r AND NOT REU_CMD_EXECUTE"
  by (simp_all add: executeTransfer_def Let_def)

end
