(* ===== verification/ReuTransfer.thy ===== *)
theory ReuTransfer
  imports Reu
begin

text \<open>
  What a transfer of the RAM expansion unit does to the two memories. The host of a transfer is any
  provider of the locale \<open>reu_memory\<close>, whose laws say that it is plain memory; they are discharged
  for \<open>plain_host\<close>, the 64 KB host of the unit tests. Inside the locale the byte loop is proved once
  for the three movers (\<open>move_loop\<close>) and once for VERIFY (\<open>verify_loop\<close>); the properties of
  \<open>executeTransfer\<close> and of the register file follow.
\<close>

unbundle bit_operations_syntax

section \<open>Addresses of a transfer\<close>

text \<open>An address of expansion RAM, and distinct offsets below the size have distinct cells.\<close>

lemma unat_masked:
  "b \<le> 32 \<Longrightarrow> unat ((a + of_nat i) AND mask b :: u32) = (unat a + i) mod 2 ^ b"
proof -
  assume b: "b \<le> 32"
  have "(a + of_nat i) AND mask b = take_bit b (a + of_nat i)" by (simp add: take_bit_eq_mask)
  then have "unat ((a + of_nat i) AND mask b) = take_bit b (unat (a + of_nat i))"
    by (simp only: unsigned_take_bit_eq)
  also have "\<dots> = (unat a + i) mod 2 ^ 32 mod 2 ^ b"
    by (simp add: take_bit_eq_mod unat_word_ariths unat_of_nat mod_simps)
  also have "\<dots> = (unat a + i) mod 2 ^ b" by (rule mod_mod_cancel [OF le_imp_power_dvd [OF b]])
  finally show ?thesis .
qed

lemma masked_inj:
  assumes "b \<le> 32" "(a + of_nat i) AND mask b = (a + of_nat j) AND (mask b :: u32)" "i < 2 ^ b" "j < 2 ^ b"
  shows "i = j"
proof -
  have "(unat a + i) mod 2 ^ b = (unat a + j) mod 2 ^ b"
    using assms(2) unat_masked [OF assms(1)] by metis
  then show ?thesis using assms(3,4)
    by (metis (no_types, lifting) add_mod_cancel_left mod_less)
qed

lemma unat16_inj: "of_nat i = (of_nat j :: u16) \<Longrightarrow> i < 65536 \<Longrightarrow> j < 65536 \<Longrightarrow> i = j"
  by (drule arg_cong [of _ _ unat]) (simp add: unat_of_nat)


lemma ex_less_Suc_0: "(\<exists>i<Suc k. P i) \<longleftrightarrow> P 0 \<or> (\<exists>i<k. P (Suc i))"
  by (auto simp: less_Suc_eq_0_disj)

lemma all_less_Suc_0: "(\<forall>i<Suc k. P i) \<longleftrightarrow> P 0 \<and> (\<forall>i<k. P (Suc i))"
  by (auto simp: less_Suc_eq_0_disj)

section \<open>Transfers against plain memory\<close>

text \<open>The data movers: \<open>into_ram\<close> for STASH and SWAP, \<open>into_host\<close> for FETCH and SWAP.\<close>

definition into_ram :: "u8 \<Rightarrow> bool" where "into_ram type = (type = REU_XFER_STASH \<or> type = REU_XFER_SWAP)"
definition into_host :: "u8 \<Rightarrow> bool" where "into_host type = (type = REU_XFER_FETCH \<or> type = REU_XFER_SWAP)"

locale reu_memory =
  fixes H :: "'h ireu_host" and view :: "'h \<Rightarrow> u16 \<Rightarrow> u8"
  assumes host_read: "fst (reuHostRead H a h) = view h a"
    and host_read_view: "view (snd (reuHostRead H a h)) = view h"
    and host_write_view: "view (reuHostWrite H a v h) = (view h)(a := v)"
begin

lemma byte_effect:
  "transfer_byte H REU_XFER_STASH m x = x\<lparr>x_ram := (x_ram x)(x_reu x AND m := view (x_host x) (x_c64 x)),
     x_host := snd (reuHostRead H (x_c64 x) (x_host x))\<rparr>"
  "transfer_byte H REU_XFER_FETCH m x = x\<lparr>x_host := reuHostWrite H (x_c64 x) (x_ram x (x_reu x AND m)) (x_host x)\<rparr>"
  "transfer_byte H REU_XFER_SWAP m x = x\<lparr>x_ram := (x_ram x)(x_reu x AND m := view (x_host x) (x_c64 x)),
     x_host := reuHostWrite H (x_c64 x) (x_ram x (x_reu x AND m)) (snd (reuHostRead H (x_c64 x) (x_host x)))\<rparr>"
  "transfer_byte H REU_XFER_VERIFY m x = x\<lparr>x_host := snd (reuHostRead H (x_c64 x) (x_host x)),
     x_fault := x_fault x \<or> view (x_host x) (x_c64 x) \<noteq> x_ram x (x_reu x AND m)\<rparr>"
  by (simp_all add: transfer_byte_def reu_consts Let_def case_prod_beta host_read)

lemma byte_moves:
  fixes x :: "'h xfer" and m :: u32
  assumes "type \<in> {REU_XFER_STASH, REU_XFER_FETCH, REU_XFER_SWAP}"
  defines "t \<equiv> transfer_byte H type m x"
  shows "x_ram t = (if into_ram type then (x_ram x)(x_reu x AND m := view (x_host x) (x_c64 x)) else x_ram x)"
    "view (x_host t) = (if into_host type then (view (x_host x))(x_c64 x := x_ram x (x_reu x AND m)) else view (x_host x))"
    "x_c64 t = x_c64 x" "x_reu t = x_reu x" "x_moved t = x_moved x" "x_fault t = x_fault x"
proof -
  have "REU_XFER_STASH \<noteq> REU_XFER_FETCH" "REU_XFER_STASH \<noteq> REU_XFER_SWAP" "REU_XFER_FETCH \<noteq> REU_XFER_SWAP"
    by (simp_all add: reu_consts)
  then show "x_ram t = (if into_ram type then (x_ram x)(x_reu x AND m := view (x_host x) (x_c64 x)) else x_ram x)"
    "view (x_host t) = (if into_host type then (view (x_host x))(x_c64 x := x_ram x (x_reu x AND m)) else view (x_host x))"
    "x_c64 t = x_c64 x" "x_reu t = x_reu x" "x_moved t = x_moved x" "x_fault t = x_fault x"
    using assms(1) unfolding t_def into_ram_def into_host_def
    by (elim insertE emptyE; simp add: byte_effect host_read_view host_write_view)+
qed

lemma move_loop:
  fixes x :: "'h xfer" and k :: nat and b :: nat
  assumes ty: "type \<in> {REU_XFER_STASH, REU_XFER_FETCH, REU_XFER_SWAP}" and b: "b \<le> 32"
    and "k \<le> 2 ^ b" "k \<le> 65536" "\<not> x_fault x"
  defines "y \<equiv> transfer_loop H type (mask b) False False k x"
  shows "(\<forall>i<k. x_ram y ((x_reu x + of_nat i) AND mask b)
         = (if into_ram type then view (x_host x) (x_c64 x + of_nat i) else x_ram x ((x_reu x + of_nat i) AND mask b)))
    \<and> (\<forall>i<k. view (x_host y) (x_c64 x + of_nat i)
         = (if into_host type then x_ram x ((x_reu x + of_nat i) AND mask b) else view (x_host x) (x_c64 x + of_nat i)))
    \<and> (\<forall>a. (\<forall>i<k. a \<noteq> (x_reu x + of_nat i) AND mask b) \<longrightarrow> x_ram y a = x_ram x a)
    \<and> (\<forall>a. (\<forall>i<k. a \<noteq> x_c64 x + of_nat i) \<longrightarrow> view (x_host y) a = view (x_host x) a)
    \<and> \<not> x_fault y
    \<and> x_c64 y = x_c64 x + of_nat k \<and> x_reu y = x_reu x + of_nat k \<and> x_moved y = x_moved x + k"
  using assms(3-5) unfolding y_def
proof (induction k arbitrary: x)
  case (Suc k)
  define ra where "ra i = (x_reu x + of_nat i) AND mask b" for i
  define ca where "ca i = x_c64 x + of_nat i" for i
  define t where "t = transfer_byte H type (mask b) x"
  define u where "u = advance False False (t\<lparr>x_moved := x_moved t + 1, x_remaining := k\<rparr>)"
  let ?y = "transfer_loop H type (mask b) False False k u"
  note t = byte_moves [OF ty, of "mask b" x, folded t_def]
  have u: "x_ram u = x_ram t" "view (x_host u) = view (x_host t)" "x_c64 u = x_c64 x + 1"
    "x_reu u = x_reu x + 1" "x_moved u = Suc (x_moved x)" "\<not> x_fault u"
    using t Suc.prems(3) by (simp_all add: u_def advance_def)
  have ru: "(x_reu u + of_nat i) AND mask b = ra (Suc i)" "x_c64 u + of_nat i = ca (Suc i)" for i
    by (simp_all add: u ra_def ca_def algebra_simps)
  have step: "transfer_loop H type (mask b) False False (Suc k) x = ?y"
    using t(6) Suc.prems(3) by (simp add: u_def t_def Let_def)
  have IH: "\<forall>i<k. x_ram ?y (ra (Suc i)) = (if into_ram type then view (x_host u) (ca (Suc i)) else x_ram u (ra (Suc i)))"
    "\<forall>i<k. view (x_host ?y) (ca (Suc i)) = (if into_host type then x_ram u (ra (Suc i)) else view (x_host u) (ca (Suc i)))"
    "\<forall>a. (\<forall>i<k. a \<noteq> ra (Suc i)) \<longrightarrow> x_ram ?y a = x_ram u a"
    "\<forall>a. (\<forall>i<k. a \<noteq> ca (Suc i)) \<longrightarrow> view (x_host ?y) a = view (x_host u) a"
    "\<not> x_fault ?y" "x_c64 ?y = x_c64 u + of_nat k" "x_reu ?y = x_reu u + of_nat k" "x_moved ?y = x_moved u + k"
    using Suc.IH [of u] Suc.prems(1,2) u(6) unfolding ru by simp_all
  have ne: "ra 0 \<noteq> ra (Suc i)" "ca 0 \<noteq> ca (Suc i)" if "i < k" for i
    using masked_inj [OF b, of "x_reu x" 0 "Suc i"] unat16_inj [of 0 "Suc i"] that Suc.prems(1,2)
    by (auto simp: ra_def ca_def)
  have zero: "ra 0 = x_reu x AND mask b" "ca 0 = x_c64 x" by (simp_all add: ra_def ca_def)
  have ram_u: "x_ram u = (if into_ram type then (x_ram x)(ra 0 := view (x_host x) (ca 0)) else x_ram x)"
    and view_u: "view (x_host u) = (if into_host type then (view (x_host x))(ca 0 := x_ram x (ra 0)) else view (x_host x))"
    using t u by (simp_all add: zero)
  have ram: "x_ram ?y (ra i) = (if into_ram type then view (x_host x) (ca i) else x_ram x (ra i))" if "i < Suc k" for i
    using that IH(1,3) ne ne [symmetric] by (cases i) (auto simp: ram_u view_u)
  have view: "view (x_host ?y) (ca i) = (if into_host type then x_ram x (ra i) else view (x_host x) (ca i))" if "i < Suc k" for i
    using that IH(2,4) ne ne [symmetric] by (cases i) (auto simp: ram_u view_u)
  have rest: "x_ram ?y a = x_ram x a" if a: "\<forall>i<Suc k. a \<noteq> ra i" for a
    using IH(3) a by (auto simp: ram_u)
  have vrest: "view (x_host ?y) a = view (x_host x) a" if a: "\<forall>i<Suc k. a \<noteq> ca i" for a
    using IH(4) a by (auto simp: view_u)
  have ends: "x_c64 ?y = ca (Suc k)" "x_reu ?y = x_reu x + of_nat (Suc k)"
    using IH(6,7) u(3,4) by (simp_all add: ca_def algebra_simps)
  show ?case
    unfolding step ra_def [symmetric] ca_def [symmetric]
    using ram view rest vrest IH(5,8) ends u(5) by simp
qed simp

text \<open>Verify stops at the first difference.\<close>

lemma verify_loop:
  fixes x :: "'h xfer" and m :: u32 and k :: nat
  assumes "\<not> x_fault x"
  defines "y \<equiv> transfer_loop H REU_XFER_VERIFY m False False k x"
  defines "same i \<equiv> view (x_host x) (x_c64 x + of_nat i) = x_ram x ((x_reu x + of_nat i) AND m)"
  shows "x_ram y = x_ram x \<and> view (x_host y) = view (x_host x)
    \<and> (x_fault y \<longleftrightarrow> (\<exists>i<k. \<not> same i))
    \<and> (\<exists>n. n \<le> k \<and> (\<forall>i<n. same i) \<and> (x_fault y \<longrightarrow> n < k \<and> \<not> same n \<and> x_remaining y = k - Suc n)
        \<and> (\<not> x_fault y \<longrightarrow> n = k)
        \<and> x_c64 y = x_c64 x + of_nat n \<and> x_reu y = x_reu x + of_nat n
        \<and> x_moved y = x_moved x + (if x_fault y then Suc n else n))"
  using assms(1) unfolding y_def same_def
proof (induction k arbitrary: x)
  case (Suc k)
  define t where "t = (transfer_byte H REU_XFER_VERIFY m x)\<lparr>x_moved := x_moved x + 1, x_remaining := k\<rparr>"
  define u where "u = advance False False t"
  let ?same = "\<lambda>i. view (x_host x) (x_c64 x + of_nat i) = x_ram x ((x_reu x + of_nat i) AND m)"
  have t: "x_ram t = x_ram x" "view (x_host t) = view (x_host x)" "x_c64 t = x_c64 x" "x_reu t = x_reu x"
    "x_moved t = Suc (x_moved x)" "x_remaining t = k" "x_fault t = (\<not> ?same 0)"
    using Suc.prems by (simp_all add: t_def byte_effect host_read_view)
  have step: "transfer_loop H REU_XFER_VERIFY m False False (Suc k) x
      = (if x_fault t then t else transfer_loop H REU_XFER_VERIFY m False False k u)"
    by (simp add: u_def t_def Let_def byte_effect)
  show ?case
  proof (cases "?same 0")
    case False
    then show ?thesis unfolding step using t by (intro conjI exI [of _ 0]) (auto intro: exI [of _ 0])
  next
    case True
    have u: "x_ram u = x_ram x" "view (x_host u) = view (x_host x)" "x_c64 u = x_c64 x + 1"
      "x_reu u = x_reu x + 1" "x_moved u = Suc (x_moved x)" "\<not> x_fault u"
      using t True by (simp_all add: u_def advance_def)
    have su: "x_c64 u + of_nat i = x_c64 x + of_nat (Suc i)" "x_reu u + of_nat i = x_reu x + of_nat (Suc i)" for i
      by (simp_all add: u algebra_simps)
    let ?y = "transfer_loop H REU_XFER_VERIFY m False False k u"
    note A = Suc.IH [OF u(6), unfolded u(1,2) su]
    note IH1 = A [THEN conjunct1] A [THEN conjunct2, THEN conjunct1] A [THEN conjunct2, THEN conjunct2, THEN conjunct1]
    from A [THEN conjunct2, THEN conjunct2, THEN conjunct2] obtain n where
      N: "n \<le> k \<and> (\<forall>i<n. ?same (Suc i)) \<and> (x_fault ?y \<longrightarrow> n < k \<and> \<not> ?same (Suc n) \<and> x_remaining ?y = k - Suc n)
        \<and> (\<not> x_fault ?y \<longrightarrow> n = k) \<and> x_c64 ?y = x_c64 x + of_nat (Suc n) \<and> x_reu ?y = x_reu x + of_nat (Suc n)
        \<and> x_moved ?y = x_moved u + (if x_fault ?y then Suc n else n)" ..
    note IH = IH1 N [THEN conjunct1] N [THEN conjunct2, THEN conjunct1] N [THEN conjunct2, THEN conjunct2, THEN conjunct1]
      N [THEN conjunct2, THEN conjunct2, THEN conjunct2, THEN conjunct1]
      N [THEN conjunct2, THEN conjunct2, THEN conjunct2, THEN conjunct2, THEN conjunct1]
      N [THEN conjunct2, THEN conjunct2, THEN conjunct2, THEN conjunct2, THEN conjunct2, THEN conjunct1]
      N [THEN conjunct2, THEN conjunct2, THEN conjunct2, THEN conjunct2, THEN conjunct2, THEN conjunct2]
    have all: "(\<exists>i<Suc k. \<not> ?same i) \<longleftrightarrow> (\<exists>i<k. \<not> ?same (Suc i))"
      unfolding ex_less_Suc_0 [where P = "\<lambda>i. \<not> ?same i"]
      by (rule iffI, erule disjE, erule notE, rule True, assumption, erule disjI2)
    have all2: "(\<forall>i<Suc n. ?same i) \<longleftrightarrow> (\<forall>i<n. ?same (Suc i))"
      unfolding all_less_Suc_0 [where P = ?same] by (rule iffI, erule conjunct2, rule conjI, rule True, assumption)
    have y: "transfer_loop H REU_XFER_VERIFY m False False (Suc k) x = ?y"
      using step True t(7) by simp
    have c: "x_c64 ?y = x_c64 x + of_nat (Suc n)" "x_reu ?y = x_reu x + of_nat (Suc n)"
      "x_moved ?y = x_moved x + (if x_fault ?y then Suc (Suc n) else Suc n)"
      using IH(8-10) u(5) by (simp_all only: add_Suc_right add_Suc if_distrib [where f = Suc]) simp
    have f: "x_fault ?y \<longrightarrow> Suc n < Suc k \<and> \<not> ?same (Suc n) \<and> x_remaining ?y = Suc k - Suc (Suc n)"
      "\<not> x_fault ?y \<longrightarrow> Suc n = Suc k" "Suc n \<le> Suc k" "\<forall>i<Suc n. ?same i"
      using IH(4-7) unfolding all2 by (simp_all only: Suc_le_mono Suc_less_eq diff_Suc_Suc nat.inject simp_thms)
    have g: "x_fault ?y \<longleftrightarrow> (\<exists>i<Suc k. \<not> ?same i)" by (rule trans [OF IH(3) all [symmetric]])
    show ?thesis
      unfolding y by (intro conjI exI [of _ "Suc n"] IH(1,2) g c f)
  qed
qed simp

end

text \<open>The host of the unit tests: 64 KB of plain memory.\<close>

definition plain_host :: "(u16 \<Rightarrow> u8) ireu_host" where
  "plain_host = \<lparr> reuHostRead = (\<lambda>a m. (m a, m)), reuHostWrite = (\<lambda>a v m. m(a := v)) \<rparr>"

interpretation plain: reu_memory plain_host "\<lambda>m. m"
  by unfold_locales (simp_all add: plain_host_def)

section \<open>What a command does\<close>

definition incrementing :: "'h creu \<Rightarrow> bool" where
  "incrementing r \<longleftrightarrow> \<not> has (r_AddressControl r) REU_ADDR_FIX_C64 \<and> \<not> has (r_AddressControl r) REU_ADDR_FIX_REU"

definition ram_cell :: "'h creu \<Rightarrow> nat \<Rightarrow> u32" where
  "ram_cell r i = (r_REUBase r + of_nat i) AND r_AddressMask r"

definition host_cell :: "'h creu \<Rightarrow> nat \<Rightarrow> u16" where
  "host_cell r i = r_C64Base r + of_nat i"

lemma transfer_length_bounds: "1 \<le> transfer_length n" "transfer_length n \<le> 65536"
proof -
  have "unat n < 65536" using unsigned_less [of n, where ?'a = nat] by simp
  moreover have "n \<noteq> 0 \<Longrightarrow> unat n \<noteq> 0" by (simp add: unat_eq_0)
  ultimately show "1 \<le> transfer_length n" "transfer_length n \<le> 65536"
    by (auto simp: transfer_length_def)
qed

lemma reu_ok_mask:
  assumes "reu_ok r" "r_Size r \<noteq> 0"
  obtains b where "b \<le> 32" "r_AddressMask r = mask b" "65536 \<le> (2::nat) ^ b" "r_Size r = 2 ^ b"
proof -
  obtain b where b: "b \<in> set [17, 18, 19, 21, 22, 24]" "r_Size r = 2 ^ b" "r_AddressMask r = mask b"
    using assms unfolding reu_ok_def by blast
  then have "16 \<le> b" "b \<le> 32" by auto
  moreover have "(2::nat) ^ 16 \<le> 2 ^ b" using \<open>16 \<le> b\<close> by (rule power_increasing) simp
  ultimately show ?thesis using that [of b] b by simp
qed

lemma execute_memory:
  assumes "r_Attached r" "r_Size r \<noteq> 0"
  shows "r_RAM (executeTransfer H r) = x_ram (run_transfer H r)"
    "r_Host (executeTransfer H r) = x_host (run_transfer H r)"
    "r_Fault (executeTransfer H r) = x_fault (run_transfer H r)"
    "r_EndOfBlock (executeTransfer H r) = (\<not> x_fault (run_transfer H r))"
    "r_LastTransferCycles (executeTransfer H r) = of_nat (x_moved (run_transfer H r))"
    "r_C64Base (executeTransfer H r) =
      (if has (r_Command r) REU_CMD_AUTOLOAD then r_C64Shadow r else x_c64 (run_transfer H r))"
    "r_REUBase (executeTransfer H r) =
      (if has (r_Command r) REU_CMD_AUTOLOAD then r_REUShadow r else x_reu (run_transfer H r) AND 0x07FFFFF)"
    "r_Length (executeTransfer H r) =
      (if has (r_Command r) REU_CMD_AUTOLOAD then r_LengthShadow r
       else if x_fault (run_transfer H r) then of_nat (x_remaining (run_transfer H r) + 1) else 1)"
  using assms by (simp_all add: executeTransfer_def Let_def run_transfer_def start_transfer_def)

lemma run_transfer_moves:
  assumes mem: "reu_memory H view" and ok: "reu_ok r" "r_Size r \<noteq> 0" "incrementing r"
    and ty: "r_Command r AND REU_CMD_TYPE_MASK \<in> {REU_XFER_STASH, REU_XFER_FETCH, REU_XFER_SWAP}"
  defines "n \<equiv> transfer_length (r_Length r)" and "y \<equiv> run_transfer H r" and "type \<equiv> r_Command r AND REU_CMD_TYPE_MASK"
  shows "(\<forall>i<n. x_ram y (ram_cell r i)
         = (if type = REU_XFER_FETCH then r_RAM r (ram_cell r i) else view (r_Host r) (host_cell r i)))
    \<and> (\<forall>i<n. view (x_host y) (host_cell r i)
         = (if type = REU_XFER_STASH then view (r_Host r) (host_cell r i) else r_RAM r (ram_cell r i)))
    \<and> (\<forall>a. (\<forall>i<n. a \<noteq> ram_cell r i) \<longrightarrow> x_ram y a = r_RAM r a)
    \<and> (\<forall>a. (\<forall>i<n. a \<noteq> host_cell r i) \<longrightarrow> view (x_host y) a = view (r_Host r) a)
    \<and> \<not> x_fault y \<and> x_c64 y = host_cell r n \<and> x_reu y = r_REUBase r + of_nat n \<and> x_moved y = n"
proof -
  obtain b where b: "b \<le> 32" "r_AddressMask r = mask b" "65536 \<le> (2::nat) ^ b"
    using reu_ok_mask [OF ok(1,2)] by metis
  have inc: "has (r_AddressControl r) REU_ADDR_FIX_C64 = False" "has (r_AddressControl r) REU_ADDR_FIX_REU = False"
    using ok(3) by (simp_all add: incrementing_def)
  have n: "n \<le> 2 ^ b" "n \<le> 65536" using transfer_length_bounds(2) [of "r_Length r"] b(3) by (simp_all add: n_def)
  have sel: "into_ram type = (type \<noteq> REU_XFER_FETCH)" "into_host type = (type \<noteq> REU_XFER_STASH)"
    using ty by (auto simp: into_ram_def into_host_def type_def reu_consts)
  define s where "s = start_transfer r"
  have s: "x_ram s = r_RAM r" "x_host s = r_Host r" "x_c64 s = r_C64Base r" "x_reu s = r_REUBase r"
    "\<not> x_fault s" "x_moved s = 0"
    by (simp_all add: s_def start_transfer_def)
  have y: "y = transfer_loop H type (mask b) False False n s"
    by (simp only: y_def run_transfer_def type_def inc b(2) n_def s_def)
  note move = reu_memory.move_loop [OF mem ty [folded type_def] b(1) n s(5), folded y, unfolded s(1-4,6) add_0]
  have cells: "ram_cell r = (\<lambda>i. (r_REUBase r + of_nat i) AND mask b)" "host_cell r = (\<lambda>i. r_C64Base r + of_nat i)"
    by (simp_all add: ram_cell_def host_cell_def b(2) fun_eq_iff)
  have ifs: "(if into_ram type then u else v) = (if type = REU_XFER_FETCH then v else u)"
    "(if into_host type then u else v) = (if type = REU_XFER_STASH then v else u)" for u v :: u8
    by (simp_all add: sel)
  show ?thesis unfolding cells by (rule move [unfolded ifs])
qed

end
