(* ===== verification/ReuProps.thy ===== *)
theory ReuProps
  imports ReuTransfer
begin

text \<open>
  The properties of the RAM expansion unit: the contents theorems of STASH, FETCH, SWAP and VERIFY at
  the level of \<open>executeTransfer\<close>, completion and acknowledgement, the \<open>$FF00\<close> trigger, the register
  file, and the safety invariant of every reachable state.
\<close>

unbundle bit_operations_syntax

section \<open>Properties\<close>

lemma transfer_contents:
  fixes r e :: "'h creu" and type :: u8 and n :: nat
  assumes mem: "reu_memory H view" and ok: "reu_ok r" "r_Size r \<noteq> 0" "r_Attached r" "incrementing r"
    and type: "type = r_Command r AND REU_CMD_TYPE_MASK" "type \<in> {REU_XFER_STASH, REU_XFER_FETCH, REU_XFER_SWAP}"
    and n: "n = transfer_length (r_Length r)" and e: "e = executeTransfer H r"
  shows "(\<forall>i<n. r_RAM e (ram_cell r i)
         = (if type = REU_XFER_FETCH then r_RAM r (ram_cell r i) else view (r_Host r) (host_cell r i)))
    \<and> (\<forall>i<n. view (r_Host e) (host_cell r i)
         = (if type = REU_XFER_STASH then view (r_Host r) (host_cell r i) else r_RAM r (ram_cell r i)))
    \<and> (\<forall>a. (\<forall>i<n. a \<noteq> ram_cell r i) \<longrightarrow> r_RAM e a = r_RAM r a)
    \<and> (\<forall>a. (\<forall>i<n. a \<noteq> host_cell r i) \<longrightarrow> view (r_Host e) a = view (r_Host r) a)
    \<and> r_EndOfBlock e \<and> \<not> r_Fault e \<and> unat (r_LastTransferCycles e) = n"
proof -
  have m: "r_RAM e = x_ram (run_transfer H r)" "r_Host e = x_host (run_transfer H r)"
    "r_Fault e = x_fault (run_transfer H r)" "r_EndOfBlock e = (\<not> x_fault (run_transfer H r))"
    "r_LastTransferCycles e = of_nat (x_moved (run_transfer H r))"
    unfolding e by (rule execute_memory [OF ok(3,2)])+
  note run = run_transfer_moves [OF mem ok(1,2,4) type(2) [unfolded type(1)], folded type(1) n m(1-3)]
  have "n < 2 ^ 32" using transfer_length_bounds(2) [of "r_Length r"] n by simp
  moreover have "x_moved (run_transfer H r) = n" "\<not> r_Fault e" using run by (simp_all only: simp_thms)
  ultimately have cyc: "unat (r_LastTransferCycles e) = n" "r_EndOfBlock e"
    using m by (simp_all add: unat_of_nat)
  show ?thesis
    using run cyc by (elim conjE) (intro conjI; assumption)
qed

text \<open>C7. A STASH, FETCH or SWAP command with both addresses counting up moves exactly the
  programmed number of bytes (64 KB for a length of zero): each expansion cell and each host cell of
  the block ends with the value the command promises, taken from the state before the command, and no
  other byte of either memory changes. The transfer ends with end-of-block set, no fault, and as many
  bus cycles accounted as bytes moved.\<close>

theorem reu_transfer_contents:
  fixes r e :: "'h creu" and type :: u8 and n :: nat
  assumes mem: "reu_memory H view" and ok: "reu_ok r" "r_Size r \<noteq> 0" "r_Attached r" "incrementing r"
    and type: "type = r_Command r AND REU_CMD_TYPE_MASK" "type \<in> {REU_XFER_STASH, REU_XFER_FETCH, REU_XFER_SWAP}"
    and n: "n = transfer_length (r_Length r)" and e: "e = executeTransfer H r"
  shows "(\<forall>i<n. r_RAM e (ram_cell r i)
         = (if type = REU_XFER_FETCH then r_RAM r (ram_cell r i) else view (r_Host r) (host_cell r i)))
    \<and> (\<forall>i<n. view (r_Host e) (host_cell r i)
         = (if type = REU_XFER_STASH then view (r_Host r) (host_cell r i) else r_RAM r (ram_cell r i)))
    \<and> (\<forall>a. (\<forall>i<n. a \<noteq> ram_cell r i) \<longrightarrow> r_RAM e a = r_RAM r a)
    \<and> (\<forall>a. (\<forall>i<n. a \<noteq> host_cell r i) \<longrightarrow> view (r_Host e) a = view (r_Host r) a)
    \<and> r_EndOfBlock e \<and> \<not> r_Fault e \<and> unat (r_LastTransferCycles e) = n"
  by (rule transfer_contents [OF assms])

definition demo_reu :: "u8 \<Rightarrow> (u16 \<Rightarrow> u8) creu" where
  "demo_reu command = (snd (reu_init True REUSIZE_512K (creu_new (\<lambda>a. lo8 a))))
     \<lparr>r_Attached := True, r_C64Base := 0x1000, r_C64Shadow := 0x1000, r_REUBase := 0x7FFFF, r_REUShadow := 0x7FFFF,
      r_Length := 3, r_LengthShadow := 3, r_Command := command\<rparr>"

lemma demo_reu_facts:
  "reu_ok (demo_reu c)" "r_Size (demo_reu c) \<noteq> 0" "r_Attached (demo_reu c)" "incrementing (demo_reu c)"
  "r_Command (demo_reu c) = c" "r_Length (demo_reu c) = 3" "r_AddressMask (demo_reu c) = mask 19"
  "r_Size (demo_reu c) = 0x80000" "r_C64Shadow (demo_reu c) = r_C64Base (demo_reu c)"
  "r_REUShadow (demo_reu c) = r_REUBase (demo_reu c)" "r_LengthShadow (demo_reu c) = r_Length (demo_reu c)"
  "r_C64Base (demo_reu c) = 0x1000" "r_REUBase (demo_reu c) = 0x7FFFF" "r_Host (demo_reu c) = (\<lambda>a. lo8 a)"
  by (auto simp: demo_reu_def reu_ok_def reu_init_def reuSizeFromSelector_def reu_reset_def
      incrementing_def has_def reu_consts creu_new_def mask_eq_exp_minus_1)

theorem reu_transfer_contents_witness:
  "r_RAM (executeTransfer plain_host (demo_reu 0x92)) (ram_cell (demo_reu 0x92) 1) = 1
    \<and> r_EndOfBlock (executeTransfer plain_host (demo_reu 0x92))"
proof -
  have t: "REU_XFER_SWAP = r_Command (demo_reu 0x92) AND REU_CMD_TYPE_MASK"
    by (simp add: demo_reu_facts reu_consts)
  have c: "host_cell (demo_reu 0x92) 1 = 0x1001" by (simp add: host_cell_def demo_reu_facts)
  have n: "transfer_length (r_Length (demo_reu 0x92)) = 3" by (simp add: transfer_length_def demo_reu_facts)
  show ?thesis
    using reu_transfer_contents [OF plain.reu_memory_axioms demo_reu_facts(1-4) t _ n [symmetric] refl]
      c n by (simp add: reu_consts demo_reu_facts lo8_def)
qed

text \<open>A VERIFY command changes neither memory. It reports a fault exactly when some byte of the
  block differs, and then stops at the first difference: without autoload the address registers point
  at that byte and the length register holds the number of bytes left from there (modulo the 16 bits of
  the register); without a difference the registers end one past the block and the length reads 1.\<close>

theorem reu_verify:
  fixes r e :: "'h creu" and n :: nat
  assumes mem: "reu_memory H view" and ok: "r_Size r \<noteq> 0" "r_Attached r" "incrementing r"
    and type: "r_Command r AND REU_CMD_TYPE_MASK = REU_XFER_VERIFY" and n: "n = transfer_length (r_Length r)"
    and auto: "\<not> has (r_Command r) REU_CMD_AUTOLOAD" and e: "e = executeTransfer H r"
    and same: "same = (\<lambda>i. view (r_Host r) (host_cell r i) = r_RAM r (ram_cell r i))"
  shows "r_RAM e = r_RAM r \<and> view (r_Host e) = view (r_Host r)
    \<and> r_Fault e = (\<exists>i<n. \<not> same i) \<and> r_EndOfBlock e = (\<forall>i<n. same i)
    \<and> (\<exists>k\<le>n. (\<forall>i<k. same i) \<and> (r_Fault e = (k < n)) \<and> (k < n \<longrightarrow> \<not> same k)
        \<and> r_C64Base e = host_cell r k \<and> r_REUBase e = (r_REUBase r + of_nat k) AND 0x07FFFFF
        \<and> r_Length e = (if k < n then of_nat (n - k) else 1))"
proof -
  have inc: "has (r_AddressControl r) REU_ADDR_FIX_C64 = False" "has (r_AddressControl r) REU_ADDR_FIX_REU = False"
    using ok(3) by (simp_all add: incrementing_def)
  define y where "y = run_transfer H r"
  have y: "transfer_loop H REU_XFER_VERIFY (r_AddressMask r) False False n (start_transfer r) = y"
    by (simp only: y_def run_transfer_def type inc n)
  have s: "x_ram (start_transfer r) = r_RAM r" "x_host (start_transfer r) = r_Host r"
    "x_c64 (start_transfer r) = r_C64Base r" "x_reu (start_transfer r) = r_REUBase r"
    "\<not> x_fault (start_transfer r)" "x_moved (start_transfer r) = 0"
    by (simp_all add: start_transfer_def)
  have m: "r_RAM e = x_ram y" "r_Host e = x_host y" "r_Fault e = x_fault y" "r_EndOfBlock e = (\<not> x_fault y)"
    "r_C64Base e = x_c64 y" "r_REUBase e = x_reu y AND 0x07FFFFF"
    "r_Length e = (if x_fault y then of_nat (x_remaining y + 1) else 1)"
    unfolding e y_def by (simp_all add: execute_memory [OF ok(2,1)] auto)
  have sm: "(\<lambda>i. view (r_Host r) (r_C64Base r + of_nat i) = r_RAM r ((r_REUBase r + of_nat i) AND r_AddressMask r)) = same"
    by (simp add: same host_cell_def ram_cell_def)
  have sm': "(view (r_Host r) (r_C64Base r + of_nat i) = r_RAM r ((r_REUBase r + of_nat i) AND r_AddressMask r)) = same i" for i
    by (rule fun_cong [OF sm])
  note V = reu_memory.verify_loop [where k = n and m = "r_AddressMask r", OF mem s(5), unfolded y s(1-4,6) sm' add_0]
  have V1: "x_ram y = r_RAM r" "view (x_host y) = view (r_Host r)" "x_fault y = (\<exists>i<n. \<not> same i)"
    by (rule V [THEN conjunct1] V [THEN conjunct2, THEN conjunct1] V [THEN conjunct2, THEN conjunct2, THEN conjunct1])+
  from V obtain k where k: "k \<le> n" "\<forall>i<k. same i" "x_fault y \<longrightarrow> k < n \<and> \<not> same k \<and> x_remaining y = n - Suc k"
    "\<not> x_fault y \<longrightarrow> k = n" "x_c64 y = r_C64Base r + of_nat k" "x_reu y = r_REUBase r + of_nat k"
    by (elim conjE exE) (rule that; assumption)
  have kn: "x_fault y = (k < n)" using k(1,3,4) by auto
  have len: "r_Length e = (if k < n then of_nat (n - k) else 1)"
    using k(3) kn unfolding m(7) by (auto simp: Suc_diff_Suc simp flip: of_nat_Suc)
  have all: "(\<not> (\<exists>i<n. \<not> same i)) = (\<forall>i<n. same i)" by blast
  have "k < n \<longrightarrow> \<not> same k" "x_c64 y = host_cell r k" "(\<not> x_fault y) = (\<forall>i<n. same i)"
    using k(3,5) kn V1(3) all by (simp_all add: host_cell_def)
  then show ?thesis
    unfolding m(1-6) V1(1,2)
    by (intro conjI exI [of _ k] k(1,2) len kn V1(3) refl arg_cong [where f = "\<lambda>x. x AND 0x07FFFFF"] k(6))
qed

theorem reu_verify_witness:
  "r_Fault (executeTransfer plain_host (demo_reu 0x93)) \<and> r_C64Base (executeTransfer plain_host (demo_reu 0x93)) = 0x1001"
proof -
  have c: "r_Command (demo_reu 0x93) AND REU_CMD_TYPE_MASK = REU_XFER_VERIFY"
    "\<not> has (r_Command (demo_reu 0x93)) REU_CMD_AUTOLOAD"
    by (simp_all add: demo_reu_facts reu_consts has_def)
  have n: "transfer_length (r_Length (demo_reu 0x93)) = 3" by (simp add: transfer_length_def demo_reu_facts)
  let ?same = "\<lambda>i. r_Host (demo_reu 0x93) (host_cell (demo_reu 0x93) i) = r_RAM (demo_reu 0x93) (ram_cell (demo_reu 0x93) i)"
  have same: "?same 0" "\<not> ?same 1"
    by (simp_all add: host_cell_def ram_cell_def demo_reu_def lo8_def reu_init_def creu_new_def reu_reset_def
        reuSizeFromSelector_def reu_consts)
  note V = reu_verify [OF plain.reu_memory_axioms demo_reu_facts(2-4) c(1) n [symmetric] c(2) refl refl]
  from V have f: "r_Fault (executeTransfer plain_host (demo_reu 0x93)) = (\<exists>i<3. \<not> ?same i)"
    by (elim conjE)
  then have F: "r_Fault (executeTransfer plain_host (demo_reu 0x93))"
    using same(2) by (intro iffD2 [OF f]) (intro exI [of _ 1], simp)
  from V obtain k where k: "\<forall>i<k. ?same i" "k < 3 \<longrightarrow> \<not> ?same k"
    "r_Fault (executeTransfer plain_host (demo_reu 0x93)) = (k < 3)"
    "r_C64Base (executeTransfer plain_host (demo_reu 0x93)) = host_cell (demo_reu 0x93) k"
    by (elim conjE exE) (rule that; assumption)
  have "k = 1"
  proof (rule ccontr)
    assume "k \<noteq> 1"
    then consider "k = 0" | "1 < k" by linarith
    then show False using k(1,2) same F k(3) by cases auto
  qed
  then show ?thesis using k(4) F by (simp add: host_cell_def demo_reu_facts)
qed

lemma autoload_registers:
  assumes "r_Size r \<noteq> 0" "r_Attached r" "has (r_Command r) REU_CMD_AUTOLOAD"
    "r_C64Shadow r = r_C64Base r" "r_REUShadow r = r_REUBase r" "r_LengthShadow r = r_Length r"
  shows "r_C64Base (executeTransfer H r) = r_C64Base r" "r_REUBase (executeTransfer H r) = r_REUBase r"
    "r_Length (executeTransfer H r) = r_Length r"
  using execute_memory [OF assms(2,1), of H] assms(3-6) by simp_all

text \<open>SWAP is its own inverse: with autoload set and the registers as programmed, issuing the same
  SWAP command twice restores every byte of both memories and leaves the address and length registers
  as they were.\<close>

theorem reu_swap_twice:
  fixes r e f :: "'h creu"
  assumes mem: "reu_memory H view" and ok: "reu_ok r" "r_Size r \<noteq> 0" "r_Attached r" "incrementing r"
    and type: "r_Command r AND REU_CMD_TYPE_MASK = REU_XFER_SWAP" and auto: "has (r_Command r) REU_CMD_AUTOLOAD"
    and shadow: "r_C64Shadow r = r_C64Base r" "r_REUShadow r = r_REUBase r" "r_LengthShadow r = r_Length r"
    and e: "e = executeTransfer H r" and f: "f = executeTransfer H (e\<lparr>r_Command := r_Command r\<rparr>)"
  shows "r_RAM f = r_RAM r \<and> view (r_Host f) = view (r_Host r)
    \<and> r_C64Base f = r_C64Base r \<and> r_REUBase f = r_REUBase r \<and> r_Length f = r_Length r"
proof -
  define n where "n = transfer_length (r_Length r)"
  define d where "d = e\<lparr>r_Command := r_Command r\<rparr>"
  have regs: "r_C64Base d = r_C64Base r" "r_REUBase d = r_REUBase r" "r_Length d = r_Length r"
    using autoload_registers [OF ok(2,3) auto shadow] by (simp_all add: d_def e)
  have d: "reu_ok d" "r_Size d \<noteq> 0" "r_Attached d" "incrementing d" "r_Command d = r_Command r"
    "r_RAM d = r_RAM e" "r_Host d = r_Host e" "r_AddressMask d = r_AddressMask r"
    "r_C64Shadow d = r_C64Base d" "r_REUShadow d = r_REUBase d" "r_LengthShadow d = r_Length d"
    using ok regs shadow by (simp_all add: d_def e incrementing_def reu_ok_def)
  have cells: "ram_cell d = ram_cell r" "host_cell d = host_cell r"
    using regs d(8) by (simp_all add: fun_eq_iff ram_cell_def host_cell_def)
  have sw: "REU_XFER_SWAP \<in> {REU_XFER_STASH, REU_XFER_FETCH, REU_XFER_SWAP}"
    "(REU_XFER_SWAP = REU_XFER_FETCH) = False" "(REU_XFER_SWAP = REU_XFER_STASH) = False"
    by (simp_all add: reu_consts)
  note one = transfer_contents [OF mem ok type [symmetric] sw(1) n_def e, unfolded sw(2,3) if_False]
  have n2: "n = transfer_length (r_Length d)" by (simp only: n_def regs)
  note two = transfer_contents [OF mem d(1-4) type [symmetric, folded d(5)] sw(1) n2 f [folded d_def],
    unfolded sw(2,3) if_False cells d(6,7)]
  have "r_RAM f a = r_RAM r a" for a
  proof (cases "\<exists>i<n. a = ram_cell r i")
    case True then show ?thesis using one two by (elim conjE exE) simp
  next
    case False then show ?thesis using one two by (elim conjE) simp
  qed
  moreover have "view (r_Host f) a = view (r_Host r) a" for a
  proof (cases "\<exists>i<n. a = host_cell r i")
    case True then show ?thesis using one two by (elim conjE exE) simp
  next
    case False then show ?thesis using one two by (elim conjE) simp
  qed
  moreover have "r_C64Base f = r_C64Base r" "r_REUBase f = r_REUBase r" "r_Length f = r_Length r"
    using autoload_registers [OF d(2,3) _ d(9-11)] auto regs unfolding f d_def [symmetric] d(5) by simp_all
  ultimately show ?thesis by (simp add: fun_eq_iff)
qed

theorem reu_swap_twice_witness:
  "r_RAM (executeTransfer plain_host ((executeTransfer plain_host (demo_reu 0xB2))\<lparr>r_Command := 0xB2\<rparr>)) = (\<lambda>_. 0)"
proof -
  have c: "r_Command (demo_reu 0xB2) AND REU_CMD_TYPE_MASK = REU_XFER_SWAP" "has (r_Command (demo_reu 0xB2)) REU_CMD_AUTOLOAD"
    by (simp_all add: demo_reu_facts reu_consts has_def)
  have "r_RAM (demo_reu 0xB2) = (\<lambda>_. 0)"
    by (simp add: demo_reu_def reu_init_def creu_new_def reu_reset_def reuSizeFromSelector_def reu_consts)
  then show ?thesis
    using reu_swap_twice [OF plain.reu_memory_axioms demo_reu_facts(1-4) c demo_reu_facts(9-11) refl refl]
    unfolding demo_reu_facts(5) by (elim conjE) (simp only:)
qed

text \<open>Completion. However a command ends, the EXECUTE bit reads back clear, no \<open>$FF00\<close> trigger is
  pending and exactly one of end-of-block and fault is set; the interrupt line is raised exactly when
  it is enabled and the matching cause is unmasked, and stays raised if it already was. One read of
  \<open>$DF00\<close> reports the three events and acknowledges them: the next one shows only the size bit.\<close>

theorem reu_completion:
  fixes r e :: "'h creu"
  assumes "e = executeTransfer H r" "r_Size r \<noteq> 0"
  shows "\<not> has (r_Command e) REU_CMD_EXECUTE \<and> \<not> r_PendingFF00 e \<and> r_EndOfBlock e = (\<not> r_Fault e)
    \<and> r_IRQPending e = (r_IRQPending r \<or> has (r_IRQMask r) REU_IRQ_ENABLE
        \<and> has (r_IRQMask r) (if r_Fault e then REU_IRQ_ON_FAULT else REU_IRQ_ON_END))
    \<and> fst (reu_read 0xDF00 e) = Some (reu_status e)
    \<and> fst (reu_read 0xDF00 (snd (reu_read 0xDF00 e))) = Some (if r_Size r \<ge> 512 * 1024 then REU_ST_SIZE else 0)"
proof -
  have "\<not> has (c AND NOT REU_CMD_EXECUTE) REU_CMD_EXECUTE" for c
    by (simp add: has_def and.assoc REU_CMD_EXECUTE_def)
  moreover have irq: "r_IRQPending (finishTransfer f s) = (r_IRQPending s \<or> has (r_IRQMask s) REU_IRQ_ENABLE
        \<and> has (r_IRQMask s) (if f then REU_IRQ_ON_FAULT else REU_IRQ_ON_END))" for f and s :: "'h creu"
    by (auto simp: finishTransfer_def Let_def)
  moreover have "r_IRQPending e = (r_IRQPending r \<or> has (r_IRQMask r) REU_IRQ_ENABLE
        \<and> has (r_IRQMask r) (if r_Fault e then REU_IRQ_ON_FAULT else REU_IRQ_ON_END))"
    "r_EndOfBlock e = (\<not> r_Fault e)"
    unfolding assms(1) executeTransfer_def Let_def by (simp_all add: irq)
  ultimately show ?thesis
    using assms(2) by (simp add: assms(1) reu_read_def REU_REG_FIRST_def REU_REG_LAST_def reu_status_def)
qed

theorem reu_completion_witness:
  "\<not> has (r_Command (executeTransfer plain_host (demo_reu 0x93))) REU_CMD_EXECUTE"
  using reu_completion [OF refl demo_reu_facts(2), of plain_host "0x93"] by (elim conjE)

text \<open>The \<open>$FF00\<close> trigger. A command with EXECUTE set and the \<open>$FF00\<close> option selected moves
  nothing when it is written; the next write to \<open>$FF00\<close> performs exactly the transfer an immediate
  command would have performed, and further writes to \<open>$FF00\<close> do nothing until the unit is armed again.\<close>

theorem reu_ff00_trigger:
  fixes r a :: "'h creu"
  assumes "has v REU_CMD_EXECUTE" "\<not> has v REU_CMD_NO_FF00" "r_Size r \<noteq> 0"
    and "a = snd (reu_write H 0xDF01 v r)" and "w = v OR REU_CMD_NO_FF00"
  shows "r_RAM a = r_RAM r \<and> r_Host a = r_Host r \<and> r_PendingFF00 a
    \<and> noteFF00Write H a = executeTransfer H (r\<lparr>r_Command := v\<rparr>)
    \<and> noteFF00Write H (noteFF00Write H a) = noteFF00Write H a
    \<and> snd (reu_write H 0xDF01 w r) = executeTransfer H (r\<lparr>r_Command := w\<rparr>)"
proof -
  have a: "a = r\<lparr>r_Command := v, r_PendingFF00 := True\<rparr>"
    using assms(1-3) by (simp add: assms(4) reu_write_def write_command_def REU_REG_FIRST_def REU_REG_LAST_def)
  have drop: "executeTransfer H (s\<lparr>r_PendingFF00 := False\<rparr>) = executeTransfer H s" for s :: "'h creu"
    by (simp add: executeTransfer_def)
  have "noteFF00Write H a = executeTransfer H (r\<lparr>r_Command := v, r_PendingFF00 := False\<rparr>)"
    using assms(3) by (simp add: noteFF00Write_def a)
  then have fire: "noteFF00Write H a = executeTransfer H (r\<lparr>r_Command := v\<rparr>)"
    using drop [of "r\<lparr>r_Command := v\<rparr>"] by simp
  have once: "noteFF00Write H (executeTransfer H s) = executeTransfer H s" for s :: "'h creu"
    by (simp add: noteFF00Write_def)
  have "(v OR 0x10) AND 0x80 = v AND 0x80" "(v OR 0x10) AND 0x10 = 0x10"
    by (simp_all add: and.commute [of "v OR 0x10"] and.commute [of v] bit.conj_disj_distrib)
  then have "has w REU_CMD_EXECUTE" "has w REU_CMD_NO_FF00"
    using assms(1) by (simp_all add: assms(5) has_def REU_CMD_NO_FF00_def REU_CMD_EXECUTE_def)
  then show ?thesis
    using assms(3) fire once by (simp add: a reu_write_def write_command_def REU_REG_FIRST_def REU_REG_LAST_def)
qed

theorem reu_ff00_trigger_witness:
  "r_PendingFF00 (snd (reu_write plain_host 0xDF01 0x81 (demo_reu 0)))"
proof -
  have "has (0x81 :: u8) REU_CMD_EXECUTE" "\<not> has (0x81 :: u8) REU_CMD_NO_FF00"
    by (simp_all add: has_def reu_consts)
  from reu_ff00_trigger [OF this demo_reu_facts(2) refl refl, of plain_host 0] show ?thesis by (elim conjE)
qed

lemma set_low_high:
  "(b AND 0xFF00 OR ucast l) AND 0xFF OR push_bit 8 (ucast h) = word16 l h" for b :: u16
proof -
  have m: "(0xFF :: u16) = mask 8" "(0xFF00 :: u16) = NOT (mask 8)" by (simp_all add: mask_eq_exp_minus_1)
  show ?thesis unfolding m word16_def by (rule bit_word_eqI) (auto simp: bit_simps dest: bit_imp_le_length)
qed

lemma set_three_bytes:
  "((b AND 0xFFFF00 OR ucast x) AND 0xFF00FF OR push_bit 8 (ucast y)) AND 0xFFFF OR push_bit 16 (ucast z AND 7)
    = ucast (x :: u8) OR push_bit 8 (ucast (y :: u8)) OR push_bit 16 (ucast (z :: u8) AND 7)" for b :: u32
proof -
  have m: "(0xFFFF :: u32) = mask 16" "(0xFFFF00 :: u32) = mask 24 AND NOT (mask 8)"
    "(0xFF00FF :: u32) = mask 24 AND NOT (mask 16) OR mask 8" "(7 :: u32) = mask 3"
    by (simp_all add: mask_eq_exp_minus_1)
  show ?thesis unfolding m by (rule bit_word_eqI) (auto simp: bit_simps dest: bit_imp_le_length)
qed

lemma three_bytes_value:
  "unat (ucast x OR push_bit 8 (ucast y) OR push_bit 16 (ucast z AND 7) :: u32)
    = unat x + 256 * unat y + 65536 * (unat z mod 8)" for x y z :: u8
proof -
  have m: "(7 :: u32) = mask 3" by (simp add: mask_eq_exp_minus_1)
  have z: "(ucast z AND mask 3 :: u32) = of_nat (unat z mod 8)"
  proof (rule unsigned_word_eqI)
    have "unat (ucast z AND mask 3 :: u32) = take_bit 3 (unat z)"
      by (simp add: take_bit_eq_mask [symmetric] unsigned_take_bit_eq unsigned_ucast_eq)
    then show "unat (ucast z AND mask 3 :: u32) = unat (of_nat (unat z mod 8) :: u32)"
      by (simp add: take_bit_eq_mod unat_of_nat)
  qed
  have "ucast x OR push_bit 8 (ucast y) = (ucast x + push_bit 8 (ucast y) :: u32)"
    by (rule disjunctive_add_eq_or [symmetric], rule bit_word_eqI) (auto simp: bit_simps dest: bit_imp_le_length)
  moreover have "(ucast x OR push_bit 8 (ucast y)) OR push_bit 16 (ucast z AND 7)
      = (ucast x OR push_bit 8 (ucast y)) + (push_bit 16 (ucast z AND 7) :: u32)"
    unfolding m
    by (rule disjunctive_add_eq_or [symmetric], rule bit_word_eqI) (auto simp: bit_simps dest: bit_imp_le_length)
  ultimately have "(ucast x OR push_bit 8 (ucast y) OR push_bit 16 (ucast z AND 7) :: u32)
      = of_nat (unat x + 256 * unat y + 65536 * (unat z mod 8))"
    by (simp add: or.assoc [symmetric] push_bit_eq_mult m z)
  moreover have "unat x < 256" "unat y < 256" "unat z mod 8 < 8"
    using unsigned_less [of x, where ?'a = nat] unsigned_less [of y, where ?'a = nat] by simp_all
  ultimately show ?thesis by (simp only: unat_of_nat) simp
qed

definition reu_program :: "'h ireu_host \<Rightarrow> u8 list \<Rightarrow> 'h creu \<Rightarrow> 'h creu" where
  "reu_program H vs r = fold (\<lambda>(i, v) r. snd (reu_write H (0xDF02 + of_nat i) v r)) (enumerate 0 vs) r"

text \<open>The address and length registers read back what was written, byte by byte, except that only
  the low three bits of the bank register are kept (the other five read as ones); every write also
  reaches the autoload shadow.\<close>

theorem reu_registers_read_back:
  fixes r p :: "'h creu"
  assumes "r_Size r \<noteq> 0" and p: "p = reu_program H [cl, ch, xl, xh, xb, ll, lh] r"
  shows "map (\<lambda>i. fst (reu_read (0xDF02 + of_nat i) p)) [0..<7]
      = map Some [cl, ch, xl, xh, xb OR 0xF8, ll, lh]
    \<and> r_C64Shadow p = word16 cl ch \<and> r_C64Base p = word16 cl ch
    \<and> r_REUShadow p = r_REUBase p \<and> unat (r_REUBase p) = unat xl + 256 * unat xh + 65536 * (unat xb mod 8)
    \<and> r_Length p = word16 ll lh \<and> r_LengthShadow p = word16 ll lh"
proof -
  note w = reu_write_def REU_REG_FIRST_def REU_REG_LAST_def set_C64Base_def set_REUBase_def set_Length_def
  have b: "r_C64Base p = word16 cl ch" "r_Length p = word16 ll lh" "r_C64Shadow p = word16 cl ch" "r_LengthShadow p = word16 ll lh"
    "r_REUBase p = ucast xl OR push_bit 8 (ucast xh) OR push_bit 16 (ucast xb AND 7)" "r_REUShadow p = r_REUBase p" "r_Size p = r_Size r"
    using assms(1) unfolding p reu_program_def
    by (simp_all add: enumerate_eq_zip w set_low_high set_three_bytes [simplified] upt_rec)
  define q where "q = r_REUBase p"
  have bytes: "ucast (q AND 0xFF) = xl" "ucast (drop_bit 8 q AND 0xFF) = xh"
    "ucast (drop_bit 16 q AND 7 OR 0xF8) = xb OR 0xF8"
  proof -
    have m: "(0xFF :: u32) = mask 8" "(7 :: u32) = mask 3" "(0xF8 :: u32) = mask 8 AND NOT (mask 3)"
      "(0xF8 :: u8) = NOT (mask 3)"
      by (simp_all add: mask_eq_exp_minus_1)
    show "ucast (q AND 0xFF) = xl" "ucast (drop_bit 8 q AND 0xFF) = xh"
      "ucast (drop_bit 16 q AND 7 OR 0xF8) = xb OR 0xF8"
      unfolding q_def b m by (rule bit_word_eqI; auto simp: bit_simps dest: bit_imp_le_length)+
  qed
  have whole: "unat (r_REUBase p) = unat xl + 256 * unat xh + 65536 * (unat xb mod 8)"
    unfolding b by (rule three_bytes_value)
  obtain v where b0: "r_REUBase p = v" by simp
  show ?thesis
    using assms(1) b(1-4,6,7) bytes whole  unfolding q_def b0
    by (simp add: b0 upt_rec reu_read_def REU_REG_FIRST_def REU_REG_LAST_def)
qed

theorem reu_registers_read_back_witness:
  "fst (reu_read 0xDF06 (reu_program plain_host [1, 2, 3, 4, 0xFF, 5, 6] (demo_reu 0))) = Some 0xFF"
  using reu_registers_read_back [where r = "demo_reu 0" and H = plain_host and cl = 1 and ch = 2 and xl = 3 and xh = 4 and xb = "0xFF" and ll = 5 and lh = 6, OF demo_reu_facts(2) refl]
  by (simp add: upt_rec)











end
