(* ===== verification/C64Bus.thy ===== *)
theory C64Bus
  imports Prelude
begin

text \<open>
  The physical side of the machine: the signals of \<open>Source/C64/c64_signals.h\<close>, the bus interface of
  \<open>Source/C64/c64_bus.h\<close> as a record of operations over a host state \<open>'h\<close>, and the simulated bus of
  \<open>Source/Bus/Host/host_bus.cpp\<close> (\<open>CHostBus\<close>), which is the back end the program is tested on. The
  back end of the real hardware (\<open>Source/Bus/RAD\<close>) is GPIO and DMA access and stays a parameter.

  The promise that the write buffer relies on is the locale \<open>c64_dram\<close>: a burst stores its bytes in
  order into one 64 KB memory. It is discharged for \<open>CHostBus\<close>. The raster clock of \<open>CHostBus\<close> is a
  callback; its current value is the field \<open>h_Clock\<close> (\<open>None\<close>: no callback installed).
\<close>

unbundle bit_operations_syntax

section \<open>Signals\<close>

datatype C64MachineType = MACHINE_UNKNOWN | MACHINE_C64 | MACHINE_C128

datatype C64VideoStandard = VIDEO_PAL | VIDEO_NTSC_R56A | VIDEO_NTSC_R8

record C64Signals =
  sig_machine :: C64MachineType
  sig_video :: C64VideoStandard
  sig_gameAsserted :: bool
  sig_exromAsserted :: bool

fun c64CyclesPerLine :: "C64VideoStandard \<Rightarrow> nat" where
  "c64CyclesPerLine VIDEO_NTSC_R56A = 64"
| "c64CyclesPerLine VIDEO_NTSC_R8 = 65"
| "c64CyclesPerLine VIDEO_PAL = 63"

fun c64RasterLines :: "C64VideoStandard \<Rightarrow> nat" where
  "c64RasterLines VIDEO_NTSC_R56A = 262"
| "c64RasterLines VIDEO_NTSC_R8 = 263"
| "c64RasterLines VIDEO_PAL = 312"

definition c64DisplayFirstLine :: "C64VideoStandard \<Rightarrow> u16" where
  "c64DisplayFirstLine v = (if v = VIDEO_PAL then 51 else 41)"

definition c64DisplayLastLine :: "C64VideoStandard \<Rightarrow> u16" where
  "c64DisplayLastLine v = (if v = VIDEO_PAL then 250 else 240)"

definition c64RasterIsSafeForBulkTransfer :: "C64VideoStandard \<Rightarrow> u16 \<Rightarrow> bool" where
  "c64RasterIsSafeForBulkTransfer v line \<longleftrightarrow>
     unat line < c64RasterLines v \<and> (line < c64DisplayFirstLine v \<or> line > c64DisplayLastLine v)"

section \<open>The bus interface\<close>

type_synonym C64BusWrite = "u16 \<times> u8"

record 'h ic64_bus =
  cb_signals :: "'h \<Rightarrow> C64Signals"
  cb_read :: "u16 \<Rightarrow> 'h \<Rightarrow> u8 \<times> 'h"
  cb_write :: "u16 \<Rightarrow> u8 \<Rightarrow> 'h \<Rightarrow> 'h"
  cb_readRAM :: "u16 \<Rightarrow> 'h \<Rightarrow> u8 \<times> 'h"
  cb_writeRAM :: "u16 \<Rightarrow> u8 \<Rightarrow> 'h \<Rightarrow> 'h"
  cb_verifyC64CIA2DDRA :: "u8 \<Rightarrow> 'h \<Rightarrow> bool \<times> 'h"
  cb_writeBurst :: "C64BusWrite list \<Rightarrow> 'h \<Rightarrow> 'h"
  cb_readBlock :: "u16 \<Rightarrow> nat \<Rightarrow> 'h \<Rightarrow> u8 list \<times> 'h"
  cb_irqAsserted :: "'h \<Rightarrow> bool \<times> 'h"
  cb_nmiAsserted :: "'h \<Rightarrow> bool \<times> 'h"
  cb_rasterLine :: "'h \<Rightarrow> u16 \<times> 'h"
  cb_hostCycles :: "'h \<Rightarrow> u64 \<times> 'h"
  cb_hostCyclesPerSec :: "'h \<Rightarrow> u32"

definition sampleInterrupts :: "'h ic64_bus \<Rightarrow> 'h \<Rightarrow> (bool \<times> bool) \<times> 'h" where
  "sampleInterrupts B h =
     (let (irq, h) = cb_irqAsserted B h;
          (nmi, h) = cb_nmiAsserted B h
      in ((irq, nmi), h))"

definition store_burst :: "C64BusWrite list \<Rightarrow> (u16 \<Rightarrow> u8) \<Rightarrow> u16 \<Rightarrow> u8" where
  "store_burst ws m = fold (\<lambda>(a, v) m. m(a := v)) ws m"

lemma store_burst_simps [simp]:
  "store_burst [] m = m" "store_burst ((a, v) # ws) m = store_burst ws (m(a := v))"
  by (simp_all add: store_burst_def)

lemma store_burst_append [simp]: "store_burst (xs @ ys) m = store_burst ys (store_burst xs m)"
  by (simp add: store_burst_def)

lemma store_burst_other: "a \<notin> fst ` set ws \<Longrightarrow> store_burst ws m a = m a"
  by (induction ws arbitrary: m) auto

lemma store_burst_map:
  "store_burst (map (\<lambda>a. (a, f a)) as) m a = (if a \<in> set as then f a else m a)"
  by (induction as arbitrary: m) (auto simp: store_burst_def)

text \<open>What a client of the mirror path relies on: a burst is a sequence of stores to DRAM, and
  sampling a cell changes none.\<close>

locale c64_dram =
  fixes B :: "'h ic64_bus" and dram :: "'h \<Rightarrow> u16 \<Rightarrow> u8"
  assumes dram_burst: "dram (cb_writeBurst B ws h) = store_burst ws (dram h)"
    and dram_readRAM: "dram (snd (cb_readRAM B a h)) = dram h"
begin

lemma dram_burst_map:
  "dram (cb_writeBurst B (map (\<lambda>a. (a, f a)) as) h) a = (if a \<in> set as then f a else dram h a)"
  by (simp add: dram_burst store_burst_map)

end

section \<open>The simulated bus\<close>

datatype HostBusOp = HOSTOP_READ | HOSTOP_WRITE | HOSTOP_BURST_WRITE

definition HOSTBUS_LOG_SIZE :: nat where "HOSTBUS_LOG_SIZE = 65536"

record host_bus =
  h_Memory :: "u16 \<Rightarrow> u8"
  h_IRQ :: bool
  h_NMI :: bool
  h_Signals :: C64Signals
  h_Cycles :: u64
  h_Reads :: u64
  h_Writes :: u64
  h_BurstWrites :: u64
  h_Log :: "(HostBusOp \<times> u16 \<times> u8) list"
  h_LogEnabled :: bool
  h_Clock :: "u64 option"
  h_RasterSeenLine :: u64
  h_RasterLatch :: bool
  h_RasterIRQsRaised :: u32

definition host_bus_new :: host_bus where
  "host_bus_new = \<lparr> h_Memory = (\<lambda>_. 0), h_IRQ = False, h_NMI = False,
     h_Signals = \<lparr> sig_machine = MACHINE_C64, sig_video = VIDEO_PAL, sig_gameAsserted = False, sig_exromAsserted = False \<rparr>,
     h_Cycles = 0, h_Reads = 0, h_Writes = 0, h_BurstWrites = 0, h_Log = [], h_LogEnabled = False,
     h_Clock = None, h_RasterSeenLine = 0, h_RasterLatch = False, h_RasterIRQsRaised = 0 \<rparr>"

definition logAccess :: "HostBusOp \<Rightarrow> u16 \<Rightarrow> u8 \<Rightarrow> host_bus \<Rightarrow> host_bus" where
  "logAccess op a v h =
     (if h_LogEnabled h \<and> length (h_Log h) < HOSTBUS_LOG_SIZE then h\<lparr>h_Log := h_Log h @ [(op, a, v)]\<rparr> else h)"

definition host_resetStats :: "host_bus \<Rightarrow> host_bus" where
  "host_resetStats h = h\<lparr>h_Cycles := 0, h_Reads := 0, h_Writes := 0, h_BurstWrites := 0, h_Log := []\<rparr>"

text \<open>Raster arithmetic: \<open>u64\<close> line numbers divided and reduced by the constants of the standard.\<close>

definition per_line :: "host_bus \<Rightarrow> u64" where
  "per_line h = of_nat (c64CyclesPerLine (sig_video (h_Signals h)))"

definition raster_lines :: "host_bus \<Rightarrow> u64" where
  "raster_lines h = of_nat (c64RasterLines (sig_video (h_Signals h)))"

definition rasterLineInternal :: "host_bus \<Rightarrow> u16" where
  "rasterLineInternal h =
     (case h_Clock h of
        Some now \<Rightarrow> ucast ((now div per_line h) mod raster_lines h)
      | None \<Rightarrow> ucast ((h_Cycles h div per_line h) mod raster_lines h))"

definition setRasterClock :: "u64 option \<Rightarrow> host_bus \<Rightarrow> host_bus" where
  "setRasterClock source h =
     h\<lparr>h_Clock := source, h_RasterLatch := False, h_RasterIRQsRaised := 0,
       h_RasterSeenLine := (case source of Some now \<Rightarrow> now div per_line h | None \<Rightarrow> 0)\<rparr>"

definition raster_compare :: "host_bus \<Rightarrow> u16" where
  "raster_compare h = ucast (h_Memory h 0xD012) OR (if has (h_Memory h 0xD011) 0x80 then 0x100 else 0)"

definition advanceRaster :: "host_bus \<Rightarrow> host_bus" where
  "advanceRaster h =
     (case h_Clock h of None \<Rightarrow> h
      | Some now \<Rightarrow>
        (let lines = raster_lines h;
             nowLine = now div per_line h
         in if nowLine \<le> h_RasterSeenLine h then h
            else
              let compare = ucast (raster_compare h);
                  first = h_RasterSeenLine h + 1;
                  delta = (compare + lines - (first mod lines)) mod lines;
                  h = (if compare < lines \<and> first + delta \<le> nowLine
                       then h\<lparr>h_RasterIRQsRaised := (if h_RasterLatch h then h_RasterIRQsRaised h
                                                      else h_RasterIRQsRaised h + 1),
                              h_RasterLatch := True\<rparr>
                       else h)
              in h\<lparr>h_RasterSeenLine := nowLine\<rparr>))"

definition host_read :: "u16 \<Rightarrow> host_bus \<Rightarrow> u8 \<times> host_bus" where
  "host_read a h =
     (let h = h\<lparr>h_Cycles := h_Cycles h + 1, h_Reads := h_Reads h + 1\<rparr>;
          (v, h) =
            (if a = 0xD012 \<or> a = 0xD011 then
               let raster = rasterLineInternal h
               in (if a = 0xD012 then ucast (raster AND 0xFF)
                   else (h_Memory h 0xD011 AND 0x7F) OR (if has raster 0x100 then 0x80 else 0), h)
             else if a = 0xD019 \<and> h_Clock h \<noteq> None then
               let h = advanceRaster h;
                   v = 0x70 OR (if h_RasterLatch h then 0x01 else 0)
               in (if h_RasterLatch h \<and> has (h_Memory h 0xD01A) 0x01 then v OR 0x80 else v, h)
             else (h_Memory h a, h))
      in (v, logAccess HOSTOP_READ a v h))"

definition host_write :: "u16 \<Rightarrow> u8 \<Rightarrow> host_bus \<Rightarrow> host_bus" where
  "host_write a v h =
     (let h = h\<lparr>h_Cycles := h_Cycles h + 1, h_Writes := h_Writes h + 1\<rparr>;
          h = (if a = 0xD019 \<and> h_Clock h \<noteq> None
               then let h = advanceRaster h in if has v 0x01 then h\<lparr>h_RasterLatch := False\<rparr> else h
               else h)
      in logAccess HOSTOP_WRITE a v (h\<lparr>h_Memory := (h_Memory h)(a := v)\<rparr>))"

definition host_verifyDDRA :: "u8 \<Rightarrow> host_bus \<Rightarrow> bool \<times> host_bus" where
  "host_verifyDDRA expected h = (let (v, h) = host_read 0xDD02 h in (v = expected, h))"

definition host_burst_byte :: "C64BusWrite \<Rightarrow> host_bus \<Rightarrow> host_bus" where
  "host_burst_byte = (\<lambda>(a, v) h.
     logAccess HOSTOP_BURST_WRITE a v
       (h\<lparr>h_Cycles := h_Cycles h + 1, h_BurstWrites := h_BurstWrites h + 1, h_Memory := (h_Memory h)(a := v)\<rparr>))"

definition host_writeBurst :: "C64BusWrite list \<Rightarrow> host_bus \<Rightarrow> host_bus" where
  "host_writeBurst ws h = fold host_burst_byte ws h"

definition host_readBlock :: "u16 \<Rightarrow> nat \<Rightarrow> host_bus \<Rightarrow> u8 list \<times> host_bus" where
  "host_readBlock a n h =
     (map (\<lambda>i. h_Memory h (a + of_nat i)) [0..<n],
      h\<lparr>h_Cycles := h_Cycles h + of_nat n, h_Reads := h_Reads h + of_nat n\<rparr>)"

definition host_irqAsserted :: "host_bus \<Rightarrow> bool \<times> host_bus" where
  "host_irqAsserted h =
     (if h_Clock h \<noteq> None then
        let h = advanceRaster h
        in if h_RasterLatch h \<and> has (h_Memory h 0xD01A) 0x01 then (True, h) else (h_IRQ h, h)
      else (h_IRQ h, h))"

definition host_rasterLine :: "host_bus \<Rightarrow> u16 \<times> host_bus" where
  "host_rasterLine h =
     (let h = h\<lparr>h_Cycles := h_Cycles h + 1, h_Reads := h_Reads h + 1\<rparr> in (rasterLineInternal h, h))"

definition host_c64_bus :: "host_bus ic64_bus" where
  "host_c64_bus =
     \<lparr> cb_signals = h_Signals, cb_read = host_read, cb_write = host_write, cb_readRAM = host_read,
       cb_writeRAM = host_write, cb_verifyC64CIA2DDRA = host_verifyDDRA, cb_writeBurst = host_writeBurst,
       cb_readBlock = host_readBlock, cb_irqAsserted = host_irqAsserted, cb_nmiAsserted = (\<lambda>h. (h_NMI h, h)),
       cb_rasterLine = host_rasterLine, cb_hostCycles = (\<lambda>h. (0, h)), cb_hostCyclesPerSec = (\<lambda>_. 0) \<rparr>"

section \<open>The simulated bus is DRAM, and its raster interrupt is exact\<close>

lemma logAccess_memory [simp]: "h_Memory (logAccess op a v h) = h_Memory h"
  by (simp add: logAccess_def)

lemma host_burst_memory: "h_Memory (host_writeBurst ws h) = store_burst ws (h_Memory h)"
  unfolding host_writeBurst_def
  by (induction ws arbitrary: h) (auto simp: host_burst_byte_def)

lemma advanceRaster_memory [simp]: "h_Memory (advanceRaster h) = h_Memory h"
  by (simp add: advanceRaster_def Let_def split: option.split)

lemma host_read_memory [simp]: "h_Memory (snd (host_read a h)) = h_Memory h"
  by (simp add: host_read_def Let_def)

interpretation host: c64_dram host_c64_bus h_Memory
  by unfold_locales (simp_all add: host_c64_bus_def host_burst_memory)

lemma least_congruent:
  fixes m c f n :: nat
  assumes "c < m"
  shows "f + (c + m - f mod m) mod m \<le> n \<longleftrightarrow> (\<exists>l. f \<le> l \<and> l \<le> n \<and> l mod m = c)"
proof -
  define d where "d = (c + m - f mod m) mod m"
  have fm: "f mod m < m" using assms by simp
  have hit: "(f + d) mod m = c"
  proof -
    have "(f + d) mod m = (f mod m + (c + m - f mod m)) mod m"
      by (simp add: d_def mod_add_right_eq mod_add_left_eq)
    also have "f mod m + (c + m - f mod m) = c + m" using fm by simp
    finally show ?thesis using assms by simp
  qed
  have least: "f + d \<le> l" if "f \<le> l" "l mod m = c" for l
  proof -
    obtain k where l: "l = f + k" using \<open>f \<le> l\<close> le_Suc_ex by blast
    have "(c + m - f mod m) mod m = k mod m"
    proof (rule add_mod_cancel_left)
      have "f mod m + (c + m - f mod m) = c + m" using fm by simp
      then have "(f mod m + (c + m - f mod m)) mod m = c" using assms by simp
      also have "\<dots> = (f mod m + k) mod m" using that(2) l by (simp add: mod_add_left_eq)
      finally show "(f mod m + (c + m - f mod m)) mod m = (f mod m + k) mod m" .
    qed
    then have "d \<le> k" by (simp add: d_def)
    then show ?thesis by (simp add: l)
  qed
  show ?thesis
    unfolding d_def [symmetric] using hit least le_trans by (metis le_add1)
qed

lemma raster_consts:
  "unat (per_line h) = c64CyclesPerLine (sig_video (h_Signals h))"
  "unat (raster_lines h) = c64RasterLines (sig_video (h_Signals h))"
  "0 < c64CyclesPerLine v" "0 < c64RasterLines v" "c64RasterLines v \<le> 312" "60 < c64CyclesPerLine v"
  by (cases "sig_video (h_Signals h)"; cases v; simp add: per_line_def raster_lines_def)+

lemma unat_compare_lt: "unat (raster_compare h) < 512"
proof -
  have hi: "\<not> bit (0x100 :: u16) n" if "9 \<le> n" for n
    by (rule small_not_bit [where k = 9]) (use that in simp_all)
  have lo: "\<not> bit (v :: u8) n" if "9 \<le> n" for v n using that by (auto dest: bit_imp_le_length)
  have "raster_compare h AND mask 9 = raster_compare h"
  proof (rule bit_word_eqI)
    fix n show "bit (raster_compare h AND mask 9) n = bit (raster_compare h) n"
      using hi [of n] lo [of n "h_Memory h 0xD012"] by (cases "9 \<le> n") (auto simp: raster_compare_def bit_simps)
  qed
  then have "take_bit 9 (unat (raster_compare h)) = unat (raster_compare h)"
    by (metis take_bit_eq_mask unsigned_take_bit_eq)
  then show ?thesis using take_bit_nat_less_exp [of 9 "unat (raster_compare h)"] by simp
qed

lemma unat_div_mod:
  "unat (a div b) = unat a div unat (b :: u64)" "unat (a mod b) = unat a mod unat b"
  by (simp_all add: unat_div_distrib unat_mod_distrib)

text \<open>The lazily evaluated raster interrupt is exact however coarsely it is sampled: advancing the
  raster to a later clock sets the latch exactly when some absolute line after the last one accounted
  for, up to the current one, is the compare line; the lines are then accounted for.\<close>

theorem raster_irq_exact:
  assumes clock: "h_Clock h = Some now"
  defines "S \<equiv> unat (h_RasterSeenLine h)" and "N \<equiv> unat now div c64CyclesPerLine (sig_video (h_Signals h))"
    and "m \<equiv> c64RasterLines (sig_video (h_Signals h))" and "h' \<equiv> advanceRaster h"
  shows "h_RasterLatch h' = (h_RasterLatch h \<or> (\<exists>l. S < l \<and> l \<le> N \<and> l mod m = unat (raster_compare h)))
    \<and> unat (h_RasterSeenLine h') = max S N \<and> h_Memory h' = h_Memory h
    \<and> h_RasterIRQsRaised h' = h_RasterIRQsRaised h + (if h_RasterLatch h' \<and> \<not> h_RasterLatch h then 1 else 0)"
proof -
  define c where "c = unat (raster_compare h)"
  have c: "c < 512" and m: "0 < m" "m \<le> 312"
    using unat_compare_lt raster_consts by (simp_all add: c_def m_def)
  have N: "unat (now div per_line h) = N" by (simp add: unat_div_mod raster_consts N_def)
  have small: "N < 2 ^ 60"
  proof -
    have "unat now < 2 ^ 64" using unsigned_less [of now, where ?'a = nat] by simp
    moreover have k: "61 \<le> c64CyclesPerLine (sig_video (h_Signals h))"
      using raster_consts(6) [of "sig_video (h_Signals h)"] by simp
    moreover from k have "(2 :: nat) ^ 60 * 61 \<le> 2 ^ 60 * c64CyclesPerLine (sig_video (h_Signals h))"
      by (rule mult_le_mono2)
    moreover have "(2 :: nat) ^ 64 < 2 ^ 60 * 61" by simp
    ultimately have "unat now < 2 ^ 60 * c64CyclesPerLine (sig_video (h_Signals h))" by linarith
    then show ?thesis unfolding N_def using k by (subst div_less_iff_less_mult) auto
  qed
  show ?thesis
  proof (cases "N \<le> S")
    case True
    then have "advanceRaster h = h"
      using clock N by (simp add: advanceRaster_def Let_def word_le_nat_alt S_def)
    then show ?thesis using True by (auto simp: h'_def S_def)
  next
    case False
    define lines where "lines = raster_lines h"
    define first where "first = h_RasterSeenLine h + 1"
    define delta where "delta = (ucast (raster_compare h) + lines - first mod lines) mod lines"
    have lines: "unat lines = m" by (simp add: lines_def raster_consts m_def)
    have first: "unat first = S + 1"
      using False small by (simp add: first_def S_def unat_word_ariths)
    have uc: "unat (ucast (raster_compare h) :: u64) = c"
      using unsigned_less [of "raster_compare h", where ?'a = nat] by (simp add: c_def unsigned_ucast_eq take_bit_eq_mod)
    have fm: "unat (first mod lines) = (S + 1) mod m" "(S + 1) mod m < m"
      using m by (simp_all add: unat_div_mod first lines)
    have cm: "unat (ucast (raster_compare h) + lines) = c + m"
      using c m by (simp add: unat_word_ariths uc lines)
    have delta: "unat delta = (c + m - (S + 1) mod m) mod m"
    proof -
      have "unat (ucast (raster_compare h) + lines - first mod lines) = c + m - (S + 1) mod m"
        using fm cm by (subst unat_sub) (simp_all add: word_le_nat_alt)
      then show ?thesis by (simp add: delta_def unat_div_mod lines)
    qed
    have sum: "unat (first + delta) = S + 1 + (c + m - (S + 1) mod m) mod m"
    proof -
      have "(c + m - (S + 1) mod m) mod m < 312" using m by (meson less_le_trans mod_less_divisor)
      then show ?thesis using False small by (simp add: unat_word_ariths first delta)
    qed
    have hit: "(ucast (raster_compare h) < lines \<and> first + delta \<le> now div per_line h)
        = (\<exists>l. S < l \<and> l \<le> N \<and> l mod m = c)"
    proof (cases "c < m")
      case True
      then show ?thesis
        using least_congruent [OF True, of "S + 1" N]
        by (simp add: word_less_nat_alt word_le_nat_alt uc lines N sum Suc_le_eq)
    next
      case c: False
      then have "\<not> (\<exists>l. S < l \<and> l \<le> N \<and> l mod m = c)" using m by (metis mod_less_divisor)
      then show ?thesis using c by (simp add: word_less_nat_alt uc lines)
    qed
    have "\<not> now div per_line h \<le> h_RasterSeenLine h" using False by (simp add: word_le_nat_alt N S_def)
    then have h': "h' = (if \<exists>l. S < l \<and> l \<le> N \<and> l mod m = c
        then h\<lparr>h_RasterIRQsRaised := (if h_RasterLatch h then h_RasterIRQsRaised h else h_RasterIRQsRaised h + 1), h_RasterLatch := True\<rparr>
        else h)\<lparr>h_RasterSeenLine := now div per_line h\<rparr>"
      unfolding h'_def advanceRaster_def Let_def clock option.case
      by (simp only: if_False hit [unfolded delta_def lines_def first_def])
    show ?thesis using False unfolding h' c_def [symmetric] by (simp add: N)
  qed
qed

text \<open>One line of raster time on a PAL clock, from line 310 to line 5 of the next frame, across a
  compare at line 2.\<close>

definition demo_raster :: host_bus where
  "demo_raster = host_bus_new\<lparr>h_Clock := Some (63 * 317), h_RasterSeenLine := 310,
     h_Memory := (\<lambda>a. if a = 0xD012 then 2 else 0)\<rparr>"

theorem raster_irq_exact_witness: "h_RasterLatch (advanceRaster demo_raster)"
proof -
  have "h_Clock demo_raster = Some (63 * 317)" by (simp add: demo_raster_def)
  note R = raster_irq_exact [OF this, THEN conjunct1]
  have "\<exists>l. unat (h_RasterSeenLine demo_raster) < l
      \<and> l \<le> unat (63 * 317 :: u64) div c64CyclesPerLine (sig_video (h_Signals demo_raster))
      \<and> l mod c64RasterLines (sig_video (h_Signals demo_raster)) = unat (raster_compare demo_raster)"
    by (rule exI [of _ 314]) (simp add: demo_raster_def host_bus_new_def raster_compare_def has_def)
  then show ?thesis unfolding R by blast
qed
end
