(* ===== verification/WriteBuffer.thy ===== *)
theory WriteBuffer
  imports C64Bus
begin

text \<open>
  VIC-visible write mirroring: \<open>CWriteBuffer\<close> of \<open>Source/SuperCPU/write_buffer.h\<close> and
  \<open>write_buffer.cpp\<close>, every operation of it.

  \<^item> The two bitmaps are arrays of 64-bit words (\<open>nat \<Rightarrow> u64\<close>), read and written with the shifts of
    the source. The ring \<open>m_List\<close> is a function on slots; \<open>m_Head\<close> and \<open>m_Count\<close> are \<open>nat\<close> (in the
    C++ they are \<open>u32\<close> that never exceed 65536, which \<open>WriteBufferRing\<close> proves), and
    \<open>x & (CAPACITY - 1)\<close> is \<open>x mod CAPACITY\<close>.
  \<^item> What the buffer only points at is the environment \<open>wb_env\<close>: the shadow RAM, the hot sprite
    blocks and their generation, and the relocation tables; each may be absent (a null pointer).
  \<^item> The bus is an \<open>ic64_bus\<close> and its state \<open>'h\<close>, passed next to the buffer; \<open>wb_Bus\<close> says whether
    one is attached. \<open>m_Burst\<close> is scratch: a burst is the list handed to \<open>writeBurst\<close>.
\<close>

unbundle bit_operations_syntax

section \<open>Data\<close>

datatype SCPUOptMode =
  SCPU_OPT_NONE | SCPU_OPT_DEFAULT | SCPU_OPT_BASIC | SCPU_OPT_VICBANK0 | SCPU_OPT_VICBANK1
  | SCPU_OPT_VICBANK2 | SCPU_OPT_VICBANK3 | SCPU_OPT_FULL

definition SCPU_WRITEBUF_CAPACITY :: nat where "SCPU_WRITEBUF_CAPACITY = 65536"
definition SCPU_WRITEBUF_CHUNK :: nat where "SCPU_WRITEBUF_CHUNK = 512"
definition NO_REGION :: u32 where "NO_REGION = 0xFFFFFFFF"

record wb_env =
  we_RAM :: "(u16 \<Rightarrow> u8) option"
  we_HotBlocks :: "(nat \<Rightarrow> u64) option"
  we_HotBlocksGeneration :: "u32 option"
  we_PtrReloc :: "nat \<Rightarrow> u8"
  we_RelocInUse :: "nat \<Rightarrow> u8"
  we_RelocCount :: "u8 option"

record wb_stats =
  st_WritesAccepted :: u64
  st_WritesEliminated :: u64
  st_RelocForwarded :: u64
  st_RelocShielded :: u64
  st_BytesResynced :: u64
  st_DisplayScrubBytes :: u64
  st_DisplayScrubMatrixBytes :: u64
  st_DisplayScrubBitmapBytes :: u64
  st_DisplayScrubCharsetBytes :: u64
  st_DisplayScrubSpriteBytes :: u64
  st_DisplayScrubSampled :: "nat \<Rightarrow> u64"
  st_DisplayScrubMismatches :: "nat \<Rightarrow> u64"
  st_WritesSkipped :: u64
  st_WritesCoalesced :: u64
  st_BytesFlushed :: u64
  st_Flushes :: u64
  st_PolicyEntriesExamined :: u64
  st_PolicyZeroProgressScans :: u64
  st_PolicyNoProgressCacheHits :: u64
  st_IOWindowSuppressed :: u64

record wb =
  wb_Stats :: wb_stats
  wb_Bus :: bool
  wb_Mode :: SCPUOptMode
  wb_ExcludeZPStack :: bool
  wb_DeliveryEnabled :: bool
  wb_RAMUnderIOAccessible :: bool
  wb_RangeLo :: u16
  wb_RangeHi :: u16
  wb_Dirty :: "nat \<Rightarrow> u64"
  wb_Synced :: "nat \<Rightarrow> u64"
  wb_ResyncCursor :: u16
  wb_DisplayScrubScreenBase :: u32
  wb_DisplayScrubGraphicsBase :: u32
  wb_DisplayScrubGraphicsLength :: u32
  wb_DisplayScrubScreenOffset :: u16
  wb_DisplayScrubGraphicsOffset :: u16
  wb_DisplayScrubSpriteOffset :: u16
  wb_DisplayScrubTurn :: u8
  wb_PendingValue :: "u16 \<Rightarrow> u8"
  wb_List :: "nat \<Rightarrow> u16"
  wb_Head :: nat
  wb_Count :: nat
  wb_QueueGeneration :: u32
  wb_NoProgressValid :: bool
  wb_NoProgressDeferHot :: bool
  wb_NoProgressQueueGeneration :: u32
  wb_NoProgressHotGeneration :: u32
  wb_NoProgressScreenBase :: u32
  wb_NoProgressBitmapBase :: u32

abbreviation on_stats :: "(wb_stats \<Rightarrow> wb_stats) \<Rightarrow> wb \<Rightarrow> wb" where
  "on_stats f w \<equiv> w\<lparr>wb_Stats := f (wb_Stats w)\<rparr>"

section \<open>Bitmaps over the 64 KB address space\<close>

definition word_of :: "u16 \<Rightarrow> nat" where "word_of a = unat (drop_bit 6 a)"
definition bit_of :: "u16 \<Rightarrow> nat" where "bit_of a = unat (a AND 63)"

definition bitmap_get :: "(nat \<Rightarrow> u64) \<Rightarrow> u16 \<Rightarrow> bool" where
  "bitmap_get m a = (drop_bit (bit_of a) (m (word_of a)) AND 1 \<noteq> 0)"

definition bitmap_set :: "u16 \<Rightarrow> (nat \<Rightarrow> u64) \<Rightarrow> nat \<Rightarrow> u64" where
  "bitmap_set a m = m(word_of a := m (word_of a) OR push_bit (bit_of a) 1)"

definition bitmap_clear :: "u16 \<Rightarrow> (nat \<Rightarrow> u64) \<Rightarrow> nat \<Rightarrow> u64" where
  "bitmap_clear a m = m(word_of a := m (word_of a) AND NOT (push_bit (bit_of a) 1))"

definition isDirty :: "wb \<Rightarrow> u16 \<Rightarrow> bool" where
  "isDirty w a = bitmap_get (wb_Dirty w) a"

definition setDirty :: "u16 \<Rightarrow> wb \<Rightarrow> wb" where
  "setDirty a w = w\<lparr>wb_Dirty := bitmap_set a (wb_Dirty w)\<rparr>"

definition unsync :: "u16 \<Rightarrow> wb \<Rightarrow> wb" where
  "unsync a w = w\<lparr>wb_Synced := bitmap_clear a (wb_Synced w)\<rparr>"

definition clearDirty :: "wb \<Rightarrow> wb" where
  "clearDirty w = w\<lparr>wb_Dirty := (\<lambda>_. 0)\<rparr>"

section \<open>Construction, attachment, configuration\<close>

definition zero_stats :: wb_stats where
  "zero_stats = \<lparr> st_WritesAccepted = 0, st_WritesEliminated = 0, st_RelocForwarded = 0,
     st_RelocShielded = 0, st_BytesResynced = 0, st_DisplayScrubBytes = 0,
     st_DisplayScrubMatrixBytes = 0, st_DisplayScrubBitmapBytes = 0, st_DisplayScrubCharsetBytes = 0,
     st_DisplayScrubSpriteBytes = 0, st_DisplayScrubSampled = (\<lambda>_. 0), st_DisplayScrubMismatches = (\<lambda>_. 0),
     st_WritesSkipped = 0, st_WritesCoalesced = 0, st_BytesFlushed = 0, st_Flushes = 0,
     st_PolicyEntriesExamined = 0, st_PolicyZeroProgressScans = 0, st_PolicyNoProgressCacheHits = 0,
     st_IOWindowSuppressed = 0 \<rparr>"

definition mode_range :: "SCPUOptMode \<Rightarrow> u16 \<times> u16" where
  "mode_range mode =
     (case mode of
        SCPU_OPT_BASIC \<Rightarrow> (0x0400, 0x07FF)
      | SCPU_OPT_VICBANK0 \<Rightarrow> (0x0000, 0x3FFF)
      | SCPU_OPT_VICBANK1 \<Rightarrow> (0x4000, 0x7FFF)
      | SCPU_OPT_VICBANK2 \<Rightarrow> (0x8000, 0xBFFF)
      | SCPU_OPT_VICBANK3 \<Rightarrow> (0xC000, 0xFFFF)
      | SCPU_OPT_FULL \<Rightarrow> (0xFFFF, 0x0000)
      | _ \<Rightarrow> (0x0000, 0xFFFF))"

definition setOptMode :: "SCPUOptMode \<Rightarrow> wb \<Rightarrow> wb" where
  "setOptMode mode w =
     w\<lparr>wb_Mode := mode, wb_RangeLo := fst (mode_range mode), wb_RangeHi := snd (mode_range mode)\<rparr>"

text \<open>\<open>m_List\<close> and \<open>m_PendingValue\<close> are not initialised by the constructor: their contents are its
  arguments.\<close>

definition wb_new :: "(nat \<Rightarrow> u16) \<Rightarrow> (u16 \<Rightarrow> u8) \<Rightarrow> (nat \<Rightarrow> u64) \<Rightarrow> wb" where
  "wb_new lst pend syn = setOptMode SCPU_OPT_DEFAULT (clearDirty
     \<lparr> wb_Stats = zero_stats, wb_Bus = False, wb_Mode = SCPU_OPT_DEFAULT, wb_ExcludeZPStack = True,
       wb_DeliveryEnabled = True, wb_RAMUnderIOAccessible = False, wb_RangeLo = 0, wb_RangeHi = 0xFFFF,
       wb_Dirty = (\<lambda>_. 0), wb_Synced = syn, wb_ResyncCursor = 0,
       wb_DisplayScrubScreenBase = NO_REGION, wb_DisplayScrubGraphicsBase = NO_REGION,
       wb_DisplayScrubGraphicsLength = 0, wb_DisplayScrubScreenOffset = 0,
       wb_DisplayScrubGraphicsOffset = 0, wb_DisplayScrubSpriteOffset = 0, wb_DisplayScrubTurn = 0,
       wb_PendingValue = pend, wb_List = lst, wb_Head = 0, wb_Count = 0, wb_QueueGeneration = 0,
       wb_NoProgressValid = False, wb_NoProgressDeferHot = False, wb_NoProgressQueueGeneration = 0,
       wb_NoProgressHotGeneration = 0, wb_NoProgressScreenBase = NO_REGION,
       wb_NoProgressBitmapBase = NO_REGION \<rparr>)"

text \<open>\<open>attach\<close>; the RAM pointer it installs is \<open>we_RAM\<close> of the environment.\<close>

definition wb_attach :: "bool \<Rightarrow> wb \<Rightarrow> wb" where
  "wb_attach bus w =
     w\<lparr>wb_Bus := bus, wb_Synced := (\<lambda>_. 0), wb_DisplayScrubScreenBase := NO_REGION,
       wb_DisplayScrubGraphicsBase := NO_REGION, wb_DisplayScrubGraphicsLength := 0,
       wb_DisplayScrubScreenOffset := 0, wb_DisplayScrubGraphicsOffset := 0,
       wb_DisplayScrubSpriteOffset := 0, wb_DisplayScrubTurn := 0,
       wb_QueueGeneration := wb_QueueGeneration w + 1, wb_NoProgressValid := False\<rparr>"

definition setDeliveryEnabled :: "bool \<Rightarrow> wb \<Rightarrow> wb" where
  "setDeliveryEnabled on w = w\<lparr>wb_DeliveryEnabled := on\<rparr>"

definition setRAMUnderIOAccessible :: "bool \<Rightarrow> wb \<Rightarrow> wb" where
  "setRAMUnderIOAccessible accessible w =
     (if wb_RAMUnderIOAccessible w = accessible then w
      else w\<lparr>wb_RAMUnderIOAccessible := accessible, wb_NoProgressValid := False\<rparr>)"

definition setExcludeZeroPageStack :: "bool \<Rightarrow> wb \<Rightarrow> wb" where
  "setExcludeZeroPageStack exclude w = w\<lparr>wb_ExcludeZPStack := exclude\<rparr>"

definition attachHotShapeBlocks :: "wb \<Rightarrow> wb" where
  "attachHotShapeBlocks w = w\<lparr>wb_NoProgressValid := False\<rparr>"

definition resetStats :: "wb \<Rightarrow> wb" where
  "resetStats w = w\<lparr>wb_Stats := zero_stats\<rparr>"

definition discard :: "wb \<Rightarrow> wb" where
  "discard w =
     (clearDirty w)\<lparr>wb_Synced := (\<lambda>_. 0), wb_Head := 0, wb_Count := 0,
       wb_QueueGeneration := wb_QueueGeneration w + 1, wb_NoProgressValid := False\<rparr>"

section \<open>Policy\<close>

text \<open>\<open>io_window\<close> is the guard that also counts \<open>m_IOWindowSuppressed\<close>; the value and the counter
  update of the C++ function are two definitions.\<close>

definition policy_refuses :: "wb \<Rightarrow> u16 \<Rightarrow> bool" where
  "policy_refuses w a \<longleftrightarrow>
     wb_Mode w = SCPU_OPT_FULL
     \<or> (wb_Mode w \<noteq> SCPU_OPT_NONE \<and> wb_ExcludeZPStack w \<and> a < 0x0200)"

definition io_window :: "wb \<Rightarrow> u16 \<Rightarrow> bool" where
  "io_window w a \<longleftrightarrow> \<not> wb_RAMUnderIOAccessible w \<and> a \<ge> 0xD000 \<and> a \<le> 0xDFFF"

definition shouldMirror :: "wb \<Rightarrow> u16 \<Rightarrow> bool" where
  "shouldMirror w a \<longleftrightarrow>
     (if policy_refuses w a then False
      else if io_window w a then False
      else wb_RangeLo w \<le> a \<and> a \<le> wb_RangeHi w)"

definition countSuppressed :: "u16 \<Rightarrow> wb \<Rightarrow> wb" where
  "countSuppressed a w =
     (if \<not> policy_refuses w a \<and> io_window w a
      then on_stats (\<lambda>s. s\<lparr>st_IOWindowSuppressed := st_IOWindowSuppressed s + 1\<rparr>) w else w)"

section \<open>Relocation\<close>

definition relocating :: "wb_env \<Rightarrow> bool" where
  "relocating E = (case we_RelocCount E of Some n \<Rightarrow> n \<noteq> 0 | None \<Rightarrow> False)"

definition reloc_slot :: "u16 \<Rightarrow> nat" where
  "reloc_slot a = unat (drop_bit 6 (a - 0xC000))"

definition deliverValue :: "wb_env \<Rightarrow> u16 \<Rightarrow> u8 \<Rightarrow> u8" where
  "deliverValue E a v =
     (if relocating E \<and> a \<ge> 0xC000 \<and> a < 0xCC00 \<and> we_RelocInUse E (reloc_slot a) \<noteq> 0xFF then v
      else if relocating E \<and> a \<ge> 0xC000 \<and> (a AND 0x3FF) \<ge> 0x3F8 \<and> v \<ge> 0x40 \<and> v < 0x80
        \<and> we_PtrReloc E (unat (v - 0x40)) \<noteq> 0xFF
      then we_PtrReloc E (unat (v - 0x40))
      else v)"

definition authoritativeShadowValue :: "wb_env \<Rightarrow> (u16 \<Rightarrow> u8) \<Rightarrow> u16 \<Rightarrow> u8" where
  "authoritativeShadowValue E ram a =
     (if relocating E \<and> a \<ge> 0xC000 \<and> a < 0xCC00 \<and> we_RelocInUse E (reloc_slot a) \<noteq> 0xFF
      then ram (0xC000 + push_bit 6 (ucast (we_RelocInUse E (reloc_slot a))) + (a AND 63))
      else ram a)"

section \<open>Queueing a write\<close>

definition isPotentialVICSpritePointer :: "u16 \<Rightarrow> bool" where
  "isPotentialVICSpritePointer a \<longleftrightarrow> (a AND 0x03FF) \<ge> 0x03F8"

fun find_position :: "wb \<Rightarrow> u16 \<Rightarrow> nat \<Rightarrow> nat \<Rightarrow> nat" where
  "find_position w a 0 position = position"
| "find_position w a (Suc k) position =
     (if wb_List w ((wb_Head w + position) mod SCPU_WRITEBUF_CAPACITY) \<noteq> a
      then find_position w a k (position + 1) else position)"

fun shift_down :: "nat \<Rightarrow> nat \<Rightarrow> nat \<Rightarrow> (nat \<Rightarrow> u16) \<Rightarrow> nat \<Rightarrow> u16" where
  "shift_down head i 0 l = l"
| "shift_down head i (Suc k) l =
     shift_down head (i + 1) k
       (l((head + i) mod SCPU_WRITEBUF_CAPACITY := l ((head + i + 1) mod SCPU_WRITEBUF_CAPACITY)))"

definition moveDirtyToTail :: "u16 \<Rightarrow> wb \<Rightarrow> wb" where
  "moveDirtyToTail a w =
     (if wb_Count w < 2 then w
      else
        let position = find_position w a (wb_Count w) 0
        in if position \<ge> wb_Count w \<or> position + 1 = wb_Count w then w
           else
             let l = shift_down (wb_Head w) position (wb_Count w - 1 - position) (wb_List w)
             in w\<lparr>wb_List := l((wb_Head w + wb_Count w - 1) mod SCPU_WRITEBUF_CAPACITY := a)\<rparr>)"

text \<open>The relocation step of \<open>onRamWrite\<close>: the address to go on with, or \<open>None\<close> when the write is
  shielded.\<close>

definition relocate_write :: "wb_env \<Rightarrow> u16 \<Rightarrow> wb \<Rightarrow> u16 option \<times> wb" where
  "relocate_write E a w =
     (if relocating E then
        if a \<ge> 0xD000 then
          let r = we_PtrReloc E (unat (drop_bit 6 a AND 0x3F))
          in if a \<le> 0xDFFF \<and> r \<noteq> 0xFF then
               let a' = 0xC000 + push_bit 6 (ucast r) + (a AND 63)
               in (Some a', unsync a' (on_stats (\<lambda>s. s\<lparr>st_RelocForwarded := st_RelocForwarded s + 1\<rparr>) w))
             else (Some a, w)
        else if a \<ge> 0xC000 \<and> a < 0xCC00 \<and> we_RelocInUse E (reloc_slot a) \<noteq> 0xFF
        then (None, unsync a (on_stats (\<lambda>s. s\<lparr>st_RelocShielded := st_RelocShielded s + 1\<rparr>) w))
        else (Some a, w)
      else (Some a, w))"

definition eliminates :: "wb_env \<Rightarrow> wb \<Rightarrow> u16 \<Rightarrow> u8 \<Rightarrow> bool" where
  "eliminates E w a v =
     (case we_RAM E of None \<Rightarrow> False
      | Some ram \<Rightarrow> v = ram a \<and> \<not> isDirty w a \<and> bitmap_get (wb_Synced w) a)"

definition enqueue :: "u16 \<Rightarrow> u8 \<Rightarrow> wb \<Rightarrow> wb" where
  "enqueue a v w =
     (let w = on_stats (\<lambda>s. s\<lparr>st_WritesAccepted := st_WritesAccepted s + 1\<rparr>) w;
          w = w\<lparr>wb_PendingValue := (wb_PendingValue w)(a := v)\<rparr>
      in if isDirty w a then
           on_stats (\<lambda>s. s\<lparr>st_WritesCoalesced := st_WritesCoalesced s + 1\<rparr>)
             (if isPotentialVICSpritePointer a then moveDirtyToTail a w else w)
         else
           let w = setDirty a w
           in if wb_Count w < SCPU_WRITEBUF_CAPACITY then
                w\<lparr>wb_List := (wb_List w)((wb_Head w + wb_Count w) mod SCPU_WRITEBUF_CAPACITY := a),
                  wb_Count := wb_Count w + 1, wb_QueueGeneration := wb_QueueGeneration w + 1\<rparr>
              else w)"

definition mirror_write :: "wb_env \<Rightarrow> u16 \<Rightarrow> u8 \<Rightarrow> wb \<Rightarrow> bool \<times> wb" where
  "mirror_write E a v w =
     (if \<not> shouldMirror w a
      then (False, unsync a (on_stats (\<lambda>s. s\<lparr>st_WritesSkipped := st_WritesSkipped s + 1\<rparr>) (countSuppressed a w)))
      else if eliminates E w a v
      then (False, on_stats (\<lambda>s. s\<lparr>st_WritesEliminated := st_WritesEliminated s + 1\<rparr>) w)
      else (True, enqueue a v w))"

definition onRamWrite :: "wb_env \<Rightarrow> u16 \<Rightarrow> u8 \<Rightarrow> wb \<Rightarrow> bool \<times> wb" where
  "onRamWrite E a v w =
     (if \<not> wb_DeliveryEnabled w then
        if shouldMirror w a
        then (True, on_stats (\<lambda>s. s\<lparr>st_WritesAccepted := st_WritesAccepted s + 1\<rparr>) w)
        else (False, on_stats (\<lambda>s. s\<lparr>st_WritesSkipped := st_WritesSkipped s + 1\<rparr>) (countSuppressed a w))
      else
        case relocate_write E a w of
          (None, w) \<Rightarrow> (False, w)
        | (Some a, w) \<Rightarrow> mirror_write E a v w)"

fun invalidate_from :: "wb_env \<Rightarrow> u16 \<Rightarrow> nat \<Rightarrow> wb \<Rightarrow> wb" where
  "invalidate_from E a 0 w = w"
| "invalidate_from E a (Suc k) w =
     invalidate_from E (a + 1) k
       (snd (onRamWrite E a (case we_RAM E of Some ram \<Rightarrow> ram a | None \<Rightarrow> 0) w))"

definition invalidateRange :: "wb_env \<Rightarrow> u16 \<Rightarrow> u32 \<Rightarrow> wb \<Rightarrow> wb" where
  "invalidateRange E a len w = invalidate_from E a (unat len) w"

section \<open>Draining\<close>

definition addressInRange :: "u16 \<Rightarrow> u32 \<Rightarrow> u32 \<Rightarrow> bool" where
  "addressInRange a base len \<longleftrightarrow> base < 0x10000 \<and> len \<noteq> 0 \<and> ucast a \<ge> base \<and> ucast a - base < len"

definition pending_bits :: "wb \<Rightarrow> u32 \<Rightarrow> u32 \<Rightarrow> nat \<Rightarrow> u64" where
  "pending_bits w base stop k =
     (let first = unat (drop_bit 6 base);
          last = unat (drop_bit 6 (stop - 1));
          bits = wb_Dirty w k;
          bits = (if k = first then bits AND push_bit (unat (base AND 63)) (NOT 0) else bits)
      in if k = last \<and> stop AND 63 \<noteq> 0 then bits AND (push_bit (unat (stop AND 63)) 1 - 1) else bits)"

definition hasPendingInRange :: "wb \<Rightarrow> u32 \<Rightarrow> u32 \<Rightarrow> bool" where
  "hasPendingInRange w base len =
     (if base \<ge> 0x10000 \<or> len = 0 then False
      else
        let stop = (if base + len > 0x10000 then 0x10000 else base + len)
        in list_ex (\<lambda>k. pending_bits w base stop k \<noteq> 0)
             [unat (drop_bit 6 base) ..< unat (drop_bit 6 (stop - 1)) + 1])"

definition is_hot :: "wb_env \<Rightarrow> u16 \<Rightarrow> bool" where
  "is_hot E a =
     (case we_HotBlocks E of None \<Rightarrow> False
      | Some m \<Rightarrow> drop_bit (word_of a mod 64) (m (word_of a div 64)) AND 1 \<noteq> 0)"

text \<open>One selection of \<open>flushSelectedChunk\<close>: which addresses it takes.\<close>

record selection =
  sel_deferHot :: bool
  sel_displayBase :: u32
  sel_displayLen :: u32
  sel_displayOnly :: bool
  sel_displayBase2 :: u32
  sel_displayLen2 :: u32

definition takes :: "wb_env \<Rightarrow> selection \<Rightarrow> u16 \<Rightarrow> bool" where
  "takes E sel a =
     (let inDisplay = addressInRange a (sel_displayBase sel) (sel_displayLen sel)
            \<or> addressInRange a (sel_displayBase2 sel) (sel_displayLen2 sel);
          hot = sel_deferHot sel \<and> is_hot E a
      in if sel_displayOnly sel then inDisplay else \<not> inDisplay \<and> \<not> hot)"

text \<open>The scan: the number of entries left to examine, the budget, and what is returned: the selected
  addresses in order, the number examined, and the ring afterwards.\<close>

fun scan :: "(u16 \<Rightarrow> bool) \<Rightarrow> nat \<Rightarrow> nat \<Rightarrow> wb \<Rightarrow> u16 list \<times> nat \<times> wb" where
  "scan T 0 budget w = ([], 0, w)"
| "scan T (Suc k) budget w =
     (if budget = 0 \<or> wb_Count w = 0 then ([], 0, w)
      else
        let a = wb_List w (wb_Head w);
            next = (wb_Head w + 1) mod SCPU_WRITEBUF_CAPACITY
        in if \<not> T a then
             let (as, n, w') = scan T k budget
               (w\<lparr>wb_List := (wb_List w)((wb_Head w + wb_Count w) mod SCPU_WRITEBUF_CAPACITY := a),
                  wb_Head := next\<rparr>)
             in (as, n + 1, w')
           else
             let (as, n, w') = scan T k (budget - 1) (w\<lparr>wb_Head := next, wb_Count := wb_Count w - 1\<rparr>)
             in (a # as, n + 1, w'))"

definition mark_delivered :: "u16 \<Rightarrow> wb \<Rightarrow> wb" where
  "mark_delivered a w =
     w\<lparr>wb_Dirty := bitmap_clear a (wb_Dirty w), wb_Synced := bitmap_set a (wb_Synced w)\<rparr>"

definition burst_of :: "wb_env \<Rightarrow> wb \<Rightarrow> u16 list \<Rightarrow> C64BusWrite list" where
  "burst_of E w as = map (\<lambda>a. (a, deliverValue E a (wb_PendingValue w a))) as"

definition flushSelectedChunk ::
    "'h ic64_bus \<Rightarrow> wb_env \<Rightarrow> nat \<Rightarrow> selection \<Rightarrow> wb \<times> 'h \<Rightarrow> nat \<times> wb \<times> 'h" where
  "flushSelectedChunk B E maxBytes sel = (\<lambda>(w, h).
     if wb_Count w = 0 \<or> maxBytes = 0 \<or> \<not> wb_Bus w then (0, w, h)
     else
       let (as, examined, w') = scan (takes E sel) (wb_Count w) (min maxBytes SCPU_WRITEBUF_CHUNK) w;
           w' = on_stats (\<lambda>s. s\<lparr>st_PolicyEntriesExamined := st_PolicyEntriesExamined s + of_nat examined\<rparr>) w'
       in if as = [] then (0, w', h)
          else (length as,
                (fold mark_delivered as w')\<lparr>wb_QueueGeneration := wb_QueueGeneration w' + 1,
                                            wb_NoProgressValid := False\<rparr>,
                cb_writeBurst B (burst_of E w as) h))"

definition canCacheNoProgress :: "wb_env \<Rightarrow> bool \<Rightarrow> bool" where
  "canCacheNoProgress E deferHot \<longleftrightarrow> \<not> deferHot \<or> we_HotBlocks E = None \<or> we_HotBlocksGeneration E \<noteq> None"

definition noProgressCacheMatches :: "wb_env \<Rightarrow> bool \<Rightarrow> u32 \<Rightarrow> u32 \<Rightarrow> wb \<Rightarrow> bool" where
  "noProgressCacheMatches E deferHot screenBase bitmapBase w =
     (if \<not> wb_NoProgressValid w \<or> wb_NoProgressQueueGeneration w \<noteq> wb_QueueGeneration w
         \<or> wb_NoProgressDeferHot w \<noteq> deferHot \<or> wb_NoProgressScreenBase w \<noteq> screenBase
         \<or> wb_NoProgressBitmapBase w \<noteq> bitmapBase
      then False
      else \<not> deferHot \<or> we_HotBlocks E = None
        \<or> (case we_HotBlocksGeneration E of Some g \<Rightarrow> wb_NoProgressHotGeneration w = g | None \<Rightarrow> False))"

definition rememberNoProgress :: "wb_env \<Rightarrow> bool \<Rightarrow> u32 \<Rightarrow> u32 \<Rightarrow> wb \<Rightarrow> wb" where
  "rememberNoProgress E deferHot screenBase bitmapBase w =
     (if \<not> canCacheNoProgress E deferHot then w
      else w\<lparr>wb_NoProgressDeferHot := deferHot, wb_NoProgressQueueGeneration := wb_QueueGeneration w,
             wb_NoProgressHotGeneration := (case we_HotBlocksGeneration E of Some g \<Rightarrow> g | None \<Rightarrow> 0),
             wb_NoProgressScreenBase := screenBase, wb_NoProgressBitmapBase := bitmapBase,
             wb_NoProgressValid := True\<rparr>)"

text \<open>The drain loops. Each round sends at least one byte or leaves, so the budget bounds the rounds.\<close>

definition policy_selection :: "bool \<Rightarrow> u32 \<Rightarrow> u32 \<Rightarrow> selection" where
  "policy_selection deferHot screenBase bitmapBase =
     \<lparr> sel_deferHot = deferHot, sel_displayBase = screenBase, sel_displayLen = 1000, sel_displayOnly = False,
       sel_displayBase2 = bitmapBase, sel_displayLen2 = 8000 \<rparr>"

definition range_selection :: "u32 \<Rightarrow> u32 \<Rightarrow> selection" where
  "range_selection base len =
     \<lparr> sel_deferHot = False, sel_displayBase = base, sel_displayLen = len, sel_displayOnly = True,
       sel_displayBase2 = NO_REGION, sel_displayLen2 = 0 \<rparr>"

function policy_loop ::
    "'h ic64_bus \<Rightarrow> wb_env \<Rightarrow> bool \<Rightarrow> u32 \<Rightarrow> u32 \<Rightarrow> nat \<Rightarrow> nat \<Rightarrow> wb \<times> 'h \<Rightarrow> nat \<times> wb \<times> 'h" where
  "policy_loop B E deferHot screenBase bitmapBase maxBytes sent (w, h) =
     (if wb_Count w > 0 \<and> sent < maxBytes then
        let (n, w, h) = flushSelectedChunk B E (maxBytes - sent) (policy_selection deferHot screenBase bitmapBase) (w, h)
        in if n = 0 then
             (sent, rememberNoProgress E deferHot screenBase bitmapBase
                (on_stats (\<lambda>s. s\<lparr>st_PolicyZeroProgressScans := st_PolicyZeroProgressScans s + 1\<rparr>) w), h)
           else policy_loop B E deferHot screenBase bitmapBase maxBytes (sent + n) (w, h)
      else (sent, w, h))"
  by pat_completeness auto
termination
  by (relation "measure (\<lambda>(B, E, deferHot, screenBase, bitmapBase, maxBytes, sent, s). maxBytes - sent)") auto

definition count_flush :: "nat \<Rightarrow> wb \<Rightarrow> wb" where
  "count_flush sent w =
     on_stats (\<lambda>s. s\<lparr>st_BytesFlushed := st_BytesFlushed s + of_nat sent,
                     st_Flushes := (if sent \<noteq> 0 then st_Flushes s + 1 else st_Flushes s)\<rparr>) w"

definition flushUpToPolicy ::
    "'h ic64_bus \<Rightarrow> wb_env \<Rightarrow> nat \<Rightarrow> bool \<Rightarrow> u32 \<Rightarrow> u32 \<Rightarrow> wb \<times> 'h \<Rightarrow> nat \<times> wb \<times> 'h" where
  "flushUpToPolicy B E maxBytes deferHot screenBase bitmapBase = (\<lambda>(w, h).
     if wb_Count w = 0 \<or> maxBytes = 0 then (wb_Count w, w, h)
     else if noProgressCacheMatches E deferHot screenBase bitmapBase w
     then (wb_Count w, on_stats (\<lambda>s. s\<lparr>st_PolicyNoProgressCacheHits := st_PolicyNoProgressCacheHits s + 1\<rparr>) w, h)
     else if \<not> wb_Bus w
     then (0, (clearDirty w)\<lparr>wb_Count := 0, wb_Head := 0, wb_QueueGeneration := wb_QueueGeneration w + 1,
                             wb_NoProgressValid := False\<rparr>, h)
     else
       let (sent, w, h) = policy_loop B E deferHot screenBase bitmapBase maxBytes 0 (w, h);
           w = count_flush sent w
       in (wb_Count w, w, h))"

definition flushUpTo :: "'h ic64_bus \<Rightarrow> wb_env \<Rightarrow> nat \<Rightarrow> wb \<times> 'h \<Rightarrow> nat \<times> wb \<times> 'h" where
  "flushUpTo B E maxBytes = flushUpToPolicy B E maxBytes False NO_REGION NO_REGION"

function range_loop ::
    "'h ic64_bus \<Rightarrow> wb_env \<Rightarrow> u32 \<Rightarrow> u32 \<Rightarrow> nat \<Rightarrow> nat \<Rightarrow> wb \<times> 'h \<Rightarrow> nat \<times> wb \<times> 'h" where
  "range_loop B E base len maxBytes sent (w, h) =
     (if wb_Count w > 0 \<and> sent < maxBytes \<and> hasPendingInRange w base len then
        let (n, w, h) = flushSelectedChunk B E (maxBytes - sent) (range_selection base len) (w, h)
        in if n = 0 then (sent, w, h) else range_loop B E base len maxBytes (sent + n) (w, h)
      else (sent, w, h))"
  by pat_completeness auto
termination
  by (relation "measure (\<lambda>(B, E, base, len, maxBytes, sent, s). maxBytes - sent)") auto

definition flushRangeUpTo ::
    "'h ic64_bus \<Rightarrow> wb_env \<Rightarrow> u32 \<Rightarrow> u32 \<Rightarrow> nat \<Rightarrow> wb \<times> 'h \<Rightarrow> nat \<times> wb \<times> 'h" where
  "flushRangeUpTo B E base len maxBytes = (\<lambda>(w, h).
     if wb_Count w = 0 \<or> maxBytes = 0 \<or> \<not> hasPendingInRange w base len then (wb_Count w, w, h)
     else
       let (sent, w, h) = range_loop B E base len maxBytes 0 (w, h);
           w = count_flush sent w
       in (wb_Count w, w, h))"

text \<open>\<open>flush\<close> loops until a round leaves nothing; not returning is \<open>None\<close>.\<close>

partial_function (option) wb_flush :: "'h ic64_bus \<Rightarrow> wb_env \<Rightarrow> wb \<times> 'h \<Rightarrow> (wb \<times> 'h) option" where
  "wb_flush B E s =
     (let (left, s) = flushUpTo B E (SCPU_WRITEBUF_CHUNK * 8) s
      in if left > 0 then wb_flush B E s else Some s)"

end
