(* ===== verification/WriteBufferRing.thy ===== *)
theory WriteBufferRing
  imports WriteBuffer
begin

text \<open>
  The ring and the two bitmaps of the write buffer. The bitmaps implement sets of addresses (the
  locale \<open>address_set\<close>, interpreted on the shifts and masks of the source); the ring implements a
  list (\<open>queue\<close>), on which appending, taking the head, rotating and moving an entry to the tail are
  the list operations one expects; and the queue invariant \<open>wb_inv\<close> ties both together: the ring
  holds exactly the dirty addresses, each once. Every operation of the buffer preserves it. One chunk
  of a drain (\<open>chunk_spec\<close>) is a rotating selection on the queue.
\<close>

unbundle bit_operations_syntax

section \<open>The bitmaps are sets of addresses\<close>

locale address_set =
  fixes member :: "'m \<Rightarrow> u16 \<Rightarrow> bool" and insert_into remove_from :: "u16 \<Rightarrow> 'm \<Rightarrow> 'm" and none :: 'm
  assumes member_insert: "member (insert_into a m) b \<longleftrightarrow> b = a \<or> member m b"
    and member_remove: "member (remove_from a m) b \<longleftrightarrow> b \<noteq> a \<and> member m b"
    and member_none: "\<not> member none b"
begin

lemma member_fold_insert: "member (fold insert_into as m) b \<longleftrightarrow> b \<in> set as \<or> member m b"
  by (induction as arbitrary: m) (auto simp: member_insert)

lemma member_fold_remove: "member (fold remove_from as m) b \<longleftrightarrow> b \<notin> set as \<and> member m b"
  by (induction as arbitrary: m) (auto simp: member_remove)

end

lemma bit_of_less: "bit_of a < 64"
proof -
  have "unat (a AND 63) = take_bit 6 (unat a)"
  proof -
    have "(63 :: u16) = mask 6" by (simp add: mask_eq_exp_minus_1)
    then show ?thesis by (simp only: take_bit_eq_mask [symmetric] unsigned_take_bit_eq)
  qed
  then show ?thesis unfolding bit_of_def using take_bit_nat_less_exp [of 6 "unat a"] by simp
qed

lemma unat_split_64: "unat a = 64 * word_of a + bit_of a"
proof -
  have m: "(63 :: u16) = mask 6" by (simp add: mask_eq_exp_minus_1)
  have "bit_of a = unat a mod 64"
    unfolding bit_of_def m take_bit_eq_mask [symmetric] unsigned_take_bit_eq by (simp add: take_bit_eq_mod)
  moreover have "word_of a = unat a div 64"
    unfolding word_of_def unsigned_drop_bit_eq using unsigned_less [of a, where ?'a = nat]
    by (simp add: drop_bit_eq_div take_bit_eq_mod)
  ultimately show ?thesis by simp
qed

lemma address_eq_iff: "a = b \<longleftrightarrow> word_of a = word_of b \<and> bit_of a = bit_of b"
  by (metis unat_split_64 unsigned_word_eqI)

lemma bitmap_get_bit: "bitmap_get m a = bit (m (word_of a)) (bit_of a)"
  by (simp add: bitmap_get_def bit_iff_odd_drop_bit and_one_eq odd_iff_mod_2_eq_one)

interpretation bitmap: address_set bitmap_get bitmap_set bitmap_clear "\<lambda>_. 0"
proof unfold_locales
  fix a b :: u16 and m :: "nat \<Rightarrow> u64"
  have l: "bit_of b < 64" by (rule bit_of_less)
  show "bitmap_get (bitmap_set a m) b \<longleftrightarrow> b = a \<or> bitmap_get m b"
    using l by (auto simp: bitmap_get_bit bitmap_set_def address_eq_iff [of b] bit_simps)
  show "bitmap_get (bitmap_clear a m) b \<longleftrightarrow> b \<noteq> a \<and> bitmap_get m b"
    using l by (auto simp: bitmap_get_bit bitmap_clear_def address_eq_iff [of b] bit_simps)
  show "\<not> bitmap_get (\<lambda>_. 0) b" by (simp add: bitmap_get_bit)
qed

lemmas bitmap_simps [simp] = bitmap.member_insert bitmap.member_remove bitmap.member_none
  bitmap.member_fold_insert bitmap.member_fold_remove

section \<open>The ring\<close>

definition queue :: "wb \<Rightarrow> u16 list" where
  "queue w = map (\<lambda>i. wb_List w ((wb_Head w + i) mod SCPU_WRITEBUF_CAPACITY)) [0..<wb_Count w]"

definition ring_ok :: "wb \<Rightarrow> bool" where
  "ring_ok w \<longleftrightarrow> wb_Head w < SCPU_WRITEBUF_CAPACITY \<and> wb_Count w \<le> SCPU_WRITEBUF_CAPACITY"

lemma length_queue [simp]: "length (queue w) = wb_Count w"
  by (simp add: queue_def)

lemma nth_queue: "i < wb_Count w \<Longrightarrow> queue w ! i = wb_List w ((wb_Head w + i) mod SCPU_WRITEBUF_CAPACITY)"
  by (simp add: queue_def)

lemma queue_empty: "queue w = [] \<longleftrightarrow> wb_Count w = 0"
  by (metis length_0_conv length_queue)

lemma slot_inj: "(head + i) mod SCPU_WRITEBUF_CAPACITY = (head + j) mod SCPU_WRITEBUF_CAPACITY
    \<Longrightarrow> i < SCPU_WRITEBUF_CAPACITY \<Longrightarrow> j < SCPU_WRITEBUF_CAPACITY \<Longrightarrow> i = j"
  by (metis add_mod_cancel_left mod_less)

lemma queue_cong: "wb_List w' = wb_List w \<Longrightarrow> wb_Head w' = wb_Head w \<Longrightarrow> wb_Count w' = wb_Count w \<Longrightarrow> queue w' = queue w"
  by (simp add: queue_def)

lemma ring_append:
  assumes "wb_Count w < SCPU_WRITEBUF_CAPACITY"
    "wb_List w' = (wb_List w)((wb_Head w + wb_Count w) mod SCPU_WRITEBUF_CAPACITY := a)"
    "wb_Head w' = wb_Head w" "wb_Count w' = wb_Count w + 1"
  shows "queue w' = queue w @ [a]"
proof -
  have "wb_List w' ((wb_Head w + i) mod SCPU_WRITEBUF_CAPACITY) = wb_List w ((wb_Head w + i) mod SCPU_WRITEBUF_CAPACITY)"
    if "i < wb_Count w" for i
    using slot_inj [of "wb_Head w" i "wb_Count w"] that assms(1) by (auto simp: assms(2))
  then show ?thesis using assms by (simp add: queue_def)
qed

lemma ring_pop:
  assumes "wb_Count w \<noteq> 0" "wb_Head w < SCPU_WRITEBUF_CAPACITY" "wb_List w' = wb_List w"
    "wb_Head w' = (wb_Head w + 1) mod SCPU_WRITEBUF_CAPACITY" "wb_Count w' = wb_Count w - 1"
  shows "queue w = wb_List w (wb_Head w) # queue w'"
proof (rule nth_equalityI)
  show "length (queue w) = length (wb_List w (wb_Head w) # queue w')" using assms by simp
  fix i assume i: "i < length (queue w)"
  then show "queue w ! i = (wb_List w (wb_Head w) # queue w') ! i"
  proof (cases i)
    case 0 then show ?thesis using i assms by (simp add: nth_queue)
  next
    case (Suc j)
    then have "j < wb_Count w'" using i assms by simp
    have e: "(wb_Head w' + j) mod SCPU_WRITEBUF_CAPACITY = (wb_Head w + i) mod SCPU_WRITEBUF_CAPACITY"
      by (simp add: assms(4) Suc mod_add_left_eq)
    have "i < wb_Count w" using i by simp
    then show ?thesis using \<open>j < wb_Count w'\<close> by (simp add: nth_queue e Suc) (simp only: assms(3) e Suc add_Suc_right)
  qed
qed

lemma ring_rotate:
  assumes "wb_Count w \<noteq> 0" "ring_ok w"
    "wb_List w' = (wb_List w)((wb_Head w + wb_Count w) mod SCPU_WRITEBUF_CAPACITY := wb_List w (wb_Head w))"
    "wb_Head w' = (wb_Head w + 1) mod SCPU_WRITEBUF_CAPACITY" "wb_Count w' = wb_Count w"
  shows "queue w' = tl (queue w) @ [wb_List w (wb_Head w)]"
proof (rule nth_equalityI)
  show "length (queue w') = length (tl (queue w) @ [wb_List w (wb_Head w)])" using assms by simp
  fix i assume "i < length (queue w')"
  then have i: "i < wb_Count w" using assms by simp
  have e: "(wb_Head w' + i) mod SCPU_WRITEBUF_CAPACITY = (wb_Head w + Suc i) mod SCPU_WRITEBUF_CAPACITY"
    by (simp add: assms(4) mod_add_left_eq)
  show "queue w' ! i = (tl (queue w) @ [wb_List w (wb_Head w)]) ! i"
  proof (cases "Suc i = wb_Count w")
    case True
    then have "\<not> i < length (tl (queue w))" "i - length (tl (queue w)) = 0" by simp_all
    then show ?thesis using i assms(5) True by (simp only: nth_queue e nth_append if_False nth_Cons_0) (simp add: assms(3))
  next
    case False
    then have "Suc i < wb_Count w" using i by simp
    moreover from this have "(wb_Head w + Suc i) mod SCPU_WRITEBUF_CAPACITY \<noteq> (wb_Head w + wb_Count w) mod SCPU_WRITEBUF_CAPACITY"
    proof (cases "wb_Count w = SCPU_WRITEBUF_CAPACITY")
      case True
      then have "(wb_Head w + wb_Count w) mod SCPU_WRITEBUF_CAPACITY = (wb_Head w + 0) mod SCPU_WRITEBUF_CAPACITY" by simp
      then show ?thesis using slot_inj [of "wb_Head w" "Suc i" 0] \<open>Suc i < wb_Count w\<close> True
        by (metis not_less_zero less_Suc_eq_0_disj nat.distinct(1) SCPU_WRITEBUF_CAPACITY_def zero_less_numeral)
    next
      case full: False
      then show ?thesis using slot_inj [of "wb_Head w" "Suc i" "wb_Count w"] \<open>Suc i < wb_Count w\<close> assms(2)
        by (auto simp: ring_ok_def)
    qed
    moreover from calculation(1) have "i < length (tl (queue w))" by simp
    ultimately show ?thesis using i assms(5) by (simp only: nth_queue e nth_append nth_tl if_True length_queue) (simp add: assms(3))
  qed
qed

section \<open>Rotating selection on lists\<close>

fun pick :: "('a \<Rightarrow> bool) \<Rightarrow> nat \<Rightarrow> nat \<Rightarrow> 'a list \<Rightarrow> 'a list \<times> nat \<times> 'a list" where
  "pick T 0 budget q = ([], 0, q)"
| "pick T (Suc k) budget q =
     (if budget = 0 \<or> q = [] then ([], 0, q)
      else if \<not> T (hd q) then (let (as, n, q') = pick T k budget (tl q @ [hd q]) in (as, n + 1, q'))
      else (let (as, n, q') = pick T k (budget - 1) (tl q) in (hd q # as, n + 1, q')))"

text \<open>Starting from an unexamined part \<open>p\<close> and a part \<open>d\<close> of deferred entries, the scan examines a
  prefix \<open>p1\<close> of \<open>p\<close>: it returns the selected entries of \<open>p1\<close> in order and leaves the rest of \<open>p\<close>,
  then \<open>d\<close>, then the deferred entries of \<open>p1\<close>. It stops early only with its budget spent.\<close>

lemma pick_split:
  "\<exists>p1 p2. p = p1 @ p2 \<and> pick T (length p) budget (p @ d) = (filter T p1, length p1, p2 @ d @ filter (\<lambda>a. \<not> T a) p1)
     \<and> length (filter T p1) \<le> budget \<and> (length (filter T p1) = budget \<or> p2 = [])"
proof (induction p arbitrary: budget d)
  case Nil then show ?case by simp
next
  case (Cons a p)
  show ?case
  proof (cases "budget = 0")
    case True then show ?thesis by (intro exI [of _ "[]"] exI [of _ "a # p"]) simp
  next
    case False
    show ?thesis
    proof (cases "T a")
      case True
      from Cons.IH [of "budget - 1" d] obtain p1 p2 where
        "p = p1 @ p2" "pick T (length p) (budget - 1) (p @ d) = (filter T p1, length p1, p2 @ d @ filter (\<lambda>a. \<not> T a) p1)"
        "length (filter T p1) \<le> budget - 1" "length (filter T p1) = budget - 1 \<or> p2 = []" by blast
      then show ?thesis using True False by (intro exI [of _ "a # p1"] exI [of _ p2]) auto
    next
      case no: False
      from Cons.IH [of budget "d @ [a]"] obtain p1 p2 where
        "p = p1 @ p2" "pick T (length p) budget (p @ d @ [a]) = (filter T p1, length p1, p2 @ (d @ [a]) @ filter (\<lambda>a. \<not> T a) p1)"
        "length (filter T p1) \<le> budget" "length (filter T p1) = budget \<or> p2 = []" by (elim exE conjE) (rule that; simp)
      then show ?thesis using no False by (intro exI [of _ "a # p1"] exI [of _ p2]) auto
    qed
  qed
qed

text \<open>The scan of the ring is that selection on its queue; nothing but the ring changes.\<close>

lemma scan_pick:
  assumes "ring_ok w" "scan T k budget w = (as, n, w')" "pick T k budget (queue w) = (bs, m, q')"
  shows "as = bs \<and> n = m \<and> queue w' = q' \<and> ring_ok w'
    \<and> w' = w\<lparr>wb_List := wb_List w', wb_Head := wb_Head w', wb_Count := wb_Count w'\<rparr>"
  using assms
proof (induction k arbitrary: w budget as n w' bs m q')
  case 0 then show ?case by simp
next
  case (Suc k)
  show ?case
  proof (cases "budget = 0 \<or> wb_Count w = 0")
    case True then show ?thesis using Suc.prems by (auto simp: queue_empty [symmetric])
  next
    case False
    define a where "a = wb_List w (wb_Head w)"
    define nx where "nx = (wb_Head w + 1) mod SCPU_WRITEBUF_CAPACITY"
    define wr where "wr = w\<lparr>wb_List := (wb_List w)((wb_Head w + wb_Count w) mod SCPU_WRITEBUF_CAPACITY := a), wb_Head := nx\<rparr>"
    define wp where "wp = w\<lparr>wb_Head := nx, wb_Count := wb_Count w - 1\<rparr>"
    have ring: "wb_Head w < SCPU_WRITEBUF_CAPACITY" "nx < SCPU_WRITEBUF_CAPACITY"
      using Suc.prems(1) by (simp_all add: ring_ok_def nx_def SCPU_WRITEBUF_CAPACITY_def)
    have pop: "queue w = a # queue wp"
      unfolding a_def by (rule ring_pop) (use False ring in \<open>simp_all add: wp_def nx_def\<close>)
    have rot: "queue wr = tl (queue w) @ [a]"
      unfolding a_def by (rule ring_rotate) (use False Suc.prems(1) in \<open>simp_all add: wr_def nx_def a_def\<close>)
    have ok: "ring_ok wr" "ring_ok wp" using Suc.prems(1) ring by (simp_all add: ring_ok_def wr_def wp_def)
    have hd: "hd (queue w) = a" "tl (queue w) = queue wp" "queue w \<noteq> []" using pop by simp_all
    show ?thesis
    proof (cases "T a")
      case True
      obtain as1 n1 w1 where s: "scan T k (budget - 1) wp = (as1, n1, w1)" by (metis prod_cases3)
      obtain bs1 m1 q1 where p: "pick T k (budget - 1) (queue wp) = (bs1, m1, q1)" by (metis prod_cases3)
      have "scan T (Suc k) budget w = (case scan T k (budget - 1) wp of (as, n, w') \<Rightarrow> (a # as, n + 1, w'))"
        using False True by (simp add: a_def nx_def wp_def Let_def)
      then have "as = a # as1" "n = n1 + 1" "w' = w1"
        using Suc.prems(2) s by simp_all
      moreover have "bs = a # bs1" "m = m1 + 1" "q' = q1"
        using Suc.prems(3) False True hd p by (simp_all add: Let_def)
      ultimately show ?thesis using Suc.IH [OF ok(2) s p] by (simp add: wp_def)
    next
      case no: False
      obtain as1 n1 w1 where s: "scan T k budget wr = (as1, n1, w1)" by (metis prod_cases3)
      obtain bs1 m1 q1 where p: "pick T k budget (queue wr) = (bs1, m1, q1)" by (metis prod_cases3)
      have "scan T (Suc k) budget w = (case scan T k budget wr of (as, n, w') \<Rightarrow> (as, n + 1, w'))"
        using False no by (simp add: a_def nx_def wr_def Let_def)
      then have "as = as1" "n = n1 + 1" "w' = w1"
        using Suc.prems(2) s by simp_all
      moreover have "bs = bs1" "m = m1 + 1" "q' = q1"
        using Suc.prems(3) False no hd p rot by (simp_all add: Let_def)
      ultimately show ?thesis using Suc.IH [OF ok(1) s p] by (simp add: wr_def)
    qed
  qed
qed

section \<open>Moving an entry to the tail\<close>

lemma find_position_bounds: "p \<le> find_position w a k p" "find_position w a k p \<le> p + k"
proof (induction k arbitrary: p)
  case (Suc k)
  { case 1 show ?case using Suc(1) [of "p + 1"] by simp }
  { case 2 show ?case using Suc(2) [of "p + 1"] by simp }
qed simp_all

lemma find_position_before:
  "p \<le> j \<Longrightarrow> j < find_position w a k p \<Longrightarrow> wb_List w ((wb_Head w + j) mod SCPU_WRITEBUF_CAPACITY) \<noteq> a"
proof (induction k arbitrary: p)
  case (Suc k)
  show ?case using Suc.IH [of "p + 1"] Suc.prems by (cases "j = p") (auto split: if_splits)
qed simp

lemma find_position_found:
  "find_position w a k p < p + k \<Longrightarrow> wb_List w ((wb_Head w + find_position w a k p) mod SCPU_WRITEBUF_CAPACITY) = a"
proof (induction k arbitrary: p)
  case (Suc k)
  show ?case using Suc.IH [of "p + 1"] Suc.prems by (auto split: if_splits)
qed simp

lemma shift_down_spec:
  assumes "i + k < SCPU_WRITEBUF_CAPACITY" "j < SCPU_WRITEBUF_CAPACITY"
  shows "shift_down head i k l ((head + j) mod SCPU_WRITEBUF_CAPACITY)
    = (if i \<le> j \<and> j < i + k then l ((head + j + 1) mod SCPU_WRITEBUF_CAPACITY)
       else l ((head + j) mod SCPU_WRITEBUF_CAPACITY))"
  using assms(1)
proof (induction k arbitrary: i l)
  case 0 then show ?case by auto
next
  case (Suc k)
  define l' where "l' = l((head + i) mod SCPU_WRITEBUF_CAPACITY := l ((head + i + 1) mod SCPU_WRITEBUF_CAPACITY))"
  have at: "l' ((head + x) mod SCPU_WRITEBUF_CAPACITY)
      = (if x = i then l ((head + i + 1) mod SCPU_WRITEBUF_CAPACITY) else l ((head + x) mod SCPU_WRITEBUF_CAPACITY))"
    if "x < SCPU_WRITEBUF_CAPACITY" for x
    using slot_inj [of head x i] that Suc.prems by (auto simp: l'_def)
  have "shift_down head i (Suc k) l ((head + j) mod SCPU_WRITEBUF_CAPACITY)
      = shift_down head (i + 1) k l' ((head + j) mod SCPU_WRITEBUF_CAPACITY)"
    by (simp add: l'_def)
  also have "\<dots> = (if i + 1 \<le> j \<and> j < i + 1 + k then l' ((head + (j + 1)) mod SCPU_WRITEBUF_CAPACITY)
       else l' ((head + j) mod SCPU_WRITEBUF_CAPACITY))"
    using Suc.IH [of "i + 1" l'] Suc.prems by simp
  finally have IH: "shift_down head i (Suc k) l ((head + j) mod SCPU_WRITEBUF_CAPACITY) = \<dots>" .
  show ?case
  proof (cases "i + 1 \<le> j \<and> j < i + 1 + k")
    case True
    then have "j + 1 < SCPU_WRITEBUF_CAPACITY" "j + 1 \<noteq> i" "i \<le> j" "j < i + Suc k" using Suc.prems by simp_all
    then show ?thesis unfolding IH using at [of "j + 1"] True by (simp only: if_True simp_thms if_False add.assoc)
  next
    case False
    then have "(i \<le> j \<and> j < i + Suc k) = (j = i)" by auto
    then show ?thesis unfolding IH using at [of j] assms(2) False by (cases "j = i") (simp_all only: if_True simp_thms if_False)
  qed
qed

lemma distinct_move:
  assumes "distinct q" "p < length q" "q ! p = a"
  shows "take p q @ drop (Suc p) q = filter (\<lambda>b. b \<noteq> a) q"
proof -
  have q: "q = take p q @ a # drop (Suc p) q" using assms(2,3) id_take_nth_drop by blast
  then have "distinct (take p q @ a # drop (Suc p) q)" using assms(1) by simp
  then have "filter (\<lambda>b. b \<noteq> a) (take p q @ a # drop (Suc p) q) = take p q @ drop (Suc p) q"
    by (simp, intro arg_cong2 [where f = append] filter_True ballI) auto
  then show ?thesis using q by simp
qed

lemma move_frame:
  "moveDirtyToTail a w = w\<lparr>wb_List := wb_List (moveDirtyToTail a w)\<rparr>"
  by (simp add: moveDirtyToTail_def Let_def)

lemma move_frame_simps [simp]:
  "wb_Head (moveDirtyToTail a w) = wb_Head w" "wb_Count (moveDirtyToTail a w) = wb_Count w"
  "wb_Dirty (moveDirtyToTail a w) = wb_Dirty w" "wb_Synced (moveDirtyToTail a w) = wb_Synced w"
  "wb_PendingValue (moveDirtyToTail a w) = wb_PendingValue w"
  "wb_QueueGeneration (moveDirtyToTail a w) = wb_QueueGeneration w"
  "wb_Stats (moveDirtyToTail a w) = wb_Stats w"
  by (subst move_frame, simp)+

lemma queue_move:
  assumes "ring_ok w" "distinct (queue w)" "a \<in> set (queue w)"
  shows "queue (moveDirtyToTail a w) = filter (\<lambda>b. b \<noteq> a) (queue w) @ [a]"
proof -
  define c where "c = wb_Count w"
  define p where "p = find_position w a c 0"
  have len: "length (queue w) = c" by (simp add: c_def)
  obtain i where i: "i < c" "queue w ! i = a" using assms(3) by (metis in_set_conv_nth len)
  have p: "p < c"
  proof (rule ccontr)
    assume "\<not> p < c"
    then have "wb_List w ((wb_Head w + i) mod SCPU_WRITEBUF_CAPACITY) \<noteq> a"
      using find_position_before [of 0 i w a c] i(1) by (simp add: p_def)
    then show False using i by (simp add: nth_queue c_def)
  qed
  then have at: "queue w ! p = a" using find_position_found [of w a c 0] by (simp add: p_def nth_queue c_def)
  note move = distinct_move [OF assms(2), of p a, unfolded len, OF p at]
  show ?thesis
  proof (cases "p + 1 = c")
    case True
    then have "moveDirtyToTail a w = w" by (simp add: moveDirtyToTail_def Let_def c_def [symmetric] p_def [symmetric])
    moreover have "queue w = take p (queue w) @ [a]"
      using id_take_nth_drop [of p "queue w"] p at True len by simp
    ultimately show ?thesis using move True len by simp
  next
    case False
    then have two: "\<not> c < 2" "p + 1 < c" using p by simp_all
    have cap: "c \<le> SCPU_WRITEBUF_CAPACITY" using assms(1) by (simp add: ring_ok_def c_def)
    define l where "l = shift_down (wb_Head w) p (c - 1 - p) (wb_List w)"
    have w': "moveDirtyToTail a w = w\<lparr>wb_List := l((wb_Head w + c - 1) mod SCPU_WRITEBUF_CAPACITY := a)\<rparr>"
      using two False by (simp add: moveDirtyToTail_def Let_def c_def [symmetric] p_def [symmetric] l_def)
    have q': "queue (moveDirtyToTail a w) = take p (queue w) @ drop (Suc p) (queue w) @ [a]"
    proof (rule nth_equalityI)
      show "length (queue (moveDirtyToTail a w)) = length (take p (queue w) @ drop (Suc p) (queue w) @ [a])"
        using p len c_def by simp
      fix j assume "j < length (queue (moveDirtyToTail a w))"
      then have j: "j < c" by (simp add: c_def)
      have slot: "queue (moveDirtyToTail a w) ! j
          = (if j = c - 1 then a else l ((wb_Head w + j) mod SCPU_WRITEBUF_CAPACITY))"
      proof -
        have "(wb_Head w + j) mod SCPU_WRITEBUF_CAPACITY = (wb_Head w + c - 1) mod SCPU_WRITEBUF_CAPACITY \<longleftrightarrow> j = c - 1"
          using slot_inj [of "wb_Head w" j "c - 1"] j cap two by auto
        then show ?thesis using j by (simp add: nth_queue c_def w')
      qed
      have lj: "l ((wb_Head w + j) mod SCPU_WRITEBUF_CAPACITY)
          = (if p \<le> j then queue w ! (j + 1) else queue w ! j)" if "j < c - 1"
        using shift_down_spec [of p "c - 1 - p" j "wb_Head w" "wb_List w"] that two cap j
        by (simp add: l_def nth_queue c_def)
      show "queue (moveDirtyToTail a w) ! j = (take p (queue w) @ drop (Suc p) (queue w) @ [a]) ! j"
      proof (cases "j = c - 1")
        case True
        then have "\<not> j < length (take p (queue w))" "\<not> j - p < length (drop (Suc p) (queue w))"
          "j - p - length (drop (Suc p) (queue w)) = 0" "length (take p (queue w)) = p" using two p len by simp_all
        then show ?thesis using slot True by (simp only: nth_append if_True if_False nth_Cons_0 simp_thms)
      next
        case False
        then have j1: "j < c - 1" using j by simp
        show ?thesis
        proof (cases "p \<le> j")
          case True
          then have "\<not> j < p" "j - p < c - Suc p" "Suc p + (j - p) = j + 1" using j1 by arith+
          then show ?thesis using slot lj [OF j1] True p len False by (simp add: nth_append)
        next
          case before: False
          then show ?thesis using slot lj [OF j1] p len False by (simp add: nth_append)
        qed
      qed
    qed
    show ?thesis using q' move by simp
  qed
qed

section \<open>The queue invariant\<close>

lemma queue_stats [simp]: "queue (w\<lparr>wb_Stats := s\<rparr>) = queue w"
  by (simp add: queue_def)

definition wb_inv :: "wb \<Rightarrow> bool" where
  "wb_inv w \<longleftrightarrow> ring_ok w \<and> distinct (queue w) \<and> (\<forall>a. isDirty w a \<longleftrightarrow> a \<in> set (queue w))"

lemma wb_inv_cong:
  "wb_inv w \<Longrightarrow> wb_List w' = wb_List w \<Longrightarrow> wb_Head w' = wb_Head w \<Longrightarrow> wb_Count w' = wb_Count w
    \<Longrightarrow> wb_Dirty w' = wb_Dirty w \<Longrightarrow> wb_inv w'"
  by (simp add: wb_inv_def ring_ok_def isDirty_def queue_def)

lemma card_addresses: "CARD(16 word) = SCPU_WRITEBUF_CAPACITY"
  by (simp add: card_word SCPU_WRITEBUF_CAPACITY_def)

text \<open>The capacity test of \<open>onRamWrite\<close> never fails: a clean address leaves a free slot.\<close>

lemma room_for_clean:
  assumes "wb_inv w" "\<not> isDirty w a"
  shows "wb_Count w < SCPU_WRITEBUF_CAPACITY"
proof -
  have "a \<notin> set (queue w)" "distinct (queue w)" using assms by (simp_all add: wb_inv_def)
  then have "card (set (queue w)) < CARD(16 word)"
    by (intro psubset_card_mono) auto
  then show ?thesis using \<open>distinct (queue w)\<close> by (simp add: distinct_card card_addresses)
qed

lemma inv_empty: "wb_Dirty w = (\<lambda>_. 0) \<Longrightarrow> wb_Count w = 0 \<Longrightarrow> wb_Head w = 0 \<Longrightarrow> wb_inv w"
  by (simp add: wb_inv_def ring_ok_def isDirty_def queue_def SCPU_WRITEBUF_CAPACITY_def)

text \<open>What \<open>enqueue\<close> does to the queue and the pending values.\<close>

definition queue_add :: "u16 \<Rightarrow> u16 list \<Rightarrow> u16 list" where
  "queue_add a q =
     (if a \<notin> set q then q @ [a]
      else if isPotentialVICSpritePointer a then filter (\<lambda>b. b \<noteq> a) q @ [a] else q)"

lemma enqueue_frame [simp]:
  "wb_Synced (enqueue a v w) = wb_Synced w" "wb_Bus (enqueue a v w) = wb_Bus w"
  "wb_Mode (enqueue a v w) = wb_Mode w" "wb_PendingValue (enqueue a v w) = (wb_PendingValue w)(a := v)"
  by (simp_all add: enqueue_def Let_def setDirty_def) (subst move_frame, simp)+

lemma enqueue_spec:
  assumes "wb_inv w"
  shows "queue (enqueue a v w) = queue_add a (queue w) \<and> wb_inv (enqueue a v w)
    \<and> (\<forall>b. isDirty (enqueue a v w) b \<longleftrightarrow> b = a \<or> isDirty w b)"
proof (cases "isDirty w a")
  case True
  define w1 where "w1 = on_stats (\<lambda>s. s\<lparr>st_WritesAccepted := st_WritesAccepted s + 1\<rparr>) w\<lparr>wb_PendingValue := (wb_PendingValue w)(a := v)\<rparr>"
  define w2 where "w2 = (if isPotentialVICSpritePointer a then moveDirtyToTail a w1 else w1)"
  have inv1: "wb_inv w1" and q1: "queue w1 = queue w"
    using assms by (auto simp: w1_def intro: wb_inv_cong queue_cong)
  have mem: "a \<in> set (queue w1)" "distinct (queue w1)" "ring_ok w1"
    using True assms inv1 q1 by (auto simp: wb_inv_def)
  have e: "enqueue a v w = on_stats (\<lambda>s. s\<lparr>st_WritesCoalesced := st_WritesCoalesced s + 1\<rparr>) w2"
    using True by (simp add: enqueue_def Let_def w2_def w1_def isDirty_def)
  have q2: "queue w2 = queue_add a (queue w)"
    using queue_move [OF mem(3,2,1)] mem(1) q1 by (simp add: w2_def queue_add_def)
  have d2: "wb_Dirty w2 = wb_Dirty w" by (simp add: w2_def w1_def)
  have "wb_inv w2"
    using inv1 mem q2 q1 by (auto simp: wb_inv_def ring_ok_def isDirty_def w2_def queue_add_def)
  then show ?thesis using e q2 d2 True
    by (auto simp: isDirty_def intro: wb_inv_cong queue_cong)
next
  case False
  have room: "wb_Count w < SCPU_WRITEBUF_CAPACITY" by (rule room_for_clean [OF assms False])
  have q: "queue (enqueue a v w) = queue w @ [a]"
    by (rule ring_append) (use room False in \<open>simp_all add: enqueue_def Let_def setDirty_def isDirty_def\<close>)
  have d: "isDirty (enqueue a v w) b \<longleftrightarrow> b = a \<or> isDirty w b" for b
    using room False by (simp add: enqueue_def Let_def setDirty_def isDirty_def)
  have r: "wb_Head (enqueue a v w) = wb_Head w" "wb_Count (enqueue a v w) = wb_Count w + 1"
    using room False by (simp_all add: enqueue_def Let_def setDirty_def isDirty_def)
  show ?thesis
    using assms False room by (auto simp: q d r wb_inv_def ring_ok_def queue_add_def)
qed

lemma inv_stats [simp]: "wb_inv (w\<lparr>wb_Stats := s\<rparr>) = wb_inv w"
  by (simp add: wb_inv_def ring_ok_def isDirty_def)

lemma inv_synced [simp]: "wb_inv (w\<lparr>wb_Synced := s\<rparr>) = wb_inv w"
  by (simp add: wb_inv_def ring_ok_def isDirty_def queue_def)

lemma queue_synced [simp]: "queue (w\<lparr>wb_Synced := s\<rparr>) = queue w"
  by (simp add: queue_def)

lemma suppressed_frame [simp]:
  "queue (countSuppressed a w) = queue w" "wb_inv (countSuppressed a w) = wb_inv w"
  "wb_Synced (countSuppressed a w) = wb_Synced w" "wb_Dirty (countSuppressed a w) = wb_Dirty w"
  "wb_PendingValue (countSuppressed a w) = wb_PendingValue w"
  by (simp_all add: countSuppressed_def)

lemma mirror_write_inv: "wb_inv w \<Longrightarrow> wb_inv (snd (mirror_write E a v w))"
  using enqueue_spec [of w a v] by (simp add: mirror_write_def unsync_def)

lemma onRamWrite_inv: "wb_inv w \<Longrightarrow> wb_inv (snd (onRamWrite E a v w))"
  by (auto simp: onRamWrite_def relocate_write_def Let_def unsync_def intro!: mirror_write_inv)

lemma invalidate_inv: "wb_inv w \<Longrightarrow> wb_inv (invalidate_from E a k w)"
  by (induction k arbitrary: a w) (auto intro: onRamWrite_inv)

section \<open>One chunk\<close>

lemma fold_mark:
  "fold mark_delivered as w
    = w\<lparr>wb_Dirty := fold bitmap_clear as (wb_Dirty w), wb_Synced := fold bitmap_set as (wb_Synced w)\<rparr>"
  by (induction as arbitrary: w) (simp_all add: mark_delivered_def)

lemma chunk_spec:
  assumes inv: "wb_inv w" and go: "wb_Count w \<noteq> 0" "m \<noteq> 0" "wb_Bus w"
    and run: "flushSelectedChunk B E m sel (w, h) = (n, w', h')"
  obtains p1 p2 as where "queue w = p1 @ p2" "as = filter (takes E sel) p1" "n = length as"
    "queue w' = p2 @ filter (\<lambda>a. \<not> takes E sel a) p1" "n \<le> min m SCPU_WRITEBUF_CHUNK"
    "n = min m SCPU_WRITEBUF_CHUNK \<or> p2 = []" "wb_inv w'"
    "\<forall>b. isDirty w' b = (b \<notin> set as \<and> isDirty w b)"
    "\<forall>b. bitmap_get (wb_Synced w') b = (b \<in> set as \<or> bitmap_get (wb_Synced w) b)"
    "wb_PendingValue w' = wb_PendingValue w" "wb_Bus w'"
    "h' = (if as = [] then h else cb_writeBurst B (burst_of E w as) h)"
    "wb_NoProgressValid w' = (wb_NoProgressValid w \<and> as = [])"
    "as = [] \<longrightarrow> wb_QueueGeneration w' = wb_QueueGeneration w \<and> wb_NoProgressDeferHot w' = wb_NoProgressDeferHot w
      \<and> wb_NoProgressQueueGeneration w' = wb_NoProgressQueueGeneration w
      \<and> wb_NoProgressHotGeneration w' = wb_NoProgressHotGeneration w
      \<and> wb_NoProgressScreenBase w' = wb_NoProgressScreenBase w \<and> wb_NoProgressBitmapBase w' = wb_NoProgressBitmapBase w"
proof -
  define T where "T = takes E sel"
  define bud where "bud = min m SCPU_WRITEBUF_CHUNK"
  have ok: "ring_ok w" "distinct (queue w)" using inv by (simp_all add: wb_inv_def)
  obtain as ex ws where s: "scan T (wb_Count w) bud w = (as, ex, ws)" by (metis prod_cases3)
  from pick_split [of "queue w" T bud "[]", unfolded length_queue append_Nil2 append_Nil] obtain p1 p2 where p:
    "queue w = p1 @ p2" "pick T (wb_Count w) bud (queue w) = (filter T p1, length p1, p2 @ filter (\<lambda>a. \<not> T a) p1)"
    "length (filter T p1) \<le> bud" "length (filter T p1) = bud \<or> p2 = []"
    by (elim exE conjE) (rule that)
  note sp = scan_pick [OF ok(1) s p(2)]
  have as: "as = filter T p1" and q: "queue ws = p2 @ filter (\<lambda>a. \<not> T a) p1" and ring: "ring_ok ws"
    and frame: "ws = w\<lparr>wb_List := wb_List ws, wb_Head := wb_Head ws, wb_Count := wb_Count ws\<rparr>"
    using sp by blast+
  have fr: "wb_Dirty ws = wb_Dirty w" "wb_Synced ws = wb_Synced w" "wb_PendingValue ws = wb_PendingValue w"
    "wb_Bus ws = wb_Bus w" "wb_NoProgressValid ws = wb_NoProgressValid w" "wb_QueueGeneration ws = wb_QueueGeneration w"
    "wb_NoProgressDeferHot ws = wb_NoProgressDeferHot w" "wb_NoProgressQueueGeneration ws = wb_NoProgressQueueGeneration w"
    "wb_NoProgressHotGeneration ws = wb_NoProgressHotGeneration w"
    "wb_NoProgressScreenBase ws = wb_NoProgressScreenBase w" "wb_NoProgressBitmapBase ws = wb_NoProgressBitmapBase w"
    by (subst frame, simp)+
  define st where "st = (wb_Stats ws)\<lparr>st_PolicyEntriesExamined := st_PolicyEntriesExamined (wb_Stats ws) + of_nat ex\<rparr>"
  have run': "(n, w', h') = (if as = [] then (0, ws\<lparr>wb_Stats := st\<rparr>, h)
      else (length as, (ws\<lparr>wb_Stats := st, wb_Dirty := fold bitmap_clear as (wb_Dirty w), wb_Synced := fold bitmap_set as (wb_Synced w)\<rparr>)
              \<lparr>wb_QueueGeneration := wb_QueueGeneration w + 1, wb_NoProgressValid := False\<rparr>,
            cb_writeBurst B (burst_of E w as) h))"
    using run go s by (simp add: flushSelectedChunk_def T_def bud_def Let_def fold_mark fr st_def split: if_splits)
  have n: "n = length as" using run' by (simp split: if_splits)
  have dirty: "isDirty w' b = (b \<notin> set as \<and> isDirty w b)" for b
    using run' by (auto simp: isDirty_def fr split: if_splits)
  have queue': "queue w' = queue ws" and ring': "ring_ok w'"
    using run' ring by (auto simp: queue_def ring_ok_def split: if_splits)
  have sub: "set as = {a \<in> set p1. T a}" by (auto simp: as)
  have "wb_inv w'"
    using inv ring' ok(2) p(1) unfolding wb_inv_def queue' q dirty sub by auto
  moreover have "bitmap_get (wb_Synced w') b = (b \<in> set as \<or> bitmap_get (wb_Synced w) b)" for b
    using run' by (auto simp: fr split: if_splits)
  moreover have "wb_PendingValue w' = wb_PendingValue w" "wb_Bus w'" "h' = (if as = [] then h else cb_writeBurst B (burst_of E w as) h)"
    "wb_NoProgressValid w' = (wb_NoProgressValid w \<and> as = [])"
    "as = [] \<longrightarrow> wb_QueueGeneration w' = wb_QueueGeneration w \<and> wb_NoProgressDeferHot w' = wb_NoProgressDeferHot w
      \<and> wb_NoProgressQueueGeneration w' = wb_NoProgressQueueGeneration w
      \<and> wb_NoProgressHotGeneration w' = wb_NoProgressHotGeneration w
      \<and> wb_NoProgressScreenBase w' = wb_NoProgressScreenBase w \<and> wb_NoProgressBitmapBase w' = wb_NoProgressBitmapBase w"
    using run' go by (auto simp: fr split: if_splits)
  moreover have "as = filter (takes E sel) p1" using as by (simp add: T_def)
  moreover have "queue w' = p2 @ filter (\<lambda>a. \<not> takes E sel a) p1" using q queue' by (simp add: T_def)
  moreover have "n \<le> min m SCPU_WRITEBUF_CHUNK" "n = min m SCPU_WRITEBUF_CHUNK \<or> p2 = []"
    using p(3,4) n as by (simp_all add: bud_def)
  ultimately show thesis using p(1) n dirty by (intro that [of p1 p2 as]) simp_all
qed

lemma chunk_idle: "wb_Count w = 0 \<or> m = 0 \<or> \<not> wb_Bus w \<Longrightarrow> flushSelectedChunk B E m sel (w, h) = (0, w, h)"
  by (simp add: flushSelectedChunk_def)

lemma chunk_inv:
  assumes "wb_inv w" "flushSelectedChunk B E m sel (w, h) = (n, w', h')"
  shows "wb_inv w'"
proof (cases "wb_Count w = 0 \<or> m = 0 \<or> \<not> wb_Bus w")
  case True then show ?thesis using assms chunk_idle [OF True, of B E sel h] by simp
next
  case False
  then have "wb_Count w \<noteq> 0" "m \<noteq> 0" "wb_Bus w" by simp_all
  from chunk_spec [OF assms(1) this assms(2)] show ?thesis .
qed

lemma remember_frame [simp]:
  "queue (rememberNoProgress E d s b w) = queue w" "wb_inv (rememberNoProgress E d s b w) = wb_inv w"
  "wb_Dirty (rememberNoProgress E d s b w) = wb_Dirty w" "wb_Synced (rememberNoProgress E d s b w) = wb_Synced w"
  "wb_PendingValue (rememberNoProgress E d s b w) = wb_PendingValue w" "wb_Count (rememberNoProgress E d s b w) = wb_Count w"
  "wb_Bus (rememberNoProgress E d s b w) = wb_Bus w"
  by (simp_all add: rememberNoProgress_def queue_def wb_inv_def ring_ok_def isDirty_def)

lemma policy_loop_stop:
  "\<not> (wb_Count w > 0 \<and> sent < m) \<Longrightarrow> policy_loop B E d sb bb m sent (w, h) = (sent, w, h)"
  by (subst policy_loop.simps) (simp only: if_False)

lemma policy_loop_step:
  assumes "wb_Count w > 0" "sent < m"
    "flushSelectedChunk B E (m - sent) (policy_selection d sb bb) (w, h) = (n, w', h')"
  shows "policy_loop B E d sb bb m sent (w, h)
    = (if n = 0 then (sent, rememberNoProgress E d sb bb
         (on_stats (\<lambda>s. s\<lparr>st_PolicyZeroProgressScans := st_PolicyZeroProgressScans s + 1\<rparr>) w'), h')
       else policy_loop B E d sb bb m (sent + n) (w', h'))"
  using assms by (subst policy_loop.simps) (simp add: Let_def)

lemma range_loop_stop:
  "\<not> (wb_Count w > 0 \<and> sent < m \<and> hasPendingInRange w base len) \<Longrightarrow> range_loop B E base len m sent (w, h) = (sent, w, h)"
  by (subst range_loop.simps) (simp only: if_False)

lemma range_loop_step:
  assumes "wb_Count w > 0" "sent < m" "hasPendingInRange w base len"
    "flushSelectedChunk B E (m - sent) (range_selection base len) (w, h) = (n, w', h')"
  shows "range_loop B E base len m sent (w, h)
    = (if n = 0 then (sent, w', h') else range_loop B E base len m (sent + n) (w', h'))"
  using assms by (subst range_loop.simps) (simp add: Let_def)

declare policy_loop.simps [simp del] range_loop.simps [simp del]

lemma policy_loop_inv:
  "wb_inv w \<Longrightarrow> wb_inv (fst (snd (policy_loop B E d sb bb m sent (w, h))))"
proof (induction B E d sb bb m sent "(w, h)" arbitrary: w h rule: policy_loop.induct)
  case (1 B E d sb bb m sent w h)
  show ?case
  proof (cases "wb_Count w > 0 \<and> sent < m")
    case True
    obtain n w1 h1 where c: "flushSelectedChunk B E (m - sent) (policy_selection d sb bb) (w, h) = (n, w1, h1)"
      by (metis prod_cases3)
    have "wb_inv w1" using chunk_inv [OF 1(2) c] .
    then show ?thesis
      using 1(1) [OF True c [symmetric] refl] True by (simp add: policy_loop_step [OF _ _ c])
  next
    case False then show ?thesis using 1(2) by (simp add: policy_loop_stop)
  qed
qed

lemma range_loop_inv:
  "wb_inv w \<Longrightarrow> wb_inv (fst (snd (range_loop B E base len m sent (w, h))))"
proof (induction B E base len m sent "(w, h)" arbitrary: w h rule: range_loop.induct)
  case (1 B E base len m sent w h)
  show ?case
  proof (cases "wb_Count w > 0 \<and> sent < m \<and> hasPendingInRange w base len")
    case True
    obtain n w1 h1 where c: "flushSelectedChunk B E (m - sent) (range_selection base len) (w, h) = (n, w1, h1)"
      by (metis prod_cases3)
    have "wb_inv w1" using chunk_inv [OF 1(2) c] .
    then show ?thesis
      using 1(1) [OF True c [symmetric] refl] True by (simp add: range_loop_step [OF _ _ _ c])
  next
    case False then show ?thesis using 1(2) unfolding range_loop_stop [OF False] by simp
  qed
qed

end
