(* ===== verification/WriteBufferResync.thy ===== *)
theory WriteBufferResync
  imports WriteBufferRing
begin

text \<open>
  Re-delivery of clean bytes: \<open>resyncSweep\<close> and \<open>resyncDisplayed\<close> of
  \<open>Source/SuperCPU/write_buffer.cpp\<close>, and what they leave alone. \<open>core_view\<close> is the part of the
  buffer that no re-delivery touches: the queue, the dirty map and the pending values.
\<close>

unbundle bit_operations_syntax

section \<open>The background sweep\<close>

definition mark_synced :: "u16 \<Rightarrow> wb \<Rightarrow> wb" where
  "mark_synced a w = w\<lparr>wb_Synced := bitmap_set a (wb_Synced w)\<rparr>"

fun sweep_loop :: "wb_env \<Rightarrow> (u16 \<Rightarrow> u8) \<Rightarrow> nat \<Rightarrow> nat \<Rightarrow> nat \<Rightarrow> wb \<Rightarrow> C64BusWrite list \<times> wb" where
  "sweep_loop E ram maxBytes 0 n w = ([], w)"
| "sweep_loop E ram maxBytes (Suc guard) n w =
     (if n < maxBytes then
        let a = wb_ResyncCursor w;
            w = w\<lparr>wb_ResyncCursor := if a = wb_RangeHi w then wb_RangeLo w else a + 1\<rparr>;
            ok = shouldMirror w a;
            w = countSuppressed a w
        in if \<not> ok \<or> isDirty w a then sweep_loop E ram maxBytes guard n w
           else
             let b = (a, deliverValue E a (authoritativeShadowValue E ram a));
                 w = mark_synced a w
             in if n + 1 = SCPU_WRITEBUF_CHUNK then ([b], w)
                else let (bs, w) = sweep_loop E ram maxBytes guard (n + 1) w in (b # bs, w)
      else ([], w))"

definition resyncSweep :: "'h ic64_bus \<Rightarrow> wb_env \<Rightarrow> nat \<Rightarrow> wb \<times> 'h \<Rightarrow> wb \<times> 'h" where
  "resyncSweep B E maxBytes = (\<lambda>(w, h).
     case we_RAM E of
       None \<Rightarrow> (w, h)
     | Some ram \<Rightarrow>
         if \<not> wb_Bus w \<or> maxBytes = 0 then (w, h)
         else
           let (burst, w) = sweep_loop E ram maxBytes 0x10000 0 w
           in if burst = [] then (w, h)
              else (on_stats (\<lambda>s. s\<lparr>st_BytesResynced := st_BytesResynced s + of_nat (length burst)\<rparr>) w,
                    cb_writeBurst B burst h))"

section \<open>The display scrub\<close>

datatype scrub_region = REGION_MATRIX | REGION_GRAPHICS | REGION_SPRITES

definition hot_blocks :: "wb_env \<Rightarrow> nat list" where
  "hot_blocks E =
     (case we_HotBlocks E of None \<Rightarrow> []
      | Some m \<Rightarrow> take 8 (filter (\<lambda>block. drop_bit (block mod 64) (m (block div 64)) AND 1 \<noteq> 0) [0..<1024]))"

definition scrub_address :: "scrub_region \<Rightarrow> u32 \<Rightarrow> nat list \<Rightarrow> u16 \<Rightarrow> u16" where
  "scrub_address region base blocks off =
     (if region = REGION_SPRITES
      then of_nat (64 * (blocks ! (unat off div 64)) + unat off mod 64)
      else ucast (base + ucast off))"

definition next_offset :: "u32 \<Rightarrow> u16 \<Rightarrow> u16" where
  "next_offset len off = ucast ((ucast off + 1) mod len)"

definition count_sample :: "nat \<Rightarrow> bool \<Rightarrow> wb \<Rightarrow> wb" where
  "count_sample mode mismatch w =
     on_stats (\<lambda>s. s\<lparr>st_DisplayScrubSampled := (st_DisplayScrubSampled s)(mode := st_DisplayScrubSampled s mode + 1),
                     st_DisplayScrubMismatches :=
                       (if mismatch then (st_DisplayScrubMismatches s)(mode := st_DisplayScrubMismatches s mode + 1)
                        else st_DisplayScrubMismatches s)\<rparr>) w"

text \<open>The loop runs over the offsets of the region (\<open>at\<close> gives the address of one); \<open>k\<close> is
  \<open>length - inspected\<close>, \<open>budget\<close> is \<open>maxBytes - candidates\<close>.\<close>

fun scrub_loop ::
    "'h ic64_bus \<Rightarrow> wb_env \<Rightarrow> (u16 \<Rightarrow> u8) \<Rightarrow> bool \<Rightarrow> bool \<Rightarrow> bool \<Rightarrow> nat \<Rightarrow> u32 \<Rightarrow> (u16 \<Rightarrow> u16)
      \<Rightarrow> nat \<Rightarrow> nat \<Rightarrow> u16 \<Rightarrow> wb \<times> 'h \<Rightarrow> u16 \<times> C64BusWrite list \<times> wb \<times> 'h" where
  "scrub_loop B E ram masked repair sample mode len at 0 budget off (w, h) = (off, [], w, h)"
| "scrub_loop B E ram masked repair sample mode len at (Suc k) budget off (w, h) =
     (if budget = 0 then (off, [], w, h)
      else
        let a = at off; off = next_offset len off
        in if masked \<and> (a AND 0x000A) \<noteq> 0x0008
           then scrub_loop B E ram masked repair sample mode len at k budget off (w, h)
           else
             let ok = shouldMirror w a; w = countSuppressed a w
             in if \<not> ok \<or> isDirty w a
                then scrub_loop B E ram masked repair sample mode len at k budget off (w, h)
                else
                  let expected = deliverValue E a (authoritativeShadowValue E ram a);
                      (w, h) = (if sample then let (actual, h) = cb_readRAM B a h in (count_sample mode (actual \<noteq> expected) w, h)
                                else (w, h))
                  in if \<not> repair \<or> isDirty w a
                     then scrub_loop B E ram masked repair sample mode len at k (budget - 1) off (w, h)
                     else let (off, bs, s) = scrub_loop B E ram masked repair sample mode len at k (budget - 1) off (mark_synced a w, h)
                          in (off, (a, expected) # bs, s))"

definition scrub_track :: "u32 \<Rightarrow> u32 \<Rightarrow> u32 \<Rightarrow> wb \<Rightarrow> wb" where
  "scrub_track screenBase graphicsBase graphicsLength w =
     (let w = (if screenBase \<noteq> wb_DisplayScrubScreenBase w
               then w\<lparr>wb_DisplayScrubScreenBase := screenBase, wb_DisplayScrubScreenOffset := 0\<rparr> else w)
      in if graphicsBase \<noteq> wb_DisplayScrubGraphicsBase w \<or> graphicsLength \<noteq> wb_DisplayScrubGraphicsLength w
         then w\<lparr>wb_DisplayScrubGraphicsBase := graphicsBase, wb_DisplayScrubGraphicsLength := graphicsLength,
                wb_DisplayScrubGraphicsOffset := 0\<rparr>
         else w)"

definition scrub_graphicsLength :: "u32 \<Rightarrow> u32 \<Rightarrow> u32" where
  "scrub_graphicsLength graphicsBase len =
     (if graphicsBase \<ge> 0x10000 then 0 else if len \<noteq> 2048 \<and> len \<noteq> 8192 then 0 else len)"

definition scrub_offset :: "scrub_region \<Rightarrow> wb \<Rightarrow> u16" where
  "scrub_offset region w =
     (case region of REGION_MATRIX \<Rightarrow> wb_DisplayScrubScreenOffset w
      | REGION_GRAPHICS \<Rightarrow> wb_DisplayScrubGraphicsOffset w
      | REGION_SPRITES \<Rightarrow> wb_DisplayScrubSpriteOffset w)"

definition set_scrub_offset :: "scrub_region \<Rightarrow> u16 \<Rightarrow> wb \<Rightarrow> wb" where
  "set_scrub_offset region off w =
     (case region of REGION_MATRIX \<Rightarrow> w\<lparr>wb_DisplayScrubScreenOffset := off\<rparr>
      | REGION_GRAPHICS \<Rightarrow> w\<lparr>wb_DisplayScrubGraphicsOffset := off\<rparr>
      | REGION_SPRITES \<Rightarrow> w\<lparr>wb_DisplayScrubSpriteOffset := off\<rparr>)"

definition count_scrub :: "scrub_region \<Rightarrow> u32 \<Rightarrow> nat \<Rightarrow> wb \<Rightarrow> wb" where
  "count_scrub region graphicsLength n w =
     on_stats (\<lambda>s. let s = s\<lparr>st_DisplayScrubBytes := st_DisplayScrubBytes s + of_nat n\<rparr> in
       if region = REGION_MATRIX then s\<lparr>st_DisplayScrubMatrixBytes := st_DisplayScrubMatrixBytes s + of_nat n\<rparr>
       else if region = REGION_SPRITES then s\<lparr>st_DisplayScrubSpriteBytes := st_DisplayScrubSpriteBytes s + of_nat n\<rparr>
       else if graphicsLength = 8192 then s\<lparr>st_DisplayScrubBitmapBytes := st_DisplayScrubBitmapBytes s + of_nat n\<rparr>
       else s\<lparr>st_DisplayScrubCharsetBytes := st_DisplayScrubCharsetBytes s + of_nat n\<rparr>) w"

definition resyncDisplayed ::
    "'h ic64_bus \<Rightarrow> wb_env \<Rightarrow> u32 \<Rightarrow> u32 \<Rightarrow> u32 \<Rightarrow> nat \<Rightarrow> bool \<Rightarrow> bool \<Rightarrow> bool \<Rightarrow> wb \<times> 'h \<Rightarrow> nat \<times> wb \<times> 'h" where
  "resyncDisplayed B E screenBase graphicsBase graphicsLength maxBytes masked repair sample = (\<lambda>(w, h).
     case we_RAM E of
       None \<Rightarrow> (0, w, h)
     | Some ram \<Rightarrow>
         if \<not> wb_Bus w \<or> maxBytes = 0 then (0, w, h)
         else
           let maxBytes = min maxBytes SCPU_WRITEBUF_CHUNK;
               glen = scrub_graphicsLength graphicsBase graphicsLength;
               w = scrub_track screenBase graphicsBase glen w;
               blocks = hot_blocks E;
               screenSlots = (if screenBase < 0x10000 then 1 else 0);
               graphicsSlots = unat glen div 1024;
               spriteSlots = (if blocks \<noteq> [] then 1 else 0);
               totalSlots = screenSlots + graphicsSlots + spriteSlots
           in if totalSlots = 0 then (0, w, h)
              else
                let w = (if unat (wb_DisplayScrubTurn w) \<ge> totalSlots then w\<lparr>wb_DisplayScrubTurn := 0\<rparr> else w);
                    turn = unat (wb_DisplayScrubTurn w);
                    region = (if turn < screenSlots then REGION_MATRIX
                              else if turn < screenSlots + graphicsSlots then REGION_GRAPHICS else REGION_SPRITES);
                    base = (case region of REGION_MATRIX \<Rightarrow> screenBase | REGION_GRAPHICS \<Rightarrow> graphicsBase | REGION_SPRITES \<Rightarrow> 0);
                    len = (case region of REGION_MATRIX \<Rightarrow> 1024 | REGION_GRAPHICS \<Rightarrow> glen
                           | REGION_SPRITES \<Rightarrow> of_nat (length blocks * 64));
                    off = (if region = REGION_SPRITES \<and> unat (scrub_offset region w) \<ge> unat len then 0 else scrub_offset region w);
                    mode = (if glen = 8192 then 1 else 0);
                    (off, burst, w, h) =
                      scrub_loop B E ram masked repair sample mode len (scrub_address region base blocks)
                        (unat len) maxBytes off (w, h);
                    w = set_scrub_offset region off w;
                    w = w\<lparr>wb_DisplayScrubTurn := of_nat ((turn + 1) mod totalSlots)\<rparr>
                in if burst = [] then (0, w, h)
                   else (length burst, count_scrub region glen (length burst) w, cb_writeBurst B burst h))"

section \<open>The re-delivery loops touch only clean addresses\<close>

text \<open>Both loops leave the queue and the pending values alone, deliver the authoritative shadow value
  of clean, mirrored addresses, and mark exactly those synced.\<close>

text \<open>The projection of the buffer that these loops read and keep.\<close>

definition core_view :: "wb \<Rightarrow> _" where
  "core_view w = (wb_List w, wb_Head w, wb_Count w, wb_Dirty w, wb_PendingValue w, wb_Bus w, wb_QueueGeneration w,
     wb_NoProgressValid w, wb_NoProgressDeferHot w, wb_NoProgressQueueGeneration w, wb_NoProgressHotGeneration w,
     wb_NoProgressScreenBase w, wb_NoProgressBitmapBase w)"

lemma core_view_facts:
  assumes "core_view w' = core_view w"
  shows "queue w' = queue w" "wb_Dirty w' = wb_Dirty w" "wb_PendingValue w' = wb_PendingValue w"
     "wb_inv w' = wb_inv w" "wb_Bus w' = wb_Bus w" "wb_Count w' = wb_Count w"
     "wb_QueueGeneration w' = wb_QueueGeneration w" "wb_NoProgressValid w' = wb_NoProgressValid w"
     "wb_NoProgressDeferHot w' = wb_NoProgressDeferHot w" "wb_NoProgressQueueGeneration w' = wb_NoProgressQueueGeneration w"
     "wb_NoProgressHotGeneration w' = wb_NoProgressHotGeneration w"
     "wb_NoProgressScreenBase w' = wb_NoProgressScreenBase w" "wb_NoProgressBitmapBase w' = wb_NoProgressBitmapBase w"
  using assms by (simp_all add: core_view_def queue_def wb_inv_def ring_ok_def isDirty_def)

lemma core_view_steps [simp]:
  "core_view (countSuppressed a w) = core_view w" "core_view (mark_synced a w) = core_view w"
  "core_view (w\<lparr>wb_ResyncCursor := c\<rparr>) = core_view w" "core_view (w\<lparr>wb_Stats := s\<rparr>) = core_view w"
  "core_view (count_sample m b w) = core_view w" "core_view (set_scrub_offset region off w) = core_view w"
  "core_view (w\<lparr>wb_DisplayScrubTurn := t\<rparr>) = core_view w" "core_view (scrub_track sb g l w) = core_view w"
  "core_view (count_scrub region len n w) = core_view w"
  by (simp_all add: core_view_def countSuppressed_def mark_synced_def count_sample_def set_scrub_offset_def
      scrub_track_def count_scrub_def Let_def split: scrub_region.split)

lemma synced_steps [simp]:
  "wb_Synced (mark_synced a w) = bitmap_set a (wb_Synced w)" "wb_Synced (count_sample m b w) = wb_Synced w"
  "wb_Synced (set_scrub_offset region off w) = wb_Synced w" "wb_Synced (scrub_track s g l w) = wb_Synced w"
  "wb_Synced (count_scrub region len n w) = wb_Synced w"
  by (simp_all add: mark_synced_def count_sample_def set_scrub_offset_def scrub_track_def count_scrub_def Let_def
      split: scrub_region.split)

lemma isDirty_view: "core_view w' = core_view w \<Longrightarrow> isDirty w' a = isDirty w a"
  by (simp add: isDirty_def core_view_def)

lemma sweep_loop_spec:
  assumes "sweep_loop E ram m guard n w = (bs, w')"
  shows "\<exists>as. bs = map (\<lambda>a. (a, deliverValue E a (authoritativeShadowValue E ram a))) as \<and> (\<forall>a \<in> set as. \<not> isDirty w a)
    \<and> (\<forall>b. bitmap_get (wb_Synced w') b = (b \<in> set as \<or> bitmap_get (wb_Synced w) b)) \<and> core_view w' = core_view w"
  using assms
proof (induction guard arbitrary: n w bs w')
  case 0 then show ?case by (intro exI [of _ "[]"]) simp
next
  case (Suc guard)
  define a where "a = wb_ResyncCursor w"
  define w1 where "w1 = countSuppressed a (w\<lparr>wb_ResyncCursor := if a = wb_RangeHi w then wb_RangeLo w else a + 1\<rparr>)"
  define ok where "ok = shouldMirror (w\<lparr>wb_ResyncCursor := if a = wb_RangeHi w then wb_RangeLo w else a + 1\<rparr>) a"
  have view: "core_view w1 = core_view w" "wb_Synced w1 = wb_Synced w" by (simp_all add: w1_def)
  note dirty = isDirty_view [OF view(1)]
  have run: "sweep_loop E ram m (Suc guard) n w =
     (if n < m then if \<not> ok \<or> isDirty w1 a then sweep_loop E ram m guard n w1
        else if n + 1 = SCPU_WRITEBUF_CHUNK then ([(a, deliverValue E a (authoritativeShadowValue E ram a))], mark_synced a w1)
        else let (bs, w) = sweep_loop E ram m guard (n + 1) (mark_synced a w1)
             in ((a, deliverValue E a (authoritativeShadowValue E ram a)) # bs, w)
      else ([], w))"
    unfolding sweep_loop.simps(2) Let_def a_def w1_def ok_def by (rule refl)
  consider (stop) "\<not> n < m" | (skip) "n < m" "\<not> ok \<or> isDirty w1 a" | (last) "n < m" "ok" "\<not> isDirty w1 a" "n + 1 = SCPU_WRITEBUF_CHUNK"
    | (step) "n < m" "ok" "\<not> isDirty w1 a" "n + 1 \<noteq> SCPU_WRITEBUF_CHUNK" by blast
  then show ?case
  proof cases
    case stop then show ?thesis using Suc.prems run by (intro exI [of _ "[]"]) simp
  next
    case skip
    then have "sweep_loop E ram m guard n w1 = (bs, w')" using Suc.prems run by (simp only: if_True)
    from Suc.IH [OF this] show ?thesis unfolding view dirty .
  next
    case last then show ?thesis using Suc.prems run by (intro exI [of _ "[a]"]) (auto simp: view dirty)
  next
    case step
    obtain bs1 w2 where s: "sweep_loop E ram m guard (n + 1) (mark_synced a w1) = (bs1, w2)" by fastforce
    have e: "bs = (a, deliverValue E a (authoritativeShadowValue E ram a)) # bs1" "w' = w2"
      using Suc.prems run step s by simp_all
    have d1: "isDirty (mark_synced a w1) b = isDirty w b" for b
      by (rule isDirty_view) (simp add: view)
    from Suc.IH [OF s] obtain as where
      "bs1 = map (\<lambda>a. (a, deliverValue E a (authoritativeShadowValue E ram a))) as" "\<forall>a \<in> set as. \<not> isDirty w a"
      "\<forall>b. bitmap_get (wb_Synced w2) b = (b \<in> set as \<or> bitmap_get (wb_Synced (mark_synced a w1)) b)" "core_view w2 = core_view w"
      unfolding d1 by (auto simp: view)
    then show ?thesis using step e by (intro exI [of _ "a # as"]) (auto simp: view dirty)
  qed
qed

lemma scrub_loop_spec:
  assumes "scrub_loop B E ram masked repair sample mode len at k budget off (w, h) = (off', bs, w', h')"
  shows "(\<exists>as. bs = map (\<lambda>a. (a, deliverValue E a (authoritativeShadowValue E ram a))) as \<and> (\<forall>a \<in> set as. \<not> isDirty w a)
    \<and> (\<forall>b. bitmap_get (wb_Synced w') b = (b \<in> set as \<or> bitmap_get (wb_Synced w) b)) \<and> core_view w' = core_view w)
    \<and> (c64_dram B dram \<longrightarrow> dram h' = dram h) \<and> length bs \<le> budget"
  using assms
proof (induction k arbitrary: budget off w h bs w' h' off')
  case 0 then show ?case by (intro conjI exI [of _ "[]"]) simp_all
next
  case (Suc k)
  define a where "a = at off"
  define o1 where "o1 = next_offset len off"
  define w1 where "w1 = countSuppressed a w"
  define expected where "expected = deliverValue E a (authoritativeShadowValue E ram a)"
  define w2 where "w2 = (if sample then count_sample mode (fst (cb_readRAM B a h) \<noteq> expected) w1 else w1)"
  define h2 where "h2 = (if sample then snd (cb_readRAM B a h) else h)"
  have view: "core_view w1 = core_view w" "core_view w2 = core_view w" "wb_Synced w2 = wb_Synced w" "wb_Synced w1 = wb_Synced w"
    by (simp_all add: w1_def w2_def)
  have dram: "c64_dram B dram \<Longrightarrow> dram h2 = dram h" by (simp add: h2_def c64_dram.dram_readRAM)
  note dirty = isDirty_view [OF view(1)] isDirty_view [OF view(2)]
  let ?loop = "scrub_loop B E ram masked repair sample mode len at k"
  have run: "scrub_loop B E ram masked repair sample mode len at (Suc k) budget off (w, h) =
     (if budget = 0 then (off, [], w, h)
      else if masked \<and> (a AND 0x000A) \<noteq> 0x0008 then ?loop budget o1 (w, h)
      else if \<not> shouldMirror w a \<or> isDirty w1 a then ?loop budget o1 (w1, h)
      else if \<not> repair \<or> isDirty w2 a then ?loop (budget - 1) o1 (w2, h2)
      else let (off, bs, s) = ?loop (budget - 1) o1 (mark_synced a w2, h2) in (off, (a, expected) # bs, s))"
    by (simp add: Let_def a_def w1_def w2_def h2_def expected_def o1_def case_prod_beta)
  consider (stop) "budget = 0" | (masked) "budget \<noteq> 0" "masked \<and> (a AND 0x000A) \<noteq> 0x0008"
    | (skip) "budget \<noteq> 0" "\<not> (masked \<and> (a AND 0x000A) \<noteq> 0x0008)" "\<not> shouldMirror w a \<or> isDirty w1 a"
    | (sample) "budget \<noteq> 0" "\<not> (masked \<and> (a AND 0x000A) \<noteq> 0x0008)" "\<not> (\<not> shouldMirror w a \<or> isDirty w1 a)" "\<not> repair \<or> isDirty w2 a"
    | (send) "budget \<noteq> 0" "\<not> (masked \<and> (a AND 0x000A) \<noteq> 0x0008)" "\<not> (\<not> shouldMirror w a \<or> isDirty w1 a)" "\<not> (\<not> repair \<or> isDirty w2 a)"
    by blast
  then show ?case
  proof cases
    case stop then show ?thesis using Suc.prems run by (intro conjI exI [of _ "[]"]) simp_all
  next
    case masked
    then have "?loop budget o1 (w, h) = (off', bs, w', h')"
      using Suc.prems run by (simp only: if_True if_False simp_thms)
    then show ?thesis by (rule Suc.IH)
  next
    case skip
    then have "?loop budget o1 (w1, h) = (off', bs, w', h')" using Suc.prems run by (simp only: if_True if_False)
    from Suc.IH [OF this] show ?thesis unfolding view dirty .
  next
    case sample
    then have "?loop (budget - 1) o1 (w2, h2) = (off', bs, w', h')" using Suc.prems run by (simp only: if_True if_False)
    note IH = Suc.IH [OF this, unfolded view dirty]
    have "length bs \<le> budget" using IH [THEN conjunct2, THEN conjunct2] by simp
    moreover have "c64_dram B dram \<longrightarrow> dram h' = dram h" using IH [THEN conjunct2, THEN conjunct1] dram by simp
    ultimately show ?thesis using IH [THEN conjunct1] by (intro conjI)
  next
    case send
    obtain o2 bs1 w3 h3 where s: "?loop (budget - 1) o1 (mark_synced a w2, h2) = (o2, bs1, w3, h3)" by (metis prod_cases4)
    have e: "bs = (a, expected) # bs1" "w' = w3" "h' = h3"
      using Suc.prems run send s by (simp_all only: if_True if_False Let_def prod.case prod.inject)
    have d1: "isDirty (mark_synced a w2) b = isDirty w b" for b
      by (rule isDirty_view) (simp add: view)
    note IH = Suc.IH [OF s]
    from IH [THEN conjunct1] obtain as where
      "bs1 = map (\<lambda>a. (a, deliverValue E a (authoritativeShadowValue E ram a))) as" "\<forall>a \<in> set as. \<not> isDirty w a"
      "\<forall>b. bitmap_get (wb_Synced w3) b = (b \<in> set as \<or> bitmap_get (wb_Synced (mark_synced a w2)) b)" "core_view w3 = core_view w"
      unfolding d1 by (auto simp: view)
    then have "\<exists>as. bs = map (\<lambda>a. (a, deliverValue E a (authoritativeShadowValue E ram a))) as \<and> (\<forall>a \<in> set as. \<not> isDirty w a)
      \<and> (\<forall>b. bitmap_get (wb_Synced w') b = (b \<in> set as \<or> bitmap_get (wb_Synced w) b)) \<and> core_view w' = core_view w"
      using send e dirty by (intro exI [of _ "a # as"]) (auto simp: view expected_def)
    moreover have "c64_dram B dram \<longrightarrow> dram h' = dram h" "length bs \<le> budget" using IH send e dram by auto
    ultimately show ?thesis by blast
  qed
qed

end
