(* ===== verification/WriteBufferPolicy.thy ===== *)
theory WriteBufferPolicy
  imports WriteBufferResync
begin

text \<open>
  Reachable buffers (\<open>wb_reachable\<close>: every public operation of \<open>CWriteBuffer\<close> in any order) and the
  two invariants they keep: the queue invariant \<open>wb_inv\<close> and the meaning of the no-progress cache
  \<open>np_inv\<close>.
\<close>

unbundle bit_operations_syntax

section \<open>Reachable buffers\<close>

text \<open>The environment contract: the hot-block table in force is determined by its generation
  (\<open>CC64Memory\<close> bumps \<open>m_HotShapeGeneration\<close> at every rebuild); \<open>hots\<close> is the history of tables.\<close>

definition env_ok :: "(u32 \<Rightarrow> nat \<Rightarrow> u64) \<Rightarrow> bool \<Rightarrow> wb_env \<Rightarrow> bool" where
  "env_ok hots att E \<longleftrightarrow>
     (if att then \<exists>g. we_HotBlocksGeneration E = Some g \<and> we_HotBlocks E = Some (hots g)
      else we_HotBlocks E = None)"

inductive wb_reachable :: "'h ic64_bus \<Rightarrow> (u32 \<Rightarrow> nat \<Rightarrow> u64) \<Rightarrow> bool \<Rightarrow> wb \<Rightarrow> 'h \<Rightarrow> bool"
  for B :: "'h ic64_bus" and hots att where
  new: "wb_reachable B hots att (wb_new lst pend syn) h"
| attach: "wb_reachable B hots att w h \<Longrightarrow> wb_reachable B hots att (wb_attach bus w) h"
| attach_hot: "wb_reachable B hots att w h \<Longrightarrow> wb_reachable B hots att (attachHotShapeBlocks w) h"
| mode: "wb_reachable B hots att w h \<Longrightarrow> wb_reachable B hots att (setOptMode mode w) h"
| delivery: "wb_reachable B hots att w h \<Longrightarrow> wb_reachable B hots att (setDeliveryEnabled on w) h"
| under_io: "wb_reachable B hots att w h \<Longrightarrow> wb_reachable B hots att (setRAMUnderIOAccessible on w) h"
| exclude: "wb_reachable B hots att w h \<Longrightarrow> wb_reachable B hots att (setExcludeZeroPageStack on w) h"
| stats: "wb_reachable B hots att w h \<Longrightarrow> wb_reachable B hots att (resetStats w) h"
| discard: "wb_reachable B hots att w h \<Longrightarrow> wb_reachable B hots att (discard w) h"
| bus: "wb_reachable B hots att w h \<Longrightarrow> wb_reachable B hots att w h'"
| store: "wb_reachable B hots att w h \<Longrightarrow> wb_reachable B hots att (snd (onRamWrite E a v w)) h"
| invalidate: "wb_reachable B hots att w h \<Longrightarrow> wb_reachable B hots att (invalidateRange E a len w) h"
| policy: "wb_reachable B hots att w h \<Longrightarrow> env_ok hots att E
    \<Longrightarrow> flushUpToPolicy B E m d sb bb (w, h) = (n, w', h') \<Longrightarrow> wb_reachable B hots att w' h'"
| range: "wb_reachable B hots att w h \<Longrightarrow> flushRangeUpTo B E base len m (w, h) = (n, w', h')
    \<Longrightarrow> wb_reachable B hots att w' h'"
| sweep: "wb_reachable B hots att w h \<Longrightarrow> resyncSweep B E m (w, h) = (w', h') \<Longrightarrow> wb_reachable B hots att w' h'"
| scrub: "wb_reachable B hots att w h
    \<Longrightarrow> resyncDisplayed B E sb gb gl m masked repair sample (w, h) = (n, w', h') \<Longrightarrow> wb_reachable B hots att w' h'"

section \<open>The no-progress cache\<close>

definition np_env :: "(u32 \<Rightarrow> nat \<Rightarrow> u64) \<Rightarrow> bool \<Rightarrow> u32 \<Rightarrow> wb_env" where
  "np_env hots att g = \<lparr> we_RAM = None, we_HotBlocks = (if att then Some (hots g) else None),
     we_HotBlocksGeneration = None, we_PtrReloc = (\<lambda>_. 0), we_RelocInUse = (\<lambda>_. 0), we_RelocCount = None \<rparr>"

definition np_blocked :: "(u32 \<Rightarrow> nat \<Rightarrow> u64) \<Rightarrow> bool \<Rightarrow> wb \<Rightarrow> u16 \<Rightarrow> bool" where
  "np_blocked hots att w a \<longleftrightarrow>
     \<not> takes (np_env hots att (wb_NoProgressHotGeneration w))
         (policy_selection (wb_NoProgressDeferHot w) (wb_NoProgressScreenBase w) (wb_NoProgressBitmapBase w)) a"

text \<open>While the cached result is valid, every entry but the ones added since it was taken is blocked
  under the cached policy; the generation counter has counted exactly the additions.\<close>

definition np_inv :: "(u32 \<Rightarrow> nat \<Rightarrow> u64) \<Rightarrow> bool \<Rightarrow> wb \<Rightarrow> bool" where
  "np_inv hots att w \<longleftrightarrow>
     (wb_NoProgressValid w \<longrightarrow>
       (\<exists>S \<subseteq> set (queue w). (\<forall>a \<in> S. np_blocked hots att w a)
          \<and> card S + unat (wb_QueueGeneration w - wb_NoProgressQueueGeneration w) = wb_Count w))"

lemma np_invalid: "\<not> wb_NoProgressValid w \<Longrightarrow> np_inv hots att w"
  by (simp add: np_inv_def)

lemma np_inv_core: "core_view w' = core_view w \<Longrightarrow> np_inv hots att w' = np_inv hots att w"
  using core_view_facts [of w' w] by (simp add: np_inv_def np_blocked_def)

lemma takes_hot:
  "we_HotBlocks E = we_HotBlocks E' \<or> \<not> sel_deferHot sel \<Longrightarrow> takes E sel a = takes E' sel a"
  by (auto simp: takes_def is_hot_def Let_def)

lemma np_cong:
  assumes "np_inv hots att w" "set (queue w') = set (queue w)" "wb_Count w' = wb_Count w"
    "wb_QueueGeneration w' = wb_QueueGeneration w" "wb_NoProgressValid w' = wb_NoProgressValid w"
     "wb_NoProgressDeferHot w' = wb_NoProgressDeferHot w" "wb_NoProgressQueueGeneration w' = wb_NoProgressQueueGeneration w"
     "wb_NoProgressHotGeneration w' = wb_NoProgressHotGeneration w"
     "wb_NoProgressScreenBase w' = wb_NoProgressScreenBase w" "wb_NoProgressBitmapBase w' = wb_NoProgressBitmapBase w"
  shows "np_inv hots att w'"
  using assms by (simp add: np_inv_def np_blocked_def)

lemma np_enqueue:
  assumes inv: "wb_inv w" and np: "np_inv hots att w"
  shows "np_inv hots att (enqueue a v w)"
proof -
  let ?w = "enqueue a v w"
  have frame: "wb_NoProgressValid ?w = wb_NoProgressValid w" "wb_NoProgressDeferHot ?w = wb_NoProgressDeferHot w"
    "wb_NoProgressQueueGeneration ?w = wb_NoProgressQueueGeneration w" "wb_NoProgressHotGeneration ?w = wb_NoProgressHotGeneration w"
    "wb_NoProgressScreenBase ?w = wb_NoProgressScreenBase w" "wb_NoProgressBitmapBase ?w = wb_NoProgressBitmapBase w"
    by (simp_all add: enqueue_def Let_def setDirty_def) (subst move_frame, simp)+
  have q: "queue ?w = queue_add a (queue w)" using enqueue_spec [OF inv] by blast
  have dirty: "isDirty w a = (a \<in> set (queue w))" using inv by (simp add: wb_inv_def)
  show ?thesis
  proof (cases "a \<in> set (queue w)")
    case True
    have "wb_QueueGeneration ?w = wb_QueueGeneration w" "wb_Count ?w = wb_Count w"
      using True dirty by (simp_all add: enqueue_def Let_def isDirty_def)
    moreover have "set (queue ?w) = set (queue w)" using True by (auto simp: q queue_add_def)
    ultimately show ?thesis using np_cong [OF np] frame by blast
  next
    case False
    have room: "wb_Count w < 65536"
      using room_for_clean [OF inv, of a] False dirty by (simp add: SCPU_WRITEBUF_CAPACITY_def)
    have gen: "wb_QueueGeneration ?w = wb_QueueGeneration w + 1" "wb_Count ?w = wb_Count w + 1"
      using False dirty room by (simp_all add: enqueue_def Let_def isDirty_def setDirty_def SCPU_WRITEBUF_CAPACITY_def)
    show ?thesis
      unfolding np_inv_def frame
    proof
      assume "wb_NoProgressValid w"
      then obtain S where S: "S \<subseteq> set (queue w)" "\<forall>b \<in> S. np_blocked hots att w b"
        "card S + unat (wb_QueueGeneration w - wb_NoProgressQueueGeneration w) = wb_Count w"
        using np by (auto simp: np_inv_def)
      have "unat (wb_QueueGeneration w + 1 - wb_NoProgressQueueGeneration w)
          = unat (wb_QueueGeneration w - wb_NoProgressQueueGeneration w) + 1"
      proof -
        have "unat (wb_QueueGeneration w - wb_NoProgressQueueGeneration w) < 65536" using S(3) room by simp
        then have "unat ((wb_QueueGeneration w - wb_NoProgressQueueGeneration w) + 1)
          = unat (wb_QueueGeneration w - wb_NoProgressQueueGeneration w) + 1"
          by (simp add: unat_word_ariths)
        then show ?thesis by (simp add: algebra_simps)
      qed
      then show "\<exists>S \<subseteq> set (queue ?w). (\<forall>b \<in> S. np_blocked hots att ?w b)
          \<and> card S + unat (wb_QueueGeneration ?w - wb_NoProgressQueueGeneration w) = wb_Count ?w"
        using S False by (intro exI [of _ S]) (auto simp: q queue_add_def gen np_blocked_def frame)
    qed
  qed
qed

lemma np_chunk:
  assumes inv: "wb_inv w" and np: "np_inv hots att w" and run: "flushSelectedChunk B E m sel (w, h) = (n, w', h')"
  shows "np_inv hots att w'"
proof (cases "wb_Count w = 0 \<or> m = 0 \<or> \<not> wb_Bus w")
  case True then show ?thesis using run np chunk_idle [OF True, of B E sel h] by simp
next
  case False
  then have "wb_Count w \<noteq> 0" "m \<noteq> 0" "wb_Bus w" by simp_all
  then obtain p1 p2 as where c:
    "queue w = p1 @ p2" "as = filter (takes E sel) p1" "queue w' = p2 @ filter (\<lambda>a. \<not> takes E sel a) p1"
    "wb_NoProgressValid w' = (wb_NoProgressValid w \<and> as = [])"
    "as = [] \<longrightarrow> wb_QueueGeneration w' = wb_QueueGeneration w \<and> wb_NoProgressDeferHot w' = wb_NoProgressDeferHot w
      \<and> wb_NoProgressQueueGeneration w' = wb_NoProgressQueueGeneration w
      \<and> wb_NoProgressHotGeneration w' = wb_NoProgressHotGeneration w
      \<and> wb_NoProgressScreenBase w' = wb_NoProgressScreenBase w \<and> wb_NoProgressBitmapBase w' = wb_NoProgressBitmapBase w"
    by (rule chunk_spec [OF inv _ _ _ run]) (rule that)
  show ?thesis
  proof (cases "as = []")
    case True
    then have none: "filter (\<lambda>a. \<not> takes E sel a) p1 = p1" using c(2) by (auto simp: filter_empty_conv filter_id_conv)
    have "set (queue w') = set (queue w)" using c(1,3) none by auto
    moreover have "wb_Count w' = wb_Count w"
      using c(1,3) none by (metis add.commute length_append length_queue)
    ultimately show ?thesis using np_cong [OF np] c(4,5) True by simp
  next
    case False then show ?thesis using c(4) by (simp add: np_invalid)
  qed
qed

lemma np_remember:
  assumes "wb_inv w" "env_ok hots att E" "\<forall>a \<in> set (queue w). \<not> takes E (policy_selection d sb bb) a" "np_inv hots att w"
  shows "np_inv hots att (rememberNoProgress E d sb bb w)"
proof (cases "canCacheNoProgress E d")
  case False then show ?thesis using assms(4) by (simp add: rememberNoProgress_def)
next
  case True
  let ?w = "rememberNoProgress E d sb bb w"
  have card: "card (set (queue ?w)) = wb_Count ?w"
    using assms(1) by (simp add: wb_inv_def distinct_card)
  have "np_blocked hots att ?w a" if "a \<in> set (queue w)" for a
  proof -
    have "takes (np_env hots att (wb_NoProgressHotGeneration ?w)) (policy_selection d sb bb) a = takes E (policy_selection d sb bb) a"
      using assms(2) True
      by (intro takes_hot) (auto simp: env_ok_def np_env_def rememberNoProgress_def split: if_splits)
    then show ?thesis using assms(3) that True by (simp add: np_blocked_def rememberNoProgress_def)
  qed
  moreover have "wb_QueueGeneration ?w - wb_NoProgressQueueGeneration ?w = 0"
    using True by (simp add: rememberNoProgress_def)
  ultimately show ?thesis
    unfolding np_inv_def using card by (intro impI exI [of _ "set (queue ?w)"]) simp
qed

lemma chunk_zero:
  assumes inv: "wb_inv w" and go: "wb_Count w \<noteq> 0" "m \<noteq> 0" "wb_Bus w"
    and run: "flushSelectedChunk B E m sel (w, h) = (0, w', h')"
  shows "\<forall>a \<in> set (queue w'). \<not> takes E sel a"
proof -
  obtain p1 p2 as where "queue w = p1 @ p2" "as = filter (takes E sel) p1" "0 = length as"
    "queue w' = p2 @ filter (\<lambda>a. \<not> takes E sel a) p1" "0 = min m SCPU_WRITEBUF_CHUNK \<or> p2 = []"
    by (rule chunk_spec [OF inv go run]) (rule that)
  then show ?thesis using go(2) by (auto simp: SCPU_WRITEBUF_CHUNK_def)
qed

lemma np_stats: "np_inv hots att (w\<lparr>wb_Stats := s\<rparr>) = np_inv hots att w"
  by (rule np_inv_core) (rule core_view_steps)

lemma chunk_bus:
  assumes inv: "wb_inv w" and go: "wb_Count w \<noteq> 0" "m \<noteq> 0" "wb_Bus w"
    and run: "flushSelectedChunk B E m sel (w, h) = (n, w', h')"
  shows "wb_Bus w'"
  using chunk_spec [OF inv go run] .

lemma policy_loop_np:
  "wb_inv w \<Longrightarrow> np_inv hots att w \<Longrightarrow> env_ok hots att E \<Longrightarrow> wb_Bus w
    \<Longrightarrow> np_inv hots att (fst (snd (policy_loop B E d sb bb m sent (w, h))))"
proof (induction B E d sb bb m sent "(w, h)" arbitrary: w h rule: policy_loop.induct)
  case (1 B E d sb bb m sent w h)
  show ?case
  proof (cases "wb_Count w > 0 \<and> sent < m")
    case True
    obtain n w1 h1 where c: "flushSelectedChunk B E (m - sent) (policy_selection d sb bb) (w, h) = (n, w1, h1)"
      by (metis prod_cases3)
    have go: "wb_Count w \<noteq> 0" "m - sent \<noteq> 0" using True by simp_all
    have inv: "wb_inv w1" using chunk_inv [OF 1(2) c] .
    have np: "np_inv hots att w1" using np_chunk [OF 1(2,3) c] .
    have bus: "wb_Bus w1" by (rule chunk_bus [OF 1(2) go 1(5) c])
    show ?thesis
    proof (cases "n = 0")
      case zero: True
      let ?w = "on_stats (\<lambda>s. s\<lparr>st_PolicyZeroProgressScans := st_PolicyZeroProgressScans s + 1\<rparr>) w1"
      have "\<forall>a \<in> set (queue w1). \<not> takes E (policy_selection d sb bb) a"
        by (rule chunk_zero [OF 1(2) go 1(5) c [unfolded zero]])
      then have "np_inv hots att (rememberNoProgress E d sb bb ?w)"
        using inv np 1(4) by (intro np_remember) (simp_all add: np_stats)
      then show ?thesis using zero True by (simp add: policy_loop_step [OF _ _ c])
    next
      case False
      have "np_inv hots att (fst (snd (policy_loop B E d sb bb m (sent + n) (w1, h1))))"
        by (rule 1(1) [OF True refl c [symmetric] refl False inv np 1(4) bus])
      then show ?thesis using True False by (simp add: policy_loop_step [OF _ _ c])
    qed
  next
    case False then show ?thesis using 1(3) by (simp add: policy_loop_stop)
  qed
qed

lemma range_loop_np:
  "wb_inv w \<Longrightarrow> np_inv hots att w \<Longrightarrow> np_inv hots att (fst (snd (range_loop B E base len m sent (w, h))))"
proof (induction B E base len m sent "(w, h)" arbitrary: w h rule: range_loop.induct)
  case (1 B E base len m sent w h)
  show ?case
  proof (cases "wb_Count w > 0 \<and> sent < m \<and> hasPendingInRange w base len")
    case True
    obtain n w1 h1 where c: "flushSelectedChunk B E (m - sent) (range_selection base len) (w, h) = (n, w1, h1)"
      by (metis prod_cases3)
    have "wb_inv w1" "np_inv hots att w1" using chunk_inv [OF 1(2) c] np_chunk [OF 1(2,3) c] .
    then show ?thesis
      using 1(1) [OF True c [symmetric] refl] True by (simp add: range_loop_step [OF _ _ _ c])
  next
    case False then show ?thesis using 1(3) unfolding range_loop_stop [OF False] by simp
  qed
qed

section \<open>The invariant holds in every reachable state\<close>

lemma np_frame:
  "np_inv hots att (w\<lparr>wb_Stats := s\<rparr>) = np_inv hots att w" "np_inv hots att (w\<lparr>wb_Synced := y\<rparr>) = np_inv hots att w"
  "np_inv hots att (countSuppressed a w) = np_inv hots att w" "np_inv hots att (setOptMode mode w) = np_inv hots att w"
  "np_inv hots att (setDeliveryEnabled on w) = np_inv hots att w"
  "np_inv hots att (setExcludeZeroPageStack on w) = np_inv hots att w" "np_inv hots att (resetStats w) = np_inv hots att w"
  by (rule np_inv_core; simp add: core_view_def countSuppressed_def setOptMode_def setDeliveryEnabled_def
      setExcludeZeroPageStack_def resetStats_def)+

lemma np_mirror_write: "wb_inv w \<Longrightarrow> np_inv hots att w \<Longrightarrow> np_inv hots att (snd (mirror_write E a v w))"
  by (simp add: mirror_write_def unsync_def np_frame np_enqueue)

lemma np_onRamWrite: "wb_inv w \<Longrightarrow> np_inv hots att w \<Longrightarrow> np_inv hots att (snd (onRamWrite E a v w))"
  by (auto simp: onRamWrite_def relocate_write_def Let_def unsync_def np_frame intro!: np_mirror_write)

lemma np_invalidate: "wb_inv w \<Longrightarrow> np_inv hots att w \<Longrightarrow> np_inv hots att (invalidate_from E a k w)"
  by (induction k arbitrary: a w) (auto intro: onRamWrite_inv np_onRamWrite)

lemma scrub_track_bus [simp]: "wb_Bus (scrub_track a b c w) = wb_Bus w"
  by (simp add: scrub_track_def Let_def)


text \<open>Every re-delivery of either kind keeps \<open>core_view\<close>, delivers the authoritative value of clean
  addresses, and marks exactly those synced.\<close>

definition redelivered :: "wb_env \<Rightarrow> (u16 \<Rightarrow> u8) \<Rightarrow> wb \<Rightarrow> wb \<Rightarrow> u16 list \<Rightarrow> bool" where
  "redelivered E ram w w' as \<longleftrightarrow> core_view w' = core_view w \<and> (\<forall>a \<in> set as. \<not> isDirty w a)
     \<and> (\<forall>b. bitmap_get (wb_Synced w') b = (b \<in> set as \<or> bitmap_get (wb_Synced w) b))"

abbreviation redelivery :: "wb_env \<Rightarrow> (u16 \<Rightarrow> u8) \<Rightarrow> u16 list \<Rightarrow> C64BusWrite list" where
  "redelivery E ram as \<equiv> map (\<lambda>a. (a, deliverValue E a (authoritativeShadowValue E ram a))) as"

lemma resyncSweep_spec:
  assumes "resyncSweep B E m (w, h) = (w', h')"
  obtains "w' = w" "h' = h"
  | ram as where "we_RAM E = Some ram" "redelivered E ram w w' as"
      "h' = (if as = [] then h else cb_writeBurst B (redelivery E ram as) h)"
proof (cases "we_RAM E = None \<or> \<not> wb_Bus w \<or> m = 0")
  case True
  then show thesis using that(1) assms by (auto simp: resyncSweep_def split: option.splits)
next
  case False
  then obtain ram where ram: "we_RAM E = Some ram" by auto
  obtain bs w1 where s: "sweep_loop E ram m 0x10000 0 w = (bs, w1)" by fastforce
  from sweep_loop_spec [OF s] obtain as where "bs = redelivery E ram as" "redelivered E ram w w1 as"
    unfolding redelivered_def by blast
  moreover have "core_view w' = core_view w1" "wb_Synced w' = wb_Synced w1" "h' = (if bs = [] then h else cb_writeBurst B bs h)"
    using assms False ram s by (auto simp: resyncSweep_def split: if_splits)
  ultimately show thesis using that(2) [OF ram, of as] by (simp add: redelivered_def)
qed

lemma resyncDisplayed_spec:
  assumes "resyncDisplayed B E sb gb gl m masked repair sample (w, h) = (n, w', h')"
  obtains "core_view w' = core_view w" "wb_Synced w' = wb_Synced w" "h' = h"
  | ram as h1 where "we_RAM E = Some ram" "redelivered E ram w w' as" "\<And>dram. c64_dram B dram \<Longrightarrow> dram h1 = dram h"
      "h' = (if as = [] then h1 else cb_writeBurst B (redelivery E ram as) h1)" "n = length as" "n \<le> m"
proof (cases "we_RAM E = None \<or> \<not> wb_Bus w \<or> m = 0")
  case True
  then show thesis using that(1) assms by (auto simp: resyncDisplayed_def split: option.splits)
next
  case False
  then obtain ram where ram: "we_RAM E = Some ram" "wb_Bus w" "m \<noteq> 0" by auto
  define glen where "glen = scrub_graphicsLength gb gl"
  define w1 where "w1 = scrub_track sb gb glen w"
  define ss where "ss = (if sb < 0x10000 then 1 else 0 :: nat)"
  define total where "total = ss + unat glen div 1024 + (if hot_blocks E \<noteq> [] then 1 else 0)"
  have view1: "core_view w1 = core_view w" "wb_Synced w1 = wb_Synced w" by (simp_all add: w1_def)
  show thesis
  proof (cases "total = 0")
    case True
    then have "(n, w', h') = (0, w1, h)"
      using assms ram unfolding resyncDisplayed_def
      by (simp only: prod.case option.case Let_def if_False if_True simp_thms glen_def [symmetric] w1_def [symmetric]
          ss_def [symmetric] total_def [symmetric])
    then show thesis using that(1) view1 by simp
  next
    case False
    define w2 where "w2 = (if unat (wb_DisplayScrubTurn w1) \<ge> total then w1\<lparr>wb_DisplayScrubTurn := 0\<rparr> else w1)"
    define turn where "turn = unat (wb_DisplayScrubTurn w2)"
    define region where "region = (if turn < ss then REGION_MATRIX
                              else if turn < ss + unat glen div 1024 then REGION_GRAPHICS else REGION_SPRITES)"
    define base where "base = (case region of REGION_MATRIX \<Rightarrow> sb | REGION_GRAPHICS \<Rightarrow> gb | REGION_SPRITES \<Rightarrow> 0)"
    define len :: u32 where "len = (case region of REGION_MATRIX \<Rightarrow> 1024 | REGION_GRAPHICS \<Rightarrow> glen
                           | REGION_SPRITES \<Rightarrow> of_nat (length (hot_blocks E) * 64))"
    define off where "off = (if region = REGION_SPRITES \<and> unat (scrub_offset region w2) \<ge> unat len then 0 else scrub_offset region w2)"
    define mode where "mode = (if glen = 8192 then 1 else 0 :: nat)"
    have view2: "core_view w2 = core_view w" "wb_Synced w2 = wb_Synced w" by (simp_all add: w2_def view1)
    obtain o3 bs w3 h3 where s: "scrub_loop B E ram masked repair sample mode len (scrub_address region base (hot_blocks E))
              (unat len) (min m SCPU_WRITEBUF_CHUNK) off (w2, h) = (o3, bs, w3, h3)" by (metis prod_cases4)
    define w4 where "w4 = (set_scrub_offset region o3 w3)\<lparr>wb_DisplayScrubTurn := of_nat ((turn + 1) mod total)\<rparr>"
    have run: "(n, w', h') = (if bs = [] then (0, w4, h3)
        else (length bs, count_scrub region glen (length bs) w4, cb_writeBurst B bs h3))"
      using assms ram False s unfolding resyncDisplayed_def
      by (simp only: prod.case option.case Let_def if_False simp_thms glen_def [symmetric] w1_def [symmetric]
          ss_def [symmetric] total_def [symmetric] w2_def [symmetric] turn_def [symmetric] region_def [symmetric]
          base_def [symmetric] len_def [symmetric] off_def [symmetric] mode_def [symmetric] w4_def [symmetric])
    note S = scrub_loop_spec [OF s]
    have dirty: "isDirty w2 a = isDirty w a" for a by (rule isDirty_view [OF view2(1)])
    from S [THEN conjunct1, unfolded view2 dirty] obtain as where as: "bs = redelivery E ram as" "redelivered E ram w w3 as"
      unfolding redelivered_def by blast
    have "core_view w' = core_view w3" "wb_Synced w' = wb_Synced w3" "n = length as" "h' = (if as = [] then h3 else cb_writeBurst B bs h3)"
      using run as(1) by (auto simp: w4_def split: if_splits)
    moreover have "\<And>dram. c64_dram B dram \<Longrightarrow> dram h3 = dram h" "n \<le> m"
      using S as(1) calculation by auto
    ultimately show thesis using that(2) [OF ram(1), of as h3] as by (simp add: redelivered_def)
  qed
qed

lemma inv_frame:
  "wb_inv (setOptMode mode w) = wb_inv w" "wb_inv (setDeliveryEnabled on w) = wb_inv w"
  "wb_inv (setExcludeZeroPageStack on w) = wb_inv w" "wb_inv (resetStats w) = wb_inv w"
  "wb_inv (attachHotShapeBlocks w) = wb_inv w" "wb_inv (setRAMUnderIOAccessible on w) = wb_inv w"
  "wb_inv (wb_attach bus w) = wb_inv w" "wb_inv (count_flush n w) = wb_inv w"
  by (simp_all add: wb_inv_def ring_ok_def isDirty_def queue_def setOptMode_def setDeliveryEnabled_def
      setExcludeZeroPageStack_def resetStats_def attachHotShapeBlocks_def setRAMUnderIOAccessible_def wb_attach_def count_flush_def)

lemma policy_inv:
  assumes "wb_inv w" "flushUpToPolicy B E m d sb bb (w, h) = (n, w', h')"
  shows "wb_inv w'"
proof -
  have "wb_inv ((clearDirty w)\<lparr>wb_Count := 0, wb_Head := 0, wb_QueueGeneration := g, wb_NoProgressValid := False\<rparr>)" for g
    by (rule inv_empty) (simp_all add: clearDirty_def)
  then show ?thesis
    using assms policy_loop_inv [OF assms(1), of B E d sb bb m 0 h]
    by (auto simp: flushUpToPolicy_def Let_def inv_frame split: if_splits prod.splits)
qed

lemma range_inv:
  assumes "wb_inv w" "flushRangeUpTo B E base len m (w, h) = (n, w', h')"
  shows "wb_inv w'"
  using assms range_loop_inv [OF assms(1), of B E base len m 0 h]
  by (auto simp: flushRangeUpTo_def Let_def inv_frame split: if_splits prod.splits)

lemma count_flush_np: "np_inv hots att (count_flush n w) = np_inv hots att w"
  by (simp add: count_flush_def np_stats)

lemma policy_np:
  assumes "wb_inv w" "np_inv hots att w" "env_ok hots att E" "flushUpToPolicy B E m d sb bb (w, h) = (n, w', h')"
  shows "np_inv hots att w'"
  using assms(2,4) policy_loop_np [OF assms(1-3), of B d sb bb m 0 h]
  by (auto simp: flushUpToPolicy_def Let_def np_stats count_flush_np np_invalid split: if_splits prod.splits)

lemma range_np:
  assumes "wb_inv w" "np_inv hots att w" "flushRangeUpTo B E base len m (w, h) = (n, w', h')"
  shows "np_inv hots att w'"
  using assms(2,3) range_loop_np [OF assms(1,2), of B E base len m 0 h]
  by (auto simp: flushRangeUpTo_def Let_def np_stats count_flush_np split: if_splits prod.splits)

lemma reachable_inv: "wb_reachable B hots att w h \<Longrightarrow> wb_inv w \<and> np_inv hots att w"
proof (induction rule: wb_reachable.induct)
  case (new lst pend syn h)
  have "wb_inv (wb_new lst pend syn)"
    by (rule inv_empty) (simp_all add: wb_new_def setOptMode_def clearDirty_def)
  then show ?case by (simp add: np_invalid wb_new_def setOptMode_def clearDirty_def)
next
  case (discard w h)
  have "wb_inv (WriteBuffer.discard w)" by (rule inv_empty) (simp_all add: discard_def clearDirty_def)
  then show ?case by (simp add: np_invalid discard_def)
next
  case (under_io w h on)
  then show ?case by (auto simp: inv_frame) (auto simp: setRAMUnderIOAccessible_def np_invalid)
next
  case (attach w h bus) then show ?case by (simp add: inv_frame) (simp add: wb_attach_def np_invalid)
next
  case (attach_hot w h) then show ?case by (simp add: inv_frame) (simp add: attachHotShapeBlocks_def np_invalid)
next
  case (sweep w h E m w' h')
  from sweep.hyps(2) show ?case
  proof (cases rule: resyncSweep_spec)
    case 1 then show ?thesis using sweep.IH by simp
  next
    case (2 ram as)
    then have "core_view w' = core_view w" by (simp add: redelivered_def)
    then show ?thesis using sweep.IH core_view_facts(4) np_inv_core by blast
  qed
next
  case (scrub w h E sb gb gl m masked repair sample n w' h')
  from scrub.hyps(2) have "core_view w' = core_view w"
    by (cases rule: resyncDisplayed_spec) (simp_all add: redelivered_def)
  then show ?case using scrub.IH core_view_facts(4) np_inv_core by blast
qed (simp_all add: inv_frame np_frame onRamWrite_inv np_onRamWrite invalidate_inv np_invalidate invalidateRange_def,
     (blast intro: policy_inv policy_np range_inv range_np)+)

section \<open>Draining without a policy\<close>

lemma all_taken: "takes E (policy_selection False NO_REGION NO_REGION) a"
  by (simp add: takes_def policy_selection_def addressInRange_def NO_REGION_def Let_def)

lemma plain_cache_miss:
  assumes "wb_inv w" "np_inv hots att w" "wb_Count w \<noteq> 0"
  shows "\<not> noProgressCacheMatches E False NO_REGION NO_REGION w"
proof
  assume m: "noProgressCacheMatches E False NO_REGION NO_REGION w"
  then have v: "wb_NoProgressValid w" "wb_NoProgressQueueGeneration w = wb_QueueGeneration w"
    "\<not> wb_NoProgressDeferHot w" "wb_NoProgressScreenBase w = NO_REGION" "wb_NoProgressBitmapBase w = NO_REGION"
    by (auto simp: noProgressCacheMatches_def split: if_splits)
  then obtain S where S: "S \<subseteq> set (queue w)" "\<forall>a \<in> S. np_blocked hots att w a" "card S = wb_Count w"
    using assms(2) by (auto simp: np_inv_def)
  then obtain a where "a \<in> S" using assms(3) by (metis card.empty equals0I)
  then have "np_blocked hots att w a" using S(2) by blast
  then show False using v all_taken [of "np_env hots att (wb_NoProgressHotGeneration w)" a] by (simp add: np_blocked_def)
qed

lemma plain_chunk:
  assumes inv: "wb_inv w" and go: "wb_Count w \<noteq> 0" "m \<noteq> 0" "wb_Bus w"
    and run: "flushSelectedChunk B E m (policy_selection False NO_REGION NO_REGION) (w, h) = (n, w', h')"
  shows "n = min (min m SCPU_WRITEBUF_CHUNK) (wb_Count w)" "queue w' = drop n (queue w)" "wb_inv w'" "wb_Bus w'"
    "wb_PendingValue w' = wb_PendingValue w" "h' = cb_writeBurst B (burst_of E w (take n (queue w))) h"
    "\<forall>b. isDirty w' b = (b \<notin> set (take n (queue w)) \<and> isDirty w b)"
    "\<forall>b. bitmap_get (wb_Synced w') b = (b \<in> set (take n (queue w)) \<or> bitmap_get (wb_Synced w) b)"
proof -
  let ?sel = "policy_selection False NO_REGION NO_REGION"
  obtain p1 p2 as where c: "queue w = p1 @ p2" "as = filter (takes E ?sel) p1" "n = length as"
    "queue w' = p2 @ filter (\<lambda>a. \<not> takes E ?sel a) p1" "n \<le> min m SCPU_WRITEBUF_CHUNK"
    "n = min m SCPU_WRITEBUF_CHUNK \<or> p2 = []" "wb_inv w'"
    "\<forall>b. isDirty w' b = (b \<notin> set as \<and> isDirty w b)"
    "\<forall>b. bitmap_get (wb_Synced w') b = (b \<in> set as \<or> bitmap_get (wb_Synced w) b)"
    "wb_PendingValue w' = wb_PendingValue w" "wb_Bus w'"
    "h' = (if as = [] then h else cb_writeBurst B (burst_of E w as) h)"
    by (rule chunk_spec [OF inv go run]) (rule that)
  have as: "as = p1" "queue w' = p2" using c(2,4) by (simp_all add: all_taken)
  have n: "n = length p1" "take n (queue w) = p1" "drop n (queue w) = p2" using c(1,3) as by simp_all
  have len: "length p1 + length p2 = wb_Count w" using c(1) by (metis length_append length_queue)
  show "n = min (min m SCPU_WRITEBUF_CHUNK) (wb_Count w)" using c(5,6) n len by auto
  moreover have "p1 \<noteq> []" using calculation go n by (auto simp: SCPU_WRITEBUF_CHUNK_def)
  ultimately show "h' = cb_writeBurst B (burst_of E w (take n (queue w))) h" using c(12) n as by simp
  show "queue w' = drop n (queue w)" "wb_inv w'" "wb_Bus w'" "wb_PendingValue w' = wb_PendingValue w"
    "\<forall>b. isDirty w' b = (b \<notin> set (take n (queue w)) \<and> isDirty w b)"
    "\<forall>b. bitmap_get (wb_Synced w') b = (b \<in> set (take n (queue w)) \<or> bitmap_get (wb_Synced w) b)"
    using c as n by simp_all
qed

end
