(* ===== verification/WriteBufferDrain.thy ===== *)
theory WriteBufferDrain
  imports WriteBufferPolicy
begin

text \<open>
  What draining does to C64 memory, over any bus with the laws of \<open>c64_dram\<close>: the unrestricted drain
  sends the queue oldest first, the loop of \<open>flush\<close> ends, the range query is exact, and the shadow
  and C64 memory stay coherent along a run of the mirror (\<open>mirrored\<close>).
\<close>

unbundle bit_operations_syntax

text \<open>\<open>drained E w k w'\<close>: the oldest \<open>k\<close> entries have been delivered.\<close>

definition drained :: "wb \<Rightarrow> nat \<Rightarrow> wb \<Rightarrow> bool" where
  "drained w k w' \<longleftrightarrow> queue w' = drop k (queue w) \<and> wb_inv w' \<and> wb_Bus w' \<and> wb_PendingValue w' = wb_PendingValue w
     \<and> (\<forall>b. isDirty w' b = (b \<notin> set (take k (queue w)) \<and> isDirty w b))
     \<and> (\<forall>b. bitmap_get (wb_Synced w') b = (b \<in> set (take k (queue w)) \<or> bitmap_get (wb_Synced w) b))"

lemma drained_trans:
  assumes "drained w k w1" "drained w1 j w2"
  shows "drained w (k + j) w2"
proof -
  have t: "take (k + j) (queue w) = take k (queue w) @ take j (drop k (queue w))" by (rule take_add)
  show ?thesis using assms unfolding drained_def t by (auto simp: add.commute)
qed

lemma drained_frame:
  "drained w k w' \<Longrightarrow> drained w k (count_flush n w')"
  "drained w k w' \<Longrightarrow> drained w k (on_stats f w')"
  by (simp_all add: drained_def count_flush_def isDirty_def)

lemma drained_remember: "drained w k w' \<Longrightarrow> drained w k (rememberNoProgress E d s b w')"
  by (simp add: drained_def isDirty_def)

definition drained_dram :: "wb_env \<Rightarrow> wb \<Rightarrow> nat \<Rightarrow> (u16 \<Rightarrow> u8) \<Rightarrow> (u16 \<Rightarrow> u8) \<Rightarrow> bool" where
  "drained_dram E w k m m' \<longleftrightarrow>
     (\<forall>a. m' a = (if a \<in> set (take k (queue w)) then deliverValue E a (wb_PendingValue w a) else m a))"

lemma drained_dram_trans:
  assumes "drained w k w1" "drained_dram E w k m m1" "drained_dram E w1 j m1 m2" "distinct (queue w)"
  shows "drained_dram E w (k + j) m m2"
proof -
  have t: "take (k + j) (queue w) = take k (queue w) @ take j (drop k (queue w))" by (rule take_add)
  show ?thesis using assms unfolding drained_dram_def drained_def t by auto
qed

context c64_dram
begin

lemma plain_chunk_dram:
  assumes "wb_inv w" "wb_Count w \<noteq> 0" "m \<noteq> 0" "wb_Bus w"
    and run: "flushSelectedChunk B E m (policy_selection False NO_REGION NO_REGION) (w, h) = (n, w', h')"
  shows "n = min (min m SCPU_WRITEBUF_CHUNK) (wb_Count w)" "drained w n w'" "drained_dram E w n (dram h) (dram h')"
proof -
  note c = plain_chunk [OF assms]
  show "n = min (min m SCPU_WRITEBUF_CHUNK) (wb_Count w)" by (rule c(1))
  show "drained w n w'" using c(2-5,7,8) by (simp add: drained_def)
  show "drained_dram E w n (dram h) (dram h')"
    using dram_burst_map [of "\<lambda>a. deliverValue E a (wb_PendingValue w a)" "take n (queue w)" h]
    by (simp add: drained_dram_def c(6) burst_of_def)
qed

lemma plain_loop:
  assumes "wb_inv w" "wb_Bus w" "s \<le> m"
    "policy_loop B E False NO_REGION NO_REGION m s (w, h) = (s', w', h')"
  shows "s' = s + min (m - s) (wb_Count w) \<and> drained w (s' - s) w' \<and> drained_dram E w (s' - s) (dram h) (dram h')"
  using assms
proof (induction "m - s" arbitrary: s w h s' w' h' rule: less_induct)
  case less
  show ?case
  proof (cases "wb_Count w > 0 \<and> s < m")
    case False
    then have "s' = s" "w' = w" "h' = h" "min (m - s) (wb_Count w) = 0"
      using less.prems(3,4) by (auto simp: policy_loop_stop)
    then show ?thesis using less.prems(1,2) by (simp add: drained_def drained_dram_def)
  next
    case True
    obtain n w1 h1 where c: "flushSelectedChunk B E (m - s) (policy_selection False NO_REGION NO_REGION) (w, h) = (n, w1, h1)"
      by (metis prod_cases3)
    have go: "wb_Count w \<noteq> 0" "m - s \<noteq> 0" using True by simp_all
    note ch = plain_chunk_dram [OF less.prems(1) go less.prems(2) c]
    have n: "n \<noteq> 0" "n \<le> m - s" "n \<le> wb_Count w" using ch(1) go by (auto simp: SCPU_WRITEBUF_CHUNK_def)
    have step: "policy_loop B E False NO_REGION NO_REGION m (s + n) (w1, h1) = (s', w', h')"
      using less.prems(4) True n(1) by (simp add: policy_loop_step [OF _ _ c])
    have pre: "m - (s + n) < m - s" "wb_inv w1" "wb_Bus w1" "s + n \<le> m" "wb_Count w1 = wb_Count w - n"
      using n True ch(2) by (auto simp: drained_def) (metis length_drop length_queue)
    note IH = less.hyps [OF pre(1-4) step]
    have s': "s' = s + min (m - s) (wb_Count w)" using IH pre(5) n by linarith
    have split: "s' - s = n + (s' - (s + n))" using IH n by linarith
    have d: "distinct (queue w)" using less.prems(1) by (simp add: wb_inv_def)
    have "drained w (n + (s' - (s + n))) w'" by (rule drained_trans [OF ch(2) conjunct1 [OF conjunct2 [OF IH]]])
    moreover have "drained_dram E w (n + (s' - (s + n))) (dram h) (dram h')"
      by (rule drained_dram_trans [OF ch(2,3) conjunct2 [OF conjunct2 [OF IH]] d])
    ultimately show ?thesis using s' split by metis
  qed
qed

lemma flushUpTo_spec:
  assumes inv: "wb_inv w" "np_inv hots att w" and go: "wb_Bus w" "m \<noteq> 0"
    and run: "flushUpTo B E m (w, h) = (left, w', h')"
  shows "left = wb_Count w - min m (wb_Count w)" "drained w (min m (wb_Count w)) w'"
    "drained_dram E w (min m (wb_Count w)) (dram h) (dram h')"
proof -
  have "left = wb_Count w - min m (wb_Count w) \<and> drained w (min m (wb_Count w)) w' \<and> drained_dram E w (min m (wb_Count w)) (dram h) (dram h')"
  proof (cases "wb_Count w = 0")
    case True
    then have "left = 0" "w' = w" "h' = h" using run by (auto simp: flushUpTo_def flushUpToPolicy_def)
    then show ?thesis using True inv go by (simp add: drained_def drained_dram_def)
  next
    case False
    note miss = plain_cache_miss [OF inv False, of E]
    obtain s1 w1 h1 where l: "policy_loop B E False NO_REGION NO_REGION m 0 (w, h) = (s1, w1, h1)" by (metis prod_cases3)
    have r: "left = wb_Count (count_flush s1 w1)" "w' = count_flush s1 w1" "h' = h1"
      using run False go miss l by (auto simp: flushUpTo_def flushUpToPolicy_def Let_def)
    note L = plain_loop [OF inv(1) go(1) le0 l, unfolded diff_zero add_0]
    have "drained w s1 (count_flush s1 w1)" using conjunct1 [OF conjunct2 [OF L]] by (rule drained_frame)
    moreover from this have "wb_Count (count_flush s1 w1) = wb_Count w - s1"
      unfolding drained_def by (metis length_drop length_queue)
    ultimately show ?thesis using L r by metis
  qed
  then show "left = wb_Count w - min m (wb_Count w)" "drained w (min m (wb_Count w)) w'"
    "drained_dram E w (min m (wb_Count w)) (dram h) (dram h')" by blast+
qed

lemma flushUpTo_np:
  "wb_inv w \<Longrightarrow> np_inv hots att w \<Longrightarrow> env_ok hots att E \<Longrightarrow> flushUpTo B E m (w, h) = (left, w', h') \<Longrightarrow> np_inv hots att w'"
  by (rule policy_np) (simp_all add: flushUpTo_def)

lemma flush_drains:
  assumes "wb_inv w" "np_inv hots att w" "env_ok hots att E" "wb_Bus w"
  shows "\<exists>w' h'. wb_flush B E (w, h) = Some (w', h') \<and> wb_Count w' = 0
    \<and> drained w (wb_Count w) w' \<and> drained_dram E w (wb_Count w) (dram h) (dram h')"
  using assms
proof (induction "wb_Count w" arbitrary: w h rule: less_induct)
  case less
  define m where "m = SCPU_WRITEBUF_CHUNK * 8"
  have m: "m \<noteq> 0" by (simp add: m_def SCPU_WRITEBUF_CHUNK_def)
  obtain left w1 h1 where f: "flushUpTo B E m (w, h) = (left, w1, h1)" by (metis prod_cases3)
  note F = flushUpTo_spec [OF less.prems(1,2,4) m f]
  have unfold: "wb_flush B E (w, h) = (if left > 0 then wb_flush B E (w1, h1) else Some (w1, h1))"
    by (subst wb_flush.simps) (simp add: f m_def [symmetric])
  have cnt: "wb_Count w1 = left" using F(1,2) unfolding drained_def by (metis length_drop length_queue)
  show ?case
  proof (cases "left > 0")
    case False
    then have "min m (wb_Count w) = wb_Count w" using F(1) by simp
    then show ?thesis using False unfold F(2,3) cnt by simp
  next
    case True
    then have mm: "min m (wb_Count w) = m" "left < wb_Count w" "wb_Count w = m + left" using F(1) m by auto
    have pre: "wb_inv w1" "np_inv hots att w1" "wb_Bus w1"
      using F(2) flushUpTo_np [OF less.prems(1-3) f] by (simp_all add: drained_def)
    from less.hyps [of w1, OF _ pre(1,2) less.prems(3) pre(3), of h1] cnt mm(2) obtain w2 h2 where
      IH: "wb_flush B E (w1, h1) = Some (w2, h2)" "wb_Count w2 = 0" "drained w1 left w2" "drained_dram E w1 left (dram h1) (dram h2)"
      by auto
    have "distinct (queue w)" using less.prems(1) by (simp add: wb_inv_def)
    note d = this
    have all: "min m (wb_Count w) + left = wb_Count w" using mm by simp
    have run: "wb_flush B E (w, h) = Some (w2, h2)" by (simp only: unfold True if_True IH(1))
    show ?thesis
      using run IH(2) drained_trans [OF F(2) IH(3), unfolded all] drained_dram_trans [OF F(2,3) IH(4) d, unfolded all] by blast
  qed
qed

end

section \<open>The range query\<close>

lemma dm64: "b < 64 \<Longrightarrow> (64 * q + b) div 64 = q" "b < 64 \<Longrightarrow> (64 * q + b) mod 64 = b" for q b :: nat
  by simp_all

lemma dirty_word:
  assumes "k < 1024" "i < 64"
  shows "bit (wb_Dirty w k) i \<longleftrightarrow> isDirty w (of_nat (64 * k + i))"
proof -
  define a where "a = (of_nat (64 * k + i) :: u16)"
  have u: "unat a = 64 * k + i" using assms unfolding a_def unat_of_nat by simp
  have e: "64 * word_of a + bit_of a = 64 * k + i" using unat_split_64 [of a] u by simp
  have "word_of a = k" "bit_of a = i"
    using arg_cong [OF e, of "\<lambda>n. n div 64"] arg_cong [OF e, of "\<lambda>n. n mod 64"]
    by (simp_all only: dm64 bit_of_less assms)
  then show ?thesis unfolding a_def [symmetric] isDirty_def bitmap_get_bit by simp
qed

lemma unat_drop6: "unat (drop_bit 6 (x :: u32)) = unat x div 64"
  by (simp only: unsigned_drop_bit_eq) (use unsigned_less [of x, where 'a = nat] in \<open>simp add: drop_bit_eq_div take_bit_nat_eq_self\<close>)

lemma unat_and63: "unat (x AND 63 :: u32) = unat x mod 64"
proof -
  have "x AND 63 = take_bit 6 x" by (simp add: take_bit_eq_mask mask_eq_exp_minus_1)
  then show ?thesis by (simp only: unsigned_take_bit_eq) (simp add: take_bit_eq_mod)
qed

lemma and63_zero: "(x AND 63 :: u32) \<noteq> 0 \<longleftrightarrow> unat x mod 64 \<noteq> 0"
  by (metis unat_and63 unat_eq_zero)

lemma bit_high: "bit (push_bit n (NOT 0) :: u64) i \<longleftrightarrow> n \<le> i" if "i < 64"
  using that by (simp add: bit_push_bit_iff bit_not_iff bit_mask_iff linorder_not_less)

lemma bit_low: "bit (push_bit n 1 - 1 :: u64) i \<longleftrightarrow> i < n" if "i < 64" "n < 64"
proof -
  have "(push_bit n 1 - 1 :: u64) = mask n" by (simp add: mask_eq_exp_minus_1 push_bit_eq_mult)
  then show ?thesis using that by (simp add: bit_mask_iff)
qed

lemma nonzero_bit: "(x :: u64) \<noteq> 0 \<longleftrightarrow> (\<exists>i < 64. bit x i)"
proof
  assume "x \<noteq> 0"
  then obtain i where "bit x i" by (metis bit_eq_iff bit_0_eq bot_apply bot_bool_def)
  moreover then have "i < 64" using bit_imp_le_length [of x i] by simp
  ultimately show "\<exists>i < 64. bit x i" by blast
qed auto

lemma bit_pending:
  assumes "i < 64" "0 < unat stop"
  shows "bit (pending_bits w base stop k) i \<longleftrightarrow> bit (wb_Dirty w k) i
     \<and> (k = unat base div 64 \<longrightarrow> unat base mod 64 \<le> i)
     \<and> (k = (unat stop - 1) div 64 \<and> unat stop mod 64 \<noteq> 0 \<longrightarrow> i < unat stop mod 64)"
proof -
  have s: "unat (stop - 1) = unat stop - 1" using assms(2) by (metis gr0_conv_Suc diff_Suc_1 unat_minus_one unat_eq_zero less_irrefl)
  show ?thesis
    unfolding pending_bits_def Let_def unat_drop6 unat_and63 and63_zero s if_distrib [of "\<lambda>x. bit x i"] bit_and_iff
    by (simp only: bit_high [OF assms(1)] bit_low [OF assms(1)] mod_less_divisor zero_less_numeral) argo
qed

lemma pick_slot:
  fixes b e k i :: nat
  assumes "i < 64" "b < e" "b div 64 \<le> k" "k \<le> (e - 1) div 64"
  shows "((k = b div 64 \<longrightarrow> b mod 64 \<le> i) \<and> (k = (e - 1) div 64 \<and> e mod 64 \<noteq> 0 \<longrightarrow> i < e mod 64))
     \<longleftrightarrow> b \<le> 64 * k + i \<and> 64 * k + i < e"
proof -
  obtain q r where b: "b = 64 * q + r" "r < 64" by (metis mod_less_divisor mult_div_mod_eq zero_less_numeral)
  obtain p t where e: "e - 1 = 64 * p + t" "t < 64" by (metis mod_less_divisor mult_div_mod_eq zero_less_numeral)
  have dm: "b div 64 = q" "b mod 64 = r" "(e - 1) div 64 = p" using b e by simp_all
  have em: "e = 64 * p + t + 1" using e assms(2) by linarith
  have m: "e mod 64 = (if t = 63 then 0 else t + 1)" using e(2) unfolding em by (simp add: mod_Suc)
  have lo: "(k = b div 64 \<longrightarrow> b mod 64 \<le> i) \<longleftrightarrow> b \<le> 64 * k + i"
    using assms(1,3) b(2) unfolding dm unfolding b(1) by auto
  have hi: "(k = (e - 1) div 64 \<and> e mod 64 \<noteq> 0 \<longrightarrow> i < e mod 64) \<longleftrightarrow> 64 * k + i < e"
    using assms(1,4) e(2) unfolding m dm unfolding em by auto
  show ?thesis using lo hi by blast
qed

lemma pending_nonzero:
  assumes "unat base < unat stop" "unat base div 64 \<le> k" "k \<le> (unat stop - 1) div 64"
  shows "pending_bits w base stop k \<noteq> 0 \<longleftrightarrow>
    (\<exists>i < 64. bit (wb_Dirty w k) i \<and> unat base \<le> 64 * k + i \<and> 64 * k + i < unat stop)"
proof -
  have "bit (pending_bits w base stop k) i \<longleftrightarrow> bit (wb_Dirty w k) i \<and> unat base \<le> 64 * k + i \<and> 64 * k + i < unat stop"
    if i: "i < 64" for i
  proof -
    have "0 < unat stop" using assms(1) by simp
    then show ?thesis using bit_pending [OF i] pick_slot [OF i assms] by blast
  qed
  then show ?thesis unfolding nonzero_bit by blast
qed

lemma dirty_at: "isDirty w a \<Longrightarrow> bit (wb_Dirty w (unat a div 64)) (unat a mod 64)"
proof -
  assume d: "isDirty w a"
  have "unat a div 64 < 1024" using unsigned_less [of a, where 'a = nat] by simp
  from dirty_word [OF this, of "unat a mod 64" w] d show ?thesis by simp
qed

lemma hasPending_iff:
  assumes "unat base + unat len < 2 ^ 32"
  shows "hasPendingInRange w base len \<longleftrightarrow>
     (\<exists>a. isDirty w a \<and> unat base \<le> unat a \<and> unat a < unat base + unat len)"
proof (cases "base \<ge> 0x10000 \<or> len = 0")
  case True
  then have "unat base \<ge> 65536 \<or> unat len = 0" by (auto simp: word_le_nat_alt)
  moreover have "unat a < 65536" for a :: u16 using unsigned_less [of a] by simp
  ultimately have "\<not> (unat base \<le> unat a \<and> unat a < unat base + unat len)" for a :: u16
    by (metis add_0_right leD le_trans)
  then show ?thesis using True by (auto simp: hasPendingInRange_def)
next
  case False
  define stop where "stop = (if base + len > 0x10000 then 0x10000 else base + len)"
  let ?b = "unat base" and ?e = "unat stop"
  have sum: "unat (base + len) = ?b + unat len" using assms by (simp add: unat_plus_if')
  have b: "?b < 65536" "unat len > 0" using False by (auto simp: word_le_nat_alt unat_gt_0)
  have e: "?e = min 65536 (?b + unat len)"
    unfolding stop_def by (auto simp: word_less_nat_alt sum)
  have be: "?b < ?e" "?e \<le> 65536" using b e by auto
  have s: "unat (stop - 1) = ?e - 1" using be(1) by (metis unat_minus_one unat_eq_zero not_less_zero)
  have "hasPendingInRange w base len \<longleftrightarrow> (\<exists>k \<in> {?b div 64 ..< (?e - 1) div 64 + 1}. pending_bits w base stop k \<noteq> 0)"
    using False unfolding hasPendingInRange_def stop_def [symmetric] Let_def unat_drop6 s list_ex_iff set_upt by (simp only: if_False)
  also have "\<dots> \<longleftrightarrow> (\<exists>k i. ?b div 64 \<le> k \<and> k \<le> (?e - 1) div 64 \<and> i < 64 \<and> bit (wb_Dirty w k) i
       \<and> ?b \<le> 64 * k + i \<and> 64 * k + i < ?e)" (is "_ \<longleftrightarrow> ?R")
  proof -
    have "(pending_bits w base stop k \<noteq> 0) \<longleftrightarrow> (\<exists>i < 64. bit (wb_Dirty w k) i \<and> ?b \<le> 64 * k + i \<and> 64 * k + i < ?e)"
      if "?b div 64 \<le> k" "k \<le> (?e - 1) div 64" for k
      by (rule pending_nonzero [OF be(1) that])
    then show ?thesis unfolding Bex_def atLeastLessThan_iff less_Suc_eq_le [unfolded Suc_eq_plus1] by blast
  qed
  also have "\<dots> \<longleftrightarrow> (\<exists>a. isDirty w a \<and> ?b \<le> unat a \<and> unat a < ?e)"
  proof
    assume ?R
    then obtain k i where ki: "k \<le> (?e - 1) div 64" "i < 64" "bit (wb_Dirty w k) i" "?b \<le> 64 * k + i" "64 * k + i < ?e" by blast
    then have k: "k < 1024" using be(2) by linarith
    have "unat (of_nat (64 * k + i) :: u16) = 64 * k + i" using k ki(2) unfolding unat_of_nat by simp
    then show "\<exists>a. isDirty w a \<and> ?b \<le> unat a \<and> unat a < ?e" using dirty_word [OF k ki(2)] ki by metis
  next
    assume "\<exists>a. isDirty w a \<and> ?b \<le> unat a \<and> unat a < ?e"
    then obtain a where a: "isDirty w a" "?b \<le> unat a" "unat a < ?e" by blast
    have "64 * (unat a div 64) + unat a mod 64 = unat a" by simp
    moreover have "?b div 64 \<le> unat a div 64" "unat a div 64 \<le> (?e - 1) div 64" using a by (auto intro: div_le_mono)
    moreover have "unat a mod 64 < 64" by simp
    ultimately show ?R using a dirty_at [OF a(1)] by metis
  qed
  also have "\<dots> \<longleftrightarrow> (\<exists>a. isDirty w a \<and> ?b \<le> unat a \<and> unat a < ?b + unat len)"
  proof -
    have "unat a < 65536" for a :: u16 using unsigned_less [of a] by simp
    then show ?thesis unfolding e by auto
  qed
  finally show ?thesis .
qed

section \<open>Coherence\<close>

definition coherent :: "(u16 \<Rightarrow> u8) \<Rightarrow> wb \<Rightarrow> (u16 \<Rightarrow> u8) \<Rightarrow> bool" where
  "coherent ram w m \<longleftrightarrow>
     (\<forall>a. isDirty w a \<longrightarrow> wb_PendingValue w a = ram a)
   \<and> (\<forall>a. \<not> isDirty w a \<and> bitmap_get (wb_Synced w) a \<longrightarrow> m a = ram a)"

lemma coherent_cong:
  "coherent ram w m \<Longrightarrow> wb_Dirty w' = wb_Dirty w \<Longrightarrow> wb_Synced w' = wb_Synced w
    \<Longrightarrow> wb_PendingValue w' = wb_PendingValue w \<Longrightarrow> coherent ram w' m"
  by (simp add: coherent_def isDirty_def)

lemma deliver_plain [simp]: "\<not> relocating E \<Longrightarrow> deliverValue E a v = v"
  by (simp add: deliverValue_def)

lemma authoritative_plain [simp]: "\<not> relocating E \<Longrightarrow> authoritativeShadowValue E ram a = ram a"
  by (simp add: authoritativeShadowValue_def)

lemma coherent_write:
  assumes inv: "wb_inv w" and c: "coherent ram w m" and E: "we_RAM E = Some ram" "\<not> relocating E" "wb_DeliveryEnabled w"
    and ok: "isDirty w a \<longrightarrow> shouldMirror w a"
  shows "coherent (ram(a := v)) (snd (onRamWrite E a v w)) m"
proof -
  have run: "onRamWrite E a v w = mirror_write E a v w"
    using E by (simp add: onRamWrite_def relocate_write_def)
  consider (skip) "\<not> shouldMirror w a" | (same) "shouldMirror w a" "eliminates E w a v"
    | (queue) "shouldMirror w a" "\<not> eliminates E w a v" by blast
  then show ?thesis
  proof cases
    case skip
    then have "\<not> isDirty w a" using ok by simp
    then show ?thesis using c skip
      by (auto simp: run mirror_write_def coherent_def unsync_def isDirty_def)
  next
    case same
    then have "ram(a := v) = ram" using E(1) by (auto simp: eliminates_def)
    then show ?thesis using c same by (simp add: run mirror_write_def coherent_def isDirty_def)
  next
    case queue
    have "isDirty (enqueue a v w) b \<longleftrightarrow> b = a \<or> isDirty w b" for b using enqueue_spec [OF inv] by blast
    then show ?thesis using c queue by (auto simp: run mirror_write_def coherent_def)
  qed
qed

context c64_dram
begin

lemma chunk_coherent:
  assumes inv: "wb_inv w" and c: "coherent ram w (dram h)" and E: "\<not> relocating E"
    and run: "flushSelectedChunk B E m sel (w, h) = (n, w', h')"
  shows "coherent ram w' (dram h')"
proof (cases "wb_Count w = 0 \<or> m = 0 \<or> \<not> wb_Bus w")
  case True then show ?thesis using run c chunk_idle [OF True, of B E sel h] by simp
next
  case False
  then have go: "wb_Count w \<noteq> 0" "m \<noteq> 0" "wb_Bus w" by simp_all
  obtain p1 p2 as where ch: "queue w = p1 @ p2" "as = filter (takes E sel) p1"
    "\<forall>b. isDirty w' b = (b \<notin> set as \<and> isDirty w b)"
    "\<forall>b. bitmap_get (wb_Synced w') b = (b \<in> set as \<or> bitmap_get (wb_Synced w) b)"
    "wb_PendingValue w' = wb_PendingValue w" "h' = (if as = [] then h else cb_writeBurst B (burst_of E w as) h)"
    by (rule chunk_spec [OF inv go run]) (rule that)
  have dirty: "\<forall>a \<in> set as. isDirty w a" using inv ch(1,2) by (auto simp: wb_inv_def)
  have d: "dram h' a = (if a \<in> set as then wb_PendingValue w a else dram h a)" for a
    using dram_burst_map [of "\<lambda>a. deliverValue E a (wb_PendingValue w a)" as h] E
    by (simp add: ch(6) burst_of_def)
  show ?thesis using c dirty unfolding coherent_def ch(5) d by (auto simp: ch(3,4))
qed

lemma policy_loop_coherent:
  "wb_inv w \<Longrightarrow> coherent ram w (dram h) \<Longrightarrow> \<not> relocating E \<Longrightarrow> policy_loop B E d sb bb m s (w, h) = (s', w', h')
    \<Longrightarrow> coherent ram w' (dram h')"
proof (induction "m - s" arbitrary: s w h rule: less_induct)
  case less
  show ?case
  proof (cases "wb_Count w > 0 \<and> s < m")
    case False then show ?thesis using less.prems by (auto simp: policy_loop_stop)
  next
    case True
    obtain n w1 h1 where c: "flushSelectedChunk B E (m - s) (policy_selection d sb bb) (w, h) = (n, w1, h1)"
      by (metis prod_cases3)
    have i: "wb_inv w1" "coherent ram w1 (dram h1)"
      using chunk_inv [OF less.prems(1) c] chunk_coherent [OF less.prems(1-3) c] by simp_all
    note step = policy_loop_step [OF conjunct1 [OF True] conjunct2 [OF True] c]
    show ?thesis
    proof (cases "n = 0")
      case True
      then have "w' = rememberNoProgress E d sb bb (on_stats (\<lambda>s. s\<lparr>st_PolicyZeroProgressScans := st_PolicyZeroProgressScans s + 1\<rparr>) w1)"
        "h' = h1" using less.prems(4) step by simp_all
      then show ?thesis using i(2) by (auto intro: coherent_cong)
    next
      case False
      then have "m - (s + n) < m - s" using True by linarith
      then show ?thesis using less.hyps [OF _ i less.prems(3)] less.prems(4) step False by simp
    qed
  qed
qed

lemma range_loop_coherent:
  "wb_inv w \<Longrightarrow> coherent ram w (dram h) \<Longrightarrow> \<not> relocating E \<Longrightarrow> range_loop B E base len m s (w, h) = (s', w', h')
    \<Longrightarrow> coherent ram w' (dram h')"
proof (induction "m - s" arbitrary: s w h rule: less_induct)
  case less
  show ?case
  proof (cases "wb_Count w > 0 \<and> s < m \<and> hasPendingInRange w base len")
    case False then show ?thesis using less.prems by (auto simp: range_loop_stop)
  next
    case True
    obtain n w1 h1 where c: "flushSelectedChunk B E (m - s) (range_selection base len) (w, h) = (n, w1, h1)"
      by (metis prod_cases3)
    have i: "wb_inv w1" "coherent ram w1 (dram h1)"
      using chunk_inv [OF less.prems(1) c] chunk_coherent [OF less.prems(1-3) c] by simp_all
    have go: "wb_Count w > 0" "s < m" "hasPendingInRange w base len" using True by simp_all
    note step = range_loop_step [OF go c]
    show ?thesis
    proof (cases "n = 0")
      case True then show ?thesis using less.prems(4) step i(2) by simp
    next
      case False
      then have "m - (s + n) < m - s" using True by linarith
      then show ?thesis using less.hyps [OF _ i less.prems(3)] less.prems(4) step False by simp
    qed
  qed
qed

lemma redelivered_coherent:
  assumes "coherent ram w (dram h)" "redelivered E ram w w' as" "\<not> relocating E" "dram h1 = dram h"
    "h' = (if as = [] then h1 else cb_writeBurst B (redelivery E ram as) h1)"
  shows "coherent ram w' (dram h')"
proof -
  have r: "core_view w' = core_view w" "\<forall>a \<in> set as. \<not> isDirty w a"
    "\<forall>b. bitmap_get (wb_Synced w') b = (b \<in> set as \<or> bitmap_get (wb_Synced w) b)"
    using assms(2) by (simp_all add: redelivered_def)
  have d: "dram h' a = (if a \<in> set as then ram a else dram h a)" for a
    using dram_burst_map [of "\<lambda>a. deliverValue E a (authoritativeShadowValue E ram a)" as h1] assms(3-5) by simp
  show ?thesis
    using assms(1) r(2,3) unfolding coherent_def d isDirty_view [OF r(1)] core_view_facts(3) [OF r(1)] by auto
qed

end

section \<open>Runs of the mirror\<close>

text \<open>A run of the shadow RAM, the buffer and the bus: every store goes through \<open>onRamWrite\<close> before
  it reaches the shadow. Stores happen with delivery enabled, drains with a bus attached, no sprite block is relocated, and a store whose
  address is queued is not refused by the mode in force (\<open>stale_after_refused_store\<close> shows what
  happens otherwise).\<close>

inductive mirrored :: "'h ic64_bus \<Rightarrow> ('h \<Rightarrow> u16 \<Rightarrow> u8) \<Rightarrow> (u16 \<Rightarrow> u8) \<Rightarrow> wb \<Rightarrow> 'h \<Rightarrow> bool"
  for B :: "'h ic64_bus" and dram where
  start: "mirrored B dram ram (wb_attach True (wb_new lst pend syn)) h"
| store: "mirrored B dram ram w h \<Longrightarrow> we_RAM E = Some ram \<Longrightarrow> \<not> relocating E
    \<Longrightarrow> wb_DeliveryEnabled w \<Longrightarrow> isDirty w a \<longrightarrow> shouldMirror w a \<Longrightarrow> mirrored B dram (ram(a := v)) (snd (onRamWrite E a v w)) h"
| policy: "mirrored B dram ram w h \<Longrightarrow> wb_Bus w \<Longrightarrow> \<not> relocating E
    \<Longrightarrow> flushUpToPolicy B E m d sb bb (w, h) = (n, w', h') \<Longrightarrow> mirrored B dram ram w' h'"
| range: "mirrored B dram ram w h \<Longrightarrow> \<not> relocating E
    \<Longrightarrow> flushRangeUpTo B E base len m (w, h) = (n, w', h') \<Longrightarrow> mirrored B dram ram w' h'"
| sweep: "mirrored B dram ram w h \<Longrightarrow> we_RAM E = Some ram \<Longrightarrow> \<not> relocating E
    \<Longrightarrow> resyncSweep B E m (w, h) = (w', h') \<Longrightarrow> mirrored B dram ram w' h'"
| scrub: "mirrored B dram ram w h \<Longrightarrow> we_RAM E = Some ram \<Longrightarrow> \<not> relocating E
    \<Longrightarrow> resyncDisplayed B E sb gb gl m masked repair sample (w, h) = (n, w', h') \<Longrightarrow> mirrored B dram ram w' h'"
| mode: "mirrored B dram ram w h \<Longrightarrow> mirrored B dram ram (setOptMode mode w) h"
| under_io: "mirrored B dram ram w h \<Longrightarrow> mirrored B dram ram (setRAMUnderIOAccessible on w) h"
| exclude: "mirrored B dram ram w h \<Longrightarrow> mirrored B dram ram (setExcludeZeroPageStack on w) h"
| hot: "mirrored B dram ram w h \<Longrightarrow> mirrored B dram ram (attachHotShapeBlocks w) h"
| stats: "mirrored B dram ram w h \<Longrightarrow> mirrored B dram ram (resetStats w) h"
| discard: "mirrored B dram ram w h \<Longrightarrow> mirrored B dram ram (discard w) h"
| bus: "mirrored B dram ram w h \<Longrightarrow> dram h' = dram h \<Longrightarrow> mirrored B dram ram w h'"

lemma coherent_frame:
  "coherent ram (setOptMode mode w) m = coherent ram w m" "coherent ram (setRAMUnderIOAccessible on w) m = coherent ram w m"
  "coherent ram (setExcludeZeroPageStack on w) m = coherent ram w m" "coherent ram (attachHotShapeBlocks w) m = coherent ram w m"
  "coherent ram (resetStats w) m = coherent ram w m"
  by (simp_all add: coherent_def isDirty_def setOptMode_def setRAMUnderIOAccessible_def setExcludeZeroPageStack_def
      attachHotShapeBlocks_def resetStats_def)

context c64_dram
begin

lemma policy_coherent:
  assumes "wb_inv w" "coherent ram w (dram h)" "wb_Bus w" "\<not> relocating E"
    "flushUpToPolicy B E m d sb bb (w, h) = (n, w', h')"
  shows "coherent ram w' (dram h')"
proof (cases "wb_Count w = 0 \<or> m = 0 \<or> noProgressCacheMatches E d sb bb w")
  case True
  then have "h' = h" "w' = w \<or> w' = on_stats (\<lambda>s. s\<lparr>st_PolicyNoProgressCacheHits := st_PolicyNoProgressCacheHits s + 1\<rparr>) w"
    using assms(5) by (auto simp: flushUpToPolicy_def split: if_splits)
  then show ?thesis using assms(2) by (auto intro: coherent_cong)
next
  case False
  obtain s1 w1 h1 where l: "policy_loop B E d sb bb m 0 (w, h) = (s1, w1, h1)" by (metis prod_cases3)
  then have "w' = count_flush s1 w1" "h' = h1" using False assms(3,5) by (auto simp: flushUpToPolicy_def Let_def)
  moreover have "coherent ram w1 (dram h1)" by (rule policy_loop_coherent [OF assms(1,2,4) l])
  ultimately show ?thesis by (auto simp: count_flush_def intro: coherent_cong)
qed

lemma range_coherent:
  assumes "wb_inv w" "coherent ram w (dram h)" "\<not> relocating E"
    "flushRangeUpTo B E base len m (w, h) = (n, w', h')"
  shows "coherent ram w' (dram h')"
proof (cases "wb_Count w = 0 \<or> m = 0 \<or> \<not> hasPendingInRange w base len")
  case True
  then have "h' = h" "w' = w" using assms(4) by (auto simp: flushRangeUpTo_def split: if_splits)
  then show ?thesis using assms(2) by simp
next
  case False
  obtain s1 w1 h1 where l: "range_loop B E base len m 0 (w, h) = (s1, w1, h1)" by (metis prod_cases3)
  then have "w' = count_flush s1 w1" "h' = h1" using False assms(4) by (auto simp: flushRangeUpTo_def Let_def)
  moreover have "coherent ram w1 (dram h1)" by (rule range_loop_coherent [OF assms(1-3) l])
  ultimately show ?thesis by (auto simp: count_flush_def intro: coherent_cong)
qed

lemma mirrored_inv: "mirrored B dram ram w h \<Longrightarrow> wb_inv w \<and> coherent ram w (dram h)"
proof (induction rule: mirrored.induct)
  case (start ram lst pend syn h)
  have "wb_inv (wb_new lst pend syn)"
    by (rule inv_empty) (simp_all add: wb_new_def setOptMode_def clearDirty_def)
  then show ?case
    by (simp add: inv_frame) (simp add: coherent_def isDirty_def wb_attach_def wb_new_def setOptMode_def clearDirty_def)
next
  case (store ram w h E a v) then show ?case by (blast intro: onRamWrite_inv coherent_write)
next
  case (policy ram w h E m d sb bb n w' h')
  then show ?case by (blast intro: policy_inv policy_coherent)
next
  case (range ram w h E base len m n w' h')
  then show ?case by (blast intro: range_inv range_coherent)
next
  case (sweep ram w h E m w' h')
  from sweep.hyps(4) show ?case
  proof (cases rule: resyncSweep_spec)
    case 1 then show ?thesis using sweep.IH by simp
  next
    case (2 shadow as)
    have "shadow = ram" using 2(1) sweep.hyps(2) by simp
    then show ?thesis
      using sweep.IH redelivered_coherent [OF _ 2(2) sweep.hyps(3) refl 2(3)] core_view_facts(4) [of w' w] 2(2)
      by (simp add: redelivered_def)
  qed
next
  case (scrub ram w h E sb gb gl m masked repair sample n w' h')
  from scrub.hyps(4) show ?case
  proof (cases rule: resyncDisplayed_spec)
    case 1
    then show ?thesis
      using scrub.IH core_view_facts(2-4) [OF 1(1)] by (auto intro: coherent_cong)
  next
    case (2 shadow as h1)
    have "shadow = ram" using 2(1) scrub.hyps(2) by simp
    then show ?thesis
      using scrub.IH redelivered_coherent [OF _ 2(2) scrub.hyps(3) 2(3) [OF c64_dram_axioms] 2(4)] core_view_facts(4) [of w' w] 2(2)
      by (simp add: redelivered_def)
  qed
next
  case (discard ram w h)
  have "wb_inv (WriteBuffer.discard w)" by (rule inv_empty) (simp_all add: discard_def clearDirty_def)
  then show ?case by (simp add: coherent_def isDirty_def discard_def clearDirty_def)
qed (simp_all add: inv_frame coherent_frame)

end

end
