(* ===== verification/WriteBufferProps.thy ===== *)
theory WriteBufferProps
  imports WriteBufferDrain
begin

text \<open>
  The properties of the write mirror, each with a concrete buffer on the simulated bus, and the
  sequence of stores after which C64 memory stays stale.
\<close>

unbundle bit_operations_syntax

section \<open>A concrete mirror\<close>

definition demo_env :: "(u16 \<Rightarrow> u8) \<Rightarrow> wb_env" where
  "demo_env ram = \<lparr> we_RAM = Some ram, we_HotBlocks = None, we_HotBlocksGeneration = None,
     we_PtrReloc = (\<lambda>_. 0xFF), we_RelocInUse = (\<lambda>_. 0xFF), we_RelocCount = Some 0 \<rparr>"

definition demo_start :: wb where
  "demo_start = wb_attach True (wb_new (\<lambda>_. 0) (\<lambda>_. 0) (\<lambda>_. 0))"

definition demo_queued :: wb where
  "demo_queued = snd (onRamWrite (demo_env (\<lambda>_. 0)) 0x0400 5 demo_start)"

lemma demo_start_simps:
  "wb_Count demo_start = 0" "wb_Head demo_start = 0" "wb_Bus demo_start" "wb_Dirty demo_start = (\<lambda>_. 0)"
  "wb_Synced demo_start = (\<lambda>_. 0)" "wb_DeliveryEnabled demo_start" "queue demo_start = []" "wb_Mode demo_start = SCPU_OPT_DEFAULT"
  "wb_ExcludeZPStack demo_start" "\<not> wb_RAMUnderIOAccessible demo_start" "wb_RangeLo demo_start = 0" "wb_RangeHi demo_start = 0xFFFF"
  by (simp_all add: demo_start_def wb_attach_def wb_new_def setOptMode_def clearDirty_def mode_range_def queue_def)

lemma demo_reachable: "wb_reachable B hots att demo_start h"
  unfolding demo_start_def by (intro wb_reachable.attach wb_reachable.new)

lemma demo_mirrored: "mirrored B dram ram demo_start h"
  unfolding demo_start_def by (rule mirrored.start)

lemma demo_plain [simp]: "\<not> relocating (demo_env ram)" "we_RAM (demo_env ram) = Some ram"
  by (simp_all add: demo_env_def relocating_def)

lemma demo_mirrors: "shouldMirror demo_start 0x0400"
  by (simp add: shouldMirror_def policy_refuses_def io_window_def demo_start_simps)

lemma demo_queued_eq: "onRamWrite (demo_env (\<lambda>_. 0)) 0x0400 5 demo_start = (True, enqueue 0x0400 5 demo_start)"
  by (simp add: onRamWrite_def relocate_write_def mirror_write_def demo_start_simps demo_mirrors eliminates_def)

lemma demo_start_inv: "wb_inv demo_start"
  using reachable_inv [OF demo_reachable] by blast

lemma demo_queued_simps:
  "queue demo_queued = [0x0400]" "wb_Count demo_queued = 1" "wb_PendingValue demo_queued 0x0400 = 5" "wb_Bus demo_queued"
  "isDirty demo_queued b \<longleftrightarrow> b = 0x0400"
proof -
  have q: "queue demo_queued = [0x0400]" "isDirty demo_queued b \<longleftrightarrow> b = 0x0400"
    using enqueue_spec [OF demo_start_inv, of "0x0400" 5]
    by (simp_all add: demo_queued_def demo_queued_eq queue_add_def demo_start_simps isDirty_def)
  from arg_cong [OF q(1), of length] show "wb_Count demo_queued = 1" by simp
  show "queue demo_queued = [0x0400]" "isDirty demo_queued b \<longleftrightarrow> b = 0x0400" by (rule q)+
  show "wb_PendingValue demo_queued 0x0400 = 5" "wb_Bus demo_queued"
    by (simp_all add: demo_queued_def demo_queued_eq demo_start_simps)
qed

lemma demo_queued_reachable: "wb_reachable B hots att demo_queued h"
  unfolding demo_queued_def by (rule wb_reachable.store) (rule demo_reachable)

lemma demo_env_ok: "env_ok hots False (demo_env ram)"
  by (simp add: env_ok_def demo_env_def)

section \<open>The properties\<close>

text \<open>C11. In every reachable buffer the ring holds exactly the dirty addresses, each once, inside its
  bounds, so the capacity test of \<open>onRamWrite\<close> cannot fail: whenever an address is clean there is a
  free slot for it.\<close>

theorem write_buffer_queue_invariant:
  assumes "wb_reachable B hots att w h"
  shows "distinct (queue w) \<and> (\<forall>a. isDirty w a = (a \<in> set (queue w)))
    \<and> wb_Head w < SCPU_WRITEBUF_CAPACITY \<and> wb_Count w \<le> SCPU_WRITEBUF_CAPACITY
    \<and> (isDirty w a \<or> wb_Count w < SCPU_WRITEBUF_CAPACITY)"
proof -
  have inv: "wb_inv w" using reachable_inv [OF assms] by blast
  then show ?thesis using room_for_clean [OF inv, of a] by (auto simp: wb_inv_def ring_ok_def)
qed

theorem write_buffer_queue_invariant_witness:
  "isDirty demo_queued 0x0400 \<and> distinct (queue demo_queued) \<and> wb_Head demo_queued < SCPU_WRITEBUF_CAPACITY"
  using write_buffer_queue_invariant [OF demo_queued_reachable [of host_c64_bus "\<lambda>_ _. 0" False host_bus_new], of "0x0400"]
  by (simp add: demo_queued_simps)

text \<open>C12. \<open>onRamWrite\<close> refines a write-combining queue: without relocation a store is queued with its
  value exactly when the policy mirrors its address and it is not a redundant rewrite of a byte
  already delivered; a queued address keeps its place, except that a possible sprite pointer moves
  to the tail, and a store that is not queued leaves queue and pending values alone.\<close>

theorem onRamWrite_refines_queue:
  assumes "wb_reachable B hots att w h" "wb_DeliveryEnabled w" "\<not> relocating E"
  shows "fst (onRamWrite E a v w) = (shouldMirror w a \<and> \<not> eliminates E w a v)
    \<and> (queue (snd (onRamWrite E a v w)), wb_PendingValue (snd (onRamWrite E a v w)))
       = (if shouldMirror w a \<and> \<not> eliminates E w a v
          then (queue_add a (queue w), (wb_PendingValue w)(a := v)) else (queue w, wb_PendingValue w))"
proof -
  have inv: "wb_inv w" using reachable_inv [OF assms(1)] by blast
  have run: "onRamWrite E a v w = mirror_write E a v w" using assms by (simp add: onRamWrite_def relocate_write_def)
  show ?thesis unfolding run using enqueue_spec [OF inv, of a v] by (simp add: mirror_write_def unsync_def)
qed

theorem onRamWrite_refines_queue_witness:
  "queue (snd (onRamWrite (demo_env (\<lambda>_. 0)) 0x0400 5 demo_start)) = [0x0400]"
  using onRamWrite_refines_queue [OF demo_reachable [of host_c64_bus "\<lambda>_ _. 0" False host_bus_new] demo_start_simps(6) demo_plain(1) [of "\<lambda>_. 0"],
      of "0x0400" 5]
  by (simp add: demo_mirrors demo_start_simps queue_add_def eliminates_def)

text \<open>One chunk is a stable selection: it takes the selected addresses of a prefix of the queue in
  order, up to the budget or the whole queue, delivers their pending values in one burst, marks them
  clean and synced, and puts the deferred ones of the prefix behind the rest in their old order.\<close>

theorem chunk_is_stable_selection:
  assumes "wb_reachable B hots att w h" "wb_Count w \<noteq> 0" "m \<noteq> 0" "wb_Bus w"
    "flushSelectedChunk B E m sel (w, h) = (n, w', h')"
  shows "\<exists>p1 p2 as. queue w = p1 @ p2 \<and> as = filter (takes E sel) p1 \<and> n = length as
    \<and> queue w' = p2 @ filter (\<lambda>a. \<not> takes E sel a) p1
    \<and> n \<le> min m SCPU_WRITEBUF_CHUNK \<and> (n = min m SCPU_WRITEBUF_CHUNK \<or> p2 = [])
    \<and> h' = (if as = [] then h else cb_writeBurst B (burst_of E w as) h)
    \<and> (\<forall>b. isDirty w' b = (b \<notin> set as \<and> isDirty w b))
    \<and> (\<forall>b. bitmap_get (wb_Synced w') b = (b \<in> set as \<or> bitmap_get (wb_Synced w) b))"
proof -
  have inv: "wb_inv w" using reachable_inv [OF assms(1)] by blast
  obtain p1 p2 as where "queue w = p1 @ p2" "as = filter (takes E sel) p1" "n = length as"
    "queue w' = p2 @ filter (\<lambda>a. \<not> takes E sel a) p1" "n \<le> min m SCPU_WRITEBUF_CHUNK"
    "n = min m SCPU_WRITEBUF_CHUNK \<or> p2 = []"
    "\<forall>b. isDirty w' b = (b \<notin> set as \<and> isDirty w b)"
    "\<forall>b. bitmap_get (wb_Synced w') b = (b \<in> set as \<or> bitmap_get (wb_Synced w) b)"
    "h' = (if as = [] then h else cb_writeBurst B (burst_of E w as) h)"
    by (rule chunk_spec [OF inv assms(2-5)]) (rule that)
  then show ?thesis by blast
qed

theorem chunk_is_stable_selection_witness:
  "\<exists>n w' h' p1 p2. flushSelectedChunk host_c64_bus (demo_env (\<lambda>_. 0)) 1 (policy_selection False NO_REGION NO_REGION)
       (demo_queued, host_bus_new) = (n, w', h') \<and> [0x0400] = p1 @ p2 \<and> n = length p1 \<and> queue w' = p2"
proof -
  obtain n w' h' where run: "flushSelectedChunk host_c64_bus (demo_env (\<lambda>_. 0)) 1 (policy_selection False NO_REGION NO_REGION)
       (demo_queued, host_bus_new) = (n, w', h')" by (metis prod_cases3)
  from chunk_is_stable_selection [OF demo_queued_reachable [of _ "\<lambda>_ _. 0" False] _ _ demo_queued_simps(4) run]
  show ?thesis using run by (auto simp: demo_queued_simps all_taken)
qed

text \<open>Draining a reachable buffer with a budget of \<open>m\<close> bytes sends the oldest \<open>min m count\<close>
  entries in queue order, leaves the rest queued, and changes C64 memory at exactly those addresses,
  to the values pending for them.\<close>

theorem flushUpTo_sends_oldest:
  assumes "c64_dram B dram" "wb_reachable B hots att w h" "wb_Bus w" "m \<noteq> 0" "\<not> relocating E"
    "flushUpTo B E m (w, h) = (left, w', h')"
  shows "left = wb_Count w - min m (wb_Count w) \<and> queue w' = drop m (queue w)
    \<and> dram h' a = (if a \<in> set (take m (queue w)) then wb_PendingValue w a else dram h a)"
proof -
  have inv: "wb_inv w" "np_inv hots att w" using reachable_inv [OF assms(2)] by simp_all
  note F = c64_dram.flushUpTo_spec [OF assms(1) inv assms(3,4,6)]
  have t: "take (min m (wb_Count w)) (queue w) = take m (queue w)" "drop (min m (wb_Count w)) (queue w) = drop m (queue w)"
    by (simp_all add: min_def)
  show ?thesis using F assms(5) by (simp add: drained_def drained_dram_def t)
qed

theorem flushUpTo_sends_oldest_witness:
  "h_Memory (snd (snd (flushUpTo host_c64_bus (demo_env (\<lambda>_. 0)) 4 (demo_queued, host_bus_new)))) 0x0400 = 5"
proof -
  obtain l w' h' where run: "flushUpTo host_c64_bus (demo_env (\<lambda>_. 0)) 4 (demo_queued, host_bus_new) = (l, w', h')" by (metis prod_cases3)
  from flushUpTo_sends_oldest [OF host.c64_dram_axioms demo_queued_reachable [of _ "\<lambda>_ _. 0" False] demo_queued_simps(4) _ demo_plain(1) run, of "0x0400"]
  show ?thesis by (simp add: run demo_queued_simps)
qed

text \<open>C10. \<open>flush\<close> returns: its loop ends for every reachable buffer with a bus, empties the queue,
  leaves every address clean, and C64 memory holds the pending value of every address that was
  queued and is unchanged elsewhere.\<close>

theorem flush_terminates_and_delivers:
  assumes "c64_dram B dram" "wb_reachable B hots att w h" "env_ok hots att E" "wb_Bus w" "\<not> relocating E"
  shows "\<exists>w' h'. wb_flush B E (w, h) = Some (w', h') \<and> queue w' = [] \<and> (\<forall>a. \<not> isDirty w' a)
    \<and> (\<forall>a. dram h' a = (if isDirty w a then wb_PendingValue w a else dram h a))"
proof -
  have inv: "wb_inv w" "np_inv hots att w" using reachable_inv [OF assms(2)] by simp_all
  obtain w' h' where f: "wb_flush B E (w, h) = Some (w', h')" "drained w (wb_Count w) w'" "drained_dram E w (wb_Count w) (dram h) (dram h')"
    using c64_dram.flush_drains [OF assms(1) inv assms(3,4)] by blast
  have d: "isDirty w a = (a \<in> set (queue w))" for a using inv(1) by (simp add: wb_inv_def)
  show ?thesis using f assms(5) by (intro exI [of _ w'] exI [of _ h']) (simp add: drained_def drained_dram_def d)
qed

theorem flush_terminates_and_delivers_witness:
  "\<exists>w' h'. wb_flush host_c64_bus (demo_env (\<lambda>_. 0)) (demo_queued, host_bus_new) = Some (w', h') \<and> h_Memory h' 0x0400 = 5 \<and> h_Memory h' 0x0401 = 0"
proof -
  obtain w' h' where "wb_flush host_c64_bus (demo_env (\<lambda>_. 0)) (demo_queued, host_bus_new) = Some (w', h')"
    "\<forall>a. h_Memory h' a = (if isDirty demo_queued a then wb_PendingValue demo_queued a else h_Memory host_bus_new a)"
    using flush_terminates_and_delivers [OF host.c64_dram_axioms demo_queued_reachable [of _ "\<lambda>_ _. 0" False] demo_env_ok demo_queued_simps(4) demo_plain(1) [of "\<lambda>_. 0"]]
    by blast
  then show ?thesis by (intro exI [of _ w'] exI [of _ h']) (simp add: demo_queued_simps host_bus_new_def)
qed

text \<open>The word-masked scan \<open>hasPendingInRange\<close> is exact: for a range that does not wrap the 32-bit
  address arithmetic it holds just when some queued address lies in it.\<close>

theorem hasPendingInRange_exact:
  assumes "unat base + unat len < 2 ^ 32"
  shows "hasPendingInRange w base len \<longleftrightarrow>
     (\<exists>a. isDirty w a \<and> unat base \<le> unat a \<and> unat a < unat base + unat len)"
  by (rule hasPending_iff [OF assms])

theorem hasPendingInRange_exact_witness:
  "hasPendingInRange demo_queued 0x03FF 2 \<and> \<not> hasPendingInRange demo_queued 0x03C0 64 \<and> \<not> hasPendingInRange demo_queued 0x0401 0xFFFF"
  using hasPendingInRange_exact [of "0x03FF" 2 demo_queued] hasPendingInRange_exact [of "0x03C0" 64 demo_queued]
    hasPendingInRange_exact [of "0x0401" "0xFFFF" demo_queued]
  by (simp add: demo_queued_simps)

text \<open>The cached "no progress" answer is sound: when the cache matches, on a reachable buffer, no
  queued entry may be taken under the asked policy, so skipping the scan sends exactly what the scan
  would have sent, nothing; the 32-bit generation counter cannot hide a new entry.\<close>

theorem no_progress_cache_sound:
  assumes "wb_reachable B hots att w h" "env_ok hots att E" "noProgressCacheMatches E d sb bb w"
  shows "\<forall>a \<in> set (queue w). \<not> takes E (policy_selection d sb bb) a"
proof
  fix a assume a: "a \<in> set (queue w)"
  have inv: "wb_inv w" "np_inv hots att w" using reachable_inv [OF assms(1)] by simp_all
  have v: "wb_NoProgressValid w" "wb_NoProgressQueueGeneration w = wb_QueueGeneration w"
    "wb_NoProgressDeferHot w = d" "wb_NoProgressScreenBase w = sb" "wb_NoProgressBitmapBase w = bb"
    using assms(3) by (auto simp: noProgressCacheMatches_def split: if_splits)
  obtain S where S: "S \<subseteq> set (queue w)" "\<forall>a \<in> S. np_blocked hots att w a" "card S = wb_Count w"
    using inv(2) v(1,2) by (auto simp: np_inv_def)
  have "card (set (queue w)) = wb_Count w" using inv(1) by (simp add: wb_inv_def distinct_card)
  then have "S = set (queue w)" using S(1,3) by (intro card_subset_eq) simp_all
  then have "np_blocked hots att w a" using S(2) a by blast
  moreover have "we_HotBlocks E = we_HotBlocks (np_env hots att (wb_NoProgressHotGeneration w)) \<or> \<not> d"
    using assms(2,3) by (auto simp: noProgressCacheMatches_def env_ok_def np_env_def split: if_splits)
  ultimately show "\<not> takes E (policy_selection d sb bb) a"
    using takes_hot [of E "np_env hots att (wb_NoProgressHotGeneration w)" "policy_selection d sb bb" a] v(3-5)
    by (auto simp: np_blocked_def policy_selection_def)
qed

text \<open>C9. In every run of the mirror (stores with delivery enabled, drains with a bus, no relocation, no
  refused store to a queued address) C64 memory and the shadow agree: a queued address has the
  shadow's byte pending, and a clean address marked as delivered holds the shadow's byte in C64
  memory. The redundant-write elimination of \<open>onRamWrite\<close> is sound on such runs.\<close>

theorem mirror_coherent:
  assumes "c64_dram B dram" "mirrored B dram ram w h"
  shows "(isDirty w a \<longrightarrow> wb_PendingValue w a = ram a)
    \<and> (\<not> isDirty w a \<and> bitmap_get (wb_Synced w) a \<longrightarrow> dram h a = ram a)"
  using c64_dram.mirrored_inv [OF assms] by (simp add: coherent_def)

theorem mirror_coherent_witness:
  "wb_PendingValue demo_queued 0x0400 = ((\<lambda>_. 0)(0x0400 := 5) :: u16 \<Rightarrow> u8) 0x0400"
proof -
  have "mirrored host_c64_bus h_Memory ((\<lambda>_. 0)(0x0400 := 5)) demo_queued host_bus_new"
    unfolding demo_queued_def
    by (rule mirrored.store) (simp_all add: demo_mirrored demo_start_simps isDirty_def)
  from mirror_coherent [OF host.c64_dram_axioms this, of "0x0400"] show ?thesis by (simp add: demo_queued_simps)
qed

lemma demo_blocked: "\<not> takes E (policy_selection False 0x0400 NO_REGION) 0x0400"
  by (simp add: takes_def policy_selection_def addressInRange_def NO_REGION_def Let_def)

lemma demo_np_start: "\<not> wb_NoProgressValid demo_queued"
  by (simp add: demo_queued_def demo_queued_eq enqueue_def Let_def demo_start_simps setDirty_def isDirty_def)
    (simp add: demo_start_def wb_attach_def)

lemma demo_np:
  "\<exists>n w' h'. flushUpToPolicy host_c64_bus (demo_env (\<lambda>_. 0)) 4 False 0x0400 NO_REGION (demo_queued, host_bus_new) = (n, w', h')
     \<and> queue w' = [0x0400] \<and> noProgressCacheMatches (demo_env (\<lambda>_. 0)) False 0x0400 NO_REGION w'"
proof -
  let ?E = "demo_env (\<lambda>_. 0)"
  have inv: "wb_inv demo_queued" using reachable_inv [OF demo_queued_reachable] by blast
  obtain n w1 h1 where c: "flushSelectedChunk host_c64_bus ?E 4 (policy_selection False 0x0400 NO_REGION) (demo_queued, host_bus_new) = (n, w1, h1)"
    by (metis prod_cases3)
  obtain p1 p2 as where ch: "queue demo_queued = p1 @ p2" "as = filter (takes ?E (policy_selection False 0x0400 NO_REGION)) p1"
    "n = length as" "queue w1 = p2 @ filter (\<lambda>a. \<not> takes ?E (policy_selection False 0x0400 NO_REGION) a) p1"
    "n = min 4 SCPU_WRITEBUF_CHUNK \<or> p2 = []"
    by (rule chunk_spec [OF inv _ _ _ c]) (simp_all add: demo_queued_simps)
  have "as = []" using ch(1,2) by (cases p1) (auto simp: demo_queued_simps demo_blocked)
  then have n: "n = 0" "p2 = []" "queue w1 = [0x0400]"
    using ch by (auto simp: SCPU_WRITEBUF_CHUNK_def demo_queued_simps demo_blocked)
  have "policy_loop host_c64_bus ?E False 0x0400 NO_REGION 4 0 (demo_queued, host_bus_new)
    = (0, rememberNoProgress ?E False 0x0400 NO_REGION
        (on_stats (\<lambda>s. s\<lparr>st_PolicyZeroProgressScans := st_PolicyZeroProgressScans s + 1\<rparr>) w1), h1)"
    using policy_loop_step [of demo_queued 0 4 host_c64_bus ?E False "0x0400" NO_REGION host_bus_new n w1 h1] c n(1)
    by (simp add: demo_queued_simps)
  then show ?thesis using n(3)
    by (simp add: flushUpToPolicy_def Let_def demo_queued_simps noProgressCacheMatches_def demo_np_start)
      (simp add: count_flush_def rememberNoProgress_def canCacheNoProgress_def queue_def)
qed

theorem no_progress_cache_sound_witness:
  "\<not> takes (demo_env (\<lambda>_. 0)) (policy_selection False 0x0400 NO_REGION) 0x0400"
proof -
  obtain n w' h' where d: "flushUpToPolicy host_c64_bus (demo_env (\<lambda>_. 0)) 4 False 0x0400 NO_REGION (demo_queued, host_bus_new) = (n, w', h')"
    "queue w' = [0x0400]" "noProgressCacheMatches (demo_env (\<lambda>_. 0)) False 0x0400 NO_REGION w'" using demo_np by blast
  have "wb_reachable host_c64_bus (\<lambda>_ _. 0) False w' h'"
    by (rule wb_reachable.policy [OF demo_queued_reachable demo_env_ok d(1)])
  from no_progress_cache_sound [OF this demo_env_ok d(3)] show ?thesis using d(2) by simp
qed

lemma scan_delivery: "scan T k b w = (as, n, w') \<Longrightarrow> wb_DeliveryEnabled w' = wb_DeliveryEnabled w"
  by (induction T k b w arbitrary: as n w' rule: scan.induct) (auto simp: Let_def split: if_splits prod.splits)

lemma chunk_delivery:
  "flushSelectedChunk B E m sel (w, h) = (n, w', h') \<Longrightarrow> wb_DeliveryEnabled w' = wb_DeliveryEnabled w"
  by (auto simp: flushSelectedChunk_def Let_def fold_mark scan_delivery split: if_splits prod.splits)

lemma remember_delivery [simp]: "wb_DeliveryEnabled (rememberNoProgress E d s b w) = wb_DeliveryEnabled w"
  by (simp add: rememberNoProgress_def)

lemma policy_loop_delivery:
  "policy_loop B E d sb bb m s (w, h) = (s', w', h') \<Longrightarrow> wb_DeliveryEnabled w' = wb_DeliveryEnabled w"
proof (induction "m - s" arbitrary: s w h rule: less_induct)
  case less
  show ?case
  proof (cases "wb_Count w > 0 \<and> s < m")
    case False then show ?thesis using less.prems by (simp add: policy_loop_stop)
  next
    case True
    obtain n w1 h1 where c: "flushSelectedChunk B E (m - s) (policy_selection d sb bb) (w, h) = (n, w1, h1)"
      by (metis prod_cases3)
    note step = policy_loop_step [OF conjunct1 [OF True] conjunct2 [OF True] c]
    show ?thesis
    proof (cases "n = 0")
      case True then show ?thesis using less.prems step chunk_delivery [OF c] by auto
    next
      case False
      then have "m - (s + n) < m - s" using True by linarith
      then show ?thesis using less.hyps [of "s + n" w1 h1] less.prems step chunk_delivery [OF c] False by simp
    qed
  qed
qed

lemma flushUpTo_delivery:
  "flushUpTo B E m (w, h) = (left, w', h') \<Longrightarrow> wb_DeliveryEnabled w' = wb_DeliveryEnabled w"
  by (auto simp: flushUpTo_def flushUpToPolicy_def Let_def count_flush_def clearDirty_def
      dest!: policy_loop_delivery split: if_splits prod.splits)

text \<open>The sequence that leaves C64 memory stale: queue \<open>v\<close> under the default policy, refuse \<open>u\<close> under
  the policy that mirrors nothing, drain, and go back to the default policy.\<close>

definition stale_run :: "u8 \<Rightarrow> u8 \<Rightarrow> wb \<times> host_bus" where
  "stale_run v u =
     (let w = snd (onRamWrite (demo_env (\<lambda>_. 0)) 0x0400 v demo_start);
          w = snd (onRamWrite (demo_env ((\<lambda>_. 0)(0x0400 := v))) 0x0400 u (setOptMode SCPU_OPT_FULL w));
          (left, w, h) = flushUpTo host_c64_bus (demo_env ((\<lambda>_. 0)(0x0400 := u))) 1 (w, host_bus_new)
      in (setOptMode SCPU_OPT_DEFAULT w, h))"

text \<open>C13. The elimination of redundant stores is unsound when a store to a queued address is refused:
  after the run above C64 memory holds the old byte \<open>v\<close>, the shadow holds \<open>u\<close>, nothing is queued, and
  storing the current byte \<open>u\<close> again is eliminated, so C64 memory stays stale.\<close>

theorem stale_after_refused_store:
  "case stale_run v u of (w, h) \<Rightarrow>
     h_Memory h 0x0400 = v \<and> queue w = [] \<and>
     (let r = onRamWrite (demo_env ((\<lambda>_. 0)(0x0400 := u))) 0x0400 u w in \<not> fst r \<and> queue (snd r) = [])"
proof -
  define w1 where "w1 = enqueue 0x0400 v demo_start"
  define w3 where "w3 = snd (onRamWrite (demo_env ((\<lambda>_. 0)(0x0400 := v))) 0x0400 u (setOptMode SCPU_OPT_FULL w1))"
  let ?E = "demo_env ((\<lambda>_. 0)(0x0400 := u))"
  obtain left w4 h4 where f: "flushUpTo host_c64_bus ?E 1 (w3, host_bus_new) = (left, w4, h4)" by (metis prod_cases3)
  have w1: "onRamWrite (demo_env (\<lambda>_. 0)) 0x0400 v demo_start = (True, w1)"
    by (simp add: w1_def onRamWrite_def relocate_write_def mirror_write_def demo_start_simps demo_mirrors eliminates_def)
  have r: "wb_reachable host_c64_bus (\<lambda>_ _. 0) False w3 host_bus_new"
    unfolding w3_def
    by (intro wb_reachable.store wb_reachable.mode)
      (use wb_reachable.store [OF demo_reachable, where E = "demo_env (\<lambda>_. 0)" and a = "0x0400" and v = v] w1 in simp)
  have inv: "wb_inv w3" "np_inv (\<lambda>_ _. 0) False w3" using reachable_inv [OF r] by simp_all
  have q1: "queue w1 = [0x0400]"
    using enqueue_spec [OF demo_start_inv, of "0x0400" v] by (simp add: w1_def queue_add_def demo_start_simps)
  have d1: "wb_DeliveryEnabled w1" "wb_Bus w1" "wb_PendingValue w1 0x0400 = v"
    by (simp_all add: w1_def demo_start_simps) (simp add: enqueue_def Let_def demo_start_simps setDirty_def isDirty_def)
  have w3: "w3 = unsync 0x0400 (on_stats (\<lambda>s. s\<lparr>st_WritesSkipped := st_WritesSkipped s + 1\<rparr>) (setOptMode SCPU_OPT_FULL w1))"
    using d1(1) unfolding w3_def
    by (simp add: onRamWrite_def relocate_write_def mirror_write_def shouldMirror_def policy_refuses_def countSuppressed_def setOptMode_def)
  have q3: "queue w3 = [0x0400]" "wb_DeliveryEnabled w3" "wb_Bus w3" "wb_PendingValue w3 0x0400 = v"
    using q1 d1 by (simp_all add: w3 unsync_def setOptMode_def queue_def)
  have cnt: "wb_Count w3 = 1" using arg_cong [OF q3(1), of length] by simp
  note F = host.flushUpTo_spec [OF inv q3(3) one_neq_zero f, unfolded cnt min.idem]
  have w4: "queue w4 = []" "\<not> isDirty w4 0x0400" "bitmap_get (wb_Synced w4) 0x0400" "wb_DeliveryEnabled w4"
    using F(2) q3(1,2) flushUpTo_delivery [OF f] by (simp_all add: drained_def)
  have m: "h_Memory h4 0x0400 = v" using F(3) q3(1,4) by (simp add: drained_dram_def)
  have "stale_run v u = (setOptMode SCPU_OPT_DEFAULT w4, h4)"
    unfolding stale_run_def Let_def w1 snd_conv w3_def [symmetric] f by simp
  then show ?thesis using w4 m
    by (simp add: onRamWrite_def relocate_write_def mirror_write_def shouldMirror_def policy_refuses_def io_window_def
        eliminates_def isDirty_def Let_def) (simp add: setOptMode_def mode_range_def queue_def)
qed

end
