(* ===== verification/Banking.thy ===== *)
theory Banking
  imports Prelude
begin

text \<open>
  The C64 banking model: \<open>Source/C64/banking.h\<close> and \<open>banking.cpp\<close>. The lookup table
  \<open>c64RegionTable\<close> is a function of mode and page; \<open>c64BankingInit\<close> fills it entry by entry like the
  nested loops of the source. \<open>c64AddrIsVicVisible\<close> is the constant \<open>true\<close> and has no definition.
\<close>

unbundle bit_operations_syntax

section \<open>Regions and configuration\<close>

datatype C64Region =
  REG_RAM | REG_BASIC | REG_KERNAL | REG_CHARROM | REG_IO | REG_CART_ROML | REG_CART_ROMH | REG_OPEN

record C64BankConfig =
  cfg_port01 :: u8
  cfg_game :: u8
  cfg_exrom :: u8

definition c64BankMode :: "C64BankConfig \<Rightarrow> u8" where
  "c64BankMode cfg =
     (cfg_port01 cfg AND 0x07) OR push_bit 3 (cfg_game cfg AND 1) OR push_bit 4 (cfg_exrom cfg AND 1)"

definition c64PortEffective :: "u8 \<Rightarrow> u8 \<Rightarrow> u8" where
  "c64PortEffective ddr00 port01 = ((port01 AND ddr00) OR NOT ddr00) AND 0x07"

definition C64_PORT_INPUT_LEVELS :: u8 where "C64_PORT_INPUT_LEVELS = 0x17"

definition c64PortRead :: "u8 \<Rightarrow> u8 \<Rightarrow> u8" where
  "c64PortRead ddr00 port01 = ((port01 AND ddr00) OR (C64_PORT_INPUT_LEVELS AND NOT ddr00)) AND 0x3F"

section \<open>The region table\<close>

type_synonym region_table = "nat \<Rightarrow> nat \<Rightarrow> C64Region"

definition region_entry :: "nat \<Rightarrow> nat \<Rightarrow> C64Region" where
  "region_entry mode page =
     (let loram = bit mode 0; hiram = bit mode 1; charen = bit mode 2; game = bit mode 3; exrom = bit mode 4;
          ultimax = \<not> game \<and> exrom
      in if ultimax then
           if page = 0x0 then REG_RAM
           else if page \<ge> 0x8 \<and> page \<le> 0x9 then REG_CART_ROML
           else if page = 0xD then REG_IO
           else if page \<ge> 0xE then REG_CART_ROMH
           else REG_OPEN
         else if page = 0x8 \<or> page = 0x9 then
           if \<not> exrom \<and> loram \<and> hiram then REG_CART_ROML else REG_RAM
         else if page = 0xA \<or> page = 0xB then
           if \<not> game \<and> \<not> exrom \<and> loram \<and> hiram then REG_CART_ROMH
           else if game \<and> loram \<and> hiram then REG_BASIC
           else REG_RAM
         else if page = 0xD then
           if \<not> loram \<and> \<not> hiram then REG_RAM else if \<not> charen then REG_CHARROM else REG_IO
         else if page = 0xE \<or> page = 0xF then
           if hiram then REG_KERNAL else REG_RAM
         else REG_RAM)"

definition set_entry :: "nat \<Rightarrow> nat \<Rightarrow> C64Region \<Rightarrow> region_table \<Rightarrow> region_table" where
  "set_entry mode page r t = t(mode := (t mode)(page := r))"

definition c64BankingInit :: "region_table \<Rightarrow> region_table" where
  "c64BankingInit t =
     fold (\<lambda>mode t. fold (\<lambda>page. set_entry mode page (region_entry mode page)) [0..<16] t) [0..<32] t"

definition c64MapRead :: "region_table \<Rightarrow> u16 \<Rightarrow> u8 \<Rightarrow> C64Region" where
  "c64MapRead t a mode = t (unat (mode AND 31)) (unat (drop_bit 12 a))"

definition c64WriteIsIO :: "region_table \<Rightarrow> u16 \<Rightarrow> u8 \<Rightarrow> bool" where
  "c64WriteIsIO t a mode \<longleftrightarrow> t (unat (mode AND 31)) (unat (drop_bit 12 a)) = REG_IO"

section \<open>The initialised table\<close>

lemma init_page:
  "fold (\<lambda>page. set_entry m page (f page)) ps t = t(m := (\<lambda>p. if p \<in> set ps then f p else t m p))"
  by (induction ps arbitrary: t) (auto simp: set_entry_def fun_eq_iff)

lemma init_fold:
  "fold (\<lambda>mode t. fold (\<lambda>page. set_entry mode page (f mode page)) ps t) ms t m p
    = (if m \<in> set ms \<and> p \<in> set ps then f m p else t m p)"
  by (induction ms arbitrary: t) (auto simp: init_page)

lemma init_entry: "m < 32 \<Longrightarrow> p < 16 \<Longrightarrow> c64BankingInit t m p = region_entry m p"
  unfolding c64BankingInit_def init_fold by simp

definition c64RegionTable :: region_table where
  "c64RegionTable = c64BankingInit (\<lambda>_ _. REG_RAM)"

lemma unat_drop: "unat (drop_bit n x) = unat x div 2 ^ n" for x :: "'a::len word"
  unfolding unsigned_drop_bit_eq using unsigned_less [of x, where 'a = nat]
  by (simp add: drop_bit_eq_div take_bit_nat_eq_self)

lemma page_less: "unat (drop_bit 12 (a :: u16)) < 16"
  using unsigned_less [of a, where 'a = nat] unfolding unat_drop by simp

lemma mode_less: "unat ((m :: u8) AND 31) < 32"
  using word_and_le1 [of m 31] by (simp add: word_le_nat_alt)

lemma map_entry: "c64MapRead c64RegionTable a m = region_entry (unat (m AND 31)) (unat a div 4096)"
  using init_entry [OF mode_less page_less] by (simp add: c64MapRead_def c64RegionTable_def unat_drop)

lemma write_is_io: "c64WriteIsIO t a m \<longleftrightarrow> c64MapRead t a m = REG_IO"
  by (simp add: c64WriteIsIO_def c64MapRead_def)

lemma mode_bits:
  "bit (unat (c64BankMode cfg AND 31)) 0 = bit (cfg_port01 cfg) 0" "bit (unat (c64BankMode cfg AND 31)) 1 = bit (cfg_port01 cfg) 1"
  "bit (unat (c64BankMode cfg AND 31)) 2 = bit (cfg_port01 cfg) 2" "bit (unat (c64BankMode cfg AND 31)) 3 = bit (cfg_game cfg) 0"
  "bit (unat (c64BankMode cfg AND 31)) 4 = bit (cfg_exrom cfg) 0"
  by (simp_all add: c64BankMode_def bit_simps)

section \<open>The documented map\<close>

text \<open>The map by address ranges, as the memory-map documentation states it for a machine without a
  cartridge, and the Ultimax map.\<close>

definition between :: "u16 \<Rightarrow> u16 \<Rightarrow> u16 \<Rightarrow> bool" where
  "between lo hi a \<longleftrightarrow> lo \<le> a \<and> a \<le> hi"

definition plain_map :: "bool \<Rightarrow> bool \<Rightarrow> bool \<Rightarrow> u16 \<Rightarrow> C64Region" where
  "plain_map loram hiram charen a =
     (if between 0xA000 0xBFFF a \<and> loram \<and> hiram then REG_BASIC
      else if between 0xD000 0xDFFF a \<and> (loram \<or> hiram) then if charen then REG_IO else REG_CHARROM
      else if between 0xE000 0xFFFF a \<and> hiram then REG_KERNAL
      else REG_RAM)"

definition ultimax_map :: "u16 \<Rightarrow> C64Region" where
  "ultimax_map a =
     (if between 0 0x0FFF a then REG_RAM
      else if between 0x8000 0x9FFF a then REG_CART_ROML
      else if between 0xD000 0xDFFF a then REG_IO
      else if between 0xE000 0xFFFF a then REG_CART_ROMH
      else REG_OPEN)"

lemma between_page:
  assumes "unat lo = 4096 * k" "unat hi + 1 = 4096 * m"
  shows "between lo hi a \<longleftrightarrow> k \<le> unat a div 4096 \<and> unat a div 4096 < m"
proof -
  have "between lo hi a \<longleftrightarrow> k * 4096 \<le> unat a \<and> unat a < m * 4096"
    using assms by (auto simp: between_def word_le_nat_alt)
  then show ?thesis by (simp add: less_eq_div_iff_mult_less_eq div_less_iff_less_mult)
qed

lemma page_ranges:
  "between 0xA000 0xBFFF a \<longleftrightarrow> 10 \<le> unat a div 4096 \<and> unat a div 4096 < 12"
  "between 0x8000 0x9FFF a \<longleftrightarrow> 8 \<le> unat a div 4096 \<and> unat a div 4096 < 10"
  "between 0xD000 0xDFFF a \<longleftrightarrow> 13 \<le> unat a div 4096 \<and> unat a div 4096 < 14"
  "between 0xE000 0xFFFF a \<longleftrightarrow> 14 \<le> unat a div 4096 \<and> unat a div 4096 < 16"
  "between 0 0x0FFF a \<longleftrightarrow> unat a div 4096 < 1"
  by (simp_all add: between_page [where k = 10 and m = 12] between_page [where k = 8 and m = 10]
      between_page [where k = 13 and m = 14] between_page [where k = 14 and m = 16] between_page [where k = 0 and m = 1])

lemma page_cases: "n \<le> 15 \<Longrightarrow> n \<in> {0, 1, 2, 3, 4, 5, 6, 7, 8, 9, 10, 11, 12, 13, 14, 15}" for n :: nat
  unfolding insert_iff empty_iff by presburger

text \<open>C14. The region table built by \<open>c64BankingInit\<close> is the documented map: with both cartridge lines
  released the region of every address is decided by the LORAM, HIRAM and CHAREN levels as the
  memory-map document lists it, and with /GAME low and /EXROM high it is the Ultimax map whatever the
  port holds. A write goes to I/O exactly where a read would.\<close>

theorem banking_matches_document:
  "(bit (cfg_game cfg) 0 \<and> bit (cfg_exrom cfg) 0 \<longrightarrow>
      c64MapRead c64RegionTable a (c64BankMode cfg)
        = plain_map (bit (cfg_port01 cfg) 0) (bit (cfg_port01 cfg) 1) (bit (cfg_port01 cfg) 2) a)
   \<and> (\<not> bit (cfg_game cfg) 0 \<and> bit (cfg_exrom cfg) 0 \<longrightarrow>
        c64MapRead c64RegionTable a (c64BankMode cfg) = ultimax_map a)
   \<and> c64WriteIsIO c64RegionTable a (c64BankMode cfg) = (c64MapRead c64RegionTable a (c64BankMode cfg) = REG_IO)"
proof -
  define n where "n = unat a div 4096"
  have "n \<le> 15" using unsigned_less [of a, where 'a = nat] by (simp add: n_def)
  from page_cases [OF this] show ?thesis
    unfolding map_entry write_is_io region_entry_def Let_def mode_bits plain_map_def ultimax_map_def page_ranges n_def [symmetric]
    by (elim insertE emptyE) simp_all
qed

theorem banking_matches_document_witness:
  "c64MapRead c64RegionTable 0xD020 (c64BankMode \<lparr>cfg_port01 = 0x37, cfg_game = 1, cfg_exrom = 1\<rparr>) = REG_IO
   \<and> c64MapRead c64RegionTable 0xA000 (c64BankMode \<lparr>cfg_port01 = 0x36, cfg_game = 1, cfg_exrom = 1\<rparr>) = REG_RAM
   \<and> c64MapRead c64RegionTable 0xA000 (c64BankMode \<lparr>cfg_port01 = 0x37, cfg_game = 0, cfg_exrom = 1\<rparr>) = REG_OPEN"
  using banking_matches_document [of "\<lparr>cfg_port01 = 0x37, cfg_game = 1, cfg_exrom = 1\<rparr>" "0xD020"]
    banking_matches_document [of "\<lparr>cfg_port01 = 0x36, cfg_game = 1, cfg_exrom = 1\<rparr>" "0xA000"]
    banking_matches_document [of "\<lparr>cfg_port01 = 0x37, cfg_game = 0, cfg_exrom = 1\<rparr>" "0xA000"]
  by (simp add: plain_map_def ultimax_map_def between_def)

text \<open>The levels that reach the banking logic are those software reads back at \<open>$0001\<close>.\<close>

lemma port_levels: "c64PortRead ddr p AND 0x07 = c64PortEffective ddr p"
  by (rule word8_eqI) (simp_all add: c64PortRead_def c64PortEffective_def C64_PORT_INPUT_LEVELS_def bit_simps)

lemma port_outputs: "c64PortRead ddr p AND (ddr AND 0x3F) = p AND (ddr AND 0x3F)"
  by (rule bit_word_eqI) (auto simp: c64PortRead_def bit_simps)
end
