(* ===== verification/FastRam.thy ===== *)
theory FastRam
  imports Prelude
begin

text \<open>
  SuperRAM: \<open>CFastRAM\<close> of \<open>Source/SuperCPU/fast_ram.h\<close> and \<open>fast_ram.cpp\<close>, every operation. The
  allocated buffer is a function on offsets, \<open>None\<close> when \<open>m_RAM\<close> is null; \<open>malloc\<close> may fail, so
  \<open>fast_init\<close> takes its outcome as an argument.
\<close>

unbundle bit_operations_syntax

definition SCPU_SIMM_NONE :: u32 where "SCPU_SIMM_NONE = 0"
definition SCPU_SIMM_1MB :: u32 where "SCPU_SIMM_1MB = 1"
definition SCPU_SIMM_4MB :: u32 where "SCPU_SIMM_4MB = 4"
definition SCPU_SIMM_8MB :: u32 where "SCPU_SIMM_8MB = 8"
definition SCPU_SIMM_16MB :: u32 where "SCPU_SIMM_16MB = 16"

record fast_ram =
  f_RAM :: "(u32 \<Rightarrow> u8) option"
  f_Size :: u32
  f_Mask :: u32
  f_DecodeMask :: u32
  f_RowMask :: u32
  f_LastCell :: u32
  f_Config :: u8

definition fast_new :: fast_ram where
  "fast_new = \<lparr> f_RAM = None, f_Size = 0, f_Mask = 0, f_DecodeMask = 0, f_RowMask = NOT (8192 - 1),
     f_LastCell = 0, f_Config = 4 \<rparr>"

definition fast_present :: "fast_ram \<Rightarrow> bool" where
  "fast_present f \<longleftrightarrow> f_Size f \<noteq> 0"

definition fast_sizeMB :: "fast_ram \<Rightarrow> u32" where
  "fast_sizeMB f = drop_bit 20 (f_Size f)"

text \<open>\<open>configuredBytes\<close> and \<open>rowBytes\<close> of \<open>setConfig\<close>\<close>

definition simm_geometry :: "u8 \<Rightarrow> u32 \<times> u32" where
  "simm_geometry value =
     (let c = value AND 7
      in if c = 0 then (push_bit 20 1, 2048)
         else if c = 1 then (push_bit 20 4, 4096)
         else if c = 2 then (push_bit 20 8, 4096)
         else if c = 3 then (push_bit 20 16, 4096)
         else (push_bit 20 16, 8192))"

definition fast_setConfig :: "u8 \<Rightarrow> fast_ram \<Rightarrow> fast_ram" where
  "fast_setConfig value f =
     (let (configuredBytes, rowBytes) = simm_geometry value;
          decoded = (if f_Size f \<noteq> 0 \<and> f_Size f < configuredBytes then f_Size f else configuredBytes)
      in f\<lparr>f_Config := value, f_DecodeMask := (if decoded \<noteq> 0 then decoded - 1 else 0),
           f_RowMask := NOT (rowBytes - 1), f_LastCell := 0\<rparr>)"

definition fast_init :: "bool \<Rightarrow> u32 \<Rightarrow> fast_ram \<Rightarrow> bool \<times> fast_ram" where
  "fast_init malloc_ok megabytes f =
     (let f = f\<lparr>f_RAM := None, f_Size := 0, f_Mask := 0, f_DecodeMask := 0\<rparr>
      in if megabytes < SCPU_SIMM_1MB then (True, f)
         else
           let mb = (if megabytes \<ge> SCPU_SIMM_16MB then SCPU_SIMM_16MB
                     else if megabytes \<ge> SCPU_SIMM_8MB then SCPU_SIMM_8MB
                     else if megabytes \<ge> SCPU_SIMM_4MB then SCPU_SIMM_4MB
                     else SCPU_SIMM_1MB);
               bytes = push_bit 20 mb
           in if \<not> malloc_ok then (False, f)
              else (True, fast_setConfig 4 (f\<lparr>f_RAM := Some (\<lambda>_. 0), f_Size := bytes, f_Mask := bytes - 1\<rparr>)))"

definition accessPenaltyHalfCycles :: "u32 \<Rightarrow> bool \<Rightarrow> fast_ram \<Rightarrow> u32 \<times> fast_ram" where
  "accessPenaltyHalfCycles offset is_write f =
     (if f_Size f = 0 then (0, f)
      else
        let addr = offset AND f_DecodeMask f;
            moved = f\<lparr>f_LastCell := addr\<rparr>;
            otherRow = ((f_LastCell f XOR addr) AND f_RowMask f \<noteq> 0)
        in if is_write then (if otherRow then 4 else 2, moved)
           else if (f_LastCell f XOR addr) AND NOT 3 = 0 then (0, f)
           else if otherRow then (5, moved)
           else if ((f_LastCell f + 4) XOR addr) AND NOT 3 = 0 then (0, moved)
           else (2, moved))"

definition fast_read :: "fast_ram \<Rightarrow> u32 \<Rightarrow> u8" where
  "fast_read f offset =
     (case f_RAM f of
        Some ram \<Rightarrow> if f_Size f \<noteq> 0 then ram (offset AND f_DecodeMask f) else 0
      | None \<Rightarrow> 0)"

definition fast_write :: "u32 \<Rightarrow> u8 \<Rightarrow> fast_ram \<Rightarrow> fast_ram" where
  "fast_write offset v f =
     (case f_RAM f of
        Some ram \<Rightarrow> if f_Size f \<noteq> 0 then f\<lparr>f_RAM := Some (ram(offset AND f_DecodeMask f := v))\<rparr> else f
      | None \<Rightarrow> f)"

section \<open>Reachable states\<close>

inductive simm_reachable :: "fast_ram \<Rightarrow> bool" where
  new: "simm_reachable fast_new"
| init: "simm_reachable f \<Longrightarrow> simm_reachable (snd (fast_init malloc_ok mb f))"
| config: "simm_reachable f \<Longrightarrow> simm_reachable (fast_setConfig value f)"
| penalty: "simm_reachable f \<Longrightarrow> simm_reachable (snd (accessPenaltyHalfCycles offset w f))"
| store: "simm_reachable f \<Longrightarrow> simm_reachable (fast_write offset v f)"

text \<open>Both the fitted and the decoded size are powers of two, the decoded one not above the fitted one.\<close>

definition simm_inv :: "fast_ram \<Rightarrow> bool" where
  "simm_inv f \<longleftrightarrow>
     (f_Size f \<noteq> 0 \<longrightarrow>
       f_RAM f \<noteq> None \<and> (\<exists>k \<in> {20, 22, 23, 24}. f_Size f = 2 ^ k) \<and>
       (\<exists>d \<in> {20, 22, 23, 24}. f_DecodeMask f = 2 ^ d - 1 \<and> unat (f_DecodeMask f) + 1 \<le> unat (f_Size f)))"

lemma setConfig_inv:
  assumes "f_Size f \<noteq> 0 \<longrightarrow> f_RAM f \<noteq> None \<and> (\<exists>k \<in> {20, 22, 23, 24}. f_Size f = 2 ^ k)"
  shows "simm_inv (fast_setConfig value f)"
proof -
  let ?c = "fst (simm_geometry value)"
  have c: "?c \<in> {2 ^ 20, 2 ^ 22, 2 ^ 23, 2 ^ 24}" by (simp add: simm_geometry_def Let_def)
  show ?thesis
  proof (cases "f_Size f = 0")
    case True then show ?thesis by (simp add: simm_inv_def fast_setConfig_def Let_def split: prod.split)
  next
    case False
    then obtain k where k: "k \<in> {20, 22, 23, 24 :: nat}" "f_Size f = 2 ^ k" "f_RAM f \<noteq> None" using assms by blast
    have dm: "f_DecodeMask (fast_setConfig value f) = (if f_Size f < ?c then f_Size f else ?c) - 1"
      using c False by (auto simp: fast_setConfig_def Let_def case_prod_unfold)
    have fr: "f_Size (fast_setConfig value f) = 2 ^ k" "f_RAM (fast_setConfig value f) \<noteq> None"
      using k by (simp_all add: fast_setConfig_def Let_def case_prod_unfold)
    show ?thesis unfolding simm_inv_def dm fr(1) using fr(2) k(1,2) c by (auto simp: word_less_nat_alt)
  qed
qed

lemma simm_reachable_inv: "simm_reachable f \<Longrightarrow> simm_inv f"
proof (induction rule: simm_reachable.induct)
  case new then show ?case by (simp add: simm_inv_def fast_new_def)
next
  case (init f malloc_ok mb)
  have "simm_inv (fast_setConfig 4 f')" if "f_RAM f' \<noteq> None" "f_Size f' = push_bit 20 n" "n \<in> {1, 4, 8, 16}" for f' and n :: u32
    by (rule setConfig_inv) (use that in \<open>auto\<close>)
  then show ?case
    by (auto simp: fast_init_def Let_def SCPU_SIMM_1MB_def SCPU_SIMM_4MB_def SCPU_SIMM_8MB_def SCPU_SIMM_16MB_def simm_inv_def)
next
  case (config f val)
  show ?case by (rule setConfig_inv) (use config.IH in \<open>auto simp: simm_inv_def\<close>)
next
  case (penalty f offset w)
  then show ?case by (auto simp: accessPenaltyHalfCycles_def Let_def simm_inv_def)
next
  case (store f offset v)
  then show ?case by (auto simp: fast_write_def simm_inv_def split: option.split)
qed

lemma mask_mod:
  assumes "m = 2 ^ d - 1" "d \<in> {20, 22, 23, 24}"
  shows "unat (x AND m) = unat x mod (unat (m :: u32) + 1)"
proof -
  have m: "m = mask d" using assms(1) by (simp add: mask_eq_exp_minus_1)
  have "unat m + 1 = 2 ^ d"
    using assms(2) unfolding assms(1) by auto
  moreover have "unat (x AND m) = unat x mod 2 ^ d"
    unfolding m take_bit_eq_mask [symmetric] unsigned_take_bit_eq by (simp add: take_bit_eq_mod)
  ultimately show ?thesis by simp
qed

lemma simm_index:
  assumes "simm_inv f" "f_Size f \<noteq> 0"
  shows "unat (x AND f_DecodeMask f) = unat x mod (unat (f_DecodeMask f) + 1)" "x AND f_DecodeMask f < f_Size f"
    "f_RAM f \<noteq> None"
proof -
  obtain d where d: "d \<in> {20, 22, 23, 24 :: nat}" "f_DecodeMask f = 2 ^ d - 1" "unat (f_DecodeMask f) + 1 \<le> unat (f_Size f)"
    "f_RAM f \<noteq> None" using assms unfolding simm_inv_def by blast
  show r: "unat (x AND f_DecodeMask f) = unat x mod (unat (f_DecodeMask f) + 1)"
    by (rule mask_mod [OF d(2,1)])
  have "unat x mod (unat (f_DecodeMask f) + 1) < unat (f_DecodeMask f) + 1" by simp
  then show "x AND f_DecodeMask f < f_Size f" using d(3) unfolding r [symmetric] word_less_nat_alt by linarith
  show "f_RAM f \<noteq> None" by (rule d(4))
qed

text \<open>In every reachable state of the SIMM the masked offset of a read or a write is inside the
  allocated buffer, and the buffer exists: the accesses are memory safe without a bounds check.\<close>

theorem simm_access_in_bounds:
  assumes "simm_reachable f"
  shows "f_Size f = 0 \<or> (offset AND f_DecodeMask f < f_Size f \<and> f_RAM f \<noteq> None)"
  using simm_index [OF simm_reachable_inv [OF assms]] by blast

theorem simm_access_in_bounds_witness:
  "0xFFFFFFFF AND f_DecodeMask (fast_setConfig 1 (snd (fast_init True 16 fast_new))) < 0x1000000"
proof -
  have s: "f_Size (fast_setConfig 1 (snd (fast_init True 16 fast_new))) = 0x1000000"
    by (simp add: fast_init_def fast_setConfig_def Let_def simm_geometry_def SCPU_SIMM_1MB_def SCPU_SIMM_16MB_def)
  show ?thesis
    using simm_access_in_bounds [OF simm_reachable.config [OF simm_reachable.init [OF simm_reachable.new]], of 1 True 16 "0xFFFFFFFF"]
    by (simp add: s)
qed

lemma simm_aliases:
  assumes "simm_reachable f" "fast_present f"
  shows "fast_read (fast_write x v f) y
    = (if unat x mod (unat (f_DecodeMask f) + 1) = unat y mod (unat (f_DecodeMask f) + 1) then v else fast_read f y)"
proof -
  have s: "f_Size f \<noteq> 0" using assms(2) by (simp add: fast_present_def)
  note i = simm_index [OF simm_reachable_inv [OF assms(1)] s]
  obtain ram where ram: "f_RAM f = Some ram" using i(3) by blast
  have "(x AND f_DecodeMask f = y AND f_DecodeMask f)
     \<longleftrightarrow> unat x mod (unat (f_DecodeMask f) + 1) = unat y mod (unat (f_DecodeMask f) + 1)"
    unfolding i(1) [symmetric] by (rule word_unat_eq_iff)
  then show ?thesis using s ram by (auto simp: fast_read_def fast_write_def)
qed

text \<open>A fitted SIMM aliases: with the decoded size \<open>D\<close> (the smaller of the fitted and the
  configured size) a byte written at one offset is read back at every offset congruent to it modulo
  \<open>D\<close>, and no other offset changes. Software sizes the memory by this.\<close>

theorem simm_write_aliases:
  assumes "simm_reachable f" "fast_present f"
  shows "fast_read (fast_write x v f) y
    = (if unat x mod (unat (f_DecodeMask f) + 1) = unat y mod (unat (f_DecodeMask f) + 1) then v else fast_read f y)"
  by (rule simm_aliases [OF assms])

theorem simm_write_aliases_witness:
  "fast_read (fast_write 0x000010 7 (snd (fast_init True 4 fast_new))) 0x400010 = 7"
proof -
  let ?f = "snd (fast_init True 4 fast_new)"
  have f: "f_DecodeMask ?f = 0x3FFFFF" "fast_present ?f"
    by (simp_all add: fast_init_def fast_setConfig_def Let_def simm_geometry_def SCPU_SIMM_1MB_def SCPU_SIMM_16MB_def
        SCPU_SIMM_8MB_def SCPU_SIMM_4MB_def fast_present_def)
  show ?thesis
    using simm_write_aliases [OF simm_reachable.init [OF simm_reachable.new] f(2), of "0x000010" 7 "0x400010"] by (simp add: f(1))
qed
end
