(* ===== verification/ScpuRegs.thy ===== *)
theory ScpuRegs
  imports FastRam WriteBufferRing
begin

text \<open>
  The hardware registers of the SuperCPU: \<open>CSuperCPURegisters\<close> of \<open>Source/SuperCPU/registers.h\<close> and
  \<open>registers.cpp\<close>, every operation.

  The objects the registers drive are part of the state: the write buffer, the SIMM, bank 1, the
  bootmap flag and the KERNAL window base of the C64 memory (each \<open>None\<close> when the pointer is null), and
  the number of calls of the speed hook (\<open>None\<close>: no hook). The live emulation flag and the active video
  mode are read through \<open>rg_EmulationFlag\<close> and \<open>rg_VideoHDMIActive\<close>.
\<close>

unbundle bit_operations_syntax

section \<open>Register addresses and bits\<close>

definition SCPU_REG_D071 :: u16 where "SCPU_REG_D071 = 0xD071"
definition SCPU_REG_SYS_1MHZ_ON :: u16 where "SCPU_REG_SYS_1MHZ_ON = 0xD072"
definition SCPU_REG_SYS_1MHZ_OFF :: u16 where "SCPU_REG_SYS_1MHZ_OFF = 0xD073"
definition SCPU_REG_OPT_VICBANK2 :: u16 where "SCPU_REG_OPT_VICBANK2 = 0xD074"
definition SCPU_REG_OPT_VICBANK1 :: u16 where "SCPU_REG_OPT_VICBANK1 = 0xD075"
definition SCPU_REG_OPT_BASIC :: u16 where "SCPU_REG_OPT_BASIC = 0xD076"
definition SCPU_REG_OPT_NONE :: u16 where "SCPU_REG_OPT_NONE = 0xD077"
definition SCPU_REG_SIMM_CONFIG :: u16 where "SCPU_REG_SIMM_CONFIG = 0xD078"
definition SCPU_REG_SOFT_1MHZ_ALT :: u16 where "SCPU_REG_SOFT_1MHZ_ALT = 0xD079"
definition SCPU_REG_SOFT_1MHZ_ON :: u16 where "SCPU_REG_SOFT_1MHZ_ON = 0xD07A"
definition SCPU_REG_SOFT_1MHZ_OFF :: u16 where "SCPU_REG_SOFT_1MHZ_OFF = 0xD07B"
definition SCPU_REG_D07C :: u16 where "SCPU_REG_D07C = 0xD07C"
definition SCPU_REG_HWREGS_ALT :: u16 where "SCPU_REG_HWREGS_ALT = 0xD07D"
definition SCPU_REG_HWREGS_ENABLE :: u16 where "SCPU_REG_HWREGS_ENABLE = 0xD07E"
definition SCPU_REG_HWREGS_DISABLE :: u16 where "SCPU_REG_HWREGS_DISABLE = 0xD07F"
definition SCPU_REG_VERSION :: u16 where "SCPU_REG_VERSION = 0xD0B0"
definition SCPU_REG_STATUS :: u16 where "SCPU_REG_STATUS = 0xD0B2"
definition SCPU_REG_OPTIM_V2 :: u16 where "SCPU_REG_OPTIM_V2 = 0xD0B3"
definition SCPU_REG_OPTIM :: u16 where "SCPU_REG_OPTIM = 0xD0B4"
definition SCPU_REG_SWITCHES :: u16 where "SCPU_REG_SWITCHES = 0xD0B5"
definition SCPU_REG_PROCMODE :: u16 where "SCPU_REG_PROCMODE = 0xD0B6"
definition SCPU_REG_BOOTMAP_ON :: u16 where "SCPU_REG_BOOTMAP_ON = 0xD0B7"
definition SCPU_REG_SPEEDFLAGS :: u16 where "SCPU_REG_SPEEDFLAGS = 0xD0B8"
definition SCPU_REG_SPEEDFLAGS_ALT :: u16 where "SCPU_REG_SPEEDFLAGS_ALT = 0xD0B9"
definition SCPU_REG_EMU_VIDEO :: u16 where "SCPU_REG_EMU_VIDEO = 0xD0BA"
definition SCPU_REG_DOSEXT :: u16 where "SCPU_REG_DOSEXT = 0xD0BC"
definition SCPU_REG_DOSEXT_ALT :: u16 where "SCPU_REG_DOSEXT_ALT = 0xD0BD"
definition SCPU_REG_DOSEXT_ON :: u16 where "SCPU_REG_DOSEXT_ON = 0xD0BE"
definition SCPU_REG_DOSEXT_OFF :: u16 where "SCPU_REG_DOSEXT_OFF = 0xD0BF"
definition SCPU_REG_STATUS_FIRST :: u16 where "SCPU_REG_STATUS_FIRST = 0xD0B0"
definition SCPU_REG_STATUS_LAST :: u16 where "SCPU_REG_STATUS_LAST = 0xD0BF"
definition SCPU_VERSION_V2 :: u8 where "SCPU_VERSION_V2 = 0x40"
definition SCPU_VERSION_V1 :: u8 where "SCPU_VERSION_V1 = 0xC0"
definition SCPU_STATUS_HWREGS :: u8 where "SCPU_STATUS_HWREGS = 0x80"
definition SCPU_STATUS_SYS_1MHZ :: u8 where "SCPU_STATUS_SYS_1MHZ = 0x40"
definition SCPU_SWITCH_JIFFYDOS :: u8 where "SCPU_SWITCH_JIFFYDOS = 0x80"
definition SCPU_SWITCH_1MHZ :: u8 where "SCPU_SWITCH_1MHZ = 0x40"
definition SCPU_PROC_EMULATION :: u8 where "SCPU_PROC_EMULATION = 0x80"
definition SCPU_SPEED_SOFT_1MHZ :: u8 where "SCPU_SPEED_SOFT_1MHZ = 0x80"
definition SCPU_SPEED_ANY_1MHZ :: u8 where "SCPU_SPEED_ANY_1MHZ = 0x40"
definition SCPU_DOS_EXTENSION :: u8 where "SCPU_DOS_EXTENSION = 0x80"
definition SCPU_DOS_RAMLINK :: u8 where "SCPU_DOS_RAMLINK = 0x40"
definition SCPU_EMU_VIDEO_KNOCK :: u8 where "SCPU_EMU_VIDEO_KNOCK = 0xA5"
definition SCPU_EMU_VIDEO_VIC :: u8 where "SCPU_EMU_VIDEO_VIC = 0x00"
definition SCPU_EMU_VIDEO_HDMI :: u8 where "SCPU_EMU_VIDEO_HDMI = 0x01"
definition SCPU_SYSRAM_BASE :: u16 where "SCPU_SYSRAM_BASE = 0xD200"
definition SCPU_SYSRAM_SIZE :: u16 where "SCPU_SYSRAM_SIZE = 0x0100"
definition SCPU_SYSRAM_ALWAYS_WRITABLE :: u16 where "SCPU_SYSRAM_ALWAYS_WRITABLE = 0xD27E"
definition SCPU_USERRAM_BASE :: u16 where "SCPU_USERRAM_BASE = 0xD300"
definition SCPU_USERRAM_SIZE :: u16 where "SCPU_USERRAM_SIZE = 0x0100"

lemmas scpu_consts = SCPU_REG_D071_def SCPU_REG_SYS_1MHZ_ON_def SCPU_REG_SYS_1MHZ_OFF_def
  SCPU_REG_OPT_VICBANK2_def SCPU_REG_OPT_VICBANK1_def SCPU_REG_OPT_BASIC_def SCPU_REG_OPT_NONE_def
  SCPU_REG_SIMM_CONFIG_def SCPU_REG_SOFT_1MHZ_ALT_def SCPU_REG_SOFT_1MHZ_ON_def
  SCPU_REG_SOFT_1MHZ_OFF_def SCPU_REG_D07C_def SCPU_REG_HWREGS_ALT_def SCPU_REG_HWREGS_ENABLE_def
  SCPU_REG_HWREGS_DISABLE_def SCPU_REG_VERSION_def SCPU_REG_STATUS_def SCPU_REG_OPTIM_V2_def
  SCPU_REG_OPTIM_def SCPU_REG_SWITCHES_def SCPU_REG_PROCMODE_def SCPU_REG_BOOTMAP_ON_def
  SCPU_REG_SPEEDFLAGS_def SCPU_REG_SPEEDFLAGS_ALT_def SCPU_REG_EMU_VIDEO_def SCPU_REG_DOSEXT_def
  SCPU_REG_DOSEXT_ALT_def SCPU_REG_DOSEXT_ON_def SCPU_REG_DOSEXT_OFF_def SCPU_REG_STATUS_FIRST_def
  SCPU_REG_STATUS_LAST_def SCPU_VERSION_V2_def SCPU_VERSION_V1_def SCPU_STATUS_HWREGS_def
  SCPU_STATUS_SYS_1MHZ_def SCPU_SWITCH_JIFFYDOS_def SCPU_SWITCH_1MHZ_def SCPU_PROC_EMULATION_def
  SCPU_SPEED_SOFT_1MHZ_def SCPU_SPEED_ANY_1MHZ_def SCPU_DOS_EXTENSION_def SCPU_DOS_RAMLINK_def
  SCPU_EMU_VIDEO_KNOCK_def SCPU_EMU_VIDEO_VIC_def SCPU_EMU_VIDEO_HDMI_def 
   SCPU_SYSRAM_BASE_def
  SCPU_SYSRAM_SIZE_def SCPU_SYSRAM_ALWAYS_WRITABLE_def SCPU_USERRAM_BASE_def SCPU_USERRAM_SIZE_def

section \<open>State\<close>

datatype SCPUHardwareVersion = SCPU_V1 | SCPU_V2

record scpu_regs =
  rg_RegWrites :: u64
  rg_WriteBuffer :: "wb option"
  rg_Version :: SCPUHardwareVersion
  rg_SCPU128Mode :: bool
  rg_Sys1MHz :: bool
  rg_Soft1MHz :: bool
  rg_SwitchSlow :: bool
  rg_SwitchJiffy :: bool
  rg_BootAnimHack :: bool
  rg_VideoSwitchAvailable :: bool
  rg_VideoDefaultHDMI :: bool
  rg_VideoRequestedHDMI :: bool
  rg_VideoKnockArmed :: bool
  rg_VideoHDMIActive :: "bool option"
  rg_HWRegsEnabled :: bool
  rg_Bootmap :: bool
  rg_BootmapFlag :: "bool option"
  rg_SpeedHook :: "nat option"
  rg_KernalShadowBase :: "u32 option"
  rg_DOSExt :: bool
  rg_RAMLink :: bool
  rg_EmulationMode :: bool
  rg_EmulationFlag :: "bool option"
  rg_SpeedChanged :: bool
  rg_Optim :: u8
  rg_SIMMConfig :: u8
  rg_SysRAM :: "u16 \<Rightarrow> u8"
  rg_UserRAM :: "u16 \<Rightarrow> u8"
  rg_ColorRAM :: "u16 \<Rightarrow> u8"
  rg_Bank1 :: "(u16 \<Rightarrow> u8) option"
  rg_FastRAM :: "fast_ram option"

section \<open>What the registers drive\<close>

definition fastMode :: "scpu_regs \<Rightarrow> bool" where
  "fastMode r \<longleftrightarrow> \<not> (rg_Sys1MHz r \<or> rg_Soft1MHz r \<or> (rg_SwitchSlow r \<and> \<not> rg_HWRegsEnabled r))"

definition interruptRerouteRequested :: "scpu_regs \<Rightarrow> bool" where
  "interruptRerouteRequested r \<longleftrightarrow> rg_HWRegsEnabled r \<or> rg_Sys1MHz r \<or> rg_DOSExt r \<or> rg_RAMLink r"

definition applyBootmap :: "scpu_regs \<Rightarrow> scpu_regs" where
  "applyBootmap r = r\<lparr>rg_BootmapFlag := map_option (\<lambda>_. rg_Bootmap r) (rg_BootmapFlag r)\<rparr>"

definition applyKernalShadow :: "scpu_regs \<Rightarrow> scpu_regs" where
  "applyKernalShadow r =
     r\<lparr>rg_KernalShadowBase := map_option (\<lambda>_. if rg_HWRegsEnabled r then 0x6000 else 0xE000) (rg_KernalShadowBase r)\<rparr>"

definition mirror_selector :: "u8 \<Rightarrow> u8" where
  "mirror_selector optim =
     (if has optim 0x01 then 0x01 else 0) OR (if has optim 0x04 then 0x02 else 0)
       OR (if has optim 0x40 then 0x04 else 0) OR (if has optim 0x80 then 0x08 else 0)"

definition select_mirror :: "u8 \<Rightarrow> wb \<Rightarrow> wb" where
  "select_mirror mirror w =
     (let w = setExcludeZeroPageStack False w
      in if mirror = 0 \<or> mirror = 1 then setOptMode SCPU_OPT_VICBANK2 w
         else if mirror = 2 then setOptMode SCPU_OPT_VICBANK0 w
         else if mirror = 3 then setOptMode SCPU_OPT_VICBANK0 (setExcludeZeroPageStack True w)
         else if mirror = 4 \<or> mirror = 5 then setOptMode SCPU_OPT_VICBANK1 w
         else if mirror = 6 \<or> mirror = 7 then setOptMode SCPU_OPT_VICBANK3 w
         else if mirror = 8 \<or> mirror = 9 then setOptMode SCPU_OPT_BASIC w
         else if mirror = 10 \<or> mirror = 11 then setOptMode SCPU_OPT_FULL w
         else if mirror = 12 \<or> mirror = 14 then setOptMode SCPU_OPT_NONE w
         else if mirror = 13 \<or> mirror = 15 then setOptMode SCPU_OPT_DEFAULT (setExcludeZeroPageStack True w)
         else w)"

definition applyOptimisation :: "scpu_regs \<Rightarrow> scpu_regs" where
  "applyOptimisation r =
     r\<lparr>rg_WriteBuffer := map_option (select_mirror (mirror_selector (rg_Optim r))) (rg_WriteBuffer r)\<rparr>"

definition applySIMMConfig :: "u8 \<Rightarrow> scpu_regs \<Rightarrow> scpu_regs" where
  "applySIMMConfig v r = r\<lparr>rg_FastRAM := map_option (fast_setConfig v) (rg_FastRAM r)\<rparr>"

definition noteSpeedChange :: "bool \<Rightarrow> scpu_regs \<Rightarrow> scpu_regs" where
  "noteSpeedChange wasFast r =
     (if fastMode r \<noteq> wasFast
      then r\<lparr>rg_SpeedChanged := True, rg_SpeedHook := map_option Suc (rg_SpeedHook r)\<rparr> else r)"

definition consumeSpeedChanged :: "scpu_regs \<Rightarrow> bool \<times> scpu_regs" where
  "consumeSpeedChanged r = (rg_SpeedChanged r, r\<lparr>rg_SpeedChanged := False\<rparr>)"

section \<open>Reset and configuration\<close>

definition regs_reset :: "scpu_regs \<Rightarrow> scpu_regs" where
  "regs_reset r =
     (let r = r\<lparr>rg_Sys1MHz := False, rg_Soft1MHz := False, rg_HWRegsEnabled := rg_SCPU128Mode r,
                rg_Bootmap := True, rg_DOSExt := False, rg_RAMLink := False,
                rg_VideoRequestedHDMI := rg_VideoDefaultHDMI r, rg_VideoKnockArmed := False,
                rg_SpeedChanged := True, rg_RegWrites := 0,
                rg_Optim := (if rg_SCPU128Mode r then 0xC1 else 0xC7), rg_SIMMConfig := 4\<rparr>;
          r = applySIMMConfig (rg_SIMMConfig r) r;
          r = r\<lparr>rg_SysRAM := (\<lambda>_. 0), rg_UserRAM := (\<lambda>_. 0), rg_ColorRAM := (\<lambda>_. 0)\<rparr>
      in applyKernalShadow (applyBootmap (applyOptimisation r)))"

definition regs_new :: scpu_regs where
  "regs_new = regs_reset
     \<lparr> rg_RegWrites = 0, rg_WriteBuffer = None, rg_Version = SCPU_V2, rg_SCPU128Mode = False,
       rg_Sys1MHz = False, rg_Soft1MHz = False, rg_SwitchSlow = False, rg_SwitchJiffy = True,
       rg_BootAnimHack = False, rg_VideoSwitchAvailable = False, rg_VideoDefaultHDMI = False,
       rg_VideoRequestedHDMI = False, rg_VideoKnockArmed = False, rg_VideoHDMIActive = None,
       rg_HWRegsEnabled = False, rg_Bootmap = True, rg_BootmapFlag = None, rg_SpeedHook = None,
       rg_KernalShadowBase = None, rg_DOSExt = False, rg_RAMLink = False, rg_EmulationMode = True,
       rg_EmulationFlag = None, rg_SpeedChanged = True, rg_Optim = 0xC7, rg_SIMMConfig = 4,
       rg_SysRAM = (\<lambda>_. 0), rg_UserRAM = (\<lambda>_. 0), rg_ColorRAM = (\<lambda>_. 0), rg_Bank1 = None, rg_FastRAM = None \<rparr>"

definition setSpeedSwitchAllowsTurbo :: "bool \<Rightarrow> scpu_regs \<Rightarrow> scpu_regs" where
  "setSpeedSwitchAllowsTurbo allow r =
     (let wasFast = fastMode r in noteSpeedChange wasFast (r\<lparr>rg_SwitchSlow := \<not> allow\<rparr>))"

definition regs_attach :: "wb option \<Rightarrow> scpu_regs \<Rightarrow> scpu_regs" where
  "regs_attach w r = applyOptimisation (r\<lparr>rg_WriteBuffer := w\<rparr>)"

definition attachFastRAM :: "fast_ram option \<Rightarrow> scpu_regs \<Rightarrow> scpu_regs" where
  "attachFastRAM f r = applySIMMConfig (rg_SIMMConfig r) (r\<lparr>rg_FastRAM := f\<rparr>)"

definition configureVideoSwitch :: "bool \<Rightarrow> bool \<Rightarrow> scpu_regs \<Rightarrow> scpu_regs" where
  "configureVideoSwitch available defaultHDMI r =
     r\<lparr>rg_VideoSwitchAvailable := available, rg_VideoDefaultHDMI := available \<and> defaultHDMI,
       rg_VideoRequestedHDMI := available \<and> defaultHDMI, rg_VideoKnockArmed := False\<rparr>"

definition trackBootmap :: "bool option \<Rightarrow> scpu_regs \<Rightarrow> scpu_regs" where
  "trackBootmap flag r = applyBootmap (r\<lparr>rg_BootmapFlag := flag\<rparr>)"

definition trackKernalShadow :: "u32 option \<Rightarrow> scpu_regs \<Rightarrow> scpu_regs" where
  "trackKernalShadow base r = applyKernalShadow (r\<lparr>rg_KernalShadowBase := base\<rparr>)"

section \<open>Private RAM\<close>

definition in_sysram :: "u16 \<Rightarrow> bool" where
  "in_sysram a \<longleftrightarrow> a \<ge> SCPU_SYSRAM_BASE \<and> a < SCPU_SYSRAM_BASE + SCPU_SYSRAM_SIZE"

definition in_userram :: "u16 \<Rightarrow> bool" where
  "in_userram a \<longleftrightarrow> a \<ge> SCPU_USERRAM_BASE \<and> a < SCPU_USERRAM_BASE + SCPU_USERRAM_SIZE"

definition bank1Read :: "scpu_regs \<Rightarrow> u16 \<Rightarrow> u8" where
  "bank1Read r a =
     (case rg_Bank1 r of
        Some b \<Rightarrow> b a
      | None \<Rightarrow>
          if in_sysram a then rg_SysRAM r (a - SCPU_SYSRAM_BASE)
          else if in_userram a then rg_UserRAM r (a - SCPU_USERRAM_BASE)
          else if a \<ge> 0xD800 \<and> a \<le> 0xDBFF then rg_ColorRAM r (a - 0xD800)
          else 0)"

definition bank1Write :: "u16 \<Rightarrow> u8 \<Rightarrow> scpu_regs \<Rightarrow> scpu_regs" where
  "bank1Write a v r =
     (case rg_Bank1 r of
        Some b \<Rightarrow> r\<lparr>rg_Bank1 := Some (b(a := v))\<rparr>
      | None \<Rightarrow>
          if in_sysram a then r\<lparr>rg_SysRAM := (rg_SysRAM r)(a - SCPU_SYSRAM_BASE := v)\<rparr>
          else if in_userram a then r\<lparr>rg_UserRAM := (rg_UserRAM r)(a - SCPU_USERRAM_BASE := v)\<rparr>
          else if a \<ge> 0xD800 \<and> a \<le> 0xDBFF then r\<lparr>rg_ColorRAM := (rg_ColorRAM r)(a - 0xD800 := v)\<rparr>
          else r)"

definition ioAccessNeedsStretch :: "u16 \<Rightarrow> bool \<Rightarrow> bool" where
  "ioAccessNeedsStretch a is_write \<longleftrightarrow>
     (if \<not> is_write then a \<ge> 0xD071 \<and> a \<le> 0xD07F
      else (a \<ge> 0xD071 \<and> a \<le> 0xD07F) \<or> (a \<ge> 0xD0B0 \<and> a \<le> 0xD0BF))"

definition ioAccessUsesWriteBuffer :: "scpu_regs \<Rightarrow> u16 \<Rightarrow> bool \<Rightarrow> bool" where
  "ioAccessUsesWriteBuffer r a is_write \<longleftrightarrow>
     (if \<not> is_write then False
      else if rg_Version r = SCPU_V2 \<and> a \<ge> 0xD800 \<and> a \<le> 0xDBFF then True
      else rg_HWRegsEnabled r \<and> a \<ge> 0xD200 \<and> a \<le> 0xD3FF)"

section \<open>Reading a register\<close>

definition flag8 :: "bool \<Rightarrow> u8 \<Rightarrow> u8" where
  "flag8 b v = (if b then v else 0)"

definition status_byte :: "scpu_regs \<Rightarrow> u16 \<Rightarrow> u8" where
  "status_byte r a =
     (if a = SCPU_REG_VERSION then
        if rg_SCPU128Mode r then 0x00 else if rg_Version r = SCPU_V2 then SCPU_VERSION_V2 else SCPU_VERSION_V1
      else if a = SCPU_REG_STATUS then
        flag8 (rg_HWRegsEnabled r) SCPU_STATUS_HWREGS OR flag8 (rg_Sys1MHz r) SCPU_STATUS_SYS_1MHZ
      else if a = SCPU_REG_OPTIM_V2 then if rg_Version r = SCPU_V2 then rg_Optim r AND 0xC0 else 0
      else if a = SCPU_REG_OPTIM then rg_Optim r AND 0xC0
      else if a = SCPU_REG_SWITCHES then
        flag8 (rg_SwitchJiffy r) SCPU_SWITCH_JIFFYDOS OR flag8 (rg_SwitchSlow r) SCPU_SWITCH_1MHZ
      else if a = SCPU_REG_PROCMODE then
        flag8 (case rg_EmulationFlag r of Some e \<Rightarrow> e | None \<Rightarrow> rg_EmulationMode r) SCPU_PROC_EMULATION
      else if a = SCPU_REG_SPEEDFLAGS \<or> a = SCPU_REG_SPEEDFLAGS_ALT then
        flag8 (rg_Soft1MHz r) SCPU_SPEED_SOFT_1MHZ
          OR flag8 (rg_Soft1MHz r \<or> (rg_SwitchSlow r \<and> \<not> rg_HWRegsEnabled r) \<or> rg_Sys1MHz r) SCPU_SPEED_ANY_1MHZ
      else if a = SCPU_REG_DOSEXT \<or> a = SCPU_REG_DOSEXT_ALT \<or> a = SCPU_REG_DOSEXT_ON \<or> a = SCPU_REG_DOSEXT_OFF then
        flag8 (rg_DOSExt r) SCPU_DOS_EXTENSION OR flag8 (rg_RAMLink r) SCPU_DOS_RAMLINK
      else 0)"

text \<open>The value, or \<open>None\<close> when the access is not claimed.\<close>

definition ioRead :: "u16 \<Rightarrow> scpu_regs \<Rightarrow> u8 option \<times> scpu_regs" where
  "ioRead a r =
     (if rg_Version r = SCPU_V2 \<and> a \<ge> 0xD800 \<and> a \<le> 0xDBFF then (Some (bank1Read r a), r)
      else if in_sysram a then
        if rg_BootAnimHack r \<and> a = 0xD20C \<and> \<not> rg_HWRegsEnabled r then (Some 0x00, r) else (Some (bank1Read r a), r)
      else if in_userram a then (Some (bank1Read r a), r)
      else if a < SCPU_REG_STATUS_FIRST \<or> a > SCPU_REG_STATUS_LAST then (None, r)
      else if a = SCPU_REG_EMU_VIDEO \<and> rg_VideoKnockArmed r then
        (Some (if (case rg_VideoHDMIActive r of Some x \<Rightarrow> x | None \<Rightarrow> rg_VideoRequestedHDMI r)
               then SCPU_EMU_VIDEO_HDMI else SCPU_EMU_VIDEO_VIC),
         r\<lparr>rg_VideoKnockArmed := False\<rparr>)
      else (Some (status_byte r a OR (rg_Optim r AND 0x07)), r))"

section \<open>Writing a register\<close>

definition when_open :: "scpu_regs \<Rightarrow> (scpu_regs \<Rightarrow> scpu_regs) \<Rightarrow> scpu_regs" where
  "when_open r f = (if rg_HWRegsEnabled r then f r else r)"

definition write_status :: "u8 \<Rightarrow> scpu_regs \<Rightarrow> scpu_regs" where
  "write_status v r =
     (let r = r\<lparr>rg_Sys1MHz := has v SCPU_STATUS_SYS_1MHZ\<rparr>
      in if \<not> has v SCPU_STATUS_HWREGS then applyKernalShadow (r\<lparr>rg_HWRegsEnabled := False\<rparr>) else r)"

definition write_register :: "u16 \<Rightarrow> u8 \<Rightarrow> scpu_regs \<Rightarrow> scpu_regs" where
  "write_register a v r =
     (if a = SCPU_REG_SYS_1MHZ_ON then r\<lparr>rg_Sys1MHz := True\<rparr>
      else if a = SCPU_REG_SYS_1MHZ_OFF then r\<lparr>rg_Sys1MHz := False\<rparr>
      else if a = SCPU_REG_SOFT_1MHZ_ON then r\<lparr>rg_Soft1MHz := True\<rparr>
      else if a = SCPU_REG_SOFT_1MHZ_ALT \<or> a = SCPU_REG_SOFT_1MHZ_OFF then r\<lparr>rg_Soft1MHz := False\<rparr>
      else if a = SCPU_REG_HWREGS_ENABLE then applyKernalShadow (r\<lparr>rg_HWRegsEnabled := True\<rparr>)
      else if a = SCPU_REG_HWREGS_ALT \<or> a = SCPU_REG_HWREGS_DISABLE then applyKernalShadow (r\<lparr>rg_HWRegsEnabled := False\<rparr>)
      else if a = SCPU_REG_OPT_VICBANK2 \<or> a = SCPU_REG_OPT_VICBANK1 \<or> a = SCPU_REG_OPT_BASIC \<or> a = SCPU_REG_OPT_NONE
      then when_open r (\<lambda>r. applyOptimisation (r\<lparr>rg_Optim := push_bit 6 (ucast (a AND 3))\<rparr>))
      else if a = SCPU_REG_SIMM_CONFIG then when_open r (\<lambda>r. applySIMMConfig v (r\<lparr>rg_SIMMConfig := v\<rparr>))
      else if a = SCPU_REG_STATUS then when_open r (write_status v)
      else if a = SCPU_REG_OPTIM_V2 then
        if rg_HWRegsEnabled r \<and> rg_Version r = SCPU_V2
        then applyOptimisation (r\<lparr>rg_Optim := (rg_Optim r AND 0x38) OR (v AND 0xC7)\<rparr>) else r
      else if a = SCPU_REG_OPTIM then
        when_open r (\<lambda>r. applyOptimisation (r\<lparr>rg_Optim := (rg_Optim r AND 0x3F) OR (v AND 0xC0)\<rparr>))
      else if a = SCPU_REG_SWITCHES then r\<lparr>rg_SwitchJiffy := has v SCPU_SWITCH_JIFFYDOS\<rparr>
      else if a = SCPU_REG_PROCMODE then when_open r (\<lambda>r. applyBootmap (r\<lparr>rg_Bootmap := False\<rparr>))
      else if a = SCPU_REG_BOOTMAP_ON then when_open r (\<lambda>r. applyBootmap (r\<lparr>rg_Bootmap := True\<rparr>))
      else if a = SCPU_REG_SPEEDFLAGS then when_open r (\<lambda>r. r\<lparr>rg_Soft1MHz := has v SCPU_SPEED_SOFT_1MHZ\<rparr>)
      else if a = SCPU_REG_DOSEXT then when_open r (\<lambda>r. r\<lparr>rg_DOSExt := has v SCPU_DOS_EXTENSION\<rparr>)
      else if a = SCPU_REG_DOSEXT_ON then when_open r (\<lambda>r. r\<lparr>rg_DOSExt := True\<rparr>)
      else if a = SCPU_REG_DOSEXT_ALT \<or> a = SCPU_REG_DOSEXT_OFF then r\<lparr>rg_DOSExt := False\<rparr>
      else r)"

definition write_video :: "u8 \<Rightarrow> scpu_regs \<Rightarrow> scpu_regs" where
  "write_video v r =
     (if rg_VideoKnockArmed r then
        let r = r\<lparr>rg_VideoKnockArmed := False\<rparr>
        in if rg_VideoSwitchAvailable r \<and> (v = SCPU_EMU_VIDEO_VIC \<or> v = SCPU_EMU_VIDEO_HDMI)
           then r\<lparr>rg_VideoRequestedHDMI := (v = SCPU_EMU_VIDEO_HDMI)\<rparr> else r
      else r\<lparr>rg_VideoKnockArmed := (v = SCPU_EMU_VIDEO_KNOCK)\<rparr>)"

text \<open>\<open>True\<close> when the write is claimed and does not go on to the C64 bus.\<close>

definition ioWrite :: "u16 \<Rightarrow> u8 \<Rightarrow> scpu_regs \<Rightarrow> bool \<times> scpu_regs" where
  "ioWrite a v r =
     (if a = 0xDF7E then (False, r\<lparr>rg_RAMLink := True\<rparr>)
      else if a = 0xDF7F then (False, r\<lparr>rg_RAMLink := False\<rparr>)
      else
        let r = (if rg_Version r = SCPU_V2
                    \<and> ((a \<ge> 0xD000 \<and> a \<le> 0xD1FF) \<or> (a \<ge> 0xD400 \<and> a \<le> 0xD5FF) \<or> (a \<ge> 0xD800 \<and> a \<le> 0xDDFF))
                 then bank1Write a v r else r)
        in if in_sysram a
           then (True, if rg_HWRegsEnabled r \<or> a = SCPU_SYSRAM_ALWAYS_WRITABLE then bank1Write a v r else r)
           else if in_userram a then (True, if rg_HWRegsEnabled r then bank1Write a v r else r)
           else if \<not> (a \<ge> SCPU_REG_D071 \<and> a \<le> SCPU_REG_HWREGS_DISABLE)
                 \<and> \<not> (a \<ge> SCPU_REG_STATUS_FIRST \<and> a \<le> SCPU_REG_STATUS_LAST)
           then (False, r)
           else
             let wasFast = fastMode r;
                 r = r\<lparr>rg_RegWrites := rg_RegWrites r + 1\<rparr>
             in if a = SCPU_REG_EMU_VIDEO then (True, write_video v r)
                else (True, noteSpeedChange wasFast (write_register a v r)))"
end
