(* ===== verification/ScpuRegsProps.thy ===== *)
theory ScpuRegsProps
  imports ScpuRegs
begin

text \<open>
  Properties of the SuperCPU registers: the speed notification is exact, the closed register bank is
  inert, the optimisation switches select the documented mirror regions, and the objects the registers
  drive stay in step with them (\<open>regs_reachable\<close>: every operation in any order).
\<close>

unbundle bit_operations_syntax

section \<open>What a register write leaves alone\<close>

lemma bank1Write_frame [simp]:
  "rg_SpeedHook (bank1Write a v r) = rg_SpeedHook r" "rg_SpeedChanged (bank1Write a v r) = rg_SpeedChanged r"
  "rg_HWRegsEnabled (bank1Write a v r) = rg_HWRegsEnabled r" "rg_Sys1MHz (bank1Write a v r) = rg_Sys1MHz r"
  "rg_Soft1MHz (bank1Write a v r) = rg_Soft1MHz r" "rg_SwitchSlow (bank1Write a v r) = rg_SwitchSlow r"
  "rg_RegWrites (bank1Write a v r) = rg_RegWrites r" "rg_WriteBuffer (bank1Write a v r) = rg_WriteBuffer r"
  "rg_Optim (bank1Write a v r) = rg_Optim r" "rg_FastRAM (bank1Write a v r) = rg_FastRAM r"
  "rg_SIMMConfig (bank1Write a v r) = rg_SIMMConfig r" "rg_Bootmap (bank1Write a v r) = rg_Bootmap r"
  "rg_BootmapFlag (bank1Write a v r) = rg_BootmapFlag r" "rg_KernalShadowBase (bank1Write a v r) = rg_KernalShadowBase r"
  "rg_Version (bank1Write a v r) = rg_Version r" "rg_VideoKnockArmed (bank1Write a v r) = rg_VideoKnockArmed r"
  "rg_VideoSwitchAvailable (bank1Write a v r) = rg_VideoSwitchAvailable r"
  "fastMode (bank1Write a v r) = fastMode r"
  by (simp_all add: bank1Write_def fastMode_def split: option.split)

lemma apply_frame [simp]:
  "rg_SpeedHook (applyOptimisation r) = rg_SpeedHook r" "rg_SpeedHook (applyBootmap r) = rg_SpeedHook r"
  "rg_SpeedHook (applyKernalShadow r) = rg_SpeedHook r" "rg_SpeedHook (applySIMMConfig c r) = rg_SpeedHook r"
  "rg_SpeedChanged (applyOptimisation r) = rg_SpeedChanged r" "rg_SpeedChanged (applyBootmap r) = rg_SpeedChanged r"
  "rg_SpeedChanged (applyKernalShadow r) = rg_SpeedChanged r" "rg_SpeedChanged (applySIMMConfig c r) = rg_SpeedChanged r"
  "fastMode (applyOptimisation r) = fastMode r" "fastMode (applyBootmap r) = fastMode r"
  "fastMode (applyKernalShadow r) = fastMode r" "fastMode (applySIMMConfig c r) = fastMode r"
  by (simp_all add: applyOptimisation_def applyBootmap_def applyKernalShadow_def applySIMMConfig_def fastMode_def)

lemma write_register_frame:
  "rg_SpeedHook (write_register a v r) = rg_SpeedHook r" "rg_SpeedChanged (write_register a v r) = rg_SpeedChanged r"
  by (simp_all add: write_register_def when_open_def write_status_def Let_def)

definition captured :: "u16 \<Rightarrow> u8 \<Rightarrow> scpu_regs \<Rightarrow> scpu_regs" where
  "captured a v r =
     (if rg_Version r = SCPU_V2 \<and> ((a \<ge> 0xD000 \<and> a \<le> 0xD1FF) \<or> (a \<ge> 0xD400 \<and> a \<le> 0xD5FF) \<or> (a \<ge> 0xD800 \<and> a \<le> 0xDDFF))
      then bank1Write a v r else r)"

lemma captured_frame [simp]:
  "rg_SpeedHook (captured a v r) = rg_SpeedHook r" "rg_SpeedChanged (captured a v r) = rg_SpeedChanged r"
  "fastMode (captured a v r) = fastMode r" "rg_RegWrites (captured a v r) = rg_RegWrites r"
  "rg_HWRegsEnabled (captured a v r) = rg_HWRegsEnabled r" "rg_WriteBuffer (captured a v r) = rg_WriteBuffer r"
  "rg_Optim (captured a v r) = rg_Optim r" "rg_FastRAM (captured a v r) = rg_FastRAM r"
  "rg_SIMMConfig (captured a v r) = rg_SIMMConfig r" "rg_Bootmap (captured a v r) = rg_Bootmap r"
  "rg_BootmapFlag (captured a v r) = rg_BootmapFlag r" "rg_KernalShadowBase (captured a v r) = rg_KernalShadowBase r"
  by (simp_all add: captured_def)

definition in_registers :: "u16 \<Rightarrow> bool" where
  "in_registers a \<longleftrightarrow> (a \<ge> SCPU_REG_D071 \<and> a \<le> SCPU_REG_HWREGS_DISABLE) \<or> (a \<ge> SCPU_REG_STATUS_FIRST \<and> a \<le> SCPU_REG_STATUS_LAST)"

lemma ioWrite_register:
  assumes "in_registers a"
  shows "ioWrite a v r =
    (let r1 = (captured a v r)\<lparr>rg_RegWrites := rg_RegWrites r + 1\<rparr>
     in (True, if a = SCPU_REG_EMU_VIDEO then write_video v r1 else noteSpeedChange (fastMode r) (write_register a v r1)))"
proof -
  have "a \<le> 0xD0BF" "0xD071 \<le> a" using assms unfolding in_registers_def scpu_consts word_le_nat_alt by auto
  then have "\<not> in_sysram a" "\<not> in_userram a" "a \<noteq> 0xDF7E" "a \<noteq> 0xDF7F"
    unfolding in_sysram_def in_userram_def scpu_consts word_le_nat_alt word_less_nat_alt by auto
  moreover have "(\<not> (a \<ge> SCPU_REG_D071 \<and> a \<le> SCPU_REG_HWREGS_DISABLE) \<and> \<not> (a \<ge> SCPU_REG_STATUS_FIRST \<and> a \<le> SCPU_REG_STATUS_LAST)) = False"
    using assms by (auto simp: in_registers_def)
  ultimately show ?thesis unfolding ioWrite_def captured_def [symmetric] Let_def by simp
qed

lemma ioWrite_elsewhere:
  assumes "\<not> in_registers a"
  shows "rg_SpeedHook (snd (ioWrite a v r)) = rg_SpeedHook r" "rg_SpeedChanged (snd (ioWrite a v r)) = rg_SpeedChanged r"
    "fastMode (snd (ioWrite a v r)) = fastMode r"
proof -
  have n: "(\<not> (a \<ge> SCPU_REG_D071 \<and> a \<le> SCPU_REG_HWREGS_DISABLE) \<and> \<not> (a \<ge> SCPU_REG_STATUS_FIRST \<and> a \<le> SCPU_REG_STATUS_LAST)) = True"
    using assms by (auto simp: in_registers_def)
  have f: "fastMode (r\<lparr>rg_RAMLink := b\<rparr>) = fastMode r" for b by (simp add: fastMode_def)
  have "snd (ioWrite a v r) = (if a = 0xDF7E then r\<lparr>rg_RAMLink := True\<rparr> else if a = 0xDF7F then r\<lparr>rg_RAMLink := False\<rparr>
     else if in_sysram a then (if rg_HWRegsEnabled (captured a v r) \<or> a = SCPU_SYSRAM_ALWAYS_WRITABLE
       then bank1Write a v (captured a v r) else captured a v r)
     else if in_userram a then (if rg_HWRegsEnabled (captured a v r) then bank1Write a v (captured a v r) else captured a v r)
     else captured a v r)"
    unfolding ioWrite_def captured_def [symmetric] Let_def n if_True if_distrib [of snd] snd_conv by (rule refl)
  note w = this
  show "rg_SpeedHook (snd (ioWrite a v r)) = rg_SpeedHook r" "rg_SpeedChanged (snd (ioWrite a v r)) = rg_SpeedChanged r"
    "fastMode (snd (ioWrite a v r)) = fastMode r"
    unfolding w by (simp_all add: f)
qed

text \<open>The speed notification is exact: after any write of the guest the speed hook has been called
  once more, and the change flag set, if the write changed whether the machine runs fast, and neither
  otherwise. Writes to the gated registers, the private RAM, the RAMLink strobes and the video
  extension are included.\<close>

theorem speed_change_notified:
  "rg_SpeedHook (snd (ioWrite a v r))
     = map_option (\<lambda>n. if fastMode (snd (ioWrite a v r)) = fastMode r then n else n + 1) (rg_SpeedHook r)
   \<and> rg_SpeedChanged (snd (ioWrite a v r)) = (rg_SpeedChanged r \<or> fastMode (snd (ioWrite a v r)) \<noteq> fastMode r)"
proof (cases "in_registers a")
  case False then show ?thesis by (simp add: ioWrite_elsewhere option.map_ident)
next
  case True
  define r1 where "r1 = (captured a v r)\<lparr>rg_RegWrites := rg_RegWrites r + 1\<rparr>"
  have w: "snd (ioWrite a v r) = (if a = SCPU_REG_EMU_VIDEO then write_video v r1 else noteSpeedChange (fastMode r) (write_register a v r1))"
    unfolding ioWrite_register [OF True] r1_def Let_def by simp
  have r1: "rg_SpeedHook r1 = rg_SpeedHook r" "rg_SpeedChanged r1 = rg_SpeedChanged r" "fastMode r1 = fastMode r"
    by (simp_all add: r1_def captured_def) (simp_all add: fastMode_def)
  have v: "rg_SpeedHook (write_video v r1) = rg_SpeedHook r1" "rg_SpeedChanged (write_video v r1) = rg_SpeedChanged r1"
    "fastMode (write_video v r1) = fastMode r1"
    by (simp_all add: write_video_def Let_def fastMode_def)
  show ?thesis
  proof (cases "a = SCPU_REG_EMU_VIDEO")
    case True then show ?thesis unfolding w using r1 v by (simp add: option.map_ident)
  next
    case False
    define r2 where "r2 = write_register a v r1"
    have r2: "rg_SpeedHook r2 = rg_SpeedHook r" "rg_SpeedChanged r2 = rg_SpeedChanged r"
      using r1 by (simp_all add: r2_def write_register_frame)
    have n: "fastMode (noteSpeedChange (fastMode r) r2) = fastMode r2" by (simp add: noteSpeedChange_def fastMode_def)
    have "snd (ioWrite a v r) = noteSpeedChange (fastMode r) r2" unfolding w r2_def using False by simp
    then show ?thesis
      using r2 by (cases "fastMode r2 = fastMode r"; cases "rg_SpeedHook r") (simp_all add: n, simp_all add: noteSpeedChange_def)
  qed
qed

text \<open>The reset machine runs fast; a write of \<open>$D07A\<close> makes it slow and calls the hook once.\<close>

theorem speed_change_notified_witness:
  "fastMode regs_new
   \<and> rg_SpeedHook (snd (ioWrite 0xD07A 0 (regs_new\<lparr>rg_SpeedHook := Some 0\<rparr>))) = Some 1
   \<and> rg_SpeedChanged (snd (ioWrite 0xD07A 0 (regs_new\<lparr>rg_SpeedHook := Some 0\<rparr>)))"
proof -
  let ?r = "regs_new\<lparr>rg_SpeedHook := Some (0 :: nat)\<rparr>"
  have slow: "\<not> fastMode (snd (ioWrite 0xD07A 0 ?r))" and fast: "fastMode ?r" "fastMode regs_new"
    by code_simp+
  show ?thesis using speed_change_notified [where a = "0xD07A" and v = 0 and r = ?r] slow fast by simp
qed

text \<open>C16. With the register bank closed the gated registers and the private RAM are inert: a write to
  one of them is claimed and changes nothing but the access counter and, on version 2, the copy of
  on-board I/O in bank 1; a write to \<open>$D200-$D3FF\<close> is discarded except at \<open>$D27E\<close>.\<close>

theorem closed_bank_is_inert:
  assumes "\<not> rg_HWRegsEnabled r"
  shows "(a \<in> {SCPU_REG_OPT_VICBANK2, SCPU_REG_OPT_VICBANK1, SCPU_REG_OPT_BASIC, SCPU_REG_OPT_NONE, SCPU_REG_SIMM_CONFIG,
             SCPU_REG_STATUS, SCPU_REG_OPTIM_V2, SCPU_REG_OPTIM, SCPU_REG_PROCMODE, SCPU_REG_BOOTMAP_ON,
             SCPU_REG_SPEEDFLAGS, SCPU_REG_DOSEXT, SCPU_REG_DOSEXT_ON} \<longrightarrow>
           ioWrite a v r = (True, (captured a v r)\<lparr>rg_RegWrites := rg_RegWrites r + 1\<rparr>))
    \<and> ((in_sysram a \<and> a \<noteq> SCPU_SYSRAM_ALWAYS_WRITABLE) \<or> in_userram a \<longrightarrow> ioWrite a v r = (True, r))"
proof (intro conjI impI)
  let ?G = "{SCPU_REG_OPT_VICBANK2, SCPU_REG_OPT_VICBANK1, SCPU_REG_OPT_BASIC, SCPU_REG_OPT_NONE, SCPU_REG_SIMM_CONFIG,
             SCPU_REG_STATUS, SCPU_REG_OPTIM_V2, SCPU_REG_OPTIM, SCPU_REG_PROCMODE, SCPU_REG_BOOTMAP_ON,
             SCPU_REG_SPEEDFLAGS, SCPU_REG_DOSEXT, SCPU_REG_DOSEXT_ON}"
  assume g: "a \<in> ?G"
  define r1 where "r1 = (captured a v r)\<lparr>rg_RegWrites := rg_RegWrites r + 1\<rparr>"
  have i: "in_registers a" "a \<noteq> SCPU_REG_EMU_VIDEO"
    using g by (elim insertE emptyE; simp add: in_registers_def scpu_consts)+
  have c: "\<not> rg_HWRegsEnabled r1" "fastMode r1 = fastMode r"
    using assms by (simp_all add: r1_def captured_def) (simp_all add: fastMode_def)
  have "write_register a v r1 = r1"
    using g by (elim insertE emptyE) (simp_all add: write_register_def when_open_def scpu_consts c(1))
  then show "ioWrite a v r = (True, r1)"
    unfolding ioWrite_register [OF i(1)] r1_def [symmetric] Let_def using i(2) c(2) by (simp add: noteSpeedChange_def)
next
  assume p: "(in_sysram a \<and> a \<noteq> SCPU_SYSRAM_ALWAYS_WRITABLE) \<or> in_userram a"
  then have range: "0xD200 \<le> a" "a < 0xD400"
    unfolding in_sysram_def in_userram_def scpu_consts word_le_nat_alt word_less_nat_alt by auto
  then have "a \<noteq> 0xDF7E" "a \<noteq> 0xDF7F" "\<not> a \<le> 0xD1FF" "\<not> 0xD400 \<le> a" "\<not> 0xD800 \<le> a"
    unfolding word_le_nat_alt word_less_nat_alt by auto
  then have c: "captured a v r = r" and e: "(a = 0xDF7E) = False" "(a = 0xDF7F) = False" by (auto simp: captured_def)
  have "in_userram a \<Longrightarrow> \<not> in_sysram a"
    unfolding in_sysram_def in_userram_def scpu_consts word_le_nat_alt word_less_nat_alt by auto
  then show "ioWrite a v r = (True, r)"
    using p assms unfolding ioWrite_def captured_def [symmetric] Let_def c e if_False
    by (cases "in_sysram a"; cases "a = SCPU_SYSRAM_ALWAYS_WRITABLE") simp_all
qed

theorem closed_bank_is_inert_witness:
  "rg_Optim (snd (ioWrite 0xD076 0 regs_new)) = 0xC7 \<and> ioWrite 0xD20C 0xFF regs_new = (True, regs_new)"
proof -
  have c: "\<not> rg_HWRegsEnabled regs_new" "rg_Optim regs_new = 0xC7"
    by (simp_all add: regs_new_def regs_reset_def Let_def applySIMMConfig_def applyKernalShadow_def applyBootmap_def applyOptimisation_def)
  show ?thesis
    using closed_bank_is_inert [OF c(1), of "0xD076" 0] closed_bank_is_inert [OF c(1), of "0xD20C" "0xFF"] c(2)
    by (simp add: scpu_consts in_sysram_def captured_def)
qed

section \<open>The optimisation switches\<close>

lemma switch_optim:
  "mirror_selector 0 = 0" "mirror_selector 0x40 = 4" "mirror_selector 0x80 = 8" "mirror_selector 0xC0 = 12"
  by (simp_all add: mirror_selector_def has_def)

lemma u16_le_max: "(a :: u16) \<le> 0xFFFF"
  using unsigned_less [of a, where 'a = nat] by (simp add: word_le_nat_alt)

text \<open>The optimisation switches select the documented mirror regions: with the register bank open, a
  write of any value to \<open>$D074\<close>, \<open>$D075\<close>, \<open>$D076\<close> or \<open>$D077\<close> makes the attached write buffer mirror
  exactly VIC bank 2, VIC bank 1, the BASIC screen, or all 64 KB, always minus the I/O window unless the
  bus reaches the RAM under it.\<close>

theorem optimisation_switch_regions:
  assumes "rg_HWRegsEnabled r" "rg_WriteBuffer r = Some w" "k < 4"
  shows "\<exists>w'. rg_WriteBuffer (snd (ioWrite (0xD074 + of_nat k) v r)) = Some w' \<and>
    (\<forall>a. shouldMirror w' a \<longleftrightarrow> \<not> io_window w a \<and>
       (if k = 0 then 0x8000 \<le> a \<and> a \<le> 0xBFFF else if k = 1 then 0x4000 \<le> a \<and> a \<le> 0x7FFF
        else if k = 2 then 0x0400 \<le> a \<and> a \<le> 0x07FF else True))"
proof -
  let ?s = "0xD074 + of_nat k :: u16"
  define w' where "w' = select_mirror (mirror_selector (push_bit 6 (ucast (?s AND 3)))) w"
  have k: "k = 0 \<or> k = 1 \<or> k = 2 \<or> k = 3" using assms(3) by auto
  have i: "in_registers ?s" "?s \<noteq> SCPU_REG_EMU_VIDEO"
    using k by (elim disjE; simp add: in_registers_def scpu_consts)+
  define r1 where "r1 = (captured ?s v r)\<lparr>rg_RegWrites := rg_RegWrites r + 1\<rparr>"
  have r1: "rg_HWRegsEnabled r1" "rg_WriteBuffer r1 = Some w" using assms(1,2) by (simp_all add: r1_def)
  have "write_register ?s v r1 = applyOptimisation (r1\<lparr>rg_Optim := push_bit 6 (ucast (?s AND 3))\<rparr>)"
    using k by (elim disjE) (simp_all add: write_register_def when_open_def r1(1) scpu_consts)
  then have wb: "rg_WriteBuffer (snd (ioWrite ?s v r)) = Some w'"
    unfolding ioWrite_register [OF i(1)] r1_def [symmetric] Let_def using i(2) r1(2)
    by (simp add: noteSpeedChange_def applyOptimisation_def w'_def)
  have "shouldMirror w' a \<longleftrightarrow> \<not> io_window w a \<and>
       (if k = 0 then 0x8000 \<le> a \<and> a \<le> 0xBFFF else if k = 1 then 0x4000 \<le> a \<and> a \<le> 0x7FFF
        else if k = 2 then 0x0400 \<le> a \<and> a \<le> 0x07FF else True)" for a
    using k unfolding w'_def
    by (elim disjE) (simp_all add: switch_optim select_mirror_def Let_def shouldMirror_def policy_refuses_def
        setOptMode_def mode_range_def setExcludeZeroPageStack_def io_window_def u16_le_max)
  then show ?thesis using wb by blast
qed

definition demo_wb :: wb where "demo_wb = wb_new (\<lambda>_. 0) (\<lambda>_. 0) (\<lambda>_. 0)"

definition demo_regs :: scpu_regs where
  "demo_regs = snd (ioWrite 0xD07E 0 (regs_attach (Some demo_wb) regs_new))"

lemma demo_regs_open: "rg_HWRegsEnabled demo_regs \<and> rg_WriteBuffer demo_regs = Some (select_mirror 15 demo_wb)"
proof -
  have i: "in_registers 0xD07E" "(0xD07E :: u16) \<noteq> SCPU_REG_EMU_VIDEO" by (simp_all add: in_registers_def scpu_consts)
  have o: "rg_Optim regs_new = 0xC7"
    by (simp add: regs_new_def regs_reset_def Let_def applySIMMConfig_def applyKernalShadow_def applyBootmap_def applyOptimisation_def)
  have s: "mirror_selector 0xC7 = 15" by (simp add: mirror_selector_def has_def)
  show ?thesis
    unfolding demo_regs_def ioWrite_register [OF i(1)] Let_def using i(2)
    by (simp add: write_register_def scpu_consts applyKernalShadow_def noteSpeedChange_def regs_attach_def applyOptimisation_def o s)
qed

theorem optimisation_switch_regions_witness:
  "\<exists>w'. rg_WriteBuffer (snd (ioWrite 0xD076 0 demo_regs)) = Some w' \<and> shouldMirror w' 0x0400 \<and> \<not> shouldMirror w' 0x0800"
proof -
  obtain w' where "rg_WriteBuffer (snd (ioWrite (0xD074 + of_nat 2) 0 demo_regs)) = Some w'"
    "\<forall>a. shouldMirror w' a \<longleftrightarrow> \<not> io_window (select_mirror 15 demo_wb) a \<and> 0x0400 \<le> a \<and> a \<le> 0x07FF"
    using optimisation_switch_regions [OF conjunct1 [OF demo_regs_open] conjunct2 [OF demo_regs_open], of 2 0] by auto
  then show ?thesis by (intro exI [of _ w']) (simp add: io_window_def)
qed

section \<open>The objects the registers drive stay in step\<close>

definition mode_view :: "wb \<Rightarrow> SCPUOptMode \<times> bool \<times> u16 \<times> u16" where
  "mode_view w = (wb_Mode w, wb_ExcludeZPStack w, wb_RangeLo w, wb_RangeHi w)"

text \<open>Every operation of the registers in any order, and the use of the attached objects by others:
  the write buffer and the SIMM change, but not their mode and configuration, which only the registers
  set; bank 1 changes freely.\<close>

inductive regs_reachable :: "scpu_regs \<Rightarrow> bool" where
  new: "regs_reachable regs_new"
| reset: "regs_reachable r \<Longrightarrow> regs_reachable (regs_reset r)"
| attach: "regs_reachable r \<Longrightarrow> regs_reachable (regs_attach w r)"
| attach_ram: "regs_reachable r \<Longrightarrow> regs_reachable (attachFastRAM f r)"
| attach_bank1: "regs_reachable r \<Longrightarrow> regs_reachable (r\<lparr>rg_Bank1 := b\<rparr>)"
| bootmap: "regs_reachable r \<Longrightarrow> regs_reachable (trackBootmap flag r)"
| kernal: "regs_reachable r \<Longrightarrow> regs_reachable (trackKernalShadow base r)"
| version: "regs_reachable r \<Longrightarrow> regs_reachable (r\<lparr>rg_Version := ver\<rparr>)"
| mode128: "regs_reachable r \<Longrightarrow> regs_reachable (r\<lparr>rg_SCPU128Mode := on\<rparr>)"
| switch: "regs_reachable r \<Longrightarrow> regs_reachable (setSpeedSwitchAllowsTurbo on r)"
| jiffy: "regs_reachable r \<Longrightarrow> regs_reachable (r\<lparr>rg_SwitchJiffy := on\<rparr>)"
| video: "regs_reachable r \<Longrightarrow> regs_reachable (configureVideoSwitch av hdmi r)"
| hook: "regs_reachable r \<Longrightarrow> regs_reachable (r\<lparr>rg_SpeedHook := hk\<rparr>)"
| consume: "regs_reachable r \<Longrightarrow> regs_reachable (snd (consumeSpeedChanged r))"
| io_read: "regs_reachable r \<Longrightarrow> regs_reachable (snd (ioRead a r))"
| io_write: "regs_reachable r \<Longrightarrow> regs_reachable (snd (ioWrite a v r))"
| mirror_use: "regs_reachable r \<Longrightarrow> rg_WriteBuffer r = Some w \<Longrightarrow> mode_view w' = mode_view w
    \<Longrightarrow> regs_reachable (r\<lparr>rg_WriteBuffer := Some w'\<rparr>)"
| simm_use: "regs_reachable r \<Longrightarrow> rg_FastRAM r = Some f \<Longrightarrow> f_Config f' = f_Config f
    \<Longrightarrow> regs_reachable (r\<lparr>rg_FastRAM := Some f'\<rparr>)"

definition boot_ok :: "scpu_regs \<Rightarrow> bool" where
  "boot_ok r \<longleftrightarrow> (\<forall>b. rg_BootmapFlag r = Some b \<longrightarrow> b = rg_Bootmap r)"

definition kernal_ok :: "scpu_regs \<Rightarrow> bool" where
  "kernal_ok r \<longleftrightarrow> (\<forall>b. rg_KernalShadowBase r = Some b \<longrightarrow> b = (if rg_HWRegsEnabled r then 0x6000 else 0xE000))"

definition simm_ok :: "scpu_regs \<Rightarrow> bool" where
  "simm_ok r \<longleftrightarrow> (\<forall>f. rg_FastRAM r = Some f \<longrightarrow> f_Config f = rg_SIMMConfig r)"

definition mirror_ok :: "scpu_regs \<Rightarrow> bool" where
  "mirror_ok r \<longleftrightarrow> (\<forall>w. rg_WriteBuffer r = Some w \<longrightarrow> mode_view w = mode_view (select_mirror (mirror_selector (rg_Optim r)) w))"

definition regs_inv :: "scpu_regs \<Rightarrow> bool" where
  "regs_inv r \<longleftrightarrow> boot_ok r \<and> kernal_ok r \<and> simm_ok r \<and> mirror_ok r"

definition core_regs :: "scpu_regs \<Rightarrow> _" where
  "core_regs r = (rg_BootmapFlag r, rg_Bootmap r, rg_KernalShadowBase r, rg_HWRegsEnabled r, rg_FastRAM r, rg_SIMMConfig r,
     rg_WriteBuffer r, rg_Optim r)"

lemma regs_inv_cong: "regs_inv r \<Longrightarrow> core_regs r' = core_regs r \<Longrightarrow> regs_inv r'"
  by (simp add: regs_inv_def core_regs_def boot_ok_def kernal_ok_def simm_ok_def mirror_ok_def)

lemma core_regs_simps [simp]:
  "core_regs (bank1Write a v r) = core_regs r" "core_regs (captured a v r) = core_regs r"
  "core_regs (noteSpeedChange b r) = core_regs r" "core_regs (write_video v r) = core_regs r"
  "core_regs (r\<lparr>rg_RegWrites := n\<rparr>) = core_regs r"
  by (simp_all add: core_regs_def captured_def bank1Write_def noteSpeedChange_def write_video_def Let_def split: option.split)

lemma select_idem: "mode_view (select_mirror m (select_mirror m w)) = mode_view (select_mirror m w)"
  by (simp add: select_mirror_def Let_def mode_view_def setOptMode_def setExcludeZeroPageStack_def)

lemma select_view:
  assumes "mode_view w' = mode_view w"
  shows "mode_view (select_mirror m w') = mode_view (select_mirror m w)"
  using assms by (simp add: select_mirror_def Let_def mode_view_def setOptMode_def setExcludeZeroPageStack_def)

text \<open>Each \<open>apply\<close> step establishes its own part and keeps the others.\<close>

lemma established [simp]: "boot_ok (applyBootmap r)" "kernal_ok (applyKernalShadow r)"
  by (cases "rg_BootmapFlag r"; simp add: boot_ok_def applyBootmap_def)
    (cases "rg_KernalShadowBase r"; simp add: kernal_ok_def applyKernalShadow_def)

lemma established_mirror [simp]: "mirror_ok (applyOptimisation r)"
  unfolding mirror_ok_def
proof (intro allI impI)
  fix w assume "rg_WriteBuffer (applyOptimisation r) = Some w"
  then obtain w0 where "w = select_mirror (mirror_selector (rg_Optim r)) w0"
    unfolding applyOptimisation_def by (cases "rg_WriteBuffer r") auto
  moreover have "rg_Optim (applyOptimisation r) = rg_Optim r" by (simp add: applyOptimisation_def)
  ultimately show "mode_view w = mode_view (select_mirror (mirror_selector (rg_Optim (applyOptimisation r))) w)"
    by (simp only: select_idem)
qed

lemma config_setConfig [simp]: "f_Config (fast_setConfig c f) = c"
  by (simp add: fast_setConfig_def Let_def split: prod.split)

lemma established_simm [simp]: "c = rg_SIMMConfig r \<Longrightarrow> simm_ok (applySIMMConfig c r)"
  unfolding simm_ok_def applySIMMConfig_def by (cases "rg_FastRAM r") auto

lemma part_frames [simp]:
  "boot_ok (applyKernalShadow r) = boot_ok r" "boot_ok (applyOptimisation r) = boot_ok r" "boot_ok (applySIMMConfig c r) = boot_ok r"
  "kernal_ok (applyBootmap r) = kernal_ok r" "kernal_ok (applyOptimisation r) = kernal_ok r" "kernal_ok (applySIMMConfig c r) = kernal_ok r"
  "simm_ok (applyBootmap r) = simm_ok r" "simm_ok (applyKernalShadow r) = simm_ok r" "simm_ok (applyOptimisation r) = simm_ok r"
  "mirror_ok (applyBootmap r) = mirror_ok r" "mirror_ok (applyKernalShadow r) = mirror_ok r" "mirror_ok (applySIMMConfig c r) = mirror_ok r"
  by (simp_all add: boot_ok_def kernal_ok_def simm_ok_def mirror_ok_def applyBootmap_def applyKernalShadow_def applyOptimisation_def
      applySIMMConfig_def)

lemmas parts_def = boot_ok_def kernal_ok_def simm_ok_def mirror_ok_def

lemma inv_apply:
  "regs_inv r \<Longrightarrow> regs_inv (applyBootmap (r\<lparr>rg_Bootmap := b\<rparr>))"
  "regs_inv r \<Longrightarrow> regs_inv (applyKernalShadow (r\<lparr>rg_HWRegsEnabled := b\<rparr>))"
  "regs_inv r \<Longrightarrow> regs_inv (applySIMMConfig c (r\<lparr>rg_SIMMConfig := c\<rparr>))"
  "regs_inv r \<Longrightarrow> regs_inv (applyOptimisation (r\<lparr>rg_Optim := optim\<rparr>))"
  by (simp_all add: regs_inv_def) (simp_all add: parts_def)

lemma inv_plain:
  "regs_inv r \<Longrightarrow> regs_inv (r\<lparr>rg_Sys1MHz := b\<rparr>)" "regs_inv r \<Longrightarrow> regs_inv (r\<lparr>rg_Soft1MHz := b\<rparr>)"
  "regs_inv r \<Longrightarrow> regs_inv (r\<lparr>rg_SwitchJiffy := b\<rparr>)" "regs_inv r \<Longrightarrow> regs_inv (r\<lparr>rg_DOSExt := b\<rparr>)"
  "regs_inv r \<Longrightarrow> regs_inv (r\<lparr>rg_RAMLink := b\<rparr>)" "regs_inv r \<Longrightarrow> regs_inv (r\<lparr>rg_VideoKnockArmed := b\<rparr>)"
  "regs_inv r \<Longrightarrow> regs_inv (r\<lparr>rg_Bank1 := x\<rparr>)" "regs_inv r \<Longrightarrow> regs_inv (r\<lparr>rg_Version := ver\<rparr>)"
  "regs_inv r \<Longrightarrow> regs_inv (r\<lparr>rg_SCPU128Mode := b\<rparr>)" "regs_inv r \<Longrightarrow> regs_inv (r\<lparr>rg_SpeedHook := hk\<rparr>)"
  "regs_inv r \<Longrightarrow> regs_inv (r\<lparr>rg_SpeedChanged := b\<rparr>)" "regs_inv r \<Longrightarrow> regs_inv (configureVideoSwitch av hdmi r)"
  by (simp_all add: regs_inv_def parts_def configureVideoSwitch_def)

lemma write_register_inv: "regs_inv r \<Longrightarrow> regs_inv (write_register a v r)"
  unfolding write_register_def when_open_def write_status_def Let_def
  by (simp add: inv_plain inv_apply)

lemma ioWrite_inv: "regs_inv r \<Longrightarrow> regs_inv (snd (ioWrite a v r))"
proof (cases "in_registers a")
  case True
  assume i: "regs_inv r"
  have "regs_inv ((captured a v r)\<lparr>rg_RegWrites := rg_RegWrites r + 1\<rparr>)" by (rule regs_inv_cong [OF i]) simp
  then show ?thesis unfolding ioWrite_register [OF True] Let_def
    by (auto intro: write_register_inv regs_inv_cong)
next
  case False
  assume i: "regs_inv r"
  have n: "(\<not> (a \<ge> SCPU_REG_D071 \<and> a \<le> SCPU_REG_HWREGS_DISABLE) \<and> \<not> (a \<ge> SCPU_REG_STATUS_FIRST \<and> a \<le> SCPU_REG_STATUS_LAST)) = True"
    using False by (auto simp: in_registers_def)
  have b: "regs_inv (bank1Write a v (captured a v r))" "regs_inv (captured a v r)" by (rule regs_inv_cong [OF i], simp)+
  show ?thesis
    unfolding ioWrite_def captured_def [symmetric] Let_def n if_True if_distrib [of snd] snd_conv
    using i b by (cases "a = SCPU_SYSRAM_ALWAYS_WRITABLE") (simp_all add: inv_plain)
qed

lemma reset_inv: "regs_inv (regs_reset r)"
proof -
  have "simm_ok (x\<lparr>rg_SysRAM := p, rg_UserRAM := q, rg_ColorRAM := c\<rparr>) = simm_ok x" for x p q c by (simp add: simm_ok_def)
  then show ?thesis by (simp add: regs_reset_def Let_def regs_inv_def)
qed

lemma regs_reachable_inv: "regs_reachable r \<Longrightarrow> regs_inv r"
proof (induction rule: regs_reachable.induct)
  case new show ?case unfolding regs_new_def by (rule reset_inv)
next
  case (reset r) show ?case by (rule reset_inv)
next
  case (attach r w) then show ?case by (simp add: regs_attach_def regs_inv_def) (simp add: parts_def)
next
  case (attach_ram r f) then show ?case by (simp add: attachFastRAM_def regs_inv_def) (simp add: parts_def)
next
  case (bootmap r flag) then show ?case by (simp add: trackBootmap_def regs_inv_def) (simp add: parts_def)
next
  case (kernal r base) then show ?case by (simp add: trackKernalShadow_def regs_inv_def) (simp add: parts_def)
next
  case (consume r) then show ?case by (simp add: consumeSpeedChanged_def inv_plain)
next
  case (io_read r a)
  have "core_regs (snd (ioRead a r)) = core_regs r" by (simp add: ioRead_def core_regs_def)
  then show ?case by (rule regs_inv_cong [OF io_read.IH])
next
  case (switch r on)
  have "core_regs (setSpeedSwitchAllowsTurbo on r) = core_regs r" unfolding setSpeedSwitchAllowsTurbo_def Let_def core_regs_simps
    by (simp add: core_regs_def)
  then show ?case by (rule regs_inv_cong [OF switch.IH])
next
  case (mirror_use r w w')
  then show ?case using select_view [OF mirror_use.hyps(3)] by (simp add: regs_inv_def parts_def)
next
  case (simm_use r f f') then show ?case by (simp add: regs_inv_def parts_def)
qed (simp_all add: inv_plain ioWrite_inv)

text \<open>C15. In every reachable state of the registers the objects they drive agree with them: the bootmap
  flag and the KERNAL window base the C64 memory reads are those of the bootmap and register-bank
  bits, the SIMM decodes the configuration last accepted, and the attached write buffer mirrors the
  region selected by the optimisation register.\<close>

theorem registers_in_step:
  assumes "regs_reachable r"
  shows "(rg_BootmapFlag r = Some b \<longrightarrow> b = rg_Bootmap r)
    \<and> (rg_KernalShadowBase r = Some base \<longrightarrow> base = (if rg_HWRegsEnabled r then 0x6000 else 0xE000))
    \<and> (rg_FastRAM r = Some f \<longrightarrow> f_Config f = rg_SIMMConfig r)
    \<and> (rg_WriteBuffer r = Some w \<longrightarrow> (\<forall>a. shouldMirror w a = shouldMirror (select_mirror (mirror_selector (rg_Optim r)) w) a))"
proof -
  have s: "shouldMirror w a = shouldMirror w' a" if "mode_view w = mode_view w'" "wb_RAMUnderIOAccessible w' = wb_RAMUnderIOAccessible w" for w w' a
    using that by (simp add: shouldMirror_def policy_refuses_def io_window_def mode_view_def)
  have u: "wb_RAMUnderIOAccessible (select_mirror m w) = wb_RAMUnderIOAccessible w" for m
    by (simp add: select_mirror_def Let_def setOptMode_def setExcludeZeroPageStack_def)
  show ?thesis using regs_reachable_inv [OF assms] s [OF _ u] by (auto simp: regs_inv_def parts_def)
qed

theorem registers_in_step_witness:
  "rg_KernalShadowBase (snd (ioWrite 0xD07E 0 (trackKernalShadow (Some 0) regs_new))) = Some 0x6000"
proof -
  let ?r = "snd (ioWrite 0xD07E 0 (trackKernalShadow (Some 0) regs_new))"
  have i: "in_registers 0xD07E" "(0xD07E :: u16) \<noteq> SCPU_REG_EMU_VIDEO" by (simp_all add: in_registers_def scpu_consts)
  have h: "rg_HWRegsEnabled ?r" "\<exists>b. rg_KernalShadowBase ?r = Some b"
    unfolding ioWrite_register [OF i(1)] Let_def using i(2)
    by (simp_all add: write_register_def scpu_consts applyKernalShadow_def noteSpeedChange_def trackKernalShadow_def)
  then obtain b where b: "rg_KernalShadowBase ?r = Some b" by blast
  have "regs_reachable ?r" by (intro regs_reachable.io_write regs_reachable.kernal regs_reachable.new)
  from registers_in_step [OF this, where base = b] h(1) b show ?thesis by auto
qed

text \<open>The video knock stays armed across accesses to every other register.\<close>

theorem knock_survives_other_access:
  "a \<noteq> SCPU_REG_EMU_VIDEO \<Longrightarrow> rg_VideoKnockArmed (snd (ioRead a r)) = rg_VideoKnockArmed r"
  by (simp add: ioRead_def)

end
