(* ===== verification/MemoryMap.thy ===== *)
theory MemoryMap
  imports FastRam
begin

text \<open>
  The 24-bit address space: \<open>CSuperCPUMemoryMap\<close> of \<open>Source/SuperCPU/memory_map.h\<close> and
  \<open>memory_map.cpp\<close>. Bank 0 is the object it delegates to: the operations it calls there are the record
  \<open>bank0_ops\<close> over a state \<open>'b\<close>, and \<open>None\<close> in \<open>mm_Bank0\<close> is the null pointer. Bank 1, the SIMM and the
  ROM image are state of the map.
\<close>

unbundle bit_operations_syntax

section \<open>State\<close>

definition SCPU_BANK1_SIZE :: nat where "SCPU_BANK1_SIZE = 0x10000"
definition SCPU_SIMM_WINDOW :: u32 where "SCPU_SIMM_WINDOW = 0xF60000"
definition SCPU_SIMM_WINDOW_SZ :: u32 where "SCPU_SIMM_WINDOW_SZ = 0x20000"
definition SCPU_ROM_BASE :: u32 where "SCPU_ROM_BASE = 0xF80000"
definition SCPU_ROM_MAXSIZE :: u32 where "SCPU_ROM_MAXSIZE = 0x80000"

lemmas map_consts = SCPU_SIMM_WINDOW_def SCPU_SIMM_WINDOW_SZ_def SCPU_ROM_BASE_def SCPU_ROM_MAXSIZE_def SCPU_ADDR_MASK_def

record 'b bank0_ops =
  b0_readFast :: "u16 \<Rightarrow> 'b \<Rightarrow> u8 \<times> 'b"
  b0_writeFast :: "u16 \<Rightarrow> u8 \<Rightarrow> 'b \<Rightarrow> 'b"
  b0_read8 :: "u16 \<Rightarrow> 'b \<Rightarrow> u8 \<times> 'b"
  b0_write8 :: "u16 \<Rightarrow> u8 \<Rightarrow> 'b \<Rightarrow> 'b"
  b0_noteFastHalfCycles :: "u32 \<Rightarrow> 'b \<Rightarrow> 'b"
  b0_simmWindowWritesEnabled :: "'b \<Rightarrow> bool"
  b0_interruptRerouteActive :: "bool \<Rightarrow> 'b \<Rightarrow> bool"
  b0_noteVectorReroute :: "'b \<Rightarrow> 'b"
  b0_sampleIRQNMI :: "'b \<Rightarrow> (bool \<times> bool) \<times> 'b"
  b0_fineTicksRequired :: "'b \<Rightarrow> bool"
  b0_tick :: "u32 \<Rightarrow> 'b \<Rightarrow> 'b"

record 'b memory_map =
  mm_Bank0 :: "'b option"
  mm_SIMM :: "fast_ram option"
  mm_Bank1 :: "u16 \<Rightarrow> u8"
  mm_ROM :: "u32 \<Rightarrow> u8"
  mm_ROMLength :: u32
  mm_Bank0Accesses :: u64
  mm_FastAccesses :: u64

definition map_new :: "'b memory_map" where
  "map_new = \<lparr> mm_Bank0 = None, mm_SIMM = None, mm_Bank1 = (\<lambda>_. 0), mm_ROM = (\<lambda>_. 0), mm_ROMLength = 0,
     mm_Bank0Accesses = 0, mm_FastAccesses = 0 \<rparr>"

definition setROM :: "(u32 \<Rightarrow> u8) \<Rightarrow> u32 \<Rightarrow> 'b memory_map \<Rightarrow> 'b memory_map" where
  "setROM img len m =
     m\<lparr>mm_ROM := img, mm_ROMLength := (if len > SCPU_ROM_MAXSIZE then SCPU_ROM_MAXSIZE else len)\<rparr>"

definition map_reset :: "'b memory_map \<Rightarrow> 'b memory_map" where
  "map_reset m = m\<lparr>mm_Bank0Accesses := 0, mm_FastAccesses := 0, mm_Bank1 := (\<lambda>_. 0)\<rparr>"

definition on_bank0 :: "('b \<Rightarrow> 'b) \<Rightarrow> 'b memory_map \<Rightarrow> 'b memory_map" where
  "on_bank0 f m = m\<lparr>mm_Bank0 := map_option f (mm_Bank0 m)\<rparr>"

definition open_bus :: "u32 \<Rightarrow> u8" where
  "open_bus a = ucast (drop_bit 16 a)"

definition simm_present :: "'b memory_map \<Rightarrow> bool" where
  "simm_present m \<longleftrightarrow> (case mm_SIMM m of Some f \<Rightarrow> fast_present f | None \<Rightarrow> False)"

definition in_window :: "u32 \<Rightarrow> bool" where
  "in_window a \<longleftrightarrow> a \<ge> SCPU_SIMM_WINDOW \<and> a < SCPU_SIMM_WINDOW + SCPU_SIMM_WINDOW_SZ"

section \<open>Accesses to the SIMM, charged to bank 0\<close>

definition charge_simm :: "'b bank0_ops \<Rightarrow> u32 \<Rightarrow> bool \<Rightarrow> 'b memory_map \<Rightarrow> 'b memory_map" where
  "charge_simm B offset is_write m =
     (case (mm_Bank0 m, mm_SIMM m) of
        (Some b, Some f) \<Rightarrow>
          let (cost, f) = accessPenaltyHalfCycles offset is_write f
          in m\<lparr>mm_SIMM := Some f, mm_Bank0 := Some (b0_noteFastHalfCycles B cost b)\<rparr>
      | _ \<Rightarrow> m)"

definition read_simm :: "'b bank0_ops \<Rightarrow> u32 \<Rightarrow> 'b memory_map \<Rightarrow> u8 \<times> 'b memory_map" where
  "read_simm B offset m =
     (let m = charge_simm B offset False m
      in (case mm_SIMM m of Some f \<Rightarrow> fast_read f offset | None \<Rightarrow> 0, m))"

definition write_simm :: "'b bank0_ops \<Rightarrow> u32 \<Rightarrow> u8 \<Rightarrow> 'b memory_map \<Rightarrow> 'b memory_map" where
  "write_simm B offset v m =
     (let m = charge_simm B offset True m in m\<lparr>mm_SIMM := map_option (fast_write offset v) (mm_SIMM m)\<rparr>)"

section \<open>Everything above bank 0\<close>

definition in_superram :: "'b memory_map \<Rightarrow> u32 \<Rightarrow> bool" where
  "in_superram m a \<longleftrightarrow>
     (case mm_SIMM m of Some f \<Rightarrow> fast_present f \<and> a < f_Size f | None \<Rightarrow> False)"

definition readAbove :: "'b bank0_ops \<Rightarrow> u32 \<Rightarrow> 'b memory_map \<Rightarrow> u8 \<times> 'b memory_map" where
  "readAbove B a m =
     (let m = m\<lparr>mm_FastAccesses := mm_FastAccesses m + 1\<rparr>
      in if a < 0x020000 then (mm_Bank1 m (ucast (a - 0x010000)), m)
         else if a \<ge> SCPU_ROM_BASE then
           let m = on_bank0 (b0_noteFastHalfCycles B 6) m
           in if mm_ROMLength m = 0 then (open_bus a, m)
              else (mm_ROM m ((a - SCPU_ROM_BASE) mod mm_ROMLength m), m)
         else if in_window a then
           if \<not> simm_present m then (open_bus a, m) else read_simm B (a - SCPU_SIMM_WINDOW) m
         else if in_superram m a then read_simm B a m
         else (open_bus a, m))"

definition writeAbove :: "'b bank0_ops \<Rightarrow> u32 \<Rightarrow> u8 \<Rightarrow> 'b memory_map \<Rightarrow> 'b memory_map" where
  "writeAbove B a v m =
     (let m = m\<lparr>mm_FastAccesses := mm_FastAccesses m + 1\<rparr>
      in if a < 0x020000 then m\<lparr>mm_Bank1 := (mm_Bank1 m)(ucast (a - 0x010000) := v)\<rparr>
         else if a \<ge> SCPU_ROM_BASE then on_bank0 (b0_noteFastHalfCycles B 6) m
         else if in_window a then
           if (case mm_Bank0 m of Some b \<Rightarrow> \<not> b0_simmWindowWritesEnabled B b | None \<Rightarrow> False) then m
           else write_simm B (a - SCPU_SIMM_WINDOW) v m
         else if in_superram m a then write_simm B a v m
         else m)"

section \<open>The bus of the 65816\<close>

definition readBank1Port :: "'b bank0_ops \<Rightarrow> u16 \<Rightarrow> 'b memory_map \<Rightarrow> u8 \<times> 'b memory_map" where
  "readBank1Port B offset m =
     (case mm_Bank0 m of
        Some b \<Rightarrow> (let (v, b) = b0_read8 B offset b in (v, m\<lparr>mm_Bank0 := Some b\<rparr>))
      | None \<Rightarrow> (0xFF, m))"

definition writeBank1Port :: "'b bank0_ops \<Rightarrow> u16 \<Rightarrow> u8 \<Rightarrow> 'b memory_map \<Rightarrow> 'b memory_map" where
  "writeBank1Port B offset v m = on_bank0 (b0_write8 B offset v) m"

definition map_read8 :: "'b bank0_ops \<Rightarrow> u32 \<Rightarrow> 'b memory_map \<Rightarrow> u8 \<times> 'b memory_map" where
  "map_read8 B addr m =
     (let a = addr AND SCPU_ADDR_MASK
      in if a < 0x010000 then
           let m = m\<lparr>mm_Bank0Accesses := mm_Bank0Accesses m + 1\<rparr>
           in (case mm_Bank0 m of
                 Some b \<Rightarrow> (let (v, b) = b0_readFast B (ucast a) b in (v, m\<lparr>mm_Bank0 := Some b\<rparr>))
               | None \<Rightarrow> (0xFF, m))
         else if a < 0x020000 then
           let m = m\<lparr>mm_FastAccesses := mm_FastAccesses m + 1\<rparr>; offset = ucast a
           in if offset < 2 then readBank1Port B offset m else (mm_Bank1 m offset, m)
         else readAbove B a m)"

definition map_write8 :: "'b bank0_ops \<Rightarrow> u32 \<Rightarrow> u8 \<Rightarrow> 'b memory_map \<Rightarrow> 'b memory_map" where
  "map_write8 B addr v m =
     (let a = addr AND SCPU_ADDR_MASK
      in if a < 0x010000 then
           on_bank0 (b0_writeFast B (ucast a) v) (m\<lparr>mm_Bank0Accesses := mm_Bank0Accesses m + 1\<rparr>)
         else if a < 0x020000 then
           let m = m\<lparr>mm_FastAccesses := mm_FastAccesses m + 1\<rparr>; offset = ucast a
           in if offset < 2 then writeBank1Port B offset v m
              else m\<lparr>mm_Bank1 := (mm_Bank1 m)(offset := v)\<rparr>
         else writeAbove B a v m)"

definition map_interruptRerouteActive :: "'b bank0_ops \<Rightarrow> bool \<Rightarrow> 'b memory_map \<Rightarrow> bool" where
  "map_interruptRerouteActive B emulationMode m \<longleftrightarrow>
     (case mm_Bank0 m of Some b \<Rightarrow> mm_ROMLength m \<noteq> 0 \<and> b0_interruptRerouteActive B emulationMode b | None \<Rightarrow> False)"

definition rerouteVector :: "'b bank0_ops \<Rightarrow> u16 \<Rightarrow> 'b memory_map \<Rightarrow> u16 \<times> 'b memory_map" where
  "rerouteVector B a m =
     (let m = on_bank0 (b0_noteVectorReroute B) m;
          (lo, m) = map_read8 B (SCPU_ROM_BASE + ucast a) m;
          (hi, m) = map_read8 B (SCPU_ROM_BASE + ucast a + 1) m
      in (word16 lo hi, m))"

definition map_sampleIRQNMI :: "'b bank0_ops \<Rightarrow> 'b memory_map \<Rightarrow> (bool \<times> bool) \<times> 'b memory_map" where
  "map_sampleIRQNMI B m =
     (case mm_Bank0 m of
        Some b \<Rightarrow> (let (lines, b) = b0_sampleIRQNMI B b in (lines, m\<lparr>mm_Bank0 := Some b\<rparr>))
      | None \<Rightarrow> ((False, False), m))"

definition map_fineTicksRequired :: "'b bank0_ops \<Rightarrow> 'b memory_map \<Rightarrow> bool" where
  "map_fineTicksRequired B m \<longleftrightarrow> (case mm_Bank0 m of Some b \<Rightarrow> b0_fineTicksRequired B b | None \<Rightarrow> False)"

definition map_tick :: "'b bank0_ops \<Rightarrow> u32 \<Rightarrow> 'b memory_map \<Rightarrow> 'b memory_map" where
  "map_tick B n m = on_bank0 (b0_tick B n) m"

section \<open>SuperRAM through the map\<close>

lemma penalty_frame [simp]:
  "f_RAM (snd (accessPenaltyHalfCycles x w f)) = f_RAM f" "f_Size (snd (accessPenaltyHalfCycles x w f)) = f_Size f"
  "f_DecodeMask (snd (accessPenaltyHalfCycles x w f)) = f_DecodeMask f"
  by (simp_all add: accessPenaltyHalfCycles_def Let_def)

lemma penalty_read [simp]: "fast_read (snd (accessPenaltyHalfCycles x w f)) y = fast_read f y"
  unfolding fast_read_def penalty_frame by (rule refl)

text \<open>The timing charge changes the SIMM's row latch and bank 0's pending cycles only.\<close>

lemma charge_spec:
  "mm_Bank1 (charge_simm B x w m) = mm_Bank1 m" "mm_ROM (charge_simm B x w m) = mm_ROM m"
  "mm_ROMLength (charge_simm B x w m) = mm_ROMLength m" "mm_FastAccesses (charge_simm B x w m) = mm_FastAccesses m"
  "mm_SIMM m = Some f \<Longrightarrow> \<exists>f'. mm_SIMM (charge_simm B x w m) = Some f' \<and> (f' = f \<or> f' = snd (accessPenaltyHalfCycles x w f))"
  by (auto simp: charge_simm_def split: option.split prod.split)

lemma addr_masked:
  assumes "a < SCPU_ROM_BASE"
  shows "a AND SCPU_ADDR_MASK = a"
proof -
  have "unat a < 2 ^ 24" using assms by (simp add: map_consts word_less_nat_alt)
  then have "take_bit 24 a = a" by (rule small_take_bit)
  then show ?thesis by (simp add: SCPU_ADDR_MASK_def take_bit_eq_mask mask_eq_exp_minus_1)
qed

text \<open>The decode of an address between bank 2 and the SIMM window.\<close>

lemma superram_decode:
  assumes "0x020000 \<le> a" "a < SCPU_SIMM_WINDOW"
  shows "a AND SCPU_ADDR_MASK = a" "\<not> a < 0x010000" "\<not> a < 0x020000" "\<not> a \<ge> SCPU_ROM_BASE" "\<not> in_window a"
proof -
  show "a AND SCPU_ADDR_MASK = a" by (rule addr_masked) (use assms(2) in \<open>simp add: map_consts word_less_nat_alt\<close>)
  show "\<not> a < 0x010000" "\<not> a < 0x020000" "\<not> a \<ge> SCPU_ROM_BASE" "\<not> in_window a"
    using assms by (auto simp: map_consts word_less_nat_alt word_le_nat_alt in_window_def)
qed

lemma superram_read:
  assumes "0x020000 \<le> a" "a < SCPU_SIMM_WINDOW" "mm_SIMM m = Some f" "fast_present f" "a < f_Size f"
  shows "fst (map_read8 B a m) = fast_read f a"
proof -
  let ?m = "m\<lparr>mm_FastAccesses := mm_FastAccesses m + 1\<rparr>"
  note d = superram_decode [OF assms(1,2)]
  have i: "in_superram ?m a" using assms(3-5) by (simp add: in_superram_def)
  obtain f' where f': "mm_SIMM (charge_simm B a False ?m) = Some f'" "f' = f \<or> f' = snd (accessPenaltyHalfCycles a False f)"
    using charge_spec(5) [of ?m f B a False] assms(3) by auto
  have "map_read8 B a m = read_simm B a ?m" using d i by (simp add: map_read8_def readAbove_def Let_def)
  then show ?thesis using f' by (auto simp: read_simm_def Let_def)
qed

lemma superram_write:
  assumes "0x020000 \<le> a" "a < SCPU_SIMM_WINDOW" "mm_SIMM m = Some f" "fast_present f" "a < f_Size f"
  shows "\<exists>f'. mm_SIMM (map_write8 B a v m) = Some (fast_write a v f') \<and> (f' = f \<or> f' = snd (accessPenaltyHalfCycles a True f))"
    "mm_Bank1 (map_write8 B a v m) = mm_Bank1 m" "mm_ROM (map_write8 B a v m) = mm_ROM m"
proof -
  let ?m = "m\<lparr>mm_FastAccesses := mm_FastAccesses m + 1\<rparr>"
  note d = superram_decode [OF assms(1,2)]
  have i: "in_superram ?m a" using assms(3-5) by (simp add: in_superram_def)
  have w: "map_write8 B a v m = write_simm B a v ?m" using d i by (simp add: map_write8_def writeAbove_def Let_def)
  obtain f' where f': "mm_SIMM (charge_simm B a True ?m) = Some f'" "f' = f \<or> f' = snd (accessPenaltyHalfCycles a True f)"
    using charge_spec(5) [of ?m f B a True] assms(3) by auto
  then show "\<exists>f'. mm_SIMM (map_write8 B a v m) = Some (fast_write a v f') \<and> (f' = f \<or> f' = snd (accessPenaltyHalfCycles a True f))"
    by (auto simp: w write_simm_def Let_def)
  show "mm_Bank1 (map_write8 B a v m) = mm_Bank1 m" "mm_ROM (map_write8 B a v m) = mm_ROM m"
    by (simp_all add: w write_simm_def Let_def charge_spec(1,2))
qed

lemma fast_write_frame [simp]: "f_Size (fast_write x v f) = f_Size f" "f_DecodeMask (fast_write x v f) = f_DecodeMask f"
  by (simp_all add: fast_write_def split: option.split)

text \<open>SuperRAM through the 24-bit map behaves as memory: with a SIMM fitted, a byte written at an
  address between bank 2 and the SIMM window is read back there and at every address of that range
  congruent to it modulo the decoded size, whatever the access timing did to the row latch; every other
  address of the range, bank 1 and the ROM keep their contents.\<close>

theorem superram_read_after_write:
  assumes "mm_SIMM m = Some f" "simm_reachable f" "fast_present f"
    "0x020000 \<le> a" "a < SCPU_SIMM_WINDOW" "a < f_Size f" "0x020000 \<le> b" "b < SCPU_SIMM_WINDOW" "b < f_Size f"
  shows "fst (map_read8 B b (map_write8 B a v m))
      = (if unat a mod (unat (f_DecodeMask f) + 1) = unat b mod (unat (f_DecodeMask f) + 1) then v else fst (map_read8 B b m))
    \<and> mm_Bank1 (map_write8 B a v m) = mm_Bank1 m \<and> mm_ROM (map_write8 B a v m) = mm_ROM m"
proof -
  obtain f' where w: "mm_SIMM (map_write8 B a v m) = Some (fast_write a v f')" "f' = f \<or> f' = snd (accessPenaltyHalfCycles a True f)"
    using superram_write(1) [OF assms(4,5,1,3,6)] by blast
  have f': "simm_reachable f'" "f_Size f' = f_Size f" "f_DecodeMask f' = f_DecodeMask f" "fast_read f' x = fast_read f x" for x
    using w(2) assms(2) by (auto intro: simm_reachable.penalty)
  have p: "fast_present f'" "fast_present (fast_write a v f')" using f'(2) assms(3) by (simp_all add: fast_present_def)
  have "fst (map_read8 B b (map_write8 B a v m)) = fast_read (fast_write a v f') b"
    by (rule superram_read [OF assms(7,8) w(1) p(2)]) (simp add: f'(2) assms(9))
  also have "\<dots> = (if unat a mod (unat (f_DecodeMask f) + 1) = unat b mod (unat (f_DecodeMask f) + 1) then v else fast_read f b)"
    using simm_aliases [OF f'(1) p(1), of a v b] by (simp add: f'(3,4))
  finally show ?thesis
    using superram_read [OF assms(7,8,1,3,9)] superram_write(2,3) [OF assms(4,5,1,3,6)] by simp
qed

definition demo_simm :: fast_ram where "demo_simm = snd (fast_init True 4 fast_new)"

lemma demo_simm_facts: "simm_reachable demo_simm" "fast_present demo_simm" "f_Size demo_simm = 0x400000" "f_DecodeMask demo_simm = 0x3FFFFF"
  unfolding demo_simm_def
  by (rule simm_reachable.init [OF simm_reachable.new])
    (simp_all add: fast_init_def fast_setConfig_def Let_def simm_geometry_def SCPU_SIMM_1MB_def SCPU_SIMM_16MB_def
      SCPU_SIMM_8MB_def SCPU_SIMM_4MB_def fast_present_def)

definition null_bank0 :: "unit bank0_ops" where
  "null_bank0 = \<lparr> b0_readFast = (\<lambda>_ s. (0, s)), b0_writeFast = (\<lambda>_ _ s. s), b0_read8 = (\<lambda>_ s. (0, s)), b0_write8 = (\<lambda>_ _ s. s),
     b0_noteFastHalfCycles = (\<lambda>_ s. s), b0_simmWindowWritesEnabled = (\<lambda>_. True), b0_interruptRerouteActive = (\<lambda>_ _. False),
     b0_noteVectorReroute = (\<lambda>s. s), b0_sampleIRQNMI = (\<lambda>s. ((False, False), s)), b0_fineTicksRequired = (\<lambda>_. False), b0_tick = (\<lambda>_ s. s) \<rparr>"

definition demo_map :: "unit memory_map" where
  "demo_map = map_new\<lparr>mm_SIMM := Some demo_simm, mm_Bank0 := Some ()\<rparr>"

theorem superram_read_after_write_witness:
  "fst (map_read8 null_bank0 0x123456 (map_write8 null_bank0 0x123456 0xAB demo_map)) = 0xAB"
  using superram_read_after_write [of demo_map demo_simm "0x123456" "0x123456" null_bank0 "0xAB"]
  by (simp add: demo_map_def demo_simm_facts map_consts)

text \<open>Beyond the fitted SIMM nothing answers: an address from bank 2 up to the SIMM window that is
  not below the fitted size reads as its bank byte, and a write there changes nothing but the access
  counter. It does not alias onto the SIMM.\<close>

theorem beyond_simm_is_open_bus:
  assumes "0x020000 \<le> a" "a < SCPU_SIMM_WINDOW" "\<forall>f. mm_SIMM m = Some f \<longrightarrow> f_Size f \<le> a"
  shows "fst (map_read8 B a m) = open_bus a \<and> map_write8 B a v m = m\<lparr>mm_FastAccesses := mm_FastAccesses m + 1\<rparr>"
proof -
  note d = superram_decode [OF assms(1,2)]
  have "\<not> in_superram (m\<lparr>mm_FastAccesses := mm_FastAccesses m + 1\<rparr>) a"
    using assms(3) by (auto simp: in_superram_def split: option.split)
  then show ?thesis using d by (simp add: map_read8_def readAbove_def map_write8_def writeAbove_def Let_def)
qed

theorem beyond_simm_is_open_bus_witness:
  "fst (map_read8 null_bank0 0x400000 (map_write8 null_bank0 0x000000 7 demo_map)) = 0x40"
proof -
  have m: "mm_SIMM (map_write8 null_bank0 0 7 demo_map) = Some demo_simm"
    by (simp add: map_write8_def Let_def on_bank0_def demo_map_def)
  show ?thesis
    using beyond_simm_is_open_bus [of "0x400000" "map_write8 null_bank0 0 7 demo_map" null_bank0]
    by (simp add: m demo_simm_facts map_consts open_bus_def)
qed
end
