(* ===== verification/C64Timing.thy ===== *)
theory C64Timing
  imports C64Bus
begin

text \<open>
  The clock side of \<open>CC64Memory\<close> (\<open>Source/C64/c64_memory.h\<close>, \<open>c64_memory.cpp\<close>): emulated and C64 time,
  the stretch a C64-bus access costs, the automatic 1 MHz holds of the serial bus, the CIA2 timer model
  that times NMIs on the emulated clock, the cached interrupt lines, and pacing against the host clock.

  The members are grouped in three records, by the part of the class that owns them; all counters keep
  their width. The timing hook is the number of its calls (\<open>None\<close>: no hook installed). The ring of
  pending bus events is a list, its capacity enforced on append as in the source.
\<close>

unbundle bit_operations_syntax

section \<open>State\<close>

datatype BusTimingEvent = BUS_EVENT_IO | BUS_EVENT_CIA_WRITE | BUS_EVENT_MIRROR_WRITE

definition BUS_EVENT_CAPACITY :: nat where "BUS_EVENT_CAPACITY = 32"

record clk =
  ck_EmuCycles :: u64
  ck_C64ClockBase :: u64
  ck_EmuAtRateChange :: u64
  ck_C64FactorInUse :: u64
  ck_PacingCheckCycles :: u32
  ck_SelectedEmulatedHz :: u32
  ck_IECThrottleEnabled :: bool
  ck_IECThrottleEvents :: u64
  ck_IECHoldCycles :: u32
  ck_IECActivityCycles :: u32
  ck_IECPollHoldCycles :: u32
  ck_MaxTickChunk :: u32
  ck_IntCredit :: u32
  ck_SlowPacedCycles :: u64
  ck_IECThrottledCycles :: u64
  ck_PacingDebtCycles :: u64
  ck_HostPerEmuQ16 :: u64
  ck_HostPerEmuQ16Slow :: u64
  ck_PacingAnchor :: u64
  ck_PacerWaitHostCycles :: u64
  ck_BusKeepalive :: bool
  ck_NextKeepalive :: u64
  ck_TimingHook :: "nat option"

record bus_events =
  be_IOStretchEnable :: bool
  be_MirrorStretchEnable :: bool
  be_PostedWriteTimingEnable :: bool
  be_BusEvents :: "BusTimingEvent list"
  be_PostedWritePending :: bool
  be_MirrorBufferFreeAt :: u64
  be_IOStretchCycles :: u64
  be_MirrorStretchCycles :: u64
  be_PendingFastHalfCycles :: u32
  be_FastHalfCarry :: u8
  be_RegionStretchCycles :: u64

record cia2 =
  ci_NMIRetimeEnable :: bool
  ci_NMIOwned :: bool
  ci_SynthNMIActive :: bool
  ci_ICRMask :: u8
  ci_ICRPending :: u8
  ci_TACR :: u8
  ci_TBCR :: u8
  ci_ArmPending :: u8
  ci_TALatch :: u16
  ci_TBLatch :: u16
  ci_TADeadline :: u64
  ci_TBDeadline :: u64
  ci_NMIDeadline :: u64
  ci_FactorInUse :: u64
  ci_SynthNMIsDelivered :: u64
  ci_Rescales :: u64
  ci_CachedIRQ :: bool
  ci_CachedNMI :: bool
  ci_TraceGen :: u32
  ci_TraceArmAt :: u64
  ci_TraceLatchAt :: u64
  ci_TraceLatchGen :: u32
  ci_TraceExposeAt :: u64
  ci_TraceExposeGen :: u32
  ci_TraceTakeAt :: u64
  ci_TraceTakeGen :: u32

record c64t =
  t_clk :: clk
  t_bus :: bus_events
  t_cia :: cia2

definition on_clk :: "(clk \<Rightarrow> clk) \<Rightarrow> c64t \<Rightarrow> c64t" where "on_clk f s = s\<lparr>t_clk := f (t_clk s)\<rparr>"
definition on_bus :: "(bus_events \<Rightarrow> bus_events) \<Rightarrow> c64t \<Rightarrow> c64t" where "on_bus f s = s\<lparr>t_bus := f (t_bus s)\<rparr>"
definition on_cia :: "(cia2 \<Rightarrow> cia2) \<Rightarrow> c64t \<Rightarrow> c64t" where "on_cia f s = s\<lparr>t_cia := f (t_cia s)\<rparr>"

lemma on_simps [simp]:
  "t_clk (on_clk f s) = f (t_clk s)" "t_bus (on_clk f s) = t_bus s" "t_cia (on_clk f s) = t_cia s"
  "t_clk (on_bus g s) = t_clk s" "t_bus (on_bus g s) = g (t_bus s)" "t_cia (on_bus g s) = t_cia s"
  "t_clk (on_cia h s) = t_clk s" "t_bus (on_cia h s) = t_bus s" "t_cia (on_cia h s) = h (t_cia s)"
  by (simp_all add: on_clk_def on_bus_def on_cia_def)

definition timing_hook :: "c64t \<Rightarrow> c64t" where
  "timing_hook = on_clk (\<lambda>k. k\<lparr>ck_TimingHook := map_option Suc (ck_TimingHook k)\<rparr>)"

section \<open>Two clocks\<close>

definition effectiveCIAFactor :: "clk \<Rightarrow> u64" where
  "effectiveCIAFactor k =
     (if ck_IECHoldCycles k \<noteq> 0 \<or> ck_IECPollHoldCycles k \<noteq> 0 then 1
      else if ck_PacingCheckCycles k \<noteq> 0 then ucast (ck_PacingCheckCycles k) else 1)"

definition c64Now :: "clk \<Rightarrow> u64" where
  "c64Now k =
     (let factor = (if ck_C64FactorInUse k \<noteq> 0 then ck_C64FactorInUse k else 1)
      in ck_C64ClockBase k + (ck_EmuCycles k - ck_EmuAtRateChange k) div factor)"

definition c64ClockRebase :: "clk \<Rightarrow> clk" where
  "c64ClockRebase k =
     k\<lparr>ck_C64ClockBase := c64Now k, ck_EmuAtRateChange := ck_EmuCycles k, ck_C64FactorInUse := effectiveCIAFactor k\<rparr>"

section \<open>The CIA2 timer model\<close>

definition cia2RecomputeNMIState :: "cia2 \<Rightarrow> cia2" where
  "cia2RecomputeNMIState c =
     (let next = ci_TADeadline c;
          next = (if ci_TBDeadline c \<noteq> 0 \<and> (next = 0 \<or> ci_TBDeadline c < next) then ci_TBDeadline c else next)
      in c\<lparr>ci_NMIDeadline := (if ci_NMIRetimeEnable c then next else 0),
           ci_NMIOwned := (ci_NMIRetimeEnable c \<and> ci_ICRMask c AND 0x03 \<noteq> 0 \<and> ci_ICRMask c AND 0x1C = 0)\<rparr>)"

definition rescaled :: "u64 \<Rightarrow> u64 \<Rightarrow> u64 \<Rightarrow> u64 \<Rightarrow> u64" where
  "rescaled now f g deadline =
     (let rem = (if deadline > now then deadline - now else 0);
          d = now + rem * f div g
      in if d = now then now + 1 else d)"

definition cia2OnRateChange :: "c64t \<Rightarrow> c64t" where
  "cia2OnRateChange s =
     (let f = effectiveCIAFactor (t_clk s);
          s = (if f \<noteq> ck_C64FactorInUse (t_clk s) then on_clk c64ClockRebase s else s)
      in if f = ci_FactorInUse (t_cia s) then s
         else
           let now = ck_EmuCycles (t_clk s); g = ci_FactorInUse (t_cia s);
               c = t_cia s;
               c = (if ci_TADeadline c \<noteq> 0
                    then c\<lparr>ci_TADeadline := rescaled now f g (ci_TADeadline c), ci_Rescales := ci_Rescales c + 1\<rparr> else c);
               c = (if ci_TBDeadline c \<noteq> 0
                    then c\<lparr>ci_TBDeadline := rescaled now f g (ci_TBDeadline c), ci_Rescales := ci_Rescales c + 1\<rparr> else c)
           in s\<lparr>t_cia := cia2RecomputeNMIState (c\<lparr>ci_FactorInUse := f\<rparr>)\<rparr>)"

definition ciaSpan :: "cia2 \<Rightarrow> u64 \<Rightarrow> u64" where
  "ciaSpan c n = n * ci_FactorInUse c"

definition cia2MaybeDeliverSynthNMI :: "c64t \<Rightarrow> c64t" where
  "cia2MaybeDeliverSynthNMI s =
     (let c = t_cia s
      in if ci_NMIOwned c \<and> \<not> ci_SynthNMIActive c \<and> ci_ICRPending c AND ci_ICRMask c AND 0x03 \<noteq> 0
         then timing_hook (s\<lparr>t_cia := c\<lparr>ci_SynthNMIActive := True, ci_CachedNMI := True,
                ci_SynthNMIsDelivered := ci_SynthNMIsDelivered c + 1,
                ci_TraceExposeAt := ck_EmuCycles (t_clk s), ci_TraceExposeGen := ci_TraceGen c\<rparr>\<rparr>)
         else s)"

text \<open>Timer control writes: START of a stopped timer or a force load arms, STOP disarms, counting
  external pulses disarms.\<close>

definition write_icr :: "u8 \<Rightarrow> c64t \<Rightarrow> c64t" where
  "write_icr v s =
     (let s = on_cia (\<lambda>c. c\<lparr>ci_ICRMask := (if has v 0x80 then ci_ICRMask c OR (v AND 0x1F)
                                           else ci_ICRMask c AND NOT (v AND 0x1F))\<rparr>) s
      in if ci_ICRMask (t_cia s) AND 0x03 = 0 then on_cia (\<lambda>c. c\<lparr>ci_SynthNMIActive := False\<rparr>) s
         else cia2MaybeDeliverSynthNMI (on_cia cia2RecomputeNMIState s))"

definition write_cra :: "u8 \<Rightarrow> cia2 \<Rightarrow> cia2" where
  "write_cra v c =
     (let c = (if has v 0x20 then c\<lparr>ci_TADeadline := 0\<rparr>
               else if has v 0x01 \<and> (\<not> has (ci_TACR c) 0x01 \<or> has v 0x10) then c\<lparr>ci_ArmPending := ci_ArmPending c OR 0x01\<rparr>
               else if \<not> has v 0x01 then c\<lparr>ci_TADeadline := 0\<rparr> else c)
      in c\<lparr>ci_TACR := v\<rparr>)"

definition write_crb :: "u8 \<Rightarrow> cia2 \<Rightarrow> cia2" where
  "write_crb v c =
     (let c = (if has v 0x60 then c\<lparr>ci_TBDeadline := 0\<rparr>
               else if has v 0x01 \<and> (\<not> has (ci_TBCR c) 0x01 \<or> has v 0x10) then c\<lparr>ci_ArmPending := ci_ArmPending c OR 0x02\<rparr>
               else if \<not> has v 0x01 then c\<lparr>ci_TBDeadline := 0\<rparr> else c)
      in c\<lparr>ci_TBCR := v\<rparr>)"

definition timer_finish :: "c64t \<Rightarrow> c64t" where
  "timer_finish s =
     (let wasArmed = (ci_NMIDeadline (t_cia s) \<noteq> 0); s = on_cia cia2RecomputeNMIState s
      in if \<not> wasArmed \<and> ci_NMIDeadline (t_cia s) \<noteq> 0 then timing_hook s else s)"

definition cia2TimerWrite :: "u16 \<Rightarrow> u8 \<Rightarrow> c64t \<Rightarrow> c64t" where
  "cia2TimerWrite a v s =
     (let s = cia2OnRateChange s
      in if a = 0xDD04 then timer_finish (on_cia (\<lambda>c. c\<lparr>ci_TALatch := (ci_TALatch c AND 0xFF00) OR ucast v\<rparr>) s)
         else if a = 0xDD05 then timer_finish (on_cia (\<lambda>c. c\<lparr>ci_TALatch := (ci_TALatch c AND 0x00FF) OR push_bit 8 (ucast v)\<rparr>) s)
         else if a = 0xDD06 then timer_finish (on_cia (\<lambda>c. c\<lparr>ci_TBLatch := (ci_TBLatch c AND 0xFF00) OR ucast v\<rparr>) s)
         else if a = 0xDD07 then timer_finish (on_cia (\<lambda>c. c\<lparr>ci_TBLatch := (ci_TBLatch c AND 0x00FF) OR push_bit 8 (ucast v)\<rparr>) s)
         else if a = 0xDD0D then timer_finish (write_icr v s)
         else if a = 0xDD0E then timer_finish (on_cia (write_cra v) s)
         else if a = 0xDD0F then timer_finish (on_cia (write_crb v) s)
         else s)"

definition cia2FinishArm :: "c64t \<Rightarrow> c64t" where
  "cia2FinishArm s =
     (let s = cia2OnRateChange s; now = ck_EmuCycles (t_clk s); c = t_cia s;
          c = (if has (ci_ArmPending c) 0x01
               then c\<lparr>ci_TADeadline := now + ciaSpan c (ucast (ci_TALatch c) + 1), ci_TraceArmAt := now,
                      ci_TraceGen := ci_TraceGen c + 1\<rparr> else c);
          c = (if has (ci_ArmPending c) 0x02
               then c\<lparr>ci_TBDeadline := now + ciaSpan c (ucast (ci_TBLatch c) + 1)\<rparr> else c)
      in s\<lparr>t_cia := cia2RecomputeNMIState (c\<lparr>ci_ArmPending := 0\<rparr>)\<rparr>)"

definition latch_underflows :: "u64 \<Rightarrow> cia2 \<Rightarrow> cia2" where
  "latch_underflows now c =
     (let c = (if ci_TADeadline c \<noteq> 0 \<and> now \<ge> ci_TADeadline c then
                 let c = c\<lparr>ci_ICRPending := ci_ICRPending c OR 0x01, ci_TraceLatchAt := now, ci_TraceLatchGen := ci_TraceGen c\<rparr>
                 in if has (ci_TACR c) 0x08 then c\<lparr>ci_TADeadline := 0, ci_TACR := ci_TACR c AND NOT 0x01\<rparr>
                    else c\<lparr>ci_TADeadline := ci_TADeadline c + ciaSpan c (ucast (ci_TALatch c) + 1)\<rparr>
               else c)
      in if ci_TBDeadline c \<noteq> 0 \<and> now \<ge> ci_TBDeadline c then
           let c = c\<lparr>ci_ICRPending := ci_ICRPending c OR 0x02\<rparr>
           in if has (ci_TBCR c) 0x08 then c\<lparr>ci_TBDeadline := 0, ci_TBCR := ci_TBCR c AND NOT 0x01\<rparr>
              else c\<lparr>ci_TBDeadline := ci_TBDeadline c + ciaSpan c (ucast (ci_TBLatch c) + 1)\<rparr>
         else c)"

definition ciaTimerNMIDue :: "c64t \<Rightarrow> c64t" where
  "ciaTimerNMIDue s =
     (let s = cia2OnRateChange s;
          s = on_cia (latch_underflows (ck_EmuCycles (t_clk s))) s
      in on_cia cia2RecomputeNMIState (cia2MaybeDeliverSynthNMI s))"

definition check_deadline :: "c64t \<Rightarrow> c64t" where
  "check_deadline s =
     (if ci_NMIDeadline (t_cia s) \<noteq> 0 \<and> ck_EmuCycles (t_clk s) \<ge> ci_NMIDeadline (t_cia s) then ciaTimerNMIDue s else s)"

text \<open>The read of \<open>$DD0D\<close> acknowledges.\<close>

definition acknowledge_icr :: "cia2 \<Rightarrow> cia2" where
  "acknowledge_icr c = c\<lparr>ci_SynthNMIActive := False, ci_ICRPending := 0\<rparr>"

definition noteNMITaken :: "c64t \<Rightarrow> c64t" where
  "noteNMITaken s = on_cia (\<lambda>c. c\<lparr>ci_TraceTakeAt := ck_EmuCycles (t_clk s), ci_TraceTakeGen := ci_TraceGen c\<rparr>) s"

definition nmiTraceStageUS :: "cia2 \<Rightarrow> u64 \<Rightarrow> u32 \<Rightarrow> u32" where
  "nmiTraceStageUS c at gen =
     (if gen \<noteq> ci_TraceGen c \<or> at < ci_TraceArmAt c then 0xFFFFFFFF
      else ucast ((at - ci_TraceArmAt c) div (if ci_FactorInUse c \<noteq> 0 then ci_FactorInUse c else 1)))"

section \<open>Holds at 1 MHz for the serial bus\<close>

definition explicitlySlow :: "clk \<Rightarrow> bool" where
  "explicitlySlow k \<longleftrightarrow> ck_SelectedEmulatedHz k \<noteq> 0 \<and> ck_SelectedEmulatedHz k \<le> 1000000"

definition notePollHold :: "c64t \<Rightarrow> c64t" where
  "notePollHold s =
     (let k = t_clk s
      in if \<not> ck_IECThrottleEnabled k \<or> explicitlySlow k then s
         else if ck_IECPollHoldCycles k < 1000 then
           let wasInactive = (ck_IECPollHoldCycles k = 0 \<and> ck_IECHoldCycles k = 0);
               s = s\<lparr>t_clk := k\<lparr>ck_IECPollHoldCycles := 1000\<rparr>\<rparr>
           in if wasInactive then timing_hook (cia2OnRateChange s) else s
         else s)"

definition noteIECActivity :: "c64t \<Rightarrow> c64t" where
  "noteIECActivity s =
     (let wasQuiet = (ck_IECActivityCycles (t_clk s) = 0);
          s = on_clk (\<lambda>k. k\<lparr>ck_IECActivityCycles := 2000\<rparr>) s;
          s = (if wasQuiet then timing_hook s else s)
      in if ck_IECThrottleEnabled (t_clk s) \<and> \<not> explicitlySlow (t_clk s) then
           let wasInactive = (ck_IECHoldCycles (t_clk s) = 0);
               s = on_clk (\<lambda>k. k\<lparr>ck_IECThrottleEvents := (if wasInactive then ck_IECThrottleEvents k + 1
                                                           else ck_IECThrottleEvents k),
                                ck_IECHoldCycles := 100000\<rparr>) s
           in if wasInactive then timing_hook (cia2OnRateChange s) else s
         else s)"

text \<open>An explicit software speed selection (\<open>$D07A\<close>, \<open>$D07B\<close>) ends the poll hold at once.\<close>

definition cancelPollHold :: "c64t \<Rightarrow> c64t" where
  "cancelPollHold s =
     (if ck_IECPollHoldCycles (t_clk s) \<noteq> 0
      then timing_hook (cia2OnRateChange (on_clk (\<lambda>k. k\<lparr>ck_IECPollHoldCycles := 0\<rparr>) s)) else s)"

definition setIECThrottle :: "bool \<Rightarrow> c64t \<Rightarrow> c64t" where
  "setIECThrottle on = on_clk (\<lambda>k. k\<lparr>ck_IECThrottleEnabled := on\<rparr>)"

definition iecThrottleActive :: "c64t \<Rightarrow> bool" where
  "iecThrottleActive s \<longleftrightarrow> ck_IECHoldCycles (t_clk s) > 0 \<or> ck_IECPollHoldCycles (t_clk s) > 0"

definition iecBusActive :: "c64t \<Rightarrow> bool" where
  "iecBusActive s \<longleftrightarrow> ck_IECActivityCycles (t_clk s) \<noteq> 0"

definition fineTicksRequired :: "c64t \<Rightarrow> bool" where
  "fineTicksRequired s \<longleftrightarrow>
     be_PostedWritePending (t_bus s) \<or> ck_IECHoldCycles (t_clk s) \<noteq> 0 \<or> ck_IECActivityCycles (t_clk s) \<noteq> 0
     \<or> ck_IECPollHoldCycles (t_clk s) \<noteq> 0 \<or> ci_NMIDeadline (t_cia s) \<noteq> 0 \<or> ci_ArmPending (t_cia s) \<noteq> 0
     \<or> explicitlySlow (t_clk s)"

section \<open>Bus events\<close>

definition enablePostedWriteTiming :: "bool \<Rightarrow> c64t \<Rightarrow> c64t" where
  "enablePostedWriteTiming on =
     on_bus (\<lambda>b. let b = b\<lparr>be_PostedWriteTimingEnable := on\<rparr>
                 in if on then b else b\<lparr>be_PostedWritePending := False, be_MirrorBufferFreeAt := 0\<rparr>)"

definition noteTimingEvent :: "BusTimingEvent \<Rightarrow> c64t \<Rightarrow> c64t" where
  "noteTimingEvent e =
     on_bus (\<lambda>b. if length (be_BusEvents b) < BUS_EVENT_CAPACITY then b\<lparr>be_BusEvents := be_BusEvents b @ [e]\<rparr> else b)"

definition noteBusAccess :: "u16 \<Rightarrow> bool \<Rightarrow> c64t \<Rightarrow> c64t" where
  "noteBusAccess a wr =
     noteTimingEvent (if wr \<and> a AND 0xFE00 = 0xDC00 then BUS_EVENT_CIA_WRITE else BUS_EVENT_IO)"

definition noteMirrorWrite :: "c64t \<Rightarrow> c64t" where
  "noteMirrorWrite s =
     (if be_MirrorStretchEnable (t_bus s) \<or> be_PostedWriteTimingEnable (t_bus s) then
        let s = noteTimingEvent BUS_EVENT_MIRROR_WRITE s
        in if be_PostedWriteTimingEnable (t_bus s) then on_bus (\<lambda>b. b\<lparr>be_PostedWritePending := True\<rparr>) s else s
      else s)"

definition noteFastHalfCycles :: "u32 \<Rightarrow> c64t \<Rightarrow> c64t" where
  "noteFastHalfCycles n = on_bus (\<lambda>b. b\<lparr>be_PendingFastHalfCycles := be_PendingFastHalfCycles b + n\<rparr>)"

section \<open>One tick\<close>

definition charge :: "u64 \<Rightarrow> c64t \<Rightarrow> c64t" where
  "charge n = on_clk (\<lambda>k. k\<lparr>ck_EmuCycles := ck_EmuCycles k + n\<rparr>)"

definition tick_region :: "u32 \<times> c64t \<Rightarrow> u32 \<times> c64t" where
  "tick_region = (\<lambda>(n, s).
     if be_PendingFastHalfCycles (t_bus s) = 0 then (n, s)
     else
       let (n, s) =
         (if be_IOStretchEnable (t_bus s) \<and> effectiveCIAFactor (t_clk s) > 1 then
            let halves = be_PendingFastHalfCycles (t_bus s) + ucast (be_FastHalfCarry (t_bus s));
                extra = drop_bit 1 halves
            in (n + extra,
                on_bus (\<lambda>b. b\<lparr>be_FastHalfCarry := ucast (halves AND 1),
                              be_RegionStretchCycles := be_RegionStretchCycles b + ucast extra\<rparr>)
                  (charge (ucast extra) s))
          else (n, s))
       in (n, on_bus (\<lambda>b. b\<lparr>be_PendingFastHalfCycles := 0\<rparr>) s))"

text \<open>The distance to the next PHI2 boundary strictly ahead, and waiting until the posted slot is free.\<close>

definition phase_wait :: "u64 \<Rightarrow> u64 \<Rightarrow> u64" where
  "phase_wait per now = (if now mod per \<noteq> 0 then per - now mod per else per)"

definition freeSlotAt :: "u64 \<Rightarrow> c64t \<Rightarrow> c64t" where
  "freeSlotAt t = on_bus (\<lambda>b. b\<lparr>be_MirrorBufferFreeAt := t\<rparr>)"

definition wait_slot :: "u64 \<times> c64t \<Rightarrow> u64 \<times> c64t" where
  "wait_slot = (\<lambda>(mirrorExtra, s).
     if ck_EmuCycles (t_clk s) < be_MirrorBufferFreeAt (t_bus s) then
       let wait = be_MirrorBufferFreeAt (t_bus s) - ck_EmuCycles (t_clk s)
       in (mirrorExtra + wait, charge wait s)
     else (mirrorExtra, s))"

definition bus_event :: "u64 \<Rightarrow> BusTimingEvent \<Rightarrow> u64 \<times> u64 \<times> c64t \<Rightarrow> u64 \<times> u64 \<times> c64t" where
  "bus_event per e = (\<lambda>(ioExtra, mirrorExtra, s).
     if e = BUS_EVENT_MIRROR_WRITE then
       if \<not> be_MirrorStretchEnable (t_bus s) \<and> \<not> be_PostedWriteTimingEnable (t_bus s)
       then (ioExtra, mirrorExtra, freeSlotAt 0 s)
       else let (mirrorExtra, s) = wait_slot (mirrorExtra, s); now = ck_EmuCycles (t_clk s)
            in (ioExtra, mirrorExtra, freeSlotAt (now + phase_wait per now) s)
     else if \<not> be_IOStretchEnable (t_bus s) then (ioExtra, mirrorExtra, freeSlotAt 0 s)
     else let (mirrorExtra, s) = wait_slot (mirrorExtra, s);
              wait = phase_wait per (ck_EmuCycles (t_clk s));
              s = charge wait s; ioExtra = ioExtra + wait
          in if e = BUS_EVENT_CIA_WRITE then (ioExtra + per, mirrorExtra, charge per s)
             else (ioExtra, mirrorExtra, s))"

definition tick_bus_events :: "u32 \<times> c64t \<Rightarrow> u32 \<times> c64t" where
  "tick_bus_events = (\<lambda>(n, s).
     if be_BusEvents (t_bus s) = [] then (n, s)
     else
       let perC64 = effectiveCIAFactor (t_clk s);
           (ioExtra, mirrorExtra, s) =
             (if perC64 > 1 then fold (bus_event perC64) (be_BusEvents (t_bus s)) (0, 0, s) else (0, 0, s));
           s = on_bus (\<lambda>b. b\<lparr>be_BusEvents := [], be_PostedWritePending := False\<rparr>) s;
           extra = ioExtra + mirrorExtra
       in if extra \<noteq> 0 then
            (n + ucast extra, on_bus (\<lambda>b. b\<lparr>be_IOStretchCycles := be_IOStretchCycles b + ioExtra,
                                           be_MirrorStretchCycles := be_MirrorStretchCycles b + mirrorExtra\<rparr>) s)
          else (n, s))"

definition sub_sat :: "u32 \<Rightarrow> u32 \<Rightarrow> u32" where
  "sub_sat x n = (if x > n then x - n else 0)"

definition tick_credit :: "u32 \<Rightarrow> c64t \<Rightarrow> c64t" where
  "tick_credit n = on_clk (\<lambda>k. k\<lparr>ck_MaxTickChunk := (if n > ck_MaxTickChunk k then n else ck_MaxTickChunk k),
                               ck_IntCredit := (if ck_IntCredit k < 0x100000 then ck_IntCredit k + n else ck_IntCredit k)\<rparr>)"

definition tick_arm :: "c64t \<Rightarrow> c64t" where
  "tick_arm s = (if ci_ArmPending (t_cia s) \<noteq> 0 then cia2FinishArm s else s)"

definition tick_activity :: "u32 \<Rightarrow> c64t \<Rightarrow> c64t" where
  "tick_activity n = on_clk (\<lambda>k. k\<lparr>ck_IECActivityCycles := sub_sat (ck_IECActivityCycles k) n\<rparr>)"

definition tick_poll_hold :: "u32 \<Rightarrow> c64t \<Rightarrow> c64t" where
  "tick_poll_hold n s =
     (if ck_IECPollHoldCycles (t_clk s) \<noteq> 0 then
        let s = on_clk (\<lambda>k. k\<lparr>ck_IECPollHoldCycles := sub_sat (ck_IECPollHoldCycles k) n\<rparr>) s
        in if ck_IECPollHoldCycles (t_clk s) = 0 \<and> ck_IECHoldCycles (t_clk s) = 0
           then timing_hook (cia2OnRateChange s) else s
      else s)"

definition tick_stats :: "bool \<Rightarrow> u32 \<Rightarrow> c64t \<Rightarrow> c64t" where
  "tick_stats iecActive n =
     on_clk (\<lambda>k. k\<lparr>ck_IECThrottledCycles := (if iecActive then ck_IECThrottledCycles k + ucast n
                                             else ck_IECThrottledCycles k),
                   ck_SlowPacedCycles := (if iecActive \<or> explicitlySlow k then ck_SlowPacedCycles k + ucast n
                                          else ck_SlowPacedCycles k)\<rparr>)"

definition tick_hold :: "bool \<Rightarrow> u32 \<Rightarrow> c64t \<Rightarrow> c64t" where
  "tick_hold iecActive n s =
     (if iecActive then
        let hadIECHold = (ck_IECHoldCycles (t_clk s) \<noteq> 0);
            s = on_clk (\<lambda>k. k\<lparr>ck_IECHoldCycles := sub_sat (ck_IECHoldCycles k) n\<rparr>) s
        in if hadIECHold \<and> ck_IECHoldCycles (t_clk s) = 0 \<and> ck_IECPollHoldCycles (t_clk s) = 0
           then timing_hook (cia2OnRateChange s) else s
      else s)"

text \<open>Everything of \<open>tickFast\<close> up to pacing: the cycles charged, whether a hold was in force, and the
  state.\<close>

definition tick_clock :: "u32 \<Rightarrow> c64t \<Rightarrow> u32 \<times> bool \<times> c64t" where
  "tick_clock n s =
     (let s = charge (ucast n) s;
          (n, s) = tick_bus_events (tick_region (n, s));
          s = tick_poll_hold n (tick_activity n (check_deadline (tick_arm (tick_credit n s))));
          iecActive = (ck_IECHoldCycles (t_clk s) \<noteq> 0 \<or> ck_IECPollHoldCycles (t_clk s) \<noteq> 0)
      in (n, iecActive, tick_hold iecActive n (tick_stats iecActive n s)))"

section \<open>Pacing against the host clock\<close>

text \<open>\<open>C\<close> is \<open>m_C64\<close>: the attached bus, or none. The wait loop has no bound of its own; that it ends is a
  property of the host clock.\<close>

partial_function (option) pacer_wait :: "'h ic64_bus \<Rightarrow> u64 \<Rightarrow> u64 \<Rightarrow> 'h \<Rightarrow> (u64 \<times> 'h) option" where
  "pacer_wait B anchor owed h =
     (let (now, h) = cb_hostCycles B h
      in if now - anchor < owed then pacer_wait B anchor owed h else Some (now, h))"

definition keepalive :: "'h ic64_bus \<Rightarrow> u64 \<Rightarrow> c64t \<Rightarrow> 'h \<Rightarrow> u64 \<times> c64t \<times> 'h" where
  "keepalive B now s h =
     (let k = t_clk s; realIEC = (ck_IECHoldCycles k \<noteq> 0 \<or> ck_IECActivityCycles k \<noteq> 0)
      in if ck_BusKeepalive k \<and> \<not> realIEC \<and> (ck_NextKeepalive k = 0 \<or> 0 \<le>s now - ck_NextKeepalive k) then
           let h = cb_write B 0x02FE 0xA6 h;
               (now, h) = cb_hostCycles B h;
               hostRate = (ucast (cb_hostCyclesPerSec B h) :: u64)
           in (now, on_clk (\<lambda>k. k\<lparr>ck_NextKeepalive := now + (if hostRate \<noteq> 0 then hostRate * 90 div 1000000 else 1)\<rparr>) s, h)
         else (now, s, h))"

definition settled :: "u64 \<Rightarrow> c64t \<Rightarrow> c64t" where
  "settled now = on_clk (\<lambda>k. k\<lparr>ck_PacingAnchor := now, ck_PacingDebtCycles := 0\<rparr>)"

definition tickSettle :: "'h ic64_bus \<Rightarrow> bool \<Rightarrow> c64t \<Rightarrow> 'h \<Rightarrow> (c64t \<times> 'h) option" where
  "tickSettle B iecActive s h =
     (let (now, h) = cb_hostCycles B h;
          (now, s, h) = keepalive B now s h;
          rate = (if iecActive then ck_HostPerEmuQ16Slow (t_clk s) else ck_HostPerEmuQ16 (t_clk s));
          owed = drop_bit 16 (ck_PacingDebtCycles (t_clk s) * rate)
      in if now - ck_PacingAnchor (t_clk s) \<ge> owed then Some (settled now s, h)
         else
           case pacer_wait B (ck_PacingAnchor (t_clk s)) owed h of
             None \<Rightarrow> None
           | Some (now', h) \<Rightarrow>
               Some (settled now' (on_clk (\<lambda>k. k\<lparr>ck_PacerWaitHostCycles := ck_PacerWaitHostCycles k + (now' - now)\<rparr>) s), h))"

definition tickFast :: "'h ic64_bus option \<Rightarrow> u32 \<Rightarrow> c64t \<Rightarrow> 'h \<Rightarrow> (c64t \<times> 'h) option" where
  "tickFast C n s h =
     (let (n, iecActive, s) = tick_clock n s
      in case C of
           None \<Rightarrow> Some (s, h)
         | Some B \<Rightarrow>
             if ck_HostPerEmuQ16 (t_clk s) = 0 then Some (s, h)
             else
               let s = on_clk (\<lambda>k. k\<lparr>ck_PacingDebtCycles := ck_PacingDebtCycles k + ucast n\<rparr>) s
               in if \<not> iecActive \<and> ck_PacingDebtCycles (t_clk s) < ucast (ck_PacingCheckCycles (t_clk s))
                  then Some (s, h) else tickSettle B iecActive s h)"

definition resyncPacing :: "'h ic64_bus option \<Rightarrow> c64t \<Rightarrow> 'h \<Rightarrow> c64t \<times> 'h" where
  "resyncPacing C s h =
     (let (now, h) = (case C of Some B \<Rightarrow> cb_hostCycles B h | None \<Rightarrow> (0, h)) in (settled now s, h))"

definition setPacing :: "'h ic64_bus option \<Rightarrow> u64 \<Rightarrow> u32 \<Rightarrow> c64t \<Rightarrow> 'h \<Rightarrow> c64t \<times> 'h" where
  "setPacing C hostHz emulatedHz s h =
     (let s = on_clk (\<lambda>k. k\<lparr>ck_SelectedEmulatedHz := emulatedHz,
                            ck_PacingCheckCycles := (if emulatedHz div 1000000 < 1 then 1 else emulatedHz div 1000000),
                            ck_IECHoldCycles := (if emulatedHz \<noteq> 0 \<and> emulatedHz \<le> 1000000 then 0 else ck_IECHoldCycles k)\<rparr>) s;
          s = cia2OnRateChange s
      in if hostHz = 0 \<or> emulatedHz = 0 then (on_clk (\<lambda>k. k\<lparr>ck_HostPerEmuQ16 := 0\<rparr>) s, h)
         else resyncPacing C (on_clk (\<lambda>k. k\<lparr>ck_HostPerEmuQ16 := push_bit 16 hostHz div ucast emulatedHz,
                                            ck_HostPerEmuQ16Slow := push_bit 16 hostHz div 1000000\<rparr>) s) h)"

section \<open>The cached interrupt lines\<close>

definition refreshInterruptsIfDue :: "'h ic64_bus option \<Rightarrow> c64t \<Rightarrow> 'h \<Rightarrow> c64t \<times> 'h" where
  "refreshInterruptsIfDue C s h =
     (let s = check_deadline s; k = t_clk s;
          threshold = (if ck_IECHoldCycles k \<noteq> 0 \<or> ck_IECPollHoldCycles k \<noteq> 0 then 1 else ck_PacingCheckCycles k)
      in case C of
           None \<Rightarrow> (s, h)
         | Some B \<Rightarrow>
             if ck_IntCredit k \<ge> threshold then
               let ((irq, nmi), h) = sampleInterrupts B h
               in (on_clk (\<lambda>k. k\<lparr>ck_IntCredit := 0\<rparr>)
                     (on_cia (\<lambda>c. c\<lparr>ci_CachedIRQ := irq,
                                    ci_CachedNMI := (if ci_NMIOwned c then ci_SynthNMIActive c
                                                     else nmi \<or> ci_SynthNMIActive c)\<rparr>) s), h)
             else (s, h))"

definition sampleIRQNMIFast :: "'h ic64_bus option \<Rightarrow> c64t \<Rightarrow> 'h \<Rightarrow> (bool \<times> bool) \<times> c64t \<times> 'h" where
  "sampleIRQNMIFast C s h =
     (let (s, h) = refreshInterruptsIfDue C s h in ((ci_CachedIRQ (t_cia s), ci_CachedNMI (t_cia s)), s, h))"

section \<open>Construction and reset\<close>

definition timing_new :: "c64t" where
  "timing_new =
     \<lparr> t_clk = \<lparr> ck_EmuCycles = 0, ck_C64ClockBase = 0, ck_EmuAtRateChange = 0, ck_C64FactorInUse = 1,
         ck_PacingCheckCycles = 1, ck_SelectedEmulatedHz = 0, ck_IECThrottleEnabled = True, ck_IECThrottleEvents = 0,
         ck_IECHoldCycles = 0, ck_IECActivityCycles = 0, ck_IECPollHoldCycles = 0, ck_MaxTickChunk = 0,
         ck_IntCredit = 0xFFFFF, ck_SlowPacedCycles = 0, ck_IECThrottledCycles = 0, ck_PacingDebtCycles = 0,
         ck_HostPerEmuQ16 = 0, ck_HostPerEmuQ16Slow = 0, ck_PacingAnchor = 0, ck_PacerWaitHostCycles = 0,
         ck_BusKeepalive = False, ck_NextKeepalive = 0, ck_TimingHook = None \<rparr>,
       t_bus = \<lparr> be_IOStretchEnable = True, be_MirrorStretchEnable = False, be_PostedWriteTimingEnable = False,
         be_BusEvents = [], be_PostedWritePending = False, be_MirrorBufferFreeAt = 0, be_IOStretchCycles = 0,
         be_MirrorStretchCycles = 0, be_PendingFastHalfCycles = 0, be_FastHalfCarry = 0, be_RegionStretchCycles = 0 \<rparr>,
       t_cia = \<lparr> ci_NMIRetimeEnable = True, ci_NMIOwned = False, ci_SynthNMIActive = False, ci_ICRMask = 0,
         ci_ICRPending = 0, ci_TACR = 0, ci_TBCR = 0, ci_ArmPending = 0, ci_TALatch = 0xFFFF, ci_TBLatch = 0xFFFF,
         ci_TADeadline = 0, ci_TBDeadline = 0, ci_NMIDeadline = 0, ci_FactorInUse = 1, ci_SynthNMIsDelivered = 0,
         ci_Rescales = 0, ci_CachedIRQ = False, ci_CachedNMI = False, ci_TraceGen = 0, ci_TraceArmAt = 0,
         ci_TraceLatchAt = 0, ci_TraceLatchGen = 0xFFFFFFFF, ci_TraceExposeAt = 0, ci_TraceExposeGen = 0xFFFFFFFF,
         ci_TraceTakeAt = 0, ci_TraceTakeGen = 0xFFFFFFFF \<rparr> \<rparr>"

text \<open>The timing part of \<open>reset\<close>, before \<open>resyncPacing\<close>. The flags a configuration owns, the statistics of
  the bus events, the rate selection and the trace survive.\<close>

definition timing_reset :: "c64t \<Rightarrow> c64t" where
  "timing_reset s =
     (let k = (t_clk s)\<lparr>ck_IECThrottleEvents := 0, ck_PacingDebtCycles := 0, ck_PacerWaitHostCycles := 0,
                 ck_SlowPacedCycles := 0, ck_IECThrottledCycles := 0, ck_IECHoldCycles := 0, ck_IECActivityCycles := 0,
                 ck_IECPollHoldCycles := 0, ck_MaxTickChunk := 0, ck_EmuCycles := 0, ck_C64ClockBase := 0,
                 ck_EmuAtRateChange := 0, ck_NextKeepalive := 0, ck_IntCredit := 0xFFFFF\<rparr>;
          f = effectiveCIAFactor k
      in \<lparr> t_clk = k\<lparr>ck_C64FactorInUse := f\<rparr>,
           t_bus = (t_bus s)\<lparr>be_BusEvents := [], be_PostedWritePending := False, be_MirrorBufferFreeAt := 0,
                     be_PendingFastHalfCycles := 0, be_FastHalfCarry := 0\<rparr>,
           t_cia = (t_cia s)\<lparr>ci_CachedIRQ := False, ci_CachedNMI := False, ci_NMIOwned := False,
                     ci_SynthNMIActive := False, ci_ICRMask := 0, ci_TACR := 0, ci_TBCR := 0, ci_TALatch := 0xFFFF,
                     ci_TBLatch := 0xFFFF, ci_ICRPending := 0, ci_ArmPending := 0, ci_TADeadline := 0,
                     ci_TBDeadline := 0, ci_NMIDeadline := 0, ci_FactorInUse := f\<rparr> \<rparr>)"

end
