(* ===== verification/C64TimingInv.thy ===== *)
theory C64TimingInv
  imports C64Timing
begin

text \<open>
  The invariant of the clock side of \<open>CC64Memory\<close>: the recorded rates agree with the effective one and the
  NMI deadline with the armed timers. Every operation keeps it; the step relation \<open>timing_step\<close> collects
  the operations over a bus state.
\<close>

unbundle bit_operations_syntax

section \<open>The invariant of rates and deadlines\<close>

definition nearest_deadline :: "cia2 \<Rightarrow> u64" where
  "nearest_deadline c =
     (if ci_TADeadline c = 0 then ci_TBDeadline c else if ci_TBDeadline c = 0 then ci_TADeadline c
      else min (ci_TADeadline c) (ci_TBDeadline c))"

definition nmi_ok :: "cia2 \<Rightarrow> bool" where
  "nmi_ok c \<longleftrightarrow>
     ci_NMIDeadline c = (if ci_NMIRetimeEnable c then nearest_deadline c else 0)
     \<and> ci_NMIOwned c = (ci_NMIRetimeEnable c \<and> ci_ICRMask c AND 0x03 \<noteq> 0 \<and> ci_ICRMask c AND 0x1C = 0)"

definition rates_ok :: "c64t \<Rightarrow> bool" where
  "rates_ok s \<longleftrightarrow>
     ck_C64FactorInUse (t_clk s) = effectiveCIAFactor (t_clk s)
     \<and> ci_FactorInUse (t_cia s) = effectiveCIAFactor (t_clk s)"

definition timing_inv :: "c64t \<Rightarrow> bool" where
  "timing_inv s \<longleftrightarrow> rates_ok s \<and> nmi_ok (t_cia s) \<and> length (be_BusEvents (t_bus s)) \<le> BUS_EVENT_CAPACITY"

named_theorems timing_intros

lemma recompute_nmi_ok [simp]: "nmi_ok (cia2RecomputeNMIState c)"
  by (auto simp: nmi_ok_def cia2RecomputeNMIState_def nearest_deadline_def Let_def min_def)

lemma recompute_factor [simp]: "ci_FactorInUse (cia2RecomputeNMIState c) = ci_FactorInUse c"
  by (simp add: cia2RecomputeNMIState_def Let_def)

lemma timing_hook_parts [simp]:
  "t_bus (timing_hook s) = t_bus s" "t_cia (timing_hook s) = t_cia s"
  "effectiveCIAFactor (t_clk (timing_hook s)) = effectiveCIAFactor (t_clk s)"
  "ck_C64FactorInUse (t_clk (timing_hook s)) = ck_C64FactorInUse (t_clk s)"
  "ck_EmuCycles (t_clk (timing_hook s)) = ck_EmuCycles (t_clk s)"
  "c64Now (t_clk (timing_hook s)) = c64Now (t_clk s)"
  by (simp_all add: timing_hook_def effectiveCIAFactor_def c64Now_def)

lemma timing_hook_inv [simp]: "timing_inv (timing_hook s) = timing_inv s"
  by (simp add: timing_inv_def rates_ok_def)

lemma unat_u32_u64 [simp]: "unat (ucast (x :: u32) :: u64) = unat x"
proof -
  have "unat x < 2 ^ 64" using unsigned_less [of x, where 'a = nat] by simp
  then show ?thesis by (simp add: unsigned_ucast_eq take_bit_nat_eq_self_iff)
qed

lemma u32_u64_zero [simp]: "(ucast (x :: u32) :: u64) = 0 \<longleftrightarrow> x = 0"
  by (metis unat_u32_u64 unsigned_0 unsigned_eq_0_iff)

lemma effective_pos [simp]: "effectiveCIAFactor k \<noteq> 0"
  by (simp add: effectiveCIAFactor_def)

text \<open>With the rates in step a rate change is the identity, so every operation that starts by
  re-denominating has the effect of the rest of its body.\<close>

lemma onRateChange_id [simp]: "rates_ok s \<Longrightarrow> cia2OnRateChange s = s"
  by (simp add: cia2OnRateChange_def rates_ok_def Let_def)

lemma rebase_parts [simp]:
  "effectiveCIAFactor (c64ClockRebase k) = effectiveCIAFactor k"
  "ck_C64FactorInUse (c64ClockRebase k) = effectiveCIAFactor k"
  "ck_EmuCycles (c64ClockRebase k) = ck_EmuCycles k"
  "c64Now (c64ClockRebase k) = c64Now k"
  by (simp_all add: c64ClockRebase_def effectiveCIAFactor_def c64Now_def Let_def)

lemma onRateChange_inv:
  assumes "nmi_ok (t_cia s)" "length (be_BusEvents (t_bus s)) \<le> BUS_EVENT_CAPACITY"
  shows "timing_inv (cia2OnRateChange s)"
  using assms by (auto simp: timing_inv_def rates_ok_def cia2OnRateChange_def Let_def)

lemma onRateChange_c64Now [simp]: "c64Now (t_clk (cia2OnRateChange s)) = c64Now (t_clk s)"
  by (simp add: cia2OnRateChange_def Let_def)

section \<open>Every operation keeps the invariant\<close>

text \<open>What an operation may change without touching the rates.\<close>

definition same_rate :: "c64t \<Rightarrow> c64t \<Rightarrow> bool" where
  "same_rate s t \<longleftrightarrow>
     effectiveCIAFactor (t_clk t) = effectiveCIAFactor (t_clk s)
     \<and> ck_C64FactorInUse (t_clk t) = ck_C64FactorInUse (t_clk s) \<and> ci_FactorInUse (t_cia t) = ci_FactorInUse (t_cia s)"

lemma same_rateD: "same_rate s t \<Longrightarrow> rates_ok t = rates_ok s"
  by (simp add: same_rate_def rates_ok_def)

lemma same_rate_refl [simp]: "same_rate s s" by (simp add: same_rate_def)
lemma same_rate_trans: "same_rate s t \<Longrightarrow> same_rate t u \<Longrightarrow> same_rate s u" by (simp add: same_rate_def)

lemma same_rate_on [simp]:
  "(\<And>c. ci_FactorInUse (h c) = ci_FactorInUse c) \<Longrightarrow> same_rate s (on_cia h s)"
  "same_rate s (on_bus g s)" "same_rate s (timing_hook s)"
  "(\<And>k. effectiveCIAFactor (f k) = effectiveCIAFactor k \<and> ck_C64FactorInUse (f k) = ck_C64FactorInUse k)
    \<Longrightarrow> same_rate s (on_clk f s)"
  by (simp_all add: same_rate_def)

lemma maybe_same [simp]:
  "same_rate s (cia2MaybeDeliverSynthNMI s)" "t_bus (cia2MaybeDeliverSynthNMI s) = t_bus s"
  "c64Now (t_clk (cia2MaybeDeliverSynthNMI s)) = c64Now (t_clk s)"
  "nmi_ok (t_cia (cia2MaybeDeliverSynthNMI s)) = nmi_ok (t_cia s)"
  by (auto simp: cia2MaybeDeliverSynthNMI_def Let_def same_rate_def nmi_ok_def nearest_deadline_def)

lemma latch_factor [simp]: "ci_FactorInUse (latch_underflows now c) = ci_FactorInUse c"
  by (simp add: latch_underflows_def Let_def ciaSpan_def)

lemma write_icr_same [simp]:
  "same_rate s (write_icr v s)" "t_bus (write_icr v s) = t_bus s" "c64Now (t_clk (write_icr v s)) = c64Now (t_clk s)"
proof -
  define m where "m = (if has v 0x80 then ci_ICRMask (t_cia s) OR (v AND 0x1F) else ci_ICRMask (t_cia s) AND NOT (v AND 0x1F))"
  define s1 where "s1 = on_cia (\<lambda>c. c\<lparr>ci_ICRMask := if has v 0x80 then ci_ICRMask c OR (v AND 0x1F)
                                             else ci_ICRMask c AND NOT (v AND 0x1F)\<rparr>) s"
  have w: "write_icr v s = (if m AND 3 = 0 then on_cia (\<lambda>c. c\<lparr>ci_SynthNMIActive := False\<rparr>) s1
                            else cia2MaybeDeliverSynthNMI (on_cia cia2RecomputeNMIState s1))"
    by (simp add: write_icr_def Let_def s1_def m_def)
  have s1: "same_rate s s1" by (simp add: s1_def)
  have "same_rate s1 (cia2MaybeDeliverSynthNMI (on_cia cia2RecomputeNMIState s1))"
    by (rule same_rate_trans [OF _ maybe_same(1)]) simp
  moreover have "same_rate s1 (on_cia (\<lambda>c. c\<lparr>ci_SynthNMIActive := False\<rparr>) s1)" by simp_all
  ultimately show "same_rate s (write_icr v s)"
    unfolding w by (simp add: same_rate_trans [OF s1])
  show "t_bus (write_icr v s) = t_bus s" "c64Now (t_clk (write_icr v s)) = c64Now (t_clk s)"
    unfolding w by (simp_all add: s1_def)
qed

lemma write_cr_factor [simp]:
  "ci_FactorInUse (write_cra v c) = ci_FactorInUse c" "ci_FactorInUse (write_crb v c) = ci_FactorInUse c"
  by (simp_all add: write_cra_def write_crb_def Let_def)

lemma rates_on [simp]:
  "rates_ok (on_bus g s) = rates_ok s" "rates_ok (timing_hook s) = rates_ok s"
  "(\<And>c. ci_FactorInUse (h c) = ci_FactorInUse c) \<Longrightarrow> rates_ok (on_cia h s) = rates_ok s"
  "(\<And>k. effectiveCIAFactor (f k) = effectiveCIAFactor k \<and> ck_C64FactorInUse (f k) = ck_C64FactorInUse k)
    \<Longrightarrow> rates_ok (on_clk f s) = rates_ok s"
  by (simp_all add: rates_ok_def)

lemma timer_write_cases:
  assumes "rates_ok s"
  obtains "cia2TimerWrite a v s = s"
  | h where "\<And>c. ci_FactorInUse (h c) = ci_FactorInUse c" "cia2TimerWrite a v s = timer_finish (on_cia h s)"
  | "cia2TimerWrite a v s = timer_finish (write_icr v s)"
proof -
  have w: "cia2TimerWrite a v s =
     (if a = 0xDD04 then timer_finish (on_cia (\<lambda>c. c\<lparr>ci_TALatch := (ci_TALatch c AND 0xFF00) OR ucast v\<rparr>) s)
         else if a = 0xDD05 then timer_finish (on_cia (\<lambda>c. c\<lparr>ci_TALatch := (ci_TALatch c AND 0x00FF) OR push_bit 8 (ucast v)\<rparr>) s)
         else if a = 0xDD06 then timer_finish (on_cia (\<lambda>c. c\<lparr>ci_TBLatch := (ci_TBLatch c AND 0xFF00) OR ucast v\<rparr>) s)
         else if a = 0xDD07 then timer_finish (on_cia (\<lambda>c. c\<lparr>ci_TBLatch := (ci_TBLatch c AND 0x00FF) OR push_bit 8 (ucast v)\<rparr>) s)
         else if a = 0xDD0D then timer_finish (write_icr v s)
         else if a = 0xDD0E then timer_finish (on_cia (write_cra v) s)
         else if a = 0xDD0F then timer_finish (on_cia (write_crb v) s)
         else s)"
    unfolding cia2TimerWrite_def Let_def onRateChange_id [OF assms] by (rule refl)
  consider "a = 0xDD04" | "a = 0xDD05" | "a = 0xDD06" | "a = 0xDD07" | "a = 0xDD0D" | "a = 0xDD0E" | "a = 0xDD0F"
    | "a \<notin> {0xDD04, 0xDD05, 0xDD06, 0xDD07, 0xDD0D, 0xDD0E, 0xDD0F}" by auto
  then show thesis
  proof cases
    case 1 then show thesis by (intro that(2) [of "\<lambda>c. c\<lparr>ci_TALatch := (ci_TALatch c AND 0xFF00) OR ucast v\<rparr>"]) (use 1 w in simp_all)
  next
    case 2 then show thesis by (intro that(2) [of "\<lambda>c. c\<lparr>ci_TALatch := (ci_TALatch c AND 0x00FF) OR push_bit 8 (ucast v)\<rparr>"]) (use 2 w in simp_all)
  next
    case 3 then show thesis by (intro that(2) [of "\<lambda>c. c\<lparr>ci_TBLatch := (ci_TBLatch c AND 0xFF00) OR ucast v\<rparr>"]) (use 3 w in simp_all)
  next
    case 4 then show thesis by (intro that(2) [of "\<lambda>c. c\<lparr>ci_TBLatch := (ci_TBLatch c AND 0x00FF) OR push_bit 8 (ucast v)\<rparr>"]) (use 4 w in simp_all)
  next
    case 5 then show thesis by (intro that(3)) (use 5 w in simp)
  next
    case 6 then show thesis by (intro that(2) [of "write_cra v"]) (use 6 w in simp_all)
  next
    case 7 then show thesis by (intro that(2) [of "write_crb v"]) (use 7 w in simp_all)
  next
    case 8 then show thesis by (intro that(1)) (use 8 w in simp)
  qed
qed

lemma timer_finish_inv:
  assumes "same_rate s t" "t_bus t = t_bus s" "c64Now (t_clk t) = c64Now (t_clk s)" "timing_inv s"
  shows "timing_inv (timer_finish t) \<and> c64Now (t_clk (timer_finish t)) = c64Now (t_clk s)"
  using assms same_rateD [OF assms(1)] by (auto simp: timer_finish_def timing_inv_def Let_def)

lemma timer_write_inv:
  assumes "timing_inv s"
  shows "timing_inv (cia2TimerWrite a v s) \<and> c64Now (t_clk (cia2TimerWrite a v s)) = c64Now (t_clk s)"
proof -
  have "rates_ok s" using assms by (simp add: timing_inv_def)
  then show ?thesis
    by (cases rule: timer_write_cases [of s a v]) (use assms timer_finish_inv [OF _ _ _ assms] in simp_all)
qed

lemma finish_arm_inv:
  assumes "rates_ok s" "length (be_BusEvents (t_bus s)) \<le> BUS_EVENT_CAPACITY"
  shows "timing_inv (cia2FinishArm s)"
proof -
  have "rates_ok (cia2FinishArm s)"
    using assms by (simp add: cia2FinishArm_def Let_def rates_ok_def ciaSpan_def)
  moreover have "nmi_ok (t_cia (cia2FinishArm s))" "t_bus (cia2FinishArm s) = t_bus s"
    using assms by (simp_all add: cia2FinishArm_def Let_def)
  ultimately show ?thesis using assms by (simp add: timing_inv_def)
qed

lemma nmi_due_inv:
  assumes "timing_inv s" shows "timing_inv (ciaTimerNMIDue s)"
  using assms unfolding ciaTimerNMIDue_def
  by (auto simp: timing_inv_def Let_def same_rateD [OF maybe_same(1)])

lemma check_deadline_inv [timing_intros]: "timing_inv s \<Longrightarrow> timing_inv (check_deadline s)"
  by (simp add: check_deadline_def nmi_due_inv)

lemma tick_arm_inv [timing_intros]: "timing_inv s \<Longrightarrow> timing_inv (tick_arm s)"
  by (simp add: tick_arm_def timing_inv_def finish_arm_inv [unfolded timing_inv_def])

lemma inv_on [timing_intros]:
  "(\<And>k. effectiveCIAFactor (f k) = effectiveCIAFactor k \<and> ck_C64FactorInUse (f k) = ck_C64FactorInUse k)
    \<Longrightarrow> timing_inv s \<Longrightarrow> timing_inv (on_clk f s)"
  "(\<And>b. length (be_BusEvents b) \<le> BUS_EVENT_CAPACITY \<Longrightarrow> length (be_BusEvents (g b)) \<le> BUS_EVENT_CAPACITY)
    \<Longrightarrow> timing_inv s \<Longrightarrow> timing_inv (on_bus g s)"
  by (simp_all add: timing_inv_def)

lemma change_inv [timing_intros]:
  assumes "timing_inv s" shows "timing_inv (cia2OnRateChange (on_clk f s))"
  by (rule onRateChange_inv) (use assms in \<open>simp_all add: timing_inv_def\<close>)

lemma poll_hold_inv [timing_intros]:
  assumes "timing_inv s" shows "timing_inv (notePollHold s)"
proof -
  have 1: "s\<lparr>t_clk := (t_clk s)\<lparr>ck_IECPollHoldCycles := 1000\<rparr>\<rparr> = on_clk (\<lambda>k. k\<lparr>ck_IECPollHoldCycles := 1000\<rparr>) s"
    by (simp add: on_clk_def)
  have 2: "timing_inv (on_clk (\<lambda>k. k\<lparr>ck_IECPollHoldCycles := 1000\<rparr>) s)"
    if "\<not> (ck_IECPollHoldCycles (t_clk s) = 0 \<and> ck_IECHoldCycles (t_clk s) = 0)"
    using that assms by (auto simp: timing_inv_def rates_ok_def effectiveCIAFactor_def)
  show ?thesis
    unfolding notePollHold_def Let_def 1
    using assms 2 by (auto intro: timing_intros)
qed

lemma iec_activity_inv [timing_intros]:
  assumes "timing_inv s" shows "timing_inv (noteIECActivity s)"
proof -
  define s1 where "s1 = on_clk (\<lambda>k. k\<lparr>ck_IECActivityCycles := 2000\<rparr>) s"
  define s2 where "s2 = (if ck_IECActivityCycles (t_clk s) = 0 then timing_hook s1 else s1)"
  have "timing_inv s1" unfolding s1_def by (rule inv_on(1)) (auto simp: effectiveCIAFactor_def assms)
  then have s2: "timing_inv s2" by (simp add: s2_def)
  define upd where "upd = (\<lambda>w (k :: clk). k\<lparr>ck_IECThrottleEvents := (if w then ck_IECThrottleEvents k + 1
                                                           else ck_IECThrottleEvents k),
                                ck_IECHoldCycles := 100000\<rparr>)"
  have keep: "timing_inv (on_clk (upd False) s2)" if "ck_IECHoldCycles (t_clk s2) \<noteq> 0"
    using that s2 by (auto simp: timing_inv_def rates_ok_def effectiveCIAFactor_def upd_def)
  have "noteIECActivity s =
     (if ck_IECThrottleEnabled (t_clk s2) \<and> \<not> explicitlySlow (t_clk s2) then
        if ck_IECHoldCycles (t_clk s2) = 0 then timing_hook (cia2OnRateChange (on_clk (upd True) s2))
        else on_clk (upd False) s2
      else s2)"
    by (simp add: noteIECActivity_def Let_def s2_def s1_def upd_def)
  then show ?thesis using s2 keep by (auto intro: timing_intros)
qed

lemma cancel_inv [timing_intros]: "timing_inv s \<Longrightarrow> timing_inv (cancelPollHold s)"
  by (auto simp: cancelPollHold_def intro: timing_intros)

lemma note_event_inv [timing_intros]: "timing_inv s \<Longrightarrow> timing_inv (noteTimingEvent e s)"
  unfolding noteTimingEvent_def by (rule inv_on(2)) auto

lemma note_inv [timing_intros]:
  assumes "timing_inv s"
  shows "timing_inv (noteBusAccess a wr s)" "timing_inv (noteMirrorWrite s)" "timing_inv (noteFastHalfCycles n s)"
  using assms note_event_inv [OF assms]
  by (auto simp: noteBusAccess_def noteMirrorWrite_def noteFastHalfCycles_def Let_def intro: inv_on(2))

lemma charge_inv [timing_intros]: "timing_inv s \<Longrightarrow> timing_inv (charge n s)"
  unfolding charge_def by (rule inv_on(1)) (simp_all add: effectiveCIAFactor_def)

lemma tick_region_inv: "timing_inv s \<Longrightarrow> timing_inv (snd (tick_region (n, s)))"
  by (auto simp: tick_region_def Let_def intro!: timing_intros)

lemma wait_slot_inv: "timing_inv s \<Longrightarrow> timing_inv (snd (wait_slot (x, s)))"
  by (simp add: wait_slot_def Let_def charge_inv)

lemma freeSlot_inv [timing_intros]: "timing_inv s \<Longrightarrow> timing_inv (freeSlotAt t s)"
  unfolding freeSlotAt_def by (rule inv_on(2)) auto

lemma bus_event_inv:
  assumes "timing_inv (snd (snd x))" shows "timing_inv (snd (snd (bus_event per e x)))"
proof -
  obtain io mx s where x: "x = (io, mx, s)" by (cases x) auto
  obtain mx' s' where w: "wait_slot (mx, s) = (mx', s')" by (cases "wait_slot (mx, s)") auto
  have s': "timing_inv s'" using wait_slot_inv [of s mx] assms by (simp add: x w)
  then show ?thesis
    using assms by (auto simp: bus_event_def x w Let_def intro!: timing_intros)
qed

lemma fold_bus_event_inv:
  "timing_inv (snd (snd x)) \<Longrightarrow> timing_inv (snd (snd (fold (bus_event per) es x)))"
  by (induction es arbitrary: x) (simp_all add: bus_event_inv)

lemma tick_bus_inv: "timing_inv s \<Longrightarrow> timing_inv (snd (tick_bus_events (n, s)))"
proof -
  assume s: "timing_inv s"
  let ?P = "effectiveCIAFactor (t_clk s)"
  obtain io mx t where t: "(if ?P > 1 then fold (bus_event ?P) (be_BusEvents (t_bus s)) (0, 0, s) else (0, 0, s)) = (io, mx, t)"
    by (metis prod_cases3)
  have "timing_inv t"
    using fold_bus_event_inv [of "(0, 0, s)" ?P "be_BusEvents (t_bus s)"] s t by (auto split: if_splits)
  then show ?thesis
    using s by (auto simp: tick_bus_events_def t Let_def intro!: timing_intros)
qed

lemma credit_inv [timing_intros]:
  assumes "timing_inv s"
  shows "timing_inv (tick_credit n s)" "timing_inv (tick_activity n s)" "timing_inv (tick_stats i n s)"
  by (auto simp: tick_credit_def tick_activity_def tick_stats_def intro!: inv_on(1) assms)
     (auto simp: effectiveCIAFactor_def)

lemma tick_poll_inv [timing_intros]:
  assumes "timing_inv s" shows "timing_inv (tick_poll_hold n s)"
proof -
  define s1 where "s1 = on_clk (\<lambda>k. k\<lparr>ck_IECPollHoldCycles := sub_sat (ck_IECPollHoldCycles k) n\<rparr>) s"
  have "timing_inv s1"
    if "ck_IECPollHoldCycles (t_clk s) \<noteq> 0" "\<not> (ck_IECPollHoldCycles (t_clk s1) = 0 \<and> ck_IECHoldCycles (t_clk s1) = 0)"
    using that assms by (auto simp: timing_inv_def rates_ok_def effectiveCIAFactor_def s1_def)
  moreover have "timing_inv (cia2OnRateChange s1)" unfolding s1_def by (rule change_inv [OF assms])
  ultimately show ?thesis
    unfolding tick_poll_hold_def Let_def s1_def [symmetric] using assms by simp
qed

lemma tick_hold_inv:
  assumes "timing_inv s" "i = (ck_IECHoldCycles (t_clk s) \<noteq> 0 \<or> ck_IECPollHoldCycles (t_clk s) \<noteq> 0)"
  shows "timing_inv (tick_hold i n s)"
proof -
  define s1 where "s1 = on_clk (\<lambda>k. k\<lparr>ck_IECHoldCycles := sub_sat (ck_IECHoldCycles k) n\<rparr>) s"
  have "timing_inv s1"
    if "i" "\<not> (ck_IECHoldCycles (t_clk s) \<noteq> 0 \<and> ck_IECHoldCycles (t_clk s1) = 0 \<and> ck_IECPollHoldCycles (t_clk s1) = 0)"
    using that assms by (auto simp: timing_inv_def rates_ok_def effectiveCIAFactor_def s1_def sub_sat_def)
  moreover have "timing_inv (cia2OnRateChange s1)" unfolding s1_def by (rule change_inv [OF assms(1)])
  ultimately show ?thesis
    unfolding tick_hold_def Let_def s1_def [symmetric] using assms(1) by simp
qed

lemma tick_clock_inv:
  assumes "timing_inv s" shows "timing_inv (snd (snd (tick_clock n s)))"
proof -
  obtain n1 s1 where 1: "tick_region (n, charge (ucast n) s) = (n1, s1)" by (cases "tick_region (n, charge (ucast n) s)") auto
  obtain n2 s2 where 2: "tick_bus_events (n1, s1) = (n2, s2)" by (cases "tick_bus_events (n1, s1)") auto
  have "timing_inv s1" using tick_region_inv [OF charge_inv [OF assms], of n "ucast n"] 1 by simp
  then have "timing_inv s2" using tick_bus_inv [of s1 n1] 2 by simp
  then have s3: "timing_inv (tick_poll_hold n2 (tick_activity n2 (check_deadline (tick_arm (tick_credit n2 s2)))))"
    by (auto intro!: timing_intros)
  have st: "ck_IECHoldCycles (t_clk (tick_stats i n s)) = ck_IECHoldCycles (t_clk s)"
    "ck_IECPollHoldCycles (t_clk (tick_stats i n s)) = ck_IECPollHoldCycles (t_clk s)" for i n s
    by (simp_all add: tick_stats_def)
  show ?thesis
    unfolding tick_clock_def Let_def 1 2 prod.case snd_conv
    by (rule tick_hold_inv) (simp_all add: st timing_intros s3)
qed

section \<open>Reachable states\<close>

text \<open>\<open>C\<close> is the attached bus, \<open>'h\<close> its state.\<close>

lemma settled_inv [timing_intros]: "timing_inv s \<Longrightarrow> timing_inv (settled now s)"
  unfolding settled_def by (rule inv_on(1)) (simp_all add: effectiveCIAFactor_def)

lemma keepalive_inv:
  assumes "timing_inv s" "keepalive B now s h = (now', s', h')" shows "timing_inv s'"
proof -
  define go where "go = (ck_BusKeepalive (t_clk s) \<and> \<not> (ck_IECHoldCycles (t_clk s) \<noteq> 0 \<or> ck_IECActivityCycles (t_clk s) \<noteq> 0)
    \<and> (ck_NextKeepalive (t_clk s) = 0 \<or> 0 \<le>s now - ck_NextKeepalive (t_clk s)))"
  have s': "s' = s \<or> (\<exists>x. s' = on_clk (\<lambda>k. k\<lparr>ck_NextKeepalive := x\<rparr>) s)"
    using assms(2) unfolding keepalive_def Let_def go_def [symmetric] by (cases go) (auto split: prod.splits)
  have "timing_inv (on_clk (\<lambda>k. k\<lparr>ck_NextKeepalive := x\<rparr>) s)" for x
    by (rule inv_on(1)) (simp_all add: effectiveCIAFactor_def assms(1))
  then show ?thesis using s' assms(1) by auto
qed

lemma tickSettle_inv:
  assumes "timing_inv s" "tickSettle B i s h = Some (s', h')" shows "timing_inv s'"
proof -
  obtain now1 h1 where 1: "cb_hostCycles B h = (now1, h1)" by (cases "cb_hostCycles B h") auto
  obtain now2 s2 h2 where 2: "keepalive B now1 s h1 = (now2, s2, h2)" by (metis prod_cases3)
  have s2: "timing_inv s2" by (rule keepalive_inv [OF assms(1) 2])
  have w: "timing_inv (on_clk (\<lambda>k. k\<lparr>ck_PacerWaitHostCycles := ck_PacerWaitHostCycles k + x\<rparr>) s2)" for x
    by (rule inv_on(1)) (simp_all add: effectiveCIAFactor_def s2)
  show ?thesis
    using assms(2) unfolding tickSettle_def Let_def 1 2 prod.case
    by (auto split: if_splits option.splits prod.splits intro!: timing_intros s2 w)
qed

lemma tickFast_inv:
  assumes "timing_inv s" "tickFast C n s h = Some (s', h')" shows "timing_inv s'"
proof -
  obtain n1 i s1 where 1: "tick_clock n s = (n1, i, s1)" by (metis prod_cases3)
  have s1: "timing_inv s1" using tick_clock_inv [OF assms(1), of n] 1 by simp
  have d: "timing_inv (on_clk (\<lambda>k. k\<lparr>ck_PacingDebtCycles := ck_PacingDebtCycles k + ucast n1\<rparr>) s1)"
    by (rule inv_on(1)) (simp_all add: effectiveCIAFactor_def s1)
  show ?thesis
    using assms(2) s1 d unfolding tickFast_def Let_def 1 prod.case
    by (auto split: if_splits option.splits intro: tickSettle_inv [OF d])
qed

lemma setPacing_inv:
  assumes "timing_inv s" "setPacing C hz emu s h = (s', h')"
  shows "timing_inv s'"
proof -
  define s1 where "s1 = cia2OnRateChange (on_clk (\<lambda>k. k\<lparr>ck_SelectedEmulatedHz := emu,
                            ck_PacingCheckCycles := (if emu div 1000000 < 1 then 1 else emu div 1000000),
                            ck_IECHoldCycles := (if emu \<noteq> 0 \<and> emu \<le> 1000000 then 0 else ck_IECHoldCycles k)\<rparr>) s)"
  have s1: "timing_inv s1" unfolding s1_def by (rule change_inv [OF assms(1)])
  have q: "timing_inv (on_clk (\<lambda>k. k\<lparr>ck_HostPerEmuQ16 := x\<rparr>) s1)"
    "timing_inv (on_clk (\<lambda>k. k\<lparr>ck_HostPerEmuQ16 := x, ck_HostPerEmuQ16Slow := y\<rparr>) s1)" for x y
    by (rule inv_on(1), simp_all add: effectiveCIAFactor_def s1)+
  show ?thesis
    using assms(2) unfolding setPacing_def Let_def s1_def [symmetric] resyncPacing_def
    by (auto split: if_splits option.splits prod.splits intro!: timing_intros q)
qed

lemma refresh_inv:
  assumes "timing_inv s" "refreshInterruptsIfDue C s h = (s', h')" shows "timing_inv s'"
proof -
  have c: "timing_inv (check_deadline s)" by (rule check_deadline_inv [OF assms(1)])
  have "timing_inv (on_clk (\<lambda>k. k\<lparr>ck_IntCredit := 0\<rparr>) (on_cia (\<lambda>c. c\<lparr>ci_CachedIRQ := irq,
                  ci_CachedNMI := (if ci_NMIOwned c then ci_SynthNMIActive c else nmi \<or> ci_SynthNMIActive c)\<rparr>) (check_deadline s)))"
    for irq nmi
    by (rule inv_on(1)) (use c in \<open>simp_all add: effectiveCIAFactor_def timing_inv_def nmi_ok_def nearest_deadline_def\<close>)
  then show ?thesis
    using assms(2) c unfolding refreshInterruptsIfDue_def Let_def
    by (auto split: option.splits if_splits prod.splits)
qed

inductive timing_step :: "'h ic64_bus option \<Rightarrow> c64t \<times> 'h \<Rightarrow> c64t \<times> 'h \<Rightarrow> bool" for C where
  tick: "tickFast C n s h = Some (s', h') \<Longrightarrow> timing_step C (s, h) (s', h')"
| sample: "timing_step C (s, h) (snd (sampleIRQNMIFast C s h))"
| timer: "timing_step C (s, h) (cia2TimerWrite a v s, h)"
| acknowledge: "timing_step C (s, h) (on_cia acknowledge_icr s, h)"
| nmi_taken: "timing_step C (s, h) (noteNMITaken s, h)"
| poll: "timing_step C (s, h) (notePollHold s, h)"
| iec: "timing_step C (s, h) (noteIECActivity s, h)"
| cancel: "timing_step C (s, h) (cancelPollHold s, h)"
| throttle: "timing_step C (s, h) (setIECThrottle on s, h)"
| posted: "timing_step C (s, h) (enablePostedWriteTiming on s, h)"
| access: "timing_step C (s, h) (noteBusAccess a wr s, h)"
| mirror: "timing_step C (s, h) (noteMirrorWrite s, h)"
| half: "timing_step C (s, h) (noteFastHalfCycles n s, h)"
| pacing: "timing_step C (s, h) (setPacing C hz emu s h)"
| resync: "timing_step C (s, h) (resyncPacing C s h)"
| reset: "timing_step C (s, h) (resyncPacing C (timing_reset s) h)"

lemma timing_new_inv [simp]: "timing_inv timing_new"
  by (simp add: timing_inv_def rates_ok_def nmi_ok_def nearest_deadline_def timing_new_def effectiveCIAFactor_def BUS_EVENT_CAPACITY_def)

lemma timing_reset_inv: "timing_inv (timing_reset s)"
proof -
  have "effectiveCIAFactor (k\<lparr>ck_C64FactorInUse := f\<rparr>) = effectiveCIAFactor k" for k :: clk and f
    by (simp add: effectiveCIAFactor_def)
  then show ?thesis
    by (simp add: timing_inv_def rates_ok_def nmi_ok_def nearest_deadline_def timing_reset_def Let_def BUS_EVENT_CAPACITY_def)
qed

lemma resync_inv: "timing_inv s \<Longrightarrow> resyncPacing C s h = (s', h') \<Longrightarrow> timing_inv s'"
  by (auto simp: resyncPacing_def settled_inv split: prod.splits)

lemma timing_step_inv:
  assumes "timing_step C x y" "timing_inv (fst x)"
  shows "timing_inv (fst y)"
  using assms
proof (induction rule: timing_step.induct)
  case (tick n s h s' h') then show ?case using tickFast_inv by fastforce
next
  case (sample s h) then show ?case
    using refresh_inv [of s C h] by (auto simp: sampleIRQNMIFast_def split: prod.splits)
next
  case (timer s h a v) then show ?case using timer_write_inv [of s a v] by simp
next
  case (pacing s h hz emu) then show ?case
    using setPacing_inv [of s C hz emu h] by (cases "setPacing C hz emu s h") auto
next
  case (reset s h) then show ?case
    using resync_inv [OF timing_reset_inv, of C s h] by (cases "resyncPacing C (timing_reset s) h") auto
next
  case (resync s h) then show ?case
    using resync_inv [of s C h] by (cases "resyncPacing C s h") auto
next
  case (acknowledge s h) then show ?case
    by (simp add: acknowledge_icr_def timing_inv_def nmi_ok_def nearest_deadline_def)
next
  case (nmi_taken s h) then show ?case
    by (simp add: noteNMITaken_def timing_inv_def nmi_ok_def nearest_deadline_def)
next
  case (throttle s h on) then show ?case
    unfolding setIECThrottle_def fst_conv by (intro inv_on(1)) (simp_all add: effectiveCIAFactor_def)
next
  case (posted s h on) then show ?case
    unfolding enablePostedWriteTiming_def fst_conv by (intro inv_on(2)) (simp_all add: Let_def)
qed (simp_all add: timing_intros)

end
