(* ===== verification/C64TimingProps.thy ===== *)
theory C64TimingProps
  imports C64TimingInv
begin

text \<open>
  What the clock side of \<open>CC64Memory\<close> promises: timer interrupts on their cycle, I/O accesses quantised to
  C64 cycles, rates and deadlines in step in every reachable state, and a pacer that returns and holds the
  guest to real time.
\<close>

unbundle bit_operations_syntax

section \<open>Timer interrupts on the emulated clock\<close>

definition run_ticks :: "u32 list \<Rightarrow> c64t \<Rightarrow> c64t" where
  "run_ticks ns s = fold (\<lambda>n s. snd (snd (tick_clock n s))) ns s"

lemma run_ticks_simps [simp]:
  "run_ticks [] s = s" "run_ticks (n # ns) s = run_ticks ns (snd (snd (tick_clock n s)))"
  by (simp_all add: run_ticks_def)

text \<open>No hold in force, and nothing noted that would stretch the next tick.\<close>

definition no_hold :: "clk \<Rightarrow> bool" where
  "no_hold k \<longleftrightarrow> ck_IECHoldCycles k = 0 \<and> ck_IECPollHoldCycles k = 0"

definition quiet :: "c64t \<Rightarrow> bool" where
  "quiet s \<longleftrightarrow> be_BusEvents (t_bus s) = [] \<and> be_PendingFastHalfCycles (t_bus s) = 0 \<and> no_hold (t_clk s) \<and> rates_ok s"

definition delivered :: "u64 \<Rightarrow> cia2 \<Rightarrow> cia2" where
  "delivered now c =
     (if ci_NMIOwned c \<and> \<not> ci_SynthNMIActive c \<and> ci_ICRPending c AND ci_ICRMask c AND 0x03 \<noteq> 0
      then c\<lparr>ci_SynthNMIActive := True, ci_CachedNMI := True, ci_SynthNMIsDelivered := ci_SynthNMIsDelivered c + 1,
             ci_TraceExposeAt := now, ci_TraceExposeGen := ci_TraceGen c\<rparr> else c)"

definition due :: "u64 \<Rightarrow> cia2 \<Rightarrow> cia2" where
  "due now c =
     (if ci_NMIDeadline c \<noteq> 0 \<and> now \<ge> ci_NMIDeadline c
      then cia2RecomputeNMIState (delivered now (latch_underflows now c)) else c)"

definition keeps_rate :: "clk \<Rightarrow> clk \<Rightarrow> bool" where
  "keeps_rate k k' \<longleftrightarrow> ck_EmuCycles k' = ck_EmuCycles k \<and> ck_IECHoldCycles k' = ck_IECHoldCycles k
     \<and> ck_IECPollHoldCycles k' = ck_IECPollHoldCycles k \<and> ck_PacingCheckCycles k' = ck_PacingCheckCycles k
     \<and> ck_C64FactorInUse k' = ck_C64FactorInUse k"

lemma keeps_rate_effective: "keeps_rate k k' \<Longrightarrow> effectiveCIAFactor k' = effectiveCIAFactor k"
  by (simp add: keeps_rate_def effectiveCIAFactor_def)

lemma hook_keeps [simp]: "keeps_rate (t_clk s) (t_clk (timing_hook s))"
  by (simp add: timing_hook_def keeps_rate_def)

lemma maybe_parts:
  "t_cia (cia2MaybeDeliverSynthNMI s) = delivered (ck_EmuCycles (t_clk s)) (t_cia s)"
  "keeps_rate (t_clk s) (t_clk (cia2MaybeDeliverSynthNMI s))"
  by (auto simp: cia2MaybeDeliverSynthNMI_def delivered_def Let_def) (auto simp: timing_hook_def keeps_rate_def)

lemma check_deadline_parts:
  assumes "rates_ok s"
  shows "t_cia (check_deadline s) = due (ck_EmuCycles (t_clk s)) (t_cia s)"
    "t_bus (check_deadline s) = t_bus s" "keeps_rate (t_clk s) (t_clk (check_deadline s))"
proof -
  have 1: "ciaTimerNMIDue s = on_cia cia2RecomputeNMIState
      (cia2MaybeDeliverSynthNMI (on_cia (latch_underflows (ck_EmuCycles (t_clk s))) s))"
    by (simp add: ciaTimerNMIDue_def assms)
  show "t_cia (check_deadline s) = due (ck_EmuCycles (t_clk s)) (t_cia s)" "t_bus (check_deadline s) = t_bus s"
    by (simp_all add: check_deadline_def 1 due_def maybe_parts)
  show "keeps_rate (t_clk s) (t_clk (check_deadline s))"
    using maybe_parts(2) [of "on_cia (latch_underflows (ck_EmuCycles (t_clk s))) s"]
    by (simp add: check_deadline_def 1) (simp add: keeps_rate_def)
qed

lemma finish_arm_parts:
  assumes "rates_ok s"
  shows "t_clk (cia2FinishArm s) = t_clk s" "t_bus (cia2FinishArm s) = t_bus s"
  by (simp_all add: cia2FinishArm_def assms Let_def)

lemma charge_charge [simp]: "charge y (charge x s) = charge (x + y) s"
  by (simp add: charge_def on_clk_def add.assoc)

lemma charge_parts [simp]:
  "t_cia (charge x s) = t_cia s" "t_bus (charge x s) = t_bus s"
  "ck_EmuCycles (t_clk (charge x s)) = ck_EmuCycles (t_clk s) + x"
  by (simp_all add: charge_def)

definition only_charged :: "c64t \<Rightarrow> c64t \<Rightarrow> bool" where
  "only_charged s t \<longleftrightarrow> (\<exists>x. t_clk t = t_clk (charge x s)) \<and> t_cia t = t_cia s"

lemma only_chargedI: "t_clk t = t_clk (charge x s) \<Longrightarrow> t_cia t = t_cia s \<Longrightarrow> only_charged s t"
  by (auto simp: only_charged_def)

lemma only_charged_refl: "only_charged s s"
  by (rule only_chargedI [where x = 0]) (simp_all add: charge_def)

lemma only_charged_trans:
  assumes "only_charged s t" "only_charged t u" shows "only_charged s u"
proof -
  obtain x y where "t_clk t = t_clk (charge x s)" "t_clk u = t_clk (charge y t)"
    using assms by (auto simp: only_charged_def)
  then have "t_clk u = t_clk (charge (x + y) s)" by (simp add: charge_def add.assoc)
  then show ?thesis using assms by (auto simp: only_charged_def)
qed

lemma only_charged_on [simp]: "only_charged s (charge x s)" "only_charged s (on_bus g s)" "only_charged s (freeSlotAt v s)"
  using only_charged_refl by (auto simp: only_charged_def freeSlotAt_def)

lemma tick_region_parts:
  assumes "tick_region (n, s) = (n', s')"
  shows "only_charged s s'" "be_PendingFastHalfCycles (t_bus s') = 0"
proof -
  have "only_charged s (on_bus g (on_bus g' (charge x s)))" for g g' x
    using only_charged_trans only_charged_on by blast
  then show "only_charged s s'" "be_PendingFastHalfCycles (t_bus s') = 0"
    using assms by (auto simp: tick_region_def Let_def only_charged_refl split: if_splits)
qed

lemma only_charged_slot: "only_charged s (snd (wait_slot (x, s)))"
  by (simp add: wait_slot_def Let_def only_charged_refl)

lemma only_charged_event: "only_charged (snd (snd x)) (snd (snd (bus_event per e x)))"
proof -
  obtain io mx s where x: "x = (io, mx, s)" by (cases x) auto
  obtain mx' s' where w: "wait_slot (mx, s) = (mx', s')" by (cases "wait_slot (mx, s)") auto
  have s': "only_charged s s'" using only_charged_slot [of s mx] by (simp add: w)
  show ?thesis
    by (simp add: bus_event_def x w Let_def only_charged_trans [OF s'])
qed

lemma only_charged_fold: "only_charged (snd (snd x)) (snd (snd (fold (bus_event per) es x)))"
proof (induction es arbitrary: x)
  case Nil then show ?case by (simp add: only_charged_refl)
next
  case (Cons e es) then show ?case using only_charged_trans [OF only_charged_event] by fastforce
qed

lemma tick_bus_parts:
  assumes "tick_bus_events (n, s) = (n', s')"
  shows "only_charged s s'" "be_BusEvents (t_bus s') = []" "be_PendingFastHalfCycles (t_bus s) = 0 \<Longrightarrow> be_PendingFastHalfCycles (t_bus s') = 0"
proof -
  let ?P = "effectiveCIAFactor (t_clk s)"
  obtain io mx t where t: "(if ?P > 1 then fold (bus_event ?P) (be_BusEvents (t_bus s)) (0, 0, s) else (0, 0, s)) = (io, mx, t)"
    by (metis prod_cases3)
  have oc: "only_charged s t"
    using only_charged_fold [of "(0, 0, s)" ?P "be_BusEvents (t_bus s)"] t by (auto split: if_splits simp: only_charged_refl)
  have b: "be_PendingFastHalfCycles (t_bus (snd (snd (fold (bus_event per) es x)))) = be_PendingFastHalfCycles (t_bus (snd (snd x)))" for per es x
  proof (induction es arbitrary: x)
    case (Cons e es)
    have w: "t_bus (snd (wait_slot (mx, s))) = t_bus s" for mx s by (simp add: wait_slot_def Let_def)
    show ?case unfolding fold_simps comp_def Cons
      using w by (auto simp: bus_event_def freeSlotAt_def Let_def split: prod.splits) (metis snd_conv)+
  qed simp
  have pend: "be_PendingFastHalfCycles (t_bus t) = be_PendingFastHalfCycles (t_bus s)"
    using b [of ?P "be_BusEvents (t_bus s)" "(0, 0, s)"] t by (auto split: if_splits)
  have oc': "only_charged s (on_bus g t)" for g using only_charged_trans [OF oc only_charged_on(2)] .
  show "only_charged s s'" "be_BusEvents (t_bus s') = []"
    "be_PendingFastHalfCycles (t_bus s) = 0 \<Longrightarrow> be_PendingFastHalfCycles (t_bus s') = 0"
    using assms oc' only_charged_refl pend
    by (auto simp: tick_bus_events_def t Let_def split: if_splits) (simp_all add: only_charged_def)
qed

definition armed :: "u64 \<Rightarrow> cia2 \<Rightarrow> cia2" where
  "armed now c =
     (if ci_ArmPending c \<noteq> 0 then
        let c = (if has (ci_ArmPending c) 0x01
                 then c\<lparr>ci_TADeadline := now + ciaSpan c (ucast (ci_TALatch c) + 1), ci_TraceArmAt := now,
                        ci_TraceGen := ci_TraceGen c + 1\<rparr> else c);
            c = (if has (ci_ArmPending c) 0x02
                 then c\<lparr>ci_TBDeadline := now + ciaSpan c (ucast (ci_TBLatch c) + 1)\<rparr> else c)
        in cia2RecomputeNMIState (c\<lparr>ci_ArmPending := 0\<rparr>)
      else c)"

lemma tick_arm_parts:
  assumes "rates_ok s"
  shows "t_cia (tick_arm s) = armed (ck_EmuCycles (t_clk s)) (t_cia s)" "t_clk (tick_arm s) = t_clk s" "t_bus (tick_arm s) = t_bus s"
  using finish_arm_parts [OF assms]
  by (simp_all add: tick_arm_def armed_def cia2FinishArm_def assms Let_def)

lemma recompute_arm [simp]: "ci_ArmPending (cia2RecomputeNMIState c) = ci_ArmPending c"
  by (simp add: cia2RecomputeNMIState_def Let_def)

lemma armed_factor [simp]: "ci_FactorInUse (armed now c) = ci_FactorInUse c"
  by (simp add: armed_def Let_def ciaSpan_def)

lemma due_factor [simp]: "ci_FactorInUse (due now c) = ci_FactorInUse c"
  by (simp add: due_def delivered_def)

lemma no_hold_charge [simp]: "no_hold (k\<lparr>ck_EmuCycles := v\<rparr>) = no_hold k"
  by (simp add: no_hold_def)

lemma only_charged_ok:
  assumes "only_charged s t"
  shows "rates_ok t = rates_ok s" "no_hold (t_clk t) = no_hold (t_clk s)"
proof -
  obtain x where x: "t_clk t = t_clk (charge x s)" "t_cia t = t_cia s" using assms by (auto simp: only_charged_def)
  show "rates_ok t = rates_ok s" "no_hold (t_clk t) = no_hold (t_clk s)"
    by (simp_all add: rates_ok_def x charge_def effectiveCIAFactor_def)
qed

lemma tick_tail:
  fixes n :: u32
  assumes "rates_ok s" "no_hold (t_clk s)"
  defines "t \<equiv> tick_poll_hold n (tick_activity n (check_deadline (tick_arm (tick_credit n s))))"
  shows "t_cia t = due (ck_EmuCycles (t_clk s)) (armed (ck_EmuCycles (t_clk s)) (t_cia s))"
    "t_bus t = t_bus s" "keeps_rate (t_clk s) (t_clk t)"
proof -
  define s1 where "s1 = tick_arm (tick_credit n s)"
  have c: "rates_ok (tick_credit n s)" using assms by (simp add: tick_credit_def rates_ok_def effectiveCIAFactor_def)
  have s1: "t_cia s1 = armed (ck_EmuCycles (t_clk s)) (t_cia s)" "t_bus s1 = t_bus s" "keeps_rate (t_clk s) (t_clk s1)"
    unfolding s1_def tick_arm_parts [OF c] by (simp_all add: tick_credit_def keeps_rate_def)
  have r: "rates_ok s1"
    using assms(1) keeps_rate_effective [OF s1(3)] s1 by (simp add: rates_ok_def) (simp add: keeps_rate_def)
  note d = check_deadline_parts [OF r]
  define s2 where "s2 = tick_activity n (check_deadline s1)"
  have k1: "keeps_rate (t_clk s1) (t_clk s2)" using d(3) by (simp add: s2_def tick_activity_def keeps_rate_def)
  have k: "keeps_rate (t_clk s) (t_clk s2)" using k1 s1(3) by (simp add: keeps_rate_def)
  then have "no_hold (t_clk s2)" using assms(2) by (simp add: no_hold_def keeps_rate_def)
  then have t: "t = s2" by (simp add: t_def s2_def s1_def tick_poll_hold_def no_hold_def)
  have e: "ck_EmuCycles (t_clk s1) = ck_EmuCycles (t_clk s)" using s1(3) by (simp add: keeps_rate_def)
  show "t_cia t = due (ck_EmuCycles (t_clk s)) (armed (ck_EmuCycles (t_clk s)) (t_cia s))" "t_bus t = t_bus s"
    unfolding t s2_def by (simp_all add: tick_activity_def d s1 e)
  show "keeps_rate (t_clk s) (t_clk t)" unfolding t by (rule k)
qed

lemma tick_no_hold:
  fixes n :: u32
  assumes "rates_ok s" "no_hold (t_clk s)"
  defines "s' \<equiv> snd (snd (tick_clock n s))"
  shows "t_cia s' = due (ck_EmuCycles (t_clk s')) (armed (ck_EmuCycles (t_clk s')) (t_cia s))" "quiet s'"
    "quiet s \<Longrightarrow> ck_EmuCycles (t_clk s') = ck_EmuCycles (t_clk s) + ucast n"
    "effectiveCIAFactor (t_clk s') = effectiveCIAFactor (t_clk s)"
proof -
  obtain n1 s1 where 1: "tick_region (n, charge (ucast n) s) = (n1, s1)" by (cases "tick_region (n, charge (ucast n) s)") auto
  obtain n2 s2 where 2: "tick_bus_events (n1, s1) = (n2, s2)" by (cases "tick_bus_events (n1, s1)") auto
  define t where "t = tick_poll_hold n2 (tick_activity n2 (check_deadline (tick_arm (tick_credit n2 s2))))"
  have oc: "only_charged s s2"
    using only_charged_trans [OF only_charged_trans [OF only_charged_on(1) tick_region_parts(1) [OF 1]] tick_bus_parts(1) [OF 2]] .
  have ok: "rates_ok s2" "no_hold (t_clk s2)" using only_charged_ok [OF oc] assms by simp_all
  note T = tick_tail [OF ok, of n2, folded t_def]
  have nh: "no_hold (t_clk t)" using T(3) ok(2) by (simp add: no_hold_def keeps_rate_def)
  have s': "s' = tick_stats False n2 t"
    unfolding s'_def tick_clock_def Let_def 1 2 prod.case snd_conv t_def [symmetric]
    using nh by (simp add: no_hold_def tick_hold_def)
  have clk: "keeps_rate (t_clk s2) (t_clk s')" "t_cia s' = t_cia t" "t_bus s' = t_bus s2"
    using T by (simp_all add: s' tick_stats_def keeps_rate_def)
  have emu: "ck_EmuCycles (t_clk s') = ck_EmuCycles (t_clk s2)" using clk(1) by (simp add: keeps_rate_def)
  have cia: "t_cia s2 = t_cia s" using oc by (simp add: only_charged_def)
  show "t_cia s' = due (ck_EmuCycles (t_clk s')) (armed (ck_EmuCycles (t_clk s')) (t_cia s))"
    using T(1) by (simp add: clk emu cia)
  have ev: "be_BusEvents (t_bus s2) = []" "be_PendingFastHalfCycles (t_bus s2) = 0"
    using tick_bus_parts [OF 2] tick_region_parts [OF 1] by simp_all
  have eff: "effectiveCIAFactor (t_clk s') = effectiveCIAFactor (t_clk s2)" by (rule keeps_rate_effective [OF clk(1)])
  show eff': "effectiveCIAFactor (t_clk s') = effectiveCIAFactor (t_clk s)"
    using eff oc by (auto simp: only_charged_def charge_def effectiveCIAFactor_def)
  have "rates_ok s'" using ok(1) eff clk by (simp add: rates_ok_def T(1)) (simp add: keeps_rate_def)
  then show "quiet s'"
    using clk(1) ok(2) by (simp add: quiet_def clk(3) ev) (simp add: no_hold_def keeps_rate_def)
  show "ck_EmuCycles (t_clk s') = ck_EmuCycles (t_clk s) + ucast n" if q: "quiet s"
  proof -
    have "s1 = charge (ucast n) s" using 1 q by (auto simp: tick_region_def quiet_def)
    then have "s2 = charge (ucast n) s" using 2 q by (auto simp: tick_bus_events_def quiet_def)
    then show ?thesis by (simp add: emu)
  qed
qed

text \<open>Waiting for the underflow, and after it.\<close>

definition waiting :: "u64 \<Rightarrow> u64 \<Rightarrow> cia2 \<Rightarrow> bool" where
  "waiting d n c \<longleftrightarrow> ci_TADeadline c = d \<and> ci_TBDeadline c = 0 \<and> ci_NMIDeadline c = d \<and> ci_NMIOwned c
     \<and> \<not> ci_SynthNMIActive c \<and> ci_SynthNMIsDelivered c = n \<and> bit (ci_ICRMask c) 0 \<and> ci_ArmPending c = 0"

definition fired :: "u64 \<Rightarrow> cia2 \<Rightarrow> bool" where
  "fired n c \<longleftrightarrow> ci_SynthNMIActive c \<and> ci_SynthNMIsDelivered c = n + 1 \<and> ci_ArmPending c = 0"

lemma fired_due: "fired n c \<Longrightarrow> fired n (due now (armed now c))"
  by (auto simp: fired_def due_def armed_def delivered_def cia2RecomputeNMIState_def latch_underflows_def Let_def)

lemma pending_masked:
  fixes p m :: u8
  assumes "bit m 0" shows "(p OR 1) AND m AND 3 \<noteq> 0"
proof -
  have "bit ((p OR 1) AND m AND 3) 0" using assms by (simp add: bit_simps)
  then show ?thesis by fastforce
qed

lemma waiting_due:
  assumes "waiting d n c" "d \<noteq> 0"
  shows "now < d \<Longrightarrow> waiting d n (due now (armed now c))" "d \<le> now \<Longrightarrow> fired n (due now (armed now c))"
proof -
  have a: "armed now c = c" using assms by (simp add: armed_def waiting_def)
  show "waiting d n (due now (armed now c))" if "now < d"
    using that assms unfolding a by (simp add: due_def waiting_def not_le [symmetric])
  show "fired n (due now (armed now c))" if "d \<le> now"
  proof -
    define l where "l = latch_underflows now c"
    have l: "ci_NMIOwned l" "\<not> ci_SynthNMIActive l" "ci_SynthNMIsDelivered l = n" "ci_ArmPending l = 0"
      "ci_ICRMask l = ci_ICRMask c" "ci_ICRPending l = ci_ICRPending c OR 1"
      using assms that by (auto simp: l_def latch_underflows_def waiting_def Let_def ciaSpan_def)
    have "ci_ICRPending l AND ci_ICRMask l AND 3 \<noteq> 0"
      using assms(1) by (simp add: l waiting_def pending_masked)
    then have dl: "fired n (delivered now l)" by (simp add: delivered_def fired_def l)
    have "due now c = cia2RecomputeNMIState (delivered now l)"
      using assms that by (simp add: due_def waiting_def l_def)
    then show ?thesis unfolding a using dl by (simp add: fired_def cia2RecomputeNMIState_def Let_def)
  qed
qed

lemma unat_plus_u32:
  assumes "unat (e :: u64) + unat (n :: u32) < 2 ^ 64"
  shows "unat (e + ucast n) = unat e + unat n"
  using assms by (subst unat_add_lem [THEN iffD1]) simp_all

lemma run_waiting:
  assumes "quiet s" "waiting d k (t_cia s) \<and> ck_EmuCycles (t_clk s) < d \<or> fired k (t_cia s) \<and> d \<le> ck_EmuCycles (t_clk s)"
    and "unat (ck_EmuCycles (t_clk s)) + sum_list (map unat ns) < 2 ^ 64"
  defines "s' \<equiv> run_ticks ns s"
  shows "quiet s' \<and> unat (ck_EmuCycles (t_clk s')) = unat (ck_EmuCycles (t_clk s)) + sum_list (map unat ns)
    \<and> (waiting d k (t_cia s') \<and> ck_EmuCycles (t_clk s') < d \<or> fired k (t_cia s') \<and> d \<le> ck_EmuCycles (t_clk s'))"
  using assms(1-3) unfolding s'_def
proof (induction ns arbitrary: s)
  case Nil then show ?case by simp
next
  case (Cons n ns)
  define t where "t = snd (snd (tick_clock n s))"
  have ok: "rates_ok s" "no_hold (t_clk s)" using Cons.prems(1) by (simp_all add: quiet_def)
  note T = tick_no_hold [OF ok, of n, folded t_def]
  define e where "e = ck_EmuCycles (t_clk t)"
  have e: "unat e = unat (ck_EmuCycles (t_clk s)) + unat n"
    unfolding e_def T(3) [OF Cons.prems(1)] by (rule unat_plus_u32) (use Cons.prems(3) in simp)
  have st: "waiting d k (t_cia t) \<and> e < d \<or> fired k (t_cia t) \<and> d \<le> e"
  proof (cases "waiting d k (t_cia s) \<and> ck_EmuCycles (t_clk s) < d")
    case True
    then have "d \<noteq> 0" by (metis word_not_simps(1))
    then show ?thesis
      using waiting_due [of d k "t_cia s" e] True T(1) unfolding e_def by (metis not_le)
  next
    case False
    then have "fired k (t_cia s)" "d \<le> ck_EmuCycles (t_clk s)" using Cons.prems(2) by auto
    moreover have "d \<le> e" using e \<open>d \<le> _\<close> by (simp add: word_le_nat_alt)
    ultimately show ?thesis using fired_due [of k "t_cia s" e] T(1) unfolding e_def by simp
  qed
  have sum: "unat (ck_EmuCycles (t_clk t)) + sum_list (map unat ns) < 2 ^ 64"
    using Cons.prems(3) e unfolding e_def by simp
  show ?case
    using Cons.IH [OF T(2) st [unfolded e_def] sum] e unfolding e_def run_ticks_simps t_def [symmetric]
    by (simp add: add.assoc)
qed

section \<open>The cost of a bus access\<close>

fun bus_cost :: "BusTimingEvent \<Rightarrow> nat" where
  "bus_cost BUS_EVENT_IO = 1"
| "bus_cost BUS_EVENT_CIA_WRITE = 2"
| "bus_cost BUS_EVENT_MIRROR_WRITE = 0"

lemma phase_step:
  assumes "0 < unat p" "unat e + unat p < 2 ^ 64"
  shows "unat (e + phase_wait p e) = unat p * (unat e div unat p + 1)"
proof -
  have m: "unat (e mod p) = unat e mod unat p" by (simp add: unat_mod_distrib)
  have lt: "unat e mod unat p < unat p" using assms(1) by simp
  have le: "e mod p \<le> p" using lt by (simp add: word_le_nat_alt m)
  have z: "e mod p = 0 \<longleftrightarrow> unat e mod unat p = 0" by (metis m unat_eq_zero)
  have w: "unat (phase_wait p e) = unat p - unat e mod unat p"
    unfolding phase_wait_def using z by (simp add: unat_sub [OF le] m)
  have "unat e + unat (phase_wait p e) < 2 ^ 64" unfolding w using assms(2) by simp
  then have "unat (e + phase_wait p e) = unat e + (unat p - unat e mod unat p)"
    by (subst unat_add_lem [THEN iffD1]) (simp_all add: w)
  also have "\<dots> = unat p * (unat e div unat p + 1)"
  proof -
    have "unat e = unat p * (unat e div unat p) + unat e mod unat p" by simp
    then show ?thesis using lt by (simp only: add_mult_distrib2 mult_1_right)
  qed
  finally show ?thesis .
qed

lemma bus_event_io:
  fixes p :: u64
  assumes "e \<noteq> BUS_EVENT_MIRROR_WRITE" "be_IOStretchEnable (t_bus s)" "be_MirrorBufferFreeAt (t_bus s) \<le> ck_EmuCycles (t_clk s)"
  defines "x \<equiv> phase_wait p (ck_EmuCycles (t_clk s)) + (if e = BUS_EVENT_CIA_WRITE then p else 0)"
  shows "bus_event p e (io, mx, s) = (io + x, mx, charge x s)"
  using assms by (simp add: bus_event_def wait_slot_def Let_def not_less [symmetric] add.assoc)

lemma fold_io:
  assumes "set es \<subseteq> {BUS_EVENT_IO, BUS_EVENT_CIA_WRITE}" "es \<noteq> []" "be_IOStretchEnable (t_bus s)"
    and "be_MirrorBufferFreeAt (t_bus s) \<le> ck_EmuCycles (t_clk s)" "0 < unat p"
    and "unat (ck_EmuCycles (t_clk s)) + unat p * sum_list (map bus_cost es) < 2 ^ 64"
  shows "\<exists>x. fold (bus_event p) es (io, mx, s) = (io + x, mx, charge x s)
    \<and> unat (ck_EmuCycles (t_clk s) + x) = unat p * (unat (ck_EmuCycles (t_clk s)) div unat p + sum_list (map bus_cost es))"
  using assms
proof (induction es arbitrary: s io)
  case (Cons e es)
  define E where "E = ck_EmuCycles (t_clk s)"
  define y where "y = phase_wait p E + (if e = BUS_EVENT_CIA_WRITE then p else 0)"
  have e: "e = BUS_EVENT_IO \<or> e = BUS_EVENT_CIA_WRITE" using Cons.prems(1) by auto
  have step: "bus_event p e (io, mx, s) = (io + y, mx, charge y s)"
    using bus_event_io [of e s p io mx] e Cons.prems(3,4) by (auto simp: y_def E_def)
  have c: "1 \<le> bus_cost e" using e by auto
  have room1: "unat E + unat p < 2 ^ 64"
  proof -
    have "unat p * 1 \<le> unat p * sum_list (map bus_cost (e # es))" by (rule mult_le_mono2) (use c in simp)
    then show ?thesis using Cons.prems(6) unfolding E_def by linarith
  qed
  have p1: "unat (E + phase_wait p E) = unat p * (unat E div unat p + 1)" by (rule phase_step [OF Cons.prems(5) room1])
  have up: "unat p * (unat E div unat p) \<le> unat E" by simp
  have one: "unat (E + y) = unat p * (unat E div unat p + bus_cost e)"
  proof (cases "e = BUS_EVENT_CIA_WRITE")
    case True
    have "unat p * 2 \<le> unat p * sum_list (map bus_cost (e # es))" by (rule mult_le_mono2) (simp add: True)
    moreover have "unat p * (unat E div unat p + 1) + unat p \<le> unat E + unat p * 2"
      using up by (simp only: add_mult_distrib2 mult_1_right)
    ultimately have "unat (E + phase_wait p E) + unat p < 2 ^ 64"
      using Cons.prems(6) unfolding p1 E_def [symmetric] by linarith
    then have "unat ((E + phase_wait p E) + p) = unat p * (unat E div unat p + 1) + unat p"
      by (subst unat_add_lem [THEN iffD1]) (simp_all add: p1)
    then show ?thesis using True by (simp add: y_def add.assoc)
  next
    case False
    then show ?thesis using e p1 by (simp add: y_def)
  qed
  show ?case
  proof (cases "es = []")
    case True then show ?thesis using step one by (auto simp: E_def [symmetric])
  next
    case False
    have "unat E < unat p * (unat E div unat p + 1)"
      using dividend_less_times_div [OF Cons.prems(5), of "unat E"] by simp
    also have "\<dots> \<le> unat (E + y)" unfolding one by (rule mult_le_mono2) (use c in simp)
    finally have le: "E \<le> E + y" by (simp add: word_le_nat_alt)
    have dv: "unat (E + y) div unat p = unat E div unat p + bus_cost e"
      unfolding one using Cons.prems(5) by simp
    have "\<exists>x. fold (bus_event p) es (io + y, mx, charge y s) = ((io + y) + x, mx, charge x (charge y s))
      \<and> unat (ck_EmuCycles (t_clk (charge y s)) + x)
         = unat p * (unat (ck_EmuCycles (t_clk (charge y s))) div unat p + sum_list (map bus_cost es))"
    proof (rule Cons.IH)
      show "set es \<subseteq> {BUS_EVENT_IO, BUS_EVENT_CIA_WRITE}" "es \<noteq> []" "be_IOStretchEnable (t_bus (charge y s))" "0 < unat p"
        using Cons.prems False by auto
      show "be_MirrorBufferFreeAt (t_bus (charge y s)) \<le> ck_EmuCycles (t_clk (charge y s))"
        using Cons.prems(4) le by (simp add: E_def [symmetric])
      have "unat p * (unat E div unat p + bus_cost e) + unat p * sum_list (map bus_cost es) \<le> unat E + unat p * sum_list (map bus_cost (e # es))"
        using up by (simp add: algebra_simps)
      then show "unat (ck_EmuCycles (t_clk (charge y s))) + unat p * sum_list (map bus_cost es) < 2 ^ 64"
        using Cons.prems(6) by (simp add: E_def [symmetric] one)
    qed
    then obtain x where x: "fold (bus_event p) es (io + y, mx, charge y s) = ((io + y) + x, mx, charge x (charge y s))"
      "unat ((E + y) + x) = unat p * (unat (E + y) div unat p + sum_list (map bus_cost es))"
      by (auto simp: E_def)
    then show ?thesis
      using step by (intro exI [of _ "y + x"]) (simp add: dv E_def [symmetric] add.assoc)
  qed
qed simp

lemma tick_emu:
  assumes "rates_ok s" "no_hold (t_clk s)" "tick_bus_events (tick_region (n, charge (ucast n) s)) = (n2, s2)"
  shows "ck_EmuCycles (t_clk (snd (snd (tick_clock n s)))) = ck_EmuCycles (t_clk s2)" "fst (tick_clock n s) = n2"
proof -
  obtain n1 s1 where 1: "tick_region (n, charge (ucast n) s) = (n1, s1)" by (cases "tick_region (n, charge (ucast n) s)") auto
  have 2: "tick_bus_events (n1, s1) = (n2, s2)" using assms(3) 1 by simp
  define t where "t = tick_poll_hold n2 (tick_activity n2 (check_deadline (tick_arm (tick_credit n2 s2))))"
  have oc: "only_charged s s2"
    using only_charged_trans [OF only_charged_trans [OF only_charged_on(1) tick_region_parts(1) [OF 1]] tick_bus_parts(1) [OF 2]] .
  have ok: "rates_ok s2" "no_hold (t_clk s2)" using only_charged_ok [OF oc] assms by simp_all
  note T = tick_tail [OF ok, of n2, folded t_def]
  have nh: "no_hold (t_clk t)" using T(3) ok(2) by (simp add: no_hold_def keeps_rate_def)
  have "tick_clock n s = (n2, False, tick_stats False n2 t)"
    unfolding tick_clock_def Let_def 1 2 prod.case snd_conv t_def [symmetric]
    using nh by (simp add: no_hold_def tick_hold_def)
  then show "ck_EmuCycles (t_clk (snd (snd (tick_clock n s)))) = ck_EmuCycles (t_clk s2)" "fst (tick_clock n s) = n2"
    using T(3) by (simp_all add: tick_stats_def keeps_rate_def)
qed

text \<open>C19. I/O accesses are quantised to C64 cycles: at a rate of \<open>f > 1\<close> an instruction of \<open>n\<close> cycles whose
  bus events are the I/O reads, I/O writes and CIA writes \<open>es\<close>, with the posted slot free, ends exactly
  on a PHI2 boundary, one C64 cycle on for each access and two for each CIA write, and the cycles
  billed to the guest are the difference.\<close>

theorem io_accesses_are_quantised:
  fixes n :: u32
  assumes inv: "timing_inv s" and es: "be_BusEvents (t_bus s) = es" "es \<noteq> []" "set es \<subseteq> {BUS_EVENT_IO, BUS_EVENT_CIA_WRITE}"
    and on: "be_IOStretchEnable (t_bus s)" "be_PendingFastHalfCycles (t_bus s) = 0"
  defines "E \<equiv> unat (ck_EmuCycles (t_clk s))" and "f \<equiv> unat (effectiveCIAFactor (t_clk s))"
    and "c \<equiv> sum_list (map bus_cost es)" and "s' \<equiv> snd (snd (tick_clock n s))"
  assumes turbo: "1 < f" and slot: "unat (be_MirrorBufferFreeAt (t_bus s)) \<le> E + unat n"
    and room: "unat n + f * c < 2 ^ 32" "E + unat n + f * c < 2 ^ 64"
  shows "unat (ck_EmuCycles (t_clk s')) = f * ((E + unat n) div f + c)
    \<and> unat (fst (tick_clock n s)) = unat (ck_EmuCycles (t_clk s')) - E"
proof -
  define p where "p = effectiveCIAFactor (t_clk s)"
  have rates: "rates_ok s" using inv by (simp add: timing_inv_def)
  have p1: "1 < p" using turbo by (simp add: p_def f_def word_less_nat_alt)
  have hold: "no_hold (t_clk s)" using p1 by (auto simp: p_def no_hold_def effectiveCIAFactor_def split: if_splits)
  define t where "t = charge (ucast n) s"
  have eff: "effectiveCIAFactor (t_clk t) = p" by (simp add: t_def p_def charge_def effectiveCIAFactor_def)
  have et: "unat (ck_EmuCycles (t_clk t)) = E + unat n"
    unfolding t_def charge_parts using unat_plus_u32 [of "ck_EmuCycles (t_clk s)" n] room(2) by (simp add: E_def)
  have region: "tick_region (n, t) = (n, t)" using on(2) by (simp add: tick_region_def t_def)
  obtain x where x: "fold (bus_event p) es (0, 0, t) = (0 + x, 0, charge x t)"
    "unat (ck_EmuCycles (t_clk t) + x) = unat p * (unat (ck_EmuCycles (t_clk t)) div unat p + c)"
    using fold_io [of es t p 0 0] es on slot room(2) turbo et unfolding c_def
    by (auto simp: t_def [symmetric] p_def [symmetric] f_def word_le_nat_alt) (auto simp: t_def)
  define e' where "e' = f * ((E + unat n) div f + c)"
  have e': "unat (ck_EmuCycles (t_clk t) + x) = e'" using x(2) by (simp add: e'_def et f_def p_def)
  have bounds: "E + unat n \<le> e'" "e' \<le> E + unat n + f * c"
  proof -
    have c1: "1 \<le> c" using es(2,3) unfolding c_def by (cases es) auto
    have "E + unat n < f * ((E + unat n) div f + 1)"
      using dividend_less_times_div [of f "E + unat n"] turbo by simp
    also have "\<dots> \<le> e'" unfolding e'_def by (rule mult_le_mono2) (use c1 in simp)
    finally show "E + unat n \<le> e'" by simp
    show "e' \<le> E + unat n + f * c" by (simp add: e'_def add_mult_distrib2)
  qed
  have ux: "unat x = e' - (E + unat n)"
  proof -
    have "x = (ck_EmuCycles (t_clk t) + x) - ck_EmuCycles (t_clk t)" by simp
    moreover have "ck_EmuCycles (t_clk t) \<le> ck_EmuCycles (t_clk t) + x" using bounds et e' by (simp add: word_le_nat_alt)
    ultimately show ?thesis using unat_sub e' et by metis
  qed
  have x32: "unat n + unat x < 2 ^ 32" using ux bounds room(1) by simp
  have ucx: "unat (ucast x :: u32) = unat x"
    using x32 by (simp add: unsigned_ucast_eq take_bit_nat_eq_self_iff)
  have sum: "unat (n + ucast x) = unat n + unat x"
    by (subst unat_add_lem [THEN iffD1]) (use x32 in \<open>simp_all add: ucx\<close>)
  define s2 where "s2 = snd (tick_bus_events (n, t))"
  have ev: "be_BusEvents (t_bus t) = es" by (simp add: t_def es)
  have tb: "ck_EmuCycles (t_clk s2) = ck_EmuCycles (t_clk t) + x" "fst (tick_bus_events (n, t)) = n + ucast x"
    unfolding s2_def tick_bus_events_def using es(2) p1 x(1) by (auto simp: ev eff Let_def)
  have "tick_bus_events (tick_region (n, charge (ucast n) s)) = (n + ucast x, s2)"
    unfolding t_def [symmetric] region using tb(2) by (simp add: s2_def prod_eq_iff)
  note T = tick_emu [OF rates hold this, folded s'_def]
  show ?thesis
    unfolding T tb(1) e' sum using ux bounds by (simp add: e'_def)
qed

section \<open>Properties\<close>

lemma reachable_timing_inv:
  assumes "(timing_step C)\<^sup>*\<^sup>* (timing_new, h0) x" shows "timing_inv (fst x)"
  using assms by (induction rule: rtranclp_induct) (auto intro: timing_step_inv)

lemma c64Now_on_clk [simp]:
  "(\<And>k. ck_EmuCycles (f k) = ck_EmuCycles k \<and> ck_C64ClockBase (f k) = ck_C64ClockBase k
      \<and> ck_EmuAtRateChange (f k) = ck_EmuAtRateChange k \<and> ck_C64FactorInUse (f k) = ck_C64FactorInUse k)
    \<Longrightarrow> c64Now (t_clk (on_clk f s)) = c64Now (t_clk s)"
  by (simp add: c64Now_def)

lemma c64Now_rate_changes:
  "c64Now (t_clk (notePollHold s)) = c64Now (t_clk s)" "c64Now (t_clk (noteIECActivity s)) = c64Now (t_clk s)"
  "c64Now (t_clk (cancelPollHold s)) = c64Now (t_clk s)" "c64Now (t_clk (fst (setPacing C hz emu s h))) = c64Now (t_clk s)"
proof -
  have 1: "s\<lparr>t_clk := (t_clk s)\<lparr>ck_IECPollHoldCycles := 1000\<rparr>\<rparr> = on_clk (\<lambda>k. k\<lparr>ck_IECPollHoldCycles := 1000\<rparr>) s"
    by (simp add: on_clk_def)
  show "c64Now (t_clk (notePollHold s)) = c64Now (t_clk s)" unfolding notePollHold_def Let_def 1 by (auto simp del: on_simps)
  show "c64Now (t_clk (noteIECActivity s)) = c64Now (t_clk s)"
    unfolding noteIECActivity_def Let_def by (auto simp del: on_simps)
  show "c64Now (t_clk (cancelPollHold s)) = c64Now (t_clk s)" unfolding cancelPollHold_def by (auto simp del: on_simps)
  show "c64Now (t_clk (fst (setPacing C hz emu s h))) = c64Now (t_clk s)"
    unfolding setPacing_def Let_def resyncPacing_def settled_def by (auto simp del: on_simps split: prod.splits)
qed

text \<open>C17. In every state the timing operations can reach, the two recorded rates are the effective rate (1 in
  a hold, the selected rate otherwise), the NMI deadline is the nearest armed timer deadline, the NMI
  line belongs to the timers exactly when timers and nothing else are enabled, an armed deadline forces
  per-instruction ticks, and the event ring is within its capacity; and no rate change (a poll hold, a
  serial hold, a cancelled hold, a timer write, a speed selection) moves the C64 clock.\<close>

theorem timing_reachable_invariant:
  assumes "(timing_step C)\<^sup>*\<^sup>* (timing_new, h0) (s, h)"
  shows "ck_C64FactorInUse (t_clk s) = effectiveCIAFactor (t_clk s)
    \<and> ci_FactorInUse (t_cia s) = effectiveCIAFactor (t_clk s)
    \<and> ci_NMIDeadline (t_cia s) = (if ci_NMIRetimeEnable (t_cia s) then nearest_deadline (t_cia s) else 0)
    \<and> ci_NMIOwned (t_cia s) = (ci_NMIRetimeEnable (t_cia s) \<and> ci_ICRMask (t_cia s) AND 0x03 \<noteq> 0
                               \<and> ci_ICRMask (t_cia s) AND 0x1C = 0)
    \<and> (ci_NMIDeadline (t_cia s) \<noteq> 0 \<longrightarrow> fineTicksRequired s)
    \<and> length (be_BusEvents (t_bus s)) \<le> BUS_EVENT_CAPACITY
    \<and> c64Now (t_clk (notePollHold s)) = c64Now (t_clk s) \<and> c64Now (t_clk (noteIECActivity s)) = c64Now (t_clk s)
    \<and> c64Now (t_clk (cancelPollHold s)) = c64Now (t_clk s) \<and> c64Now (t_clk (cia2TimerWrite a v s)) = c64Now (t_clk s)
    \<and> c64Now (t_clk (fst (setPacing C hz emu s h))) = c64Now (t_clk s)"
proof -
  have inv: "timing_inv s" using reachable_timing_inv [OF assms] by simp
  then show ?thesis
    using timer_write_inv [OF inv, of a v]
    by (simp add: timing_inv_def rates_ok_def nmi_ok_def c64Now_rate_changes) (simp add: fineTicksRequired_def)
qed

theorem timing_reachable_invariant_witness:
  "let s = cia2TimerWrite 0xDD0D 0x81 (cia2TimerWrite 0xDD04 0x14 timing_new)
   in ci_NMIOwned (t_cia s) \<and> ci_NMIDeadline (t_cia s) = nearest_deadline (t_cia s)"
proof -
  define s where "s = cia2TimerWrite 0xDD0D 0x81 (cia2TimerWrite 0xDD04 0x14 timing_new)"
  have "timing_step None (timing_new, ()) (cia2TimerWrite 0xDD04 0x14 timing_new, ())"
    "timing_step None (cia2TimerWrite 0xDD04 0x14 timing_new, ()) (s, ())"
    unfolding s_def by (rule timing_step.timer)+
  then have r: "(timing_step None)\<^sup>*\<^sup>* (timing_new, ()) (s, ())"
    by (meson rtranclp.rtrancl_into_rtrancl rtranclp.rtrancl_refl)
  have "ci_NMIRetimeEnable (t_cia s)" "ci_ICRMask (t_cia s) = 0x81 AND 0x1F" unfolding s_def by code_simp+
  then show ?thesis
    using timing_reachable_invariant [OF r, of 0 0 0 0] unfolding Let_def s_def [symmetric] by simp
qed

lemma nearest_zero: "nearest_deadline c = 0 \<longleftrightarrow> ci_TADeadline c = 0 \<and> ci_TBDeadline c = 0"
  by (auto simp: nearest_deadline_def min_def split: if_splits)

lemma has_one [simp]: "has (1 :: u8) 1" "\<not> has (1 :: u8) 2"
  by (simp_all add: has_def)

lemma start_timer_a:
  assumes "rates_ok s" "has v 0x01" "\<not> has v 0x20" "\<not> has (ci_TACR (t_cia s)) 0x01" "ci_ArmPending (t_cia s) = 0"
    and "nearest_deadline (t_cia s) = 0"
  defines "w \<equiv> cia2TimerWrite 0xDD0E v s"
  shows "t_clk w = t_clk s" "t_bus w = t_bus s"
    "t_cia w = cia2RecomputeNMIState ((t_cia s)\<lparr>ci_ArmPending := 1, ci_TACR := v\<rparr>)"
proof -
  have cra: "write_cra v (t_cia s) = (t_cia s)\<lparr>ci_ArmPending := 1, ci_TACR := v\<rparr>"
    using assms(2-5) by (simp add: write_cra_def Let_def)
  have dl: "ci_NMIDeadline (cia2RecomputeNMIState (write_cra v (t_cia s))) = 0"
    using assms(6) unfolding cra by (auto simp: cia2RecomputeNMIState_def nearest_zero Let_def)
  have "w = timer_finish (on_cia (write_cra v) s)"
    using assms(1) by (simp add: w_def cia2TimerWrite_def)
  then show "t_clk w = t_clk s" "t_bus w = t_bus s"
    "t_cia w = cia2RecomputeNMIState ((t_cia s)\<lparr>ci_ArmPending := 1, ci_TACR := v\<rparr>)"
    using dl unfolding cra by (simp_all add: timer_finish_def Let_def cra)
qed

lemma owned_bit: "nmi_ok c \<Longrightarrow> ci_NMIOwned c \<Longrightarrow> ci_NMIRetimeEnable c"
  by (simp add: nmi_ok_def)

text \<open>C18. A CIA2 timer interrupt comes on its cycle. Timer A is stopped, owns the NMI line and nothing is
  pending; the guest starts it with latch \<open>L\<close>, whatever else the storing instruction does on the bus.
  The deadline is anchored at the end of that instruction. After any sequence of further instructions
  that stay off the C64 bus, the synthetic NMI is asserted exactly when they have taken at least \<open>L + 1\<close>
  C64 cycles at the rate in force, and it has been delivered at most once.\<close>

theorem timer_nmi_on_time:
  fixes n :: u32
  assumes inv: "timing_inv s" and hold: "no_hold (t_clk s)"
    and idle: "nearest_deadline (t_cia s) = 0" "ci_ArmPending (t_cia s) = 0" "\<not> has (ci_TACR (t_cia s)) 0x01"
      "\<not> ci_SynthNMIActive (t_cia s)"
    and mask: "ci_NMIOwned (t_cia s)" "bit (ci_ICRMask (t_cia s)) 0"
    and start: "has v 0x01" "\<not> has v 0x20"
  defines "s1 \<equiv> snd (snd (tick_clock n (noteBusAccess 0xDD0E True (cia2TimerWrite 0xDD0E v s))))"
  defines "f \<equiv> unat (effectiveCIAFactor (t_clk s))" and "L \<equiv> unat (ci_TALatch (t_cia s))"
  assumes room: "unat (ck_EmuCycles (t_clk s1)) + (L + 1) * f + sum_list (map unat ns) < 2 ^ 64"
  defines "s' \<equiv> run_ticks ns s1"
  shows "ci_SynthNMIActive (t_cia s') = ((L + 1) * f \<le> sum_list (map unat ns))
    \<and> ci_SynthNMIsDelivered (t_cia s')
        = ci_SynthNMIsDelivered (t_cia s) + (if (L + 1) * f \<le> sum_list (map unat ns) then 1 else 0)
    \<and> unat (ck_EmuCycles (t_clk s')) = unat (ck_EmuCycles (t_clk s1)) + sum_list (map unat ns)"
proof -
  define c where "c = t_cia s"
  have rates: "rates_ok s" and ok: "nmi_ok c" using inv by (simp_all add: timing_inv_def c_def)
  define w where "w = noteBusAccess 0xDD0E True (cia2TimerWrite 0xDD0E v s)"
  note W = start_timer_a [OF rates start idle(3,2,1)]
  have w: "t_clk w = t_clk s" "t_cia w = cia2RecomputeNMIState (c\<lparr>ci_ArmPending := 1, ci_TACR := v\<rparr>)"
    unfolding w_def noteBusAccess_def noteTimingEvent_def by (simp_all add: W c_def)
  have wok: "rates_ok w" "no_hold (t_clk w)" using rates hold by (simp_all add: rates_ok_def w c_def)
  define e where "e = ck_EmuCycles (t_clk s1)"
  define k where "k = ci_SynthNMIsDelivered c"
  define span where "span = (ucast (ci_TALatch c) + 1) * ci_FactorInUse c"
  define d where "d = e + span"
  have s1: "s1 = snd (snd (tick_clock n w))" unfolding s1_def w_def ..
  note T = tick_no_hold [OF wok, of n, folded s1]
  have fac: "ci_FactorInUse c = effectiveCIAFactor (t_clk s)" using rates by (simp add: rates_ok_def c_def)
  have f0: "0 < f" unfolding f_def using effective_pos by (metis unat_gt_0)
  have lat: "unat (ucast (ci_TALatch c) + 1 :: u64) = L + 1"
  proof -
    have "unat (ci_TALatch c) < 2 ^ 16" using unsigned_less [of "ci_TALatch c", where 'a = nat] by simp
    then have u: "unat (ucast (ci_TALatch c) :: u64) = L" "L < 2 ^ 16"
      by (simp_all add: L_def c_def unsigned_ucast_eq take_bit_nat_eq_self_iff)
    then show ?thesis by (subst unat_add_lem [THEN iffD1]) simp_all
  qed
  have span: "unat span = (L + 1) * f"
    unfolding span_def using room lat by (subst unat_mult_lem [THEN iffD1]) (simp_all add: f_def fac)
  have d: "unat d = unat e + (L + 1) * f"
    unfolding d_def using room span by (subst unat_add_lem [THEN iffD1]) (simp_all add: e_def)
  have ed: "e < d" using d f0 by (simp add: word_less_nat_alt)
  define c1 where "c1 = armed e (t_cia w)"
  have tb: "ci_TBDeadline c = 0" "ci_TADeadline c = 0"
    using idle(1) by (simp_all add: nearest_zero c_def)
  have c1: "waiting d k c1"
    using mask idle owned_bit [OF ok] ok tb ed
    by (auto simp: c1_def armed_def w(2) waiting_def d_def span_def ciaSpan_def k_def c_def [symmetric] Let_def
        cia2RecomputeNMIState_def nmi_ok_def)
  have "armed e c1 = c1" using c1 by (simp add: armed_def waiting_def)
  moreover have "d \<noteq> 0" using ed by (metis word_not_simps(1))
  ultimately have "waiting d k (due e c1)" using waiting_due(1) [OF c1 _ ed] by simp
  then have st: "waiting d k (t_cia s1) \<and> ck_EmuCycles (t_clk s1) < d \<or> fired k (t_cia s1) \<and> d \<le> ck_EmuCycles (t_clk s1)"
    using T(1) ed unfolding e_def [symmetric] c1_def [symmetric] by simp
  have room': "unat (ck_EmuCycles (t_clk s1)) + sum_list (map unat ns) < 2 ^ 64" using room by simp
  note R = run_waiting [OF T(2) st room', folded s'_def]
  have due: "d \<le> ck_EmuCycles (t_clk s') \<longleftrightarrow> (L + 1) * f \<le> sum_list (map unat ns)"
    using R d by (simp add: word_le_nat_alt e_def)
  have emu: "unat (ck_EmuCycles (t_clk s')) = unat (ck_EmuCycles (t_clk s1)) + sum_list (map unat ns)" using R by blast
  show ?thesis
  proof (cases "d \<le> ck_EmuCycles (t_clk s')")
    case True
    then have "fired k (t_cia s')" using R by (meson not_le)
    then show ?thesis using True due emu by (simp add: fired_def k_def c_def)
  next
    case False
    then have "waiting d k (t_cia s')" using R by blast
    then show ?thesis using False due emu by (simp add: waiting_def k_def c_def)
  qed
qed

text \<open>A timer of 21 C64 cycles at a rate of 20. The storing instruction takes 4 cycles and stalls for the
  CIA write, so the deadline is anchored at 40 and the interrupt comes after 420 cycles more.\<close>

definition timer_demo :: c64t where
  "timer_demo = cia2TimerWrite 0xDD0D 0x81 (cia2TimerWrite 0xDD05 0 (cia2TimerWrite 0xDD04 20
     (fst (setPacing None 0 20000000 timing_new ()))))"

lemma timer_demo_eq:
  "timer_demo = timing_new\<lparr>
     t_clk := (t_clk timing_new)\<lparr>ck_SelectedEmulatedHz := 20000000, ck_PacingCheckCycles := 20, ck_C64FactorInUse := 20\<rparr>,
     t_cia := (t_cia timing_new)\<lparr>ci_FactorInUse := 20, ci_TALatch := 20, ci_ICRMask := 1, ci_NMIOwned := True\<rparr>\<rparr>"
  by code_simp

lemma timer_demo_parts:
  "effectiveCIAFactor (t_clk timer_demo) = 20" "no_hold (t_clk timer_demo)" "ci_TALatch (t_cia timer_demo) = 20"
  "be_BusEvents (t_bus timer_demo) = []" "nearest_deadline (t_cia timer_demo) = 0" "ci_ArmPending (t_cia timer_demo) = 0"
  "\<not> has (ci_TACR (t_cia timer_demo)) 1" "\<not> ci_SynthNMIActive (t_cia timer_demo)" "ci_NMIOwned (t_cia timer_demo)"
  "bit (ci_ICRMask (t_cia timer_demo)) 0" "timing_inv timer_demo" "be_IOStretchEnable (t_bus timer_demo)"
  "be_PendingFastHalfCycles (t_bus timer_demo) = 0" "ck_EmuCycles (t_clk timer_demo) = 0"
  "be_MirrorBufferFreeAt (t_bus timer_demo) = 0"
  by (simp_all add: timer_demo_eq timing_new_def no_hold_def nearest_deadline_def has_def timing_inv_def rates_ok_def
      nmi_ok_def effectiveCIAFactor_def BUS_EVENT_CAPACITY_def)

lemma timer_demo_start:
  "unat (ck_EmuCycles (t_clk (snd (snd (tick_clock 4 (noteBusAccess 0xDD0E True (cia2TimerWrite 0xDD0E 0x19 timer_demo))))))) = 40"
proof -
  define w where "w = noteBusAccess 0xDD0E True (cia2TimerWrite 0xDD0E 0x19 timer_demo)"
  have r: "rates_ok timer_demo" using timer_demo_parts by (simp add: timing_inv_def)
  note W = start_timer_a [OF r _ _ timer_demo_parts(7,6,5), of "0x19"]
  have w: "t_clk w = t_clk timer_demo" "be_BusEvents (t_bus w) = [BUS_EVENT_CIA_WRITE]" "be_IOStretchEnable (t_bus w)"
    "be_PendingFastHalfCycles (t_bus w) = 0" "be_MirrorBufferFreeAt (t_bus w) = 0"
    using timer_demo_parts W by (simp_all add: w_def noteBusAccess_def noteTimingEvent_def has_def BUS_EVENT_CAPACITY_def)
  have "timing_inv w" using timer_write_inv [OF timer_demo_parts(11)] unfolding w_def by (intro note_inv(1)) simp
  moreover have "c64t.t_clk w = t_clk timer_demo" by (rule w(1))
  ultimately have "rates_ok w" "no_hold (t_clk w)" using timer_demo_parts w by (simp_all add: timing_inv_def)
  have region: "tick_region (4, charge (ucast (4 :: u32)) w) = (4, charge 4 w)" by (simp add: tick_region_def w)
  have eff: "effectiveCIAFactor (t_clk (charge 4 w)) = 20"
    using timer_demo_parts(1) by (auto simp: charge_def w effectiveCIAFactor_def split: if_splits)
  have e4: "ck_EmuCycles (t_clk (charge 4 w)) = 4" by (simp add: w timer_demo_parts)
  have "fold (bus_event 20) [BUS_EVENT_CIA_WRITE] (0, 0, charge 4 w) = (36, 0, charge 36 (charge 4 w))"
    using bus_event_io [of BUS_EVENT_CIA_WRITE "charge 4 w" 20 0 0] by (simp add: w e4 phase_wait_def timer_demo_parts)
  then have "tick_bus_events (4, charge 4 w) = (4 + 36, on_bus (\<lambda>b. b\<lparr>be_IOStretchCycles := be_IOStretchCycles b + 36,
      be_MirrorStretchCycles := be_MirrorStretchCycles b + 0\<rparr>)
      (on_bus (\<lambda>b. b\<lparr>be_BusEvents := [], be_PostedWritePending := False\<rparr>) (charge 36 (charge 4 w))))"
    by (simp add: tick_bus_events_def w eff Let_def)
  from tick_emu(1) [OF \<open>rates_ok w\<close> \<open>no_hold (t_clk w)\<close>, of 4, unfolded region, OF this]
  show ?thesis unfolding w_def [symmetric] by (simp add: w timer_demo_parts)
qed

theorem timer_nmi_on_time_witness:
  "let s1 = snd (snd (tick_clock 4 (noteBusAccess 0xDD0E True (cia2TimerWrite 0xDD0E 0x19 timer_demo))))
   in \<not> ci_SynthNMIActive (t_cia (run_ticks [400, 19] s1)) \<and> ci_SynthNMIActive (t_cia (run_ticks [400, 19, 1] s1))"
proof -
  note T = timer_nmi_on_time [OF timer_demo_parts(11,2,5-10), of "0x19" 4]
  have v: "has (0x19 :: u8) 1" "\<not> has (0x19 :: u8) 0x20" by (simp_all add: has_def)
  show ?thesis
    using T [OF v, of "[400, 19]"] T [OF v, of "[400, 19, 1]"]
    unfolding timer_demo_start timer_demo_parts(1,3) Let_def by simp
qed

text \<open>A read of a VIC register and a CIA write of one instruction.\<close>

theorem io_accesses_are_quantised_witness:
  "unat (ck_EmuCycles (t_clk (snd (snd (tick_clock 8
     (noteTimingEvent BUS_EVENT_CIA_WRITE (noteTimingEvent BUS_EVENT_IO timer_demo))))))) = 60"
proof -
  define s where "s = noteTimingEvent BUS_EVENT_CIA_WRITE (noteTimingEvent BUS_EVENT_IO timer_demo)"
  have p: "t_clk s = t_clk timer_demo" "be_BusEvents (t_bus s) = [BUS_EVENT_IO, BUS_EVENT_CIA_WRITE]"
    "be_IOStretchEnable (t_bus s)" "be_PendingFastHalfCycles (t_bus s) = 0" "be_MirrorBufferFreeAt (t_bus s) = 0"
    using timer_demo_parts by (simp_all add: s_def noteTimingEvent_def BUS_EVENT_CAPACITY_def)
  have "timing_inv s" unfolding s_def by (intro note_event_inv timer_demo_parts(11))
  from io_accesses_are_quantised [OF this p(2), of 8]
  show ?thesis unfolding s_def [symmetric] by (simp add: p timer_demo_parts)
qed

section \<open>Pacing\<close>

text \<open>A host clock: every reading returns the current time and the clock advances by at least one and at
  most \<open>K\<close> cycles per reading.\<close>

definition host_clock :: "'h ic64_bus \<Rightarrow> ('h \<Rightarrow> nat) \<Rightarrow> nat \<Rightarrow> bool" where
  "host_clock B clock K \<longleftrightarrow>
     (\<forall>h. fst (cb_hostCycles B h) = of_nat (clock h)
        \<and> clock h < clock (snd (cb_hostCycles B h)) \<and> clock (snd (cb_hostCycles B h)) \<le> clock h + K)"

lemma host_elapsed: "A \<le> t \<Longrightarrow> t - A < 2 ^ 64 \<Longrightarrow> unat ((of_nat t :: u64) - of_nat A) = t - A"
proof -
  assume "A \<le> t" "t - A < 2 ^ 64"
  then have "(of_nat t :: u64) - of_nat A = of_nat (t - A)" by (simp add: of_nat_diff)
  then show ?thesis using \<open>t - A < 2 ^ 64\<close> by (simp add: unat_of_nat)
qed

lemma pacer_wait_returns:
  assumes clock: "host_clock B clock K" and "A \<le> clock h" "clock h \<le> A + unat owed + K" "unat owed + K < 2 ^ 64"
  shows "\<exists>t h'. pacer_wait B (of_nat A) owed h = Some (of_nat t, h') \<and> A + unat owed \<le> t \<and> t \<le> A + unat owed + K"
  using assms(2-4)
proof (induction "A + unat owed - clock h" arbitrary: h rule: less_induct)
  case less
  obtain h' where h': "cb_hostCycles B h = (of_nat (clock h), h')" "clock h < clock h'" "clock h' \<le> clock h + K"
    using clock unfolding host_clock_def by (metis prod.collapse)
  have e: "unat ((of_nat (clock h) :: u64) - of_nat A) = clock h - A"
    by (rule host_elapsed) (use less.prems in simp_all)
  show ?case
  proof (cases "clock h - A < unat owed")
    case True
    then have "(of_nat (clock h) :: u64) - of_nat A < owed" using e by (simp add: word_less_nat_alt)
    then have step: "pacer_wait B (of_nat A) owed h = pacer_wait B (of_nat A) owed h'"
      by (subst pacer_wait.simps) (simp add: h'(1))
    have "A + unat owed - clock h' < A + unat owed - clock h" "A \<le> clock h'" "clock h' \<le> A + unat owed + K"
      using True h' less.prems by simp_all
    from less.hyps [OF this less.prems(3)] show ?thesis unfolding step .
  next
    case False
    then have "\<not> (of_nat (clock h) :: u64) - of_nat A < owed" using e by (simp add: word_less_nat_alt)
    then have "pacer_wait B (of_nat A) owed h = Some (of_nat (clock h), h')"
      by (subst pacer_wait.simps) (simp add: h'(1))
    then show ?thesis using False less.prems by (intro exI [of _ "clock h"] exI [of _ h']) simp
  qed
qed

text \<open>C20. The pacer returns, and holds the guest to real time: with a host clock that advances by one to
  \<open>K\<close> cycles per reading, settling the debt of executed cycles ends, no earlier than the host cycles owed
  for it since the last anchor and no more than \<open>K\<close> host cycles later (or at once when the machine is
  already behind); the debt is then zero and the anchor is the moment of the return.\<close>

theorem pacer_holds_real_time:
  fixes iecActive :: bool
  assumes clock: "host_clock B clock K" and quiet: "\<not> ck_BusKeepalive (t_clk s)"
    and anchor: "ck_PacingAnchor (t_clk s) = of_nat A" "A \<le> clock h" "clock h - A < 2 ^ 63"
  defines "rate \<equiv> (if iecActive then ck_HostPerEmuQ16Slow (t_clk s) else ck_HostPerEmuQ16 (t_clk s))"
  defines "owed \<equiv> drop_bit 16 (ck_PacingDebtCycles (t_clk s) * rate)"
  assumes K: "unat owed + K < 2 ^ 64"
  shows "\<exists>s' h' t. tickSettle B iecActive s h = Some (s', h') \<and> A + unat owed \<le> t
    \<and> t \<le> max (clock h) (A + unat owed + K) \<and> ck_PacingAnchor (t_clk s') = of_nat t \<and> ck_PacingDebtCycles (t_clk s') = 0"
proof -
  obtain h1 where h1: "cb_hostCycles B h = (of_nat (clock h), h1)" "clock h < clock h1" "clock h1 \<le> clock h + K"
    using clock unfolding host_clock_def by (metis prod.collapse)
  have k: "keepalive B (of_nat (clock h)) s h1 = (of_nat (clock h), s, h1)" using quiet by (simp add: keepalive_def Let_def)
  have e: "unat ((of_nat (clock h) :: u64) - of_nat A) = clock h - A" by (rule host_elapsed) (use anchor in simp_all)
  show ?thesis
  proof (cases "unat owed \<le> clock h - A")
    case True
    then have "owed \<le> of_nat (clock h) - of_nat A" using e by (simp add: word_le_nat_alt)
    then have "tickSettle B iecActive s h = Some (settled (of_nat (clock h)) s, h1)"
      unfolding tickSettle_def Let_def h1(1) prod.case k rate_def [symmetric] owed_def [symmetric] anchor(1) by simp
    then show ?thesis
      using True anchor(2)
      by (intro exI [of _ "settled (of_nat (clock h)) s"] exI [of _ h1] exI [of _ "clock h"]) (simp add: settled_def)
  next
    case False
    then have ahead: "\<not> owed \<le> of_nat (clock h) - of_nat A" using e by (simp add: word_le_nat_alt)
    obtain t h2 where w: "pacer_wait B (of_nat A) owed h1 = Some (of_nat t, h2)" "A + unat owed \<le> t" "t \<le> A + unat owed + K"
    proof -
      have "A \<le> clock h1" "clock h1 \<le> A + unat owed + K" using anchor(2) h1 False by linarith+
      then show ?thesis using pacer_wait_returns [OF clock _ _ K] that by blast
    qed
    define s2 where "s2 = on_clk (\<lambda>k. k\<lparr>ck_PacerWaitHostCycles := ck_PacerWaitHostCycles k + (of_nat t - of_nat (clock h))\<rparr>) s"
    have "tickSettle B iecActive s h = Some (settled (of_nat t) s2, h2)"
      unfolding tickSettle_def Let_def h1(1) prod.case k rate_def [symmetric] owed_def [symmetric] anchor(1) s2_def
      using ahead w(1) by simp
    then show ?thesis
      using w by (intro exI [of _ "settled (of_nat t) s2"] exI [of _ h2] exI [of _ t]) (simp add: settled_def)
  qed
qed

text \<open>A clock that advances by three cycles per reading; 10 emulated cycles at 70 host cycles each.\<close>

definition counter_bus :: "nat ic64_bus" where
  "counter_bus = \<lparr> cb_signals = (\<lambda>_. \<lparr> sig_machine = MACHINE_C64, sig_video = VIDEO_PAL, sig_gameAsserted = False,
       sig_exromAsserted = False \<rparr>), cb_read = (\<lambda>_ h. (0, h)), cb_write = (\<lambda>_ _ h. h), cb_readRAM = (\<lambda>_ h. (0, h)),
     cb_writeRAM = (\<lambda>_ _ h. h), cb_verifyC64CIA2DDRA = (\<lambda>_ h. (True, h)), cb_writeBurst = (\<lambda>_ h. h),
     cb_readBlock = (\<lambda>_ n h. (replicate n 0, h)), cb_irqAsserted = (\<lambda>h. (False, h)), cb_nmiAsserted = (\<lambda>h. (False, h)),
     cb_rasterLine = (\<lambda>h. (0, h)), cb_hostCycles = (\<lambda>h. (of_nat h, h + 3)), cb_hostCyclesPerSec = (\<lambda>_. 1400000000) \<rparr>"

theorem pacer_holds_real_time_witness:
  "\<exists>s' h' t. tickSettle counter_bus False
       (on_clk (\<lambda>k. k\<lparr>ck_HostPerEmuQ16 := 70 * 65536, ck_PacingDebtCycles := 10\<rparr>) timing_new) 5 = Some (s', h')
     \<and> 700 \<le> t \<and> t \<le> 703 \<and> ck_PacingAnchor (t_clk s') = of_nat t \<and> ck_PacingDebtCycles (t_clk s') = 0"
proof -
  let ?s = "on_clk (\<lambda>k. k\<lparr>ck_HostPerEmuQ16 := 70 * 65536, ck_PacingDebtCycles := 10\<rparr>) timing_new"
  have c: "host_clock counter_bus (\<lambda>h. h) 3" by (simp add: host_clock_def counter_bus_def)
  have "\<not> ck_BusKeepalive (t_clk ?s)" "ck_PacingAnchor (t_clk ?s) = of_nat 0" by (simp_all add: timing_new_def)
  from pacer_holds_real_time [OF c this, of 5 False] show ?thesis by (simp add: timing_new_def drop_bit_eq_div max_def)
qed

end
