(* ===== verification/C64Display.thy ===== *)
theory C64Display
  imports C64Timing
begin

text \<open>
  What \<open>CC64Memory\<close> knows of the display (\<open>Source/C64/c64_memory.h\<close>, \<open>c64_memory.cpp\<close>): the VIC register
  shadow, the bank and matrix the CIA2 port and \<open>$D018\<close> select, the active sprite-pointer row, the hot
  shape blocks, the relocation of shapes under the I/O window, and the timestamped register log.

  The log ring is a function of the slot, of size \<open>SCPU_VIC_LOG_SIZE\<close>; the atomics of the source are plain
  stores (one producer, modelled between its operations). \<open>m_HotShapeBlocks\<close> is an array of 64-bit words.
  What reaches other objects (the bus, the mirror sink) is in the theory \<open>C64Memory\<close>.
\<close>

unbundle bit_operations_syntax

section \<open>The register log entry (\<open>Source/Video/vic_raster.h\<close>)\<close>

record VICRegWrite =
  ev_cycle :: u32
  ev_reg :: u16
  ev_value :: u8
  ev_lineLow :: u8

definition VIC_LOG_REG_MASK :: u16 where "VIC_LOG_REG_MASK = 0x07FF"
definition VIC_LOG_REG_SPRPTR :: u16 where "VIC_LOG_REG_SPRPTR = 0x050"
definition VIC_LOG_LINE_VALID :: u16 where "VIC_LOG_LINE_VALID = 0x4000"
definition VIC_LOG_LINE_HIGH :: u16 where "VIC_LOG_LINE_HIGH = 0x8000"
definition SCPU_VIC_LOG_SIZE :: nat where "SCPU_VIC_LOG_SIZE = 2048"

definition vicLogRegister :: "VICRegWrite \<Rightarrow> u16" where
  "vicLogRegister e = ev_reg e AND VIC_LOG_REG_MASK"

definition vicLogHasRasterLine :: "VICRegWrite \<Rightarrow> bool" where
  "vicLogHasRasterLine e \<longleftrightarrow> has (ev_reg e) VIC_LOG_LINE_VALID"

definition vicLogRasterLine :: "VICRegWrite \<Rightarrow> u16" where
  "vicLogRasterLine e = ucast (ev_lineLow e) OR (if has (ev_reg e) VIC_LOG_LINE_HIGH then 0x100 else 0)"

section \<open>State\<close>

definition NO_BASE :: u32 where "NO_BASE = 0xFFFFFFFF"

record cia2_port =
  cp_PortALatch :: u8
  cp_LastPortARead :: u8
  cp_DDRA :: u8
  cp_HavePortALatch :: bool
  cp_HavePortARead :: bool
  cp_HaveDDRA :: bool

record vicd =
  vd_RegShadow :: "u8 \<Rightarrow> u8"
  vd_SpritePtrBase :: u32
  vd_PreviousSpritePtrBase :: u32
  vd_LastD018 :: u8
  vd_RAMUnderIOAccessible :: bool
  vd_PtrRowWrites :: u64
  vd_RelocEnable :: bool
  vd_PtrReloc :: "nat \<Rightarrow> u8"
  vd_RelocInUse :: "nat \<Rightarrow> u8"
  vd_RelocCount :: u8
  vd_RelocAllocs :: u64
  vd_RelocDelivered :: u64
  vd_RelocExhausted :: u64
  vd_HotShapeBlocks :: "nat \<Rightarrow> u64"
  vd_HotShapeGeneration :: u32

record vic_log =
  vl_Log :: "nat \<Rightarrow> VICRegWrite"
  vl_Head :: u32
  vl_Generation :: u32
  vl_Enabled :: bool
  vl_RasterAnchor :: u64
  vl_LastPreciseAnchor :: u32
  vl_RasterCompare :: u16
  vl_LastCompareWrite :: u32
  vl_LastPreciseLine :: u16

section \<open>Where the VIC looks\<close>

definition activeVICBankBase :: "cia2_port \<Rightarrow> u32" where
  "activeVICBankBase p =
     (let outputs = (if cp_HaveDDRA p then cp_DDRA p else 0x03);
          bank = (if cp_HavePortALatch p then NOT (cp_PortALatch p) AND outputs AND 3 else 0)
      in push_bit 14 (ucast bank))"

definition updateSpritePtrBase :: "cia2_port \<Rightarrow> vicd \<Rightarrow> vicd" where
  "updateSpritePtrBase p d =
     (let outputs = (if cp_HaveDDRA p then cp_DDRA p else 0x03);
          bank = (if cp_HavePortALatch p then NOT (cp_PortALatch p) AND outputs AND 3 else 0);
          base = push_bit 14 (ucast bank) + push_bit 10 (ucast (drop_bit 4 (vd_LastD018 d))) + 0x3F8 :: u32;
          next = (if \<not> vd_RAMUnderIOAccessible d \<and> base AND 0xF000 = 0xD000 then NO_BASE else base)
      in d\<lparr>vd_PreviousSpritePtrBase := (if next \<noteq> vd_SpritePtrBase d then vd_SpritePtrBase d
                                        else vd_PreviousSpritePtrBase d),
           vd_SpritePtrBase := next\<rparr>)"

definition activeVICScreenBase :: "cia2_port \<Rightarrow> vicd \<Rightarrow> u32" where
  "activeVICScreenBase p d = activeVICBankBase p + push_bit 10 (ucast (drop_bit 4 (vd_LastD018 d)))"

definition activeScreenBase :: "vicd \<Rightarrow> u32" where
  "activeScreenBase d = (if vd_SpritePtrBase d = NO_BASE then NO_BASE else vd_SpritePtrBase d - 0x3F8)"

definition activeBitmapBase :: "cia2_port \<Rightarrow> vicd \<Rightarrow> u32" where
  "activeBitmapBase p d =
     (if \<not> has (vd_RegShadow d 0x11) 0x20 then NO_BASE
      else activeVICBankBase p + (if has (vd_LastD018 d) 0x08 then 0x2000 else 0))"

definition activeCharsetBase :: "cia2_port \<Rightarrow> vicd \<Rightarrow> u32" where
  "activeCharsetBase p d =
     (if has (vd_RegShadow d 0x11) 0x20 then NO_BASE
      else let bank = ucast (drop_bit 14 (activeVICBankBase p)) :: u8;
               offset = push_bit 10 (ucast (vd_LastD018 d AND 0x0E)) :: u32
           in if bank AND 1 = 0 \<and> offset \<ge> 0x1000 \<and> offset < 0x2000 then NO_BASE
              else push_bit 14 (ucast bank) + offset)"

definition vicRegister :: "vicd \<Rightarrow> u8 \<Rightarrow> u8" where
  "vicRegister d r = vd_RegShadow d (r AND 0x3F)"

definition trackedCIA2Snapshot :: "cia2_port \<Rightarrow> (u8 \<times> u8) option" where
  "trackedCIA2Snapshot p =
     (if \<not> cp_HaveDDRA p \<or> \<not> cp_HavePortARead p then None
      else Some (if cp_HavePortALatch p
                 then (cp_LastPortARead p AND NOT (cp_DDRA p)) OR (cp_PortALatch p AND cp_DDRA p)
                 else cp_LastPortARead p,
                 cp_DDRA p))"

section \<open>Hot shape blocks\<close>

text \<open>The block an enabled sprite's pointer selects, relocated when a stand-in exists.\<close>

definition shape_block :: "(u16 \<Rightarrow> u8) \<Rightarrow> vicd \<Rightarrow> u32 \<Rightarrow> u32" where
  "shape_block ram d n =
     (let bank = drop_bit 14 (vd_SpritePtrBase d) AND 3;
          v = ram (ucast (vd_SpritePtrBase d + n));
          v = (if vd_RelocEnable d \<and> bank = 3 \<and> v \<ge> 0x40 \<and> v < 0x80 \<and> vd_PtrReloc d (unat (v - 0x40)) \<noteq> 0xFF
               then vd_PtrReloc d (unat (v - 0x40)) else v)
      in push_bit 8 bank + ucast v)"

definition mark_sprite :: "(u16 \<Rightarrow> u8) \<Rightarrow> vicd \<Rightarrow> nat \<Rightarrow> (nat \<Rightarrow> u64) \<Rightarrow> nat \<Rightarrow> u64" where
  "mark_sprite ram d n blocks =
     (if \<not> bit (vd_RegShadow d 0x15) n then blocks
      else let blk = shape_block ram d (of_nat n)
           in blocks(unat (drop_bit 6 blk) := blocks (unat (drop_bit 6 blk)) OR push_bit (unat (blk AND 63)) 1))"

definition updateHotShapeBlocks :: "(u16 \<Rightarrow> u8) \<Rightarrow> vicd \<Rightarrow> vicd" where
  "updateHotShapeBlocks ram d =
     (let d = d\<lparr>vd_HotShapeGeneration := vd_HotShapeGeneration d + 1, vd_HotShapeBlocks := (\<lambda>_. 0)\<rparr>
      in if vd_SpritePtrBase d = NO_BASE then d
         else d\<lparr>vd_HotShapeBlocks := fold (mark_sprite ram d) [0..<8] (vd_HotShapeBlocks d)\<rparr>)"

definition display_setRAMUnderIOAccessible :: "(u16 \<Rightarrow> u8) \<Rightarrow> cia2_port \<Rightarrow> bool \<Rightarrow> vicd \<Rightarrow> vicd" where
  "display_setRAMUnderIOAccessible ram p accessible d =
     (let d = d\<lparr>vd_RAMUnderIOAccessible := accessible\<rparr>;
          d = (if accessible then d\<lparr>vd_RelocEnable := False\<rparr> else d)
      in updateHotShapeBlocks ram (updateSpritePtrBase p d))"

section \<open>Relocation of shapes under the I/O window\<close>

definition reloc_usable :: "vicd \<Rightarrow> nat \<Rightarrow> bool" where
  "reloc_usable d r \<longleftrightarrow>
     (let screenBase = (vd_SpritePtrBase d - 0x3F8) AND 0xFFFF;
          previousScreenBase = (vd_PreviousSpritePtrBase d - 0x3F8) AND 0xFFFF;
          lowBitmap = (has (vd_RegShadow d 0x11) 0x20 \<and> \<not> has (vd_LastD018 d) 0x08);
          addr = 0xC000 + push_bit 6 (of_nat r) :: u32
      in vd_RelocInUse d r = 0xFF
         \<and> \<not> (addr \<ge> screenBase \<and> addr < screenBase + 0x400)
         \<and> \<not> (vd_PreviousSpritePtrBase d \<noteq> NO_BASE \<and> addr \<ge> previousScreenBase \<and> addr < previousScreenBase + 0x400)
         \<and> \<not> lowBitmap)"

definition reloc_claim :: "u8 \<Rightarrow> nat \<Rightarrow> vicd \<Rightarrow> vicd" where
  "reloc_claim v r d =
     d\<lparr>vd_PtrReloc := (vd_PtrReloc d)(unat (v - 0x40) := of_nat r),
       vd_RelocInUse := (vd_RelocInUse d)(r := v),
       vd_RelocCount := vd_RelocCount d + 1, vd_RelocAllocs := vd_RelocAllocs d + 1\<rparr>"

definition reloc_applies :: "vicd \<Rightarrow> u8 \<Rightarrow> bool" where
  "reloc_applies d v \<longleftrightarrow>
     \<not> (\<not> vd_RelocEnable d \<or> v < 0x40 \<or> v \<ge> 0x80 \<or> vd_SpritePtrBase d < 0xC000 \<or> vd_SpritePtrBase d = NO_BASE)"

text \<open>The tables' part of \<open>relocPointerValue\<close> and \<open>allocRelocBlock\<close>: the delivered value, and the block whose
  bytes have to be re-issued.\<close>

definition relocPointerValue :: "u8 \<Rightarrow> vicd \<Rightarrow> u8 \<times> u8 option \<times> vicd" where
  "relocPointerValue v d =
     (if \<not> reloc_applies d v then (v, None, d)
      else if vd_PtrReloc d (unat (v - 0x40)) \<noteq> 0xFF then
        (vd_PtrReloc d (unat (v - 0x40)), None, d\<lparr>vd_RelocDelivered := vd_RelocDelivered d + 1\<rparr>)
      else case find (reloc_usable d) [0..<0x30] of
             None \<Rightarrow> (v, None, d\<lparr>vd_RelocExhausted := vd_RelocExhausted d + 1\<rparr>)
           | Some r \<Rightarrow>
               (of_nat r, Some v, (reloc_claim v r d)\<lparr>vd_RelocDelivered := vd_RelocDelivered d + 1\<rparr>))"

section \<open>The register log\<close>

definition log_slot :: "u32 \<Rightarrow> nat" where
  "log_slot i = unat (i AND (of_nat SCPU_VIC_LOG_SIZE - 1))"

definition appendVICLog :: "u32 \<Rightarrow> u16 \<Rightarrow> u8 \<Rightarrow> vic_log \<Rightarrow> vic_log" where
  "appendVICLog now r v l =
     (if \<not> vl_Enabled l then l
      else
        let reg = r AND VIC_LOG_REG_MASK;
            tag = (vl_LastPreciseLine l \<noteq> 0xFFFF \<and> now - vl_LastPreciseAnchor l < 48);
            event = (if tag
                     then \<lparr> ev_cycle = now,
                            ev_reg = reg OR VIC_LOG_LINE_VALID
                                     OR (if has (vl_LastPreciseLine l) 0x100 then VIC_LOG_LINE_HIGH else 0),
                            ev_value = v, ev_lineLow = ucast (vl_LastPreciseLine l) \<rparr>
                     else \<lparr> ev_cycle = now, ev_reg = reg, ev_value = v, ev_lineLow = 0 \<rparr>)
        in l\<lparr>vl_Log := (vl_Log l)(log_slot (vl_Head l) := event), vl_Head := vl_Head l + 1\<rparr>)"

definition enableVICLog :: "bool \<Rightarrow> vic_log \<Rightarrow> vic_log" where
  "enableVICLog on l =
     (let l = (if on \<and> \<not> vl_Enabled l
               then l\<lparr>vl_Head := 0, vl_LastPreciseAnchor := 0x80000000, vl_LastCompareWrite := 0x80000000,
                      vl_LastPreciseLine := 0xFFFF, vl_RasterAnchor := 0, vl_Generation := vl_Generation l + 1\<rparr>
               else l)
      in l\<lparr>vl_Enabled := on\<rparr>)"

text \<open>\<open>noteRasterPrecise\<close> tags the entries its handler already made, back to one raster line and at most
  eight of them; the result of the walk is the start of the line.\<close>

definition tag_event :: "u16 \<Rightarrow> VICRegWrite \<Rightarrow> VICRegWrite" where
  "tag_event exact e =
     e\<lparr>ev_lineLow := ucast exact,
       ev_reg := (ev_reg e AND VIC_LOG_REG_MASK) OR VIC_LOG_LINE_VALID OR (if has exact 0x100 then VIC_LOG_LINE_HIGH else 0)\<rparr>"

function tag_back :: "u32 \<Rightarrow> u16 \<Rightarrow> u32 \<Rightarrow> u32 \<Rightarrow> nat \<Rightarrow> u32 \<times> (nat \<Rightarrow> VICRegWrite) \<Rightarrow> u32 \<times> (nat \<Rightarrow> VICRegWrite)" where
  "tag_back now exact perLine head back (lineStart, log) =
     (if back \<le> 8 \<and> of_nat back \<le> head then
        let i = log_slot (head - of_nat back); e = log i
        in if now - ev_cycle e \<ge> perLine then (lineStart, log)
           else tag_back now exact perLine head (back + 1)
                  (ev_cycle e, if vicLogHasRasterLine e then log else log(i := tag_event exact e))
      else (lineStart, log))"
  by pat_completeness auto
termination by (relation "measure (\<lambda>(_, _, _, _, back, _). 9 - back)") auto

definition noteRasterPrecise :: "u32 \<Rightarrow> u32 \<Rightarrow> u16 \<Rightarrow> vic_log \<Rightarrow> vic_log" where
  "noteRasterPrecise now perLine rasterLine l =
     (let exact = rasterLine AND 0x1FF;
          (lineStart, log) = tag_back now exact perLine (vl_Head l) 1 (now, vl_Log l)
      in l\<lparr>vl_Log := log, vl_LastPreciseAnchor := now, vl_LastPreciseLine := exact,
           vl_RasterAnchor := push_bit 63 1 OR push_bit 16 (ucast lineStart) OR ucast exact\<rparr>)"

definition noteRasterCoarse :: "u32 \<Rightarrow> u16 \<Rightarrow> vic_log \<Rightarrow> vic_log" where
  "noteRasterCoarse now rasterLine l =
     (if \<not> vl_Enabled l \<or> rasterLine = 0xFFFF then l
      else if now - vl_LastPreciseAnchor l < 25000 then l
      else l\<lparr>vl_RasterAnchor := push_bit 63 1 OR push_bit 16 (ucast now) OR ucast (rasterLine AND 0x1FF)\<rparr>)"

definition logVICBank :: "u32 \<Rightarrow> cia2_port \<Rightarrow> vic_log \<Rightarrow> vic_log" where
  "logVICBank now p = appendVICLog now 0x40 (ucast (drop_bit 14 (activeVICBankBase p)))"

text \<open>The part of a VIC register write that concerns the log: an IRQ handler that re-aims or acknowledges
  the raster compare anchors the old compare line, once per handler.\<close>

definition anchor_compare :: "u32 \<Rightarrow> u32 \<Rightarrow> vicd \<Rightarrow> u8 \<Rightarrow> u8 \<Rightarrow> vic_log \<Rightarrow> vic_log" where
  "anchor_compare now perLine d r v l =
     (if \<not> vl_Enabled l then l
      else if r = 0x12 \<or> (r = 0x11 \<and> has (v XOR vd_RegShadow d 0x11) 0x80) then
        (let l = (if now - vl_LastCompareWrite l \<ge> 256 then noteRasterPrecise now perLine (vl_RasterCompare l) l else l)
         in l\<lparr>vl_LastCompareWrite := now\<rparr>)
      else if r = 0x19 \<and> has v 0x01 \<and> now - vl_LastCompareWrite l \<ge> 256
      then noteRasterPrecise now perLine (vl_RasterCompare l) l
      else l)"

definition compare_line :: "(u8 \<Rightarrow> u8) \<Rightarrow> u16" where
  "compare_line shadow = ucast (shadow 0x12) OR (if has (shadow 0x11) 0x80 then 0x100 else 0)"

definition note_compare :: "u8 \<Rightarrow> vicd \<Rightarrow> vic_log \<Rightarrow> vic_log" where
  "note_compare r d l =
     (if r = 0x11 \<or> r = 0x12 then l\<lparr>vl_RasterCompare := compare_line (vd_RegShadow d)\<rparr> else l)"

end
