(* ===== verification/C64Memory.thy ===== *)
theory C64Memory
  imports C64Display WriteBuffer Banking
begin

text \<open>
  Bank 0: \<open>CC64Memory\<close> of \<open>Source/C64/c64_memory.h\<close> and \<open>c64_memory.cpp\<close>, with its clock side
  (\<open>C64Timing\<close>) and its display side (\<open>C64Display\<close>) as fields.

  The objects it is attached to act on one shared state \<open>'h\<close>: the C64 bus, the mirror sink
  (\<open>IMirrorSink\<close>, which sees the shadow RAM and the display tables through pointers, here the
  \<open>wb_env\<close> it is called with), the I/O interceptor (\<open>IIOInterceptor\<close>) and the \<open>$FF00\<close> hook, both of which
  may run a whole DMA transfer on the memory. Null pointers are \<open>None\<close>. Two members and one array are written by the
  registers through pointers (\<open>m_BootmapActive\<close>, \<open>m_KernalShadowBase\<close>, the bank-1 SRAM behind
  \<open>m_ROMShadow\<close>): they live in \<open>'h\<close> and are read through \<open>ch_BootmapActive\<close>, \<open>ch_KernalShadowBase\<close> and
  \<open>ch_ROMShadow\<close>.
\<close>

unbundle bit_operations_syntax

section \<open>State and interfaces\<close>

record c64_memory =
  c_T :: c64t
  c_P :: cia2_port
  c_D :: vicd
  c_L :: vic_log
  c_RAM :: "u16 \<Rightarrow> u8"
  c_Basic :: "u16 \<Rightarrow> u8"
  c_Kernal :: "u16 \<Rightarrow> u8"
  c_CharROM :: "u16 \<Rightarrow> u8"
  c_Port00 :: u8
  c_Port01 :: u8
  c_BankMode :: u8
  c_IOReads :: u64
  c_IOWrites :: u64
  c_RamWrites :: u64
  c_VectorRerouteEnable :: bool
  c_VectorReroutes :: u64
  c_BootmapROM :: "(u32 \<Rightarrow> u8) option"
  c_BootmapROMLength :: u32
  c_SCPU128Mode :: bool
  c_HasBasic :: bool
  c_HasKernal :: bool
  c_HasChar :: bool
  c_IOLog :: "nat \<Rightarrow> u32"
  c_IOLogPos :: u8
  c_CIALog :: "nat \<Rightarrow> u32"
  c_CIALogCyc :: "nat \<Rightarrow> u32"
  c_CIALastRead :: u32
  c_CIALogPos :: u8
  c_HDMISpriteSprite :: "u32 option"
  c_HDMISpriteBackground :: "u32 option"
  c_HDMIActive :: "bool option"

record 'h io_interceptor =
  io_read :: "u16 \<Rightarrow> 'h \<Rightarrow> u8 option \<times> 'h"
  io_write :: "u16 \<Rightarrow> u8 \<Rightarrow> c64_memory \<Rightarrow> 'h \<Rightarrow> bool \<times> c64_memory \<times> 'h"
  io_needsStretch :: "u16 \<Rightarrow> bool \<Rightarrow> 'h \<Rightarrow> bool"
  io_usesWriteBuffer :: "u16 \<Rightarrow> bool \<Rightarrow> 'h \<Rightarrow> bool"
  io_dosExtension :: "'h \<Rightarrow> bool option"
  io_simmWindowWrites :: "'h \<Rightarrow> bool"
  io_rerouteRequested :: "'h \<Rightarrow> bool"

record 'h c64_host =
  ch_C64 :: "'h ic64_bus option"
  ch_Mirror :: "(wb_env \<Rightarrow> u16 \<Rightarrow> u8 \<Rightarrow> 'h \<Rightarrow> bool \<times> 'h) option"
  ch_IO :: "'h io_interceptor option"
  ch_FF00Hook :: "(c64_memory \<times> 'h \<Rightarrow> c64_memory \<times> 'h) option"
  ch_BootmapActive :: "'h \<Rightarrow> bool"
  ch_KernalShadowBase :: "'h \<Rightarrow> u32"
  ch_ROMShadow :: "('h \<Rightarrow> u16 \<Rightarrow> u8) option"
  ch_writeROMShadow :: "u16 \<Rightarrow> u8 \<Rightarrow> 'h \<Rightarrow> 'h"

definition on_T :: "(c64t \<Rightarrow> c64t) \<Rightarrow> c64_memory \<Rightarrow> c64_memory" where "on_T f M = M\<lparr>c_T := f (c_T M)\<rparr>"
definition on_P :: "(cia2_port \<Rightarrow> cia2_port) \<Rightarrow> c64_memory \<Rightarrow> c64_memory" where "on_P f M = M\<lparr>c_P := f (c_P M)\<rparr>"
definition on_D :: "(vicd \<Rightarrow> vicd) \<Rightarrow> c64_memory \<Rightarrow> c64_memory" where "on_D f M = M\<lparr>c_D := f (c_D M)\<rparr>"
definition on_L :: "(vic_log \<Rightarrow> vic_log) \<Rightarrow> c64_memory \<Rightarrow> c64_memory" where "on_L f M = M\<lparr>c_L := f (c_L M)\<rparr>"

definition mem_now :: "c64_memory \<Rightarrow> u32" where
  "mem_now M = ucast (c64Now (t_clk (c_T M)))"

definition mem_env :: "c64_memory \<Rightarrow> wb_env" where
  "mem_env M = \<lparr> we_RAM = Some (c_RAM M), we_HotBlocks = Some (vd_HotShapeBlocks (c_D M)),
     we_HotBlocksGeneration = Some (vd_HotShapeGeneration (c_D M)), we_PtrReloc = vd_PtrReloc (c_D M),
     we_RelocInUse = vd_RelocInUse (c_D M), we_RelocCount = Some (vd_RelocCount (c_D M)) \<rparr>"

section \<open>Banking and ROM images\<close>

definition updateBankMode :: "'h c64_host \<Rightarrow> 'h \<Rightarrow> c64_memory \<Rightarrow> c64_memory" where
  "updateBankMode H h M =
     (let port = c64PortEffective (c_Port00 M) (c_Port01 M);
          cfg = (case ch_C64 H of
                   Some B \<Rightarrow> \<lparr> cfg_port01 = port, cfg_game = (if sig_gameAsserted (cb_signals B h) then 0 else 1),
                               cfg_exrom = (if sig_exromAsserted (cb_signals B h) then 0 else 1) \<rparr>
                 | None \<Rightarrow> \<lparr> cfg_port01 = port, cfg_game = 1, cfg_exrom = 1 \<rparr>)
      in M\<lparr>c_BankMode := c64BankMode cfg\<rparr>)"

definition setBasicROM :: "(u16 \<Rightarrow> u8) \<Rightarrow> c64_memory \<Rightarrow> c64_memory" where
  "setBasicROM data M = M\<lparr>c_Basic := data, c_HasBasic := True\<rparr>"

definition setKernalROM :: "(u16 \<Rightarrow> u8) \<Rightarrow> c64_memory \<Rightarrow> c64_memory" where
  "setKernalROM data M = M\<lparr>c_Kernal := data, c_HasKernal := True\<rparr>"

definition setCharROM :: "(u16 \<Rightarrow> u8) \<Rightarrow> c64_memory \<Rightarrow> c64_memory" where
  "setCharROM data M = M\<lparr>c_CharROM := data, c_HasChar := True\<rparr>"

definition setBootmapROM :: "(u32 \<Rightarrow> u8) option \<Rightarrow> u32 \<Rightarrow> c64_memory \<Rightarrow> c64_memory" where
  "setBootmapROM rom len M = M\<lparr>c_BootmapROM := rom, c_BootmapROMLength := (if rom \<noteq> None then len else 0)\<rparr>"

definition setSCPU128Mode :: "bool \<Rightarrow> c64_memory \<Rightarrow> c64_memory" where
  "setSCPU128Mode on M = M\<lparr>c_SCPU128Mode := on\<rparr>"

definition block_image :: "u8 list \<Rightarrow> u16 \<Rightarrow> u8" where
  "block_image bs a = (if unat a < length bs then bs ! unat a else 0)"

definition snapshotROMsFromBus :: "'h c64_host \<Rightarrow> c64_memory \<Rightarrow> 'h \<Rightarrow> bool \<times> c64_memory \<times> 'h" where
  "snapshotROMsFromBus H M h =
     (case ch_C64 H of
        None \<Rightarrow> (False, M, h)
      | Some B \<Rightarrow>
          if c_HasBasic M \<and> c_HasKernal M then (True, M, h)
          else
            let (lo, h) = cb_read B 0xFFFC h;
                (hi, h) = cb_read B 0xFFFD h;
                M = M\<lparr>c_IOReads := c_IOReads M + 2\<rparr>
            in if word16 lo hi < 0xE000 then (False, M, h)
               else
                 let (M, h) = (if \<not> c_HasKernal M
                               then let (bs, h) = cb_readBlock B 0xE000 0x2000 h
                                    in (M\<lparr>c_Kernal := block_image bs, c_HasKernal := True\<rparr>, h)
                               else (M, h));
                     (M, h) = (if \<not> c_HasBasic M
                               then let (bs, h) = cb_readBlock B 0xA000 0x2000 h
                                    in (M\<lparr>c_Basic := block_image bs, c_HasBasic := True\<rparr>, h)
                               else (M, h))
                 in (True, M, h))"

section \<open>The display through the memory\<close>

definition follow_pointers :: "c64_memory \<Rightarrow> c64_memory" where
  "follow_pointers M = on_D (\<lambda>d. updateHotShapeBlocks (c_RAM M) (updateSpritePtrBase (c_P M) d)) M"

definition rebuild_hot :: "c64_memory \<Rightarrow> c64_memory" where
  "rebuild_hot M = on_D (updateHotShapeBlocks (c_RAM M)) M"

definition mem_setRAMUnderIOAccessible :: "bool \<Rightarrow> c64_memory \<Rightarrow> c64_memory" where
  "mem_setRAMUnderIOAccessible on M = on_D (display_setRAMUnderIOAccessible (c_RAM M) (c_P M) on) M"

definition initializeC64CIA2 :: "'h c64_host \<Rightarrow> c64_memory \<Rightarrow> 'h \<Rightarrow> bool \<times> c64_memory \<times> 'h" where
  "initializeC64CIA2 H M h =
     (case ch_C64 H of
        None \<Rightarrow> (False, M, h)
      | Some B \<Rightarrow>
          let h = cb_write B 0xDD02 0x3F (cb_write B 0xDD02 0x3F h);
              (ok, h) = cb_verifyC64CIA2DDRA B 0x3F h
          in if \<not> ok then (False, M, h)
             else (True, follow_pointers (on_P (\<lambda>p. p\<lparr>cp_DDRA := 0x3F, cp_HaveDDRA := True\<rparr>) M), h))"

definition clearPhysicalVICCollisionLatches :: "'h c64_host \<Rightarrow> 'h \<Rightarrow> 'h" where
  "clearPhysicalVICCollisionLatches H h =
     (case ch_C64 H of Some B \<Rightarrow> snd (cb_read B 0xD01F (snd (cb_read B 0xD01E h))) | None \<Rightarrow> h)"

definition line_cycles :: "'h c64_host \<Rightarrow> 'h \<Rightarrow> u32" where
  "line_cycles H h = (case ch_C64 H of Some B \<Rightarrow> of_nat (c64CyclesPerLine (sig_video (cb_signals B h))) | None \<Rightarrow> 63)"

definition colourRAM :: "'h c64_host \<Rightarrow> 'h \<Rightarrow> u16 \<Rightarrow> u8" where
  "colourRAM H h offset =
     (case ch_ROMShadow H of Some shadow \<Rightarrow> shadow h (0xD800 + (offset AND 0x03FF)) AND 0x0F | None \<Rightarrow> 14)"

text \<open>The shape bytes of a relocated block are re-issued to the sink with the tables already armed.\<close>

definition reissue_shape :: "'h c64_host \<Rightarrow> u8 \<Rightarrow> c64_memory \<Rightarrow> 'h \<Rightarrow> 'h" where
  "reissue_shape H v M h =
     (case ch_Mirror H of
        None \<Rightarrow> h
      | Some sink \<Rightarrow>
          let src = 0xC000 + push_bit 6 (ucast v)
          in fold (\<lambda>i h. snd (sink (mem_env M) (src + of_nat i) (c_RAM M (src + of_nat i)) h)) [0..<64] h)"

definition noteSpritePointerWrite :: "'h c64_host \<Rightarrow> u16 \<Rightarrow> u8 \<Rightarrow> u8 \<Rightarrow> c64_memory \<Rightarrow> 'h \<Rightarrow> c64_memory \<times> 'h" where
  "noteSpritePointerWrite H a old v M h =
     (let M = on_D (\<lambda>d. d\<lparr>vd_PtrRowWrites := vd_PtrRowWrites d + 1\<rparr>) M
      in if old = v then (M, h)
         else
           let (M, h) =
             (case ch_C64 H of
                None \<Rightarrow> (M, h)
              | Some B \<Rightarrow>
                  let (delivered, claimed, d) = relocPointerValue v (c_D M);
                      M = M\<lparr>c_D := d\<rparr>;
                      h = (case claimed of Some src \<Rightarrow> reissue_shape H src M h | None \<Rightarrow> h)
                  in (M, if vd_RAMUnderIOAccessible (c_D M) \<and> a \<ge> 0xD000 \<and> a \<le> 0xDFFF
                         then cb_writeRAM B a delivered h else cb_write B a delivered h));
               M = rebuild_hot M
           in (on_L (appendVICLog (mem_now M) (VIC_LOG_REG_SPRPTR + (a AND 7)) v) M, h))"

definition noteRAMWriteSideEffects :: "'h c64_host \<Rightarrow> u16 \<Rightarrow> u8 \<Rightarrow> u8 \<Rightarrow> c64_memory \<Rightarrow> 'h \<Rightarrow> c64_memory \<times> 'h" where
  "noteRAMWriteSideEffects H a old v M h =
     (let (M, h) = (if ucast a AND NOT 7 = vd_SpritePtrBase (c_D M) then noteSpritePointerWrite H a old v M h else (M, h))
      in case ch_FF00Hook H of
           Some hook \<Rightarrow> if a = 0xFF00 then hook (M, h) else (M, h)
         | None \<Rightarrow> (M, h))"

text \<open>Sink first, store second.\<close>

definition mirrored_store :: "'h c64_host \<Rightarrow> u16 \<Rightarrow> u8 \<Rightarrow> c64_memory \<Rightarrow> 'h \<Rightarrow> c64_memory \<times> 'h" where
  "mirrored_store H a v M h =
     (let (M, h) =
        (case ch_Mirror H of
           None \<Rightarrow> (M, h)
         | Some sink \<Rightarrow> (let (accepted, h) = sink (mem_env M) a v h
                         in (if accepted then on_T noteMirrorWrite M else M, h)))
      in (M\<lparr>c_RAM := (c_RAM M)(a := v)\<rparr>, h))"

definition ram_store :: "'h c64_host \<Rightarrow> u16 \<Rightarrow> u8 \<Rightarrow> c64_memory \<Rightarrow> 'h \<Rightarrow> c64_memory \<times> 'h" where
  "ram_store H a v M h =
     (let old = c_RAM M a;
          (M, h) = mirrored_store H a v (M\<lparr>c_RamWrites := c_RamWrites M + 1\<rparr>) h
      in noteRAMWriteSideEffects H a old v M h)"

section \<open>Address decoding shared by the access paths\<close>

definition dosExtensionMapsBank1 :: "'h c64_host \<Rightarrow> u16 \<Rightarrow> 'h \<Rightarrow> bool" where
  "dosExtensionMapsBank1 H a h \<longleftrightarrow>
     ((a \<ge> 0x1000 \<and> a \<le> 0x5FFF) \<or> (a \<ge> 0x8000 \<and> a \<le> 0x9FFF))
     \<and> \<not> ch_BootmapActive H h \<and> ch_ROMShadow H \<noteq> None
     \<and> (case ch_IO H of Some io \<Rightarrow> io_dosExtension io h = Some True | None \<Rightarrow> False)"

definition shadow_read :: "'h c64_host \<Rightarrow> u16 \<Rightarrow> 'h \<Rightarrow> u8" where
  "shadow_read H a h = (case ch_ROMShadow H of Some shadow \<Rightarrow> shadow h a | None \<Rightarrow> 0)"

definition scpu128_host :: "c64_memory \<Rightarrow> u16 \<Rightarrow> bool" where
  "scpu128_host M a \<longleftrightarrow>
     c_SCPU128Mode M \<and> ((a \<ge> 0xD500 \<and> a \<le> 0xD50B) \<or> (a \<ge> 0xD600 \<and> a \<le> 0xD601) \<or> (a \<ge> 0xFF00 \<and> a \<le> 0xFF04))"

definition simmWindowWritesEnabled :: "'h c64_host \<Rightarrow> 'h \<Rightarrow> bool" where
  "simmWindowWritesEnabled H h \<longleftrightarrow> (case ch_IO H of Some io \<Rightarrow> io_simmWindowWrites io h | None \<Rightarrow> True)"

definition interruptRerouteActive :: "'h c64_host \<Rightarrow> bool \<Rightarrow> c64_memory \<Rightarrow> 'h \<Rightarrow> bool" where
  "interruptRerouteActive H emulationMode M h \<longleftrightarrow>
     (if \<not> c_VectorRerouteEnable M then False
      else if ch_BootmapActive H h \<or> ch_ROMShadow H = None then False
      else if c64MapRead c64RegionTable 0xFF00 (c_BankMode M) \<noteq> REG_KERNAL then False
      else \<not> emulationMode \<or> (case ch_IO H of Some io \<Rightarrow> io_rerouteRequested io h | None \<Rightarrow> False))"

definition noteVectorReroute :: "c64_memory \<Rightarrow> c64_memory" where
  "noteVectorReroute M = M\<lparr>c_VectorReroutes := c_VectorReroutes M + 1\<rparr>"

definition attachHDMICollisionLatches :: "u32 option \<Rightarrow> u32 option \<Rightarrow> bool option \<Rightarrow> c64_memory \<Rightarrow> c64_memory" where
  "attachHDMICollisionLatches ss sb active M =
     M\<lparr>c_HDMISpriteSprite := ss, c_HDMISpriteBackground := sb, c_HDMIActive := active\<rparr>"

section \<open>The access logs\<close>

definition log_io :: "u32 \<Rightarrow> c64_memory \<Rightarrow> c64_memory" where
  "log_io e M = M\<lparr>c_IOLog := (c_IOLog M)(unat (c_IOLogPos M AND 63) := e), c_IOLogPos := c_IOLogPos M + 1\<rparr>"

definition host_stamp :: "'h c64_host \<Rightarrow> c64_memory \<Rightarrow> 'h \<Rightarrow> u32 \<times> 'h" where
  "host_stamp H M h =
     (case ch_C64 H of
        Some B \<Rightarrow> (let (now, h) = cb_hostCycles B h in (ucast now, h))
      | None \<Rightarrow> (ucast (ck_EmuCycles (t_clk (c_T M))), h))"

definition log_cia :: "'h c64_host \<Rightarrow> u32 \<Rightarrow> u32 \<Rightarrow> c64_memory \<Rightarrow> 'h \<Rightarrow> c64_memory \<times> 'h" where
  "log_cia H lastRead e M h =
     (let (stamp, h) = host_stamp H M h; i = unat (c_CIALogPos M AND 63)
      in (M\<lparr>c_CIALastRead := lastRead, c_CIALogCyc := (c_CIALogCyc M)(i := stamp),
            c_CIALog := (c_CIALog M)(i := e), c_CIALogPos := c_CIALogPos M + 1\<rparr>, h))"

definition access_entry :: "u16 \<Rightarrow> u8 \<Rightarrow> u32" where
  "access_entry a v = ucast a OR push_bit 16 (ucast v)"

section \<open>Reading\<close>

text \<open>A value read from the machine's I/O: the HDMI collision latches clear on reading, the tracked parts of
  CIA2 and of \<open>$D011\<close> come from the shadows.\<close>

definition read_chip :: "'h c64_host \<Rightarrow> u16 \<Rightarrow> c64_memory \<Rightarrow> 'h \<Rightarrow> u8 \<times> c64_memory \<times> 'h" where
  "read_chip H a M h =
     (let reg = ucast (a AND 0x3F) :: u8
      in if a \<ge> 0xD000 \<and> a < 0xD400 \<and> (reg = 0x1E \<or> reg = 0x1F) \<and> c_HDMIActive M = Some True then
           (if reg = 0x1E
            then (case c_HDMISpriteSprite M of Some x \<Rightarrow> ucast x | None \<Rightarrow> 0,
                  M\<lparr>c_HDMISpriteSprite := map_option (\<lambda>_. 0) (c_HDMISpriteSprite M)\<rparr>, h)
            else (case c_HDMISpriteBackground M of Some x \<Rightarrow> ucast x | None \<Rightarrow> 0,
                  M\<lparr>c_HDMISpriteBackground := map_option (\<lambda>_. 0) (c_HDMISpriteBackground M)\<rparr>, h))
         else if a = 0xDD02 \<and> cp_HaveDDRA (c_P M) then (cp_DDRA (c_P M), M, h)
         else (case ch_C64 H of Some B \<Rightarrow> (let (v, h) = cb_read B a h in (v, M, h)) | None \<Rightarrow> (0xFF, M, h)))"

definition merge_shadow :: "u16 \<Rightarrow> c64_memory \<Rightarrow> u8 \<Rightarrow> u8" where
  "merge_shadow a M v =
     (let v = (if a = 0xD011 then (v AND 0x80) OR (vd_RegShadow (c_D M) 0x11 AND 0x7F) else v)
      in if a = 0xDD00 \<and> cp_HaveDDRA (c_P M) \<and> cp_HavePortALatch (c_P M)
         then (v AND NOT (cp_DDRA (c_P M))) OR (cp_PortALatch (c_P M) AND cp_DDRA (c_P M)) else v)"

text \<open>The receive side of the serial port: a changed input, or one held low, is a live conversation.\<close>

definition note_port_read :: "u8 \<Rightarrow> c64_memory \<Rightarrow> c64_memory" where
  "note_port_read v M =
     (let p = c_P M;
          inputMask = 0xC0 AND (if cp_HaveDDRA p then NOT (cp_DDRA p) else 0xFF);
          inputChanged = (cp_HavePortARead p \<and> (cp_LastPortARead p XOR v) AND inputMask \<noteq> 0);
          inputAsserted = (v AND inputMask \<noteq> inputMask);
          M = on_P (\<lambda>p. p\<lparr>cp_LastPortARead := v, cp_HavePortARead := True\<rparr>) M
      in if inputChanged \<or> inputAsserted then on_T noteIECActivity M else M)"

definition log_read :: "'h c64_host \<Rightarrow> u16 \<Rightarrow> u8 \<Rightarrow> c64_memory \<Rightarrow> 'h \<Rightarrow> c64_memory \<times> 'h" where
  "log_read H a v M h =
     (let M = log_io (access_entry a v) M
      in if a AND 0xFE00 = 0xDC00 \<and> access_entry a v \<noteq> c_CIALastRead M
         then log_cia H (access_entry a v) (access_entry a v) M h else (M, h))"

definition read_effects :: "u16 \<Rightarrow> u8 \<Rightarrow> c64_memory \<Rightarrow> c64_memory" where
  "read_effects a v M =
     (let M = (if a = 0xDD00 \<or> a = 0xDD02 then on_T notePollHold M else M)
      in if a = 0xDD00 then note_port_read v M
         else if a = 0xDD0D then on_T (on_cia acknowledge_icr) M else M)"

definition read_io :: "'h c64_host \<Rightarrow> u16 \<Rightarrow> c64_memory \<Rightarrow> 'h \<Rightarrow> u8 \<times> c64_memory \<times> 'h" where
  "read_io H a M h =
     (let (claimed, h) = (case ch_IO H of Some io \<Rightarrow> io_read io a h | None \<Rightarrow> (None, h))
      in case (claimed, ch_IO H) of
           (Some v, Some io) \<Rightarrow> (v, if io_needsStretch io a False h then on_T (noteBusAccess a False) M else M, h)
         | _ \<Rightarrow>
             let M = on_T (noteBusAccess a False) (M\<lparr>c_IOReads := c_IOReads M + 1\<rparr>);
                 (v, M, h) = read_chip H a M h;
                 v = merge_shadow a M v;
                 (M, h) = log_read H a v M h
             in (v, read_effects a v M, h))"

definition bootmap_window :: "u16 \<Rightarrow> bool" where
  "bootmap_window a \<longleftrightarrow> (a \<ge> 0x8000 \<and> a \<le> 0xCFFF) \<or> a \<ge> 0xE000"

definition boot_rom :: "c64_memory \<Rightarrow> u32 \<Rightarrow> u8" where
  "boot_rom M i = (case c_BootmapROM M of Some rom \<Rightarrow> rom i | None \<Rightarrow> 0)"

definition c64_read8 :: "'h c64_host \<Rightarrow> u16 \<Rightarrow> c64_memory \<Rightarrow> 'h \<Rightarrow> u8 \<times> c64_memory \<times> 'h" where
  "c64_read8 H a M h =
     (if a \<le> 1 then (if a = 0 then c_Port00 M else c64PortRead (c_Port00 M) (c_Port01 M), M, h)
      else if dosExtensionMapsBank1 H a h then (shadow_read H a h, M, h)
      else if scpu128_host M a then
        let M = on_T (noteBusAccess a False) (M\<lparr>c_IOReads := c_IOReads M + 1\<rparr>)
        in (case ch_C64 H of Some B \<Rightarrow> (let (v, h) = cb_read B a h in (v, M, h)) | None \<Rightarrow> (0xFF, M, h))
      else if ch_BootmapActive H h \<and> c_SCPU128Mode M \<and> c_BootmapROMLength M \<ge> 0x20000 \<and> a \<ge> 0x1000 \<and> a \<le> 0x5FFF
      then (boot_rom M (0x10000 + ucast a), on_T (noteFastHalfCycles 6) M, h)
      else if ch_BootmapActive H h \<and> bootmap_window a then (boot_rom M (ucast a), on_T (noteFastHalfCycles 6) M, h)
      else case c64MapRead c64RegionTable a (c_BankMode M) of
             REG_RAM \<Rightarrow> (c_RAM M a, M, h)
           | REG_BASIC \<Rightarrow> (if ch_ROMShadow H \<noteq> None then shadow_read H a h else c_Basic M (a - 0xA000), M, h)
           | REG_KERNAL \<Rightarrow>
               (if ch_ROMShadow H \<noteq> None then shadow_read H (ucast (ch_KernalShadowBase H h + (ucast a - 0xE000))) h
                else c_Kernal M (a - 0xE000), M, h)
           | REG_CHARROM \<Rightarrow> (c_CharROM M (a - 0xD000), on_T (noteBusAccess a False) M, h)
           | REG_IO \<Rightarrow> read_io H a M h
           | _ \<Rightarrow> (ucast (drop_bit 8 a), M, h))"

definition readFast :: "'h c64_host \<Rightarrow> u16 \<Rightarrow> c64_memory \<Rightarrow> 'h \<Rightarrow> u8 \<times> c64_memory \<times> 'h" where
  "readFast H a M h =
     (if dosExtensionMapsBank1 H a h then (shadow_read H a h, M, h)
      else if a > 1 \<and> \<not> ch_BootmapActive H h \<and> c64MapRead c64RegionTable a (c_BankMode M) = REG_RAM
      then (c_RAM M a, M, h)
      else c64_read8 H a M h)"

section \<open>Writing\<close>

definition cia2EffectiveIECDrive :: "u8 \<Rightarrow> u8 \<Rightarrow> u8" where
  "cia2EffectiveIECDrive latch ddra = latch AND ddra AND 0x38"

definition iec_output_changes :: "u16 \<Rightarrow> u8 \<Rightarrow> cia2_port \<Rightarrow> bool" where
  "iec_output_changes a v p =
     (if a = 0xDD00 then
        if cp_HaveDDRA p \<and> cp_HavePortALatch p
        then cia2EffectiveIECDrive (cp_PortALatch p) (cp_DDRA p) \<noteq> cia2EffectiveIECDrive v (cp_DDRA p) else True
      else if a = 0xDD02 then
        if cp_HaveDDRA p \<and> cp_HavePortALatch p
        then cia2EffectiveIECDrive (cp_PortALatch p) (cp_DDRA p) \<noteq> cia2EffectiveIECDrive (cp_PortALatch p) v else True
      else False)"

definition vic_address :: "u16 \<Rightarrow> bool" where
  "vic_address a \<longleftrightarrow> a \<ge> 0xD000 \<and> a < 0xD200"

definition vic_reg :: "u16 \<Rightarrow> u8" where
  "vic_reg a = ucast (a AND 0x3F)"

definition moved_bank :: "bool \<Rightarrow> c64_memory \<Rightarrow> c64_memory" where
  "moved_bank changed M =
     (let M = follow_pointers M;
          M = on_L (logVICBank (mem_now M) (c_P M)) M
      in if changed then on_T noteIECActivity M else M)"

text \<open>What the write means to the tracked chips, before it goes out.\<close>

definition track_write :: "u16 \<Rightarrow> u8 \<Rightarrow> c64_memory \<Rightarrow> c64_memory" where
  "track_write a v M =
     (let changed = iec_output_changes a v (c_P M)
      in if a = 0xDD00 then moved_bank changed (on_P (\<lambda>p. p\<lparr>cp_PortALatch := v, cp_HavePortALatch := True\<rparr>) M)
         else if vic_address a \<and> vic_reg a = 0x18 then follow_pointers (on_D (\<lambda>d. d\<lparr>vd_LastD018 := v\<rparr>) M)
         else if a = 0xDD02 then moved_bank changed (on_P (\<lambda>p. p\<lparr>cp_DDRA := v, cp_HaveDDRA := True\<rparr>) M)
         else if a \<ge> 0xDD04 \<and> a \<le> 0xDD0F then on_T (cia2TimerWrite a v) M
         else M)"

definition track_vic :: "'h c64_host \<Rightarrow> u16 \<Rightarrow> u8 \<Rightarrow> c64_memory \<Rightarrow> 'h \<Rightarrow> c64_memory" where
  "track_vic H a v M h =
     (if vic_address a then
        let r = vic_reg a;
            M = on_L (anchor_compare (mem_now M) (line_cycles H h) (c_D M) r v) M;
            M = on_D (\<lambda>d. d\<lparr>vd_RegShadow := (vd_RegShadow d)(r := v)\<rparr>) M;
            M = on_L (note_compare r (c_D M)) M;
            M = on_L (appendVICLog (mem_now M) (ucast r) v) M
        in if r = 0x15 then rebuild_hot M else M
      else M)"

definition log_write :: "'h c64_host \<Rightarrow> u16 \<Rightarrow> u8 \<Rightarrow> c64_memory \<Rightarrow> 'h \<Rightarrow> c64_memory \<times> 'h" where
  "log_write H a v M h =
     (let e = access_entry a v OR push_bit 24 1; M = log_io e M
      in if a AND 0xFE00 = 0xDC00 then log_cia H 0xFFFFFFFF e M h else (M, h))"

text \<open>A write the interceptor claims never reaches the C64.\<close>

definition claimed_write :: "'h io_interceptor \<Rightarrow> u16 \<Rightarrow> u8 \<Rightarrow> c64_memory \<Rightarrow> 'h \<Rightarrow> c64_memory" where
  "claimed_write io a v M h =
     (let M = (if io_usesWriteBuffer io a True h then on_T noteMirrorWrite M
               else if io_needsStretch io a True h then on_T (noteBusAccess a True) M else M);
          M = (if a = 0xD07A \<or> a = 0xD07B then on_T cancelPollHold M else M)
      in log_io (access_entry a v OR push_bit 24 1 OR push_bit 25 1) M)"

definition write_io :: "'h c64_host \<Rightarrow> u16 \<Rightarrow> u8 \<Rightarrow> c64_memory \<Rightarrow> 'h \<Rightarrow> c64_memory \<times> 'h" where
  "write_io H a v M h =
     (let (claimed, M, h) = (case ch_IO H of Some io \<Rightarrow> io_write io a v M h | None \<Rightarrow> (False, M, h))
      in case (claimed, ch_IO H) of
           (True, Some io) \<Rightarrow> (claimed_write io a v M h, h)
         | _ \<Rightarrow>
             let M = track_write a v M;
                 M = track_vic H a v (M\<lparr>c_IOWrites := c_IOWrites M + 1\<rparr>) h;
                 (M, h) = log_write H a v M h;
                 M = (if (case ch_IO H of Some io \<Rightarrow> io_usesWriteBuffer io a True h | None \<Rightarrow> False)
                      then on_T noteMirrorWrite M else on_T (noteBusAccess a True) M)
             in (M, case ch_C64 H of Some B \<Rightarrow> cb_write B a v h | None \<Rightarrow> h))"

definition c64_write8 :: "'h c64_host \<Rightarrow> u16 \<Rightarrow> u8 \<Rightarrow> c64_memory \<Rightarrow> 'h \<Rightarrow> c64_memory \<times> 'h" where
  "c64_write8 H a v M h =
     (if a \<le> 1 then
        mirrored_store H a v (updateBankMode H h (if a = 0 then M\<lparr>c_Port00 := v\<rparr> else M\<lparr>c_Port01 := v\<rparr>)) h
      else if dosExtensionMapsBank1 H a h then (M, ch_writeROMShadow H a v h)
      else if scpu128_host M a then
        (on_T (noteBusAccess a True) (M\<lparr>c_IOWrites := c_IOWrites M + 1\<rparr>),
         case ch_C64 H of Some B \<Rightarrow> cb_write B a v h | None \<Rightarrow> h)
      else if c64WriteIsIO c64RegionTable a (c_BankMode M) then write_io H a v M h
      else ram_store H a v M h)"

definition writeFast :: "'h c64_host \<Rightarrow> u16 \<Rightarrow> u8 \<Rightarrow> c64_memory \<Rightarrow> 'h \<Rightarrow> c64_memory \<times> 'h" where
  "writeFast H a v M h =
     (if dosExtensionMapsBank1 H a h then (M, ch_writeROMShadow H a v h)
      else if a > 1 \<and> c64MapRead c64RegionTable a (c_BankMode M) \<noteq> REG_IO then ram_store H a v M h
      else c64_write8 H a v M h)"

section \<open>Interrupts and time\<close>

definition mem_tick :: "'h c64_host \<Rightarrow> u32 \<Rightarrow> c64_memory \<Rightarrow> 'h \<Rightarrow> (c64_memory \<times> 'h) option" where
  "mem_tick H n M h = map_option (\<lambda>(t, h). (M\<lparr>c_T := t\<rparr>, h)) (tickFast (ch_C64 H) n (c_T M) h)"

definition mem_sampleIRQNMI :: "'h c64_host \<Rightarrow> c64_memory \<Rightarrow> 'h \<Rightarrow> (bool \<times> bool) \<times> c64_memory \<times> 'h" where
  "mem_sampleIRQNMI H M h = (let (lines, t, h) = sampleIRQNMIFast (ch_C64 H) (c_T M) h in (lines, M\<lparr>c_T := t\<rparr>, h))"

definition irqAsserted :: "'h c64_host \<Rightarrow> c64_memory \<Rightarrow> 'h \<Rightarrow> bool \<times> c64_memory \<times> 'h" where
  "irqAsserted H M h = (let (t, h) = refreshInterruptsIfDue (ch_C64 H) (c_T M) h in (ci_CachedIRQ (t_cia t), M\<lparr>c_T := t\<rparr>, h))"

definition nmiAsserted :: "'h c64_host \<Rightarrow> c64_memory \<Rightarrow> 'h \<Rightarrow> bool \<times> c64_memory \<times> 'h" where
  "nmiAsserted H M h = (let (t, h) = refreshInterruptsIfDue (ch_C64 H) (c_T M) h in (ci_CachedNMI (t_cia t), M\<lparr>c_T := t\<rparr>, h))"

section \<open>Construction and reset\<close>

definition no_devices :: "'h c64_host" where
  "no_devices = \<lparr> ch_C64 = None, ch_Mirror = None, ch_IO = None, ch_FF00Hook = None, ch_BootmapActive = (\<lambda>_. False),
     ch_KernalShadowBase = (\<lambda>_. 0xE000), ch_ROMShadow = None, ch_writeROMShadow = (\<lambda>_ _ h. h) \<rparr>"

text \<open>The constructor leaves some members (the display tables' statistics aside: the VIC shadow, the pointer
  rows, the log) unset; \<open>junk\<close> is what they hold.\<close>

definition c64_memory_new :: "c64_memory \<Rightarrow> c64_memory" where
  "c64_memory_new junk =
     updateBankMode no_devices ()
       (junk\<lparr>c_T := timing_new,
         c_P := \<lparr> cp_PortALatch = 0, cp_LastPortARead = 0, cp_DDRA = 0, cp_HavePortALatch = False,
                  cp_HavePortARead = False, cp_HaveDDRA = False \<rparr>,
         c_D := (c_D junk)\<lparr>vd_RAMUnderIOAccessible := False, vd_PtrRowWrites := 0, vd_RelocEnable := True,
                  vd_PtrReloc := (\<lambda>_. 0xFF), vd_RelocInUse := (\<lambda>_. 0xFF), vd_RelocCount := 0, vd_RelocAllocs := 0,
                  vd_RelocDelivered := 0, vd_RelocExhausted := 0, vd_HotShapeBlocks := (\<lambda>_. 0), vd_HotShapeGeneration := 0\<rparr>,
         c_L := (c_L junk)\<lparr>vl_Head := 0, vl_Generation := 0, vl_Enabled := False, vl_RasterAnchor := 0,
                  vl_LastPreciseAnchor := 0x80000000, vl_RasterCompare := 0, vl_LastCompareWrite := 0x80000000,
                  vl_LastPreciseLine := 0xFFFF\<rparr>,
         c_RAM := (\<lambda>_. 0), c_Basic := (\<lambda>_. 0xFF), c_Kernal := (\<lambda>_. 0xFF), c_CharROM := (\<lambda>_. 0),
         c_Port00 := 0x2F, c_Port01 := 0x37, c_IOReads := 0, c_IOWrites := 0, c_RamWrites := 0,
         c_VectorRerouteEnable := True, c_VectorReroutes := 0, c_BootmapROM := None, c_BootmapROMLength := 0, c_SCPU128Mode := False,
         c_HasBasic := False, c_HasKernal := False, c_HasChar := False, c_IOLog := (\<lambda>_. 0), c_IOLogPos := 0,
         c_CIALog := (\<lambda>_. 0), c_CIALogCyc := (\<lambda>_. 0), c_CIALastRead := 0xFFFFFFFF, c_CIALogPos := 0,
         c_HDMISpriteSprite := None, c_HDMISpriteBackground := None, c_HDMIActive := None\<rparr>)"

text \<open>In the order of the source: the pointer row and the hot shapes are rebuilt before the CIA2 port state,
  the VIC shadow and the RAM are cleared.\<close>

definition mem_reset :: "'h c64_host \<Rightarrow> c64_memory \<Rightarrow> 'h \<Rightarrow> c64_memory \<times> 'h" where
  "mem_reset H M h =
     (let M = M\<lparr>c_Port00 := 0x2F, c_Port01 := 0x37, c_IOReads := 0, c_IOWrites := 0, c_RamWrites := 0\<rparr>;
          M = on_P (\<lambda>p. p\<lparr>cp_PortALatch := 0, cp_LastPortARead := 0\<rparr>) M;
          M = on_D (\<lambda>d. d\<lparr>vd_LastD018 := 0x14, vd_SpritePtrBase := NO_BASE, vd_PreviousSpritePtrBase := NO_BASE,
                          vd_PtrReloc := (\<lambda>_. 0xFF), vd_RelocInUse := (\<lambda>_. 0xFF), vd_RelocCount := 0\<rparr>) M;
          M = follow_pointers M;
          M = on_D (\<lambda>d. d\<lparr>vd_RegShadow := (\<lambda>_. 0)\<rparr>) M;
          M = on_P (\<lambda>p. p\<lparr>cp_DDRA := 0, cp_HavePortALatch := False, cp_HavePortARead := False, cp_HaveDDRA := False\<rparr>) M;
          M = M\<lparr>c_IOLogPos := 0, c_CIALogPos := 0, c_CIALastRead := 0xFFFFFFFF\<rparr>;
          M = on_L (\<lambda>l. l\<lparr>vl_RasterCompare := 0, vl_LastCompareWrite := 0x80000000, vl_LastPreciseAnchor := 0x80000000,
                          vl_LastPreciseLine := 0xFFFF, vl_RasterAnchor := 0, vl_Head := 0\<rparr>) M;
          M = M\<lparr>c_HDMISpriteSprite := map_option (\<lambda>_. 0) (c_HDMISpriteSprite M),
                c_HDMISpriteBackground := map_option (\<lambda>_. 0) (c_HDMISpriteBackground M),
                c_IOLog := (\<lambda>_. 0), c_CIALog := (\<lambda>_. 0), c_CIALogCyc := (\<lambda>_. 0)\<rparr>;
          (t, h) = resyncPacing (ch_C64 H) (timing_reset (c_T M)) h;
          M = updateBankMode H h (M\<lparr>c_T := t, c_RAM := (\<lambda>_. 0)\<rparr>)
      in (on_L (\<lambda>l. l\<lparr>vl_Generation := vl_Generation l + 1\<rparr>) M, h))"

end
