(* ===== verification/C64MemoryDisplay.thy ===== *)
theory C64MemoryDisplay
  imports C64Memory
begin

text \<open>
  The display side of bank 0 is exact at every moment. \<open>display_inv\<close> relates the fields the write mirror and
  the renderer rely on (the sprite-pointer row, the hot shape blocks, the relocation tables) to the state they
  are computed from; every operation of \<open>C64Memory\<close> keeps it as long as the attached hooks do
  (\<open>hooks_keep\<close>), and \<open>in_service\<close> is the step relation it is an invariant of.
\<close>

unbundle bit_operations_syntax

section \<open>The hot shape blocks\<close>

definition hot_bit :: "(nat \<Rightarrow> u64) \<Rightarrow> u32 \<Rightarrow> bool" where
  "hot_bit blocks b \<longleftrightarrow> bit (blocks (unat (drop_bit 6 b))) (unat (b AND 63))"

lemma block_index_eq:
  "drop_bit 6 b = drop_bit 6 c \<Longrightarrow> b AND 63 = c AND 63 \<Longrightarrow> b = (c :: u32)"
proof -
  assume "drop_bit 6 b = drop_bit 6 c" "b AND 63 = c AND 63"
  moreover have "x AND 63 = take_bit 6 x" for x :: u32 by (simp add: take_bit_eq_mask mask_eq_exp_minus_1)
  ultimately show "b = c" by (metis bits_ident)
qed

lemma index_small: "unat (b AND 63 :: u32) < 64"
proof -
  have "b AND 63 \<le> 63" by (rule word_and_le1)
  then show ?thesis by (simp add: word_le_nat_alt)
qed

lemma hot_mark:
  "hot_bit (mark_sprite ram d n blocks) b \<longleftrightarrow>
     hot_bit blocks b \<or> (bit (vd_RegShadow d 0x15) n \<and> shape_block ram d (of_nat n) = b)"
  using index_small [of b] index_small [of "shape_block ram d (of_nat n)"] block_index_eq [of "shape_block ram d (of_nat n)" b]
  by (auto simp: hot_bit_def mark_sprite_def Let_def bit_simps word_unat_eq_iff [symmetric])

lemma hot_fold:
  "hot_bit (fold (mark_sprite ram d) ns blocks) b \<longleftrightarrow>
     hot_bit blocks b \<or> (\<exists>n \<in> set ns. bit (vd_RegShadow d 0x15) n \<and> shape_block ram d (of_nat n) = b)"
  by (induction ns arbitrary: blocks) (auto simp: hot_mark)

lemma hot_blocks_exact:
  "hot_bit (vd_HotShapeBlocks (updateHotShapeBlocks ram d)) b \<longleftrightarrow>
     vd_SpritePtrBase d \<noteq> NO_BASE \<and> (\<exists>n < 8. bit (vd_RegShadow d 0x15) n \<and> shape_block ram d (of_nat n) = b)"
proof -
  let ?d = "d\<lparr>vd_HotShapeGeneration := vd_HotShapeGeneration d + 1, vd_HotShapeBlocks := (\<lambda>_. 0)\<rparr>"
  have "shape_block ram ?d n = shape_block ram d n" for n by (simp add: shape_block_def Let_def)
  then show ?thesis
    by (auto simp: updateHotShapeBlocks_def Let_def hot_fold) (auto simp: hot_bit_def)
qed

section \<open>The invariant of the display side\<close>

definition pointer_row :: "cia2_port \<Rightarrow> vicd \<Rightarrow> u32" where
  "pointer_row p d =
     (let base = activeVICScreenBase p d + 0x3F8
      in if \<not> vd_RAMUnderIOAccessible d \<and> base AND 0xF000 = 0xD000 then NO_BASE else base)"

definition hot_exact :: "(u16 \<Rightarrow> u8) \<Rightarrow> vicd \<Rightarrow> bool" where
  "hot_exact ram d \<longleftrightarrow>
     (\<forall>b. hot_bit (vd_HotShapeBlocks d) b \<longleftrightarrow>
        vd_SpritePtrBase d \<noteq> NO_BASE \<and> (\<exists>n < 8. bit (vd_RegShadow d 0x15) n \<and> shape_block ram d (of_nat n) = b))"

definition reloc_ok :: "vicd \<Rightarrow> bool" where
  "reloc_ok d \<longleftrightarrow>
     (\<forall>v. 0x40 \<le> v \<and> v < 0x80 \<and> vd_PtrReloc d (unat (v - 0x40)) \<noteq> 0xFF \<longrightarrow>
        unat (vd_PtrReloc d (unat (v - 0x40))) < 0x30
        \<and> vd_RelocInUse d (unat (vd_PtrReloc d (unat (v - 0x40)))) = v)
     \<and> (\<forall>r < 0x30. vd_RelocInUse d r \<noteq> 0xFF \<longrightarrow>
        0x40 \<le> vd_RelocInUse d r \<and> vd_RelocInUse d r < 0x80
        \<and> vd_PtrReloc d (unat (vd_RelocInUse d r - 0x40)) = of_nat r)
     \<and> unat (vd_RelocCount d) = card {r. r < 0x30 \<and> vd_RelocInUse d r \<noteq> 0xFF}"

definition display_inv :: "c64_memory \<Rightarrow> bool" where
  "display_inv M \<longleftrightarrow>
     vd_SpritePtrBase (c_D M) = pointer_row (c_P M) (c_D M) \<and> hot_exact (c_RAM M) (c_D M) \<and> reloc_ok (c_D M)"

lemma updateSpritePtrBase_row: "vd_SpritePtrBase (updateSpritePtrBase p d) = pointer_row p d"
  by (simp add: updateSpritePtrBase_def pointer_row_def activeVICScreenBase_def activeVICBankBase_def Let_def)

lemma updateSpritePtrBase_frame [simp]:
  "vd_RegShadow (updateSpritePtrBase p d) = vd_RegShadow d" "vd_LastD018 (updateSpritePtrBase p d) = vd_LastD018 d"
  "vd_RAMUnderIOAccessible (updateSpritePtrBase p d) = vd_RAMUnderIOAccessible d"
  "vd_PtrReloc (updateSpritePtrBase p d) = vd_PtrReloc d" "vd_RelocInUse (updateSpritePtrBase p d) = vd_RelocInUse d"
  "vd_RelocCount (updateSpritePtrBase p d) = vd_RelocCount d"
  by (simp_all add: updateSpritePtrBase_def Let_def)

lemma updateHot_frame [simp]:
  "vd_SpritePtrBase (updateHotShapeBlocks ram d) = vd_SpritePtrBase d" "vd_RegShadow (updateHotShapeBlocks ram d) = vd_RegShadow d"
  "vd_LastD018 (updateHotShapeBlocks ram d) = vd_LastD018 d"
  "vd_RAMUnderIOAccessible (updateHotShapeBlocks ram d) = vd_RAMUnderIOAccessible d"
  "vd_PtrReloc (updateHotShapeBlocks ram d) = vd_PtrReloc d" "vd_RelocInUse (updateHotShapeBlocks ram d) = vd_RelocInUse d"
  "vd_RelocCount (updateHotShapeBlocks ram d) = vd_RelocCount d" "vd_RelocEnable (updateHotShapeBlocks ram d) = vd_RelocEnable d"
  by (simp_all add: updateHotShapeBlocks_def Let_def)

lemma updateHot_exact [simp]: "hot_exact ram (updateHotShapeBlocks ram d)"
proof -
  have "shape_block ram (updateHotShapeBlocks ram d) n = shape_block ram d n" for n
    by (simp add: shape_block_def Let_def)
  then show ?thesis by (simp add: hot_exact_def hot_blocks_exact)
qed

lemma reloc_ok_cong:
  "vd_PtrReloc d' = vd_PtrReloc d \<Longrightarrow> vd_RelocInUse d' = vd_RelocInUse d \<Longrightarrow> vd_RelocCount d' = vd_RelocCount d
    \<Longrightarrow> reloc_ok d' = reloc_ok d"
  by (simp add: reloc_ok_def)

lemma pointer_row_cong:
  "vd_LastD018 d' = vd_LastD018 d \<Longrightarrow> vd_RAMUnderIOAccessible d' = vd_RAMUnderIOAccessible d
    \<Longrightarrow> pointer_row p d' = pointer_row p d"
  by (simp add: pointer_row_def activeVICScreenBase_def)

lemma on_parts [simp]:
  "c_P (on_T f M) = c_P M" "c_D (on_T f M) = c_D M" "c_RAM (on_T f M) = c_RAM M" "c_L (on_T f M) = c_L M"
  "c_P (on_L l M) = c_P M" "c_D (on_L l M) = c_D M" "c_RAM (on_L l M) = c_RAM M" "c_T (on_L l M) = c_T M"
  "c_P (on_P g M) = g (c_P M)" "c_D (on_P g M) = c_D M" "c_RAM (on_P g M) = c_RAM M" "c_T (on_P g M) = c_T M"
  "c_P (on_D k M) = c_P M" "c_D (on_D k M) = k (c_D M)" "c_RAM (on_D k M) = c_RAM M" "c_T (on_D k M) = c_T M"
  "c_T (on_T f M) = f (c_T M)" "c_L (on_P g M) = c_L M" "c_L (on_D k M) = c_L M" "c_L (on_L l M) = l (c_L M)"
  "c_SCPU128Mode (on_T f M) = c_SCPU128Mode M"
  by (simp_all add: on_T_def on_L_def on_P_def on_D_def)

named_theorems display_intros

lemma display_frame:
  "c_P M' = c_P M \<Longrightarrow> c_D M' = c_D M \<Longrightarrow> c_RAM M' = c_RAM M \<Longrightarrow> display_inv M' = display_inv M"
  by (simp add: display_inv_def)

lemma display_on [simp]:
  "display_inv (on_T f M) = display_inv M" "display_inv (on_L l M) = display_inv M"
  by (rule display_frame; simp)+

lemma follow_inv: "reloc_ok (c_D M) \<Longrightarrow> display_inv (follow_pointers M)"
proof -
  define d where "d = updateHotShapeBlocks (c_RAM M) (updateSpritePtrBase (c_P M) (c_D M))"
  have "pointer_row (c_P M) d = pointer_row (c_P M) (c_D M)" by (rule pointer_row_cong) (simp_all add: d_def)
  moreover have "reloc_ok d = reloc_ok (c_D M)" by (rule reloc_ok_cong) (simp_all add: d_def)
  moreover have "vd_SpritePtrBase d = pointer_row (c_P M) (c_D M)" "hot_exact (c_RAM M) d"
    by (simp_all add: d_def updateSpritePtrBase_row)
  moreover assume "reloc_ok (c_D M)"
  ultimately show ?thesis by (simp add: display_inv_def follow_pointers_def d_def)
qed

text \<open>The row of eight pointers.\<close>

lemma unat_and_not7: "unat (x AND NOT 7 :: u32) = unat x div 8 * 8"
proof -
  have "x AND NOT 7 = push_bit 3 (drop_bit 3 x)"
  proof (rule bit_word_eqI)
    fix n show "bit (x AND NOT 7) n = bit (push_bit 3 (drop_bit 3 x)) n"
    proof (cases "n < 3")
      case True
      then have "n = 0 \<or> n = 1 \<or> n = 2" by auto
      then show ?thesis by (auto simp: bit_simps)
    next
      case False
      have "\<not> bit (7 :: u32) n" by (rule small_not_bit [where k = 3]) (use False in simp_all)
      then show ?thesis using False by (auto simp: bit_simps dest: bit_imp_le_length)
    qed
  qed
  moreover have "unat (push_bit 3 (drop_bit 3 x) :: u32) = unat x div 8 * 8"
  proof -
    have "unat x div 8 * 8 \<le> unat x" by simp
    then have "unat x div 8 * 8 < 2 ^ 32" using unsigned_less [of x, where 'a = nat] by simp
    moreover have "push_bit 3 (drop_bit 3 x) = (x div 8) * 8"
      by (simp add: push_bit_eq_mult drop_bit_eq_div)
    ultimately show ?thesis by (simp add: unat_word_ariths unat_div_distrib)
  qed
  ultimately show ?thesis by simp
qed

lemma row_shape:
  assumes "pointer_row p d \<noteq> NO_BASE"
  shows "unat (pointer_row p d) < 2 ^ 16" "unat (pointer_row p d) mod 8 = 0" "0x3F8 \<le> unat (pointer_row p d)"
proof -
  define bank where "bank = (if cp_HavePortALatch p then NOT (cp_PortALatch p) AND (if cp_HaveDDRA p then cp_DDRA p else 3) AND 3 else 0)"
  have b: "unat bank \<le> 3"
  proof -
    have "bank AND 3 = bank" by (simp add: bank_def and.assoc)
    then have "bank \<le> 3" by (metis word_and_le1)
    then show ?thesis by (simp add: word_le_nat_alt)
  qed
  define m where "m = drop_bit 4 (vd_LastD018 d)"
  have m: "unat m \<le> 15" using unsigned_less [of "vd_LastD018 d", where 'a = nat] by (simp add: m_def unat_drop)
  have u: "unat (ucast x :: u32) = unat x" for x :: u8
    using unsigned_less [of x, where 'a = nat] by (simp add: unsigned_ucast_eq take_bit_nat_eq_self_iff)
  have "pointer_row p d = push_bit 14 (ucast bank) + push_bit 10 (ucast m) + 0x3F8"
    using assms by (auto simp: pointer_row_def activeVICScreenBase_def activeVICBankBase_def bank_def m_def Let_def split: if_splits)
  then have "unat (pointer_row p d) = unat bank * 16384 + unat m * 1024 + 1016"
    using b m by (simp add: push_bit_eq_mult unat_word_ariths u)
  then show "unat (pointer_row p d) < 2 ^ 16" "unat (pointer_row p d) mod 8 = 0" "0x3F8 \<le> unat (pointer_row p d)"
    using b m by (simp_all add: mod_eq_0_iff_dvd)
qed

lemma outside_row:
  assumes "row = pointer_row p d" "row \<noteq> NO_BASE" "ucast (a :: u16) AND NOT 7 \<noteq> row" "n < 8"
  shows "(ucast (row + of_nat n) :: u16) \<noteq> a"
proof
  assume e: "ucast (row + of_nat n) = a"
  note R = row_shape [OF assms(2) [unfolded assms(1)], folded assms(1)]
  have r8: "unat row + n < 2 ^ 16"
  proof -
    obtain k where "unat row = 8 * k" using R(2) by (metis dvd_def mod_0_imp_dvd)
    then show ?thesis using R(1) assms(4) by simp
  qed
  have un: "unat (row + of_nat n) = unat row + n"
    using r8 assms(4) by (simp add: unat_word_ariths unat_of_nat)
  then have "unat a = unat row + n" using e r8 by (auto simp: unsigned_ucast_eq take_bit_nat_eq_self)
  then have "unat (ucast a :: u32) = unat row + n"
    using r8 by (simp add: unsigned_ucast_eq take_bit_nat_eq_self)
  then have "unat (ucast a AND NOT 7 :: u32) = unat row"
    unfolding unat_and_not7 using R(2) assms(4) by (auto elim: dvdE)
  then show False using assms(3) by (metis unsigned_word_eqI)
qed

lemma shape_block_other:
  assumes "vd_SpritePtrBase d = pointer_row p d" "vd_SpritePtrBase d \<noteq> NO_BASE" "ucast a AND NOT 7 \<noteq> vd_SpritePtrBase d" "n < 8"
  shows "shape_block (ram(a := v)) d (of_nat n) = shape_block ram d (of_nat n)"
  using outside_row [of "vd_SpritePtrBase d" p d a n] assms by (simp add: shape_block_def Let_def)

lemma store_outside_row:
  assumes "display_inv M" "ucast a AND NOT 7 \<noteq> vd_SpritePtrBase (c_D M)"
    "c_P M' = c_P M" "c_D M' = c_D M" "c_RAM M' = (c_RAM M)(a := v)"
  shows "display_inv M'"
proof -
  have "hot_exact ((c_RAM M)(a := v)) (c_D M)"
    using assms shape_block_other [of "c_D M" "c_P M" a _ "c_RAM M" v] by (auto simp: hot_exact_def display_inv_def)
  then show ?thesis using assms by (simp add: display_inv_def)
qed

section \<open>The relocation tables\<close>

lemma pointer_slot_inj:
  "0x40 \<le> v \<Longrightarrow> 0x40 \<le> w \<Longrightarrow> unat (v - 0x40 :: u8) = unat (w - 0x40) \<Longrightarrow> v = w"
  by (metis unsigned_word_eqI diff_add_cancel)

lemma reloc_index:
  assumes "r < 0x30" shows "unat (of_nat r :: u8) = r" "(of_nat r :: u8) \<noteq> 0xFF"
proof -
  show u: "unat (of_nat r :: u8) = r" using assms by (simp add: unat_of_nat)
  show "(of_nat r :: u8) \<noteq> 0xFF"
  proof
    assume "(of_nat r :: u8) = 0xFF"
    then have "r = 255" using u by simp
    then show False using assms by simp
  qed
qed

lemma reloc_claim_ok:
  assumes ok: "reloc_ok d" and v: "0x40 \<le> v" "v < 0x80" and free: "vd_PtrReloc d (unat (v - 0x40)) = 0xFF" "vd_RelocInUse d r = 0xFF" "r < 0x30"
  shows "reloc_ok (reloc_claim v r d)"
proof -
  let ?d = "reloc_claim v r d"
  have ptr: "vd_PtrReloc ?d = (vd_PtrReloc d)(unat (v - 0x40) := of_nat r)" "vd_RelocInUse ?d = (vd_RelocInUse d)(r := v)"
    "vd_RelocCount ?d = vd_RelocCount d + 1"
    by (simp_all add: reloc_claim_def)
  have vff: "v \<noteq> 0xFF" using v(2) by auto
  note ri = reloc_index [OF free(3)]
  have one: "unat (vd_PtrReloc ?d (unat (w - 0x40))) < 0x30 \<and> vd_RelocInUse ?d (unat (vd_PtrReloc ?d (unat (w - 0x40)))) = w"
    if w: "0x40 \<le> w" "w < 0x80" "vd_PtrReloc ?d (unat (w - 0x40)) \<noteq> 0xFF" for w
  proof (cases "w = v")
    case True then show ?thesis using ri free(3) by (simp add: ptr)
  next
    case False
    then have s: "unat (w - 0x40) \<noteq> unat (v - 0x40)" using pointer_slot_inj v(1) w(1) by blast
    then have p: "vd_PtrReloc ?d (unat (w - 0x40)) = vd_PtrReloc d (unat (w - 0x40))" by (simp add: ptr)
    have o: "unat (vd_PtrReloc d (unat (w - 0x40))) < 0x30" "vd_RelocInUse d (unat (vd_PtrReloc d (unat (w - 0x40)))) = w"
      using ok w p by (auto simp: reloc_ok_def)
    have "w \<noteq> 0xFF" using w(2) by auto
    then have "unat (vd_PtrReloc d (unat (w - 0x40))) \<noteq> r" using o(2) free(2) by metis
    then show ?thesis using o unfolding p by (simp add: ptr)
  qed
  have two: "0x40 \<le> vd_RelocInUse ?d q \<and> vd_RelocInUse ?d q < 0x80 \<and> vd_PtrReloc ?d (unat (vd_RelocInUse ?d q - 0x40)) = of_nat q"
    if q: "q < 0x30" "vd_RelocInUse ?d q \<noteq> 0xFF" for q
  proof (cases "q = r")
    case True then show ?thesis using v by (simp add: ptr)
  next
    case False
    then have u: "vd_RelocInUse ?d q = vd_RelocInUse d q" by (simp add: ptr)
    have o: "0x40 \<le> vd_RelocInUse d q" "vd_RelocInUse d q < 0x80" "vd_PtrReloc d (unat (vd_RelocInUse d q - 0x40)) = of_nat q"
      using ok q unfolding u by (auto simp: reloc_ok_def)
    have "vd_RelocInUse d q \<noteq> v" using o(3) free(1) reloc_index(2) [OF q(1)] by metis
    then have "unat (vd_RelocInUse d q - 0x40) \<noteq> unat (v - 0x40)" using pointer_slot_inj o(1) v(1) by blast
    then show ?thesis using o unfolding u by (simp add: ptr)
  qed
  let ?S = "{r. r < 0x30 \<and> vd_RelocInUse d r \<noteq> 0xFF}"
  have S: "{q. q < 0x30 \<and> vd_RelocInUse ?d q \<noteq> 0xFF} = insert r ?S" using free(3) vff by (auto simp: ptr)
  have fin: "finite ?S" by simp
  have c: "card (insert r ?S) = card ?S + 1" using fin free(2) by simp
  have "card ?S \<le> card {..<0x30 :: nat}" by (rule card_mono) auto
  then have le: "unat (vd_RelocCount d) + 1 < 2 ^ 8" using ok by (simp add: reloc_ok_def)
  then have "unat (vd_RelocCount d + 1) = unat (vd_RelocCount d) + 1"
    by (subst unat_add_lem [THEN iffD1]) simp_all
  then have "unat (vd_RelocCount ?d) = card {q. q < 0x30 \<and> vd_RelocInUse ?d q \<noteq> 0xFF}"
    unfolding S c using ok by (simp add: ptr reloc_ok_def)
  then show ?thesis using one two unfolding reloc_ok_def by blast
qed

lemma find_range: "find P [0..<n] = Some r \<Longrightarrow> r < n \<and> P r"
  by (auto simp: find_Some_iff)

lemma relocPointerValue_frame:
  assumes "relocPointerValue v d = (x, c, d')"
  shows "vd_SpritePtrBase d' = vd_SpritePtrBase d" "vd_LastD018 d' = vd_LastD018 d"
    "vd_RAMUnderIOAccessible d' = vd_RAMUnderIOAccessible d" "vd_RegShadow d' = vd_RegShadow d"
    "reloc_ok d \<Longrightarrow> reloc_ok d'"
proof -
  show "vd_SpritePtrBase d' = vd_SpritePtrBase d" "vd_LastD018 d' = vd_LastD018 d"
    "vd_RAMUnderIOAccessible d' = vd_RAMUnderIOAccessible d" "vd_RegShadow d' = vd_RegShadow d"
    using assms by (auto simp: relocPointerValue_def reloc_claim_def split: if_splits option.splits)
  assume ok: "reloc_ok d"
  show "reloc_ok d'"
  proof (cases "reloc_applies d v \<and> vd_PtrReloc d (unat (v - 0x40)) = 0xFF \<and> find (reloc_usable d) [0..<0x30] \<noteq> None")
    case False
    then have "vd_PtrReloc d' = vd_PtrReloc d \<and> vd_RelocInUse d' = vd_RelocInUse d \<and> vd_RelocCount d' = vd_RelocCount d"
      using assms by (auto simp: relocPointerValue_def split: if_splits option.splits)
    then show ?thesis using ok reloc_ok_cong by metis
  next
    case True
    then obtain r where r: "find (reloc_usable d) [0..<0x30] = Some r" by auto
    have u: "r < 0x30" "reloc_usable d r" using find_range [OF r] by simp_all
    have v: "0x40 \<le> v" "v < 0x80" using True by (auto simp: reloc_applies_def)
    have "reloc_ok (reloc_claim v r d)"
      using reloc_claim_ok [OF ok v _ _ u(1)] True u(2) by (simp add: reloc_usable_def Let_def)
    moreover have "d' = (reloc_claim v r d)\<lparr>vd_RelocDelivered := vd_RelocDelivered (reloc_claim v r d) + 1\<rparr>"
      using assms True r by (auto simp: relocPointerValue_def reloc_claim_def)
    ultimately show ?thesis using reloc_ok_cong [of d' "reloc_claim v r d"] by simp
  qed
qed

section \<open>Every operation keeps the display side exact\<close>

definition hooks_keep :: "'h c64_host \<Rightarrow> bool" where
  "hooks_keep H \<longleftrightarrow>
     (\<forall>hook M h. ch_FF00Hook H = Some hook \<longrightarrow> display_inv M \<longrightarrow> display_inv (fst (hook (M, h))))
     \<and> (\<forall>io a v M h. ch_IO H = Some io \<longrightarrow> display_inv M \<longrightarrow> display_inv (fst (snd (io_write io a v M h))))"

lemma rebuild_inv:
  assumes "vd_SpritePtrBase (c_D M) = pointer_row (c_P M) (c_D M)" "reloc_ok (c_D M)"
  shows "display_inv (rebuild_hot M)"
proof -
  define d where "d = updateHotShapeBlocks (c_RAM M) (c_D M)"
  have "pointer_row (c_P M) d = pointer_row (c_P M) (c_D M)" by (rule pointer_row_cong) (simp_all add: d_def)
  moreover have "reloc_ok d = reloc_ok (c_D M)" by (rule reloc_ok_cong) (simp_all add: d_def)
  moreover have "vd_SpritePtrBase d = vd_SpritePtrBase (c_D M)" "hot_exact (c_RAM M) d" by (simp_all add: d_def)
  ultimately show ?thesis using assms by (simp add: display_inv_def rebuild_hot_def d_def)
qed

lemma sprite_write_inv:
  assumes "vd_SpritePtrBase (c_D M) = pointer_row (c_P M) (c_D M)" "reloc_ok (c_D M)" "old = v \<Longrightarrow> display_inv M"
  shows "display_inv (fst (noteSpritePointerWrite H a old v M h))"
proof -
  define M1 where "M1 = on_D (\<lambda>d. d\<lparr>vd_PtrRowWrites := vd_PtrRowWrites d + 1\<rparr>) M"
  have row: "pointer_row p (d\<lparr>vd_PtrRowWrites := x\<rparr>) = pointer_row p d" "reloc_ok (d\<lparr>vd_PtrRowWrites := x\<rparr>) = reloc_ok d"
    "hot_exact ram (d\<lparr>vd_PtrRowWrites := x\<rparr>) = hot_exact ram d" for p d x ram
  proof -
    have "shape_block ram (d\<lparr>vd_PtrRowWrites := x\<rparr>) n = shape_block ram d n" for n
      by (simp add: shape_block_def Let_def)
    then show "hot_exact ram (d\<lparr>vd_PtrRowWrites := x\<rparr>) = hot_exact ram d" by (simp add: hot_exact_def)
  qed (simp_all add: pointer_row_def activeVICScreenBase_def reloc_ok_def)
  have M1: "vd_SpritePtrBase (c_D M1) = pointer_row (c_P M1) (c_D M1)" "reloc_ok (c_D M1)" "old = v \<Longrightarrow> display_inv M1"
    using assms by (simp_all add: M1_def row display_inv_def)
  show ?thesis
  proof (cases "old = v")
    case True
    then show ?thesis using M1(3) by (simp add: noteSpritePointerWrite_def M1_def Let_def)
  next
    case False
    obtain x c d where rp: "relocPointerValue v (c_D M1) = (x, c, d)" by (metis prod_cases3)
    note R = relocPointerValue_frame [OF rp]
    have "pointer_row (c_P M1) d = pointer_row (c_P M1) (c_D M1)" by (rule pointer_row_cong) (simp_all add: R)
    then have "display_inv (rebuild_hot (M1\<lparr>c_D := d\<rparr>))" using M1 R by (intro rebuild_inv) simp_all
    moreover have "display_inv (rebuild_hot M1)" by (rule rebuild_inv [OF M1(1,2)])
    ultimately show ?thesis
      using False by (simp add: noteSpritePointerWrite_def M1_def [symmetric] Let_def rp split: option.split)
  qed
qed

lemma mirrored_store_parts:
  "c_P (fst (mirrored_store H a v M h)) = c_P M" "c_D (fst (mirrored_store H a v M h)) = c_D M"
  "c_RAM (fst (mirrored_store H a v M h)) = (c_RAM M)(a := v)"
  by (simp_all add: mirrored_store_def Let_def split: option.split prod.split)

lemma ram_store_inv [display_intros]:
  assumes "display_inv M" "hooks_keep H"
  shows "display_inv (fst (ram_store H a v M h))"
proof -
  obtain M1 h1 where s: "mirrored_store H a v (M\<lparr>c_RamWrites := c_RamWrites M + 1\<rparr>) h = (M1, h1)"
    by (cases "mirrored_store H a v (M\<lparr>c_RamWrites := c_RamWrites M + 1\<rparr>) h") auto
  have M1: "c_P M1 = c_P M" "c_D M1 = c_D M" "c_RAM M1 = (c_RAM M)(a := v)"
    using mirrored_store_parts [of H a v "M\<lparr>c_RamWrites := c_RamWrites M + 1\<rparr>" h] by (simp_all add: s)
  obtain M2 h2 where t: "(if ucast a AND NOT 7 = vd_SpritePtrBase (c_D M1) then noteSpritePointerWrite H a (c_RAM M a) v M1 h1 else (M1, h1)) = (M2, h2)"
    by (metis prod.exhaust)
  have "display_inv M2"
  proof (cases "ucast a AND NOT 7 = vd_SpritePtrBase (c_D M)")
    case True
    have "display_inv M1" if "c_RAM M a = v"
      using assms(1) display_frame [of M1 M] M1 that by (simp add: fun_upd_idem)
    moreover have "vd_SpritePtrBase (c_D M1) = pointer_row (c_P M1) (c_D M1)" "reloc_ok (c_D M1)"
      using assms(1) by (simp_all add: M1 display_inv_def)
    ultimately have "display_inv (fst (noteSpritePointerWrite H a (c_RAM M a) v M1 h1))" by (intro sprite_write_inv)
    then show ?thesis using t True by (simp add: M1)
  next
    case False
    then have "display_inv M1" using store_outside_row [OF assms(1)] M1 by blast
    then show ?thesis using t False by (simp add: M1)
  qed
  moreover have "ram_store H a v M h =
      (case ch_FF00Hook H of Some hook \<Rightarrow> if a = 0xFF00 then hook (M2, h2) else (M2, h2) | None \<Rightarrow> (M2, h2))"
    unfolding ram_store_def noteRAMWriteSideEffects_def Let_def s prod.case t ..
  ultimately show ?thesis using assms(2) by (auto simp: hooks_keep_def split: option.split)
qed

lemma display_update [simp]:
  "display_inv (M\<lparr>c_IOReads := x\<rparr>) = display_inv M" "display_inv (M\<lparr>c_IOWrites := x\<rparr>) = display_inv M"
  "display_inv (M\<lparr>c_BankMode := m\<rparr>) = display_inv M" "display_inv (M\<lparr>c_Port00 := v\<rparr>) = display_inv M"
  "display_inv (M\<lparr>c_Port01 := v\<rparr>) = display_inv M" "display_inv (M\<lparr>c_T := t\<rparr>) = display_inv M"
  "display_inv (updateBankMode H h M) = display_inv M" "display_inv (log_io e M) = display_inv M"
  "display_inv (read_effects a v M) = display_inv M"
proof -
  have p: "activeVICBankBase (p\<lparr>cp_LastPortARead := x, cp_HavePortARead := y\<rparr>) = activeVICBankBase p" for p x y
    by (simp add: activeVICBankBase_def)
  have n: "display_inv (note_port_read v M) = display_inv M"
    by (simp add: note_port_read_def Let_def display_inv_def pointer_row_def activeVICScreenBase_def p)
  show "display_inv (read_effects a v M) = display_inv M"
    using n by (simp add: read_effects_def Let_def) (simp add: note_port_read_def Let_def display_inv_def pointer_row_def activeVICScreenBase_def p)
qed (simp_all add: display_inv_def updateBankMode_def log_io_def Let_def)

lemma log_cia_inv [simp]: "display_inv (fst (log_cia H x e M h)) = display_inv M"
  by (rule display_frame) (simp_all add: log_cia_def Let_def split: prod.split)

lemma log_read_inv [simp]: "display_inv (fst (log_read H a v M h)) = display_inv M"
  by (simp add: log_read_def Let_def)

lemma log_write_inv [simp]: "display_inv (fst (log_write H a v M h)) = display_inv M"
  by (simp add: log_write_def Let_def)

lemma read_chip_inv [simp]: "display_inv (fst (snd (read_chip H a M h))) = display_inv M"
  by (rule display_frame) (simp_all add: read_chip_def Let_def split: option.split prod.split)

lemma read_io_inv: "display_inv (fst (snd (read_io H a M h))) = display_inv M"
proof -
  obtain c h1 where c: "(case ch_IO H of Some io \<Rightarrow> io_read io a h | None \<Rightarrow> (None, h)) = (c, h1)"
    by (metis prod.exhaust)
  define M1 where "M1 = on_T (noteBusAccess a False) (M\<lparr>c_IOReads := c_IOReads M + 1\<rparr>)"
  obtain v2 M2 h2 where r: "read_chip H a M1 h1 = (v2, M2, h2)" by (metis prod_cases3)
  obtain M3 h3 where l: "log_read H a (merge_shadow a M2 v2) M2 h2 = (M3, h3)" by (metis prod.exhaust)
  have "display_inv M1 = display_inv M" by (rule display_frame) (simp_all add: M1_def on_T_def)
  then have "display_inv M3 = display_inv M"
    using log_read_inv [of H a "merge_shadow a M2 v2" M2 h2] read_chip_inv [of H a M1 h1] by (simp add: l r)
  then show ?thesis
    unfolding read_io_def c Let_def prod.case M1_def [symmetric] r l
    by (auto split: option.split)
qed

lemma c64_read8_inv [simp]: "display_inv (fst (snd (c64_read8 H a M h))) = display_inv M"
  by (simp add: c64_read8_def Let_def read_io_inv split: option.split prod.split C64Region.split)

lemma readFast_inv [simp]: "display_inv (fst (snd (readFast H a M h))) = display_inv M"
  by (simp add: readFast_def)

lemma moved_bank_inv: "reloc_ok (c_D M) \<Longrightarrow> display_inv (moved_bank ch M)"
  by (simp add: moved_bank_def Let_def follow_inv)

lemma track_write_inv: "display_inv M \<Longrightarrow> display_inv (track_write a v M)"
proof -
  assume d: "display_inv M"
  then have r: "reloc_ok (c_D M)" by (simp add: display_inv_def)
  have "reloc_ok ((c_D M)\<lparr>vd_LastD018 := v\<rparr>) = reloc_ok (c_D M)" by (rule reloc_ok_cong) simp_all
  then have "display_inv (follow_pointers (on_D (\<lambda>d. d\<lparr>vd_LastD018 := v\<rparr>) M))" using r by (intro follow_inv) simp
  then show ?thesis using d r by (simp add: track_write_def Let_def moved_bank_inv)
qed

lemma track_vic_inv: "display_inv M \<Longrightarrow> display_inv (track_vic H a v M h)"
proof -
  assume d: "display_inv M"
  show ?thesis
  proof (cases "vic_address a")
    case True
    define M1 where "M1 = on_D (\<lambda>d. d\<lparr>vd_RegShadow := (vd_RegShadow d)(vic_reg a := v)\<rparr>) M"
    define M2 where "M2 = on_L (anchor_compare (mem_now M) (line_cycles H h) (c_D M) (vic_reg a) v) M"
    define M3 where "M3 = on_D (\<lambda>d. d\<lparr>vd_RegShadow := (vd_RegShadow d)(vic_reg a := v)\<rparr>) M2"
    define M4 where "M4 = on_L (note_compare (vic_reg a) (c_D M3)) M3"
    define M5 where "M5 = on_L (appendVICLog (mem_now M4) (ucast (vic_reg a)) v) M4"
    have parts: "c_P M5 = c_P M" "c_RAM M5 = c_RAM M" "c_D M5 = (c_D M)\<lparr>vd_RegShadow := (vd_RegShadow (c_D M))(vic_reg a := v)\<rparr>"
      by (simp_all add: M5_def M4_def M3_def M2_def)
    have row: "pointer_row (c_P M) ((c_D M)\<lparr>vd_RegShadow := x\<rparr>) = pointer_row (c_P M) (c_D M)"
      "reloc_ok ((c_D M)\<lparr>vd_RegShadow := x\<rparr>) = reloc_ok (c_D M)" for x
      by (rule pointer_row_cong reloc_ok_cong; simp)+
    have t: "track_vic H a v M h = (if vic_reg a = 0x15 then rebuild_hot M5 else M5)"
      using True by (simp add: track_vic_def Let_def M5_def M4_def M3_def M2_def)
    show ?thesis
    proof (cases "vic_reg a = 0x15")
      case True
      then show ?thesis unfolding t using d by (simp add: rebuild_inv parts row display_inv_def [of M])
    next
      case False
      have s: "shape_block ram ((c_D M)\<lparr>vd_RegShadow := x\<rparr>) n = shape_block ram (c_D M) n" for ram x n
        by (simp add: shape_block_def Let_def)
      have "hot_exact (c_RAM M) ((c_D M)\<lparr>vd_RegShadow := (vd_RegShadow (c_D M))(vic_reg a := v)\<rparr>)"
        using d False by (simp add: hot_exact_def display_inv_def s)
      then show ?thesis unfolding t using d False by (simp add: display_inv_def parts row)
    qed
  qed (use d in \<open>simp add: track_vic_def\<close>)
qed

lemma claimed_write_inv [simp]: "display_inv (claimed_write io a v M h) = display_inv M"
  by (simp add: claimed_write_def Let_def)

lemma write_io_inv:
  assumes "display_inv M" "hooks_keep H" shows "display_inv (fst (write_io H a v M h))"
proof -
  obtain c M1 h1 where c: "(case ch_IO H of Some io \<Rightarrow> io_write io a v M h | None \<Rightarrow> (False, M, h)) = (c, M1, h1)"
    by (metis prod_cases3)
  have M1: "display_inv M1"
  proof (cases "ch_IO H")
    case None then show ?thesis using c assms(1) by simp
  next
    case (Some io) then have "io_write io a v M h = (c, M1, h1)" using c by simp
    then show ?thesis using assms Some unfolding hooks_keep_def by (metis fst_conv snd_conv)
  qed
  define M2 where "M2 = track_write a v M1"
  define M3 where "M3 = track_vic H a v (M2\<lparr>c_IOWrites := c_IOWrites M2 + 1\<rparr>) h1"
  obtain M4 h4 where l: "log_write H a v M3 h1 = (M4, h4)" by (metis prod.exhaust)
  have "display_inv M3" using track_write_inv [OF M1, of a v] by (simp add: M3_def M2_def track_vic_inv)
  then have "display_inv M4" using log_write_inv [of H a v M3 h1] by (simp add: l)
  then show ?thesis
    using M1 unfolding write_io_def c Let_def prod.case M2_def [symmetric] M3_def [symmetric] l
    by (auto split: option.split bool.split)
qed

lemma port_store_inv:
  assumes "display_inv M" "a \<le> 1"
  shows "display_inv (fst (mirrored_store H a v M h))"
proof (cases "vd_SpritePtrBase (c_D M) = NO_BASE")
  case True
  then show ?thesis
    using assms(1) by (simp add: display_inv_def mirrored_store_parts hot_exact_def)
next
  case False
  have "unat (vd_SpritePtrBase (c_D M)) \<ge> 0x3F8"
    using row_shape(3) [of "c_P M" "c_D M"] False assms(1) by (simp add: display_inv_def)
  moreover have "unat (ucast a AND NOT 7 :: u32) = 0"
  proof -
    have "unat a \<le> 1" using assms(2) by (simp add: word_le_nat_alt)
    moreover have "unat (ucast a :: u32) = unat a"
      using unsigned_less [of a, where 'a = nat] by (simp add: unsigned_ucast_eq take_bit_nat_eq_self)
    ultimately show ?thesis unfolding unat_and_not7 by simp
  qed
  ultimately have "ucast a AND NOT 7 \<noteq> vd_SpritePtrBase (c_D M)" by (metis less_le_trans not_less_zero zero_less_numeral)
  then show ?thesis by (rule store_outside_row [OF assms(1)]) (simp_all add: mirrored_store_parts)
qed

lemma c64_write8_inv [display_intros]:
  assumes "display_inv M" "hooks_keep H" shows "display_inv (fst (c64_write8 H a v M h))"
  using assms ram_store_inv [OF assms, of a v h] write_io_inv [OF assms, of a v h]
  by (simp add: c64_write8_def port_store_inv)

lemma writeFast_inv [display_intros]:
  assumes "display_inv M" "hooks_keep H" shows "display_inv (fst (writeFast H a v M h))"
  using assms ram_store_inv [OF assms, of a v h] c64_write8_inv [OF assms, of a v h]
  by (simp add: writeFast_def)

lemma under_io_inv [display_intros]: "display_inv M \<Longrightarrow> display_inv (mem_setRAMUnderIOAccessible on M)"
proof -
  assume d: "display_inv M"
  define d1 where "d1 = (let d = (c_D M)\<lparr>vd_RAMUnderIOAccessible := on\<rparr> in if on then d\<lparr>vd_RelocEnable := False\<rparr> else d)"
  have "reloc_ok d1 = reloc_ok (c_D M)" by (rule reloc_ok_cong) (simp_all add: d1_def Let_def)
  then have "display_inv (follow_pointers (M\<lparr>c_D := d1\<rparr>))" using d by (intro follow_inv) (simp add: display_inv_def)
  moreover have "mem_setRAMUnderIOAccessible on M = follow_pointers (M\<lparr>c_D := d1\<rparr>)"
    by (simp add: mem_setRAMUnderIOAccessible_def follow_pointers_def display_setRAMUnderIOAccessible_def d1_def Let_def on_D_def)
  ultimately show ?thesis by simp
qed

section \<open>Every reachable memory has an exact display side\<close>

lemma tick_inv: "mem_tick H n M h = Some (M', h') \<Longrightarrow> display_inv M' = display_inv M"
  by (rule display_frame) (auto simp: mem_tick_def)

lemma line_sampling_inv [simp]:
  "display_inv (fst (snd (mem_sampleIRQNMI H M h))) = display_inv M"
  "display_inv (fst (snd (irqAsserted H M h))) = display_inv M"
  "display_inv (fst (snd (nmiAsserted H M h))) = display_inv M"
  by (rule display_frame; simp add: mem_sampleIRQNMI_def irqAsserted_def nmiAsserted_def split: prod.split)+

lemma setter_inv [simp]:
  "display_inv (noteVectorReroute M) = display_inv M" "display_inv (setSCPU128Mode on M) = display_inv M"
  "display_inv (setBasicROM rom M) = display_inv M" "display_inv (setKernalROM rom M) = display_inv M"
  "display_inv (setCharROM rom M) = display_inv M" "display_inv (setBootmapROM img len M) = display_inv M"
  "display_inv (attachHDMICollisionLatches ss sb act M) = display_inv M"
  by (rule display_frame; simp add: noteVectorReroute_def setSCPU128Mode_def setBasicROM_def setKernalROM_def
      setCharROM_def setBootmapROM_def attachHDMICollisionLatches_def)+

lemma snapshot_inv [simp]: "display_inv (fst (snd (snapshotROMsFromBus H M h))) = display_inv M"
  by (rule display_frame)
    (simp_all add: snapshotROMsFromBus_def Let_def case_prod_unfold split: option.split)

text \<open>The reset empties the relocation tables, and the CIA2 set-up that follows it rebuilds the row and the
  hot blocks from what the reset left.\<close>

lemma reset_reloc_ok: "reloc_ok (c_D (fst (mem_reset H M h)))"
  by (simp add: mem_reset_def Let_def reloc_ok_def updateBankMode_def follow_pointers_def split: prod.split)

lemma cia2_setup_inv:
  assumes "reloc_ok (c_D M)" "initializeC64CIA2 H M h = (True, M', h')" shows "display_inv M'"
  using assms follow_inv [of "on_P (\<lambda>p. p\<lparr>cp_DDRA := 0x3F, cp_HaveDDRA := True\<rparr>) M"]
  by (auto simp: initializeC64CIA2_def Let_def split: option.splits prod.splits if_splits)

text \<open>A memory in service: after a reset and a verified CIA2 set-up, any sequence of accesses, clock ticks,
  interrupt samples, register-driven switches and log operations, while everything outside moves freely.\<close>

inductive in_service :: "'h c64_host \<Rightarrow> c64_memory \<Rightarrow> 'h \<Rightarrow> bool" for H where
  start: "initializeC64CIA2 H (fst (mem_reset H M0 h0)) h1 = (True, M, h) \<Longrightarrow> in_service H M h"
| outside: "in_service H M h \<Longrightarrow> in_service H M h'"
| read: "in_service H M h \<Longrightarrow> c64_read8 H a M h = (v, M', h') \<Longrightarrow> in_service H M' h'"
| fast_read: "in_service H M h \<Longrightarrow> readFast H a M h = (v, M', h') \<Longrightarrow> in_service H M' h'"
| store: "in_service H M h \<Longrightarrow> c64_write8 H a v M h = (M', h') \<Longrightarrow> in_service H M' h'"
| fast_store: "in_service H M h \<Longrightarrow> writeFast H a v M h = (M', h') \<Longrightarrow> in_service H M' h'"
| tick: "in_service H M h \<Longrightarrow> mem_tick H n M h = Some (M', h') \<Longrightarrow> in_service H M' h'"
| lines: "in_service H M h \<Longrightarrow> mem_sampleIRQNMI H M h = (ls, M', h') \<Longrightarrow> in_service H M' h'"
| irq: "in_service H M h \<Longrightarrow> irqAsserted H M h = (l, M', h') \<Longrightarrow> in_service H M' h'"
| nmi: "in_service H M h \<Longrightarrow> nmiAsserted H M h = (l, M', h') \<Longrightarrow> in_service H M' h'"
| under_io: "in_service H M h \<Longrightarrow> in_service H (mem_setRAMUnderIOAccessible on M) h"
| bank: "in_service H M h \<Longrightarrow> in_service H (updateBankMode H h M) h"
| clock: "in_service H M h \<Longrightarrow> in_service H (on_T f M) h"
| log: "in_service H M h \<Longrightarrow> in_service H (on_L g M) h"
| reroute: "in_service H M h \<Longrightarrow> in_service H (noteVectorReroute M) h"
| roms: "in_service H M h \<Longrightarrow> snapshotROMsFromBus H M h = (ok, M', h') \<Longrightarrow> in_service H M' h'"
| mode: "in_service H M h \<Longrightarrow> in_service H (setSCPU128Mode on M) h"
| hdmi: "in_service H M h \<Longrightarrow> in_service H (attachHDMICollisionLatches ss sb act M) h"

lemma in_service_inv: "in_service H M h \<Longrightarrow> hooks_keep H \<Longrightarrow> display_inv M"
proof (induction rule: in_service.induct)
  case (start M0 h0 h1 M h)
  show ?case by (rule cia2_setup_inv [OF reset_reloc_ok start(1)])
next
  case (read M h a v M' h')
  then show ?case using c64_read8_inv [of H a M h] by simp
next
  case (fast_read M h a v M' h')
  then show ?case using readFast_inv [of H a M h] by simp
next
  case (store M h a v M' h')
  then show ?case using c64_write8_inv [of M H a v h] by simp
next
  case (fast_store M h a v M' h')
  then show ?case using writeFast_inv [of M H a v h] by simp
next
  case (lines M h ls M' h')
  then show ?case using line_sampling_inv(1) [of H M h] by simp
next
  case (irq M h l M' h')
  then show ?case using line_sampling_inv(2) [of H M h] by simp
next
  case (nmi M h l M' h')
  then show ?case using line_sampling_inv(3) [of H M h] by simp
next
  case (roms M h ok M' h')
  then show ?case using snapshot_inv [of H M h] by simp
next
  case (tick M h n M' h')
  then show ?case using tick_inv [OF tick(2)] by simp
qed (simp_all add: under_io_inv)

end
