(* ===== verification/C64MemoryProps.thy ===== *)
theory C64MemoryProps
  imports C64MemoryDisplay
begin

text \<open>
  Properties of single operations of \<open>CC64Memory\<close>: the inlined access paths against the full ones, what a warm
  reset leaves of the pointer row, and the chip registers that read back what was written; each with a
  witness on the simulated bus.
\<close>

unbundle bit_operations_syntax

section \<open>The fast paths\<close>

lemma dos_above_port: "dosExtensionMapsBank1 H a h \<Longrightarrow> \<not> a \<le> 1"
  unfolding dosExtensionMapsBank1_def word_le_nat_alt by auto

text \<open>C22. The inlined access paths are the full ones: on a machine that is not a native C128, every read and
  every write through \<open>readFast\<close> and \<open>writeFast\<close> has the value and the effects of \<open>c64_read8\<close> and
  \<open>c64_write8\<close>, in every state, for every address and every attached hardware.\<close>

theorem fast_paths_agree:
  assumes "\<not> c_SCPU128Mode M"
  shows "readFast H a M h = c64_read8 H a M h \<and> writeFast H a v M h = c64_write8 H a v M h"
proof
  have n: "\<not> scpu128_host M a" using assms by (simp add: scpu128_host_def)
  have gt: "a > 1 \<longleftrightarrow> \<not> a \<le> 1" by auto
  show "readFast H a M h = c64_read8 H a M h"
    using n dos_above_port [of H a h] assms unfolding readFast_def gt by (auto simp: c64_read8_def)
  show "writeFast H a v M h = c64_write8 H a v M h"
    using n dos_above_port [of H a h] unfolding writeFast_def gt by (auto simp: c64_write8_def write_is_io)
qed



section \<open>Reset\<close>

lemma reset_parts:
  "c_P (fst (mem_reset H M h)) = (c_P M)\<lparr>cp_PortALatch := 0, cp_LastPortARead := 0, cp_DDRA := 0,
     cp_HavePortALatch := False, cp_HavePortARead := False, cp_HaveDDRA := False\<rparr>"
  "vd_SpritePtrBase (c_D (fst (mem_reset H M h))) =
     pointer_row ((c_P M)\<lparr>cp_PortALatch := 0, cp_LastPortARead := 0\<rparr>) ((c_D M)\<lparr>vd_LastD018 := 0x14\<rparr>)"
  "vd_LastD018 (c_D (fst (mem_reset H M h))) = 0x14"
  "vd_RAMUnderIOAccessible (c_D (fst (mem_reset H M h))) = vd_RAMUnderIOAccessible (c_D M)"
proof -
  have c: "pointer_row p (d\<lparr>vd_LastD018 := x, vd_SpritePtrBase := b, vd_PreviousSpritePtrBase := q, vd_PtrReloc := r, vd_RelocInUse := s, vd_RelocCount := n\<rparr>)
    = pointer_row p (d\<lparr>vd_LastD018 := x\<rparr>)" for p d x b q r s n
    by (rule pointer_row_cong) simp_all
  show "vd_SpritePtrBase (c_D (fst (mem_reset H M h))) =
     pointer_row ((c_P M)\<lparr>cp_PortALatch := 0, cp_LastPortARead := 0\<rparr>) ((c_D M)\<lparr>vd_LastD018 := 0x14\<rparr>)"
    by (simp add: mem_reset_def Let_def updateBankMode_def follow_pointers_def updateSpritePtrBase_row case_prod_unfold c)
qed (simp_all add: mem_reset_def Let_def updateBankMode_def follow_pointers_def case_prod_unfold)

text \<open>C25. A warm reset computes the sprite-pointer row before it clears the CIA2 port state: after a reset of a
  machine whose CIA2 directions were the ones \<open>initializeC64CIA2\<close> sets and whose port had been written, the
  memory holds \<open>$C7F8\<close> as the row, while the port state the same reset leaves behind selects \<open>$07F8\<close>.\<close>

theorem warm_reset_leaves_stale_row:
  assumes "cp_HaveDDRA (c_P M)" "cp_DDRA (c_P M) = 0x3F" "cp_HavePortALatch (c_P M)"
  shows "vd_SpritePtrBase (c_D (fst (mem_reset H M h))) = 0xC7F8
    \<and> pointer_row (c_P (fst (mem_reset H M h))) (c_D (fst (mem_reset H M h))) = 0x7F8"
  using assms
  by (simp add: reset_parts pointer_row_def activeVICScreenBase_def activeVICBankBase_def)

section \<open>Reading back the tracked chips\<close>

text \<open>The interceptor that declines an access leaves the display side alone.\<close>

definition declines :: "'h c64_host \<Rightarrow> u16 \<Rightarrow> bool" where
  "declines H a \<longleftrightarrow>
     (\<forall>io. ch_IO H = Some io \<longrightarrow>
        (\<forall>v M h. \<not> fst (io_write io a v M h) \<and> c_P (fst (snd (io_write io a v M h))) = c_P M
          \<and> c_D (fst (snd (io_write io a v M h))) = c_D M)
        \<and> (\<forall>h. fst (io_read io a h) = None))"

lemma read_effects_parts [simp]: "c_D (read_effects a v M) = c_D M"
  by (simp add: read_effects_def note_port_read_def Let_def)

lemma log_write_parts [simp]:
  "c_P (fst (log_write H a v M h)) = c_P M" "c_D (fst (log_write H a v M h)) = c_D M"
  by (simp_all add: log_write_def log_cia_def log_io_def Let_def case_prod_unfold)

lemma follow_parts [simp]: "c_P (follow_pointers M) = c_P M" "vd_RegShadow (c_D (follow_pointers M)) = vd_RegShadow (c_D M)"
  by (simp_all add: follow_pointers_def)

lemma rebuild_parts [simp]: "c_P (rebuild_hot M) = c_P M" "vd_RegShadow (c_D (rebuild_hot M)) = vd_RegShadow (c_D M)"
  by (simp_all add: rebuild_hot_def)

lemma moved_bank_parts [simp]:
  "c_P (moved_bank ch M) = c_P M" "vd_RegShadow (c_D (moved_bank ch M)) = vd_RegShadow (c_D M)"
  by (simp_all add: moved_bank_def Let_def)

lemma write_io_declined:
  assumes "declines H a"
  obtains M1 where "c_P M1 = c_P M" "c_D M1 = c_D M"
    "c_P (fst (write_io H a v M h)) = c_P (track_write a v M1)"
    "vd_RegShadow (c_D (fst (write_io H a v M h))) =
       (if vic_address a then (vd_RegShadow (c_D (track_write a v M1)))(vic_reg a := v)
        else vd_RegShadow (c_D (track_write a v M1)))"
proof -
  obtain c M1 h1 where c: "(case ch_IO H of Some io \<Rightarrow> io_write io a v M h | None \<Rightarrow> (False, M, h)) = (c, M1, h1)"
    by (metis prod_cases3)
  have M1: "\<not> c" "c_P M1 = c_P M" "c_D M1 = c_D M"
    using assms c by (auto simp: declines_def split: option.splits) (metis fst_conv snd_conv)+
  have "c_P (fst (write_io H a v M h)) = c_P (track_write a v M1)"
    "vd_RegShadow (c_D (fst (write_io H a v M h))) =
       (if vic_address a then (vd_RegShadow (c_D (track_write a v M1)))(vic_reg a := v)
        else vd_RegShadow (c_D (track_write a v M1)))"
    using M1(1) unfolding write_io_def c
    by (auto simp: Let_def case_prod_unfold track_vic_def split: option.split)
  with M1(2,3) show ?thesis by (rule that)
qed

lemma read_chip_parts [simp]:
  "c_P (fst (snd (read_chip H a M h))) = c_P M" "c_D (fst (snd (read_chip H a M h))) = c_D M"
  by (simp_all add: read_chip_def Let_def split: option.split prod.split)

lemma read_io_declined:
  assumes "declines H a"
  obtains w where "fst (read_io H a M h) = merge_shadow a M (if a = 0xDD02 \<and> cp_HaveDDRA (c_P M) then cp_DDRA (c_P M) else w)"
proof -
  obtain c h1 where c: "(case ch_IO H of Some io \<Rightarrow> io_read io a h | None \<Rightarrow> (None, h)) = (c, h1)"
    by (metis prod.exhaust)
  have "c = None" using assms(1) c by (auto simp: declines_def split: option.splits) (metis fst_conv)
  then have r: "fst (read_io H a M h) = merge_shadow a (fst (snd (read_chip H a (on_T (noteBusAccess a False) (M\<lparr>c_IOReads := c_IOReads M + 1\<rparr>)) h1)))
      (fst (read_chip H a (on_T (noteBusAccess a False) (M\<lparr>c_IOReads := c_IOReads M + 1\<rparr>)) h1))"
    unfolding read_io_def c by (simp add: Let_def case_prod_unfold)
  have p: "merge_shadow a (fst (snd (read_chip H a M1 h1))) v = merge_shadow a M1 v" for M1 v
    by (simp add: merge_shadow_def)
  have m: "merge_shadow a (on_T f (M\<lparr>c_IOReads := n\<rparr>)) v = merge_shadow a M v" for f n v
    by (simp add: merge_shadow_def)
  show ?thesis
  proof (cases "a = 0xDD02 \<and> cp_HaveDDRA (c_P M)")
    case True
    then have "fst (read_chip H a (on_T (noteBusAccess a False) (M\<lparr>c_IOReads := c_IOReads M + 1\<rparr>)) h1) = cp_DDRA (c_P M)"
      by (simp add: read_chip_def Let_def)
    then have "fst (read_io H a M h) = merge_shadow a M (cp_DDRA (c_P M))" by (simp only: r p m)
    then show ?thesis using True by (intro that [of 0]) simp
  next
    case False
    then show ?thesis by (intro that) (simp only: r p m if_False)
  qed
qed

lemma read_back_11:
  assumes "declines H 0xD011" shows "fst (read_io H 0xD011 M h) AND 0x7F = vd_RegShadow (c_D M) 0x11 AND 0x7F"
proof -
  obtain w where "fst (read_io H 0xD011 M h) = merge_shadow 0xD011 M w"
    using read_io_declined [of H "0xD011" M h] assms by auto
  then show ?thesis by (simp add: merge_shadow_def bit.conj_disj_distrib2 and.assoc)
qed

lemma read_back_00:
  assumes "declines H 0xDD00" "cp_HaveDDRA (c_P M)" "cp_HavePortALatch (c_P M)"
  shows "fst (read_io H 0xDD00 M h) AND cp_DDRA (c_P M) = cp_PortALatch (c_P M) AND cp_DDRA (c_P M)"
proof -
  obtain w where "fst (read_io H 0xDD00 M h) = merge_shadow 0xDD00 M w"
    using read_io_declined [of H "0xDD00" M h] assms by auto
  then show ?thesis using assms by (simp add: merge_shadow_def) (rule bit_word_eqI, auto simp: bit_simps)
qed

lemma read_back_02:
  assumes "declines H 0xDD02" "cp_HaveDDRA (c_P M)"
  shows "fst (read_io H 0xDD02 M h) = cp_DDRA (c_P M)"
proof -
  obtain w where "fst (read_io H 0xDD02 M h) = merge_shadow 0xDD02 M (if (0xDD02 :: u16) = 0xDD02 \<and> cp_HaveDDRA (c_P M) then cp_DDRA (c_P M) else w)"
    using read_io_declined [of H "0xDD02" M h] assms by auto
  then show ?thesis using assms by (simp add: merge_shadow_def)
qed

text \<open>C23. What the guest writes to the chips the memory shadows is what it reads back, whatever the bus
  returns: the seven compare and mode bits of \<open>$D011\<close>, the driven bits of the CIA2 port at \<open>$DD00\<close>, the direction register
  \<open>$DD02\<close>, for every state and any hardware state at the time of the read.\<close>

theorem chip_registers_read_back:
  assumes "declines H 0xD011" "declines H 0xDD00" "declines H 0xDD02" "cp_HaveDDRA (c_P M)"
  shows "fst (read_io H 0xD011 (fst (write_io H 0xD011 v M h)) h') AND 0x7F = v AND 0x7F
    \<and> fst (read_io H 0xDD00 (fst (write_io H 0xDD00 v M h)) h') AND cp_DDRA (c_P M) = v AND cp_DDRA (c_P M)
    \<and> fst (read_io H 0xDD02 (fst (write_io H 0xDD02 v M h)) h') = v"
proof (intro conjI)
  show "fst (read_io H 0xD011 (fst (write_io H 0xD011 v M h)) h') AND 0x7F = v AND 0x7F"
    by (rule write_io_declined [OF assms(1), of M v h]) (simp add: read_back_11 [OF assms(1)] vic_address_def vic_reg_def)
  show "fst (read_io H 0xDD00 (fst (write_io H 0xDD00 v M h)) h') AND cp_DDRA (c_P M) = v AND cp_DDRA (c_P M)"
  proof (rule write_io_declined [OF assms(2), of M v h])
    fix M1 assume M1: "c_P M1 = c_P M" "c_P (fst (write_io H 0xDD00 v M h)) = c_P (track_write 0xDD00 v M1)"
    have "c_P (fst (write_io H 0xDD00 v M h)) = (c_P M)\<lparr>cp_PortALatch := v, cp_HavePortALatch := True\<rparr>"
      using M1 by (simp add: track_write_def Let_def)
    then show ?thesis using read_back_00 [OF assms(2), of "fst (write_io H 0xDD00 v M h)" h'] assms(4) by simp
  qed
  show "fst (read_io H 0xDD02 (fst (write_io H 0xDD02 v M h)) h') = v"
  proof (rule write_io_declined [OF assms(3), of M v h])
    fix M1 assume M1: "c_P M1 = c_P M" "c_P (fst (write_io H 0xDD02 v M h)) = c_P (track_write 0xDD02 v M1)"
    have "c_P (fst (write_io H 0xDD02 v M h)) = (c_P M)\<lparr>cp_DDRA := v, cp_HaveDDRA := True\<rparr>"
      using M1 by (simp add: track_write_def Let_def vic_address_def)
    then show ?thesis using read_back_02 [OF assms(3), of "fst (write_io H 0xDD02 v M h)" h'] by simp
  qed
qed

section \<open>On the simulated bus\<close>

definition sim_host :: "host_bus c64_host" where
  "sim_host = no_devices\<lparr>ch_C64 := Some host_c64_bus\<rparr>"

theorem fast_paths_agree_witness:
  "\<forall>M. readFast sim_host 0xD020 (setSCPU128Mode False M) host_bus_new = c64_read8 sim_host 0xD020 (setSCPU128Mode False M) host_bus_new
    \<and> writeFast sim_host 0x0400 1 (setSCPU128Mode False M) host_bus_new = c64_write8 sim_host 0x0400 1 (setSCPU128Mode False M) host_bus_new"
proof
  fix M
  have n: "\<not> c_SCPU128Mode (setSCPU128Mode False M)" by (simp add: setSCPU128Mode_def)
  show "readFast sim_host 0xD020 (setSCPU128Mode False M) host_bus_new = c64_read8 sim_host 0xD020 (setSCPU128Mode False M) host_bus_new
    \<and> writeFast sim_host 0x0400 1 (setSCPU128Mode False M) host_bus_new = c64_write8 sim_host 0x0400 1 (setSCPU128Mode False M) host_bus_new"
    using fast_paths_agree [OF n, of sim_host "0xD020" host_bus_new 0] fast_paths_agree [OF n, of sim_host "0x0400" host_bus_new 1]
    by blast
qed


theorem warm_reset_leaves_stale_row_witness:
  "\<exists>M. vd_SpritePtrBase (c_D (fst (mem_reset sim_host M host_bus_new))) = 0xC7F8"
proof -
  obtain M0 :: c64_memory where True by simp
  let ?M = "on_P (\<lambda>p. p\<lparr>cp_DDRA := 0x3F, cp_HaveDDRA := True, cp_PortALatch := 0x3F, cp_HavePortALatch := True\<rparr>) M0"
  from warm_reset_leaves_stale_row [of ?M sim_host host_bus_new] show ?thesis
    by (intro exI [of _ ?M]) (simp add: on_P_def)
qed

theorem chip_registers_read_back_witness:
  "\<exists>M. fst (read_io sim_host 0xD011 (fst (write_io sim_host 0xD011 0x9B M host_bus_new)) host_bus_new) AND 0x7F = 0x1B
    \<and> fst (read_io sim_host 0xDD02 (fst (write_io sim_host 0xDD02 0x3F M host_bus_new)) host_bus_new) = 0x3F"
proof -
  obtain M0 :: c64_memory where True by simp
  let ?M = "on_P (\<lambda>p. p\<lparr>cp_DDRA := 0x3F, cp_HaveDDRA := True\<rparr>) M0"
  have d: "declines sim_host a" for a by (simp add: declines_def sim_host_def no_devices_def)
  have D: "cp_HaveDDRA (c_P ?M)" by simp
  from chip_registers_read_back [OF d d d D, of "0x9B" host_bus_new host_bus_new]
    chip_registers_read_back [OF d d d D, of "0x3F" host_bus_new host_bus_new]
  show ?thesis by (intro exI [of _ ?M]) simp
qed

end
