(* ===== verification/ReuWiring.thy ===== *)
theory ReuWiring
  imports C64MemoryProps ReuProps
begin

text \<open>
  How the RAM expansion unit is wired to the machine (\<open>Source/REU/reu_wiring.h\<close> and the part of
  \<open>CSuperCPU::init\<close> that uses it): the chain that presents the SuperCPU registers and the unit as one
  interceptor, the adapter that makes the unit an interceptor, and the host that moves the bytes of a
  transfer through \<open>c64_read8\<close> and \<open>c64_write8\<close>.

  A machine \<open>H\<close> without the unit acts on a state \<open>'k\<close>. With the unit the state is \<open>'k\<close> and the unit's record;
  \<open>r_Host\<close>, the memory and state a transfer acts on, is loaded when the unit is called and read back
  when it returns. The accesses of a transfer are those of \<open>H\<close>: they do not call back into the unit (a
  transfer whose C64 side is \<open>$DF00-$DF0A\<close> is outside the model, and a store to \<open>$FF00\<close> during a transfer finds
  the trigger disarmed).
\<close>

unbundle bit_operations_syntax

section \<open>The chain of two interceptors\<close>

definition chain_io :: "'h io_interceptor option \<Rightarrow> 'h io_interceptor option \<Rightarrow> 'h io_interceptor" where
  "chain_io p s =
     \<lparr> io_read = (\<lambda>a h.
         let (v, h) = (case p of Some io \<Rightarrow> io_read io a h | None \<Rightarrow> (None, h))
         in if v \<noteq> None then (v, h) else (case s of Some io \<Rightarrow> io_read io a h | None \<Rightarrow> (None, h))),
       io_write = (\<lambda>a v M h.
         let (ok, M, h) = (case p of Some io \<Rightarrow> io_write io a v M h | None \<Rightarrow> (False, M, h))
         in if ok then (True, M, h) else (case s of Some io \<Rightarrow> io_write io a v M h | None \<Rightarrow> (False, M, h))),
       io_needsStretch = (\<lambda>a w h. case p of Some io \<Rightarrow> io_needsStretch io a w h | None \<Rightarrow> w),
       io_usesWriteBuffer = (\<lambda>a w h. case p of Some io \<Rightarrow> io_usesWriteBuffer io a w h | None \<Rightarrow> False),
       io_dosExtension = (\<lambda>h. case p of Some io \<Rightarrow> io_dosExtension io h | None \<Rightarrow> None),
       io_simmWindowWrites = (\<lambda>h. case p of Some io \<Rightarrow> io_simmWindowWrites io h | None \<Rightarrow> True),
       io_rerouteRequested = (\<lambda>h. case p of Some io \<Rightarrow> io_rerouteRequested io h | None \<Rightarrow> False) \<rparr>"

section \<open>The unit's host and the unit as an interceptor\<close>

type_synonym 'k unit_state = "(c64_memory \<times> 'k) creu \<times> 'k"

definition reu_memory_host :: "'k c64_host \<Rightarrow> (c64_memory \<times> 'k) ireu_host" where
  "reu_memory_host H =
     \<lparr> reuHostRead = (\<lambda>a (M, k). let (v, M, k) = c64_read8 H a M k in (v, M, k)),
       reuHostWrite = (\<lambda>a v (M, k). c64_write8 H a v M k) \<rparr>"

definition with_host :: "((c64_memory \<times> 'k) creu \<Rightarrow> (c64_memory \<times> 'k) creu) \<Rightarrow> c64_memory \<times> 'k unit_state
    \<Rightarrow> c64_memory \<times> 'k unit_state" where
  "with_host f = (\<lambda>(M, r, k). let r = f (r\<lparr>r_Host := (M, k)\<rparr>) in (fst (r_Host r), r, snd (r_Host r)))"

definition creu_io :: "'k c64_host \<Rightarrow> 'k unit_state io_interceptor" where
  "creu_io H =
     \<lparr> io_read = (\<lambda>a (r, k). let (v, r) = reu_read a r in (v, r, k)),
       io_write = (\<lambda>a v M (r, k).
         (fst (reu_write (reu_memory_host H) a v (r\<lparr>r_Host := (M, k)\<rparr>)),
          with_host (\<lambda>r. snd (reu_write (reu_memory_host H) a v r)) (M, r, k))),
       io_needsStretch = (\<lambda>a w h. w), io_usesWriteBuffer = (\<lambda>a w h. False), io_dosExtension = (\<lambda>h. None),
       io_simmWindowWrites = (\<lambda>h. True), io_rerouteRequested = (\<lambda>h. False) \<rparr>"

definition reuFF00Trampoline :: "'k c64_host \<Rightarrow> c64_memory \<times> 'k unit_state \<Rightarrow> c64_memory \<times> 'k unit_state" where
  "reuFF00Trampoline H = with_host (noteFF00Write (reu_memory_host H))"

section \<open>The machine with the unit\<close>

definition beside :: "('k \<Rightarrow> 'a \<times> 'k) \<Rightarrow> 'r \<times> 'k \<Rightarrow> 'a \<times> 'r \<times> 'k" where
  "beside f = (\<lambda>(r, k). let (v, k) = f k in (v, r, k))"

definition lift_bus :: "'k ic64_bus \<Rightarrow> ('r \<times> 'k) ic64_bus" where
  "lift_bus B =
     \<lparr> cb_signals = (\<lambda>h. cb_signals B (snd h)), cb_read = (\<lambda>a. beside (cb_read B a)),
       cb_write = (\<lambda>a v (r, k). (r, cb_write B a v k)), cb_readRAM = (\<lambda>a. beside (cb_readRAM B a)),
       cb_writeRAM = (\<lambda>a v (r, k). (r, cb_writeRAM B a v k)),
       cb_verifyC64CIA2DDRA = (\<lambda>v. beside (cb_verifyC64CIA2DDRA B v)),
       cb_writeBurst = (\<lambda>ws (r, k). (r, cb_writeBurst B ws k)), cb_readBlock = (\<lambda>a n. beside (cb_readBlock B a n)),
       cb_irqAsserted = beside (cb_irqAsserted B), cb_nmiAsserted = beside (cb_nmiAsserted B),
       cb_rasterLine = beside (cb_rasterLine B), cb_hostCycles = beside (cb_hostCycles B),
       cb_hostCyclesPerSec = (\<lambda>h. cb_hostCyclesPerSec B (snd h)) \<rparr>"

definition lift_io :: "'k io_interceptor \<Rightarrow> ('r \<times> 'k) io_interceptor" where
  "lift_io io =
     \<lparr> io_read = (\<lambda>a. beside (io_read io a)),
       io_write = (\<lambda>a v M (r, k). let (ok, M, k) = io_write io a v M k in (ok, M, r, k)),
       io_needsStretch = (\<lambda>a w h. io_needsStretch io a w (snd h)),
       io_usesWriteBuffer = (\<lambda>a w h. io_usesWriteBuffer io a w (snd h)),
       io_dosExtension = (\<lambda>h. io_dosExtension io (snd h)), io_simmWindowWrites = (\<lambda>h. io_simmWindowWrites io (snd h)),
       io_rerouteRequested = (\<lambda>h. io_rerouteRequested io (snd h)) \<rparr>"

definition with_reu :: "'k c64_host \<Rightarrow> 'k unit_state c64_host" where
  "with_reu H =
     \<lparr> ch_C64 = map_option lift_bus (ch_C64 H),
       ch_Mirror = map_option (\<lambda>sink E a v. beside (sink E a v)) (ch_Mirror H),
       ch_IO = Some (chain_io (map_option lift_io (ch_IO H)) (Some (creu_io H))),
       ch_FF00Hook = Some (reuFF00Trampoline H),
       ch_BootmapActive = (\<lambda>h. ch_BootmapActive H (snd h)), ch_KernalShadowBase = (\<lambda>h. ch_KernalShadowBase H (snd h)),
       ch_ROMShadow = map_option (\<lambda>shadow h. shadow (snd h)) (ch_ROMShadow H),
       ch_writeROMShadow = (\<lambda>a v (r, k). (r, ch_writeROMShadow H a v k)) \<rparr>"

section \<open>What every access of the host keeps, a transfer keeps\<close>

lemma transfer_byte_keeps:
  assumes "\<And>a h. P h \<Longrightarrow> P (snd (reuHostRead X a h))" "\<And>a v h. P h \<Longrightarrow> P (reuHostWrite X a v h)" "P (x_host x)"
  shows "P (x_host (transfer_byte X type msk x))"
  using assms by (simp add: transfer_byte_def Let_def case_prod_unfold)

lemma transfer_loop_keeps:
  assumes "\<And>a h. P h \<Longrightarrow> P (snd (reuHostRead X a h))" "\<And>a v h. P h \<Longrightarrow> P (reuHostWrite X a v h)"
  shows "P (x_host x) \<Longrightarrow> P (x_host (transfer_loop X type msk f g n x))"
proof (induction n arbitrary: x)
  case (Suc n)
  then have "P (x_host (transfer_byte X type msk x))" using transfer_byte_keeps [of P X] assms by blast
  then show ?case using Suc.IH by (simp add: Let_def advance_def)
qed simp

lemma executeTransfer_keeps:
  assumes "\<And>a h. P h \<Longrightarrow> P (snd (reuHostRead X a h))" "\<And>a v h. P h \<Longrightarrow> P (reuHostWrite X a v h)" "P (r_Host r)"
  shows "P (r_Host (executeTransfer X r))"
proof -
  have "P (x_host (run_transfer X (r\<lparr>r_PendingFF00 := False\<rparr>)))"
    unfolding run_transfer_def by (rule transfer_loop_keeps [OF assms(1,2)]) (simp_all add: start_transfer_def assms(3))
  then show ?thesis using assms(3) by (simp add: executeTransfer_def Let_def)
qed

lemma unit_keeps:
  assumes "\<And>a h. P h \<Longrightarrow> P (snd (reuHostRead X a h))" "\<And>a v h. P h \<Longrightarrow> P (reuHostWrite X a v h)" "P (r_Host r)"
  shows "P (r_Host (snd (reu_write X a v r)))" "P (r_Host (noteFF00Write X r))"
  using assms executeTransfer_keeps [of P X] 
  by (simp_all add: reu_write_def noteFF00Write_def write_command_def set_C64Base_def set_REUBase_def set_Length_def Let_def)

lemma host_inv:
  assumes "hooks_keep H"
  shows "display_inv (fst h) \<Longrightarrow> display_inv (fst (snd (reuHostRead (reu_memory_host H) a h)))"
    "display_inv (fst h) \<Longrightarrow> display_inv (fst (reuHostWrite (reu_memory_host H) a v h))"
  using c64_write8_inv [of "fst h" H a v "snd h"] assms
  by (simp_all add: reu_memory_host_def case_prod_unfold)

theorem reu_wiring_keeps_display:
  fixes H :: "'k c64_host"
  assumes "hooks_keep H" shows "hooks_keep (with_reu H)"
proof -
  note K = unit_keeps [where P = "\<lambda>h. display_inv (fst h)" and X = "reu_memory_host H", OF host_inv [OF assms]]
  have hook: "display_inv (fst (reuFF00Trampoline H (M, h)))" if "display_inv M" for M h
    using K(2) [of "(fst h)\<lparr>r_Host := (M, snd h)\<rparr>"] that
    by (simp add: reuFF00Trampoline_def with_host_def Let_def case_prod_unfold)
  have own: "display_inv (fst (snd (io_write (creu_io H) a v M h)))" if "display_inv M" for M h a v
    using K(1) [of "(fst h)\<lparr>r_Host := (M, snd h)\<rparr>"] that
    by (simp add: creu_io_def with_host_def Let_def case_prod_unfold)
  have regs: "display_inv (fst (snd (io_write (lift_io io) a v M h)))" if "display_inv M" "ch_IO H = Some io" for io M a v and h :: "'k unit_state"
    using assms that by (simp add: lift_io_def hooks_keep_def Let_def case_prod_unfold)
  have chain: "display_inv (fst (snd (io_write (chain_io (map_option lift_io (ch_IO H)) (Some (creu_io H))) a v M h)))"
    if "display_inv M" for M h a v
    using that own regs by (simp add: chain_io_def Let_def case_prod_unfold split: option.split)
  show ?thesis unfolding hooks_keep_def using hook chain by (auto simp: with_reu_def)
qed

section \<open>A transfer is a run of CPU accesses\<close>

definition fetch_store :: "'k c64_host \<Rightarrow> (c64_memory \<times> 'k) creu \<Rightarrow> nat \<Rightarrow> c64_memory \<times> 'k \<Rightarrow> c64_memory \<times> 'k" where
  "fetch_store H r i = (\<lambda>(M, k). c64_write8 H (host_cell r i) (r_RAM r (ram_cell r i)) M k)"

lemma fetch_loop:
  assumes "\<not> x_fault x"
  shows "x_host (transfer_loop (reu_memory_host H) REU_XFER_FETCH msk False False n x) =
    fold (\<lambda>i (M, k). c64_write8 H (x_c64 x + of_nat i) (x_ram x ((x_reu x + of_nat i) AND msk)) M k) [0..<n] (x_host x)"
  using assms
proof (induction n arbitrary: x)
  case (Suc n)
  define y where "y = advance False False ((transfer_byte (reu_memory_host H) REU_XFER_FETCH msk x)
      \<lparr>x_moved := x_moved x + 1, x_remaining := n\<rparr>)"
  have t: "transfer_byte (reu_memory_host H) REU_XFER_FETCH msk x =
      x\<lparr>x_host := (\<lambda>(M, k). c64_write8 H (x_c64 x) (x_ram x (x_reu x AND msk)) M k) (x_host x)\<rparr>"
    by (simp add: transfer_byte_def reu_memory_host_def REU_XFER_FETCH_def REU_XFER_STASH_def Let_def)
  have y: "x_c64 y = x_c64 x + 1" "x_reu y = x_reu x + 1" "x_ram y = x_ram x" "\<not> x_fault y"
    "x_host y = (\<lambda>(M, k). c64_write8 H (x_c64 x) (x_ram x (x_reu x AND msk)) M k) (x_host x)"
    using Suc.prems by (simp_all add: y_def t advance_def)
  have "x_host (transfer_loop (reu_memory_host H) REU_XFER_FETCH msk False False (Suc n) x) =
      x_host (transfer_loop (reu_memory_host H) REU_XFER_FETCH msk False False n y)"
    using Suc.prems by (simp add: Let_def y_def t)
  also have "\<dots> = fold (\<lambda>i (M, k). c64_write8 H (x_c64 x + of_nat (Suc i)) (x_ram x ((x_reu x + of_nat (Suc i)) AND msk)) M k)
      [0..<n] (x_host y)"
    by (simp add: Suc.IH [OF y(4)] y(1-3) algebra_simps)
  also have "\<dots> = fold (\<lambda>i (M, k). c64_write8 H (x_c64 x + of_nat i) (x_ram x ((x_reu x + of_nat i) AND msk)) M k)
      (map Suc [0..<n]) (x_host y)"
    by (simp add: fold_map comp_def)
  finally show ?case by (simp add: upt_conv_Cons map_Suc_upt y(5) del: upt_Suc)
qed simp

text \<open>One byte of expansion RAM to the border colour.\<close>

definition demo_unit :: "c64_memory \<Rightarrow> (c64_memory \<times> host_bus) creu" where
  "demo_unit M = (creu_new (M, host_bus_new))\<lparr>r_Attached := True, r_Size := 0x20000, r_AddressMask := 0x1FFFF,
     r_RAM := (\<lambda>_. 0x5A), r_C64Base := 0xD020, r_Length := 1, r_Command := 0x91\<rparr>"

text \<open>C24. A FETCH command reaches the machine exactly as the CPU's own stores do: with the unit wired to
  the memory, executing it performs the writes \<open>c64_write8\<close> of the bytes of expansion RAM at successive C64
  addresses, in order, whatever those addresses are mapped to, and nothing else happens to the memory or
  to the devices behind it.\<close>

theorem reu_fetch_is_cpu_stores:
  assumes "r_Attached r" "r_Size r \<noteq> 0" "r_Command r AND REU_CMD_TYPE_MASK = REU_XFER_FETCH" "incrementing r"
  shows "r_Host (executeTransfer (reu_memory_host H) r) =
    fold (fetch_store H r) [0..<transfer_length (r_Length r)] (r_Host r)"
  using assms fetch_loop [of "start_transfer r" H "r_AddressMask r" "transfer_length (r_Length r)"]
  by (simp add: execute_memory run_transfer_def incrementing_def start_transfer_def fetch_store_def [abs_def] ram_cell_def host_cell_def)

theorem reu_fetch_is_cpu_stores_witness:
  "\<forall>M. r_Host (executeTransfer (reu_memory_host sim_host) (demo_unit M)) =
    c64_write8 sim_host 0xD020 0x5A M host_bus_new"
proof
  fix M
  have "r_Attached (demo_unit M)" "r_Size (demo_unit M) \<noteq> 0"
    "r_Command (demo_unit M) AND REU_CMD_TYPE_MASK = REU_XFER_FETCH" "incrementing (demo_unit M)"
    by (simp_all add: demo_unit_def creu_new_def incrementing_def reu_consts has_def)
  from reu_fetch_is_cpu_stores [OF this, of sim_host]
  show "r_Host (executeTransfer (reu_memory_host sim_host) (demo_unit M)) = c64_write8 sim_host 0xD020 0x5A M host_bus_new"
    by (simp add: demo_unit_def creu_new_def transfer_length_def fetch_store_def host_cell_def ram_cell_def)
qed

end
