(* ===== verification/ScpuMachine.thy ===== *)
theory ScpuMachine
  imports ReuWiring ScpuRegs
begin

text \<open>
  The machine \<open>CSuperCPU::init\<close> wires (\<open>Source/SuperCPU/supercpu.cpp\<close>): the C64 memory with the C64 bus, the write
  buffer as its mirror sink, the SuperCPU registers (with the speed hook) and the RAM expansion unit as
  its I/O, bank 1 as its ROM shadow. The state behind the memory is the registers' record, which holds the write
  buffer, bank 1, the SIMM and the two flags of the memory the registers drive, next to the state of the bus.
\<close>

unbundle bit_operations_syntax

section \<open>Clock rates\<close>

definition SCPU_TURBO_HZ :: u32 where "SCPU_TURBO_HZ = 20000000"
definition SCPU_NORMAL_HZ :: u32 where "SCPU_NORMAL_HZ = 1000000"

definition currentClockHz :: "scpu_regs \<Rightarrow> u32" where
  "currentClockHz R = (if fastMode R then SCPU_TURBO_HZ else SCPU_NORMAL_HZ)"

section \<open>The write buffer as mirror sink\<close>

type_synonym 'h scpu_state = "scpu_regs \<times> 'h"

definition wb_sink :: "wb_env \<Rightarrow> u16 \<Rightarrow> u8 \<Rightarrow> 'h scpu_state \<Rightarrow> bool \<times> 'h scpu_state" where
  "wb_sink E a v = (\<lambda>(R, h).
     case rg_WriteBuffer R of
       Some w \<Rightarrow> (let (ok, w) = onRamWrite E a v w in (ok, R\<lparr>rg_WriteBuffer := Some w\<rparr>, h))
     | None \<Rightarrow> (False, R, h))"

section \<open>The registers as interceptor\<close>

text \<open>The speed hook re-arms the pacer at once.\<close>

definition speed_hook :: "'h ic64_bus \<Rightarrow> scpu_regs \<Rightarrow> c64_memory \<Rightarrow> 'h \<Rightarrow> c64_memory \<times> 'h" where
  "speed_hook B R M h =
     (let (t, h) = setPacing (Some B) (ucast (cb_hostCyclesPerSec B h)) (currentClockHz R) (c_T M) h
      in (M\<lparr>c_T := t\<rparr>, h))"

definition regs_io :: "'h ic64_bus \<Rightarrow> 'h scpu_state io_interceptor" where
  "regs_io B =
     \<lparr> io_read = (\<lambda>a (R, h). let (v, R) = ioRead a R in (v, R, h)),
       io_write = (\<lambda>a v M (R, h).
         let (ok, R') = ioWrite a v R;
             (M, h) = (if rg_SpeedHook R' \<noteq> rg_SpeedHook R then speed_hook B R' M h else (M, h))
         in (ok, M, R', h)),
       io_needsStretch = (\<lambda>a w _. ioAccessNeedsStretch a w),
       io_usesWriteBuffer = (\<lambda>a w (R, _). ioAccessUsesWriteBuffer R a w),
       io_dosExtension = (\<lambda>(R, _). Some (rg_DOSExt R)), io_simmWindowWrites = (\<lambda>(R, _). rg_HWRegsEnabled R),
       io_rerouteRequested = (\<lambda>(R, _). interruptRerouteRequested R) \<rparr>"

definition scpu_host :: "'h ic64_bus \<Rightarrow> 'h scpu_state c64_host" where
  "scpu_host B =
     \<lparr> ch_C64 = Some (lift_bus B), ch_Mirror = Some wb_sink, ch_IO = Some (regs_io B), ch_FF00Hook = None,
       ch_BootmapActive = (\<lambda>(R, _). rg_BootmapFlag R = Some True),
       ch_KernalShadowBase = (\<lambda>(R, _). case rg_KernalShadowBase R of Some b \<Rightarrow> b | None \<Rightarrow> 0xE000),
       ch_ROMShadow = Some (\<lambda>(R, _) a. case rg_Bank1 R of Some b \<Rightarrow> b a | None \<Rightarrow> 0),
       ch_writeROMShadow = (\<lambda>a v (R, h). (R\<lparr>rg_Bank1 := map_option (\<lambda>b. b(a := v)) (rg_Bank1 R)\<rparr>, h)) \<rparr>"

definition scpu_machine :: "'h ic64_bus \<Rightarrow> 'h scpu_state unit_state c64_host" where
  "scpu_machine B = with_reu (scpu_host B)"

section \<open>The wiring keeps the display side exact\<close>

lemma speed_hook_inv [simp]: "display_inv (fst (speed_hook B R M h)) = display_inv M"
  by (rule display_frame) (simp_all add: speed_hook_def Let_def case_prod_unfold)

lemma scpu_host_keeps: "hooks_keep (scpu_host B)"
  by (auto simp: hooks_keep_def scpu_host_def regs_io_def Let_def case_prod_unfold)

lemma scpu_machine_keeps: "hooks_keep (scpu_machine B)"
  unfolding scpu_machine_def by (rule reu_wiring_keeps_display [OF scpu_host_keeps])

text \<open>C21. What the write mirror and the video output know of the display is exact at every moment: in the
  wired machine, after a reset and the CIA2 set-up, whatever the CPU reads and writes (DMA transfers of the expansion unit
  included), however time passes and whatever the bus returns, the sprite-pointer row is the one the CIA2
  port and \<open>$D018\<close> select, a shape block is marked hot exactly when the pointer of an enabled sprite
  selects it (through a relocation where one is in force), and the two relocation tables are inverse to each other,
  with the count of their entries.\<close>

theorem display_side_exact:
  assumes "in_service (scpu_machine B) M h"
  shows "vd_SpritePtrBase (c_D M) = pointer_row (c_P M) (c_D M)
    \<and> (hot_bit (vd_HotShapeBlocks (c_D M)) b \<longleftrightarrow>
        vd_SpritePtrBase (c_D M) \<noteq> NO_BASE
        \<and> (\<exists>n < 8. bit (vd_RegShadow (c_D M) 0x15) n \<and> shape_block (c_RAM M) (c_D M) (of_nat n) = b))
    \<and> reloc_ok (c_D M)"
  using in_service_inv [OF assms scpu_machine_keeps] by (simp add: display_inv_def hot_exact_def)

text \<open>A machine that has just been set up on the simulated bus.\<close>

lemma host_cia2_verifies:
  "initializeC64CIA2 (scpu_machine host_c64_bus) M (r, R, h0) =
     (True, follow_pointers (on_P (\<lambda>p. p\<lparr>cp_DDRA := 0x3F, cp_HaveDDRA := True\<rparr>) M),
      snd (snd (initializeC64CIA2 (scpu_machine host_c64_bus) M (r, R, h0))))"
proof -
  have v: "fst (host_verifyDDRA 0x3F (host_write 0xDD02 0x3F h)) = True" for h
    by (simp add: host_verifyDDRA_def host_read_def host_write_def logAccess_def Let_def)
  show ?thesis
    using v [of "host_write 0xDD02 0x3F h0"]
    by (simp add: initializeC64CIA2_def scpu_machine_def with_reu_def scpu_host_def lift_bus_def beside_def
        host_c64_bus_def Let_def case_prod_unfold)
qed

theorem display_side_exact_witness:
  "\<exists>M h. in_service (scpu_machine host_c64_bus) M h \<and> vd_SpritePtrBase (c_D M) = 0x07F8"
proof -
  obtain M0 :: c64_memory where True by simp
  define h0 where "h0 = (creu_new (M0, regs_new, host_bus_new), regs_new, host_bus_new)"
  define M1 where "M1 = fst (mem_reset (scpu_machine host_c64_bus) M0 h0)"
  obtain r R h where h: "h0 = (r, R, h)" by (simp add: h0_def)
  let ?M = "follow_pointers (on_P (\<lambda>p. p\<lparr>cp_DDRA := 0x3F, cp_HaveDDRA := True\<rparr>) M1)"
  obtain h1 where s: "in_service (scpu_machine host_c64_bus) ?M h1"
    using in_service.start [of "scpu_machine host_c64_bus" M0 h0 h0 ?M] host_cia2_verifies [of M1 r R h]
    unfolding M1_def h by blast
  have "vd_LastD018 (c_D ?M) = vd_LastD018 (c_D M1)" by (simp add: follow_pointers_def)
  then have "pointer_row (c_P ?M) (c_D ?M) = 0x07F8"
    by (simp add: pointer_row_def activeVICScreenBase_def activeVICBankBase_def M1_def reset_parts)
  with display_side_exact [OF s, of 0, THEN conjunct1] have "vd_SpritePtrBase (c_D ?M) = 0x07F8" by (rule trans)
  then show ?thesis using s by blast
qed

end
