(* ===== verification/VicRaster.thy ===== *)
theory VicRaster
  imports C64Display "HOL-Library.Signed_Division"
begin

text \<open>
  The raster planner of the HDMI picture (\<open>Source/Video/vic_raster.h\<close>, \<open>vic_raster.cpp\<close>): where on the screen a
  logged register write happened, which stretch of the log is the newest completed frame
  (\<open>CVICRasterTimeline\<close>), and the bands of constant state a frame is drawn in, with the source pages they
  need (\<open>CVICRasterReplay\<close>).

  Log indices are \<open>u32\<close> sequence numbers; the loops \<open>for (i = a; i != b; i++)\<close> run over \<open>idx_range a b\<close>, wrap included.
  The log is a function of the slot; \<open>None\<close> is the null pointer. A frame's band array is a list. The signed
  line and row numbers are \<open>int\<close>, with C++'s truncating division (\<open>sdiv\<close>, \<open>smod\<close>): they stay far inside 32 bits for
  every timing with at least two cycles per line.
\<close>

unbundle bit_operations_syntax

section \<open>Types\<close>

definition VIC_RASTER_MAX_BANDS :: nat where "VIC_RASTER_MAX_BANDS = 273"
definition VIC_RASTER_PAGE_MASK_BYTES :: nat where "VIC_RASTER_PAGE_MASK_BYTES = 32"
definition VIC_RASTER_MAX_SNAPSHOT_PAGES :: u32 where "VIC_RASTER_MAX_SNAPSHOT_PAGES = 96"

record VICRasterTiming =
  vt_cyclesPerLine :: u32
  vt_rasterLines :: u32
  vt_frameRows :: u32
  vt_topRaster :: int
  vt_displayFirstRow :: u32
  vt_displayRows :: u32

record VICRasterBand =
  vb_firstRow :: u16
  vb_rowCount :: u16
  vb_applyBegin :: u32
  vb_applyEnd :: u32

datatype VICRasterFrameResult = VIC_RASTER_SNAPSHOT | VIC_RASTER_HOLD | VIC_RASTER_REPLAY

record VICRasterFrame =
  vf_result :: VICRasterFrameResult
  vf_drawStart :: u32
  vf_drawEnd :: u32
  vf_tailAfter :: u32
  vf_bands :: "VICRasterBand list"
  vf_finishBegin :: u32
  vf_finishEnd :: u32

record raster_timeline =
  tl_Tail :: u32
  tl_Primed :: bool

type_synonym vic_events = "nat \<Rightarrow> VICRegWrite"

definition rasterEvent :: "vic_events \<Rightarrow> u32 \<Rightarrow> VICRegWrite" where
  "rasterEvent log i = log (log_slot i)"

definition idx_range :: "u32 \<Rightarrow> u32 \<Rightarrow> u32 list" where
  "idx_range a b = map (\<lambda>k. a + of_nat k) [0..<unat (b - a)]"

section \<open>Where an event is\<close>

definition lineOfCycle :: "u32 \<Rightarrow> u64 \<Rightarrow> VICRasterTiming \<Rightarrow> int" where
  "lineOfCycle cycle anchor t =
     (if vt_cyclesPerLine t = 0 \<or> vt_rasterLines t = 0 \<or> drop_bit 63 anchor = 0 then - 1
      else
        let anchorCycle = ucast (drop_bit 16 anchor AND 0xFFFFFFFF) :: u32;
            anchorLine = uint (anchor AND 0x1FF);
            delta = sint (cycle - anchorCycle);
            perLine = sint (vt_cyclesPerLine t);
            lines = delta sdiv perLine;
            lines = (if delta < 0 \<and> delta smod perLine \<noteq> 0 then lines - 1 else lines);
            line = (anchorLine + lines) smod sint (vt_rasterLines t)
        in if line < 0 then line + sint (vt_rasterLines t) else line)"

definition lineOfEvent :: "VICRegWrite \<Rightarrow> u64 \<Rightarrow> VICRasterTiming \<Rightarrow> int" where
  "lineOfEvent e anchor t =
     (if vicLogHasRasterLine e then
        if vt_rasterLines t \<noteq> 0 then uint (ucast (vicLogRasterLine e) mod vt_rasterLines t) else - 1
      else lineOfCycle (ev_cycle e) anchor t)"

definition is_pointer_event :: "VICRegWrite \<Rightarrow> bool" where
  "is_pointer_event e \<longleftrightarrow> vicLogRegister e \<ge> VIC_LOG_REG_SPRPTR \<and> vicLogRegister e < VIC_LOG_REG_SPRPTR + 8"

definition rowOfEvent :: "VICRegWrite \<Rightarrow> u64 \<Rightarrow> VICRasterTiming \<Rightarrow> u32" where
  "rowOfEvent e anchor t =
     (let line = lineOfEvent e anchor t
      in if line < 0 then vt_frameRows t
         else
           let line = (if is_pointer_event e then line + 1 else line);
               row = line - vt_topRaster t;
               row = (if row < 0 then row + sint (vt_rasterLines t) else row)
           in if row < 0 then 0
              else if row > sint (vt_frameRows t) then vt_frameRows t
              else of_int row)"

section \<open>Selecting the completed frame\<close>

definition timeline_new :: raster_timeline where
  "timeline_new = \<lparr> tl_Tail = 0, tl_Primed = False \<rparr>"

definition timeline_prime :: "u32 \<Rightarrow> raster_timeline \<Rightarrow> raster_timeline" where
  "timeline_prime head T = T\<lparr>tl_Tail := head, tl_Primed := True\<rparr>"

definition timeline_invalidate :: "raster_timeline \<Rightarrow> raster_timeline" where
  "timeline_invalidate T = T\<lparr>tl_Primed := False\<rparr>"

definition frameCycles :: "VICRasterTiming \<Rightarrow> u32" where
  "frameCycles t = vt_cyclesPerLine t * vt_rasterLines t"

text \<open>The frame scan: the starts of the newest and of the previous frame seen; \<open>None\<close> when an event cannot
  be placed.\<close>

record frame_scan =
  fs_frameStart :: u32
  fs_previousStart :: u32
  fs_previousLine :: int
  fs_previousCycle :: u32

definition starts_frame :: "VICRasterTiming \<Rightarrow> int \<Rightarrow> u32 \<Rightarrow> int \<Rightarrow> u32 \<Rightarrow> bool" where
  "starts_frame t previousLine previousCycle line cycle \<longleftrightarrow>
     line < previousLine \<or> cycle - previousCycle \<ge> frameCycles t - vt_cyclesPerLine t"

fun scan_frames :: "vic_events \<Rightarrow> u64 \<Rightarrow> VICRasterTiming \<Rightarrow> u32 \<Rightarrow> u32 list \<Rightarrow> frame_scan \<Rightarrow> frame_scan option" where
  "scan_frames log anchor t tail [] s = Some s"
| "scan_frames log anchor t tail (i # is) s =
     (let e = rasterEvent log i; line = lineOfEvent e anchor t
      in if line < 0 then None
         else
           let s = (if i \<noteq> tail \<and> starts_frame t (fs_previousLine s) (fs_previousCycle s) line (ev_cycle e)
                    then s\<lparr>fs_previousStart := fs_frameStart s, fs_frameStart := i\<rparr> else s)
           in scan_frames log anchor t tail is (s\<lparr>fs_previousLine := line, fs_previousCycle := ev_cycle e\<rparr>))"

section \<open>Bands\<close>

record band_builder =
  bb_bandRow :: u32
  bb_applyBegin :: u32
  bb_bands :: "VICRasterBand list"

definition close_band :: "u32 \<Rightarrow> u32 \<Rightarrow> band_builder \<Rightarrow> band_builder" where
  "close_band row i b =
     b\<lparr>bb_bands := bb_bands b @ [\<lparr> vb_firstRow = ucast (bb_bandRow b), vb_rowCount = ucast (row - bb_bandRow b),
                                   vb_applyBegin = bb_applyBegin b, vb_applyEnd = i \<rparr>],
       bb_applyBegin := i\<rparr>"

definition band_step :: "(u32 \<Rightarrow> u32) \<Rightarrow> u32 \<Rightarrow> band_builder \<Rightarrow> band_builder" where
  "band_step row i b =
     (if row i > bb_bandRow b then (close_band (row i) i b)\<lparr>bb_bandRow := row i\<rparr> else b)"

definition plan_bands :: "(u32 \<Rightarrow> u32) \<Rightarrow> u32 \<Rightarrow> u32 \<Rightarrow> u32 \<Rightarrow> u32 \<Rightarrow> band_builder" where
  "plan_bands row frameRows tail drawStart drawEnd =
     (let b = fold (band_step row) (idx_range drawStart drawEnd)
                \<lparr> bb_bandRow = 0, bb_applyBegin = tail, bb_bands = [] \<rparr>
      in if bb_bandRow b < frameRows then close_band frameRows drawEnd b else b)"

definition empty_frame :: "u32 \<Rightarrow> VICRasterFrame" where
  "empty_frame head = \<lparr> vf_result = VIC_RASTER_SNAPSHOT, vf_drawStart = 0, vf_drawEnd = 0, vf_tailAfter = head,
     vf_bands = [], vf_finishBegin = 0, vf_finishEnd = 0 \<rparr>"

definition one_band :: "VICRasterTiming \<Rightarrow> u32 \<Rightarrow> VICRasterBand" where
  "one_band t i = \<lparr> vb_firstRow = 0, vb_rowCount = ucast (vt_frameRows t), vb_applyBegin = i, vb_applyEnd = i \<rparr>"

definition timeline_build ::
    "vic_events option \<Rightarrow> u32 \<Rightarrow> u32 \<Rightarrow> u64 \<Rightarrow> VICRasterTiming \<Rightarrow> raster_timeline \<Rightarrow> VICRasterFrame \<times> raster_timeline" where
  "timeline_build log head now anchor t T =
     (let F = empty_frame head; tail = tl_Tail T
      in case log of
           None \<Rightarrow> (F, timeline_prime head T)
         | Some log \<Rightarrow>
             if vt_cyclesPerLine t = 0 \<or> vt_rasterLines t = 0 \<or> vt_frameRows t = 0 then (F, timeline_prime head T)
             else if \<not> tl_Primed T \<or> head - tail > of_nat SCPU_VIC_LOG_SIZE then
               (F\<lparr>vf_bands := [one_band t head]\<rparr>, timeline_prime head T)
             else if head = tail then
               (F\<lparr>vf_result := VIC_RASTER_REPLAY, vf_drawStart := tail, vf_drawEnd := tail, vf_tailAfter := tail,
                  vf_bands := [one_band t tail], vf_finishBegin := tail, vf_finishEnd := tail\<rparr>, T)
             else case scan_frames log anchor t tail (idx_range tail head)
                         \<lparr> fs_frameStart = tail, fs_previousStart = tail, fs_previousLine = - 1, fs_previousCycle = 0 \<rparr> of
               None \<Rightarrow> (F\<lparr>vf_bands := [one_band t head]\<rparr>, timeline_prime head T)
             | Some s \<Rightarrow>
                 let tailStale = now - ev_cycle (rasterEvent log (head - 1)) > (frameCycles t * 3) div 2
                 in if \<not> tailStale \<and> fs_frameStart s = tail
                    then (F\<lparr>vf_result := VIC_RASTER_HOLD, vf_tailAfter := tail\<rparr>, T)
                    else
                      let drawStart = (if tailStale then fs_frameStart s else fs_previousStart s);
                          drawEnd = (if tailStale then head else fs_frameStart s);
                          b = plan_bands (\<lambda>i. rowOfEvent (rasterEvent log i) anchor t) (vt_frameRows t) tail drawStart drawEnd
                      in (F\<lparr>vf_result := VIC_RASTER_REPLAY, vf_drawStart := drawStart, vf_drawEnd := drawEnd,
                            vf_tailAfter := drawEnd, vf_bands := bb_bands b, vf_finishBegin := bb_applyBegin b,
                            vf_finishEnd := drawEnd\<rparr>, T\<lparr>tl_Tail := drawEnd\<rparr>))"

definition varies_step :: "VICRasterTiming \<Rightarrow> u64 \<Rightarrow> VICRegWrite \<Rightarrow> u8 \<times> bool \<Rightarrow> u8 \<times> bool" where
  "varies_step t anchor e = (\<lambda>(yScroll, found).
     if found \<or> vicLogRegister e \<noteq> 0x11 then (yScroll, found)
     else
       let next = ev_value e AND 7; row = rowOfEvent e anchor t
       in if row \<ge> vt_displayFirstRow t \<and> row < vt_displayFirstRow t + vt_displayRows t \<and> next \<noteq> yScroll
          then (yScroll, True) else (next, False))"

definition yScrollVariesInDisplay :: "vic_events option \<Rightarrow> VICRasterFrame \<Rightarrow> u64 \<Rightarrow> VICRasterTiming \<Rightarrow> u8 \<Rightarrow> bool" where
  "yScrollVariesInDisplay log F anchor t initialD011 =
     (case log of
        None \<Rightarrow> False
      | Some log \<Rightarrow>
          vf_result F = VIC_RASTER_REPLAY
          \<and> snd (fold (varies_step t anchor) (map (rasterEvent log) (idx_range (vf_drawStart F) (vf_drawEnd F)))
                   (initialD011 AND 7, False)))"

section \<open>The state in force\<close>

record raster_state =
  rs_vic :: "nat \<Rightarrow> u8"
  rs_bank :: u8
  rs_spritePtr :: "nat \<Rightarrow> u8"
  rs_spritePtrValid :: bool

record VICRasterReplayBand =
  rb_firstRow :: u16
  rb_rowCount :: u16
  rb_state :: raster_state

record VICRasterReplayPlan =
  rp_result :: VICRasterFrameResult
  rp_fallback :: bool
  rp_yScrollVaries :: bool
  rp_pageCount :: u32
  rp_pageMask :: "nat \<Rightarrow> u8"
  rp_bands :: "VICRasterReplayBand list"

record raster_replay =
  rr_Timeline :: raster_timeline
  rr_State :: raster_state
  rr_Generation :: u32
  rr_Primed :: bool
  rr_Resyncs :: u32
  rr_LostEventResyncs :: u32
  rr_ResetResyncs :: u32
  rr_SnapshotFallbacks :: u32

definition no_state :: raster_state where
  "no_state = \<lparr> rs_vic = (\<lambda>_. 0), rs_bank = 0, rs_spritePtr = (\<lambda>_. 0), rs_spritePtrValid = False \<rparr>"

definition replay_new :: raster_replay where
  "replay_new = \<lparr> rr_Timeline = timeline_new, rr_State = no_state, rr_Generation = 0, rr_Primed = False, rr_Resyncs = 0,
     rr_LostEventResyncs = 0, rr_ResetResyncs = 0, rr_SnapshotFallbacks = 0 \<rparr>"

definition replay_invalidate :: "raster_replay \<Rightarrow> raster_replay" where
  "replay_invalidate R = R\<lparr>rr_Primed := False, rr_Timeline := timeline_invalidate (rr_Timeline R)\<rparr>"

definition applyEvent :: "VICRegWrite \<Rightarrow> raster_state \<Rightarrow> raster_state" where
  "applyEvent e s =
     (let reg = vicLogRegister e; v = ev_value e
      in if reg < 0x40 then
           s\<lparr>rs_spritePtrValid := (if reg = 0x18 \<and> has (rs_vic s 0x18 XOR v) 0xF0 then False else rs_spritePtrValid s),
             rs_vic := (rs_vic s)(unat reg := v)\<rparr>
         else if reg = 0x40 then
           s\<lparr>rs_spritePtrValid := (if rs_bank s XOR (v AND 3) \<noteq> 0 then False else rs_spritePtrValid s), rs_bank := v AND 3\<rparr>
         else if is_pointer_event e
         then s\<lparr>rs_spritePtr := (rs_spritePtr s)(unat (reg - VIC_LOG_REG_SPRPTR) := v)\<rparr>
         else s)"

definition apply_range :: "vic_events \<Rightarrow> u32 \<Rightarrow> u32 \<Rightarrow> raster_state \<Rightarrow> raster_state" where
  "apply_range log a b = fold applyEvent (map (rasterEvent log) (idx_range a b))"

definition spritePtrAddr :: "raster_state \<Rightarrow> u32" where
  "spritePtrAddr s = push_bit 14 (ucast (rs_bank s AND 3)) + push_bit 10 (ucast (drop_bit 4 (rs_vic s 0x18))) + 0x3F8"

definition seed_pointers :: "(u16 \<Rightarrow> u8) \<Rightarrow> raster_state \<Rightarrow> raster_state" where
  "seed_pointers ram s =
     s\<lparr>rs_spritePtr := (\<lambda>n. if n < 8 then ram (ucast (spritePtrAddr s + of_nat n)) else rs_spritePtr s n),
       rs_spritePtrValid := True\<rparr>"

definition rePrime :: "u32 \<Rightarrow> u32 \<Rightarrow> (nat \<Rightarrow> u8) option \<Rightarrow> u8 \<Rightarrow> (u16 \<Rightarrow> u8) option \<Rightarrow> raster_replay \<Rightarrow> raster_replay" where
  "rePrime head generation liveVIC liveBank liveRAM R =
     (let s = (rr_State R)\<lparr>rs_vic := (case liveVIC of Some v \<Rightarrow> v | None \<Rightarrow> (\<lambda>_. 0)), rs_bank := liveBank AND 3\<rparr>;
          s = (case liveRAM of Some ram \<Rightarrow> seed_pointers ram s
               | None \<Rightarrow> s\<lparr>rs_spritePtr := (\<lambda>_. 0), rs_spritePtrValid := False\<rparr>)
      in R\<lparr>rr_State := s, rr_Generation := generation, rr_Primed := True,
           rr_Timeline := timeline_prime head (rr_Timeline R), rr_Resyncs := rr_Resyncs R + 1\<rparr>)"

section \<open>Source pages\<close>

definition rasterSelectPage :: "u32 \<Rightarrow> VICRasterReplayPlan \<Rightarrow> VICRasterReplayPlan" where
  "rasterSelectPage page p =
     (let page = page AND 0xFF; slot = unat (drop_bit 3 page); b = push_bit (unat (page AND 7)) 1 :: u8
      in if rp_pageMask p slot AND b = 0
         then p\<lparr>rp_pageMask := (rp_pageMask p)(slot := rp_pageMask p slot OR b), rp_pageCount := rp_pageCount p + 1\<rparr>
         else p)"

definition select_pages :: "nat \<Rightarrow> nat \<Rightarrow> VICRasterReplayPlan \<Rightarrow> VICRasterReplayPlan" where
  "select_pages a b = fold (\<lambda>n. rasterSelectPage (of_nat n)) [a..<b]"

definition rasterSelectRange :: "u32 \<Rightarrow> u32 \<Rightarrow> VICRasterReplayPlan \<Rightarrow> VICRasterReplayPlan" where
  "rasterSelectRange address count p =
     (if count = 0 then p
      else
        let first = unat (drop_bit 8 (address AND 0xFFFF)); last = unat (drop_bit 8 ((address + count - 1) AND 0xFFFF))
        in if last \<ge> first then select_pages first (last + 1) p
           else select_pages 0 (last + 1) (select_pages first 256 p))"

definition band_bank :: "raster_state \<Rightarrow> u32" where
  "band_bank s = push_bit 14 (ucast (rs_bank s AND 3))"

definition band_screen :: "raster_state \<Rightarrow> u32" where
  "band_screen s = band_bank s + push_bit 10 (ucast (drop_bit 4 (rs_vic s 0x18)))"

definition graphics_pages :: "raster_state \<Rightarrow> VICRasterReplayPlan \<Rightarrow> VICRasterReplayPlan" where
  "graphics_pages s p =
     (let d011 = rs_vic s 0x11; d018 = rs_vic s 0x18;
          ecm = has d011 0x40; bmm = has d011 0x20; mcm = has (rs_vic s 0x16) 0x10;
          invalid = ecm \<and> (bmm \<or> mcm)
      in if \<not> invalid \<and> bmm then rasterSelectRange (band_bank s + (if has d018 0x08 then 0x2000 else 0)) 8192 p
         else if \<not> invalid then
           let charset = push_bit 10 (ucast (d018 AND 0x0E)) :: u32;
               charROM = (rs_bank s AND 1 = 0 \<and> charset \<ge> 0x1000 \<and> charset < 0x2000)
           in if \<not> charROM then rasterSelectRange (band_bank s + charset) 2048 p else p
         else p)"

definition sprite_pages :: "(u16 \<Rightarrow> u8) \<Rightarrow> raster_state \<Rightarrow> nat \<Rightarrow> VICRasterReplayPlan \<Rightarrow> VICRasterReplayPlan" where
  "sprite_pages ram s n p =
     (if bit (rs_vic s 0x15) n
      then rasterSelectRange (band_bank s + ucast (ram (ucast (band_screen s + 0x3F8 + of_nat n))) * 64) 64 p
      else p)"

definition band_pages :: "(u16 \<Rightarrow> u8) option \<Rightarrow> VICRasterReplayBand \<Rightarrow> VICRasterReplayPlan \<Rightarrow> VICRasterReplayPlan" where
  "band_pages liveRAM b p =
     (let s = rb_state b
      in if \<not> has (rs_vic s 0x11) 0x10 then p
         else
           let p = graphics_pages s (rasterSelectRange (band_screen s) 1024 p)
           in case liveRAM of Some ram \<Rightarrow> fold (sprite_pages ram s) [0..<8] p | None \<Rightarrow> p)"

definition collectPages :: "(u16 \<Rightarrow> u8) option \<Rightarrow> VICRasterReplayPlan \<Rightarrow> bool \<times> VICRasterReplayPlan" where
  "collectPages liveRAM p =
     (let p = fold (band_pages liveRAM) (rp_bands p) (p\<lparr>rp_pageMask := (\<lambda>_. 0), rp_pageCount := 0\<rparr>)
      in (rp_pageCount p \<le> VIC_RASTER_MAX_SNAPSHOT_PAGES, p))"

section \<open>The replay plan\<close>

definition empty_plan :: "VICRasterFrameResult \<Rightarrow> bool \<Rightarrow> VICRasterReplayPlan" where
  "empty_plan r fb = \<lparr> rp_result = r, rp_fallback = fb, rp_yScrollVaries = False, rp_pageCount = 0,
     rp_pageMask = (\<lambda>_. 0), rp_bands = [] \<rparr>"

definition makeStaticPlan ::
    "VICRasterFrameResult \<Rightarrow> VICRasterTiming \<Rightarrow> (nat \<Rightarrow> u8) option \<Rightarrow> u8 \<Rightarrow> (u16 \<Rightarrow> u8) option \<Rightarrow> bool \<Rightarrow> VICRasterReplayPlan" where
  "makeStaticPlan r t liveVIC liveBank liveRAM fb =
     snd (collectPages liveRAM
       ((empty_plan r fb)\<lparr>rp_bands := [\<lparr> rb_firstRow = 0, rb_rowCount = ucast (vt_frameRows t),
          rb_state = no_state\<lparr>rs_vic := (case liveVIC of Some v \<Rightarrow> v | None \<Rightarrow> (\<lambda>_. 0)), rs_bank := liveBank AND 3\<rparr> \<rparr>]\<rparr>))"

text \<open>The bands of a frame, each with the state in force, and the state after them.\<close>

fun replay_bands :: "vic_events \<Rightarrow> VICRasterBand list \<Rightarrow> raster_state \<Rightarrow> VICRasterReplayBand list \<times> raster_state" where
  "replay_bands log [] s = ([], s)"
| "replay_bands log (b # bs) s =
     (let s = apply_range log (vb_applyBegin b) (vb_applyEnd b) s;
          (rest, s') = replay_bands log bs s
      in (\<lparr> rb_firstRow = vb_firstRow b, rb_rowCount = vb_rowCount b, rb_state = s \<rparr> # rest, s'))"

definition replay_build ::
    "vic_events option \<Rightarrow> u32 \<Rightarrow> u32 \<Rightarrow> u64 \<Rightarrow> u32 \<Rightarrow> VICRasterTiming \<Rightarrow> (nat \<Rightarrow> u8) option \<Rightarrow> u8 \<Rightarrow> (u16 \<Rightarrow> u8) option
      \<Rightarrow> raster_replay \<Rightarrow> VICRasterReplayPlan \<times> raster_replay" where
  "replay_build log head now anchor generation t liveVIC liveBank liveRAM R =
     (let generationChanged = (rr_Primed R \<and> generation \<noteq> rr_Generation R);
          oldTail = tl_Tail (rr_Timeline R);
          lost = (rr_Primed R \<and> \<not> generationChanged \<and> head - oldTail > of_nat SCPU_VIC_LOG_SIZE)
      in if \<not> rr_Primed R \<or> generationChanged \<or> lost then
           let R = R\<lparr>rr_ResetResyncs := (if generationChanged then rr_ResetResyncs R + 1 else rr_ResetResyncs R),
                     rr_LostEventResyncs := (if lost then rr_LostEventResyncs R + 1 else rr_LostEventResyncs R)\<rparr>
           in (makeStaticPlan VIC_RASTER_SNAPSHOT t liveVIC liveBank liveRAM False,
               rePrime head generation liveVIC liveBank liveRAM R)
         else
           let (F, T) = timeline_build log head now anchor t (rr_Timeline R); R = R\<lparr>rr_Timeline := T\<rparr>
           in case (vf_result F, log) of
                (VIC_RASTER_REPLAY, Some l) \<Rightarrow>
                  let start = apply_range l oldTail (vf_drawStart F) (rr_State R);
                      (bands, s) = replay_bands l (vf_bands F) (rr_State R);
                      plan = (empty_plan VIC_RASTER_REPLAY False)\<lparr>
                        rp_yScrollVaries := yScrollVariesInDisplay log F anchor t (rs_vic start 0x11), rp_bands := bands\<rparr>;
                      s = apply_range l (vf_finishBegin F) (vf_finishEnd F) s;
                      s = (case liveRAM of Some ram \<Rightarrow> if rs_spritePtrValid s then s else seed_pointers ram s | None \<Rightarrow> s);
                      R = R\<lparr>rr_State := s\<rparr>;
                      (fits, plan) = collectPages liveRAM plan
                  in if fits then (plan, R)
                     else (makeStaticPlan VIC_RASTER_REPLAY t liveVIC liveBank liveRAM True,
                           R\<lparr>rr_SnapshotFallbacks := rr_SnapshotFallbacks R + 1\<rparr>)
              | (VIC_RASTER_HOLD, _) \<Rightarrow> (empty_plan VIC_RASTER_HOLD False, R)
              | _ \<Rightarrow> (makeStaticPlan VIC_RASTER_SNAPSHOT t liveVIC liveBank liveRAM False,
                      rePrime head generation liveVIC liveBank liveRAM R))"

end
