(* ===== verification/VicRasterPlan.thy ===== *)
theory VicRasterPlan
  imports VicRaster
begin

text \<open>
  What the raster planner plans. The builder appends bands that tile the rows and carry the log events up to the
  rows they start at (\<open>planned_builder\<close>), the frame scan finds the two newest frame starts (\<open>scan_frames_inv\<close>), and
  \<open>timeline_replay\<close> puts both together for \<open>CVICRasterTimeline::build\<close>. Last, the place of a cycle on the screen.
\<close>

unbundle bit_operations_syntax

section \<open>Index ranges\<close>

lemma unat_small: "n < 2 ^ 32 \<Longrightarrow> unat (of_nat n :: u32) = n"
  by (simp add: unsigned_of_nat take_bit_nat_eq_self_iff)

lemma idx_range_offset:
  assumes "j \<le> k" "k < 2 ^ 32"
  shows "idx_range (base + of_nat j) (base + of_nat k) = map (\<lambda>m. base + of_nat m) [j..<k]"
proof -
  have e: "base + of_nat k - (base + of_nat j) = (of_nat (k - j) :: u32)" using assms(1) by (simp add: of_nat_diff)
  have u: "unat (base + of_nat k - (base + of_nat j) :: u32) = k - j"
    unfolding e by (rule unat_small) (use assms in simp)
  have "map (\<lambda>m. base + of_nat m) [j..<k] = map (\<lambda>m. base + of_nat j + of_nat m) [0..<k - j]"
    using assms(1) by (intro nth_equalityI) (simp_all add: algebra_simps)
  then show ?thesis unfolding idx_range_def u by simp
qed

lemma idx_range_all: "idx_range base head = map (\<lambda>m. base + of_nat m) [0..<unat (head - base)]"
  by (simp add: idx_range_def)

definition log_events :: "vic_events \<Rightarrow> u32 \<Rightarrow> nat \<Rightarrow> nat \<Rightarrow> VICRegWrite list" where
  "log_events log base j k = map (\<lambda>m. rasterEvent log (base + of_nat m)) [j..<k]"

lemma apply_range_events:
  "j \<le> k \<Longrightarrow> k < 2 ^ 32 \<Longrightarrow> apply_range log (base + of_nat j) (base + of_nat k) s = fold applyEvent (log_events log base j k) s"
  by (simp add: apply_range_def idx_range_offset log_events_def comp_def)

lemma log_events_split: "i \<le> j \<Longrightarrow> j \<le> k \<Longrightarrow> log_events log base i k = log_events log base i j @ log_events log base j k"
  using upt_add_eq_append [of i j "k - j"] by (simp add: log_events_def)

lemma log_events_Cons: "j < k \<Longrightarrow> log_events log base j k = rasterEvent log (base + of_nat j) # log_events log base (Suc j) k"
  by (simp add: log_events_def upt_conv_Cons)

lemma log_events_snoc:
  "a \<le> m \<Longrightarrow> log_events log base a (Suc m) = log_events log base a m @ [rasterEvent log (base + of_nat m)]"
  by (simp add: log_events_def)

lemma log_events_empty [simp]: "log_events log base m m = []"
  by (simp add: log_events_def)

section \<open>The bands of a frame\<close>

fun tiles :: "nat \<Rightarrow> VICRasterBand list \<Rightarrow> nat \<Rightarrow> bool" where
  "tiles a [] c \<longleftrightarrow> a = c"
| "tiles a (b # bs) c \<longleftrightarrow>
     unat (vb_firstRow b) = a \<and> 0 < unat (vb_rowCount b) \<and> tiles (a + unat (vb_rowCount b)) bs c"

lemma tiles_le: "tiles a bs c \<Longrightarrow> a + length bs \<le> c"
  by (induction bs arbitrary: a) (auto, fastforce)

definition band_at :: "nat \<Rightarrow> VICRasterReplayBand list \<Rightarrow> VICRasterReplayBand option" where
  "band_at r = find (\<lambda>b. unat (rb_firstRow b) \<le> r \<and> r < unat (rb_firstRow b) + unat (rb_rowCount b))"

definition events_above :: "VICRasterTiming \<Rightarrow> u64 \<Rightarrow> nat \<Rightarrow> VICRegWrite list \<Rightarrow> VICRegWrite list" where
  "events_above t anchor r = takeWhile (\<lambda>e. unat (rowOfEvent e anchor t) \<le> r)"

lemma narrow: "unat (x :: u32) < 65536 \<Longrightarrow> unat (ucast x :: u16) = unat x"
  by (simp add: unsigned_ucast_eq take_bit_nat_eq_self_iff)

lemma replay_bands_Cons:
  "replay_bands log (b # bs) s =
     (\<lparr> rb_firstRow = vb_firstRow b, rb_rowCount = vb_rowCount b, rb_state = apply_range log (vb_applyBegin b) (vb_applyEnd b) s \<rparr>
        # fst (replay_bands log bs (apply_range log (vb_applyBegin b) (vb_applyEnd b) s)),
      snd (replay_bands log bs (apply_range log (vb_applyBegin b) (vb_applyEnd b) s)))"
  by (simp add: Let_def case_prod_unfold)

text \<open>The builder from offset \<open>m\<close> on: with the events from \<open>a\<close> to \<open>m\<close> pending, it appends bands that tile the
  rows left, the band of row \<open>r\<close> is drawn in the state after the pending events and those up to the
  first one below \<open>r\<close>, and what is not applied by then is what remains to finish.\<close>

definition planned ::
    "vic_events \<Rightarrow> u64 \<Rightarrow> VICRasterTiming \<Rightarrow> u32 \<Rightarrow> nat \<Rightarrow> nat \<Rightarrow> nat \<Rightarrow> band_builder \<Rightarrow> band_builder \<Rightarrow> bool" where
  "planned log anchor t base a m k b b' \<longleftrightarrow>
     (\<exists>new a'. bb_bands b' = bb_bands b @ new \<and> bb_applyBegin b' = base + of_nat a' \<and> a \<le> a' \<and> a' \<le> k
        \<and> tiles (unat (bb_bandRow b)) new (unat (vt_frameRows t))
        \<and> (\<forall>s. snd (replay_bands log new s) = fold applyEvent (log_events log base a a') s
             \<and> (\<forall>r. unat (bb_bandRow b) \<le> r \<and> r < unat (vt_frameRows t) \<longrightarrow>
                  map_option rb_state (band_at r (fst (replay_bands log new s)))
                  = Some (fold applyEvent (log_events log base a m @ events_above t anchor r (log_events log base m k)) s))))"

lemma unat_minus: "y \<le> x \<Longrightarrow> unat (x - y :: u32) = unat x - unat y"
  by (simp add: unat_sub)

lemma replay_snd_append: "snd (replay_bands log (xs @ ys) s) = snd (replay_bands log ys (snd (replay_bands log xs s)))"
  by (induction xs arbitrary: s) (simp_all add: replay_bands_Cons del: replay_bands.simps(2))

lemma planned_builder:
  fixes base :: u32 and log :: vic_events and anchor :: u64 and t :: VICRasterTiming
  defines "row \<equiv> \<lambda>i. rowOfEvent (rasterEvent log i) anchor t"
  assumes rows: "\<And>i. row i \<le> vt_frameRows t" and small: "unat (vt_frameRows t) < 65536" and k: "k < 2 ^ 32"
  shows "a \<le> m \<Longrightarrow> m \<le> k \<Longrightarrow> bb_bandRow b \<le> vt_frameRows t \<Longrightarrow> bb_applyBegin b = base + of_nat a \<Longrightarrow>
    planned log anchor t base a m k b
      (let b = fold (band_step row) (map (\<lambda>m. base + of_nat m) [m..<k]) b
       in if bb_bandRow b < vt_frameRows t then close_band (vt_frameRows t) (base + of_nat k) b else b)"
proof (induction "k - m" arbitrary: m a b)
  case 0
  then have m: "m = k" by simp
  show ?case
  proof (cases "bb_bandRow b < vt_frameRows t")
    case True
    let ?n = "\<lparr> vb_firstRow = ucast (bb_bandRow b), vb_rowCount = ucast (vt_frameRows t - bb_bandRow b),
        vb_applyBegin = bb_applyBegin b, vb_applyEnd = base + of_nat k \<rparr>"
    have lt: "unat (bb_bandRow b) < unat (vt_frameRows t)" using True by (simp add: word_less_nat_alt)
    have d: "unat (vt_frameRows t - bb_bandRow b) = unat (vt_frameRows t) - unat (bb_bandRow b)"
      by (rule unat_minus) (use True in simp)
    have u: "unat (ucast (bb_bandRow b) :: u16) = unat (bb_bandRow b)"
      "unat (ucast (vt_frameRows t - bb_bandRow b) :: u16) = unat (vt_frameRows t) - unat (bb_bandRow b)"
      using small lt d narrow [of "vt_frameRows t - bb_bandRow b"] by (simp_all add: narrow)
    have s: "replay_bands log [?n] z = ([\<lparr> rb_firstRow = ucast (bb_bandRow b), rb_rowCount = ucast (vt_frameRows t - bb_bandRow b),
        rb_state = fold applyEvent (log_events log base a k) z \<rparr>], fold applyEvent (log_events log base a k) z)" for z
      using 0 k m by (simp add: replay_bands_Cons apply_range_events del: replay_bands.simps(2))
    have t: "tiles (unat (bb_bandRow b)) [?n] (unat (vt_frameRows t))" using lt by (simp add: u)
    have f: "map_option rb_state (band_at r (fst (replay_bands log [?n] z))) =
        Some (fold applyEvent (log_events log base a m @ events_above t anchor r (log_events log base m k)) z)"
      if "unat (bb_bandRow b) \<le> r" "r < unat (vt_frameRows t)" for z r
      using that unfolding s by (simp add: band_at_def u m log_events_def events_above_def)
    show ?thesis
      unfolding planned_def
      by (rule exI [of _ "[?n]"], rule exI [of _ k])
        (use 0 m True t f s in \<open>simp add: close_band_def del: tiles.simps replay_bands.simps\<close>)
  next
    case False
    then have "bb_bandRow b = vt_frameRows t" using 0 by simp
    then show ?thesis
      unfolding planned_def
      by (intro exI [of _ "[]"] exI [of _ a]) (use 0 m in \<open>auto simp: log_events_def\<close>)
  qed
next
  case (Suc d)
  then have mk: "m < k" by simp
  let ?i = "base + of_nat m"
  have up: "[m..<k] = m # [Suc m..<k]" using mk by (simp add: upt_conv_Cons)
  let ?fin = "\<lambda>b. let b = fold (band_step row) (map (\<lambda>m. base + of_nat m) [Suc m..<k]) b
       in if bb_bandRow b < vt_frameRows t then close_band (vt_frameRows t) (base + of_nat k) b else b"
  have ev: "log_events log base m k = rasterEvent log ?i # log_events log base (Suc m) k" using mk by (rule log_events_Cons)
  show ?case
  proof (cases "row ?i > bb_bandRow b")
    case False
    then have st: "band_step row ?i b = b" by (simp add: band_step_def)
    have le: "unat (row ?i) \<le> unat (bb_bandRow b)" using leI [OF False] by (simp only: word_le_nat_alt)
    have "planned log anchor t base a (Suc m) k b (?fin b)" using Suc mk by simp
    then obtain new a' where P: "bb_bands (?fin b) = bb_bands b @ new" "bb_applyBegin (?fin b) = base + of_nat a'" "a \<le> a'" "a' \<le> k"
      "tiles (unat (bb_bandRow b)) new (unat (vt_frameRows t))"
      "\<And>s. snd (replay_bands log new s) = fold applyEvent (log_events log base a a') s"
      "\<And>s r. unat (bb_bandRow b) \<le> r \<Longrightarrow> r < unat (vt_frameRows t) \<Longrightarrow>
         map_option rb_state (band_at r (fst (replay_bands log new s)))
         = Some (fold applyEvent (log_events log base a (Suc m) @ events_above t anchor r (log_events log base (Suc m) k)) s)"
      unfolding planned_def by blast
    have "log_events log base a (Suc m) @ events_above t anchor r (log_events log base (Suc m) k)
        = log_events log base a m @ events_above t anchor r (log_events log base m k)" if "unat (bb_bandRow b) \<le> r" for r
      using that le Suc.prems(1) by (simp add: ev log_events_snoc events_above_def row_def)
    then show ?thesis
      unfolding planned_def up list.map fold_simps st using P by metis
  next
    case True
    let ?n = "\<lparr> vb_firstRow = ucast (bb_bandRow b), vb_rowCount = ucast (row ?i - bb_bandRow b),
        vb_applyBegin = bb_applyBegin b, vb_applyEnd = ?i \<rparr>"
    let ?b = "(close_band (row ?i) ?i b)\<lparr>bb_bandRow := row ?i\<rparr>"
    have st: "band_step row ?i b = ?b" using True by (simp add: band_step_def)
    have sm: "unat (row ?i) < 65536" using rows [of ?i] small by (simp add: word_le_nat_alt)
    have lt: "unat (bb_bandRow b) < unat (row ?i)" using True by (simp add: word_less_nat_alt)
    have u: "unat (ucast (bb_bandRow b) :: u16) = unat (bb_bandRow b)"
      "unat (ucast (row ?i - bb_bandRow b) :: u16) = unat (row ?i) - unat (bb_bandRow b)"
      using sm lt unat_minus [of "bb_bandRow b" "row ?i"] True narrow [of "row ?i - bb_bandRow b"] by (simp_all add: narrow)
    have bs: "bb_bands ?b = bb_bands b @ [?n]" "bb_applyBegin ?b = ?i" "bb_bandRow ?b = row ?i"
      by (simp_all add: close_band_def)
    have "planned log anchor t base m (Suc m) k ?b (?fin ?b)"
      using Suc mk rows by (intro Suc.hyps(1)) (simp_all add: bs)
    then obtain new a' where P: "bb_bands (?fin ?b) = bb_bands b @ ?n # new" "bb_applyBegin (?fin ?b) = base + of_nat a'" "m \<le> a'" "a' \<le> k"
      "tiles (unat (row ?i)) new (unat (vt_frameRows t))"
      "\<And>s. snd (replay_bands log new s) = fold applyEvent (log_events log base m a') s"
      "\<And>s r. unat (row ?i) \<le> r \<Longrightarrow> r < unat (vt_frameRows t) \<Longrightarrow>
         map_option rb_state (band_at r (fst (replay_bands log new s)))
         = Some (fold applyEvent (log_events log base m (Suc m) @ events_above t anchor r (log_events log base (Suc m) k)) s)"
      unfolding planned_def bs by force
    have s: "apply_range log (bb_applyBegin b) ?i s = fold applyEvent (log_events log base a m) s" for s
      using Suc.prems mk k by (simp add: apply_range_events)
    have t: "tiles (unat (bb_bandRow b)) (?n # new) (unat (vt_frameRows t))" using P(5) lt by (simp add: u)
    have e: "snd (replay_bands log (?n # new) z) = fold applyEvent (log_events log base a a') z" for z
      using Suc.prems(1) P(3) log_events_split [of a m a' log base] by (simp add: replay_bands_Cons s P(6) del: replay_bands.simps(2))
    have f: "map_option rb_state (band_at r (fst (replay_bands log (?n # new) z)))
        = Some (fold applyEvent (log_events log base a m @ events_above t anchor r (log_events log base m k)) z)"
      if r: "unat (bb_bandRow b) \<le> r" "r < unat (vt_frameRows t)" for z r
    proof (cases "r < unat (row ?i)")
      case True
      then have "events_above t anchor r (log_events log base m k) = []" by (simp add: ev events_above_def row_def)
      then show ?thesis using True r(1) lt by (simp add: replay_bands_Cons s band_at_def u del: replay_bands.simps(2))
    next
      case False
      then have "events_above t anchor r (log_events log base m k)
          = log_events log base m (Suc m) @ events_above t anchor r (log_events log base (Suc m) k)"
        by (simp add: ev log_events_snoc events_above_def row_def)
      then show ?thesis
        using False lt P(7) [of r "fold applyEvent (log_events log base a m) z"] r(2)
        by (simp add: replay_bands_Cons s band_at_def u del: replay_bands.simps(2))
    qed
    show ?thesis
      unfolding planned_def up list.map fold_simps st
      using P(1,2,4) t e f Suc.prems(1) P(3) by (intro exI [of _ "?n # new"] exI [of _ a']) auto
  qed
qed

section \<open>The scan for frame starts\<close>

definition ev_line :: "vic_events \<Rightarrow> u64 \<Rightarrow> VICRasterTiming \<Rightarrow> u32 \<Rightarrow> nat \<Rightarrow> int" where
  "ev_line log anchor t base m = lineOfEvent (rasterEvent log (base + of_nat m)) anchor t"

definition breaks :: "vic_events \<Rightarrow> u64 \<Rightarrow> VICRasterTiming \<Rightarrow> u32 \<Rightarrow> nat \<Rightarrow> bool" where
  "breaks log anchor t base m \<longleftrightarrow>
     0 < m \<and> starts_frame t (ev_line log anchor t base (m - 1)) (ev_cycle (rasterEvent log (base + of_nat (m - 1))))
               (ev_line log anchor t base m) (ev_cycle (rasterEvent log (base + of_nat m)))"

text \<open>After \<open>m\<close> events: two starts \<open>p \<le> f\<close>, no break strictly between them nor after \<open>f\<close>.\<close>

definition scan_inv :: "vic_events \<Rightarrow> u64 \<Rightarrow> VICRasterTiming \<Rightarrow> u32 \<Rightarrow> nat \<Rightarrow> nat \<Rightarrow> nat \<Rightarrow> frame_scan \<Rightarrow> bool" where
  "scan_inv log anchor t base m p f s \<longleftrightarrow>
     fs_previousStart s = base + of_nat p \<and> fs_frameStart s = base + of_nat f \<and> p \<le> f \<and> f \<le> m
     \<and> (p = f \<longrightarrow> f = 0) \<and> (0 < f \<longrightarrow> breaks log anchor t base f)
     \<and> (\<forall>q. p < q \<and> q < f \<or> f < q \<and> q < m \<longrightarrow> \<not> breaks log anchor t base q)
     \<and> (\<forall>q < m. 0 \<le> ev_line log anchor t base q)
     \<and> (0 < m \<longrightarrow> f < m \<and> fs_previousLine s = ev_line log anchor t base (m - 1)
        \<and> fs_previousCycle s = ev_cycle (rasterEvent log (base + of_nat (m - 1))))"

lemma offset_zero: "m < 2 ^ 32 \<Longrightarrow> base + of_nat m = (base :: u32) \<longleftrightarrow> m = 0"
proof
  assume m: "m < 2 ^ 32" "base + of_nat m = base"
  then have "(of_nat m :: u32) = of_nat 0" by simp
  then have "unat (of_nat m :: u32) = 0" by simp
  then show "m = 0" using unat_small [OF m(1)] by simp
qed simp

lemma scan_frames_inv:
  assumes "k < 2 ^ 32"
  shows "scan_frames log anchor t base (map (\<lambda>m. base + of_nat m) [m..<k]) s = Some s' \<Longrightarrow> m \<le> k \<Longrightarrow>
    scan_inv log anchor t base m p f s \<Longrightarrow> \<exists>p f. scan_inv log anchor t base k p f s'"
proof (induction "k - m" arbitrary: m p f s)
  case 0
  then show ?case by auto
next
  case (Suc d)
  then have mk: "m < k" by simp
  have up: "[m..<k] = m # [Suc m..<k]" using mk by (simp add: upt_conv_Cons)
  let ?e = "rasterEvent log (base + of_nat m)"
  have l: "\<not> lineOfEvent ?e anchor t < 0" using Suc.prems(1) by (auto simp: up Let_def split: if_splits)
  have z: "base + of_nat m = base \<longleftrightarrow> m = 0" by (rule offset_zero) (use mk assms in simp)
  define s1 where "s1 = (if base + of_nat m \<noteq> base \<and> starts_frame t (fs_previousLine s) (fs_previousCycle s) (lineOfEvent ?e anchor t) (ev_cycle ?e)
      then s\<lparr>fs_previousStart := fs_frameStart s, fs_frameStart := base + of_nat m\<rparr> else s)"
  define s2 where "s2 = s1\<lparr>fs_previousLine := lineOfEvent ?e anchor t, fs_previousCycle := ev_cycle ?e\<rparr>"
  have rest: "scan_frames log anchor t base (map (\<lambda>m. base + of_nat m) [Suc m..<k]) s2 = Some s'"
    using Suc.prems(1) l by (simp add: up Let_def s1_def s2_def)
  note I = Suc.prems(3) [unfolded scan_inv_def]
  have b: "breaks log anchor t base m \<longleftrightarrow> base + of_nat m \<noteq> base
      \<and> starts_frame t (fs_previousLine s) (fs_previousCycle s) (lineOfEvent ?e anchor t) (ev_cycle ?e)"
    using I z by (auto simp: breaks_def ev_line_def)
  have "\<exists>p f. scan_inv log anchor t base (Suc m) p f s2"
  proof (cases "breaks log anchor t base m")
    case True
    then have "0 < m" by (simp add: breaks_def)
    then have "f < m" using I by blast
    then have "scan_inv log anchor t base (Suc m) f m s2"
      using I True b l unfolding scan_inv_def
      by (auto simp: s2_def s1_def less_Suc_eq ev_line_def)
    then show ?thesis by blast
  next
    case False
    then have "scan_inv log anchor t base (Suc m) p f s2"
      using I b l unfolding scan_inv_def
      by (auto simp: s2_def s1_def less_Suc_eq ev_line_def)
    then show ?thesis by blast
  qed
  then obtain p f where "scan_inv log anchor t base (Suc m) p f s2" by blast
  then show ?case using Suc.hyps rest mk by (metis Suc_leI diff_Suc_1 diff_Suc_eq_diff_pred Suc_diff_Suc)
qed

section \<open>What a completed frame is\<close>

definition valid_timing :: "VICRasterTiming \<Rightarrow> bool" where
  "valid_timing t \<longleftrightarrow> 0 < unat (vt_cyclesPerLine t) \<and> unat (vt_cyclesPerLine t) < 2 ^ 31
     \<and> 0 < unat (vt_rasterLines t) \<and> unat (vt_rasterLines t) < 2 ^ 31
     \<and> 0 < unat (vt_frameRows t) \<and> unat (vt_frameRows t) \<le> VIC_RASTER_MAX_BANDS"

lemma sint_small: "unat (x :: u32) < 2 ^ 31 \<Longrightarrow> sint x = int (unat x)"
proof -
  assume "unat x < 2 ^ 31"
  then have "int (unat x) < 2 ^ 31" by (metis of_nat_less_iff of_nat_numeral of_nat_power)
  then have "uint x < 2 ^ 31" by (simp only: uint_nat)
  then have "signed_take_bit 31 (uint x) = uint x" by (intro signed_take_bit_int_eq_self) (auto intro: order_trans [OF _ unsigned_greater_eq])
  then have "sint x = uint x" by (simp add: sint_uint)
  then show ?thesis by (simp only: uint_nat)
qed

lemma row_le_frame: "unat (vt_frameRows t) < 2 ^ 31 \<Longrightarrow> rowOfEvent e anchor t \<le> vt_frameRows t"
proof -
  assume f: "unat (vt_frameRows t) < 2 ^ 31"
  have "of_int r \<le> vt_frameRows t" if r: "0 \<le> r" "r \<le> int (unat (vt_frameRows t))" for r
  proof -
    obtain n where n: "r = int n" using r(1) nonneg_int_cases by blast
    then have le: "n \<le> unat (vt_frameRows t)" using r(2) by (simp only: of_nat_le_iff)
    then have "unat (of_nat n :: u32) = n" using f by (intro unat_small) simp
    then show ?thesis using le by (simp add: n word_le_nat_alt)
  qed
  then have le: "(if r < 0 then 0 else if int (unat (vt_frameRows t)) < r then vt_frameRows t else of_int r) \<le> vt_frameRows t" for r
    by simp
  show ?thesis
  proof (cases "lineOfEvent e anchor t < 0")
    case True then show ?thesis by (simp add: rowOfEvent_def)
  next
    case False
    show ?thesis unfolding rowOfEvent_def Let_def sint_small [OF f] using False le by (simp only: if_False)
  qed
qed

section \<open>The frame the timeline selects\<close>

text \<open>The frame drawn consists of the events \<open>j\<close> to \<open>k\<close> after the tail; those before \<open>j\<close> belong to older frames,
  and those from \<open>a\<close> on take effect below the picture.\<close>

definition frame_of ::
    "vic_events \<Rightarrow> u64 \<Rightarrow> VICRasterTiming \<Rightarrow> u32 \<Rightarrow> nat \<Rightarrow> nat \<Rightarrow> nat \<Rightarrow> nat \<Rightarrow> VICRasterFrame \<Rightarrow> bool" where
  "frame_of log anchor t tail n j a k F \<longleftrightarrow>
     j \<le> k \<and> k \<le> n \<and> a \<le> k \<and> vf_drawStart F = tail + of_nat j \<and> vf_drawEnd F = tail + of_nat k
     \<and> vf_finishBegin F = tail + of_nat a \<and> vf_finishEnd F = tail + of_nat k
     \<and> (\<forall>q. j < q \<and> q < k \<longrightarrow> \<not> breaks log anchor t tail q)
     \<and> tiles 0 (vf_bands F) (unat (vt_frameRows t))
     \<and> (\<forall>s. snd (replay_bands log (vf_bands F) s) = fold applyEvent (log_events log tail 0 a) s
          \<and> (\<forall>r < unat (vt_frameRows t).
               map_option rb_state (band_at r (fst (replay_bands log (vf_bands F) s)))
               = Some (fold applyEvent (log_events log tail 0 j @ events_above t anchor r (log_events log tail j k)) s)))"

lemma one_band_tiles:
  assumes "valid_timing t" shows "tiles 0 [one_band t i] (unat (vt_frameRows t))"
proof -
  have f: "0 < unat (vt_frameRows t)" "unat (vt_frameRows t) \<le> 273"
    using assms by (simp_all add: valid_timing_def VIC_RASTER_MAX_BANDS_def)
  then show ?thesis using narrow [of "vt_frameRows t"] by (simp add: one_band_def)
qed

lemma frame_static:
  assumes "valid_timing t"
  shows "frame_of log anchor t tail n 0 0 0
     (F\<lparr>vf_result := x, vf_drawStart := tail, vf_drawEnd := tail, vf_tailAfter := tail,
        vf_bands := [one_band t tail], vf_finishBegin := tail, vf_finishEnd := tail\<rparr>)"
proof -
  have f: "0 < unat (vt_frameRows t)" "unat (vt_frameRows t) \<le> 273"
    using assms by (simp_all add: valid_timing_def VIC_RASTER_MAX_BANDS_def)
  then have u: "unat (ucast (vt_frameRows t) :: u16) = unat (vt_frameRows t)" by (simp add: narrow)
  have "apply_range log tail tail s = s" for s by (simp add: apply_range_def idx_range_def)
  then show ?thesis
    using one_band_tiles [OF assms, of tail]
    by (simp add: frame_of_def replay_bands_Cons del: replay_bands.simps(2))
      (simp add: one_band_def band_at_def u events_above_def)
qed

lemma frame_planned:
  assumes v: "valid_timing t" and jk: "j \<le> k" "k \<le> n" "n < 2 ^ 32"
    and q: "\<And>q. j < q \<Longrightarrow> q < k \<Longrightarrow> \<not> breaks log anchor t tail q"
    and b: "b = plan_bands (\<lambda>i. rowOfEvent (rasterEvent log i) anchor t) (vt_frameRows t) tail (tail + of_nat j) (tail + of_nat k)"
  shows "\<exists>a. frame_of log anchor t tail n j a k
     (F\<lparr>vf_result := x, vf_drawStart := tail + of_nat j, vf_drawEnd := tail + of_nat k, vf_tailAfter := y,
        vf_bands := bb_bands b, vf_finishBegin := bb_applyBegin b, vf_finishEnd := tail + of_nat k\<rparr>)"
proof -
  let ?b0 = "\<lparr> bb_bandRow = 0, bb_applyBegin = tail, bb_bands = [] \<rparr>"
  have f: "unat (vt_frameRows t) < 65536" "unat (vt_frameRows t) < 2 ^ 31"
    using v by (simp_all add: valid_timing_def VIC_RASTER_MAX_BANDS_def)
  have k32: "k < 2 ^ 32" using jk by simp
  have "planned log anchor t tail 0 j k ?b0
     (let b = fold (band_step (\<lambda>i. rowOfEvent (rasterEvent log i) anchor t)) (map (\<lambda>m. tail + of_nat m) [j..<k]) ?b0
      in if bb_bandRow b < vt_frameRows t then close_band (vt_frameRows t) (tail + of_nat k) b else b)"
    by (rule planned_builder [OF row_le_frame [OF f(2)] f(1) k32]) (use jk in simp_all)
  moreover have "(let b = fold (band_step (\<lambda>i. rowOfEvent (rasterEvent log i) anchor t)) (map (\<lambda>m. tail + of_nat m) [j..<k]) ?b0
      in if bb_bandRow b < vt_frameRows t then close_band (vt_frameRows t) (tail + of_nat k) b else b) = b"
    unfolding b plan_bands_def idx_range_offset [OF jk(1) k32] ..
  ultimately have "planned log anchor t tail 0 j k ?b0 b" by simp
  then obtain a where "bb_applyBegin b = tail + of_nat a" "a \<le> k" "tiles 0 (bb_bands b) (unat (vt_frameRows t))"
    "\<And>s. snd (replay_bands log (bb_bands b) s) = fold applyEvent (log_events log tail 0 a) s"
    "\<And>s r. r < unat (vt_frameRows t) \<Longrightarrow> map_option rb_state (band_at r (fst (replay_bands log (bb_bands b) s)))
       = Some (fold applyEvent (log_events log tail 0 j @ events_above t anchor r (log_events log tail j k)) s)"
    unfolding planned_def by auto
  then show ?thesis using jk q unfolding frame_of_def by (intro exI [of _ a]) simp
qed

lemma timeline_replay:
  assumes b: "timeline_build (Some log) head now anchor t T = (F, T')" and r: "vf_result F = VIC_RASTER_REPLAY"
    and v: "valid_timing t"
  shows "\<exists>j a k. frame_of log anchor t (tl_Tail T) (unat (head - tl_Tail T)) j a k F
    \<and> tl_Tail T' = tl_Tail T + of_nat k \<and> tl_Primed T' = tl_Primed T"
proof -
  let ?tail = "tl_Tail T" and ?n = "unat (head - tl_Tail T)"
  have nz: "vt_cyclesPerLine t \<noteq> 0" "vt_rasterLines t \<noteq> 0" "vt_frameRows t \<noteq> 0"
    using v by (auto simp: valid_timing_def)
  have pr: "tl_Primed T" "\<not> head - ?tail > of_nat SCPU_VIC_LOG_SIZE"
    using b r nz by (auto simp: timeline_build_def Let_def empty_frame_def split: if_splits)
  show ?thesis
  proof (cases "head = ?tail")
    case True
    then have F: "F = (empty_frame head)\<lparr>vf_result := VIC_RASTER_REPLAY, vf_drawStart := ?tail, vf_drawEnd := ?tail, vf_tailAfter := ?tail,
        vf_bands := [one_band t ?tail], vf_finishBegin := ?tail, vf_finishEnd := ?tail\<rparr>" and T': "T' = T"
      using b nz pr by (auto simp: timeline_build_def Let_def)
    show ?thesis unfolding F T' using frame_static [OF v] by (intro exI [of _ 0]) simp
  next
    case False
    let ?s0 = "\<lparr> fs_frameStart = ?tail, fs_previousStart = ?tail, fs_previousLine = - 1, fs_previousCycle = 0 \<rparr>"
    have n32: "?n < 2 ^ 32" using unsigned_less [of "head - ?tail", where 'a = nat] by simp
    obtain s where s: "scan_frames log anchor t ?tail (idx_range ?tail head) ?s0 = Some s"
      using b r nz pr False by (auto simp: timeline_build_def Let_def empty_frame_def split: option.splits)
    have "scan_inv log anchor t ?tail 0 0 0 ?s0" by (simp add: scan_inv_def)
    then obtain p f where I: "scan_inv log anchor t ?tail ?n p f s"
      using scan_frames_inv [OF n32, of log anchor t ?tail 0 ?s0 s] s unfolding idx_range_all by blast
    have n0: "0 < ?n" using False by (simp add: unat_gt_0)
    define stale where "stale \<longleftrightarrow> now - ev_cycle (rasterEvent log (head - 1)) > (frameCycles t * 3) div 2"
    have hold: "stale \<or> fs_frameStart s \<noteq> ?tail"
      using b r nz pr False s by (auto simp: timeline_build_def Let_def empty_frame_def stale_def split: if_splits)
    have hd: "head = ?tail + of_nat ?n" by simp
    obtain j k where jk: "j \<le> k" "k \<le> ?n" "(if stale then fs_frameStart s else fs_previousStart s) = ?tail + of_nat j"
      "(if stale then head else fs_frameStart s) = ?tail + of_nat k"
      "\<And>q. j < q \<Longrightarrow> q < k \<Longrightarrow> \<not> breaks log anchor t ?tail q"
    proof (cases stale)
      case True
      show ?thesis by (rule that [of f ?n]) (use I True in \<open>auto simp: scan_inv_def\<close>)
    next
      case False
      show ?thesis by (rule that [of p f]) (use I False in \<open>auto simp: scan_inv_def\<close>)
    qed
    let ?b = "plan_bands (\<lambda>i. rowOfEvent (rasterEvent log i) anchor t) (vt_frameRows t) ?tail (?tail + of_nat j) (?tail + of_nat k)"
    have "timeline_build (Some log) head now anchor t T =
      ((empty_frame head)\<lparr>vf_result := VIC_RASTER_REPLAY, vf_drawStart := ?tail + of_nat j, vf_drawEnd := ?tail + of_nat k,
          vf_tailAfter := ?tail + of_nat k, vf_bands := bb_bands ?b, vf_finishBegin := bb_applyBegin ?b,
          vf_finishEnd := ?tail + of_nat k\<rparr>, T\<lparr>tl_Tail := ?tail + of_nat k\<rparr>)"
      using nz pr False s hold jk(3,4) unfolding timeline_build_def Let_def stale_def
      by (simp only: option.case if_False simp_thms not_not de_Morgan_conj) (simp split: if_splits)
    then have F: "F = (empty_frame head)\<lparr>vf_result := VIC_RASTER_REPLAY, vf_drawStart := ?tail + of_nat j, vf_drawEnd := ?tail + of_nat k,
          vf_tailAfter := ?tail + of_nat k, vf_bands := bb_bands ?b, vf_finishBegin := bb_applyBegin ?b,
          vf_finishEnd := ?tail + of_nat k\<rparr>" and T': "T' = T\<lparr>tl_Tail := ?tail + of_nat k\<rparr>"
      using b by simp_all
    obtain a where "frame_of log anchor t ?tail ?n j a k F"
      unfolding F using frame_planned [OF v jk(1,2) n32 jk(5) refl] by blast
    then show ?thesis using T' by auto
  qed
qed

section \<open>Where a cycle is\<close>

lemma sdiv_floor: "0 < p \<Longrightarrow> (if d < 0 \<and> d smod p \<noteq> 0 then d sdiv p - 1 else d sdiv p) = d div (p :: int)"
proof -
  assume p: "0 < p"
  have "d smod p = 0 \<longleftrightarrow> p dvd d"
    using p by (auto simp: signed_modulo_int_def sgn_if mod_eq_0_iff_dvd)
  then show ?thesis
    using p unfolding divide_int_eq_signed_divide_int [of d p] by (auto simp: sgn_if)
qed

lemma smod_floor: "0 < p \<Longrightarrow> (let r = d smod p in if r < 0 then r + p else r) = d mod (p :: int)"
proof -
  assume p: "0 < p"
  show ?thesis
  proof (cases "0 \<le> d")
    case True
    then have "d smod p = d mod p" using p by (simp add: signed_modulo_int_def sgn_if)
    then show ?thesis using pos_mod_sign [OF p, of d] by (simp add: Let_def not_less)
  next
    case False
    then have d: "d smod p = - ((- d) mod p)" using p by (simp add: signed_modulo_int_def sgn_if)
    show ?thesis
    proof (cases "(- d) mod p = 0")
      case True
      then have "d mod p = 0" by (metis minus_minus mod_minus_eq mod_0 minus_zero)
      then show ?thesis using True d by simp
    next
      case n: False
      then have "0 < (- d) mod p" using p by (metis pos_mod_sign less_le)
      moreover have "d mod p = p - (- d) mod p" using zmod_zminus1_eq_if [of "- d" p] n by simp
      ultimately show ?thesis using d by simp
    qed
  qed
qed

text \<open>A logged cycle is placed on the raster line the beam was on: with the anchor saying that the beam entered
  line \<open>anchor AND 0x1FF\<close> at the anchor's cycle, the line is the anchor's line advanced by the whole lines
  between the two (rounded down, also for cycles before the anchor) and reduced modulo the
  lines of the frame, so it is always a line of the frame.\<close>

theorem lineOfCycle_floor:
  assumes "valid_timing t" "bit anchor 63"
  shows "lineOfCycle cycle anchor t =
      (uint (anchor AND 0x1FF) + sint (cycle - ucast (drop_bit 16 anchor)) div int (unat (vt_cyclesPerLine t)))
      mod int (unat (vt_rasterLines t))
    \<and> 0 \<le> lineOfCycle cycle anchor t \<and> lineOfCycle cycle anchor t < int (unat (vt_rasterLines t))"
proof -
  have s: "sint (vt_cyclesPerLine t) = int (unat (vt_cyclesPerLine t))" "sint (vt_rasterLines t) = int (unat (vt_rasterLines t))"
    "0 < int (unat (vt_cyclesPerLine t))" "0 < int (unat (vt_rasterLines t))"
    using assms(1) by (simp_all only: valid_timing_def sint_small of_nat_0_less_iff)
  have nz: "vt_cyclesPerLine t \<noteq> 0" "vt_rasterLines t \<noteq> 0" using assms(1) by (auto simp: valid_timing_def)
  have a: "drop_bit 63 anchor \<noteq> 0"
  proof
    assume "drop_bit 63 anchor = 0"
    then have "\<not> bit (drop_bit 63 anchor) 0" by simp
    then show False using assms(2) by (simp add: bit_drop_bit_eq)
  qed
  have m: "(ucast (drop_bit 16 anchor AND 0xFFFFFFFF) :: u32) = ucast (drop_bit 16 anchor)"
  proof -
    have e: "(0xFFFFFFFF :: u64) = mask 32" by (simp add: mask_eq_exp_minus_1)
    show ?thesis unfolding e by (intro bit_word_eqI) (auto simp: bit_simps)
  qed
  have "lineOfCycle cycle anchor t =
      (uint (anchor AND 0x1FF) + sint (cycle - ucast (drop_bit 16 anchor)) div int (unat (vt_cyclesPerLine t)))
      mod int (unat (vt_rasterLines t))"
    unfolding lineOfCycle_def Let_def m s(1,2) sdiv_floor [OF s(3)] using nz a
    by (simp only: if_False simp_thms smod_floor [OF s(4), unfolded Let_def])
  then show ?thesis using s(4) by (simp only: pos_mod_sign pos_mod_bound simp_thms)
qed

end
