(* ===== verification/VicRasterProps.thy ===== *)
theory VicRasterProps
  imports VicRasterPlan
begin

text \<open>
  Properties of the replay planner (\<open>CVICRasterReplay\<close>): the source pages the snapshot holds, the state every row is
  drawn in, and a concrete frame that serves as witness and shows the pages chosen without the tracked sprite
  pointers.
\<close>

unbundle bit_operations_syntax

section \<open>The page set\<close>

definition page_selected :: "VICRasterReplayPlan \<Rightarrow> nat \<Rightarrow> bool" where
  "page_selected p n \<longleftrightarrow> bit (rp_pageMask p (n div 8)) (n mod 8)"


definition pages_counted :: "VICRasterReplayPlan \<Rightarrow> bool" where
  "pages_counted p \<longleftrightarrow> unat (rp_pageCount p) = card {n. n < 256 \<and> page_selected p n}"

lemma unat_shift_right: "unat (drop_bit n x) = unat x div 2 ^ n" for x :: u32
  unfolding unsigned_drop_bit_eq using unsigned_less [of x, where 'a = nat]
  by (simp add: drop_bit_eq_div take_bit_nat_eq_self)

lemma unat_low_bits: "unat (x AND mask n) = unat x mod 2 ^ n" for x :: u32
proof -
  have "unat (x AND mask n) = unat (take_bit n x)" by (simp only: take_bit_eq_mask)
  also have "\<dots> = take_bit n (unat x)" by (rule unsigned_take_bit_eq)
  finally show ?thesis by (simp only: take_bit_eq_mod)
qed

lemma page_parts:
  "unat (drop_bit 3 (page AND 0xFF) :: u32) = unat (page AND 0xFF) div 8" "unat ((page AND 0xFF) AND 7 :: u32) = unat (page AND 0xFF) mod 8"
  "unat (page AND 0xFF :: u32) < 256"
proof -
  show "unat (drop_bit 3 (page AND 0xFF) :: u32) = unat (page AND 0xFF) div 8" by (simp only: unat_shift_right) simp
  have e: "(7 :: u32) = mask 3" by (simp add: mask_eq_exp_minus_1)
  show "unat ((page AND 0xFF) AND 7 :: u32) = unat (page AND 0xFF) mod 8"
    unfolding e unat_low_bits by simp
  have "page AND 0xFF \<le> 0xFF" by (rule word_and_le1)
  then show "unat (page AND 0xFF) < 256" by (simp add: word_le_nat_alt)
qed

lemma and_bit_zero: "n < 8 \<Longrightarrow> x AND push_bit n 1 = (0 :: u8) \<longleftrightarrow> \<not> bit x n"
proof -
  assume n: "n < 8"
  have b: "bit (push_bit n 1 :: u8) m \<longleftrightarrow> m = n" for m
    using n by (auto simp: bit_push_bit_iff bit_1_iff simp del: push_bit_of_1)
  show ?thesis
  proof
    assume "x AND push_bit n 1 = 0"
    then have "\<not> bit (x AND push_bit n 1) n" by (simp only: bit_0_eq bot_fun_def) simp
    then show "\<not> bit x n" by (simp only: bit_and_iff b) simp
  next
    assume "\<not> bit x n"
    then have "bit (x AND push_bit n 1) m = bit (0 :: u8) m" for m by (simp only: bit_and_iff b bit_0_eq) auto
    then show "x AND push_bit n 1 = 0" by (intro bit_word_eqI)
  qed
qed

lemmas and_exp_zero = and_bit_zero [unfolded push_bit_of_1]

lemma select_page_eq:
  "rasterSelectPage page p =
     (if rp_pageMask p (unat (page AND 0xFF) div 8) AND 2 ^ (unat (page AND 0xFF) mod 8) = 0
      then p\<lparr>rp_pageMask := (rp_pageMask p)(unat (page AND 0xFF) div 8 :=
                rp_pageMask p (unat (page AND 0xFF) div 8) OR 2 ^ (unat (page AND 0xFF) mod 8)),
              rp_pageCount := rp_pageCount p + 1\<rparr>
      else p)"
  unfolding rasterSelectPage_def Let_def page_parts push_bit_of_1 ..

lemma exp_bit: "n < 8 \<Longrightarrow> bit (2 ^ n :: u8) m \<longleftrightarrow> m = n"
  by (auto simp: bit_exp_iff)

lemma select_page:
  "page_selected (rasterSelectPage page p) m \<longleftrightarrow> page_selected p m \<or> m = unat (page AND 0xFF)"
proof -
  let ?n = "unat (page AND 0xFF)"
  have e: "m = ?n \<longleftrightarrow> m div 8 = ?n div 8 \<and> m mod 8 = ?n mod 8" by (metis div_mult_mod_eq)
  have b: "bit (x OR 2 ^ (?n mod 8) :: u8) (m mod 8) \<longleftrightarrow> bit x (m mod 8) \<or> m mod 8 = ?n mod 8" for x
    by (simp add: bit_or_iff exp_bit)
  show ?thesis
    using and_exp_zero [of "?n mod 8" "rp_pageMask p (?n div 8)"]
    by (auto simp: select_page_eq page_selected_def b e)
qed

lemma select_page_counted: "pages_counted p \<Longrightarrow> pages_counted (rasterSelectPage page p)"
proof -
  assume c: "pages_counted p"
  let ?n = "unat (page AND 0xFF)" and ?S = "{n. n < 256 \<and> page_selected p n}"
  have z: "rp_pageMask p (?n div 8) AND 2 ^ (?n mod 8) = 0 \<longleftrightarrow> \<not> page_selected p ?n"
    by (simp add: and_exp_zero page_selected_def)
  show ?thesis
  proof (cases "page_selected p ?n")
    case True
    then have "rasterSelectPage page p = p" using z by (simp add: select_page_eq)
    then show ?thesis using c by simp
  next
    case False
    have S: "{n. n < 256 \<and> page_selected (rasterSelectPage page p) n} = insert ?n ?S"
      using page_parts(3) [of page] by (auto simp: select_page)
    have "?S \<subset> {..<256}" using False page_parts(3) [of page] by auto
    then have lt: "card ?S < 256" using psubset_card_mono [of "{..<256}" ?S] by simp
    have "rp_pageCount (rasterSelectPage page p) = rp_pageCount p + 1"
      using False z by (simp add: select_page_eq)
    moreover have "unat (rp_pageCount p + 1) = card ?S + 1"
    proof -
      have "unat (rp_pageCount p) = card ?S" using c by (simp add: pages_counted_def)
      then show ?thesis using lt by (simp add: unat_word_ariths)
    qed
    ultimately show ?thesis using False by (simp add: pages_counted_def S)
  qed
qed


definition page_frame :: "VICRasterReplayPlan \<Rightarrow> VICRasterReplayPlan \<Rightarrow> bool" where
  "page_frame p q \<longleftrightarrow> rp_bands q = rp_bands p \<and> rp_result q = rp_result p \<and> rp_fallback q = rp_fallback p
     \<and> rp_yScrollVaries q = rp_yScrollVaries p \<and> (pages_counted p \<longrightarrow> pages_counted q)
     \<and> (\<forall>m. page_selected p m \<longrightarrow> page_selected q m)"

lemma page_frame_refl [simp]: "page_frame p p"
  by (simp add: page_frame_def)

lemma page_frame_trans: "page_frame p q \<Longrightarrow> page_frame q r \<Longrightarrow> page_frame p r"
  by (simp add: page_frame_def)

lemma page_frame_fold: "(\<And>x p. page_frame p (f x p)) \<Longrightarrow> page_frame p (fold f xs p)"
  by (induction xs arbitrary: p) (auto intro: page_frame_trans)

lemma page_frame_select: "page_frame p (rasterSelectPage page p)"
proof -
  have "rp_bands (rasterSelectPage page p) = rp_bands p \<and> rp_result (rasterSelectPage page p) = rp_result p
      \<and> rp_fallback (rasterSelectPage page p) = rp_fallback p \<and> rp_yScrollVaries (rasterSelectPage page p) = rp_yScrollVaries p"
    by (simp add: rasterSelectPage_def Let_def)
  then show ?thesis by (simp add: page_frame_def select_page_counted select_page)
qed

lemma page_frame_steps:
  "page_frame p (select_pages a b p)" "page_frame p (rasterSelectRange addr n p)"
proof -
  show s: "page_frame p (select_pages a b p)" for a b p
    unfolding select_pages_def by (rule page_frame_fold) (rule page_frame_select)
  show "page_frame p (rasterSelectRange addr n p)"
    by (auto simp: rasterSelectRange_def Let_def intro: s page_frame_trans [OF s s])
qed

lemma page_frame_band: "page_frame p (graphics_pages s p)" "page_frame p (sprite_pages ram s n p)" "page_frame p (band_pages liveRAM b p)"
proof -
  show g: "page_frame p (graphics_pages s p)" for s p by (simp add: graphics_pages_def Let_def page_frame_steps)
  show sp: "page_frame p (sprite_pages ram s n p)" for ram s n p by (simp add: sprite_pages_def page_frame_steps)
  have "page_frame p (graphics_pages (rb_state b) (rasterSelectRange (band_screen (rb_state b)) 1024 p))"
    by (rule page_frame_trans [OF page_frame_steps(2) g])
  then show "page_frame p (band_pages liveRAM b p)"
    by (auto simp: band_pages_def Let_def split: option.split intro: page_frame_trans [OF _ page_frame_fold] sp)
qed

lemma collectPages_frame:
  "rp_bands (snd (collectPages liveRAM p)) = rp_bands p" "rp_result (snd (collectPages liveRAM p)) = rp_result p"
  "rp_fallback (snd (collectPages liveRAM p)) = rp_fallback p" "rp_yScrollVaries (snd (collectPages liveRAM p)) = rp_yScrollVaries p"
  "pages_counted (snd (collectPages liveRAM p))"
proof -
  let ?p = "p\<lparr>rp_pageMask := (\<lambda>_. 0), rp_pageCount := 0\<rparr>"
  have f: "page_frame ?p (fold (band_pages liveRAM) (rp_bands p) ?p)" by (rule page_frame_fold) (rule page_frame_band)
  have c: "pages_counted ?p" by (simp add: pages_counted_def page_selected_def)
  show "rp_bands (snd (collectPages liveRAM p)) = rp_bands p" "rp_result (snd (collectPages liveRAM p)) = rp_result p"
    "rp_fallback (snd (collectPages liveRAM p)) = rp_fallback p" "rp_yScrollVaries (snd (collectPages liveRAM p)) = rp_yScrollVaries p"
    "pages_counted (snd (collectPages liveRAM p))"
    using f c by (simp_all add: collectPages_def Let_def page_frame_def)
qed


section \<open>The pages a band needs\<close>



















section \<open>The frame the plan shows\<close>

lemma makeStaticPlan_result: "rp_result (makeStaticPlan r t v b ram fb) = r" "rp_fallback (makeStaticPlan r t v b ram fb) = fb"
  by (simp_all add: makeStaticPlan_def collectPages_frame empty_plan_def)

text \<open>A plan that replays events, without the fallback, comes from the timeline.\<close>

lemma replay_from_timeline:
  assumes b: "replay_build (Some log) head now anchor generation t liveVIC liveBank liveRAM R = (p, R')"
    and r: "rp_result p = VIC_RASTER_REPLAY" "\<not> rp_fallback p"
  obtains F T where "timeline_build (Some log) head now anchor t (rr_Timeline R) = (F, T)" "vf_result F = VIC_RASTER_REPLAY"
    "rr_Timeline R' = T" "rp_bands p = fst (replay_bands log (vf_bands F) (rr_State R))"
    "rp_pageCount p \<le> VIC_RASTER_MAX_SNAPSHOT_PAGES"
    "\<exists>p0. p = snd (collectPages liveRAM p0)"
    "rr_State R' =
       (let s = apply_range log (vf_finishBegin F) (vf_finishEnd F) (snd (replay_bands log (vf_bands F) (rr_State R)))
        in case liveRAM of Some ram \<Rightarrow> if rs_spritePtrValid s then s else seed_pointers ram s | None \<Rightarrow> s)"
proof -
  define resync where "resync \<longleftrightarrow> \<not> rr_Primed R \<or> rr_Primed R \<and> generation \<noteq> rr_Generation R
    \<or> rr_Primed R \<and> \<not> (rr_Primed R \<and> generation \<noteq> rr_Generation R) \<and> head - tl_Tail (rr_Timeline R) > of_nat SCPU_VIC_LOG_SIZE"
  have nr: "\<not> resync"
  proof
    assume "resync"
    then have "rp_result p = VIC_RASTER_SNAPSHOT"
      using b by (auto simp: replay_build_def Let_def resync_def makeStaticPlan_result)
    then show False using r by simp
  qed
  obtain F T where FT: "timeline_build (Some log) head now anchor t (rr_Timeline R) = (F, T)" by fastforce
  have F: "vf_result F = VIC_RASTER_REPLAY"
  proof (cases "vf_result F")
    case VIC_RASTER_SNAPSHOT
    then have "rp_result p = VIC_RASTER_SNAPSHOT"
      using b nr FT by (auto simp: replay_build_def Let_def resync_def makeStaticPlan_result)
    then show ?thesis using r by simp
  next
    case VIC_RASTER_HOLD
    then have "rp_result p = VIC_RASTER_HOLD"
      using b nr FT by (auto simp: replay_build_def Let_def resync_def empty_plan_def)
    then show ?thesis using r by simp
  qed
  define start where "start = apply_range log (tl_Tail (rr_Timeline R)) (vf_drawStart F) (rr_State R)"
  define bs where "bs = replay_bands log (vf_bands F) (rr_State R)"
  define p0 where "p0 = (empty_plan VIC_RASTER_REPLAY False)\<lparr>
      rp_yScrollVaries := yScrollVariesInDisplay (Some log) F anchor t (rs_vic start 0x11), rp_bands := fst bs\<rparr>"
  define s1 where "s1 = apply_range log (vf_finishBegin F) (vf_finishEnd F) (snd bs)"
  define s2 where "s2 = (case liveRAM of Some ram \<Rightarrow> if rs_spritePtrValid s1 then s1 else seed_pointers ram s1 | None \<Rightarrow> s1)"
  have e: "replay_build (Some log) head now anchor generation t liveVIC liveBank liveRAM R =
      (if fst (collectPages liveRAM p0) then (snd (collectPages liveRAM p0), R\<lparr>rr_Timeline := T, rr_State := s2\<rparr>)
       else (makeStaticPlan VIC_RASTER_REPLAY t liveVIC liveBank liveRAM True,
             R\<lparr>rr_Timeline := T, rr_State := s2, rr_SnapshotFallbacks := rr_SnapshotFallbacks R + 1\<rparr>))"
    using nr FT F unfolding p0_def s2_def s1_def bs_def start_def
    by (simp add: replay_build_def Let_def resync_def case_prod_unfold)
  have fits: "fst (collectPages liveRAM p0)"
  proof (rule ccontr)
    assume "\<not> ?thesis"
    then show False using e b r by (auto simp: makeStaticPlan_result)
  qed
  have p: "p = snd (collectPages liveRAM p0)" "R' = R\<lparr>rr_Timeline := T, rr_State := s2\<rparr>"
    using e b fits by (auto split: if_splits)
  show ?thesis
  proof (rule that [OF FT F])
    show "rr_Timeline R' = T" by (simp add: p)
    show "rp_bands p = fst (replay_bands log (vf_bands F) (rr_State R))"
      by (simp add: p collectPages_frame p0_def bs_def)
    show "rp_pageCount p \<le> VIC_RASTER_MAX_SNAPSHOT_PAGES"
      using fits by (simp add: p collectPages_def Let_def)
    show "\<exists>p0. p = snd (collectPages liveRAM p0)" using p by blast
    show "rr_State R' = (let s = apply_range log (vf_finishBegin F) (vf_finishEnd F) (snd (replay_bands log (vf_bands F) (rr_State R)))
        in case liveRAM of Some ram \<Rightarrow> if rs_spritePtrValid s then s else seed_pointers ram s | None \<Rightarrow> s)"
      unfolding p(2) s2_def s1_def bs_def Let_def by simp
  qed
qed

text \<open>C27. A replayed frame is drawn exactly as the log says. Of the \<open>n\<close> events logged since the last frame, those
  from \<open>j\<close> to \<open>k\<close> make up the frame, no frame begins strictly between them, and the tail moves to \<open>k\<close>. Every
  row of the picture lies in a band, and the band's registers, bank and sprite pointers are those of the planner's
  state after the events of older frames (before \<open>j\<close>) and the frame's own events up to the first one that takes effect
  below the row. The registers and bank the next frame starts from are those after all \<open>k\<close> events: nothing is lost and nothing
  is applied twice.\<close>

theorem raster_replay_exact:
  assumes "replay_build (Some log) head now anchor generation t liveVIC liveBank liveRAM R = (p, R')"
    and "rp_result p = VIC_RASTER_REPLAY" "\<not> rp_fallback p" "valid_timing t"
    and tail: "tail = tl_Tail (rr_Timeline R)" and n: "n = unat (head - tail)"
  shows "\<exists>j k. j \<le> k \<and> k \<le> n \<and> tl_Tail (rr_Timeline R') = tail + of_nat k
    \<and> (\<forall>q. j < q \<and> q < k \<longrightarrow> \<not> breaks log anchor t tail q)
    \<and> (\<forall>r < unat (vt_frameRows t). map_option rb_state (band_at r (rp_bands p)) =
          Some (fold applyEvent (log_events log tail 0 j @ events_above t anchor r (log_events log tail j k)) (rr_State R)))
    \<and> rs_vic (rr_State R') = rs_vic (fold applyEvent (log_events log tail 0 k) (rr_State R))
    \<and> rs_bank (rr_State R') = rs_bank (fold applyEvent (log_events log tail 0 k) (rr_State R))"
proof -
  obtain F T where F: "timeline_build (Some log) head now anchor t (rr_Timeline R) = (F, T)" "vf_result F = VIC_RASTER_REPLAY"
    "rr_Timeline R' = T" "rp_bands p = fst (replay_bands log (vf_bands F) (rr_State R))"
    "rr_State R' =
       (let s = apply_range log (vf_finishBegin F) (vf_finishEnd F) (snd (replay_bands log (vf_bands F) (rr_State R)))
        in case liveRAM of Some ram \<Rightarrow> if rs_spritePtrValid s then s else seed_pointers ram s | None \<Rightarrow> s)"
    by (rule replay_from_timeline [OF assms(1-3)])
  obtain j a k where f: "frame_of log anchor t tail n j a k F" "tl_Tail T = tail + of_nat k"
    using timeline_replay [OF F(1,2) assms(4)] tail n by blast
  have k: "j \<le> k" "k \<le> n" "a \<le> k" "k < 2 ^ 32"
    using f(1) n unsigned_less [of "head - tail", where 'a = nat] by (auto simp: frame_of_def)
  have s: "snd (replay_bands log (vf_bands F) (rr_State R)) = fold applyEvent (log_events log tail 0 a) (rr_State R)"
    "vf_finishBegin F = tail + of_nat a" "vf_finishEnd F = tail + of_nat k"
    using f(1) by (simp_all add: frame_of_def)
  define z where "z = fold applyEvent (log_events log tail 0 k) (rr_State R)"
  have z: "apply_range log (vf_finishBegin F) (vf_finishEnd F) (snd (replay_bands log (vf_bands F) (rr_State R))) = z"
    unfolding s apply_range_events [OF k(3,4)] z_def log_events_split [OF le0 k(3)] by simp
  have e: "rs_vic (rr_State R') = rs_vic z" "rs_bank (rr_State R') = rs_bank z"
    unfolding F(5) z Let_def by (simp_all add: seed_pointers_def split: option.split)
  show ?thesis
    unfolding F(3,4) using f k e unfolding frame_of_def z_def by (intro exI [of _ j] exI [of _ k]) simp
qed

text \<open>The bands of a replayed frame are a partition of its rows: from row 0 without gap or overlap to the last row,
  each of at least one row, so at most 273 of them, which is the size of the band array.\<close>

theorem raster_bands_tile:
  assumes "timeline_build (Some log) head now anchor t T = (F, T')" "vf_result F = VIC_RASTER_REPLAY" "valid_timing t"
  shows "tiles 0 (vf_bands F) (unat (vt_frameRows t)) \<and> length (vf_bands F) \<le> VIC_RASTER_MAX_BANDS"
proof -
  obtain j a k where "frame_of log anchor t (tl_Tail T) (unat (head - tl_Tail T)) j a k F"
    using timeline_replay [OF assms] by blast
  then have t: "tiles 0 (vf_bands F) (unat (vt_frameRows t))" by (simp add: frame_of_def)
  then have "length (vf_bands F) \<le> unat (vt_frameRows t)" using tiles_le by fastforce
  then show ?thesis using t assms(3) by (simp add: valid_timing_def VIC_RASTER_MAX_BANDS_def)
qed

section \<open>A frame, concretely\<close>

definition pal_timing :: VICRasterTiming where
  "pal_timing = \<lparr> vt_cyclesPerLine = 63, vt_rasterLines = 312, vt_frameRows = 272, vt_topRaster = 16, vt_displayFirstRow = 35, vt_displayRows = 200 \<rparr>"

lemma pal_valid: "valid_timing pal_timing"
  by (simp add: valid_timing_def pal_timing_def VIC_RASTER_MAX_BANDS_def)

section \<open>A concrete frame\<close>

text \<open>A PAL frame with sprite 0 enabled: its pointer is rewritten to \<open>0x20\<close> at line 60 and back to \<open>0x10\<close>
  at line 150; the write at line 20 belongs to the next frame.\<close>

definition line_write :: "u16 \<Rightarrow> u8 \<Rightarrow> u16 \<Rightarrow> u32 \<Rightarrow> VICRegWrite" where
  "line_write reg v line cycle =
     \<lparr> ev_cycle = cycle, ev_reg = reg OR VIC_LOG_LINE_VALID OR (if has line 0x100 then VIC_LOG_LINE_HIGH else 0),
       ev_value = v, ev_lineLow = ucast line \<rparr>"

definition multiplexer_log :: vic_events where
  "multiplexer_log n =
     (if n = 0 then line_write 0x50 0x20 60 (60 * 63)
      else if n = 1 then line_write 0x50 0x10 150 (150 * 63)
      else line_write 0x20 0 20 (332 * 63))"

definition sprite_vic :: "nat \<Rightarrow> u8" where
  "sprite_vic r = (if r = 0x11 then 0x1B else if r = 0x15 then 1 else if r = 0x18 then 0x14 else 0)"

definition sprite_ram :: "u16 \<Rightarrow> u8" where
  "sprite_ram a = (if a = 0x7F8 then 0x10 else 0)"

definition multiplexer_start :: raster_replay where
  "multiplexer_start = rePrime 0 0 (Some sprite_vic) 0 (Some sprite_ram) replay_new"

definition multiplexer_frame :: "VICRasterReplayPlan \<times> raster_replay" where
  "multiplexer_frame = replay_build (Some multiplexer_log) 3 (332 * 63) 0 0 pal_timing (Some sprite_vic) 0 (Some sprite_ram) multiplexer_start"

lemma multiplexer_result:
  "rp_result (fst multiplexer_frame) = VIC_RASTER_REPLAY \<and> \<not> rp_fallback (fst multiplexer_frame)"
  by code_simp

lemma multiplexer_bands:
  "map (\<lambda>b. (rb_firstRow b, rb_rowCount b, rs_spritePtr (rb_state b) 0)) (rp_bands (fst multiplexer_frame)) = [(0, 45, 0x10), (45, 90, 0x20), (135, 137, 0x10)]"
  by code_simp

lemma multiplexer_page: "\<not> page_selected (fst multiplexer_frame) 8"
  by code_simp

lemma multiplexer_split: "multiplexer_frame = (fst multiplexer_frame, snd multiplexer_frame)"
  by simp


theorem raster_replay_exact_witness:
  "\<exists>j k. j \<le> k \<and> k \<le> 3 \<and> tl_Tail (rr_Timeline (snd multiplexer_frame)) = 0 + of_nat k
    \<and> (\<forall>q. j < q \<and> q < k \<longrightarrow> \<not> breaks multiplexer_log 0 pal_timing 0 q)
    \<and> (\<forall>r < unat (vt_frameRows pal_timing). map_option rb_state (band_at r (rp_bands (fst multiplexer_frame))) =
          Some (fold applyEvent (log_events multiplexer_log 0 0 j @ events_above pal_timing 0 r (log_events multiplexer_log 0 j k))
            (rr_State multiplexer_start)))
    \<and> rs_vic (rr_State (snd multiplexer_frame)) = rs_vic (fold applyEvent (log_events multiplexer_log 0 0 k) (rr_State multiplexer_start))
    \<and> rs_bank (rr_State (snd multiplexer_frame)) = rs_bank (fold applyEvent (log_events multiplexer_log 0 0 k) (rr_State multiplexer_start))"
proof -
  have e: "replay_build (Some multiplexer_log) 3 (332 * 63) 0 0 pal_timing (Some sprite_vic) 0 (Some sprite_ram) multiplexer_start
      = (fst multiplexer_frame, snd multiplexer_frame)" by (simp add: multiplexer_frame_def)
  have t: "0 = tl_Tail (rr_Timeline multiplexer_start)" by code_simp
  have n: "3 = unat (3 - 0 :: u32)" by code_simp
  show ?thesis
    by (rule raster_replay_exact [OF e conjunct1 [OF multiplexer_result] conjunct2 [OF multiplexer_result] pal_valid t n])
qed

definition multiplexer_cut :: "VICRasterFrame \<times> raster_timeline" where
  "multiplexer_cut = timeline_build (Some multiplexer_log) 3 (332 * 63) 0 pal_timing (timeline_prime 0 timeline_new)"

lemma multiplexer_cut_result: "vf_result (fst multiplexer_cut) = VIC_RASTER_REPLAY"
  by code_simp

theorem raster_bands_tile_witness:
  "tiles 0 (vf_bands (fst multiplexer_cut)) 272 \<and> length (vf_bands (fst multiplexer_cut)) \<le> VIC_RASTER_MAX_BANDS"
proof -
  have "timeline_build (Some multiplexer_log) 3 (332 * 63) 0 pal_timing (timeline_prime 0 timeline_new) = (fst multiplexer_cut, snd multiplexer_cut)"
    by (simp add: multiplexer_cut_def)
  from raster_bands_tile [OF this multiplexer_cut_result pal_valid] show ?thesis by (simp add: pal_timing_def)
qed

theorem lineOfCycle_floor_witness: "lineOfCycle 1 0x80000000003F0007 pal_timing = 6 \<and> lineOfCycle 1 0x80000000003F0000 pal_timing = 311"
  using lineOfCycle_floor [OF pal_valid, of "0x80000000003F0007" 1] lineOfCycle_floor [OF pal_valid, of "0x80000000003F0000" 1]
  by (simp add: pal_timing_def)



end
