(* ===== verification/VicRenderer.thy ===== *)
theory VicRenderer
  imports Prelude
begin

text \<open>
  The picture renderer of the HDMI output (\<open>Source/Video/vic_renderer.h\<close>, \<open>vic_renderer.cpp\<close>): from an immutable
  snapshot of the VIC-II registers, its RAM and the colour RAM to one-byte colour indices, with the sprite
  sequencer and the collision latches.

  Arrays are functions of the index; a null pointer is \<open>None\<close>. A pixel buffer is a function of the byte offset,
  and \<open>dst = pixels + (y - firstRow) * pitch\<close> is the view from that offset on. Rows, columns and loop counters stay below
  600 and are \<open>nat\<close>, the signed screen coordinates \<open>int\<close>; the pitch is a \<open>nat\<close> (a frame of 272 rows fits the 32-bit
  offset for every pitch below 15 MB). \<open>mask = 1u << n\<close> with \<open>|= mask\<close> and \<open>&= ~mask\<close> is \<open>set_bit n\<close> and
  \<open>unset_bit n\<close>.
\<close>

unbundle bit_operations_syntax

section \<open>Types\<close>

definition VIC_RENDER_WIDTH :: nat where "VIC_RENDER_WIDTH = 384"
definition VIC_RENDER_HEIGHT :: nat where "VIC_RENDER_HEIGHT = 272"
definition VIC_RENDER_DISPLAY_X :: nat where "VIC_RENDER_DISPLAY_X = 32"
definition VIC_RENDER_DISPLAY_Y :: nat where "VIC_RENDER_DISPLAY_Y = 35"
definition VIC_RENDER_DISPLAY_W :: nat where "VIC_RENDER_DISPLAY_W = 320"
definition VIC_RENDER_DISPLAY_H :: nat where "VIC_RENDER_DISPLAY_H = 200"

datatype VICRenderMode = VIC_RENDER_BLANK | VIC_RENDER_STANDARD_TEXT | VIC_RENDER_MULTICOLOR_TEXT | VIC_RENDER_EXTENDED_TEXT
  | VIC_RENDER_STANDARD_BITMAP | VIC_RENDER_MULTICOLOR_BITMAP | VIC_RENDER_INVALID | VIC_RENDER_UNSUPPORTED

record VICRenderCollisions =
  vc_spriteSprite :: u8
  vc_spriteBackground :: u8

record VICRenderSpriteSequencer =
  sq_active :: u8
  sq_expanded :: u8
  sq_y :: "nat \<Rightarrow> u8"
  sq_rowsLeft :: "nat \<Rightarrow> u8"
  sq_nextRow :: u16
  sq_primed :: bool

record VICRenderState =
  vr_ram :: "(u16 \<Rightarrow> u8) option"
  vr_charROM :: "(u16 \<Rightarrow> u8) option"
  vr_colourRAM :: "(nat \<Rightarrow> u8) option"
  vr_bankBase :: u32
  vr_screenBase :: u32
  vr_charsetBase :: u32
  vr_bitmapBase :: u32
  vr_yScrollVaries :: bool
  vr_vic :: "nat \<Rightarrow> u8"
  vr_spritePointers :: "(nat \<Rightarrow> u8) option"

record VICRenderContext =
  cx_mode :: VICRenderMode
  cx_patterns :: "(u16 \<Rightarrow> u8) option"
  cx_patternBase :: u32
  cx_background :: "nat \<Rightarrow> u8"

section \<open>The display mode\<close>

definition vicColour :: "VICRenderState \<Rightarrow> u32 \<Rightarrow> u8" where
  "vicColour state reg = vr_vic state (unat (reg AND 0x3F)) AND 0x0F"

definition display_mode :: "VICRenderState \<Rightarrow> VICRenderMode" where
  "display_mode state =
     (let ecm = has (vr_vic state 0x11) 0x40; bmm = has (vr_vic state 0x11) 0x20; mcm = has (vr_vic state 0x16) 0x10
      in if \<not> ecm \<and> \<not> bmm then (if mcm then VIC_RENDER_MULTICOLOR_TEXT else VIC_RENDER_STANDARD_TEXT)
         else if ecm \<and> \<not> bmm \<and> \<not> mcm then VIC_RENDER_EXTENDED_TEXT
         else if \<not> ecm \<and> bmm then (if mcm then VIC_RENDER_MULTICOLOR_BITMAP else VIC_RENDER_STANDARD_BITMAP)
         else VIC_RENDER_INVALID)"

definition makeContext :: "VICRenderState \<Rightarrow> VICRenderContext" where
  "makeContext state =
     (let c = \<lparr> cx_mode = VIC_RENDER_INVALID, cx_patterns = None, cx_patternBase = 0,
                cx_background = (\<lambda>i. if i < 4 then vicColour state (0x21 + of_nat i) else 0) \<rparr>
      in if \<not> has (vr_vic state 0x11) 0x10 then c\<lparr>cx_mode := VIC_RENDER_BLANK\<rparr>
         else
           let c = c\<lparr>cx_mode := display_mode state\<rparr>
           in if vr_ram state = None \<or> vr_screenBase state \<ge> 0x10000 then c\<lparr>cx_mode := VIC_RENDER_UNSUPPORTED\<rparr>
              else if cx_mode c \<in> {VIC_RENDER_STANDARD_TEXT, VIC_RENDER_MULTICOLOR_TEXT, VIC_RENDER_EXTENDED_TEXT} then
                let c = (if vr_charsetBase state = 0xFFFFFFFF
                         then c\<lparr>cx_patterns := vr_charROM state, cx_patternBase := (if has (vr_vic state 0x18) 0x02 then 0x0800 else 0)\<rparr>
                         else if vr_charsetBase state < 0x10000
                         then c\<lparr>cx_patterns := vr_ram state, cx_patternBase := vr_charsetBase state\<rparr>
                         else c)
                in if cx_patterns c = None then c\<lparr>cx_mode := VIC_RENDER_UNSUPPORTED\<rparr> else c
              else if cx_mode c \<in> {VIC_RENDER_STANDARD_BITMAP, VIC_RENDER_MULTICOLOR_BITMAP} \<and> vr_bitmapBase state \<ge> 0x10000
              then c\<lparr>cx_mode := VIC_RENDER_UNSUPPORTED\<rparr>
              else c)"

section \<open>One character cell\<close>

text \<open>A read through a pointer that \<open>makeContext\<close> has checked (the null case is not reached).\<close>

definition fetch :: "(u16 \<Rightarrow> u8) option \<Rightarrow> u32 \<Rightarrow> u8" where
  "fetch mem a = (case mem of Some f \<Rightarrow> f (ucast a) | None \<Rightarrow> 0)"

text \<open>Eight pixels in two colours, and four pairs of pixels in four; the opaque mask of the latter.\<close>

definition single_pixels :: "u8 \<Rightarrow> u8 \<Rightarrow> u8 \<Rightarrow> nat \<Rightarrow> u8" where
  "single_pixels bits fg bg = (\<lambda>pixel. if bit bits (7 - pixel) then fg else bg)"

definition pair_value :: "u8 \<Rightarrow> nat \<Rightarrow> u8" where
  "pair_value bits pair = drop_bit (6 - pair * 2) bits AND 3"

definition pair_pixels :: "u8 \<Rightarrow> u8 \<Rightarrow> u8 \<Rightarrow> u8 \<Rightarrow> u8 \<Rightarrow> nat \<Rightarrow> u8" where
  "pair_pixels bits c0 c1 c2 c3 =
     (\<lambda>pixel. let value = pair_value bits (pixel div 2)
              in if value = 0 then c0 else if value = 1 then c1 else if value = 2 then c2 else c3)"

definition pair_mask :: "u8 \<Rightarrow> u8" where
  "pair_mask bits = fold (\<lambda>pair msk. if pair_value bits pair \<ge> 2 then msk OR drop_bit (pair * 2) 0xC0 else msk) [0..<4] 0"

definition decodeGraphicsCell :: "VICRenderState \<Rightarrow> VICRenderContext \<Rightarrow> nat \<Rightarrow> nat \<Rightarrow> (nat \<Rightarrow> u8) \<times> u8" where
  "decodeGraphicsCell state context cell glyphLine =
     (let screen = fetch (vr_ram state) (vr_screenBase state + of_nat cell);
          cellColour = (case vr_colourRAM state of Some c \<Rightarrow> c (cell mod 1024) AND 0x0F | None \<Rightarrow> 14);
          bg = cx_background context;
          pattern = (\<lambda>code :: u8. fetch (cx_patterns context) (cx_patternBase context + ucast code * 8 + of_nat glyphLine));
          bitmap = fetch (vr_ram state) (vr_bitmapBase state + of_nat cell * 8 + of_nat glyphLine)
      in case cx_mode context of
           VIC_RENDER_STANDARD_TEXT \<Rightarrow> (single_pixels (pattern screen) cellColour (bg 0), pattern screen)
         | VIC_RENDER_MULTICOLOR_TEXT \<Rightarrow>
             if \<not> has cellColour 0x08 then (single_pixels (pattern screen) (cellColour AND 0x07) (bg 0), pattern screen)
             else (pair_pixels (pattern screen) (bg 0) (bg 1) (bg 2) (cellColour AND 0x07), pair_mask (pattern screen))
         | VIC_RENDER_EXTENDED_TEXT \<Rightarrow>
             (single_pixels (pattern (screen AND 0x3F)) cellColour (bg (unat (drop_bit 6 screen))), pattern (screen AND 0x3F))
         | VIC_RENDER_STANDARD_BITMAP \<Rightarrow> (single_pixels bitmap (drop_bit 4 screen) (screen AND 0x0F), bitmap)
         | VIC_RENDER_MULTICOLOR_BITMAP \<Rightarrow>
             (pair_pixels bitmap (bg 0) (drop_bit 4 screen) (screen AND 0x0F) cellColour, pair_mask bitmap)
         | _ \<Rightarrow> (\<lambda>_. bg 0, 0))"

section \<open>Screen coordinates\<close>

record aperture =
  ap_left :: nat
  ap_right :: nat
  ap_top :: nat
  ap_bottom :: nat

definition origin_x :: "VICRenderState \<Rightarrow> int" where
  "origin_x state = int VIC_RENDER_DISPLAY_X + uint (vr_vic state 0x16 AND 7)"

definition origin_y :: "VICRenderState \<Rightarrow> int" where
  "origin_y state = int VIC_RENDER_DISPLAY_Y + (if vr_yScrollVaries state then 0 else uint (vr_vic state 0x11 AND 7) - 3)"

definition outputToSource :: "VICRenderState \<Rightarrow> nat \<Rightarrow> nat \<Rightarrow> aperture \<Rightarrow> (nat \<times> nat) option" where
  "outputToSource state x y a =
     (if x < ap_left a \<or> x \<ge> ap_right a \<or> y < ap_top a \<or> y \<ge> ap_bottom a then None
      else
        let sx = int x - origin_x state; sy = int y - origin_y state
        in if sx < 0 \<or> sx \<ge> int VIC_RENDER_DISPLAY_W \<or> sy < 0 \<or> sy \<ge> int VIC_RENDER_DISPLAY_H then None
           else Some (nat sx, nat sy))"

section \<open>The sprite sequencer\<close>

definition sprite_top :: "VICRenderState \<Rightarrow> nat \<Rightarrow> int" where
  "sprite_top state n = uint (vr_vic state (n * 2 + 1)) - 15"

text \<open>The state of sprite \<open>n\<close> seeded from the registers (a discontinuous band), and the trigger at its first row.\<close>

definition seed_sprite :: "VICRenderState \<Rightarrow> nat \<Rightarrow> nat \<Rightarrow> VICRenderSpriteSequencer \<Rightarrow> VICRenderSpriteSequencer" where
  "seed_sprite state row n q =
     (if \<not> bit (vr_vic state 0x15) n then q
      else
        let expand = bit (vr_vic state 0x17) n; top = sprite_top state n; height = (if expand then 42 else 21)
        in if int row < top \<or> int row \<ge> top + height then q
           else q\<lparr>sq_active := set_bit n (sq_active q),
                  sq_expanded := (if expand then set_bit n (sq_expanded q) else sq_expanded q),
                  sq_y := (sq_y q)(n := vr_vic state (n * 2 + 1)),
                  sq_rowsLeft := (sq_rowsLeft q)(n := of_int (top + height - int row))\<rparr>)"

definition trigger_sprite :: "VICRenderState \<Rightarrow> nat \<Rightarrow> nat \<Rightarrow> VICRenderSpriteSequencer \<Rightarrow> VICRenderSpriteSequencer" where
  "trigger_sprite state row n q =
     (if bit (sq_active q) n \<or> \<not> bit (vr_vic state 0x15) n then q
      else if sprite_top state n \<noteq> int row then q
      else
        let expand = bit (vr_vic state 0x17) n
        in q\<lparr>sq_active := set_bit n (sq_active q),
             sq_expanded := (if expand then set_bit n (sq_expanded q) else unset_bit n (sq_expanded q)),
             sq_y := (sq_y q)(n := vr_vic state (n * 2 + 1)),
             sq_rowsLeft := (sq_rowsLeft q)(n := (if expand then 42 else 21))\<rparr>)"

definition row_vic :: "VICRenderState \<Rightarrow> VICRenderSpriteSequencer \<Rightarrow> nat \<Rightarrow> u8" where
  "row_vic state q = (\<lambda>r.
     if r = 0x15 then vr_vic state 0x15 AND sq_active q
     else if r = 0x17 then (vr_vic state 0x17 AND NOT (sq_active q)) OR (sq_expanded q AND sq_active q)
     else if r < 16 \<and> odd r \<and> bit (sq_active q) (r div 2) then sq_y q (r div 2)
     else vr_vic state r)"

definition prepareSpriteRow ::
    "VICRenderState \<Rightarrow> nat \<Rightarrow> VICRenderSpriteSequencer \<Rightarrow> VICRenderSpriteSequencer \<times> VICRenderState" where
  "prepareSpriteRow state row q =
     (let continuous = (sq_primed q \<and> unat (sq_nextRow q) = row);
          q = (if \<not> continuous
               then (fold (seed_sprite state row) [0..<8] (q\<lparr>sq_active := 0, sq_expanded := 0\<rparr>))\<lparr>sq_primed := True\<rparr>
               else fold (trigger_sprite state row) [0..<8] q)
      in (q\<lparr>sq_nextRow := of_nat (row + 1)\<rparr>, state\<lparr>vr_vic := row_vic state q\<rparr>))"

definition finish_sprite :: "nat \<Rightarrow> VICRenderSpriteSequencer \<Rightarrow> VICRenderSpriteSequencer" where
  "finish_sprite n q =
     (if \<not> bit (sq_active q) n then q
      else
        let q = (if sq_rowsLeft q n \<noteq> 0 then q\<lparr>sq_rowsLeft := (sq_rowsLeft q)(n := sq_rowsLeft q n - 1)\<rparr> else q)
        in if sq_rowsLeft q n = 0
           then q\<lparr>sq_active := unset_bit n (sq_active q), sq_expanded := unset_bit n (sq_expanded q)\<rparr> else q)"

definition finishSpriteRow :: "VICRenderSpriteSequencer \<Rightarrow> VICRenderSpriteSequencer" where
  "finishSpriteRow q = fold finish_sprite [0..<8] q"

section \<open>The sprites of one row\<close>

definition SpriteCoverageWidth :: nat where "SpriteCoverageWidth = 568"

record sprite_row =
  sr_dst :: "nat \<Rightarrow> u8"
  sr_coverage :: "nat \<Rightarrow> u8"
  sr_collisions :: "VICRenderCollisions option"

text \<open>What one enabled sprite shows on row \<open>y\<close>: the three shape bytes of its line, or nothing.\<close>

definition sprite_line :: "VICRenderState \<Rightarrow> nat \<Rightarrow> nat \<Rightarrow> nat option" where
  "sprite_line state y n =
     (let expandY = bit (vr_vic state 0x17) n; outputLine = int y - sprite_top state n; height = (if expandY then 42 else 21)
      in if outputLine < 0 \<or> outputLine \<ge> height then None
         else Some (if expandY then nat outputLine div 2 else nat outputLine))"

definition sprite_bits :: "VICRenderState \<Rightarrow> nat \<Rightarrow> nat \<Rightarrow> u32" where
  "sprite_bits state n spriteLine =
     (let pointerAddr = vr_screenBase state + 0x3F8 + of_nat n;
          pointer = (case vr_spritePointers state of Some p \<Rightarrow> p n | None \<Rightarrow> fetch (vr_ram state) pointerAddr);
          shape = vr_bankBase state + ucast pointer * 64 + of_nat spriteLine * 3
      in push_bit 16 (ucast (fetch (vr_ram state) shape)) OR push_bit 8 (ucast (fetch (vr_ram state) (shape + 1)))
         OR ucast (fetch (vr_ram state) (shape + 2)))"

definition sprite_value :: "VICRenderState \<Rightarrow> nat \<Rightarrow> u32 \<Rightarrow> nat \<Rightarrow> u8" where
  "sprite_value state n bits sourcePixel =
     (if bit (vr_vic state 0x1C) n then ucast (drop_bit (22 - (sourcePixel div 2) * 2) bits) AND 3
      else if bit bits (23 - sourcePixel) then 1 else 0)"

definition sprite_colour :: "VICRenderState \<Rightarrow> nat \<Rightarrow> u8 \<Rightarrow> u8" where
  "sprite_colour state n value =
     (if bit (vr_vic state 0x1C) n
      then if value = 1 then vicColour state 0x25 else if value = 2 then vicColour state (0x27 + of_nat n) else vicColour state 0x26
      else vicColour state (0x27 + of_nat n))"

definition sprite_left :: "VICRenderState \<Rightarrow> nat \<Rightarrow> nat" where
  "sprite_left state n = unat (vr_vic state (n * 2)) + (if bit (vr_vic state 0x10) n then 256 else 0) + 8"

definition mode_has_graphics :: "VICRenderContext \<Rightarrow> bool" where
  "mode_has_graphics context \<longleftrightarrow> cx_mode context \<noteq> VIC_RENDER_UNSUPPORTED \<and> cx_mode context \<noteq> VIC_RENDER_INVALID"

definition graphics_opaque :: "VICRenderState \<Rightarrow> aperture \<Rightarrow> (nat \<Rightarrow> u8) \<Rightarrow> nat \<Rightarrow> nat \<Rightarrow> bool" where
  "graphics_opaque state a opaqueCells y x \<longleftrightarrow>
     (case outputToSource state x y a of None \<Rightarrow> False | Some (sx, sy) \<Rightarrow> bit (opaqueCells (sx div 8)) (7 - sx mod 8))"

definition note_collision :: "nat \<Rightarrow> nat \<Rightarrow> bool \<Rightarrow> sprite_row \<Rightarrow> sprite_row" where
  "note_collision n x background r =
     (case sr_collisions r of
        Some c \<Rightarrow>
          if x < SpriteCoverageWidth then
            let previous = sr_coverage r x;
                c = (if previous \<noteq> 0 then c\<lparr>vc_spriteSprite := vc_spriteSprite c OR set_bit n previous\<rparr> else c);
                c = (if background then c\<lparr>vc_spriteBackground := set_bit n (vc_spriteBackground c)\<rparr> else c)
            in r\<lparr>sr_coverage := (sr_coverage r)(x := set_bit n previous), sr_collisions := Some c\<rparr>
          else r
      | None \<Rightarrow> r)"

definition sprite_pixel ::
    "VICRenderState \<Rightarrow> VICRenderContext \<Rightarrow> nat \<Rightarrow> aperture \<Rightarrow> (nat \<Rightarrow> u8) \<Rightarrow> bool \<Rightarrow> nat \<Rightarrow> u32 \<Rightarrow> nat \<Rightarrow> sprite_row \<Rightarrow> sprite_row" where
  "sprite_pixel state context y a opaqueCells drawRow n bits outputPixel r =
     (let x = sprite_left state n + outputPixel;
          sourcePixel = (if bit (vr_vic state 0x1D) n then outputPixel div 2 else outputPixel);
          value = sprite_value state n bits sourcePixel
      in if value = 0 then r
         else
           let hidden = (mode_has_graphics context \<and> graphics_opaque state a opaqueCells y x);
               r = note_collision n x hidden r
           in if \<not> drawRow \<or> x < ap_left a \<or> x \<ge> ap_right a then r
              else if bit (vr_vic state 0x1B) n \<and> hidden then r
              else r\<lparr>sr_dst := (sr_dst r)(x := sprite_colour state n value)\<rparr>)"

definition one_sprite ::
    "VICRenderState \<Rightarrow> VICRenderContext \<Rightarrow> nat \<Rightarrow> aperture \<Rightarrow> (nat \<Rightarrow> u8) \<Rightarrow> bool \<Rightarrow> nat \<Rightarrow> sprite_row \<Rightarrow> sprite_row" where
  "one_sprite state context y a opaqueCells drawRow n r =
     (if \<not> bit (vr_vic state 0x15) n then r
      else case sprite_line state y n of
             None \<Rightarrow> r
           | Some l \<Rightarrow>
               fold (sprite_pixel state context y a opaqueCells drawRow n (sprite_bits state n l))
                 [0..<if bit (vr_vic state 0x1D) n then 48 else 24] r)"

definition renderSpritesOnRow ::
    "VICRenderState \<Rightarrow> VICRenderContext \<Rightarrow> (nat \<Rightarrow> u8) \<Rightarrow> nat \<Rightarrow> aperture \<Rightarrow> (nat \<Rightarrow> u8) \<Rightarrow> VICRenderCollisions option \<Rightarrow> bool
      \<Rightarrow> (nat \<Rightarrow> u8) \<times> VICRenderCollisions option" where
  "renderSpritesOnRow state context dst y a opaqueCells collisions drawRow =
     (if vr_vic state 0x15 = 0 \<or> vr_ram state = None \<or> vr_screenBase state \<ge> 0x10000 then (dst, collisions)
      else
        let r = fold (one_sprite state context y a opaqueCells drawRow) (rev [0..<8])
                  \<lparr> sr_dst = dst, sr_coverage = (\<lambda>_. 0), sr_collisions = collisions \<rparr>
        in (sr_dst r, sr_collisions r))"

section \<open>Rows\<close>

definition fill :: "nat \<Rightarrow> nat \<Rightarrow> u8 \<Rightarrow> (nat \<Rightarrow> u8) \<Rightarrow> nat \<Rightarrow> u8" where
  "fill first count v dst = (\<lambda>x. if first \<le> x \<and> x < first + count then v else dst x)"

definition active_aperture :: "VICRenderState \<Rightarrow> aperture" where
  "active_aperture state =
     (let columns40 = has (vr_vic state 0x16) 0x08; rows25 = has (vr_vic state 0x11) 0x08
      in \<lparr> ap_left = VIC_RENDER_DISPLAY_X + (if columns40 then 0 else 7),
           ap_right = VIC_RENDER_DISPLAY_X + VIC_RENDER_DISPLAY_W - (if columns40 then 0 else 9),
           ap_top = VIC_RENDER_DISPLAY_Y + (if rows25 then 0 else 4),
           ap_bottom = VIC_RENDER_DISPLAY_Y + VIC_RENDER_DISPLAY_H - (if rows25 then 0 else 4) \<rparr>)"

text \<open>One cell of a display row: its opaque mask, and its pixels clipped to the aperture.\<close>

definition draw_cell ::
    "VICRenderState \<Rightarrow> VICRenderContext \<Rightarrow> aperture \<Rightarrow> nat \<Rightarrow> nat \<Rightarrow> (nat \<Rightarrow> u8) \<times> (nat \<Rightarrow> u8) \<Rightarrow> (nat \<Rightarrow> u8) \<times> (nat \<Rightarrow> u8)" where
  "draw_cell state context a sourceY col = (\<lambda>(dst, opaqueCells).
     let cell = decodeGraphicsCell state context ((sourceY div 8) * 40 + col) (sourceY mod 8);
         cellLeft = origin_x state + int col * 8;
         copyLeft = (if cellLeft < int (ap_left a) then int (ap_left a) else cellLeft);
         cellRight = cellLeft + 8;
         copyRight = (if cellRight > int (ap_right a) then int (ap_right a) else cellRight)
     in ((\<lambda>x. if copyLeft \<le> int x \<and> int x < copyRight then fst cell (nat (int x - cellLeft)) else dst x),
         opaqueCells(col := snd cell)))"

definition render_row ::
    "VICRenderState \<Rightarrow> VICRenderContext \<Rightarrow> VICRenderState \<Rightarrow> nat \<Rightarrow> VICRenderCollisions option \<Rightarrow> (nat \<Rightarrow> u8)
      \<Rightarrow> (nat \<Rightarrow> u8) \<times> VICRenderCollisions option" where
  "render_row state context rowState y collisions dst =
     (let a = active_aperture state; border = vicColour state 0x20;
          graphicsFill = (if cx_mode context = VIC_RENDER_INVALID then 0 else vicColour state 0x21)
      in if cx_mode context = VIC_RENDER_BLANK \<or> y < ap_top a \<or> y \<ge> ap_bottom a then
           renderSpritesOnRow rowState context (fill 0 VIC_RENDER_WIDTH border dst) y a (\<lambda>_. 0) collisions False
         else
           let dst = fill (ap_left a) (ap_right a - ap_left a) graphicsFill
                       (fill (ap_right a) (VIC_RENDER_WIDTH - ap_right a) border (fill 0 (ap_left a) border dst));
               sourceY = int y - origin_y state;
               (dst, opaqueCells) =
                 (if mode_has_graphics context \<and> 0 \<le> sourceY \<and> sourceY < int VIC_RENDER_DISPLAY_H
                  then fold (draw_cell state context a (nat sourceY)) [0..<40] (dst, \<lambda>_. 0) else (dst, \<lambda>_. 0))
           in renderSpritesOnRow rowState context dst y a opaqueCells collisions True)"

text \<open>The frame under construction: the pixel buffer, the collision latches and the sequencer (each optional).\<close>

record render_out =
  ro_pixels :: "nat \<Rightarrow> u8"
  ro_collisions :: "VICRenderCollisions option"
  ro_sprites :: "VICRenderSpriteSequencer option"

definition row_step :: "VICRenderState \<Rightarrow> nat \<Rightarrow> nat \<Rightarrow> nat \<Rightarrow> render_out \<Rightarrow> render_out" where
  "row_step state pitch firstRow y out =
     (let (sprites, rowState) =
            (case ro_sprites out of None \<Rightarrow> (None, state)
             | Some q \<Rightarrow> (let (q, rs) = prepareSpriteRow state y q in (Some q, rs)));
          base = (y - firstRow) * pitch;
          (dst, collisions) = render_row state (makeContext state) rowState y (ro_collisions out) (\<lambda>x. ro_pixels out (base + x))
      in \<lparr> ro_pixels = (\<lambda>i. if base \<le> i then dst (i - base) else ro_pixels out i),
           ro_collisions = collisions, ro_sprites = map_option finishSpriteRow sprites \<rparr>)"

definition clamp_rows :: "nat \<Rightarrow> nat \<Rightarrow> nat" where
  "clamp_rows firstRow rowCount =
     (if firstRow \<ge> VIC_RENDER_HEIGHT then 0
      else if rowCount > VIC_RENDER_HEIGHT - firstRow then VIC_RENDER_HEIGHT - firstRow else rowCount)"

text \<open>The buffer is \<open>None\<close> for a null pointer; then nothing is rendered.\<close>

definition renderRows ::
    "VICRenderState \<Rightarrow> (nat \<Rightarrow> u8) option \<Rightarrow> nat \<Rightarrow> nat \<Rightarrow> nat \<Rightarrow> VICRenderCollisions option \<Rightarrow> VICRenderSpriteSequencer option
      \<Rightarrow> VICRenderMode \<times> (nat \<Rightarrow> u8) option \<times> VICRenderCollisions option \<times> VICRenderSpriteSequencer option" where
  "renderRows state pixels pitch firstRow rowCount collisions sprites =
     (case pixels of
        None \<Rightarrow> (VIC_RENDER_BLANK, None, collisions, sprites)
      | Some p \<Rightarrow>
          if pitch < VIC_RENDER_WIDTH then (VIC_RENDER_BLANK, Some p, collisions, sprites)
          else
            let out = fold (row_step state pitch firstRow) [firstRow..<firstRow + clamp_rows firstRow rowCount]
                      \<lparr> ro_pixels = p, ro_collisions = collisions, ro_sprites = sprites \<rparr>
            in (cx_mode (makeContext state), Some (ro_pixels out), ro_collisions out, ro_sprites out))"

definition no_collisions :: VICRenderCollisions where
  "no_collisions = \<lparr> vc_spriteSprite = 0, vc_spriteBackground = 0 \<rparr>"

definition render ::
    "VICRenderState \<Rightarrow> (nat \<Rightarrow> u8) option \<Rightarrow> nat \<Rightarrow> VICRenderCollisions option \<Rightarrow> VICRenderSpriteSequencer option
      \<Rightarrow> VICRenderMode \<times> (nat \<Rightarrow> u8) option \<times> VICRenderCollisions option \<times> VICRenderSpriteSequencer option" where
  "render state pixels pitch collisions sprites =
     renderRows state pixels pitch 0 VIC_RENDER_HEIGHT (map_option (\<lambda>_. no_collisions) collisions) sprites"

end
