(* ===== verification/VicRendererProps.thy ===== *)
theory VicRendererProps
  imports VicRenderer
begin

text \<open>
  Properties of the renderer. The effect of one sprite on a row (\<open>sprite_effect\<close>) and of all eight (\<open>sprites_effect\<close>) against
  their geometry; every stage of a row as a \<open>painter\<close>, which writes its columns with colours that do not depend on
  what was there, so that rows are functions of the latches and the sequencer (\<open>row_pixels\<close>, \<open>row_next\<close>); the
  sequencer of one sprite over consecutive rows (\<open>sprite_view\<close>).
\<close>

unbundle bit_operations_syntax

section \<open>Where a sprite has a dot\<close>

text \<open>The value sprite \<open>n\<close> puts at column \<open>x\<close> of row \<open>y\<close>; 0 is transparent.\<close>

definition sprite_dot :: "VICRenderState \<Rightarrow> nat \<Rightarrow> nat \<Rightarrow> nat \<Rightarrow> u8" where
  "sprite_dot state y n x =
     (if \<not> bit (vr_vic state 0x15) n then 0
      else case sprite_line state y n of
             None \<Rightarrow> 0
           | Some l \<Rightarrow>
               let left = sprite_left state n; wide = bit (vr_vic state 0x1D) n
               in if left \<le> x \<and> x < left + (if wide then 48 else 24)
                  then sprite_value state n (sprite_bits state n l) (if wide then (x - left) div 2 else x - left)
                  else 0)"

definition hidden_at :: "VICRenderState \<Rightarrow> VICRenderContext \<Rightarrow> aperture \<Rightarrow> (nat \<Rightarrow> u8) \<Rightarrow> nat \<Rightarrow> nat \<Rightarrow> bool" where
  "hidden_at state context a opaqueCells y x \<longleftrightarrow> mode_has_graphics context \<and> graphics_opaque state a opaqueCells y x"

text \<open>Whether the sprite's dot is drawn, given that it has one.\<close>

definition sprite_drawn :: "VICRenderState \<Rightarrow> VICRenderContext \<Rightarrow> aperture \<Rightarrow> (nat \<Rightarrow> u8) \<Rightarrow> bool \<Rightarrow> nat \<Rightarrow> nat \<Rightarrow> nat \<Rightarrow> bool" where
  "sprite_drawn state context a opaqueCells drawRow y n x \<longleftrightarrow>
     sprite_dot state y n x \<noteq> 0 \<and> drawRow \<and> ap_left a \<le> x \<and> x < ap_right a
     \<and> \<not> (bit (vr_vic state 0x1B) n \<and> hidden_at state context a opaqueCells y x)"

text \<open>Every dot lies inside the coverage array.\<close>

lemma dot_in_coverage: "sprite_dot state y n x \<noteq> 0 \<Longrightarrow> x < SpriteCoverageWidth"
proof -
  assume "sprite_dot state y n x \<noteq> 0"
  then have "x < sprite_left state n + 48"
    by (auto simp: sprite_dot_def Let_def split: if_splits option.splits)
  moreover have "unat (vr_vic state (n * 2)) < 256" using unsigned_less [of "vr_vic state (n * 2)", where 'a = nat] by simp
  ultimately show ?thesis by (auto simp: sprite_left_def SpriteCoverageWidth_def split: if_splits)
qed

section \<open>What a set of sprites does to a row\<close>

text \<open>\<open>dots x\<close>: the sprite has a dot at \<open>x\<close>; \<open>shown x\<close>: it is drawn there, in colour \<open>col x\<close>; \<open>hits x\<close>: graphics are opaque
  there. The effect of one sprite on the row under construction.\<close>

definition sprite_effect ::
    "nat \<Rightarrow> (nat \<Rightarrow> bool) \<Rightarrow> (nat \<Rightarrow> bool) \<Rightarrow> (nat \<Rightarrow> u8) \<Rightarrow> (nat \<Rightarrow> bool) \<Rightarrow> sprite_row \<Rightarrow> sprite_row \<Rightarrow> bool" where
  "sprite_effect n dots shown col hits r r' \<longleftrightarrow>
     (\<forall>x. sr_dst r' x = (if shown x then col x else sr_dst r x))
     \<and> (sr_collisions r = None \<longrightarrow> sr_collisions r' = None)
     \<and> (\<forall>c. sr_collisions r = Some c \<longrightarrow>
          (\<forall>x < SpriteCoverageWidth. sr_coverage r' x = (if dots x then set_bit n (sr_coverage r x) else sr_coverage r x))
          \<and> (\<exists>c'. sr_collisions r' = Some c'
               \<and> (\<forall>k. bit (vc_spriteSprite c') k \<longleftrightarrow> bit (vc_spriteSprite c) k
                    \<or> (\<exists>x < SpriteCoverageWidth. dots x \<and> sr_coverage r x \<noteq> 0 \<and> bit (set_bit n (sr_coverage r x)) k))
               \<and> (\<forall>k. bit (vc_spriteBackground c') k \<longleftrightarrow> bit (vc_spriteBackground c) k
                    \<or> k < 8 \<and> k = n \<and> (\<exists>x < SpriteCoverageWidth. dots x \<and> hits x))))"

lemma pixel_effect:
  fixes n outputPixel :: nat and state :: VICRenderState
  defines "x0 \<equiv> sprite_left state n + outputPixel"
  assumes v: "v = sprite_value state n bits (if bit (vr_vic state 0x1D) n then outputPixel div 2 else outputPixel)"
  shows "sprite_effect n (\<lambda>x. x = x0 \<and> v \<noteq> 0)
     (\<lambda>x. x = x0 \<and> v \<noteq> 0 \<and> drawRow \<and> ap_left a \<le> x \<and> x < ap_right a
        \<and> \<not> (bit (vr_vic state 0x1B) n \<and> hidden_at state context a opaqueCells y x))
     (\<lambda>_. sprite_colour state n v) (hidden_at state context a opaqueCells y) r
     (sprite_pixel state context y a opaqueCells drawRow n bits outputPixel r)"
proof (cases "v = 0")
  case True
  then show ?thesis by (simp add: sprite_effect_def sprite_pixel_def Let_def v [symmetric])
next
  case False
  define h where "h = hidden_at state context a opaqueCells y x0"
  define r1 where "r1 = note_collision n x0 h r"
  have p: "sprite_pixel state context y a opaqueCells drawRow n bits outputPixel r =
      (if \<not> drawRow \<or> x0 < ap_left a \<or> x0 \<ge> ap_right a then r1
       else if bit (vr_vic state 0x1B) n \<and> h then r1
       else r1\<lparr>sr_dst := (sr_dst r1)(x0 := sprite_colour state n v)\<rparr>)"
    using False unfolding sprite_pixel_def Let_def r1_def h_def hidden_at_def x0_def v [symmetric] by simp
  have d: "sr_dst r1 = sr_dst r"
    by (simp add: r1_def note_collision_def Let_def split: option.split)
  show ?thesis
  proof (cases "sr_collisions r")
    case None
    then have "sr_collisions r1 = None" by (simp add: r1_def note_collision_def)
    then show ?thesis unfolding sprite_effect_def p using d None False by (auto simp: h_def)
  next
    case (Some c)
    have cov: "sr_coverage r1 x = (if x = x0 then set_bit n (sr_coverage r x) else sr_coverage r x)" if "x < SpriteCoverageWidth" for x
      using that Some by (auto simp: r1_def note_collision_def Let_def)
    have "\<exists>c'. sr_collisions r1 = Some c'
        \<and> (\<forall>k. bit (vc_spriteSprite c') k \<longleftrightarrow> bit (vc_spriteSprite c) k
             \<or> (\<exists>x < SpriteCoverageWidth. x = x0 \<and> sr_coverage r x \<noteq> 0 \<and> bit (set_bit n (sr_coverage r x)) k))
        \<and> (\<forall>k. bit (vc_spriteBackground c') k \<longleftrightarrow> bit (vc_spriteBackground c) k
             \<or> k < 8 \<and> k = n \<and> (\<exists>x < SpriteCoverageWidth. x = x0 \<and> hidden_at state context a opaqueCells y x))"
      using Some unfolding r1_def note_collision_def Let_def h_def
      by (auto simp: bit_simps dest: bit_imp_le_length)
    then show ?thesis unfolding sprite_effect_def p using d Some False cov by (auto simp: h_def)
  qed
qed

text \<open>The effect of two disjoint sets of dots of one sprite, one after the other.\<close>

lemma effect_compose:
  assumes "sprite_effect n D S col H r r'" "sprite_effect n D' S' col' H r' r''"
    and "\<And>x. \<not> (D x \<and> D' x)" "\<And>x. S x \<Longrightarrow> D x" "\<And>x. S' x \<Longrightarrow> D' x"
  shows "sprite_effect n (\<lambda>x. D x \<or> D' x) (\<lambda>x. S x \<or> S' x) (\<lambda>x. if S x then col x else col' x) H r r''"
proof (cases "sr_collisions r")
  case None
  then show ?thesis using assms unfolding sprite_effect_def by auto
next
  case (Some c)
  obtain c' where c': "sr_collisions r' = Some c'"
    "\<And>k. bit (vc_spriteSprite c') k \<longleftrightarrow> bit (vc_spriteSprite c) k
       \<or> (\<exists>x < SpriteCoverageWidth. D x \<and> sr_coverage r x \<noteq> 0 \<and> bit (set_bit n (sr_coverage r x)) k)"
    "\<And>k. bit (vc_spriteBackground c') k \<longleftrightarrow> bit (vc_spriteBackground c) k \<or> k < 8 \<and> k = n \<and> (\<exists>x < SpriteCoverageWidth. D x \<and> H x)"
    "\<And>x. x < SpriteCoverageWidth \<Longrightarrow> sr_coverage r' x = (if D x then set_bit n (sr_coverage r x) else sr_coverage r x)"
    using assms(1) Some unfolding sprite_effect_def by auto
  obtain c'' where c'': "sr_collisions r'' = Some c''"
    "\<And>k. bit (vc_spriteSprite c'') k \<longleftrightarrow> bit (vc_spriteSprite c') k
       \<or> (\<exists>x < SpriteCoverageWidth. D' x \<and> sr_coverage r' x \<noteq> 0 \<and> bit (set_bit n (sr_coverage r' x)) k)"
    "\<And>k. bit (vc_spriteBackground c'') k \<longleftrightarrow> bit (vc_spriteBackground c') k \<or> k < 8 \<and> k = n \<and> (\<exists>x < SpriteCoverageWidth. D' x \<and> H x)"
    "\<And>x. x < SpriteCoverageWidth \<Longrightarrow> sr_coverage r'' x = (if D' x then set_bit n (sr_coverage r' x) else sr_coverage r' x)"
    using assms(2) c'(1) unfolding sprite_effect_def by auto
  have same: "sr_coverage r' x = sr_coverage r x" if "x < SpriteCoverageWidth" "D' x" for x
    using c'(4) [OF that(1)] assms(3) that(2) by auto
  have ss: "bit (vc_spriteSprite c'') k \<longleftrightarrow> bit (vc_spriteSprite c) k
       \<or> (\<exists>x < SpriteCoverageWidth. (D x \<or> D' x) \<and> sr_coverage r x \<noteq> 0 \<and> bit (set_bit n (sr_coverage r x)) k)" for k
  proof -
    have "(\<exists>x < SpriteCoverageWidth. D' x \<and> sr_coverage r' x \<noteq> 0 \<and> bit (set_bit n (sr_coverage r' x)) k)
        \<longleftrightarrow> (\<exists>x < SpriteCoverageWidth. D' x \<and> sr_coverage r x \<noteq> 0 \<and> bit (set_bit n (sr_coverage r x)) k)"
      by (intro ex_cong1) (auto simp: same)
    then show ?thesis unfolding c''(2) c'(2) by blast
  qed
  have sb: "bit (vc_spriteBackground c'') k \<longleftrightarrow> bit (vc_spriteBackground c) k \<or> k < 8 \<and> k = n \<and> (\<exists>x < SpriteCoverageWidth. (D x \<or> D' x) \<and> H x)" for k
    unfolding c''(3) c'(3) by blast
  have cov: "sr_coverage r'' x = (if D x \<or> D' x then set_bit n (sr_coverage r x) else sr_coverage r x)" if "x < SpriteCoverageWidth" for x
    using c''(4) [OF that] c'(4) [OF that] assms(3) by auto
  have dst: "sr_dst r'' x = (if S x \<or> S' x then if S x then col x else col' x else sr_dst r x)" for x
    using assms unfolding sprite_effect_def by (metis (no_types, lifting))
  show ?thesis unfolding sprite_effect_def using Some c''(1) ss sb cov dst by auto
qed

text \<open>A whole sprite.\<close>

lemma sprite_pixels_effect:
  assumes l: "bit (vr_vic state 0x15) n" "sprite_line state y n = Some l" and w: "w \<le> (if bit (vr_vic state 0x1D) n then 48 else 24)"
  shows "sprite_effect n (\<lambda>x. sprite_dot state y n x \<noteq> 0 \<and> x < sprite_left state n + w)
     (\<lambda>x. sprite_drawn state context a opaqueCells drawRow y n x \<and> x < sprite_left state n + w)
     (\<lambda>x. sprite_colour state n (sprite_dot state y n x)) (hidden_at state context a opaqueCells y) r
     (fold (sprite_pixel state context y a opaqueCells drawRow n (sprite_bits state n l)) [0..<w] r)"
  using w
proof (induction w)
  case 0
  have "sprite_dot state y n x = 0" if "x < sprite_left state n" for x
    using that l by (simp add: sprite_dot_def Let_def)
  then show ?case by (auto simp: sprite_effect_def sprite_drawn_def)
next
  case (Suc w)
  let ?L = "sprite_left state n" and ?f = "sprite_pixel state context y a opaqueCells drawRow n (sprite_bits state n l)"
  define v where "v = sprite_value state n (sprite_bits state n l) (if bit (vr_vic state 0x1D) n then w div 2 else w)"
  have dot: "sprite_dot state y n (?L + w) = v"
    using l Suc.prems by (simp add: sprite_dot_def v_def Let_def)
  have c: "sprite_effect n (\<lambda>x. sprite_dot state y n x \<noteq> 0 \<and> x < ?L + w \<or> x = ?L + w \<and> v \<noteq> 0)
      (\<lambda>x. sprite_drawn state context a opaqueCells drawRow y n x \<and> x < ?L + w
         \<or> x = ?L + w \<and> v \<noteq> 0 \<and> drawRow \<and> ap_left a \<le> x \<and> x < ap_right a
           \<and> \<not> (bit (vr_vic state 0x1B) n \<and> hidden_at state context a opaqueCells y x))
      (\<lambda>x. if sprite_drawn state context a opaqueCells drawRow y n x \<and> x < ?L + w then sprite_colour state n (sprite_dot state y n x)
           else sprite_colour state n v)
      (hidden_at state context a opaqueCells y) r (?f w (fold ?f [0..<w] r))"
    by (rule effect_compose [OF Suc.IH pixel_effect]) (use Suc.prems in \<open>auto simp: v_def sprite_drawn_def\<close>)
  have d: "sprite_dot state y n x \<noteq> 0 \<and> x < ?L + Suc w \<longleftrightarrow> sprite_dot state y n x \<noteq> 0 \<and> x < ?L + w \<or> x = ?L + w \<and> v \<noteq> 0" for x
    using dot by (cases "x = ?L + w") auto
  have s: "sprite_drawn state context a opaqueCells drawRow y n x \<and> x < ?L + Suc w
      \<longleftrightarrow> sprite_drawn state context a opaqueCells drawRow y n x \<and> x < ?L + w
         \<or> x = ?L + w \<and> v \<noteq> 0 \<and> drawRow \<and> ap_left a \<le> x \<and> x < ap_right a
           \<and> \<not> (bit (vr_vic state 0x1B) n \<and> hidden_at state context a opaqueCells y x)" for x
    using dot by (cases "x = ?L + w") (auto simp: sprite_drawn_def)
  have col: "sprite_drawn state context a opaqueCells drawRow y n x \<and> x < ?L + Suc w \<Longrightarrow>
      (if sprite_drawn state context a opaqueCells drawRow y n x \<and> x < ?L + w then sprite_colour state n (sprite_dot state y n x)
           else sprite_colour state n v) = sprite_colour state n (sprite_dot state y n x)" for x
    using dot by (cases "x = ?L + w") auto
  have "sprite_effect n (\<lambda>x. sprite_dot state y n x \<noteq> 0 \<and> x < ?L + Suc w)
     (\<lambda>x. sprite_drawn state context a opaqueCells drawRow y n x \<and> x < ?L + Suc w)
     (\<lambda>x. sprite_colour state n (sprite_dot state y n x)) (hidden_at state context a opaqueCells y) r (?f w (fold ?f [0..<w] r))"
    using c col unfolding sprite_effect_def d [symmetric] s [symmetric] by auto
  then show ?case by simp
qed

lemma one_sprite_effect:
  "sprite_effect n (\<lambda>x. sprite_dot state y n x \<noteq> 0) (sprite_drawn state context a opaqueCells drawRow y n)
     (\<lambda>x. sprite_colour state n (sprite_dot state y n x)) (hidden_at state context a opaqueCells y) r
     (one_sprite state context y a opaqueCells drawRow n r)"
proof (cases "bit (vr_vic state 0x15) n \<and> sprite_line state y n \<noteq> None")
  case False
  then have "sprite_dot state y n x = 0" for x by (auto simp: sprite_dot_def)
  moreover have "one_sprite state context y a opaqueCells drawRow n r = r" using False by (auto simp: one_sprite_def)
  ultimately show ?thesis by (simp add: sprite_effect_def sprite_drawn_def)
next
  case True
  then obtain l where l: "bit (vr_vic state 0x15) n" "sprite_line state y n = Some l" by auto
  let ?w = "if bit (vr_vic state 0x1D) n then 48 else 24 :: nat"
  have "sprite_dot state y n x \<noteq> 0 \<Longrightarrow> x < sprite_left state n + ?w" for x
    by (auto simp: sprite_dot_def Let_def split: if_splits option.splits)
  then have "(sprite_dot state y n x \<noteq> 0 \<and> x < sprite_left state n + ?w) = (sprite_dot state y n x \<noteq> 0)"
    "(sprite_drawn state context a opaqueCells drawRow y n x \<and> x < sprite_left state n + ?w) = sprite_drawn state context a opaqueCells drawRow y n x" for x
    by (auto simp: sprite_drawn_def)
  then show ?thesis
    using sprite_pixels_effect [OF l, of ?w "context" a opaqueCells drawRow r] l by (simp add: one_sprite_def cong: if_cong)
qed

section \<open>Eight sprites\<close>

definition sprites_effect ::
    "VICRenderState \<Rightarrow> VICRenderContext \<Rightarrow> nat \<Rightarrow> aperture \<Rightarrow> (nat \<Rightarrow> u8) \<Rightarrow> bool \<Rightarrow> nat \<Rightarrow> sprite_row \<Rightarrow> sprite_row \<Rightarrow> bool" where
  "sprites_effect state context y a opaqueCells drawRow k r r' \<longleftrightarrow>
     (\<forall>x. sr_dst r' x = (case find (\<lambda>n. sprite_drawn state context a opaqueCells drawRow y n x) [k..<8] of
                           None \<Rightarrow> sr_dst r x | Some n \<Rightarrow> sprite_colour state n (sprite_dot state y n x)))
     \<and> (sr_collisions r = None \<longrightarrow> sr_collisions r' = None)
     \<and> (\<forall>c. sr_collisions r = Some c \<longrightarrow>
          (\<forall>x < SpriteCoverageWidth. \<forall>j. bit (sr_coverage r' x) j \<longleftrightarrow> k \<le> j \<and> j < 8 \<and> sprite_dot state y j x \<noteq> 0)
          \<and> (\<exists>c'. sr_collisions r' = Some c'
               \<and> (\<forall>j. bit (vc_spriteSprite c') j \<longleftrightarrow> bit (vc_spriteSprite c) j
                    \<or> (\<exists>x i. k \<le> j \<and> j < 8 \<and> k \<le> i \<and> i < 8 \<and> i \<noteq> j \<and> sprite_dot state y j x \<noteq> 0 \<and> sprite_dot state y i x \<noteq> 0))
               \<and> (\<forall>j. bit (vc_spriteBackground c') j \<longleftrightarrow> bit (vc_spriteBackground c) j
                    \<or> (\<exists>x. k \<le> j \<and> j < 8 \<and> sprite_dot state y j x \<noteq> 0 \<and> hidden_at state context a opaqueCells y x))))"

lemma word8_zero: "w = (0 :: u8) \<longleftrightarrow> (\<forall>j < 8. \<not> bit w j)"
proof
  assume "\<forall>j < 8. \<not> bit w j"
  then have "bit w j = bit (0 :: u8) j" for j using bit_imp_le_length [of w j] by auto
  then show "w = 0" by (intro bit_word_eqI)
qed simp

lemma effect_step:
  assumes e: "sprites_effect state context y a opaqueCells drawRow (Suc k) r r'" and k: "k < 8"
    and s: "sprite_effect k (\<lambda>x. sprite_dot state y k x \<noteq> 0) (sprite_drawn state context a opaqueCells drawRow y k)
     (\<lambda>x. sprite_colour state k (sprite_dot state y k x)) (hidden_at state context a opaqueCells y) r' r''"
  shows "sprites_effect state context y a opaqueCells drawRow k r r''"
proof -
  have up: "[k..<8] = k # [Suc k..<8]" using k by (simp add: upt_conv_Cons)
  have dst: "sr_dst r'' x = (case find (\<lambda>n. sprite_drawn state context a opaqueCells drawRow y n x) [k..<8] of
      None \<Rightarrow> sr_dst r x | Some n \<Rightarrow> sprite_colour state n (sprite_dot state y n x))" for x
    using e s unfolding sprites_effect_def sprite_effect_def up by simp
  show ?thesis
  proof (cases "sr_collisions r")
    case None
    then show ?thesis using e s dst unfolding sprites_effect_def sprite_effect_def by simp
  next
    case (Some c)
    let ?dot = "\<lambda>j x. sprite_dot state y j x \<noteq> 0" and ?H = "hidden_at state context a opaqueCells y"
    obtain c' where c': "sr_collisions r' = Some c'"
      "\<And>x j. x < SpriteCoverageWidth \<Longrightarrow> bit (sr_coverage r' x) j \<longleftrightarrow> Suc k \<le> j \<and> j < 8 \<and> ?dot j x"
      "\<And>j. bit (vc_spriteSprite c') j \<longleftrightarrow> bit (vc_spriteSprite c) j
         \<or> (\<exists>x i. Suc k \<le> j \<and> j < 8 \<and> Suc k \<le> i \<and> i < 8 \<and> i \<noteq> j \<and> ?dot j x \<and> ?dot i x)"
      "\<And>j. bit (vc_spriteBackground c') j \<longleftrightarrow> bit (vc_spriteBackground c) j \<or> (\<exists>x. Suc k \<le> j \<and> j < 8 \<and> ?dot j x \<and> ?H x)"
      using e Some unfolding sprites_effect_def by auto
    obtain c'' where c'': "sr_collisions r'' = Some c''"
      "\<And>x. x < SpriteCoverageWidth \<Longrightarrow> sr_coverage r'' x = (if ?dot k x then set_bit k (sr_coverage r' x) else sr_coverage r' x)"
      "\<And>j. bit (vc_spriteSprite c'') j \<longleftrightarrow> bit (vc_spriteSprite c') j
         \<or> (\<exists>x < SpriteCoverageWidth. ?dot k x \<and> sr_coverage r' x \<noteq> 0 \<and> bit (set_bit k (sr_coverage r' x)) j)"
      "\<And>j. bit (vc_spriteBackground c'') j \<longleftrightarrow> bit (vc_spriteBackground c') j \<or> j < 8 \<and> j = k \<and> (\<exists>x < SpriteCoverageWidth. ?dot k x \<and> ?H x)"
      using s c'(1) unfolding sprite_effect_def by auto
    have le: "k \<le> j \<longleftrightarrow> j = k \<or> Suc k \<le> j" for j by auto
    have set: "bit (set_bit k (sr_coverage r' x)) j \<longleftrightarrow> j = k \<or> Suc k \<le> j \<and> j < 8 \<and> ?dot j x" if "x < SpriteCoverageWidth" for x j
      using k by (auto simp: bit_set_bit_iff c'(2) [OF that])
    have cov: "bit (sr_coverage r'' x) j \<longleftrightarrow> k \<le> j \<and> j < 8 \<and> ?dot j x" if "x < SpriteCoverageWidth" for x j
      unfolding c''(2) [OF that] using k set [OF that] c'(2) [OF that] by (auto simp: le)
    have nz: "sr_coverage r' x \<noteq> 0 \<longleftrightarrow> (\<exists>i. Suc k \<le> i \<and> i < 8 \<and> ?dot i x)" if "x < SpriteCoverageWidth" for x
      unfolding word8_zero [of "sr_coverage r' x"] using c'(2) [OF that] by auto
    have ss: "bit (vc_spriteSprite c'') j \<longleftrightarrow> bit (vc_spriteSprite c) j
        \<or> (\<exists>x i. k \<le> j \<and> j < 8 \<and> k \<le> i \<and> i < 8 \<and> i \<noteq> j \<and> ?dot j x \<and> ?dot i x)" for j
    proof -
      have eq: "(\<exists>x < SpriteCoverageWidth. ?dot k x \<and> sr_coverage r' x \<noteq> 0 \<and> bit (set_bit k (sr_coverage r' x)) j)
          \<longleftrightarrow> (\<exists>x. ?dot k x \<and> (\<exists>i. Suc k \<le> i \<and> i < 8 \<and> ?dot i x) \<and> (j = k \<or> Suc k \<le> j \<and> j < 8 \<and> ?dot j x))"
      proof (rule ex_cong1)
        fix x
        show "x < SpriteCoverageWidth \<and> ?dot k x \<and> sr_coverage r' x \<noteq> 0 \<and> bit (set_bit k (sr_coverage r' x)) j
          \<longleftrightarrow> ?dot k x \<and> (\<exists>i. Suc k \<le> i \<and> i < 8 \<and> ?dot i x) \<and> (j = k \<or> Suc k \<le> j \<and> j < 8 \<and> ?dot j x)"
        proof (cases "?dot k x")
          case True
          then have "x < SpriteCoverageWidth" by (rule dot_in_coverage)
          then show ?thesis using nz set by simp
        qed simp
      qed
      have "k \<noteq> i" if "Suc k \<le> i" for i using that by auto
      then show ?thesis
        unfolding c''(3) eq c'(3) le using k by blast
    qed
    have sb: "bit (vc_spriteBackground c'') j \<longleftrightarrow> bit (vc_spriteBackground c) j \<or> (\<exists>x. k \<le> j \<and> j < 8 \<and> ?dot j x \<and> ?H x)" for j
    proof -
      have eq: "(\<exists>x < SpriteCoverageWidth. ?dot k x \<and> ?H x) \<longleftrightarrow> (\<exists>x. ?dot k x \<and> ?H x)"
        using dot_in_coverage [of state y k] by blast
      show ?thesis unfolding c''(4) eq c'(4) le using k by blast
    qed
    show ?thesis unfolding sprites_effect_def using Some dst c''(1) cov ss sb by simp
  qed
qed

lemma all_sprites_effect:
  assumes "k \<le> 8" "sr_coverage r = (\<lambda>_. 0)"
  shows "sprites_effect state context y a opaqueCells drawRow k r (fold (one_sprite state context y a opaqueCells drawRow) (rev [k..<8]) r)"
  using assms(1)
proof (induction rule: inc_induct)
  case base
  show ?case using assms(2) by (auto simp: sprites_effect_def)
next
  case (step k)
  have up: "rev [k..<8] = rev [Suc k..<8] @ [k]" using step.hyps by (simp add: upt_conv_Cons)
  show ?case unfolding up fold_append comp_def
    by (simp, rule effect_step [OF step.IH step.hyps(2) one_sprite_effect])
qed

section \<open>Sprites of a row\<close>


section \<open>Painting\<close>

text \<open>Every stage of a row paints some columns with colours that do not depend on what was there.\<close>

definition paint :: "(nat \<Rightarrow> bool) \<Rightarrow> (nat \<Rightarrow> u8) \<Rightarrow> (nat \<Rightarrow> u8) \<Rightarrow> nat \<Rightarrow> u8" where
  "paint P g dst = (\<lambda>x. if P x then g x else dst x)"

definition painter :: "nat \<Rightarrow> nat \<Rightarrow> ((nat \<Rightarrow> u8) \<Rightarrow> (nat \<Rightarrow> u8) \<times> 'a) \<Rightarrow> bool" where
  "painter lo hi f \<longleftrightarrow> (\<exists>P g c. (\<forall>dst. f dst = (paint P g dst, c)) \<and> (\<forall>x. P x \<longrightarrow> lo \<le> x \<and> x < hi \<and> g x < 16))"

lemma paint_paint: "paint P g (paint Q h dst) = paint (\<lambda>x. P x \<or> Q x) (\<lambda>x. if P x then g x else h x) dst"
  by (auto simp: paint_def)

lemma painter_comp:
  assumes "painter lo hi f" "\<And>c. painter lo hi (g c)" "\<And>dst. h dst = (let (d, c) = f dst in g c d)"
  shows "painter lo hi h"
proof -
  obtain P p c where f: "\<And>dst. f dst = (paint P p dst, c)" "\<And>x. P x \<Longrightarrow> lo \<le> x \<and> x < hi \<and> p x < 16"
    using assms(1) unfolding painter_def by blast
  obtain Q q c' where g: "\<And>dst. g c dst = (paint Q q dst, c')" "\<And>x. Q x \<Longrightarrow> lo \<le> x \<and> x < hi \<and> q x < 16"
    using assms(2) [of c] unfolding painter_def by blast
  have "h dst = (paint (\<lambda>x. Q x \<or> P x) (\<lambda>x. if Q x then q x else p x) dst, c')" for dst
    by (simp add: assms(3) f(1) g(1) paint_paint)
  then show ?thesis unfolding painter_def using f(2) g(2)
    by (intro exI [of _ "\<lambda>x. Q x \<or> P x"] exI [of _ "\<lambda>x. if Q x then q x else p x"] exI [of _ c']) auto
qed

section \<open>Colours\<close>

lemma and_lt [simp]: "(x :: u8) AND 0x0F < 16" "(x :: u8) AND 0x07 < 16"
proof -
  have "x AND 0x0F \<le> 0x0F" "x AND 0x07 \<le> 0x07" by (rule word_and_le1)+
  moreover have "(0x0F :: u8) < 16" "(0x07 :: u8) < 16" by simp_all
  ultimately show "x AND 0x0F < 16" "x AND 0x07 < 16" by (metis le_less_trans)+
qed

lemma nibble_lt [simp]: "drop_bit 4 (x :: u8) < 16"
proof -
  have e: "(0x0F :: u8) = mask 4" by (simp add: mask_eq_exp_minus_1)
  have "drop_bit 4 x = drop_bit 4 x AND (0x0F :: u8)"
    unfolding e by (intro bit_word_eqI) (auto simp: bit_simps dest: bit_imp_le_length)
  then show ?thesis using and_lt(1) [of "drop_bit 4 x"] by simp
qed

lemma vicColour_lt [simp]: "vicColour state r < 16"
  by (simp add: vicColour_def)

lemma background_lt [simp]: "cx_background (makeContext state) i < 16"
  by (simp add: makeContext_def Let_def)

lemma sprite_colour_lt [simp]: "sprite_colour state n v < 16"
  by (simp add: sprite_colour_def)

lemma pixels_lt: "fg < 16 \<Longrightarrow> bg < 16 \<Longrightarrow> single_pixels bits fg bg i < 16"
  "a < 16 \<Longrightarrow> b < 16 \<Longrightarrow> c < 16 \<Longrightarrow> d < 16 \<Longrightarrow> pair_pixels bits a b c d i < 16"
  by (simp_all add: single_pixels_def pair_pixels_def Let_def)

lemma cell_lt: "fst (decodeGraphicsCell state (makeContext state) cell l) i < 16"
proof -
  have c: "(case vr_colourRAM state of Some c \<Rightarrow> c (cell mod 1024) AND 0x0F | None \<Rightarrow> 14) < (16 :: u8)"
    by (simp split: option.split)
  show ?thesis
    unfolding decodeGraphicsCell_def Let_def using c by (simp add: pixels_lt split: VICRenderMode.split)
qed

section \<open>Stages of a row\<close>

lemma fill_painter: "v < 16 \<Longrightarrow> lo \<le> first \<Longrightarrow> first + n \<le> hi \<Longrightarrow> painter lo hi (\<lambda>dst. (fill first n v dst, c))"
  unfolding painter_def
  by (intro exI [of _ "\<lambda>x. first \<le> x \<and> x < first + n"] exI [of _ "\<lambda>_. v"] exI [of _ c]) (auto simp: fill_def paint_def)

lemma cells_painter:
  "painter (ap_left a) (ap_right a) (\<lambda>dst. fold (draw_cell state (makeContext state) a sy) cols (dst, oc))"
proof (induction cols arbitrary: oc)
  case Nil
  show ?case unfolding painter_def
    by (intro exI [of _ "\<lambda>_. False"] exI [of _ "\<lambda>_. 0"] exI [of _ oc]) (simp add: paint_def)
next
  case (Cons col cols)
  have "painter (ap_left a) (ap_right a) (\<lambda>dst. draw_cell state (makeContext state) a sy col (dst, oc))"
  proof -
    let ?cell = "decodeGraphicsCell state (makeContext state) ((sy div 8) * 40 + col) (sy mod 8)" and ?l = "origin_x state + int col * 8"
    let ?lo = "if ?l < int (ap_left a) then int (ap_left a) else ?l" and ?hi = "if ?l + 8 > int (ap_right a) then int (ap_right a) else ?l + 8"
    show ?thesis unfolding painter_def
      by (intro exI [of _ "\<lambda>x. ?lo \<le> int x \<and> int x < ?hi"] exI [of _ "\<lambda>x. fst ?cell (nat (int x - ?l))"] exI [of _ "oc(col := snd ?cell)"])
        (auto simp: draw_cell_def Let_def paint_def cell_lt)
  qed
  then show ?case
    by (rule painter_comp [where g = "\<lambda>oc dst. fold (draw_cell state (makeContext state) a sy) cols (dst, oc)", OF _ Cons.IH])
      (simp add: case_prod_unfold)
qed

lemma sprites_painter:
  "painter (ap_left a) (ap_right a) (\<lambda>dst. renderSpritesOnRow state context dst y a opaqueCells collisions drawRow)"
proof (cases "vr_vic state 0x15 = 0 \<or> vr_ram state = None \<or> vr_screenBase state \<ge> 0x10000")
  case True
  then show ?thesis unfolding painter_def
    by (intro exI [of _ "\<lambda>_. False"] exI [of _ "\<lambda>_. 0"] exI [of _ collisions]) (auto simp: paint_def renderSpritesOnRow_def)
next
  case False
  let ?r = "\<lambda>dst. \<lparr> sr_dst = dst, sr_coverage = (\<lambda>_. 0), sr_collisions = collisions \<rparr>"
  define f where "f = (\<lambda>dst. fold (one_sprite state context y a opaqueCells drawRow) (rev [0..<8]) (?r dst))"
  define fnd where "fnd = (\<lambda>x. find (\<lambda>n. sprite_drawn state context a opaqueCells drawRow y n x) [0..<8])"
  have e: "sprites_effect state context y a opaqueCells drawRow 0 (?r dst) (f dst)" for dst
    unfolding f_def by (rule all_sprites_effect) simp_all
  have s: "renderSpritesOnRow state context dst y a opaqueCells collisions drawRow = (sr_dst (f dst), sr_collisions (f dst))" for dst
    using False unfolding renderSpritesOnRow_def Let_def f_def by (simp only: if_False)
  have d: "sr_dst (f dst) = paint (\<lambda>x. fnd x \<noteq> None) (\<lambda>x. sprite_colour state (the (fnd x)) (sprite_dot state y (the (fnd x)) x)) dst" for dst
    using e [of dst] unfolding sprites_effect_def paint_def fnd_def by (auto split: option.split cong: option.case_cong)
  have c: "sr_collisions (f dst) = sr_collisions (f (\<lambda>_. 0))" for dst
  proof (cases collisions)
    case None
    then show ?thesis using e [of dst] e [of "\<lambda>_. 0"] unfolding sprites_effect_def by simp
  next
    case (Some c)
    obtain c1 where c1: "sr_collisions (f dst) = Some c1"
      "\<And>j. bit (vc_spriteSprite c1) j \<longleftrightarrow> bit (vc_spriteSprite c) j
         \<or> (\<exists>x i. 0 \<le> j \<and> j < 8 \<and> 0 \<le> i \<and> i < 8 \<and> i \<noteq> j \<and> sprite_dot state y j x \<noteq> 0 \<and> sprite_dot state y i x \<noteq> 0)"
      "\<And>j. bit (vc_spriteBackground c1) j \<longleftrightarrow> bit (vc_spriteBackground c) j
         \<or> (\<exists>x. 0 \<le> j \<and> j < 8 \<and> sprite_dot state y j x \<noteq> 0 \<and> hidden_at state context a opaqueCells y x)"
      using e [of dst] Some unfolding sprites_effect_def by auto
    obtain c2 where c2: "sr_collisions (f (\<lambda>_. 0)) = Some c2"
      "\<And>j. bit (vc_spriteSprite c2) j \<longleftrightarrow> bit (vc_spriteSprite c) j
         \<or> (\<exists>x i. 0 \<le> j \<and> j < 8 \<and> 0 \<le> i \<and> i < 8 \<and> i \<noteq> j \<and> sprite_dot state y j x \<noteq> 0 \<and> sprite_dot state y i x \<noteq> 0)"
      "\<And>j. bit (vc_spriteBackground c2) j \<longleftrightarrow> bit (vc_spriteBackground c) j
         \<or> (\<exists>x. 0 \<le> j \<and> j < 8 \<and> sprite_dot state y j x \<noteq> 0 \<and> hidden_at state context a opaqueCells y x)"
      using e [of "\<lambda>_. 0"] Some unfolding sprites_effect_def by auto
    have "vc_spriteSprite c1 = vc_spriteSprite c2" by (rule bit_word_eqI) (simp only: c1(2) c2(2))
    moreover have "vc_spriteBackground c1 = vc_spriteBackground c2" by (rule bit_word_eqI) (simp only: c1(3) c2(3))
    ultimately show ?thesis by (simp add: c1(1) c2(1))
  qed
  have b: "ap_left a \<le> x \<and> x < ap_right a" if "fnd x \<noteq> None" for x
    using that unfolding fnd_def by (auto simp: find_Some_iff sprite_drawn_def)
  let ?g = "\<lambda>x. sprite_colour state (the (fnd x)) (sprite_dot state y (the (fnd x)) x)"
  have r: "renderSpritesOnRow state context dst y a opaqueCells collisions drawRow
      = (paint (\<lambda>x. fnd x \<noteq> None) ?g dst, sr_collisions (f (\<lambda>_. 0)))" for dst
    unfolding s by (subst c) (simp only: d)
  show ?thesis unfolding painter_def
  proof (intro exI conjI allI impI)
    show "renderSpritesOnRow state context dst y a opaqueCells collisions drawRow
      = (paint (\<lambda>x. fnd x \<noteq> None) ?g dst, sr_collisions (f (\<lambda>_. 0)))" for dst by (rule r)
  qed (use b in auto)
qed

lemma painter_mono: "painter lo hi f \<Longrightarrow> lo' \<le> lo \<Longrightarrow> hi \<le> hi' \<Longrightarrow> painter lo' hi' f"
proof -
  assume "painter lo hi f" and b: "lo' \<le> lo" "hi \<le> hi'"
  then obtain P g c where "\<And>dst. f dst = (paint P g dst, c)" "\<And>x. P x \<Longrightarrow> lo \<le> x \<and> x < hi \<and> g x < 16"
    unfolding painter_def by blast
  then show ?thesis using b unfolding painter_def
    by (intro exI [of _ P] exI [of _ g] exI [of _ c]) fastforce
qed

lemma aperture_bounds: "ap_left (active_aperture state) \<le> ap_right (active_aperture state)" "ap_right (active_aperture state) \<le> VIC_RENDER_WIDTH"
  by (simp_all add: active_aperture_def Let_def VIC_RENDER_DISPLAY_X_def VIC_RENDER_DISPLAY_W_def VIC_RENDER_WIDTH_def)

section \<open>A row\<close>

text \<open>A row writes its 384 columns, whatever they held, and nothing else.\<close>

lemma render_row_paint:
  "\<exists>g c. (\<forall>dst. render_row state (makeContext state) rowState y collisions dst = (paint (\<lambda>x. x < VIC_RENDER_WIDTH) g dst, c))
     \<and> (\<forall>x < VIC_RENDER_WIDTH. g x < 16)"
proof -
  define a where "a = active_aperture state"
  define border where "border = vicColour state 0x20"
  define inner where "inner = (if cx_mode (makeContext state) = VIC_RENDER_INVALID then 0 else vicColour state 0x21)"
  have ab: "ap_left a \<le> ap_right a" "ap_right a \<le> VIC_RENDER_WIDTH" by (simp_all add: a_def aperture_bounds)
  have lt: "border < 16" "inner < 16" by (simp_all add: border_def inner_def)
  have finish: ?thesis
    if b: "\<And>dst. render_row state (makeContext state) rowState y collisions dst = h (base dst)"
      and base: "\<And>dst x. base dst x = (if x < VIC_RENDER_WIDTH then k x else dst x)" "\<And>x. x < VIC_RENDER_WIDTH \<Longrightarrow> k x < 16"
      and h: "painter (ap_left a) (ap_right a) h" for h base k
  proof -
    obtain P p c where hp: "\<And>dst. h dst = (paint P p dst, c)" "\<And>x. P x \<Longrightarrow> ap_left a \<le> x \<and> x < ap_right a \<and> p x < 16"
      using h unfolding painter_def by blast
    let ?g = "\<lambda>x. if P x then p x else k x"
    have "paint P p (base dst) = paint (\<lambda>x. x < VIC_RENDER_WIDTH) ?g dst" for dst
    proof
      fix x
      show "paint P p (base dst) x = paint (\<lambda>x. x < VIC_RENDER_WIDTH) ?g dst x"
        using hp(2) [of x] ab by (auto simp: paint_def base(1))
    qed
    then show ?thesis
      using hp(2) base(2) by (intro exI [of _ ?g] exI [of _ c]) (auto simp: b hp(1))
  qed
  show ?thesis
  proof (cases "cx_mode (makeContext state) = VIC_RENDER_BLANK \<or> y < ap_top a \<or> y \<ge> ap_bottom a")
    case True
    show ?thesis
    proof (rule finish [where base = "fill 0 VIC_RENDER_WIDTH border" and k = "\<lambda>_. border"])
      show "render_row state (makeContext state) rowState y collisions dst =
          renderSpritesOnRow rowState (makeContext state) (fill 0 VIC_RENDER_WIDTH border dst) y a (\<lambda>_. 0) collisions False" for dst
        using True by (simp add: render_row_def Let_def a_def border_def)
    qed (simp_all add: fill_def lt sprites_painter)
  next
    case False
    let ?gfx = "mode_has_graphics (makeContext state) \<and> 0 \<le> int y - origin_y state \<and> int y - origin_y state < int VIC_RENDER_DISPLAY_H"
    define cells where "cells = (\<lambda>dst :: nat \<Rightarrow> u8.
        if ?gfx then fold (draw_cell state (makeContext state) a (nat (int y - origin_y state))) [0..<40] (dst, \<lambda>_. 0) else (dst, \<lambda>_. 0))"
    define base where "base = (\<lambda>dst. fill (ap_left a) (ap_right a - ap_left a) inner
        (fill (ap_right a) (VIC_RENDER_WIDTH - ap_right a) border (fill 0 (ap_left a) border dst)))"
    have "painter (ap_left a) (ap_right a) cells"
    proof (cases ?gfx)
      case True
      then show ?thesis unfolding cells_def by (simp only: if_True simp_thms) (rule cells_painter)
    next
      case False
      then have "cells = (\<lambda>dst. (dst, \<lambda>_. 0))" by (auto simp: cells_def)
      then show ?thesis unfolding painter_def
        by (intro exI [of _ "\<lambda>_. False"] exI [of _ "\<lambda>_. 0"] exI [of _ "\<lambda>_. 0"]) (simp add: paint_def)
    qed
    then have p: "painter (ap_left a) (ap_right a) (\<lambda>dst. let (dst, oc) = cells dst in
        renderSpritesOnRow rowState (makeContext state) dst y a oc collisions True)"
      by (rule painter_comp [where g = "\<lambda>oc dst. renderSpritesOnRow rowState (makeContext state) dst y a oc collisions True", OF _ sprites_painter]) simp
    show ?thesis
    proof (rule finish [OF _ _ _ p])
      show "render_row state (makeContext state) rowState y collisions dst =
          (let (dst, oc) = cells (base dst) in renderSpritesOnRow rowState (makeContext state) dst y a oc collisions True)" for dst
        using False unfolding render_row_def Let_def cells_def base_def a_def [symmetric] border_def [symmetric] inner_def [symmetric]
        by (simp only: if_False)
      show "base dst x = (if x < VIC_RENDER_WIDTH then if ap_left a \<le> x \<and> x < ap_right a then inner else border else dst x)" for dst x
        using ab by (auto simp: base_def fill_def)
    qed (use lt in simp)
  qed
qed

text \<open>The pixels of a row and what it leaves for the next, as functions of the latches and the sequencer alone.\<close>

type_synonym latches = "VICRenderCollisions option \<times> VICRenderSpriteSequencer option"

definition row_state :: "VICRenderState \<Rightarrow> nat \<Rightarrow> VICRenderSpriteSequencer option \<Rightarrow> VICRenderState" where
  "row_state state y sprites = (case sprites of None \<Rightarrow> state | Some q \<Rightarrow> snd (prepareSpriteRow state y q))"

definition row_pixels :: "VICRenderState \<Rightarrow> nat \<Rightarrow> latches \<Rightarrow> nat \<Rightarrow> u8" where
  "row_pixels state y l = fst (render_row state (makeContext state) (row_state state y (snd l)) y (fst l) (\<lambda>_. 0))"

definition row_next :: "VICRenderState \<Rightarrow> nat \<Rightarrow> latches \<Rightarrow> latches" where
  "row_next state y l =
     (snd (render_row state (makeContext state) (row_state state y (snd l)) y (fst l) (\<lambda>_. 0)),
      map_option (\<lambda>q. finishSpriteRow (fst (prepareSpriteRow state y q))) (snd l))"

lemma row_step_spec:
  "ro_pixels (row_step state pitch first y r) i =
     (if (y - first) * pitch \<le> i \<and> i < (y - first) * pitch + VIC_RENDER_WIDTH
      then row_pixels state y (ro_collisions r, ro_sprites r) (i - (y - first) * pitch) else ro_pixels r i)"
  "(ro_collisions (row_step state pitch first y r), ro_sprites (row_step state pitch first y r)) = row_next state y (ro_collisions r, ro_sprites r)"
  "x < VIC_RENDER_WIDTH \<Longrightarrow> row_pixels state y l x < 16"
proof -
  let ?base = "(y - first) * pitch" and ?l = "(ro_collisions r, ro_sprites r)"
  let ?rr = "\<lambda>dst. render_row state (makeContext state) (row_state state y (ro_sprites r)) y (ro_collisions r) dst"
  obtain g c where g: "\<And>dst. ?rr dst = (paint (\<lambda>x. x < VIC_RENDER_WIDTH) g dst, c)" using render_row_paint by blast
  have s: "row_step state pitch first y r =
      \<lparr> ro_pixels = (\<lambda>i. if ?base \<le> i then fst (?rr (\<lambda>x. ro_pixels r (?base + x))) (i - ?base) else ro_pixels r i),
        ro_collisions = snd (?rr (\<lambda>x. ro_pixels r (?base + x))),
        ro_sprites = map_option (\<lambda>q. finishSpriteRow (fst (prepareSpriteRow state y q))) (ro_sprites r) \<rparr>"
    by (cases "ro_sprites r") (simp_all add: row_step_def row_state_def Let_def case_prod_unfold cong: if_cong)
  show "ro_pixels (row_step state pitch first y r) i =
     (if ?base \<le> i \<and> i < ?base + VIC_RENDER_WIDTH then row_pixels state y ?l (i - ?base) else ro_pixels r i)"
    by (auto simp: s g row_pixels_def paint_def)
  show "(ro_collisions (row_step state pitch first y r), ro_sprites (row_step state pitch first y r)) = row_next state y ?l"
    by (simp add: s g row_next_def)
  obtain g c where "\<And>dst. render_row state (makeContext state) (row_state state y (snd l)) y (fst l) dst = (paint (\<lambda>x. x < VIC_RENDER_WIDTH) g dst, c)"
    "\<And>x. x < VIC_RENDER_WIDTH \<Longrightarrow> g x < 16" using render_row_paint by metis
  then show "x < VIC_RENDER_WIDTH \<Longrightarrow> row_pixels state y l x < 16" by (simp add: row_pixels_def paint_def)
qed

section \<open>Rows\<close>

definition rows_next :: "VICRenderState \<Rightarrow> nat \<Rightarrow> nat \<Rightarrow> latches \<Rightarrow> latches" where
  "rows_next state first n = fold (row_next state) [first..<first + n]"

lemma rows_fold:
  fixes state :: VICRenderState and first pitch :: nat and p :: "nat \<Rightarrow> u8"
    and c :: "VICRenderCollisions option" and q :: "VICRenderSpriteSequencer option"
  assumes "VIC_RENDER_WIDTH \<le> pitch"
  defines "r \<equiv> \<lambda>n. fold (row_step state pitch first) [first..<first + n] \<lparr> ro_pixels = p, ro_collisions = c, ro_sprites = q \<rparr>"
  shows "(ro_collisions (r n), ro_sprites (r n)) = rows_next state first n (c, q)
    \<and> (\<forall>k x. k < n \<longrightarrow> x < VIC_RENDER_WIDTH \<longrightarrow>
         ro_pixels (r n) (k * pitch + x) = row_pixels state (first + k) (rows_next state first k (c, q)) x)
    \<and> (\<forall>i. (\<forall>k < n. \<not> (k * pitch \<le> i \<and> i < k * pitch + VIC_RENDER_WIDTH)) \<longrightarrow> ro_pixels (r n) i = p i)"
proof (induction n)
  case 0
  show ?case by (simp add: r_def rows_next_def)
next
  case (Suc n)
  have R: "r (Suc n) = row_step state pitch first (first + n) (r n)" by (simp add: r_def)
  have N: "rows_next state first (Suc n) l = row_next state (first + n) (rows_next state first n l)" for l
    by (simp add: rows_next_def)
  have a: "(ro_collisions (r (Suc n)), ro_sprites (r (Suc n))) = rows_next state first (Suc n) (c, q)"
    unfolding R row_step_spec(2) N using Suc.IH by simp
  have px: "ro_pixels (r (Suc n)) i = (if n * pitch \<le> i \<and> i < n * pitch + VIC_RENDER_WIDTH
      then row_pixels state (first + n) (rows_next state first n (c, q)) (i - n * pitch) else ro_pixels (r n) i)" for i
    unfolding R row_step_spec(1) using Suc.IH by simp
  have b: "ro_pixels (r (Suc n)) (k * pitch + x) = row_pixels state (first + k) (rows_next state first k (c, q)) x"
    if "k < Suc n" "x < VIC_RENDER_WIDTH" for k x
  proof (cases "k = n")
    case True
    then show ?thesis using that by (simp add: px)
  next
    case False
    then have "k * pitch + pitch \<le> n * pitch" using that mult_le_mono1 [of "Suc k" n pitch] by simp
    then show ?thesis using that False Suc.IH assms(1) by (simp add: px)
  qed
  show ?case using a b Suc.IH by (auto simp: px)
qed

section \<open>Frames\<close>

lemma renderRows_eq:
  assumes "VIC_RENDER_WIDTH \<le> pitch"
  shows "renderRows state (Some p) pitch first count c q =
     (let r = fold (row_step state pitch first) [first..<first + clamp_rows first count]
                \<lparr> ro_pixels = p, ro_collisions = c, ro_sprites = q \<rparr>
      in (cx_mode (makeContext state), Some (ro_pixels r), ro_collisions r, ro_sprites r))"
  using assms by (simp add: renderRows_def)

lemma rendered_rows:
  assumes "VIC_RENDER_WIDTH \<le> pitch" "renderRows state (Some p) pitch first count c q = (mode, Some p', c', q')"
  shows "mode = cx_mode (makeContext state) \<and> (c', q') = rows_next state first (clamp_rows first count) (c, q)
    \<and> (\<forall>k x. k < clamp_rows first count \<longrightarrow> x < VIC_RENDER_WIDTH \<longrightarrow>
         p' (k * pitch + x) = row_pixels state (first + k) (rows_next state first k (c, q)) x)
    \<and> (\<forall>i. (\<forall>k < clamp_rows first count. \<not> (k * pitch \<le> i \<and> i < k * pitch + VIC_RENDER_WIDTH)) \<longrightarrow> p' i = p i)"
proof -
  note f = rows_fold [OF assms(1), of state first "clamp_rows first count" p c q]
  have "mode = cx_mode (makeContext state)"
    "p' = ro_pixels (fold (row_step state pitch first) [first..<first + clamp_rows first count] \<lparr> ro_pixels = p, ro_collisions = c, ro_sprites = q \<rparr>)"
    "c' = ro_collisions (fold (row_step state pitch first) [first..<first + clamp_rows first count] \<lparr> ro_pixels = p, ro_collisions = c, ro_sprites = q \<rparr>)"
    "q' = ro_sprites (fold (row_step state pitch first) [first..<first + clamp_rows first count] \<lparr> ro_pixels = p, ro_collisions = c, ro_sprites = q \<rparr>)"
    using assms(2) unfolding renderRows_eq [OF assms(1)] Let_def by simp_all
  then show ?thesis using f by simp
qed

text \<open>C33. Every byte the renderer writes is a colour index: after a call, each of the 384 columns of each requested row
  inside the picture holds a value below 16, and every other byte of the buffer is untouched, whatever the
  registers, the memory and the pitch.\<close>

theorem rendered_bytes_are_colours:
  assumes "VIC_RENDER_WIDTH \<le> pitch" "renderRows state (Some p) pitch first count c q = (mode, Some p', c', q')"
  shows "(\<forall>k < clamp_rows first count. \<forall>x < VIC_RENDER_WIDTH. p' (k * pitch + x) < 16)
    \<and> (\<forall>i. (\<forall>k < clamp_rows first count. \<not> (k * pitch \<le> i \<and> i < k * pitch + VIC_RENDER_WIDTH)) \<longrightarrow> p' i = p i)"
  using rendered_rows [OF assms] row_step_spec(3) by metis

text \<open>C31. Rendering in bands is rendering at once: \<open>m + n\<close> rows drawn by one call, and the same rows drawn by two
  calls that hand the collision latches and the sprite sequencer on, into two buffers of any pitch, agree in
  every pixel, in the mode, in the latches and in the sequencer.\<close>

theorem rendered_in_bands:
  assumes "VIC_RENDER_WIDTH \<le> pitch" "VIC_RENDER_WIDTH \<le> pitch1" "VIC_RENDER_WIDTH \<le> pitch2" "first + m + n \<le> VIC_RENDER_HEIGHT"
    and all: "renderRows state (Some p) pitch first (m + n) c q = (mode, Some p', c', q')"
    and upper: "renderRows state (Some p1) pitch1 first m c q = (mode1, Some p1', c1, q1)"
    and lower: "renderRows state (Some p2) pitch2 (first + m) n c1 q1 = (mode2, Some p2', c2, q2)"
  shows "mode1 = mode \<and> mode2 = mode \<and> c2 = c' \<and> q2 = q'
    \<and> (\<forall>k < m. \<forall>x < VIC_RENDER_WIDTH. p' (k * pitch + x) = p1' (k * pitch1 + x))
    \<and> (\<forall>k < n. \<forall>x < VIC_RENDER_WIDTH. p' ((m + k) * pitch + x) = p2' (k * pitch2 + x))"
proof -
  have cl: "clamp_rows first (m + n) = m + n" "clamp_rows first m = m" "clamp_rows (first + m) n = n"
    using assms(4) by (auto simp: clamp_rows_def)
  note A = rendered_rows [OF assms(1) all, unfolded cl] and U = rendered_rows [OF assms(2) upper, unfolded cl]
    and L = rendered_rows [OF assms(3) lower, unfolded cl]
  have split: "rows_next state first (m + k) l = rows_next state (first + m) k (rows_next state first m l)" for k l
    unfolding rows_next_def using upt_add_eq_append [of first "first + m" k] by (simp add: add.assoc)
  have u: "(c1, q1) = rows_next state first m (c, q)" using U by simp
  have "(c', q') = rows_next state first (m + n) (c, q)" using A by simp
  also have "\<dots> = rows_next state (first + m) n (c1, q1)" by (simp only: split u)
  also have "\<dots> = (c2, q2)" using L by simp
  finally have end': "(c', q') = (c2, q2)" .
  have low: "p' ((m + k) * pitch + x) = p2' (k * pitch2 + x)" if "k < n" "x < VIC_RENDER_WIDTH" for k x
  proof -
    have "p' ((m + k) * pitch + x) = row_pixels state (first + (m + k)) (rows_next state first (m + k) (c, q)) x"
      using A that by (meson add_less_cancel_left)
    also have "\<dots> = row_pixels state (first + m + k) (rows_next state (first + m) k (c1, q1)) x"
      by (simp only: split u add.assoc)
    also have "\<dots> = p2' (k * pitch2 + x)" using L that by simp
    finally show ?thesis .
  qed
  have up: "p' (k * pitch + x) = p1' (k * pitch1 + x)" if "k < m" "x < VIC_RENDER_WIDTH" for k x
    using A U that by simp
  show ?thesis using A U L end' low up by blast
qed

section \<open>The sprite sequencer\<close>

text \<open>What the sequencer holds of sprite \<open>n\<close>.\<close>

definition sprite_view :: "nat \<Rightarrow> VICRenderSpriteSequencer \<Rightarrow> bool \<times> bool \<times> u8 \<times> u8" where
  "sprite_view n q = (bit (sq_active q) n, bit (sq_expanded q) n, sq_y q n, sq_rowsLeft q n)"

lemma fold_view:
  assumes "\<And>i q. i \<noteq> n \<Longrightarrow> sprite_view n (f i q) = sprite_view n q" "\<And>q. sprite_view n (f n q) = g (sprite_view n q)"
  shows "distinct xs \<Longrightarrow> sprite_view n (fold f xs q) = (if n \<in> set xs then g (sprite_view n q) else sprite_view n q)"
proof (induction xs arbitrary: q)
  case (Cons i xs)
  then show ?case by (cases "i = n") (auto simp: assms)
qed simp

definition after_trigger :: "VICRenderState \<Rightarrow> nat \<Rightarrow> nat \<Rightarrow> bool \<times> bool \<times> u8 \<times> u8 \<Rightarrow> bool \<times> bool \<times> u8 \<times> u8" where
  "after_trigger state row n = (\<lambda>(act, ex, y, left).
     if act \<or> \<not> bit (vr_vic state 0x15) n \<or> sprite_top state n \<noteq> int row then (act, ex, y, left)
     else (True, bit (vr_vic state 0x17) n, vr_vic state (n * 2 + 1), if bit (vr_vic state 0x17) n then 42 else 21))"

definition after_finish :: "bool \<times> bool \<times> u8 \<times> u8 \<Rightarrow> bool \<times> bool \<times> u8 \<times> u8" where
  "after_finish = (\<lambda>(act, ex, y, left).
     if \<not> act then (act, ex, y, left)
     else let left = (if left \<noteq> 0 then left - 1 else left) in if left = 0 then (False, False, y, left) else (act, ex, y, left))"

lemma triggers_view:
  "n < 8 \<Longrightarrow> sprite_view n (fold (trigger_sprite state row) [0..<8] q) = after_trigger state row n (sprite_view n q)"
proof -
  assume n: "n < 8"
  have "sprite_view n (trigger_sprite state row i q) = sprite_view n q" if "i \<noteq> n" for i q
    using that by (auto simp: sprite_view_def trigger_sprite_def Let_def bit_set_bit_iff bit_unset_bit_iff)
  moreover have "sprite_view n (trigger_sprite state row n q) = after_trigger state row n (sprite_view n q)" for q
    using n by (auto simp: sprite_view_def trigger_sprite_def after_trigger_def Let_def bit_set_bit_iff bit_unset_bit_iff)
  ultimately show ?thesis using n fold_view [of n "trigger_sprite state row" "after_trigger state row n" "[0..<8]" q] by simp
qed

lemma finishes_view: "n < 8 \<Longrightarrow> sprite_view n (finishSpriteRow q) = after_finish (sprite_view n q)"
proof -
  assume n: "n < 8"
  have "sprite_view n (finish_sprite i q) = sprite_view n q" if "i \<noteq> n" for i q
    using that by (auto simp: sprite_view_def finish_sprite_def Let_def bit_unset_bit_iff)
  moreover have "sprite_view n (finish_sprite n q) = after_finish (sprite_view n q)" for q
    using n by (auto simp: sprite_view_def finish_sprite_def after_finish_def Let_def bit_unset_bit_iff)
  ultimately show ?thesis using n fold_view [of n finish_sprite after_finish "[0..<8]" q] by (simp add: finishSpriteRow_def)
qed

lemma row_frame:
  "sq_nextRow (fold (trigger_sprite state row) xs q) = sq_nextRow q" "sq_primed (fold (trigger_sprite state row) xs q) = sq_primed q"
  "sq_nextRow (finishSpriteRow q) = sq_nextRow q" "sq_primed (finishSpriteRow q) = sq_primed q"
proof -
  have t: "sq_nextRow (trigger_sprite state row i q) = sq_nextRow q \<and> sq_primed (trigger_sprite state row i q) = sq_primed q" for i q
    by (simp add: trigger_sprite_def Let_def)
  have f: "sq_nextRow (finish_sprite i q) = sq_nextRow q \<and> sq_primed (finish_sprite i q) = sq_primed q" for i q
    by (simp add: finish_sprite_def Let_def)
  show "sq_nextRow (fold (trigger_sprite state row) xs q) = sq_nextRow q" "sq_primed (fold (trigger_sprite state row) xs q) = sq_primed q"
    by (induction xs arbitrary: q) (simp_all add: t)
  show "sq_nextRow (finishSpriteRow q) = sq_nextRow q" "sq_primed (finishSpriteRow q) = sq_primed q"
  proof -
    have "sq_nextRow (fold finish_sprite xs q) = sq_nextRow q \<and> sq_primed (fold finish_sprite xs q) = sq_primed q" for xs
      by (induction xs arbitrary: q) (simp_all add: f)
    then show "sq_nextRow (finishSpriteRow q) = sq_nextRow q" "sq_primed (finishSpriteRow q) = sq_primed q"
      by (simp_all add: finishSpriteRow_def)
  qed
qed

lemma prepare_continuous:
  assumes "sq_primed q" "unat (sq_nextRow q) = row" "n < 8"
  shows "sprite_view n (fst (prepareSpriteRow state row q)) = after_trigger state row n (sprite_view n q)"
    "sq_primed (fst (prepareSpriteRow state row q))" "sq_nextRow (fst (prepareSpriteRow state row q)) = of_nat (row + 1)"
    "sprite_view n (fst (prepareSpriteRow state row q)) = (True, ex, y, left) \<Longrightarrow>
       vr_vic (snd (prepareSpriteRow state row q)) (n * 2 + 1) = y
       \<and> bit (vr_vic (snd (prepareSpriteRow state row q)) 0x17) n = ex
       \<and> bit (vr_vic (snd (prepareSpriteRow state row q)) 0x15) n = bit (vr_vic state 0x15) n"
proof -
  define q1 where "q1 = fold (trigger_sprite state row) [0..<8] q"
  have p: "prepareSpriteRow state row q = (q1\<lparr>sq_nextRow := of_nat (row + 1)\<rparr>, state\<lparr>vr_vic := row_vic state q1\<rparr>)"
    using assms(1,2) by (simp add: prepareSpriteRow_def Let_def q1_def)
  have v: "sprite_view n (q1\<lparr>sq_nextRow := x\<rparr>) = sprite_view n q1" for x by (simp add: sprite_view_def)
  show "sprite_view n (fst (prepareSpriteRow state row q)) = after_trigger state row n (sprite_view n q)"
    unfolding p fst_conv v unfolding q1_def by (rule triggers_view [OF assms(3)])
  show "sq_primed (fst (prepareSpriteRow state row q))" "sq_nextRow (fst (prepareSpriteRow state row q)) = of_nat (row + 1)"
    using assms(1) by (simp_all add: p q1_def row_frame)
  assume "sprite_view n (fst (prepareSpriteRow state row q)) = (True, ex, y, left)"
  then have "bit (sq_active q1) n" "bit (sq_expanded q1) n = ex" "sq_y q1 n = y" by (simp_all add: p v sprite_view_def)
  moreover have "n * 2 + 1 < 16" "odd (n * 2 + 1)" "(n * 2 + 1) div 2 = n" "n * 2 + 1 \<noteq> 0x15" "n * 2 + 1 \<noteq> 0x17" using assms(3) by auto
  ultimately show "vr_vic (snd (prepareSpriteRow state row q)) (n * 2 + 1) = y
       \<and> bit (vr_vic (snd (prepareSpriteRow state row q)) 0x17) n = ex
       \<and> bit (vr_vic (snd (prepareSpriteRow state row q)) 0x15) n = bit (vr_vic state 0x15) n"
    using assms(3) by (simp add: p row_vic_def bit_and_iff bit_or_iff bit_not_iff)
qed

text \<open>Rows one after the other, each with the registers in force on it.\<close>

definition sequencer_rows :: "(nat \<Rightarrow> VICRenderState) \<Rightarrow> nat \<Rightarrow> nat \<Rightarrow> VICRenderSpriteSequencer \<Rightarrow> VICRenderSpriteSequencer" where
  "sequencer_rows st row k = fold (\<lambda>y q. finishSpriteRow (fst (prepareSpriteRow (st y) y q))) [row..<row + k]"

lemma sequencer_rows_Suc:
  "sequencer_rows st row (Suc k) q = finishSpriteRow (fst (prepareSpriteRow (st (row + k)) (row + k) (sequencer_rows st row k q)))"
  by (simp add: sequencer_rows_def)

lemma rows_left: "0 < m \<Longrightarrow> m \<le> 42 \<Longrightarrow> after_finish (True, ex, y, of_nat m) = (1 < m, 1 < m \<and> ex, y, of_nat (m - 1))"
proof -
  assume m: "0 < m" "m \<le> 42"
  have z: "(of_nat k :: u8) = 0 \<longleftrightarrow> k = 0" if "k \<le> 42" for k
    using that nat_dvd_not_less [of k 256] by (auto simp: word_of_nat_eq_0_iff)
  have d: "(of_nat m - 1 :: u8) = of_nat (m - 1)" using m(1) by (simp add: of_nat_diff)
  have nz: "(of_nat m :: u8) \<noteq> 0" unfolding z [OF m(2)] using m(1) by simp
  have le: "m - 1 \<le> 42" using m(2) by simp
  have "after_finish (True, ex, y, of_nat m) =
      (if m - 1 = 0 then (False, False, y, of_nat (m - 1)) else (True, ex, y, of_nat (m - 1)))"
    unfolding after_finish_def Let_def prod.case z [OF le, symmetric] using nz by (simp only: if_True if_False simp_thms d)
  then show ?thesis using m(1) by (cases "m = 1") simp_all
qed

lemma display_runs:
  fixes n row :: nat and st :: "nat \<Rightarrow> VICRenderState"
  defines "h \<equiv> if bit (vr_vic (st row) 0x17) n then 42 else 21 :: nat"
  assumes q: "sq_primed q" "unat (sq_nextRow q) = row" and r: "row + 42 < 65536" and n: "n < 8"
    and t: "\<not> bit (sq_active q) n" "bit (vr_vic (st row) 0x15) n" "sprite_top (st row) n = int row"
  defines "view \<equiv> \<lambda>k. (k < h, k < h \<and> bit (vr_vic (st row) 0x17) n, vr_vic (st row) (n * 2 + 1), of_nat (h - k) :: u8)"
  shows "k \<le> h \<Longrightarrow> sq_primed (sequencer_rows st row k q) \<and> unat (sq_nextRow (sequencer_rows st row k q)) = row + k
    \<and> (0 < k \<longrightarrow> sprite_view n (sequencer_rows st row k q) = view k)
    \<and> (k < h \<longrightarrow> sprite_view n (fst (prepareSpriteRow (st (row + k)) (row + k) (sequencer_rows st row k q))) = view k)"
proof (induction k)
  case 0
  have "after_trigger (st row) row n (sprite_view n q) = view 0"
    using t by (auto simp: after_trigger_def sprite_view_def view_def h_def)
  then show ?case using q prepare_continuous(1) [OF q n, of "st row"] by (simp add: sequencer_rows_def)
next
  case (Suc k)
  let ?q = "sequencer_rows st row k q" and ?q' = "sequencer_rows st row (Suc k) q"
  have IH: "sq_primed ?q" "unat (sq_nextRow ?q) = row + k"
    "sprite_view n (fst (prepareSpriteRow (st (row + k)) (row + k) ?q)) = view k" using Suc by simp_all
  have h: "h \<le> 42" by (simp add: h_def)
  note P = prepare_continuous [OF IH(1,2) n, of "st (row + k)"]
  have f: "sq_primed ?q'" "sq_nextRow ?q' = of_nat (row + Suc k)"
    unfolding sequencer_rows_Suc using P(2,3) by (simp_all add: row_frame)
  have u: "unat (sq_nextRow ?q') = row + Suc k"
  proof -
    have "row + Suc k < 2 ^ 16" using r h Suc.prems by simp
    then have "take_bit 16 (row + Suc k) = row + Suc k" by (rule take_bit_nat_eq_self)
    then show ?thesis unfolding f(2) unsigned_of_nat by simp
  qed
  have v: "sprite_view n ?q' = view (Suc k)"
    unfolding sequencer_rows_Suc finishes_view [OF n] IH(3) view_def using Suc.prems h rows_left [of "h - k"] by auto
  have "sprite_view n (fst (prepareSpriteRow (st (row + Suc k)) (row + Suc k) ?q')) = view (Suc k)" if "Suc k < h"
    unfolding prepare_continuous(1) [OF f(1) u n] v using that by (simp add: after_trigger_def view_def)
  then show ?case using f u v by simp
qed

text \<open>C32. A triggered sprite is displayed to its end. When the raster meets the Y position of an enabled sprite that is not being
  displayed, the sprite is displayed on that row and the next 20 (41 when it is expanded), and then ends: on the \<open>k\<close>-th
  of these rows its line \<open>k\<close> (\<open>k div 2\<close>) is shown, whatever is written to its Y position and Y expansion
  meanwhile; the enable bit stays live.\<close>

theorem sprite_display_runs_to_end:
  assumes "sq_primed q" "unat (sq_nextRow q) = row" "row + 42 < 65536" "n < 8" "\<not> bit (sq_active q) n"
    and "bit (vr_vic (st row) 0x15) n" "sprite_top (st row) n = int row"
    and expand: "expand = bit (vr_vic (st row) 0x17) n" and h: "h = (if expand then 42 else 21)"
  shows "(\<forall>k < h.
      let rs = snd (prepareSpriteRow (st (row + k)) (row + k) (sequencer_rows st row k q))
      in sprite_line rs (row + k) n = Some (if expand then k div 2 else k)
       \<and> bit (vr_vic rs 0x15) n = bit (vr_vic (st (row + k)) 0x15) n)
    \<and> \<not> bit (sq_active (sequencer_rows st row h q)) n"
proof -
  note D = display_runs [where st = st, OF assms(1-7), folded expand, folded h]
  have shown: "let rs = snd (prepareSpriteRow (st (row + k)) (row + k) (sequencer_rows st row k q))
      in sprite_line rs (row + k) n = Some (if expand then k div 2 else k)
       \<and> bit (vr_vic rs 0x15) n = bit (vr_vic (st (row + k)) 0x15) n" if k: "k < h" for k
  proof -
    let ?rs = "snd (prepareSpriteRow (st (row + k)) (row + k) (sequencer_rows st row k q))"
    have p: "sq_primed (sequencer_rows st row k q)" "unat (sq_nextRow (sequencer_rows st row k q)) = row + k"
      and v: "sprite_view n (fst (prepareSpriteRow (st (row + k)) (row + k) (sequencer_rows st row k q)))
        = (True, expand, vr_vic (st row) (n * 2 + 1), of_nat (h - k))"
      using D [of k] k by auto
    have rs: "vr_vic ?rs (n * 2 + 1) = vr_vic (st row) (n * 2 + 1)" "bit (vr_vic ?rs 0x17) n = expand"
      "bit (vr_vic ?rs 0x15) n = bit (vr_vic (st (row + k)) 0x15) n"
      using prepare_continuous(4) [OF p assms(4) v] by simp_all
    have "sprite_top ?rs n = int row" using assms(7) rs(1) by (simp only: sprite_top_def)
    then show ?thesis using k h rs(2,3) by (auto simp: sprite_line_def Let_def)
  qed
  have "0 < h" by (simp add: h)
  then have "sprite_view n (sequencer_rows st row h q) = (False, False, vr_vic (st row) (n * 2 + 1), 0)"
    using D [of h] by simp
  then show ?thesis using shown by (simp add: sprite_view_def)
qed

section \<open>Concrete pictures\<close>

text \<open>Text mode over a solid character set, with sprites 0 and 1 on row 50 at the left edge; sprite 0 is behind the
  graphics.\<close>

definition two_sprites :: VICRenderState where
  "two_sprites = \<lparr> vr_ram = Some (\<lambda>_. 0xFF), vr_charROM = None, vr_colourRAM = None, vr_bankBase = 0, vr_screenBase = 0x400,
     vr_charsetBase = 0x2000, vr_bitmapBase = 0, vr_yScrollVaries = False,
     vr_vic = (\<lambda>r. if r = 0x11 then 0x1B else if r = 0x15 then 3 else if r = 0x16 then 8 else if r = 0x1B then 1
                  else if r \<in> {1, 3} then 65 else if r \<in> {0, 2} then 30 else of_nat r),
     vr_spritePointers = None \<rparr>"


lemma renders: "384 \<le> pitch \<Longrightarrow> \<exists>m p' c' q'. renderRows s (Some p) pitch first count c q = (m, Some p', c', q')"
  by (simp add: renderRows_eq VIC_RENDER_WIDTH_def Let_def)

theorem rendered_bytes_are_colours_witness:
  "\<exists>m p' c' q'. renderRows two_sprites (Some (\<lambda>_. 0xFF)) 400 50 2 (Some no_collisions) None = (m, Some p', c', q')
     \<and> p' 383 < 16 \<and> p' 400 < 16 \<and> p' 390 = 0xFF"
proof -
  have w: "VIC_RENDER_WIDTH \<le> 400" "clamp_rows 50 2 = 2" by (simp_all add: VIC_RENDER_WIDTH_def clamp_rows_def VIC_RENDER_HEIGHT_def)
  obtain m p' c' q' where e: "renderRows two_sprites (Some (\<lambda>_. 0xFF)) 400 50 2 (Some no_collisions) None = (m, Some p', c', q')"
    using renders [of 400] by fastforce
  note X = rendered_bytes_are_colours [OF w(1) e, unfolded w(2)]
  have lt: "(0 :: nat) < 2" "(1 :: nat) < 2" "383 < VIC_RENDER_WIDTH" "0 < VIC_RENDER_WIDTH" by (simp_all add: VIC_RENDER_WIDTH_def)
  have "p' (0 * 400 + 383) < 16" "p' (1 * 400 + 0) < 16" using X lt by blast+
  moreover have "p' 390 = 0xFF"
  proof -
    have "\<not> (k * 400 \<le> 390 \<and> 390 < k * 400 + VIC_RENDER_WIDTH)" if "k < 2" for k :: nat
      using that by (cases k) (simp_all add: VIC_RENDER_WIDTH_def)
    then show ?thesis using X by blast
  qed
  ultimately show ?thesis using e by auto
qed

theorem rendered_in_bands_witness:
  "\<exists>p' p1' p2' m c q r s. renderRows two_sprites (Some (\<lambda>_. 0)) 384 49 2 (Some no_collisions) None = (m, Some p', c, q)
     \<and> renderRows two_sprites (Some (\<lambda>_. 1)) 400 49 1 (Some no_collisions) None = (m, Some p1', r, s)
     \<and> p' 5 = p1' 5
     \<and> renderRows two_sprites (Some (\<lambda>_. 2)) 512 50 1 r s = (m, Some p2', c, q) \<and> p' (384 + 7) = p2' 7"
proof -
  have w: "VIC_RENDER_WIDTH \<le> 384" "VIC_RENDER_WIDTH \<le> 400" "VIC_RENDER_WIDTH \<le> 512" "49 + 1 + 1 \<le> VIC_RENDER_HEIGHT"
    by (simp_all add: VIC_RENDER_WIDTH_def VIC_RENDER_HEIGHT_def)
  obtain m p' c q where a: "renderRows two_sprites (Some (\<lambda>_. 0)) 384 49 (1 + 1) (Some no_collisions) None = (m, Some p', c, q)"
    using renders [of 384] by fastforce
  obtain m1 p1' r s where u: "renderRows two_sprites (Some (\<lambda>_. 1)) 400 49 1 (Some no_collisions) None = (m1, Some p1', r, s)"
    using renders [of 400] by fastforce
  obtain m2 p2' r2 s2 where l: "renderRows two_sprites (Some (\<lambda>_. 2)) 512 (49 + 1) 1 r s = (m2, Some p2', r2, s2)"
    using renders [of 512] by fastforce
  note X = rendered_in_bands [OF w a u l]
  have lt: "(0 :: nat) < 1" "5 < VIC_RENDER_WIDTH" "7 < VIC_RENDER_WIDTH" by (simp_all add: VIC_RENDER_WIDTH_def)
  have "p' (0 * 384 + 5) = p1' (0 * 400 + 5)" "p' ((1 + 0) * 384 + 7) = p2' (0 * 512 + 7)" using X lt by blast+
  then have pix: "p' 5 = p1' 5" "p' (384 + 7) = p2' 7" by (simp_all only: mult_zero_left add_0 add_0_right mult_1)
  have e: "m1 = m" "m2 = m" "r2 = c" "s2 = q" using X by blast+
  have n: "(49 :: nat) + 1 = 50" by simp
  show ?thesis using pix a [unfolded one_add_one] u [unfolded e] l [unfolded e n] by blast
qed

definition idle_sequencer :: VICRenderSpriteSequencer where
  "idle_sequencer = \<lparr> sq_active = 0, sq_expanded = 0, sq_y = (\<lambda>_. 0), sq_rowsLeft = (\<lambda>_. 0), sq_nextRow = 50, sq_primed = True \<rparr>"

theorem sprite_display_runs_to_end_witness:
  "\<not> bit (sq_active (sequencer_rows (\<lambda>y. if y = 50 then two_sprites else two_sprites\<lparr>vr_vic := (\<lambda>_. 0xFF)\<rparr>) 50 42 idle_sequencer)) 0"
proof -
  let ?st = "\<lambda>y :: nat. if y = 50 then two_sprites else two_sprites\<lparr>vr_vic := (\<lambda>_. 0xFF)\<rparr>"
  have a: "sq_primed idle_sequencer" "unat (sq_nextRow idle_sequencer) = 50" "50 + 42 < (65536 :: nat)" "(0 :: nat) < 8"
    "\<not> bit (sq_active idle_sequencer) 0"
    by (simp_all add: idle_sequencer_def)
  have s: "bit (vr_vic (?st 50) 0x15) 0" "sprite_top (?st 50) 0 = int 50" "True = bit (vr_vic (?st 50) 0x17) 0"
    by (simp_all add: two_sprites_def sprite_top_def)
  show ?thesis using sprite_display_runs_to_end [where st = ?st, OF a s(1,2), of True 42] s(3) by simp
qed

end
