(* ===== verification/M6502Opcodes.thy ===== *)
theory M6502Opcodes
  imports Prelude
begin

text \<open>
  The opcode table of the 6502 core and its disassembler (\<open>Source/CPU/M6502/m6502_opcodes.h\<close>,
  \<open>m6502_opcodes.cpp\<close>): mnemonic, addressing mode, base cycles and the mark of the undocumented encodings, the length of
  an instruction by its mode, and \<open>m6502Disassemble\<close> over a reader with a state of its own. The lemmas bound the
  cycles and the length of the text.
\<close>

unbundle bit_operations_syntax

datatype M6502AddrMode =
    AM_IMP | AM_ACC | AM_IMM | AM_ZP | AM_ZPX | AM_ZPY | AM_ABS | AM_ABX | AM_ABY | AM_IND | AM_IZX | AM_IZY | AM_REL

fun m6502ModeLength :: "M6502AddrMode \<Rightarrow> nat" where
  "m6502ModeLength AM_IMP = 1"
| "m6502ModeLength AM_ACC = 1"
| "m6502ModeLength AM_IMM = 2"
| "m6502ModeLength AM_ZP = 2"
| "m6502ModeLength AM_ZPX = 2"
| "m6502ModeLength AM_ZPY = 2"
| "m6502ModeLength AM_ABS = 3"
| "m6502ModeLength AM_ABX = 3"
| "m6502ModeLength AM_ABY = 3"
| "m6502ModeLength AM_IND = 3"
| "m6502ModeLength AM_IZX = 2"
| "m6502ModeLength AM_IZY = 2"
| "m6502ModeLength AM_REL = 2"

record M6502OpcodeInfo =
  oi_mnemonic :: string
  oi_mode :: M6502AddrMode
  oi_cycles :: nat
  oi_undocumented :: bool

definition opD :: "string \<Rightarrow> M6502AddrMode \<Rightarrow> nat \<Rightarrow> M6502OpcodeInfo" where
  "opD mn md cyc = \<lparr> oi_mnemonic = mn, oi_mode = md, oi_cycles = cyc, oi_undocumented = False \<rparr>"

definition opU :: "string \<Rightarrow> M6502AddrMode \<Rightarrow> nat \<Rightarrow> M6502OpcodeInfo" where
  "opU mn md cyc = \<lparr> oi_mnemonic = mn, oi_mode = md, oi_cycles = cyc, oi_undocumented = True \<rparr>"

definition m6502Opcodes_00_7F :: "M6502OpcodeInfo list" where
  "m6502Opcodes_00_7F = [
    opD ''BRK'' AM_IMM 7, opD ''ORA'' AM_IZX 6, opU ''JAM'' AM_IMP 0, opU ''SLO'' AM_IZX 8,
    opU ''NOP'' AM_ZP 3, opD ''ORA'' AM_ZP 3, opD ''ASL'' AM_ZP 5, opU ''SLO'' AM_ZP 5,
    opD ''PHP'' AM_IMP 3, opD ''ORA'' AM_IMM 2, opD ''ASL'' AM_ACC 2, opU ''ANC'' AM_IMM 2,
    opU ''NOP'' AM_ABS 4, opD ''ORA'' AM_ABS 4, opD ''ASL'' AM_ABS 6, opU ''SLO'' AM_ABS 6,
    opD ''BPL'' AM_REL 2, opD ''ORA'' AM_IZY 5, opU ''JAM'' AM_IMP 0, opU ''SLO'' AM_IZY 8,
    opU ''NOP'' AM_ZPX 4, opD ''ORA'' AM_ZPX 4, opD ''ASL'' AM_ZPX 6, opU ''SLO'' AM_ZPX 6,
    opD ''CLC'' AM_IMP 2, opD ''ORA'' AM_ABY 4, opU ''NOP'' AM_IMP 2, opU ''SLO'' AM_ABY 7,
    opU ''NOP'' AM_ABX 4, opD ''ORA'' AM_ABX 4, opD ''ASL'' AM_ABX 7, opU ''SLO'' AM_ABX 7,
    opD ''JSR'' AM_ABS 6, opD ''AND'' AM_IZX 6, opU ''JAM'' AM_IMP 0, opU ''RLA'' AM_IZX 8,
    opD ''BIT'' AM_ZP 3, opD ''AND'' AM_ZP 3, opD ''ROL'' AM_ZP 5, opU ''RLA'' AM_ZP 5,
    opD ''PLP'' AM_IMP 4, opD ''AND'' AM_IMM 2, opD ''ROL'' AM_ACC 2, opU ''ANC'' AM_IMM 2,
    opD ''BIT'' AM_ABS 4, opD ''AND'' AM_ABS 4, opD ''ROL'' AM_ABS 6, opU ''RLA'' AM_ABS 6,
    opD ''BMI'' AM_REL 2, opD ''AND'' AM_IZY 5, opU ''JAM'' AM_IMP 0, opU ''RLA'' AM_IZY 8,
    opU ''NOP'' AM_ZPX 4, opD ''AND'' AM_ZPX 4, opD ''ROL'' AM_ZPX 6, opU ''RLA'' AM_ZPX 6,
    opD ''SEC'' AM_IMP 2, opD ''AND'' AM_ABY 4, opU ''NOP'' AM_IMP 2, opU ''RLA'' AM_ABY 7,
    opU ''NOP'' AM_ABX 4, opD ''AND'' AM_ABX 4, opD ''ROL'' AM_ABX 7, opU ''RLA'' AM_ABX 7,
    opD ''RTI'' AM_IMP 6, opD ''EOR'' AM_IZX 6, opU ''JAM'' AM_IMP 0, opU ''SRE'' AM_IZX 8,
    opU ''NOP'' AM_ZP 3, opD ''EOR'' AM_ZP 3, opD ''LSR'' AM_ZP 5, opU ''SRE'' AM_ZP 5,
    opD ''PHA'' AM_IMP 3, opD ''EOR'' AM_IMM 2, opD ''LSR'' AM_ACC 2, opU ''ALR'' AM_IMM 2,
    opD ''JMP'' AM_ABS 3, opD ''EOR'' AM_ABS 4, opD ''LSR'' AM_ABS 6, opU ''SRE'' AM_ABS 6,
    opD ''BVC'' AM_REL 2, opD ''EOR'' AM_IZY 5, opU ''JAM'' AM_IMP 0, opU ''SRE'' AM_IZY 8,
    opU ''NOP'' AM_ZPX 4, opD ''EOR'' AM_ZPX 4, opD ''LSR'' AM_ZPX 6, opU ''SRE'' AM_ZPX 6,
    opD ''CLI'' AM_IMP 2, opD ''EOR'' AM_ABY 4, opU ''NOP'' AM_IMP 2, opU ''SRE'' AM_ABY 7,
    opU ''NOP'' AM_ABX 4, opD ''EOR'' AM_ABX 4, opD ''LSR'' AM_ABX 7, opU ''SRE'' AM_ABX 7,
    opD ''RTS'' AM_IMP 6, opD ''ADC'' AM_IZX 6, opU ''JAM'' AM_IMP 0, opU ''RRA'' AM_IZX 8,
    opU ''NOP'' AM_ZP 3, opD ''ADC'' AM_ZP 3, opD ''ROR'' AM_ZP 5, opU ''RRA'' AM_ZP 5,
    opD ''PLA'' AM_IMP 4, opD ''ADC'' AM_IMM 2, opD ''ROR'' AM_ACC 2, opU ''ARR'' AM_IMM 2,
    opD ''JMP'' AM_IND 5, opD ''ADC'' AM_ABS 4, opD ''ROR'' AM_ABS 6, opU ''RRA'' AM_ABS 6,
    opD ''BVS'' AM_REL 2, opD ''ADC'' AM_IZY 5, opU ''JAM'' AM_IMP 0, opU ''RRA'' AM_IZY 8,
    opU ''NOP'' AM_ZPX 4, opD ''ADC'' AM_ZPX 4, opD ''ROR'' AM_ZPX 6, opU ''RRA'' AM_ZPX 6,
    opD ''SEI'' AM_IMP 2, opD ''ADC'' AM_ABY 4, opU ''NOP'' AM_IMP 2, opU ''RRA'' AM_ABY 7,
    opU ''NOP'' AM_ABX 4, opD ''ADC'' AM_ABX 4, opD ''ROR'' AM_ABX 7, opU ''RRA'' AM_ABX 7]"

definition m6502Opcodes_80_FF :: "M6502OpcodeInfo list" where
  "m6502Opcodes_80_FF = [
    opU ''NOP'' AM_IMM 2, opD ''STA'' AM_IZX 6, opU ''NOP'' AM_IMM 2, opU ''SAX'' AM_IZX 6,
    opD ''STY'' AM_ZP 3, opD ''STA'' AM_ZP 3, opD ''STX'' AM_ZP 3, opU ''SAX'' AM_ZP 3,
    opD ''DEY'' AM_IMP 2, opU ''NOP'' AM_IMM 2, opD ''TXA'' AM_IMP 2, opU ''ANE'' AM_IMM 2,
    opD ''STY'' AM_ABS 4, opD ''STA'' AM_ABS 4, opD ''STX'' AM_ABS 4, opU ''SAX'' AM_ABS 4,
    opD ''BCC'' AM_REL 2, opD ''STA'' AM_IZY 6, opU ''JAM'' AM_IMP 0, opU ''SHA'' AM_IZY 6,
    opD ''STY'' AM_ZPX 4, opD ''STA'' AM_ZPX 4, opD ''STX'' AM_ZPY 4, opU ''SAX'' AM_ZPY 4,
    opD ''TYA'' AM_IMP 2, opD ''STA'' AM_ABY 5, opD ''TXS'' AM_IMP 2, opU ''TAS'' AM_ABY 5,
    opU ''SHY'' AM_ABX 5, opD ''STA'' AM_ABX 5, opU ''SHX'' AM_ABY 5, opU ''SHA'' AM_ABY 5,
    opD ''LDY'' AM_IMM 2, opD ''LDA'' AM_IZX 6, opD ''LDX'' AM_IMM 2, opU ''LAX'' AM_IZX 6,
    opD ''LDY'' AM_ZP 3, opD ''LDA'' AM_ZP 3, opD ''LDX'' AM_ZP 3, opU ''LAX'' AM_ZP 3,
    opD ''TAY'' AM_IMP 2, opD ''LDA'' AM_IMM 2, opD ''TAX'' AM_IMP 2, opU ''LXA'' AM_IMM 2,
    opD ''LDY'' AM_ABS 4, opD ''LDA'' AM_ABS 4, opD ''LDX'' AM_ABS 4, opU ''LAX'' AM_ABS 4,
    opD ''BCS'' AM_REL 2, opD ''LDA'' AM_IZY 5, opU ''JAM'' AM_IMP 0, opU ''LAX'' AM_IZY 5,
    opD ''LDY'' AM_ZPX 4, opD ''LDA'' AM_ZPX 4, opD ''LDX'' AM_ZPY 4, opU ''LAX'' AM_ZPY 4,
    opD ''CLV'' AM_IMP 2, opD ''LDA'' AM_ABY 4, opD ''TSX'' AM_IMP 2, opU ''LAS'' AM_ABY 4,
    opD ''LDY'' AM_ABX 4, opD ''LDA'' AM_ABX 4, opD ''LDX'' AM_ABY 4, opU ''LAX'' AM_ABY 4,
    opD ''CPY'' AM_IMM 2, opD ''CMP'' AM_IZX 6, opU ''NOP'' AM_IMM 2, opU ''DCP'' AM_IZX 8,
    opD ''CPY'' AM_ZP 3, opD ''CMP'' AM_ZP 3, opD ''DEC'' AM_ZP 5, opU ''DCP'' AM_ZP 5,
    opD ''INY'' AM_IMP 2, opD ''CMP'' AM_IMM 2, opD ''DEX'' AM_IMP 2, opU ''SBX'' AM_IMM 2,
    opD ''CPY'' AM_ABS 4, opD ''CMP'' AM_ABS 4, opD ''DEC'' AM_ABS 6, opU ''DCP'' AM_ABS 6,
    opD ''BNE'' AM_REL 2, opD ''CMP'' AM_IZY 5, opU ''JAM'' AM_IMP 0, opU ''DCP'' AM_IZY 8,
    opU ''NOP'' AM_ZPX 4, opD ''CMP'' AM_ZPX 4, opD ''DEC'' AM_ZPX 6, opU ''DCP'' AM_ZPX 6,
    opD ''CLD'' AM_IMP 2, opD ''CMP'' AM_ABY 4, opU ''NOP'' AM_IMP 2, opU ''DCP'' AM_ABY 7,
    opU ''NOP'' AM_ABX 4, opD ''CMP'' AM_ABX 4, opD ''DEC'' AM_ABX 7, opU ''DCP'' AM_ABX 7,
    opD ''CPX'' AM_IMM 2, opD ''SBC'' AM_IZX 6, opU ''NOP'' AM_IMM 2, opU ''ISC'' AM_IZX 8,
    opD ''CPX'' AM_ZP 3, opD ''SBC'' AM_ZP 3, opD ''INC'' AM_ZP 5, opU ''ISC'' AM_ZP 5,
    opD ''INX'' AM_IMP 2, opD ''SBC'' AM_IMM 2, opD ''NOP'' AM_IMP 2, opU ''SBC'' AM_IMM 2,
    opD ''CPX'' AM_ABS 4, opD ''SBC'' AM_ABS 4, opD ''INC'' AM_ABS 6, opU ''ISC'' AM_ABS 6,
    opD ''BEQ'' AM_REL 2, opD ''SBC'' AM_IZY 5, opU ''JAM'' AM_IMP 0, opU ''ISC'' AM_IZY 8,
    opU ''NOP'' AM_ZPX 4, opD ''SBC'' AM_ZPX 4, opD ''INC'' AM_ZPX 6, opU ''ISC'' AM_ZPX 6,
    opD ''SED'' AM_IMP 2, opD ''SBC'' AM_ABY 4, opU ''NOP'' AM_IMP 2, opU ''ISC'' AM_ABY 7,
    opU ''NOP'' AM_ABX 4, opD ''SBC'' AM_ABX 4, opD ''INC'' AM_ABX 7, opU ''ISC'' AM_ABX 7]"

definition m6502Opcodes :: "M6502OpcodeInfo list" where
  "m6502Opcodes = m6502Opcodes_00_7F @ m6502Opcodes_80_FF"

lemmas m6502_table_defs = m6502Opcodes_def m6502Opcodes_00_7F_def m6502Opcodes_80_FF_def

definition m6502_info :: "u8 \<Rightarrow> M6502OpcodeInfo" where
  "m6502_info opcode = m6502Opcodes ! unat opcode"

section \<open>The disassembler\<close>

text \<open>\<open>appendHex\<close> writes the digits from the highest; a nibble of the value indexes the digit string.\<close>

definition hex_digit :: "u32 \<Rightarrow> char" where
  "hex_digit v = ''0123456789ABCDEF'' ! unat (v AND 0xF)"

definition appendHex :: "u32 \<Rightarrow> nat \<Rightarrow> string" where
  "appendHex v digits = map (\<lambda>i. hex_digit (drop_bit (i * 4) v)) (rev [0..<digits])"

fun operand_text :: "M6502AddrMode \<Rightarrow> u16 \<Rightarrow> u8 \<Rightarrow> u16 \<Rightarrow> string" where
  "operand_text AM_IMP addr lo word = []"
| "operand_text AM_ACC addr lo word = '' A''"
| "operand_text AM_IMM addr lo word = '' #$'' @ appendHex (ucast lo) 2"
| "operand_text AM_ZP addr lo word = '' $'' @ appendHex (ucast lo) 2"
| "operand_text AM_ZPX addr lo word = '' $'' @ appendHex (ucast lo) 2 @ '',X''"
| "operand_text AM_ZPY addr lo word = '' $'' @ appendHex (ucast lo) 2 @ '',Y''"
| "operand_text AM_ABS addr lo word = '' $'' @ appendHex (ucast word) 4"
| "operand_text AM_ABX addr lo word = '' $'' @ appendHex (ucast word) 4 @ '',X''"
| "operand_text AM_ABY addr lo word = '' $'' @ appendHex (ucast word) 4 @ '',Y''"
| "operand_text AM_IND addr lo word = '' ($'' @ appendHex (ucast word) 4 @ '')''"
| "operand_text AM_IZX addr lo word = '' ($'' @ appendHex (ucast lo) 2 @ '',X)''"
| "operand_text AM_IZY addr lo word = '' ($'' @ appendHex (ucast lo) 2 @ ''),Y''"
| "operand_text AM_REL addr lo word = '' $'' @ appendHex (ucast (addr + 2 + scast lo)) 4"

definition m6502Disassemble :: "u16 \<Rightarrow> (u16 \<Rightarrow> ('c, u8) state) \<Rightarrow> ('c, string \<times> nat) state" where
  "m6502Disassemble addr readByte = do {
     opcode \<leftarrow> readByte addr;
     let info = m6502_info opcode;
     let len = m6502ModeLength (oi_mode info);
     lo \<leftarrow> (if len > 1 then readByte (addr + 1) else ret 0);
     hi \<leftarrow> (if len > 2 then readByte (addr + 2) else ret 0);
     ret (oi_mnemonic info @ (if oi_undocumented info then ''*'' else []) @ operand_text (oi_mode info) addr lo (word16 lo hi), len) }"

section \<open>The table\<close>

lemma length_m6502Opcodes: "length m6502Opcodes = 256"
  by (simp add: m6502_table_defs)

lemma m6502_table_all:
  assumes "list_all P m6502Opcodes"
  shows "P (m6502_info opcode)"
  using assms unsigned_less [of opcode, where ?'a = nat] by (simp add: list_all_length length_m6502Opcodes m6502_info_def)

definition info_ok :: "M6502OpcodeInfo \<Rightarrow> bool" where
  "info_ok i \<longleftrightarrow> length (oi_mnemonic i) = 3 \<and> oi_cycles i \<le> 8 \<and> (oi_cycles i = 0 \<longleftrightarrow> oi_mnemonic i = ''JAM'')"

lemma table_info_ok: "list_all info_ok m6502Opcodes"
  by code_simp

lemmas m6502_info_ok = m6502_table_all [OF table_info_ok, unfolded info_ok_def]

lemma operand_text_length: "length (operand_text md addr lo w) \<le> 8"
  by (cases md) (simp_all add: appendHex_def)

end
