(* ===== verification/M6502.thy ===== *)
theory M6502
  imports M6502Opcodes CpuBus "HOL-Library.While_Combinator"
begin

text \<open>
  The 6502 core \<open>CM6502\<close> (\<open>Source/CPU/M6502/m6502.h\<close>, \<open>m6502.cpp\<close>): the register file, the bus and stack helpers, the
  ALU with NMOS decimal mode, the interrupt sequences, the effective addresses, the instructions in the order of the
  \<open>switch\<close> of \<open>CM6502::step\<close>, and \<open>reset\<close>, \<open>step\<close> and \<open>run\<close>. The operations are programs of the state monad over the
  register file, whose last field holds the state of the bus. With this core the SuperCPU's registers hold the emulation flag
  themselves and set it (\<open>CSuperCPU::init\<close>), so every read passes \<open>True\<close>. Cycle counts of one instruction are
  \<open>nat\<close>. Where C++ leaves the order of two reads inside one expression unspecified, the model reads left to right.
\<close>

unbundle bit_operations_syntax

section \<open>Registers\<close>

definition M6502_C :: u8 where "M6502_C = 0x01"
definition M6502_Z :: u8 where "M6502_Z = 0x02"
definition M6502_I :: u8 where "M6502_I = 0x04"
definition M6502_D :: u8 where "M6502_D = 0x08"
definition M6502_B :: u8 where "M6502_B = 0x10"
definition M6502_U :: u8 where "M6502_U = 0x20"
definition M6502_V :: u8 where "M6502_V = 0x40"
definition M6502_N :: u8 where "M6502_N = 0x80"

definition M6502_VEC_NMI :: u16 where "M6502_VEC_NMI = 0xFFFA"
definition M6502_VEC_RESET :: u16 where "M6502_VEC_RESET = 0xFFFC"
definition M6502_VEC_IRQ :: u16 where "M6502_VEC_IRQ = 0xFFFE"

lemmas m6502_flag_defs =
  M6502_C_def M6502_Z_def M6502_I_def M6502_D_def M6502_B_def M6502_U_def M6502_V_def M6502_N_def

record 'b m6502 =
  n_A :: u8
  n_X :: u8
  n_Y :: u8
  n_S :: u8
  n_P :: u8
  n_PC :: u16
  n_Jammed :: bool
  n_RMWDummyWrite :: bool
  n_Cycles :: u64
  n_RunBreak :: bool
  n_NMIPrevLevel :: bool
  n_NMIPending :: bool
  n_bus :: 'b

type_synonym ('b, 'a) cpu6502 = "('b m6502, 'a) state"

definition m6502_new :: "'b \<Rightarrow> 'b m6502" where
  "m6502_new b =
     \<lparr> n_A = 0, n_X = 0, n_Y = 0, n_S = 0xFD, n_P = M6502_U OR M6502_I, n_PC = 0, n_Jammed = False, n_RMWDummyWrite = True,
       n_Cycles = 0, n_RunBreak = False, n_NMIPrevLevel = False, n_NMIPending = False, n_bus = b \<rparr>"

section \<open>Bus and stack\<close>

definition n_rd :: "'b icpu_bus \<Rightarrow> u16 \<Rightarrow> ('b, u8) cpu6502" where
  "n_rd B a = State (\<lambda>s. let (v, b) = ib_read8 B True (ucast a) (n_bus s) in (v, s\<lparr>n_bus := b\<rparr>))"

definition n_wr :: "'b icpu_bus \<Rightarrow> u16 \<Rightarrow> u8 \<Rightarrow> ('b, unit) cpu6502" where
  "n_wr B a v = State (\<lambda>s. let (brk, b) = ib_write8 B (ucast a) v (n_bus s)
                           in ((), s\<lparr>n_bus := b, n_RunBreak := (n_RunBreak s \<or> brk)\<rparr>))"

definition n_tick :: "'b icpu_bus \<Rightarrow> nat \<Rightarrow> ('b, unit) cpu6502" where
  "n_tick B n = State (\<lambda>s. let (brk, b) = ib_tick B (of_nat n) (n_bus s)
                           in ((), s\<lparr>n_bus := b, n_RunBreak := (n_RunBreak s \<or> brk)\<rparr>))"

definition n_nmiAsserted :: "'b icpu_bus \<Rightarrow> ('b, bool) cpu6502" where
  "n_nmiAsserted B = State (\<lambda>s. let (l, b) = ib_nmiAsserted B (n_bus s) in (l, s\<lparr>n_bus := b\<rparr>))"

definition n_irqAsserted :: "'b icpu_bus \<Rightarrow> ('b, bool) cpu6502" where
  "n_irqAsserted B = State (\<lambda>s. let (l, b) = ib_irqAsserted B (n_bus s) in (l, s\<lparr>n_bus := b\<rparr>))"

definition n_fetch :: "'b icpu_bus \<Rightarrow> ('b, u8) cpu6502" where
  "n_fetch B = do { pc \<leftarrow> gets n_PC; modify (\<lambda>s. s\<lparr>n_PC := n_PC s + 1\<rparr>); n_rd B pc }"

definition n_fetch16 :: "'b icpu_bus \<Rightarrow> ('b, u16) cpu6502" where
  "n_fetch16 B = do { lo \<leftarrow> n_fetch B; hi \<leftarrow> n_fetch B; ret (word16 lo hi) }"

definition n_rd16 :: "'b icpu_bus \<Rightarrow> u16 \<Rightarrow> ('b, u16) cpu6502" where
  "n_rd16 B a = do { lo \<leftarrow> n_rd B a; hi \<leftarrow> n_rd B (a + 1); ret (word16 lo hi) }"

definition n_rd16WrapPage :: "'b icpu_bus \<Rightarrow> u16 \<Rightarrow> ('b, u16) cpu6502" where
  "n_rd16WrapPage B a = do {
     let hiAddr = (a AND 0xFF00) OR ((a + 1) AND 0x00FF);
     lo \<leftarrow> n_rd B a; hi \<leftarrow> n_rd B hiAddr; ret (word16 lo hi) }"

definition n_push :: "'b icpu_bus \<Rightarrow> u8 \<Rightarrow> ('b, unit) cpu6502" where
  "n_push B v = do { sp \<leftarrow> gets n_S; n_wr B (0x0100 OR ucast sp) v; modify (\<lambda>s. s\<lparr>n_S := n_S s - 1\<rparr>) }"

definition n_pop :: "'b icpu_bus \<Rightarrow> ('b, u8) cpu6502" where
  "n_pop B = do { modify (\<lambda>s. s\<lparr>n_S := n_S s + 1\<rparr>); sp \<leftarrow> gets n_S; n_rd B (0x0100 OR ucast sp) }"

definition n_push16 :: "'b icpu_bus \<Rightarrow> u16 \<Rightarrow> ('b, unit) cpu6502" where
  "n_push16 B v = do { n_push B (hi8 v); n_push B (lo8 v) }"

definition n_pop16 :: "'b icpu_bus \<Rightarrow> ('b, u16) cpu6502" where
  "n_pop16 B = do { lo \<leftarrow> n_pop B; hi \<leftarrow> n_pop B; ret (word16 lo hi) }"

section \<open>Flags and ALU\<close>

definition n_setFlag :: "u8 \<Rightarrow> bool \<Rightarrow> 'b m6502 \<Rightarrow> 'b m6502" where
  "n_setFlag msk on s = s\<lparr>n_P := set_flag msk on (n_P s)\<rparr>"

definition n_setZN :: "u8 \<Rightarrow> 'b m6502 \<Rightarrow> 'b m6502" where
  "n_setZN v s =
     s\<lparr>n_P := (n_P s AND NOT (M6502_Z OR M6502_N)) OR (if v \<noteq> 0 then 0 else M6502_Z) OR (v AND M6502_N)\<rparr>"

definition n_carry :: "'b m6502 \<Rightarrow> u16" where
  "n_carry s = (if has (n_P s) M6502_C then 1 else 0)"

definition n_opADC :: "u8 \<Rightarrow> 'b m6502 \<Rightarrow> 'b m6502" where
  "n_opADC v s =
     (let a = n_A s; c = n_carry s
      in if has (n_P s) M6502_D then
           let lo = ucast (a AND 0x0F) + ucast (v AND 0x0F) + c;
               hi = ucast (a AND 0xF0) + ucast (v AND 0xF0) :: u16;
               s = n_setFlag M6502_Z (a + v + ucast c = 0) s;
               (hi, lo) = (if lo > 0x09 then (hi + 0x10, lo + 0x06) else (hi, lo));
               s = n_setFlag M6502_N (hi AND 0x80 \<noteq> 0) s;
               s = n_setFlag M6502_V ((NOT (a XOR v) AND (a XOR ucast hi)) AND 0x80 \<noteq> 0) s;
               hi = (if hi > 0x90 then hi + 0x60 else hi);
               s = n_setFlag M6502_C (hi AND 0xFF00 \<noteq> 0) s
           in s\<lparr>n_A := ucast ((lo AND 0x0F) OR (hi AND 0xF0))\<rparr>
         else
           let r = ucast a + ucast v + c :: u16;
               s = n_setFlag M6502_C (r > 0xFF) s;
               s = n_setFlag M6502_V ((NOT (a XOR v) AND (a XOR ucast r)) AND 0x80 \<noteq> 0) s;
               s = s\<lparr>n_A := ucast r\<rparr>
           in n_setZN (n_A s) s)"

definition n_opSBC :: "u8 \<Rightarrow> 'b m6502 \<Rightarrow> 'b m6502" where
  "n_opSBC v s =
     (let a = n_A s; c = n_carry s;
          r = ucast a - ucast v - (1 - c) :: u16;
          s = n_setFlag M6502_C (r < 0x100) s;
          s = n_setFlag M6502_V ((a XOR v) AND (a XOR ucast r) AND 0x80 \<noteq> 0) s;
          s = (if has (n_P s) M6502_D then
                 let lo = ucast (a AND 0x0F) - ucast (v AND 0x0F) - (1 - c);
                     hi = ucast (a AND 0xF0) - ucast (v AND 0xF0) :: u16;
                     (lo, hi) = (if lo AND 0x10 \<noteq> 0 then (lo - 0x06, hi - 0x10) else (lo, hi));
                     hi = (if hi AND 0x0100 \<noteq> 0 then hi - 0x60 else hi)
                 in s\<lparr>n_A := ucast ((lo AND 0x0F) OR (hi AND 0xF0))\<rparr>
               else s\<lparr>n_A := ucast r\<rparr>)
      in n_setZN (ucast r) s)"

definition n_opCMP :: "u8 \<Rightarrow> u8 \<Rightarrow> 'b m6502 \<Rightarrow> 'b m6502" where
  "n_opCMP reg v s = n_setZN (ucast (ucast reg - ucast v :: u16)) (n_setFlag M6502_C (reg \<ge> v) s)"

definition n_opBIT :: "u8 \<Rightarrow> 'b m6502 \<Rightarrow> 'b m6502" where
  "n_opBIT v s =
     n_setFlag M6502_V (v AND 0x40 \<noteq> 0) (n_setFlag M6502_N (v AND 0x80 \<noteq> 0) (n_setFlag M6502_Z (n_A s AND v = 0) s))"

section \<open>Interrupts\<close>

definition n_service :: "'b icpu_bus \<Rightarrow> u16 \<Rightarrow> ('b, nat) cpu6502" where
  "n_service B vec = do {
     pc \<leftarrow> gets n_PC; n_push16 B pc;
     p \<leftarrow> gets n_P; n_push B ((p OR M6502_U) AND NOT M6502_B);
     modify (\<lambda>s. s\<lparr>n_P := n_P s OR M6502_I\<rparr>);
     pc \<leftarrow> n_rd16 B vec; modify (\<lambda>s. s\<lparr>n_PC := pc\<rparr>);
     ret 7 }"

definition n_serviceNMI :: "'b icpu_bus \<Rightarrow> ('b, nat) cpu6502" where "n_serviceNMI B = n_service B M6502_VEC_NMI"
definition n_serviceIRQ :: "'b icpu_bus \<Rightarrow> ('b, nat) cpu6502" where "n_serviceIRQ B = n_service B M6502_VEC_IRQ"

section \<open>Effective addresses\<close>

text \<open>An address with the cycles it adds.\<close>

type_synonym 'b address = "('b, u16 \<times> nat) cpu6502"

definition pageCrossed :: "u16 \<Rightarrow> u16 \<Rightarrow> nat" where
  "pageCrossed base eff = (if (base XOR eff) AND 0xFF00 \<noteq> 0 then 1 else 0)"

definition EA_ZP :: "'b icpu_bus \<Rightarrow> 'b address" where
  "EA_ZP B = do { z \<leftarrow> n_fetch B; ret (ucast z, 0) }"

definition EA_ZPI :: "'b icpu_bus \<Rightarrow> ('b m6502 \<Rightarrow> u8) \<Rightarrow> 'b address" where
  "EA_ZPI B index = do { z \<leftarrow> n_fetch B; i \<leftarrow> gets index; ret (ucast (z + i), 0) }"

definition EA_ABS :: "'b icpu_bus \<Rightarrow> 'b address" where
  "EA_ABS B = do { a \<leftarrow> n_fetch16 B; ret (a, 0) }"

definition EA_ABI_R :: "'b icpu_bus \<Rightarrow> ('b m6502 \<Rightarrow> u8) \<Rightarrow> 'b address" where
  "EA_ABI_R B index = do { b \<leftarrow> n_fetch16 B; i \<leftarrow> gets index; let ea = b + ucast i; ret (ea, pageCrossed b ea) }"

definition EA_ABI_W :: "'b icpu_bus \<Rightarrow> ('b m6502 \<Rightarrow> u8) \<Rightarrow> 'b address" where
  "EA_ABI_W B index = do { b \<leftarrow> n_fetch16 B; i \<leftarrow> gets index; ret (b + ucast i, 0) }"

definition zp_pointer :: "'b icpu_bus \<Rightarrow> u8 \<Rightarrow> ('b, u16) cpu6502" where
  "zp_pointer B z = do { lo \<leftarrow> n_rd B (ucast z); hi \<leftarrow> n_rd B (ucast (z + 1)); ret (word16 lo hi) }"

definition EA_IZX :: "'b icpu_bus \<Rightarrow> 'b address" where
  "EA_IZX B = do { z \<leftarrow> n_fetch B; x \<leftarrow> gets n_X; ea \<leftarrow> zp_pointer B (z + x); ret (ea, 0) }"

definition EA_IZY_R :: "'b icpu_bus \<Rightarrow> 'b address" where
  "EA_IZY_R B = do { z \<leftarrow> n_fetch B; b \<leftarrow> zp_pointer B z; y \<leftarrow> gets n_Y; let ea = b + ucast y; ret (ea, pageCrossed b ea) }"

definition EA_IZY_W :: "'b icpu_bus \<Rightarrow> 'b address" where
  "EA_IZY_W B = do { z \<leftarrow> n_fetch B; b \<leftarrow> zp_pointer B z; y \<leftarrow> gets n_Y; ret (b + ucast y, 0) }"

section \<open>Instruction shapes\<close>

text \<open>An instruction returns the cycles it adds to the base count of the table.\<close>

type_synonym 'b instr = "('b, nat) cpu6502"
type_synonym 'b source = "('b, u8 \<times> nat) cpu6502"

definition imm :: "'b icpu_bus \<Rightarrow> 'b source" where
  "imm B = do { v \<leftarrow> n_fetch B; ret (v, 0) }"

definition mem :: "'b icpu_bus \<Rightarrow> 'b address \<Rightarrow> 'b source" where
  "mem B address = do { (ea, c) \<leftarrow> address; v \<leftarrow> n_rd B ea; ret (v, c) }"

definition reading :: "'b source \<Rightarrow> (u8 \<Rightarrow> 'b m6502 \<Rightarrow> 'b m6502) \<Rightarrow> 'b instr" where
  "reading src f = do { (v, c) \<leftarrow> src; modify (f v); ret c }"

definition set_A :: "u8 \<Rightarrow> 'b m6502 \<Rightarrow> 'b m6502" where "set_A v s = n_setZN v (s\<lparr>n_A := v\<rparr>)"
definition set_X :: "u8 \<Rightarrow> 'b m6502 \<Rightarrow> 'b m6502" where "set_X v s = n_setZN v (s\<lparr>n_X := v\<rparr>)"
definition set_Y :: "u8 \<Rightarrow> 'b m6502 \<Rightarrow> 'b m6502" where "set_Y v s = n_setZN v (s\<lparr>n_Y := v\<rparr>)"

definition storing :: "'b icpu_bus \<Rightarrow> 'b address \<Rightarrow> ('b m6502 \<Rightarrow> u8) \<Rightarrow> 'b instr" where
  "storing B address reg = do { (ea, c) \<leftarrow> address; v \<leftarrow> gets reg; n_wr B ea v; ret c }"

definition updating :: "('b m6502 \<Rightarrow> 'b m6502) \<Rightarrow> 'b instr" where
  "updating f = do { modify f; ret 0 }"

text \<open>A read-modify-write: the byte is written back before its new value when \<open>m_RMWDummyWrite\<close> is set. \<open>op\<close> gives
  the new value and the carry, where the instruction sets it.\<close>

definition RMW_DUMMY_WRITE :: "'b icpu_bus \<Rightarrow> u16 \<Rightarrow> u8 \<Rightarrow> ('b, unit) cpu6502" where
  "RMW_DUMMY_WRITE B ea v = ifM n_RMWDummyWrite (n_wr B ea v) (ret ())"

type_synonym modify_op = "bool \<Rightarrow> u8 \<Rightarrow> u8 \<times> bool option"

definition op_inc :: modify_op where "op_inc c v = (v + 1, None)"
definition op_dec :: modify_op where "op_dec c v = (v - 1, None)"
definition op_asl :: modify_op where "op_asl c v = (push_bit 1 v, Some (v AND 0x80 \<noteq> 0))"
definition op_lsr :: modify_op where "op_lsr c v = (drop_bit 1 v, Some (v AND 0x01 \<noteq> 0))"
definition op_rol :: modify_op where "op_rol c v = (push_bit 1 v OR (if c then 1 else 0), Some (v AND 0x80 \<noteq> 0))"
definition op_ror :: modify_op where "op_ror c v = (drop_bit 1 v OR (if c then 0x80 else 0), Some (v AND 0x01 \<noteq> 0))"

definition set_carry :: "bool option \<Rightarrow> 'b m6502 \<Rightarrow> 'b m6502" where
  "set_carry c s = (case c of Some b \<Rightarrow> n_setFlag M6502_C b s | None \<Rightarrow> s)"

definition modifying :: "'b icpu_bus \<Rightarrow> 'b address \<Rightarrow> modify_op \<Rightarrow> 'b instr" where
  "modifying B address op = do {
     (ea, c) \<leftarrow> address;
     carry \<leftarrow> gets (\<lambda>s. has (n_P s) M6502_C);
     v \<leftarrow> n_rd B ea;
     RMW_DUMMY_WRITE B ea v;
     let (v', out) = op carry v;
     modify (set_carry out);
     n_wr B ea v';
     modify (n_setZN v');
     ret c }"

definition modifying_A :: "modify_op \<Rightarrow> 'b instr" where
  "modifying_A op = updating (\<lambda>s. let (v', out) = op (has (n_P s) M6502_C) (n_A s) in set_A v' (set_carry out s))"

definition BRANCH :: "'b icpu_bus \<Rightarrow> ('b m6502 \<Rightarrow> bool) \<Rightarrow> 'b instr" where
  "BRANCH B cond = do {
     disp \<leftarrow> n_fetch B;
     ifM cond
       (do { pc \<leftarrow> gets n_PC; let target = pc + scast disp;
             modify (\<lambda>s. s\<lparr>n_PC := target\<rparr>); ret (1 + pageCrossed pc target) })
       (ret 0) }"

section \<open>The instructions\<close>

definition table_loads :: "'b icpu_bus \<Rightarrow> (u8 \<times> 'b instr) list" where
  "table_loads B =
    [(0xA9, reading (imm B) set_A),
     (0xA5, reading (mem B (EA_ZP B)) set_A),
     (0xB5, reading (mem B (EA_ZPI B n_X)) set_A),
     (0xAD, reading (mem B (EA_ABS B)) set_A),
     (0xBD, reading (mem B (EA_ABI_R B n_X)) set_A),
     (0xB9, reading (mem B (EA_ABI_R B n_Y)) set_A),
     (0xA1, reading (mem B (EA_IZX B)) set_A),
     (0xB1, reading (mem B (EA_IZY_R B)) set_A),
     (0xA2, reading (imm B) set_X),
     (0xA6, reading (mem B (EA_ZP B)) set_X),
     (0xB6, reading (mem B (EA_ZPI B n_Y)) set_X),
     (0xAE, reading (mem B (EA_ABS B)) set_X),
     (0xBE, reading (mem B (EA_ABI_R B n_Y)) set_X),
     (0xA0, reading (imm B) set_Y),
     (0xA4, reading (mem B (EA_ZP B)) set_Y),
     (0xB4, reading (mem B (EA_ZPI B n_X)) set_Y),
     (0xAC, reading (mem B (EA_ABS B)) set_Y),
     (0xBC, reading (mem B (EA_ABI_R B n_X)) set_Y)]"

definition table_stores :: "'b icpu_bus \<Rightarrow> (u8 \<times> 'b instr) list" where
  "table_stores B =
    [(0x85, storing B (EA_ZP B) n_A),
     (0x95, storing B (EA_ZPI B n_X) n_A),
     (0x8D, storing B (EA_ABS B) n_A),
     (0x9D, storing B (EA_ABI_W B n_X) n_A),
     (0x99, storing B (EA_ABI_W B n_Y) n_A),
     (0x81, storing B (EA_IZX B) n_A),
     (0x91, storing B (EA_IZY_W B) n_A),
     (0x86, storing B (EA_ZP B) n_X),
     (0x96, storing B (EA_ZPI B n_Y) n_X),
     (0x8E, storing B (EA_ABS B) n_X),
     (0x84, storing B (EA_ZP B) n_Y),
     (0x94, storing B (EA_ZPI B n_X) n_Y),
     (0x8C, storing B (EA_ABS B) n_Y)]"

definition table_transfers :: "'b icpu_bus \<Rightarrow> (u8 \<times> 'b instr) list" where
  "table_transfers B =
    [(0xAA, updating (\<lambda>s. set_X (n_A s) s)), (0xA8, updating (\<lambda>s. set_Y (n_A s) s)),
     (0xBA, updating (\<lambda>s. set_X (n_S s) s)), (0x8A, updating (\<lambda>s. set_A (n_X s) s)),
     (0x9A, updating (\<lambda>s. s\<lparr>n_S := n_X s\<rparr>)), (0x98, updating (\<lambda>s. set_A (n_Y s) s))]"

definition php :: "'b icpu_bus \<Rightarrow> 'b instr" where
  "php B = do { p \<leftarrow> gets n_P; n_push B (p OR M6502_B OR M6502_U); ret 0 }"

definition pull_P :: "'b icpu_bus \<Rightarrow> ('b, unit) cpu6502" where
  "pull_P B = do { v \<leftarrow> n_pop B; modify (\<lambda>s. s\<lparr>n_P := (v AND NOT M6502_B) OR M6502_U\<rparr>) }"

definition table_stack :: "'b icpu_bus \<Rightarrow> (u8 \<times> 'b instr) list" where
  "table_stack B =
    [(0x48, do { a \<leftarrow> gets n_A; n_push B a; ret 0 }), (0x08, php B),
     (0x68, do { v \<leftarrow> n_pop B; modify (set_A v); ret 0 }), (0x28, do { pull_P B; ret 0 })]"

definition table_logic :: "'b icpu_bus \<Rightarrow> (u8 \<times> 'b instr) list" where
  "table_logic B =
    [(0x29, reading (imm B) (\<lambda>v s. set_A (n_A s AND v) s)),
     (0x25, reading (mem B (EA_ZP B)) (\<lambda>v s. set_A (n_A s AND v) s)),
     (0x35, reading (mem B (EA_ZPI B n_X)) (\<lambda>v s. set_A (n_A s AND v) s)),
     (0x2D, reading (mem B (EA_ABS B)) (\<lambda>v s. set_A (n_A s AND v) s)),
     (0x3D, reading (mem B (EA_ABI_R B n_X)) (\<lambda>v s. set_A (n_A s AND v) s)),
     (0x39, reading (mem B (EA_ABI_R B n_Y)) (\<lambda>v s. set_A (n_A s AND v) s)),
     (0x21, reading (mem B (EA_IZX B)) (\<lambda>v s. set_A (n_A s AND v) s)),
     (0x31, reading (mem B (EA_IZY_R B)) (\<lambda>v s. set_A (n_A s AND v) s)),
     (0x49, reading (imm B) (\<lambda>v s. set_A (n_A s XOR v) s)),
     (0x45, reading (mem B (EA_ZP B)) (\<lambda>v s. set_A (n_A s XOR v) s)),
     (0x55, reading (mem B (EA_ZPI B n_X)) (\<lambda>v s. set_A (n_A s XOR v) s)),
     (0x4D, reading (mem B (EA_ABS B)) (\<lambda>v s. set_A (n_A s XOR v) s)),
     (0x5D, reading (mem B (EA_ABI_R B n_X)) (\<lambda>v s. set_A (n_A s XOR v) s)),
     (0x59, reading (mem B (EA_ABI_R B n_Y)) (\<lambda>v s. set_A (n_A s XOR v) s)),
     (0x41, reading (mem B (EA_IZX B)) (\<lambda>v s. set_A (n_A s XOR v) s)),
     (0x51, reading (mem B (EA_IZY_R B)) (\<lambda>v s. set_A (n_A s XOR v) s)),
     (0x09, reading (imm B) (\<lambda>v s. set_A (n_A s OR v) s)),
     (0x05, reading (mem B (EA_ZP B)) (\<lambda>v s. set_A (n_A s OR v) s)),
     (0x15, reading (mem B (EA_ZPI B n_X)) (\<lambda>v s. set_A (n_A s OR v) s)),
     (0x0D, reading (mem B (EA_ABS B)) (\<lambda>v s. set_A (n_A s OR v) s)),
     (0x1D, reading (mem B (EA_ABI_R B n_X)) (\<lambda>v s. set_A (n_A s OR v) s)),
     (0x19, reading (mem B (EA_ABI_R B n_Y)) (\<lambda>v s. set_A (n_A s OR v) s)),
     (0x01, reading (mem B (EA_IZX B)) (\<lambda>v s. set_A (n_A s OR v) s)),
     (0x11, reading (mem B (EA_IZY_R B)) (\<lambda>v s. set_A (n_A s OR v) s)),
     (0x24, reading (mem B (EA_ZP B)) n_opBIT),
     (0x2C, reading (mem B (EA_ABS B)) n_opBIT)]"

definition table_arithmetic :: "'b icpu_bus \<Rightarrow> (u8 \<times> 'b instr) list" where
  "table_arithmetic B =
    [(0x69, reading (imm B) n_opADC),
     (0x65, reading (mem B (EA_ZP B)) n_opADC),
     (0x75, reading (mem B (EA_ZPI B n_X)) n_opADC),
     (0x6D, reading (mem B (EA_ABS B)) n_opADC),
     (0x7D, reading (mem B (EA_ABI_R B n_X)) n_opADC),
     (0x79, reading (mem B (EA_ABI_R B n_Y)) n_opADC),
     (0x61, reading (mem B (EA_IZX B)) n_opADC),
     (0x71, reading (mem B (EA_IZY_R B)) n_opADC),
     (0xE9, reading (imm B) n_opSBC),
     (0xE5, reading (mem B (EA_ZP B)) n_opSBC),
     (0xF5, reading (mem B (EA_ZPI B n_X)) n_opSBC),
     (0xED, reading (mem B (EA_ABS B)) n_opSBC),
     (0xFD, reading (mem B (EA_ABI_R B n_X)) n_opSBC),
     (0xF9, reading (mem B (EA_ABI_R B n_Y)) n_opSBC),
     (0xE1, reading (mem B (EA_IZX B)) n_opSBC),
     (0xF1, reading (mem B (EA_IZY_R B)) n_opSBC),
     (0xC9, reading (imm B) (\<lambda>v s. n_opCMP (n_A s) v s)),
     (0xC5, reading (mem B (EA_ZP B)) (\<lambda>v s. n_opCMP (n_A s) v s)),
     (0xD5, reading (mem B (EA_ZPI B n_X)) (\<lambda>v s. n_opCMP (n_A s) v s)),
     (0xCD, reading (mem B (EA_ABS B)) (\<lambda>v s. n_opCMP (n_A s) v s)),
     (0xDD, reading (mem B (EA_ABI_R B n_X)) (\<lambda>v s. n_opCMP (n_A s) v s)),
     (0xD9, reading (mem B (EA_ABI_R B n_Y)) (\<lambda>v s. n_opCMP (n_A s) v s)),
     (0xC1, reading (mem B (EA_IZX B)) (\<lambda>v s. n_opCMP (n_A s) v s)),
     (0xD1, reading (mem B (EA_IZY_R B)) (\<lambda>v s. n_opCMP (n_A s) v s)),
     (0xE0, reading (imm B) (\<lambda>v s. n_opCMP (n_X s) v s)),
     (0xE4, reading (mem B (EA_ZP B)) (\<lambda>v s. n_opCMP (n_X s) v s)),
     (0xEC, reading (mem B (EA_ABS B)) (\<lambda>v s. n_opCMP (n_X s) v s)),
     (0xC0, reading (imm B) (\<lambda>v s. n_opCMP (n_Y s) v s)),
     (0xC4, reading (mem B (EA_ZP B)) (\<lambda>v s. n_opCMP (n_Y s) v s)),
     (0xCC, reading (mem B (EA_ABS B)) (\<lambda>v s. n_opCMP (n_Y s) v s))]"

definition table_incdec :: "'b icpu_bus \<Rightarrow> (u8 \<times> 'b instr) list" where
  "table_incdec B =
    [(0xE6, modifying B (EA_ZP B) op_inc),
     (0xF6, modifying B (EA_ZPI B n_X) op_inc),
     (0xEE, modifying B (EA_ABS B) op_inc),
     (0xFE, modifying B (EA_ABI_W B n_X) op_inc),
     (0xC6, modifying B (EA_ZP B) op_dec),
     (0xD6, modifying B (EA_ZPI B n_X) op_dec),
     (0xCE, modifying B (EA_ABS B) op_dec),
     (0xDE, modifying B (EA_ABI_W B n_X) op_dec),
     (0xE8, updating (\<lambda>s. set_X (n_X s + 1) s)), (0xC8, updating (\<lambda>s. set_Y (n_Y s + 1) s)),
     (0xCA, updating (\<lambda>s. set_X (n_X s - 1) s)), (0x88, updating (\<lambda>s. set_Y (n_Y s - 1) s))]"

definition table_shifts :: "'b icpu_bus \<Rightarrow> (u8 \<times> 'b instr) list" where
  "table_shifts B =
    [(0x0A, modifying_A op_asl),
     (0x06, modifying B (EA_ZP B) op_asl),
     (0x16, modifying B (EA_ZPI B n_X) op_asl),
     (0x0E, modifying B (EA_ABS B) op_asl),
     (0x1E, modifying B (EA_ABI_W B n_X) op_asl),
     (0x4A, modifying_A op_lsr),
     (0x46, modifying B (EA_ZP B) op_lsr),
     (0x56, modifying B (EA_ZPI B n_X) op_lsr),
     (0x4E, modifying B (EA_ABS B) op_lsr),
     (0x5E, modifying B (EA_ABI_W B n_X) op_lsr),
     (0x2A, modifying_A op_rol),
     (0x26, modifying B (EA_ZP B) op_rol),
     (0x36, modifying B (EA_ZPI B n_X) op_rol),
     (0x2E, modifying B (EA_ABS B) op_rol),
     (0x3E, modifying B (EA_ABI_W B n_X) op_rol),
     (0x6A, modifying_A op_ror),
     (0x66, modifying B (EA_ZP B) op_ror),
     (0x76, modifying B (EA_ZPI B n_X) op_ror),
     (0x6E, modifying B (EA_ABS B) op_ror),
     (0x7E, modifying B (EA_ABI_W B n_X) op_ror)]"

definition jmp :: "('b, u16) cpu6502 \<Rightarrow> 'b instr" where
  "jmp target = do { pc \<leftarrow> target; modify (\<lambda>s. s\<lparr>n_PC := pc\<rparr>); ret 0 }"

definition jsr :: "'b icpu_bus \<Rightarrow> 'b instr" where
  "jsr B = do { target \<leftarrow> n_fetch16 B; pc \<leftarrow> gets n_PC; n_push16 B (pc - 1); modify (\<lambda>s. s\<lparr>n_PC := target\<rparr>); ret 0 }"

definition brk :: "'b icpu_bus \<Rightarrow> 'b instr" where
  "brk B = do {
     modify (\<lambda>s. s\<lparr>n_PC := n_PC s + 1\<rparr>);
     pc \<leftarrow> gets n_PC; n_push16 B pc;
     p \<leftarrow> gets n_P; n_push B (p OR M6502_B OR M6502_U);
     modify (\<lambda>s. s\<lparr>n_P := n_P s OR M6502_I\<rparr>);
     pc \<leftarrow> n_rd16 B M6502_VEC_IRQ; modify (\<lambda>s. s\<lparr>n_PC := pc\<rparr>);
     ret 0 }"

definition table_flow :: "'b icpu_bus \<Rightarrow> (u8 \<times> 'b instr) list" where
  "table_flow B =
    [(0x4C, jmp (n_fetch16 B)), (0x6C, jmp (do { ea \<leftarrow> n_fetch16 B; n_rd16WrapPage B ea })), (0x20, jsr B),
     (0x60, jmp (do { pc \<leftarrow> n_pop16 B; ret (pc + 1) })), (0x40, do { pull_P B; jmp (n_pop16 B) }), (0x00, brk B)]"

definition table_branches :: "'b icpu_bus \<Rightarrow> (u8 \<times> 'b instr) list" where
  "table_branches B =
    [(0x10, BRANCH B (\<lambda>s. \<not> has (n_P s) M6502_N)),
     (0x30, BRANCH B (\<lambda>s. has (n_P s) M6502_N)),
     (0x50, BRANCH B (\<lambda>s. \<not> has (n_P s) M6502_V)),
     (0x70, BRANCH B (\<lambda>s. has (n_P s) M6502_V)),
     (0x90, BRANCH B (\<lambda>s. \<not> has (n_P s) M6502_C)),
     (0xB0, BRANCH B (\<lambda>s. has (n_P s) M6502_C)),
     (0xD0, BRANCH B (\<lambda>s. \<not> has (n_P s) M6502_Z)),
     (0xF0, BRANCH B (\<lambda>s. has (n_P s) M6502_Z))]"

definition table_flags :: "'b icpu_bus \<Rightarrow> (u8 \<times> 'b instr) list" where
  "table_flags B =
    [(0x18, updating (n_setFlag M6502_C False)),
     (0x38, updating (n_setFlag M6502_C True)),
     (0x58, updating (n_setFlag M6502_I False)),
     (0x78, updating (n_setFlag M6502_I True)),
     (0xB8, updating (n_setFlag M6502_V False)),
     (0xD8, updating (n_setFlag M6502_D False)),
     (0xF8, updating (n_setFlag M6502_D True)),
     (0xEA, ret 0)]"

definition table_6502 :: "'b icpu_bus \<Rightarrow> (u8 \<times> 'b instr) list" where
  "table_6502 B =
     table_loads B @ table_stores B @ table_transfers B @ table_stack B @ table_logic B @ table_arithmetic B @ table_incdec B
     @ table_shifts B @ table_flow B @ table_branches B @ table_flags B"

text \<open>The \<open>default\<close> of the switch: a JAM encoding halts the core on itself, any other is skipped with its operand bytes.\<close>

definition undocumented :: "u8 \<Rightarrow> 'b instr" where
  "undocumented opcode =
     (let info = m6502_info opcode
      in if oi_cycles info = 0 then do { modify (\<lambda>s. s\<lparr>n_Jammed := True, n_PC := n_PC s - 1\<rparr>); ret 1 }
         else updating (\<lambda>s. s\<lparr>n_PC := n_PC s + of_nat (m6502ModeLength (oi_mode info)) - 1\<rparr>))"

definition execute :: "'b icpu_bus \<Rightarrow> u8 \<Rightarrow> 'b instr" where
  "execute B opcode = (case map_of (table_6502 B) opcode of Some act \<Rightarrow> act | None \<Rightarrow> undocumented opcode)"

section \<open>Reset, step and run\<close>

definition n_reset :: "'b icpu_bus \<Rightarrow> ('b, unit) cpu6502" where
  "n_reset B = do {
     modify (\<lambda>s. s\<lparr>n_A := 0, n_X := 0, n_Y := 0, n_S := 0xFD, n_P := M6502_U OR M6502_I, n_Jammed := False,
       n_NMIPrevLevel := False, n_NMIPending := False, n_RunBreak := False, n_Cycles := 0\<rparr>);
     pc \<leftarrow> n_rd16 B M6502_VEC_RESET; modify (\<lambda>s. s\<lparr>n_PC := pc\<rparr>) }"

text \<open>Every path of \<open>step\<close> ends by charging its cycles and ticking the bus.\<close>

definition n_charge :: "'b icpu_bus \<Rightarrow> nat \<Rightarrow> ('b, nat) cpu6502" where
  "n_charge B c = do { modify (\<lambda>s. s\<lparr>n_Cycles := n_Cycles s + of_nat c\<rparr>); n_tick B c; ret c }"

definition sample_nmi :: "'b icpu_bus \<Rightarrow> ('b, unit) cpu6502" where
  "sample_nmi B = do {
     level \<leftarrow> n_nmiAsserted B;
     modify (\<lambda>s. s\<lparr>n_NMIPending := (n_NMIPending s \<or> level \<and> \<not> n_NMIPrevLevel s), n_NMIPrevLevel := level\<rparr>) }"

definition one_instruction :: "'b icpu_bus \<Rightarrow> ('b, nat) cpu6502" where
  "one_instruction B = do { opcode \<leftarrow> n_fetch B; extra \<leftarrow> execute B opcode; ret (oi_cycles (m6502_info opcode) + extra) }"

definition n_step :: "'b icpu_bus \<Rightarrow> ('b, nat) cpu6502" where
  "n_step B = ifM n_Jammed (n_charge B 1) (do {
     sample_nmi B;
     ifM n_NMIPending
       (do { modify (\<lambda>s. s\<lparr>n_NMIPending := False\<rparr>); c \<leftarrow> n_serviceNMI B; n_charge B c })
       (do { irq \<leftarrow> ifM (\<lambda>s. has (n_P s) M6502_I) (ret False) (n_irqAsserted B);
             if irq then do { c \<leftarrow> n_serviceIRQ B; n_charge B c }
             else do { c \<leftarrow> one_instruction B; n_charge B c } }) })"

definition n_run :: "'b icpu_bus \<Rightarrow> u64 \<Rightarrow> 'b m6502 \<Rightarrow> (u64 \<times> 'b m6502) option" where
  "n_run B nCycles s =
     (case while_option
             (\<lambda>(halted, s'). \<not> halted \<and> n_Cycles s' - n_Cycles s < nCycles \<and> \<not> n_RunBreak s')
             (\<lambda>(halted, s'). let s' = exec_state (n_step B) s' in (n_Jammed s', s'))
             (False, s\<lparr>n_RunBreak := False\<rparr>) of
        None \<Rightarrow> None
      | Some (halted, s') \<Rightarrow> Some (n_Cycles s' - n_Cycles s, s'))"

end
