(* ===== verification/M6502Props.thy ===== *)
theory M6502Props
  imports M6502 W65Alu
begin

text \<open>
  Properties of the 6502 core. \<open>shape\<close> is what every instruction of the table is proved to have (\<open>shape_table\<close>): it leaves
  the cycle counter alone, adds at most two cycles and consumes the bytes of its mode; the table holds exactly the documented
  encodings (\<open>documented_exact\<close>). \<open>step_cycles\<close> and \<open>run_6502_loop\<close> carry this to \<open>step\<close> and \<open>run\<close>; last, decimal mode.
\<close>

unbundle bit_operations_syntax

section \<open>Shapes of instructions\<close>

text \<open>\<open>shape k act\<close>: the instruction leaves the cycle counter alone, adds at most two cycles, and, when \<open>k\<close> is not
  zero, moves the program counter over \<open>k - 1\<close> operand bytes.\<close>

definition shape :: "nat \<Rightarrow> 'b instr \<Rightarrow> bool" where
  "shape k act \<longleftrightarrow> (\<forall>s. n_Cycles (exec_state act s) = n_Cycles s \<and> eval_state act s \<le> 2
     \<and> (k \<noteq> 0 \<longrightarrow> n_PC (exec_state act s) = n_PC s + of_nat (k - 1)))"

text \<open>The same for a program that delivers something: \<open>moves k m\<close>.\<close>

definition moves :: "nat \<Rightarrow> ('b, 'a) cpu6502 \<Rightarrow> bool" where
  "moves k m \<longleftrightarrow> (\<forall>s. n_Cycles (exec_state m s) = n_Cycles s \<and> n_PC (exec_state m s) = n_PC s + of_nat k)"

lemma moves_bind: "moves j m \<Longrightarrow> (\<And>a. moves k (g a)) \<Longrightarrow> moves (j + k) (State_Monad.bind m g)"
  by (simp add: moves_def case_prod_beta add.assoc)

lemma moves_basic:
  "moves 0 (ret x)" "moves 0 (gets f)" "moves 0 (n_rd B a)" "moves 0 (n_wr B a v)"
  by (simp_all add: moves_def n_rd_def n_wr_def Let_def case_prod_beta)

lemma moves_modify: "(\<And>s. n_Cycles (f s) = n_Cycles s) \<Longrightarrow> (\<And>s. n_PC (f s) = n_PC s) \<Longrightarrow> moves 0 (modify f)"
  by (simp add: moves_def)

lemma moves_ifM: "moves k m \<Longrightarrow> moves k n \<Longrightarrow> moves k (ifM c m n)"
  by (simp add: moves_def)

lemma moves_fetch: "moves 1 (n_fetch B)"
  by (simp add: moves_def n_fetch_def n_rd_def Let_def case_prod_beta)

lemmas moves_0 = moves_bind [where j = 0 and k = 0, simplified]

lemma moves_then: "moves k m \<Longrightarrow> (\<And>a. moves 0 (g a)) \<Longrightarrow> moves k (State_Monad.bind m g)"
  using moves_bind [of k m 0 g] by simp

lemma moves_fetch16: "moves 2 (n_fetch16 B)"
  unfolding n_fetch16_def
  using moves_bind [OF moves_fetch moves_then [OF moves_fetch moves_basic(1)]] by (simp add: numeral_2_eq_2)

lemma moves_frame:
  "moves 0 (n_rd16 B a)" "moves 0 (n_push B v)" "moves 0 (n_pop B)" "moves 0 (n_push16 B w)" "moves 0 (n_pop16 B)"
  "moves 0 (zp_pointer B z)" "moves 0 (RMW_DUMMY_WRITE B a v)" "moves 0 (n_rd16WrapPage B a)"
proof -
  show p: "moves 0 (n_push B v)" "moves 0 (n_pop B)" for v
    unfolding n_push_def n_pop_def by (intro moves_0 moves_basic moves_modify; simp)+
  show "moves 0 (n_rd16 B a)" "moves 0 (n_push16 B w)" "moves 0 (n_pop16 B)" "moves 0 (zp_pointer B z)"
    "moves 0 (RMW_DUMMY_WRITE B a v)" "moves 0 (n_rd16WrapPage B a)"
    unfolding n_rd16_def n_push16_def n_pop16_def zp_pointer_def RMW_DUMMY_WRITE_def n_rd16WrapPage_def Let_def
    by (intro moves_0 moves_basic moves_ifM p)+
qed

lemma moves_EA:
  "moves 1 (EA_ZP B)" "moves 1 (EA_ZPI B i)" "moves 2 (EA_ABS B)" "moves 2 (EA_ABI_R B i)" "moves 2 (EA_ABI_W B i)"
  "moves 1 (EA_IZX B)" "moves 1 (EA_IZY_R B)" "moves 1 (EA_IZY_W B)"
  unfolding EA_ZP_def EA_ZPI_def EA_ABS_def EA_ABI_R_def EA_ABI_W_def EA_IZX_def EA_IZY_R_def EA_IZY_W_def Let_def
  by (intro moves_then [OF moves_fetch] moves_then [OF moves_fetch16] moves_0 moves_basic moves_frame)+

text \<open>The cycles an address adds.\<close>

definition adds :: "('b, 'a \<times> nat) cpu6502 \<Rightarrow> bool" where
  "adds m \<longleftrightarrow> (\<forall>s. snd (eval_state m s) \<le> 2)"

lemma adds_EA:
  "adds (EA_ZP B)" "adds (EA_ZPI B i)" "adds (EA_ABS B)" "adds (EA_ABI_R B i)" "adds (EA_ABI_W B i)"
  "adds (EA_IZX B)" "adds (EA_IZY_R B)" "adds (EA_IZY_W B)"
  by (simp_all add: adds_def EA_ZP_def EA_ZPI_def EA_ABS_def EA_ABI_R_def EA_ABI_W_def EA_IZX_def EA_IZY_R_def EA_IZY_W_def
      Let_def case_prod_beta pageCrossed_def)

lemma source_mem: "moves k ad \<Longrightarrow> adds ad \<Longrightarrow> moves k (mem B ad) \<and> adds (mem B ad)"
  unfolding mem_def case_prod_beta
  by (intro conjI moves_then moves_basic) (simp_all add: adds_def case_prod_beta)

lemma source_imm: "moves 1 (imm B) \<and> adds (imm B)"
  unfolding imm_def by (intro conjI moves_then moves_fetch moves_basic) (simp add: adds_def case_prod_beta)

section \<open>Instructions\<close>

lemma flag_frame [simp]:
  "n_Cycles (n_setFlag m on s) = n_Cycles s" "n_PC (n_setFlag m on s) = n_PC s"
  "n_Cycles (n_setZN v s) = n_Cycles s" "n_PC (n_setZN v s) = n_PC s" "n_Cycles (set_carry c s) = n_Cycles s" "n_PC (set_carry c s) = n_PC s"
  by (simp_all add: n_setFlag_def n_setZN_def set_carry_def split: option.split)

lemma reg_frame [simp]:
  "n_Cycles (set_A v s) = n_Cycles s" "n_PC (set_A v s) = n_PC s" "n_Cycles (set_X v s) = n_Cycles s" "n_PC (set_X v s) = n_PC s"
  "n_Cycles (set_Y v s) = n_Cycles s" "n_PC (set_Y v s) = n_PC s"
  by (simp_all add: set_A_def set_X_def set_Y_def)

lemma alu_frame [simp]:
  "n_Cycles (n_opADC v s) = n_Cycles s" "n_PC (n_opADC v s) = n_PC s" "n_Cycles (n_opSBC v s) = n_Cycles s" "n_PC (n_opSBC v s) = n_PC s"
  "n_Cycles (n_opCMP r v s) = n_Cycles s" "n_PC (n_opCMP r v s) = n_PC s" "n_Cycles (n_opBIT v s) = n_Cycles s" "n_PC (n_opBIT v s) = n_PC s"
  by (simp_all add: n_opADC_def n_opSBC_def n_opCMP_def n_opBIT_def Let_def case_prod_beta)

named_theorems shapes

lemma shape_moves: "moves k act \<Longrightarrow> (\<And>s. eval_state act s \<le> 2) \<Longrightarrow> shape (Suc k) act"
  by (simp add: shape_def moves_def)

lemma shape_reading:
  assumes "moves k src \<and> adds src" "\<And>v s. n_Cycles (f v s) = n_Cycles s" "\<And>v s. n_PC (f v s) = n_PC s"
  shows "shape (Suc k) (reading src f)"
proof (rule shape_moves)
  show "moves k (reading src f)" unfolding reading_def case_prod_beta
    using assms by (intro moves_then moves_0 moves_basic moves_modify) simp_all
  show "eval_state (reading src f) s \<le> 2" for s
    using assms(1) by (simp add: reading_def case_prod_beta adds_def)
qed

lemma shape_storing:
  assumes "moves k ad" "adds ad"
  shows "shape (Suc k) (storing B ad r)"
proof (rule shape_moves)
  show "moves k (storing B ad r)" unfolding storing_def case_prod_beta
    using assms(1) by (intro moves_then moves_0 moves_basic) simp_all
  show "eval_state (storing B ad r) s \<le> 2" for s using assms(2) by (simp add: storing_def case_prod_beta adds_def)
qed

lemma shape_modifying:
  assumes "moves k ad" "adds ad"
  shows "shape (Suc k) (modifying B ad f)"
proof (rule shape_moves)
  show "moves k (modifying B ad f)" unfolding modifying_def case_prod_beta Let_def
    using assms(1) by (intro moves_then moves_0 moves_basic moves_frame moves_modify) simp_all
  show "eval_state (modifying B ad f) s \<le> 2" for s
    using assms(2) by (simp add: modifying_def case_prod_beta Let_def adds_def)
qed

lemma shape_updating: "(\<And>s. n_Cycles (f s) = n_Cycles s) \<Longrightarrow> (\<And>s. n_PC (f s) = n_PC s) \<Longrightarrow> shape (Suc 0) (updating f)"
  by (simp add: shape_def updating_def)

lemma shape_modifying_A: "shape (Suc 0) (modifying_A f)"
  unfolding modifying_A_def by (rule shape_updating) (simp_all add: case_prod_beta Let_def)

lemma shape_any: "shape k act \<Longrightarrow> shape 0 act"
  by (simp add: shape_def)

lemma shape_stack:
  "shape (Suc 0) (do { a \<leftarrow> gets f; n_push B a; ret 0 })" "shape (Suc 0) (php B)"
  "shape (Suc 0) (do { v \<leftarrow> n_pop B; modify (set_A v); ret 0 })" "shape (Suc 0) (do { pull_P B; ret 0 })"
  unfolding php_def pull_P_def
  by (intro shape_moves moves_0 moves_basic moves_frame moves_modify; simp add: case_prod_beta)+

lemma cycles_moves: "moves k m \<Longrightarrow> n_Cycles (exec_state m s) = n_Cycles s"
  by (simp add: moves_def)

lemma shape_flow: "moves k m \<Longrightarrow> shape 0 (jmp m)" "shape 0 (jsr B)" "shape 0 (brk B)" "shape 0 (BRANCH B c)"
  "shape 0 (do { pull_P B; jmp (n_pop16 B) })"
  by (simp_all add: shape_def jmp_def jsr_def brk_def BRANCH_def pull_P_def case_prod_beta Let_def pageCrossed_def
      cycles_moves [OF moves_fetch16] cycles_moves [OF moves_fetch] cycles_moves [OF moves_frame(1)] cycles_moves [OF moves_frame(2)]
      cycles_moves [OF moves_frame(3)] cycles_moves [OF moves_frame(4)] cycles_moves [OF moves_frame(5)] cycles_moves)

section \<open>The table\<close>

text \<open>The bytes \<open>step\<close> is to consume for an encoding, by the table of the disassembler; 0 where the instruction sets the
  program counter itself.\<close>

definition flow_opcodes :: "u8 list" where
  "flow_opcodes = [0x00, 0x20, 0x40, 0x60, 0x4C, 0x6C, 0x10, 0x30, 0x50, 0x70, 0x90, 0xB0, 0xD0, 0xF0]"

definition operand_span :: "u8 \<Rightarrow> nat" where
  "operand_span opcode = (if opcode \<in> set flow_opcodes then 0 else m6502ModeLength (oi_mode (m6502_info opcode)))"

lemma operand_span_values:
  "operand_span 0x00 = 0" "operand_span 0x01 = 2" "operand_span 0x05 = 2" "operand_span 0x06 = 2" "operand_span 0x08 = 1"
  "operand_span 0x09 = 2" "operand_span 0x0A = 1" "operand_span 0x0D = 3" "operand_span 0x0E = 3" "operand_span 0x10 = 0"
  "operand_span 0x11 = 2" "operand_span 0x15 = 2" "operand_span 0x16 = 2" "operand_span 0x18 = 1" "operand_span 0x19 = 3"
  "operand_span 0x1D = 3" "operand_span 0x1E = 3" "operand_span 0x20 = 0" "operand_span 0x21 = 2" "operand_span 0x24 = 2"
  "operand_span 0x25 = 2" "operand_span 0x26 = 2" "operand_span 0x28 = 1" "operand_span 0x29 = 2" "operand_span 0x2A = 1"
  "operand_span 0x2C = 3" "operand_span 0x2D = 3" "operand_span 0x2E = 3" "operand_span 0x30 = 0" "operand_span 0x31 = 2"
  "operand_span 0x35 = 2" "operand_span 0x36 = 2" "operand_span 0x38 = 1" "operand_span 0x39 = 3" "operand_span 0x3D = 3"
  "operand_span 0x3E = 3" "operand_span 0x40 = 0" "operand_span 0x41 = 2" "operand_span 0x45 = 2" "operand_span 0x46 = 2"
  "operand_span 0x48 = 1" "operand_span 0x49 = 2" "operand_span 0x4A = 1" "operand_span 0x4C = 0" "operand_span 0x4D = 3"
  "operand_span 0x4E = 3" "operand_span 0x50 = 0" "operand_span 0x51 = 2" "operand_span 0x55 = 2" "operand_span 0x56 = 2"
  "operand_span 0x58 = 1" "operand_span 0x59 = 3" "operand_span 0x5D = 3" "operand_span 0x5E = 3" "operand_span 0x60 = 0"
  "operand_span 0x61 = 2" "operand_span 0x65 = 2" "operand_span 0x66 = 2" "operand_span 0x68 = 1" "operand_span 0x69 = 2"
  "operand_span 0x6A = 1" "operand_span 0x6C = 0" "operand_span 0x6D = 3" "operand_span 0x6E = 3" "operand_span 0x70 = 0"
  "operand_span 0x71 = 2" "operand_span 0x75 = 2" "operand_span 0x76 = 2" "operand_span 0x78 = 1" "operand_span 0x79 = 3"
  "operand_span 0x7D = 3" "operand_span 0x7E = 3" "operand_span 0x81 = 2" "operand_span 0x84 = 2" "operand_span 0x85 = 2"
  "operand_span 0x86 = 2" "operand_span 0x88 = 1" "operand_span 0x8A = 1" "operand_span 0x8C = 3" "operand_span 0x8D = 3"
  "operand_span 0x8E = 3" "operand_span 0x90 = 0" "operand_span 0x91 = 2" "operand_span 0x94 = 2" "operand_span 0x95 = 2"
  "operand_span 0x96 = 2" "operand_span 0x98 = 1" "operand_span 0x99 = 3" "operand_span 0x9A = 1" "operand_span 0x9D = 3"
  "operand_span 0xA0 = 2" "operand_span 0xA1 = 2" "operand_span 0xA2 = 2" "operand_span 0xA4 = 2" "operand_span 0xA5 = 2"
  "operand_span 0xA6 = 2" "operand_span 0xA8 = 1" "operand_span 0xA9 = 2" "operand_span 0xAA = 1" "operand_span 0xAC = 3"
  "operand_span 0xAD = 3" "operand_span 0xAE = 3" "operand_span 0xB0 = 0" "operand_span 0xB1 = 2" "operand_span 0xB4 = 2"
  "operand_span 0xB5 = 2" "operand_span 0xB6 = 2" "operand_span 0xB8 = 1" "operand_span 0xB9 = 3" "operand_span 0xBA = 1"
  "operand_span 0xBC = 3" "operand_span 0xBD = 3" "operand_span 0xBE = 3" "operand_span 0xC0 = 2" "operand_span 0xC1 = 2"
  "operand_span 0xC4 = 2" "operand_span 0xC5 = 2" "operand_span 0xC6 = 2" "operand_span 0xC8 = 1" "operand_span 0xC9 = 2"
  "operand_span 0xCA = 1" "operand_span 0xCC = 3" "operand_span 0xCD = 3" "operand_span 0xCE = 3" "operand_span 0xD0 = 0"
  "operand_span 0xD1 = 2" "operand_span 0xD5 = 2" "operand_span 0xD6 = 2" "operand_span 0xD8 = 1" "operand_span 0xD9 = 3"
  "operand_span 0xDD = 3" "operand_span 0xDE = 3" "operand_span 0xE0 = 2" "operand_span 0xE1 = 2" "operand_span 0xE4 = 2"
  "operand_span 0xE5 = 2" "operand_span 0xE6 = 2" "operand_span 0xE8 = 1" "operand_span 0xE9 = 2" "operand_span 0xEA = 1"
  "operand_span 0xEC = 3" "operand_span 0xED = 3" "operand_span 0xEE = 3" "operand_span 0xF0 = 0" "operand_span 0xF1 = 2"
  "operand_span 0xF5 = 2" "operand_span 0xF6 = 2" "operand_span 0xF8 = 1" "operand_span 0xF9 = 3" "operand_span 0xFD = 3"
  "operand_span 0xFE = 3"
  by code_simp+

lemma shape_sources:
  assumes "\<And>v s. n_Cycles (f v s) = n_Cycles s" "\<And>v s. n_PC (f v s) = n_PC s"
  shows "shape 2 (reading (imm B) f)" "shape 2 (reading (mem B (EA_ZP B)) f)" "shape 2 (reading (mem B (EA_ZPI B i)) f)"
    "shape 3 (reading (mem B (EA_ABS B)) f)" "shape 3 (reading (mem B (EA_ABI_R B i)) f)"
    "shape 2 (reading (mem B (EA_IZX B)) f)" "shape 2 (reading (mem B (EA_IZY_R B)) f)"
  using shape_reading [OF source_imm assms] shape_reading [OF source_mem [OF moves_EA(1) adds_EA(1)] assms]
    shape_reading [OF source_mem [OF moves_EA(2) adds_EA(2)] assms] shape_reading [OF source_mem [OF moves_EA(3) adds_EA(3)] assms]
    shape_reading [OF source_mem [OF moves_EA(4) adds_EA(4)] assms] shape_reading [OF source_mem [OF moves_EA(6) adds_EA(6)] assms]
    shape_reading [OF source_mem [OF moves_EA(7) adds_EA(7)] assms]
  by (simp_all add: numeral_2_eq_2 numeral_3_eq_3)

lemma shape_memory:
  "shape 2 (storing B (EA_ZP B) r)" "shape 2 (storing B (EA_ZPI B i) r)" "shape 3 (storing B (EA_ABS B) r)"
  "shape 3 (storing B (EA_ABI_W B i) r)" "shape 2 (storing B (EA_IZX B) r)" "shape 2 (storing B (EA_IZY_W B) r)"
  "shape 2 (modifying B (EA_ZP B) g)" "shape 2 (modifying B (EA_ZPI B i) g)" "shape 3 (modifying B (EA_ABS B) g)"
  "shape 3 (modifying B (EA_ABI_W B i) g)"
  using shape_storing [OF moves_EA(1) adds_EA(1)] shape_storing [OF moves_EA(2) adds_EA(2)] shape_storing [OF moves_EA(3) adds_EA(3)]
    shape_storing [OF moves_EA(5) adds_EA(5)] shape_storing [OF moves_EA(6) adds_EA(6)] shape_storing [OF moves_EA(8) adds_EA(8)]
    shape_modifying [OF moves_EA(1) adds_EA(1)] shape_modifying [OF moves_EA(2) adds_EA(2)]
    shape_modifying [OF moves_EA(3) adds_EA(3)] shape_modifying [OF moves_EA(5) adds_EA(5)]
  by (simp_all add: numeral_2_eq_2 numeral_3_eq_3)

lemmas shape_rules = operand_span_values shape_sources shape_memory shape_updating [simplified] shape_modifying_A [simplified]
  shape_stack [simplified] shape_flow

lemma shape_table:
  "list_all (\<lambda>(opcode, act). shape (operand_span opcode) act) (table_6502 B)"
proof -
  have "list_all (\<lambda>(opcode, act). shape (operand_span opcode) act) (table_loads B)"
    "list_all (\<lambda>(opcode, act). shape (operand_span opcode) act) (table_stores B)"
    "list_all (\<lambda>(opcode, act). shape (operand_span opcode) act) (table_transfers B)"
    "list_all (\<lambda>(opcode, act). shape (operand_span opcode) act) (table_stack B)"
    "list_all (\<lambda>(opcode, act). shape (operand_span opcode) act) (table_logic B)"
    "list_all (\<lambda>(opcode, act). shape (operand_span opcode) act) (table_arithmetic B)"
    "list_all (\<lambda>(opcode, act). shape (operand_span opcode) act) (table_incdec B)"
    "list_all (\<lambda>(opcode, act). shape (operand_span opcode) act) (table_shifts B)"
    by (simp_all add: table_loads_def table_stores_def table_transfers_def table_stack_def table_logic_def table_arithmetic_def
        table_incdec_def table_shifts_def shape_rules)
  moreover have "list_all (\<lambda>(opcode, act). shape (operand_span opcode) act) (table_branches B)"
    by (simp add: table_branches_def shape_rules)
  moreover have "list_all (\<lambda>(opcode, act). shape (operand_span opcode) act) (table_flags B)"
    by (simp add: table_flags_def shape_rules) (simp add: shape_def)
  moreover have "list_all (\<lambda>(opcode, act). shape (operand_span opcode) act) (table_flow B)"
  proof -
    have m: "moves 2 (do { ea \<leftarrow> n_fetch16 B; n_rd16WrapPage B ea })" "moves 0 (do { pc \<leftarrow> n_pop16 B; ret (pc + 1) })"
      by (intro moves_then moves_0 moves_fetch16 moves_frame moves_basic)+
    show ?thesis by (simp add: table_flow_def shape_rules shape_flow(1) [OF moves_fetch16] shape_flow(1) [OF m(1)] shape_flow(1) [OF m(2)])
  qed
  ultimately show ?thesis by (simp add: table_6502_def)
qed

text \<open>The table holds the documented encodings, each once, and only these.\<close>

definition documented :: "u8 list" where
  "documented =
    [0xA9, 0xA5, 0xB5, 0xAD, 0xBD, 0xB9, 0xA1, 0xB1, 0xA2, 0xA6, 0xB6, 0xAE, 0xBE, 0xA0, 0xA4, 0xB4,
     0xAC, 0xBC, 0x85, 0x95, 0x8D, 0x9D, 0x99, 0x81, 0x91, 0x86, 0x96, 0x8E, 0x84, 0x94, 0x8C, 0xAA,
     0xA8, 0xBA, 0x8A, 0x9A, 0x98, 0x48, 0x08, 0x68, 0x28, 0x29, 0x25, 0x35, 0x2D, 0x3D, 0x39, 0x21,
     0x31, 0x49, 0x45, 0x55, 0x4D, 0x5D, 0x59, 0x41, 0x51, 0x09, 0x05, 0x15, 0x0D, 0x1D, 0x19, 0x01,
     0x11, 0x24, 0x2C, 0x69, 0x65, 0x75, 0x6D, 0x7D, 0x79, 0x61, 0x71, 0xE9, 0xE5, 0xF5, 0xED, 0xFD,
     0xF9, 0xE1, 0xF1, 0xC9, 0xC5, 0xD5, 0xCD, 0xDD, 0xD9, 0xC1, 0xD1, 0xE0, 0xE4, 0xEC, 0xC0, 0xC4,
     0xCC, 0xE6, 0xF6, 0xEE, 0xFE, 0xC6, 0xD6, 0xCE, 0xDE, 0xE8, 0xC8, 0xCA, 0x88, 0x0A, 0x06, 0x16,
     0x0E, 0x1E, 0x4A, 0x46, 0x56, 0x4E, 0x5E, 0x2A, 0x26, 0x36, 0x2E, 0x3E, 0x6A, 0x66, 0x76, 0x6E,
     0x7E, 0x4C, 0x6C, 0x20, 0x60, 0x40, 0x00, 0x10, 0x30, 0x50, 0x70, 0x90, 0xB0, 0xD0, 0xF0, 0x18,
     0x38, 0x58, 0x78, 0xB8, 0xD8, 0xF8, 0xEA]"

lemma table_opcodes: "map fst (table_6502 B) = documented"
  by (simp add: table_6502_def documented_def table_loads_def table_stores_def table_transfers_def table_stack_def table_logic_def
      table_arithmetic_def table_incdec_def table_shifts_def table_flow_def table_branches_def table_flags_def)

lemma documented_distinct: "distinct documented"
  by code_simp

lemma documented_sound: "list_all (\<lambda>opcode. \<not> oi_undocumented (m6502_info opcode)) documented"
  by code_simp

lemma documented_count: "length (filter (\<lambda>i. \<not> oi_undocumented i) m6502Opcodes) = 151" "length documented = 151"
  by code_simp+

lemma documented_exact: "set documented = {opcode. \<not> oi_undocumented (m6502_info opcode)}"
proof (rule card_subset_eq)
  have u: "unat opcode < 256" for opcode :: u8 using unsigned_less [of opcode, where ?'a = nat] by simp
  have "bij_betw unat {opcode :: u8. \<not> oi_undocumented (m6502_info opcode)}
      {i. i < length m6502Opcodes \<and> \<not> oi_undocumented (m6502Opcodes ! i)}"
    unfolding bij_betw_def
  proof (intro conjI)
    show "unat ` {opcode :: u8. \<not> oi_undocumented (m6502_info opcode)} = {i. i < length m6502Opcodes \<and> \<not> oi_undocumented (m6502Opcodes ! i)}"
    proof (intro equalityI subsetI)
      fix i assume i: "i \<in> {i. i < length m6502Opcodes \<and> \<not> oi_undocumented (m6502Opcodes ! i)}"
      then have "unat (of_nat i :: u8) = i" by (simp add: length_m6502Opcodes unat_of_nat)
      with i show "i \<in> unat ` {opcode :: u8. \<not> oi_undocumented (m6502_info opcode)}"
        by (intro image_eqI [of _ _ "of_nat i"]) (simp_all add: m6502_info_def)
    qed (auto simp: m6502_info_def length_m6502Opcodes u)
  qed (auto simp: inj_on_def word_unat_eq_iff)
  then have "card {opcode :: u8. \<not> oi_undocumented (m6502_info opcode)} = 151"
    using bij_betw_same_card documented_count(1) by (fastforce simp: length_filter_conv_card)
  then show "card (set documented) = card {opcode :: u8. \<not> oi_undocumented (m6502_info opcode)}"
    by (simp add: distinct_card documented_distinct documented_count(2))
qed (use documented_sound in \<open>auto simp: list_all_iff\<close>)

lemma documented_cycles: "list_all (\<lambda>opcode. oi_cycles (m6502_info opcode) \<in> {2..7}) documented"
  by code_simp

lemma flow_documented: "list_all (\<lambda>opcode. opcode \<in> set documented) flow_opcodes"
  by code_simp

text \<open>Every encoding: the shape of what \<open>execute\<close> runs.\<close>

lemma execute_cases:
  obtains act where "(opcode, act) \<in> set (table_6502 B)" "execute B opcode = act" "\<not> oi_undocumented (m6502_info opcode)"
    "opcode \<in> set documented"
  | "execute B opcode = undocumented opcode" "oi_undocumented (m6502_info opcode)"
proof (cases "map_of (table_6502 B) opcode")
  case None
  then have "opcode \<notin> set documented" by (simp add: map_of_eq_None_iff flip: table_opcodes [of B])
  with None that(2) show thesis using documented_exact by (auto simp: execute_def)
next
  case (Some act)
  then have "opcode \<in> set documented" using map_of_SomeD [OF Some] by (force simp flip: table_opcodes [of B])
  with Some that(1) map_of_SomeD [OF Some] show thesis using documented_exact by (auto simp: execute_def)
qed

lemma execute_shape:
  assumes "(opcode, act) \<in> set (table_6502 B)"
  shows "shape (operand_span opcode) act"
  using shape_table [of B] assms by (auto simp: list_all_iff)

lemma undocumented_runs:
  "n_Cycles (exec_state (undocumented opcode) s) = n_Cycles s"
  "1 \<le> oi_cycles (m6502_info opcode) + eval_state (undocumented opcode) s"
  "oi_cycles (m6502_info opcode) + eval_state (undocumented opcode) s \<le> 9"
  using m6502_info_ok [of opcode] by (auto simp: undocumented_def updating_def Let_def)

lemma execute_runs:
  "n_Cycles (exec_state (execute B opcode) s) = n_Cycles s"
  "1 \<le> oi_cycles (m6502_info opcode) + eval_state (execute B opcode) s"
  "oi_cycles (m6502_info opcode) + eval_state (execute B opcode) s \<le> 9"
proof -
  have "n_Cycles (exec_state (execute B opcode) s) = n_Cycles s
    \<and> 1 \<le> oi_cycles (m6502_info opcode) + eval_state (execute B opcode) s
    \<and> oi_cycles (m6502_info opcode) + eval_state (execute B opcode) s \<le> 9"
  proof (rule execute_cases [of opcode B])
    fix act assume a: "(opcode, act) \<in> set (table_6502 B)" "execute B opcode = act" "opcode \<in> set documented"
    have "oi_cycles (m6502_info opcode) \<in> {2..7}" using documented_cycles a(3) by (simp add: list_all_iff)
    then show ?thesis using execute_shape [OF a(1)] a(2) by (auto simp: shape_def intro: add_mono [where b = 7 and d = 2, simplified])
  qed (simp only: undocumented_runs simp_thms)
  then show "n_Cycles (exec_state (execute B opcode) s) = n_Cycles s"
    "1 \<le> oi_cycles (m6502_info opcode) + eval_state (execute B opcode) s"
    "oi_cycles (m6502_info opcode) + eval_state (execute B opcode) s \<le> 9" by blast+
qed

section \<open>Step and run\<close>

lemma service_cycles: "n_Cycles (exec_state (n_service B v) s) = n_Cycles s" "eval_state (n_service B v) s = 7"
  by (simp_all add: n_service_def case_prod_beta cycles_moves [OF moves_frame(1)] cycles_moves [OF moves_frame(2)]
      cycles_moves [OF moves_frame(4)])

lemma charge_cycles:
  "n_Cycles (exec_state (n_charge B c) s) = n_Cycles s + of_nat c" "eval_state (n_charge B c) s = c"
  "n_Jammed (exec_state (n_charge B c) s) = n_Jammed s"
  by (simp_all add: n_charge_def n_tick_def case_prod_beta Let_def)

lemma instruction_cycles:
  "n_Cycles (exec_state (one_instruction B) s) = n_Cycles s"
  "1 \<le> eval_state (one_instruction B) s" "eval_state (one_instruction B) s \<le> 9"
  using execute_runs [where B = B and opcode = "eval_state (n_fetch B) s" and s = "exec_state (n_fetch B) s"] moves_fetch [of B]
  by (simp_all add: one_instruction_def case_prod_beta cycles_moves)

lemma sample_cycles [simp]: "n_Cycles (exec_state (sample_nmi B) s) = n_Cycles s"
  by (simp add: sample_nmi_def n_nmiAsserted_def case_prod_beta Let_def)

lemma irq_cycles [simp]: "n_Cycles (exec_state (n_irqAsserted B) s) = n_Cycles s"
  by (simp add: n_irqAsserted_def case_prod_beta Let_def)

text \<open>A step reports between one and nine cycles, and these are the cycles it counts.\<close>

lemma step_cycles:
  "n_Cycles (exec_state (n_step B) s) = n_Cycles s + of_nat (eval_state (n_step B) s)
    \<and> 1 \<le> eval_state (n_step B) s \<and> eval_state (n_step B) s \<le> 9"
proof (cases "n_Jammed s")
  case True then show ?thesis by (simp add: n_step_def charge_cycles)
next
  case False
  define s1 where "s1 = exec_state (sample_nmi B) s"
  have c1: "n_Cycles s1 = n_Cycles s" by (simp add: s1_def)
  show ?thesis
  proof (cases "n_NMIPending s1")
    case True
    then show ?thesis using False c1
      by (simp add: n_step_def s1_def [symmetric] case_prod_beta charge_cycles n_serviceNMI_def service_cycles)
  next
    case NP: False
    define m where "m = ifM (\<lambda>s. has (n_P s) M6502_I) (ret False) (n_irqAsserted B)"
    have c2: "n_Cycles (exec_state m s1) = n_Cycles s" by (simp add: m_def c1)
    show ?thesis
      using False NP instruction_cycles [of B "exec_state m s1"]
      by (simp add: n_step_def s1_def [symmetric] m_def [symmetric] case_prod_beta charge_cycles n_serviceIRQ_def service_cycles c2)
  qed
qed

definition n_elapsed :: "u64 \<Rightarrow> 'b m6502 \<Rightarrow> nat" where
  "n_elapsed start s = unat (n_Cycles s - start)"

lemma elapsed_6502:
  assumes "n_elapsed start s + 9 < 2 ^ 64"
  shows "n_elapsed start (exec_state (n_step B) s) = n_elapsed start s + eval_state (n_step B) s"
proof -
  define c where "c = eval_state (n_step B) s"
  have c: "c \<le> 9" "n_Cycles (exec_state (n_step B) s) = n_Cycles s + of_nat c" using step_cycles [of B s] by (simp_all add: c_def)
  have u: "unat (of_nat c :: u64) = c" using c(1) by (simp add: unat_of_nat)
  have "n_elapsed start (exec_state (n_step B) s) = unat ((n_Cycles s - start) + of_nat c)"
    by (simp add: n_elapsed_def c(2) algebra_simps)
  also have "\<dots> = n_elapsed start s + c"
    using assms c(1) u by (simp add: n_elapsed_def unat_word_ariths)
  finally show ?thesis by (simp add: c_def)
qed

definition run_inv_6502 :: "u64 \<Rightarrow> u64 \<Rightarrow> bool \<times> 'b m6502 \<Rightarrow> bool" where
  "run_inv_6502 start n p \<longleftrightarrow> n_elapsed start (snd p) < unat n + 9 \<and> (fst p \<longrightarrow> n_Jammed (snd p))"

lemma run_6502_loop:
  fixes B :: "'b icpu_bus"
  assumes "unat n + 9 < 2 ^ 64"
  shows "\<exists>used s'. n_run B n s = Some (used, s') \<and> unat used < unat n + 9 \<and> (n \<noteq> 0 \<longrightarrow> 0 < unat used)
    \<and> (n \<le> used \<or> n_RunBreak s' \<or> n_Jammed s')"
proof -
  define start where "start = n_Cycles s"
  define b where "b = (\<lambda>(halted, s' :: 'b m6502). \<not> halted \<and> n_Cycles s' - start < n \<and> \<not> n_RunBreak s')"
  define it where "it = (\<lambda>(halted :: bool, s'). let s' = exec_state (n_step B) s' in (n_Jammed s', s'))"
  define p0 where "p0 = (False, s\<lparr>n_RunBreak := False\<rparr>)"
  have bI: "b q = (\<not> fst q \<and> n_Cycles (snd q) - start < n \<and> \<not> n_RunBreak (snd q))"
    and itI: "it q = (n_Jammed (exec_state (n_step B) (snd q)), exec_state (n_step B) (snd q))" for q
    by (simp_all add: b_def it_def case_prod_beta Let_def)
  have p0: "n_elapsed start (snd p0) = 0" "run_inv_6502 start n p0"
    by (simp_all add: p0_def start_def n_elapsed_def run_inv_6502_def)
  have step: "run_inv_6502 start n (it q) \<and> n_elapsed start (snd q) < n_elapsed start (snd (it q))" if "run_inv_6502 start n q" "b q" for q
  proof -
    have "n_elapsed start (snd q) < unat n" using that(2) by (simp add: bI n_elapsed_def word_less_nat_alt)
    then show ?thesis
      using elapsed_6502 [of start "snd q" B] step_cycles [of B "snd q"] assms by (simp add: itI run_inv_6502_def)
  qed
  have dec: "run_inv_6502 start n (it q) \<and> unat n + 9 - n_elapsed start (snd (it q)) < unat n + 9 - n_elapsed start (snd q)"
    if "run_inv_6502 start n q" "b q" for q
    using step [OF that] that(1) unfolding run_inv_6502_def by linarith
  obtain p where p: "while_option b it p0 = Some p"
    using measure_while_option_Some [of "run_inv_6502 start n" b it "\<lambda>p. unat n + 9 - n_elapsed start (snd p)" p0] dec p0(2) by blast
  have inv: "run_inv_6502 start n p" using while_option_rule [of "run_inv_6502 start n", OF _ p p0(2)] step by blast
  have stop: "\<not> b p" by (rule while_option_stop [OF p])
  have some: "0 < n_elapsed start (snd p)" if "n \<noteq> 0"
  proof -
    have b0: "b p0" using that by (simp add: bI p0_def start_def word_neq_0_conv)
    have p': "while_option b it (it p0) = Some p" using p b0 by (subst (asm) while_option_unfold) simp
    have "run_inv_6502 start n p \<and> 0 < n_elapsed start (snd p)"
      by (rule while_option_rule [OF _ p']) (use step [OF p0(2) b0] step in \<open>fastforce+\<close>)
    then show ?thesis by simp
  qed
  have "n_run B n s = Some (n_Cycles (snd p) - start, snd p)"
    using p by (simp add: n_run_def b_def it_def p0_def start_def case_prod_beta)
  then show ?thesis using inv stop some by (auto simp: bI run_inv_6502_def n_elapsed_def not_less)
qed

section \<open>Decimal mode\<close>

lemma all_bytes:
  assumes "list_all P (map of_nat [0..<256])"
  shows "P (a :: u8)"
proof -
  have "unat a < 256" using unsigned_less [of a, where ?'a = nat] by simp
  then have "of_nat (unat a) \<in> set (map of_nat [0..<256] :: u8 list)" by (auto intro!: image_eqI [of _ _ "unat a"])
  then have "P (of_nat (unat a))" using assms by (simp only: list_all_iff)
  then show ?thesis by simp
qed

lemma nibbles: "unat (a AND 0x0F) = unat a mod 16" "unat (a AND 0xF0) = unat a div 16 * 16" for a :: u8
proof -
  have "unat (a AND 0x0F) = unat a mod 16 \<and> unat (a AND 0xF0) = unat a div 16 * 16"
    by (rule all_bytes) code_simp
  then show "unat (a AND 0x0F) = unat a mod 16" "unat (a AND 0xF0) = unat a div 16 * 16" by blast+
qed

lemma join_nibbles: "unat ((x AND 0x0F) OR (y AND 0xF0)) = unat x mod 16 + unat y div 16 * 16" for x y :: u8
proof -
  have "(x AND 0x0F) AND 0xF0 = 0" by (simp add: and.assoc)
  then have "((x AND 0x0F) AND 0xF0) AND y = 0" by simp
  then have "(x AND 0x0F) AND (y AND 0xF0) = 0" by (simp only: ac_simps)
  then have "(x AND 0x0F) OR (y AND 0xF0) = (x AND 0x0F) + (y AND 0xF0)"
    using word_plus_and_or [of "x AND 0x0F" "y AND 0xF0"] by simp
  moreover have "unat (x AND 0x0F) + unat (y AND 0xF0) < 2 ^ 8"
  proof -
    have "unat y div 16 \<le> 15" using unsigned_less [of y, where ?'a = nat] by simp
    then have "unat y div 16 * 16 \<le> 240" by simp
    moreover have "unat x mod 16 \<le> 15" by simp
    ultimately show ?thesis unfolding nibbles by simp
  qed
  ultimately show ?thesis by (simp add: unat_word_ariths nibbles)
qed

lemma bcd_2: "bcd 2 n = n mod 16 + 10 * (n div 16 mod 16)" "bcd_ok 2 n \<longleftrightarrow> n mod 16 \<le> 9 \<and> n div 16 mod 16 \<le> 9"
  by (simp_all add: numeral_2_eq_2)

lemma recombine:
  fixes lo hi :: u16
  shows "unat (ucast ((lo AND 0x0F) OR (hi AND 0xF0)) :: u8) = unat lo mod 16 + (unat hi mod 256) div 16 * 16"
proof -
  have "(ucast ((lo AND 0x0F) OR (hi AND 0xF0)) :: u8) = (ucast lo AND 0x0F) OR (ucast hi AND 0xF0)"
    by (simp add: unsigned_or_eq unsigned_and_eq)
  moreover have "unat (ucast w :: u8) = unat w mod 256" for w :: u16
    by (simp add: unsigned_ucast_eq take_bit_nat_def)
  ultimately show ?thesis by (simp add: join_nibbles mod_mod_cancel)
qed

lemma high_byte: "hi AND 0xFF00 \<noteq> 0 \<longleftrightarrow> 256 \<le> unat hi" for hi :: u16
proof -
  have "hi AND 0xFF00 = 0 \<longleftrightarrow> hi \<le> 0xFF"
  proof
    assume z: "hi AND 0xFF00 = 0"
    have "(0xFF OR 0xFF00 :: u16) = - 1" by simp
    then have "hi = hi AND (0xFF OR 0xFF00)" by (simp only: bit.conj_one_right)
    also have "\<dots> = hi AND 0xFF" unfolding bit.conj_disj_distrib z by simp
    finally show "hi \<le> 0xFF" by (simp add: le_255_iff)
  next
    assume "hi \<le> 0xFF"
    then have "hi AND 0xFF00 = (hi AND 0xFF) AND 0xFF00" by (simp add: le_255_iff)
    then show "hi AND 0xFF00 = 0" by (simp add: and.assoc)
  qed
  then show ?thesis by (auto simp: word_le_nat_alt)
qed

lemma byte_digits:
  fixes a :: u8
  assumes "bcd_ok 2 (unat a)"
  obtains l h where "unat a = l + 16 * h" "l \<le> 9" "h \<le> 9" "bcd 2 (unat a) = l + 10 * h" "unat (a AND 0x0F) = l" "unat (a AND 0xF0) = 16 * h"
proof
  have d: "unat a div 16 < 16" using unsigned_less [of a, where ?'a = nat] by simp
  show "unat a = unat a mod 16 + 16 * (unat a div 16)" by simp
  show "unat a mod 16 \<le> 9" "unat a div 16 \<le> 9" "bcd 2 (unat a) = unat a mod 16 + 10 * (unat a div 16)"
    using assms d by (simp_all add: bcd_2)
qed (simp_all add: nibbles)

lemma digits_byte: "l \<le> 9 \<Longrightarrow> h \<le> 9 \<Longrightarrow> bcd_ok 2 (l + h * 16) \<and> bcd 2 (l + h * 16) = l + 10 * h"
  by (simp add: bcd_2)

lemma unat_ucast_byte: "unat (ucast (a :: u8) :: u16) = unat a"
  using unsigned_less [of a, where ?'a = nat] by (simp add: unsigned_ucast_eq take_bit_nat_eq_self)

lemma has_1: "has p (1 :: u8) = bit p 0"
  by (simp add: has_def mask_bits)

lemma carry_flag: "has (n_P s) M6502_C = bit (n_P s) 0"
  by (simp add: has_def M6502_C_def mask_bits)

lemma flag_C:
  "has (n_P (n_setFlag M6502_C b s)) M6502_C = b"
  "has (n_P (n_setFlag M6502_N b s)) M6502_C = has (n_P s) M6502_C" "has (n_P (n_setFlag M6502_V b s)) M6502_C = has (n_P s) M6502_C"
  "has (n_P (n_setFlag M6502_Z b s)) M6502_C = has (n_P s) M6502_C" "has (n_P (n_setZN v s)) M6502_C = has (n_P s) M6502_C"
  "n_A (n_setFlag f b s) = n_A s" "n_A (n_setZN v s) = n_A s"
  by (simp_all add: has_1 n_setFlag_def n_setZN_def set_flag_def m6502_flag_defs bit_simps)

lemma adc_decimal_6502:
  assumes "has (n_P s) M6502_D" "bcd_ok 2 (unat (n_A s))" "bcd_ok 2 (unat v)"
  defines "tot \<equiv> bcd 2 (unat (n_A s)) + bcd 2 (unat v) + of_bool (has (n_P s) M6502_C)"
  shows "bcd_ok 2 (unat (n_A (n_opADC v s))) \<and> bcd 2 (unat (n_A (n_opADC v s))) = tot mod 100
    \<and> has (n_P (n_opADC v s)) M6502_C = (100 \<le> tot)"
proof -
  obtain al ah where a: "unat (n_A s) = al + 16 * ah" "al \<le> 9" "ah \<le> 9" "bcd 2 (unat (n_A s)) = al + 10 * ah"
    "unat (n_A s AND 0x0F) = al" "unat (n_A s AND 0xF0) = 16 * ah" by (rule byte_digits [OF assms(2)])
  obtain vl vh where v: "unat v = vl + 16 * vh" "vl \<le> 9" "vh \<le> 9" "bcd 2 (unat v) = vl + 10 * vh"
    "unat (v AND 0x0F) = vl" "unat (v AND 0xF0) = 16 * vh" by (rule byte_digits [OF assms(3)])
  define c where "c = (of_bool (has (n_P s) M6502_C) :: nat)"
  have c: "c \<le> 1" "unat (n_carry s) = c" by (simp_all add: c_def n_carry_def)
  define lo where "lo = ucast (n_A s AND 0x0F) + ucast (v AND 0x0F) + n_carry s"
  define hi where "hi = (ucast (n_A s AND 0xF0) + ucast (v AND 0xF0) :: u16)"
  have lo: "unat lo = al + vl + c"
    using a(2) v(2) c by (simp add: lo_def unat_word_ariths unat_ucast_byte a(5) v(5))
  have hi: "unat hi = 16 * (ah + vh)"
    using a(3) v(3) by (simp add: hi_def unat_word_ariths unat_ucast_byte a(6) v(6))
  define k where "k = (if lo > 9 then 1 else 0 :: nat)"
  have k: "k = (if al + vl + c > 9 then 1 else 0)" by (simp add: k_def word_less_nat_alt lo)
  define lo1 where "lo1 = (if lo > 9 then lo + 6 else lo)"
  define hi1 where "hi1 = (if lo > 9 then hi + 0x10 else hi)"
  have lo1: "unat lo1 mod 16 = al + vl + c - 10 * k"
    using a(2) v(2) c(1) lo by (auto simp: lo1_def k_def word_less_nat_alt unat_word_ariths mod_if)
  have hi1: "unat hi1 = 16 * (ah + vh + k)"
    using a(3) v(3) by (simp add: hi1_def k_def unat_word_ariths hi)
  define hi2 where "hi2 = (if hi1 > 0x90 then hi1 + 0x60 else hi1)"
  define q where "q = (if ah + vh + k > 9 then 1 else 0 :: nat)"
  have q: "hi1 > 0x90 \<longleftrightarrow> q = 1" by (auto simp: q_def word_less_nat_alt hi1)
  have hi2: "unat hi2 = 16 * (ah + vh + k + 6 * q)"
    using a(3) v(3) k q by (auto simp: hi2_def q_def unat_word_ariths hi1)
  have k1: "k \<le> 1" by (simp add: k)
  have hi3: "(unat hi2 mod 256) div 16 * 16 = (ah + vh + k - 10 * q) * 16" "256 \<le> unat hi2 \<longleftrightarrow> q = 1"
    using a(3) v(3) k1 unfolding hi2 q_def by (auto simp: mod_if)
  have A: "n_A (n_opADC v s) = ucast ((lo1 AND 0x0F) OR (hi2 AND 0xF0))" "has (n_P (n_opADC v s)) M6502_C = (hi2 AND 0xFF00 \<noteq> 0)"
    using assms(1) by (simp_all add: n_opADC_def Let_def lo_def [symmetric] hi_def [symmetric] lo1_def hi1_def hi2_def flag_C)
  have r: "unat (n_A (n_opADC v s)) = (al + vl + c - 10 * k) + (ah + vh + k - 10 * q) * 16"
    unfolding A(1) recombine lo1 hi3(1) by simp
  have d: "al + vl + c - 10 * k \<le> 9" "ah + vh + k - 10 * q \<le> 9" using a(2,3) v(2,3) c(1) k1 by (auto simp: k q_def)
  have t: "tot = (al + vl + c - 10 * k) + 10 * (ah + vh + k - 10 * q) + 100 * q"
    using a(4) v(4) by (auto simp: tot_def c_def [symmetric] k q_def)
  have "bcd_ok 2 (unat (n_A (n_opADC v s))) \<and> bcd 2 (unat (n_A (n_opADC v s))) = (al + vl + c - 10 * k) + 10 * (ah + vh + k - 10 * q)"
    unfolding r by (rule digits_byte [OF d])
  moreover have "tot mod 100 = (al + vl + c - 10 * k) + 10 * (ah + vh + k - 10 * q)" "100 \<le> tot \<longleftrightarrow> q = 1"
    using d unfolding t by (auto simp: q_def)
  ultimately show ?thesis by (simp add: A(2) high_byte hi3(2))
qed

lemma uint_wi: "uint (word_of_int z :: u16) = z mod 65536"
  by (simp add: unsigned_of_int take_bit_eq_mod)

lemma bit_wi: "n < 16 \<Longrightarrow> bit (word_of_int z :: u16) n = odd (z div 2 ^ n)"
  by (simp only: bit_word_of_int_iff) (simp add: bit_iff_odd)

lemma borrow_bit: "- m \<le> z \<Longrightarrow> z < m \<Longrightarrow> 0 < m \<Longrightarrow> odd (z div m) \<longleftrightarrow> z < 0" for z m :: int
proof (cases "z < 0")
  case True
  assume "- m \<le> z" "0 < m"
  then have "(z + m) div m = 0" using True by (intro div_pos_pos_trivial) auto
  moreover have "(z + m) div m = z div m + 1" using div_add_self2 [of m z] \<open>0 < m\<close> by linarith
  ultimately have "z div m = - 1" by linarith
  then show ?thesis using True by simp
qed (simp add: div_pos_pos_trivial)

lemma wi_nat: "(of_nat n :: u16) = word_of_int (int n)"
  by simp

lemma sbc_decimal_6502:
  assumes "has (n_P s) M6502_D" "bcd_ok 2 (unat (n_A s))" "bcd_ok 2 (unat v)"
  defines "borrow \<equiv> 1 - of_bool (has (n_P s) M6502_C)"
  shows "bcd_ok 2 (unat (n_A (n_opSBC v s)))
    \<and> int (bcd 2 (unat (n_A (n_opSBC v s)))) = (int (bcd 2 (unat (n_A s))) - int (bcd 2 (unat v)) - borrow) mod 100
    \<and> has (n_P (n_opSBC v s)) M6502_C = (int (bcd 2 (unat v)) + borrow \<le> int (bcd 2 (unat (n_A s))))"
proof -
  obtain al ah where a: "unat (n_A s) = al + 16 * ah" "al \<le> 9" "ah \<le> 9" "bcd 2 (unat (n_A s)) = al + 10 * ah"
    "unat (n_A s AND 0x0F) = al" "unat (n_A s AND 0xF0) = 16 * ah" by (rule byte_digits [OF assms(2)])
  obtain vl vh where v: "unat v = vl + 16 * vh" "vl \<le> 9" "vh \<le> 9" "bcd 2 (unat v) = vl + 10 * vh"
    "unat (v AND 0x0F) = vl" "unat (v AND 0xF0) = 16 * vh" by (rule byte_digits [OF assms(3)])
  define b where "b = (borrow :: int)"
  have b: "b = 0 \<or> b = 1" "1 - n_carry s = word_of_int b" by (auto simp: b_def borrow_def n_carry_def)
  have up: "ucast w = (word_of_int (int (unat w)) :: u16)" for w :: u8 by simp
  define zl where "zl = int al - int vl - b"
  define zh where "zh = 16 * int ah - 16 * int vh"
  define r where "r = (ucast (n_A s) - ucast v - (1 - n_carry s) :: u16)"
  define lo where "lo = (ucast (n_A s AND 0x0F) - ucast (v AND 0x0F) - (1 - n_carry s) :: u16)"
  define hi where "hi = (ucast (n_A s AND 0xF0) - ucast (v AND 0xF0) :: u16)"
  have r: "r = word_of_int (int (unat (n_A s)) - int (unat v) - b)" by (simp only: r_def b(2) up wi_hom_syms)
  have lo: "lo = word_of_int zl" by (simp only: lo_def b(2) up a(5) v(5) wi_hom_syms zl_def)
  have hi: "hi = word_of_int zh" by (simp only: hi_def up a(6) v(6) wi_hom_syms zh_def of_nat_mult of_nat_numeral)
  have zl: "- 16 \<le> zl" "zl < 16" using a(2) v(2) b(1) by (auto simp: zl_def)
  define k where "k = (if zl < 0 then 1 else 0 :: int)"
  have lb: "lo AND 0x10 \<noteq> 0 \<longleftrightarrow> zl < 0"
    using borrow_bit [OF zl] bit_wi [of 4 zl] by (simp add: lo mask_bits)
  define lo1 where "lo1 = (if lo AND 0x10 \<noteq> 0 then lo - 0x06 else lo)"
  define hi1 where "hi1 = (if lo AND 0x10 \<noteq> 0 then hi - 0x10 else hi)"
  have lo1: "lo1 = word_of_int (zl - 6 * k)" unfolding lo1_def lb by (simp add: lo k_def)
  have hi1: "hi1 = word_of_int (zh - 16 * k)" unfolding hi1_def lb by (simp add: hi k_def)
  define d where "d = int ah - int vh - k"
  have zk: "zh - 16 * k = 16 * d" by (simp add: zh_def d_def)
  have d: "- 10 \<le> d" "d \<le> 9" using a(3) v(3) by (auto simp: d_def k_def)
  have hb: "hi1 AND 0x0100 \<noteq> 0 \<longleftrightarrow> d < 0"
  proof -
    have "hi1 AND 0x0100 = 0 \<longleftrightarrow> \<not> bit hi1 8" by (rule and_mask_bit) simp
    then show ?thesis using borrow_bit [of 256 "16 * d"] bit_wi [of 8 "16 * d"] d by (simp add: hi1 zk)
  qed
  define q where "q = (if d < 0 then 1 else 0 :: int)"
  define hi2 where "hi2 = (if hi1 AND 0x0100 \<noteq> 0 then hi1 - 0x60 else hi1)"
  have hi2: "hi2 = word_of_int (16 * (d - 6 * q))" unfolding hi2_def hb by (simp add: hi1 zk q_def)
  have dl: "zl + 10 * k \<le> 9" "0 \<le> zl + 10 * k" using a(2) v(2) b(1) by (auto simp: zl_def k_def)
  have dh: "d + 10 * q \<le> 9" "0 \<le> d + 10 * q" using d by (auto simp: q_def)
  have ml: "(zl - 6 * k) mod 16 = zl + 10 * k"
  proof -
    have "zl - 6 * k = (zl + 10 * k) + (- k) * 16" by simp
    then show ?thesis using dl by (simp only: mod_mult_self1) simp
  qed
  have mh: "(16 * (d - 6 * q)) mod 256 div 16 * 16 = 16 * (d + 10 * q)"
  proof -
    have "16 * (d - 6 * q) = 16 * (d + 10 * q) + (- q) * 256" by simp
    then have "(16 * (d - 6 * q)) mod 256 = 16 * (d + 10 * q)" using dh by (simp only: mod_mult_self1) simp
    then show ?thesis by simp
  qed
  have A: "n_A (n_opSBC v s) = ucast ((lo1 AND 0x0F) OR (hi2 AND 0xF0))" "has (n_P (n_opSBC v s)) M6502_C = (r < 0x100)"
  proof -
    have D: "has (n_P (n_setFlag M6502_V x (n_setFlag M6502_C y s))) M6502_D = True" for x y
      using assms(1) by (simp add: has_def n_setFlag_def set_flag_def m6502_flag_defs mask_bits bit_simps)
    show "n_A (n_opSBC v s) = ucast ((lo1 AND 0x0F) OR (hi2 AND 0xF0))" "has (n_P (n_opSBC v s)) M6502_C = (r < 0x100)"
      unfolding n_opSBC_def Let_def r_def [symmetric] lo_def [symmetric] hi_def [symmetric] D if_True
      by (simp_all add: lo1_def hi1_def hi2_def flag_C case_prod_beta)
  qed
  have "int (unat (n_A (n_opSBC v s))) = (zl + 10 * k) + (d + 10 * q) * 16"
  proof -
    have iu: "int (unat (word_of_int z :: u16)) = z mod 65536" for z using uint_wi [of z] by (simp only: uint_nat)
    have "int (unat lo1 mod 16) = zl + 10 * k" unfolding zmod_int lo1 iu by (simp add: mod_mod_cancel ml)
    moreover have "int ((unat hi2 mod 256) div 16 * 16) = (d + 10 * q) * 16"
    proof -
      have mm: "z mod 65536 mod 256 = z mod 256" for z :: int by (simp add: mod_mod_cancel)
      have "int ((unat hi2 mod 256) div 16 * 16) = int (unat hi2) mod 256 div 16 * 16"
        by (simp only: zmod_int zdiv_int of_nat_mult of_nat_numeral)
      also have "\<dots> = (d + 10 * q) * 16" unfolding hi2 iu mm mh by simp
      finally show ?thesis .
    qed
    ultimately show ?thesis unfolding A(1) recombine by simp
  qed
  then have "int (unat (n_A (n_opSBC v s))) = int (nat (zl + 10 * k) + nat (d + 10 * q) * 16)" using dl dh by simp
  then have rv: "unat (n_A (n_opSBC v s)) = nat (zl + 10 * k) + nat (d + 10 * q) * 16" by (simp only: of_nat_eq_iff)
  have ok: "bcd_ok 2 (unat (n_A (n_opSBC v s))) \<and> bcd 2 (unat (n_A (n_opSBC v s))) = nat (zl + 10 * k) + 10 * nat (d + 10 * q)"
    unfolding rv by (rule digits_byte) (use dl dh in linarith)+
  have t: "int (bcd 2 (unat (n_A s))) - int (bcd 2 (unat v)) - borrow = (zl + 10 * k) + 10 * (d + 10 * q) + (- q) * 100"
    unfolding a(4) v(4) b_def [symmetric] by (simp add: zl_def d_def)
  have m: "((zl + 10 * k) + 10 * (d + 10 * q) + (- q) * 100) mod 100 = (zl + 10 * k) + 10 * (d + 10 * q)"
    using dl dh by (simp only: mod_mult_self1) simp
  have neg: "0 \<le> (zl + 10 * k) + 10 * (d + 10 * q) + (- q) * 100 \<longleftrightarrow> q = 0" using dl dh by (auto simp: q_def)
  have cmp: "r < 0x100 \<longleftrightarrow> q = 0"
  proof -
    have e: "int (unat (n_A s)) - int (unat v) - b = zl + 16 * (int ah - int vh)" unfolding a(1) v(1) zl_def by simp
    also have "\<dots> = (zl + 10 * k) + 6 * k + 16 * d" unfolding d_def by simp
    finally have e: "int (unat (n_A s)) - int (unat v) - b = (zl + 10 * k) + 6 * k + 16 * d" .
    have "k = 0 \<or> k = 1" "q = 0 \<and> 0 \<le> d \<or> q = 1 \<and> d < 0" by (auto simp: k_def q_def)
    then have s: "0 \<le> (zl + 10 * k) + 6 * k + 16 * d \<and> (zl + 10 * k) + 6 * k + 16 * d < 256 \<longleftrightarrow> q = 0"
      "- 65536 + 256 \<le> (zl + 10 * k) + 6 * k + 16 * d \<and> (zl + 10 * k) + 6 * k + 16 * d < 256"
      using dl d by auto
    define E where "E = (zl + 10 * k) + 6 * k + 16 * d"
    have "E mod 65536 < 256 \<longleftrightarrow> q = 0"
    proof (cases "q = 0")
      case True
      then have "0 \<le> E \<and> E < 256" using s(1) by (simp only: E_def)
      then have "E mod 65536 = E" by (intro mod_pos_pos_trivial) simp_all
      then show ?thesis using True \<open>0 \<le> E \<and> E < 256\<close> by simp
    next
      case False
      have n: "E < 0" "- 65536 + 256 \<le> E" using False s unfolding E_def by linarith+
      have "E mod 65536 = (E + 65536) mod 65536" by simp
      also have "\<dots> = E + 65536" using n by (intro mod_pos_pos_trivial) linarith+
      finally show ?thesis using n False by simp
    qed
    then have "uint r < 256 \<longleftrightarrow> q = 0" unfolding r e uint_wi E_def .
    then show ?thesis by (simp add: word_less_def)
  qed
  show ?thesis using ok m neg cmp t dl dh by (simp add: A(2)) linarith
qed

section \<open>The properties\<close>

text \<open>The text of the disassembler and its terminator fit the 32 bytes its interface asks for.\<close>

lemma disassembly_fits: "length (fst (eval_state (m6502Disassemble addr readByte) c)) < 32"
proof -
  have "length (operand_text md addr lo w) < 28" "length (operand_text md addr lo w) < 29" for md lo w
    by (rule le_less_trans [OF operand_text_length]; simp)+
  then show ?thesis using m6502_info_ok by (simp add: m6502Disassemble_def case_prod_beta Let_def)
qed

text \<open>C38. The interpreter and the disassembler agree on the length of every instruction: for each of the 256 encodings
  that neither loads the program counter nor halts the core, documented or not, \<open>step\<close> consumes exactly the bytes
  \<open>m6502Disassemble\<close> reports at an address that holds it, on any bus; a halting encoding leaves the program counter on itself.\<close>

theorem step_agrees_with_disassembler:
  assumes "opcode \<notin> set flow_opcodes" "eval_state (readByte addr) c = opcode"
  shows "if oi_cycles (m6502_info opcode) = 0
    then n_Jammed (exec_state (execute B opcode) s) \<and> n_PC (exec_state (execute B opcode) s) = n_PC s - 1
    else n_PC (exec_state (execute B opcode) s) = n_PC s + of_nat (snd (eval_state (m6502Disassemble addr readByte) c)) - 1"
proof -
  define len where "len = m6502ModeLength (oi_mode (m6502_info opcode))"
  have d: "snd (eval_state (m6502Disassemble addr readByte) c) = len"
    using assms(2) by (simp add: m6502Disassemble_def case_prod_beta Let_def len_def)
  have l: "operand_span opcode = len" "0 < len"
    using assms(1) by (auto simp: operand_span_def len_def) (cases "oi_mode (m6502_info opcode)"; simp)
  show ?thesis unfolding d
  proof (rule execute_cases [of opcode B])
    fix act assume a: "(opcode, act) \<in> set (table_6502 B)" "execute B opcode = act" "opcode \<in> set documented"
    have "oi_cycles (m6502_info opcode) \<in> {2..7}" using documented_cycles a(3) by (simp add: list_all_iff)
    moreover have "n_PC (exec_state act s) = n_PC s + of_nat (len - 1)"
      using execute_shape [OF a(1)] l by (simp add: shape_def)
    ultimately show "if oi_cycles (m6502_info opcode) = 0
      then n_Jammed (exec_state (execute B opcode) s) \<and> n_PC (exec_state (execute B opcode) s) = n_PC s - 1
      else n_PC (exec_state (execute B opcode) s) = n_PC s + of_nat len - 1"
      using l(2) a(2) by (simp add: of_nat_diff)
  next
    assume "execute B opcode = undocumented opcode"
    then show "if oi_cycles (m6502_info opcode) = 0
      then n_Jammed (exec_state (execute B opcode) s) \<and> n_PC (exec_state (execute B opcode) s) = n_PC s - 1
      else n_PC (exec_state (execute B opcode) s) = n_PC s + of_nat len - 1"
      by (simp add: undocumented_def updating_def Let_def len_def)
  qed
qed

theorem step_agrees_with_disassembler_witness:
  "n_PC (exec_state (execute flat_bus 0x7D) (m6502_new (\<lambda>_. 0))) = 2"
proof -
  have i: "m6502_info 0x7D = opD ''ADC'' AM_ABX 4" by code_simp
  have d: "snd (eval_state (m6502Disassemble 0 (\<lambda>_. ret 0x7D)) ()) = 3"
    by (simp add: m6502Disassemble_def i opD_def)
  have f: "(0x7D :: u8) \<notin> set flow_opcodes" by (simp add: flow_opcodes_def)
  from step_agrees_with_disassembler [OF f, of "\<lambda>_. ret 0x7D" 0 "()" flat_bus "m6502_new (\<lambda>_. 0)"] d
  show ?thesis by (simp add: i opD_def m6502_new_def)
qed

text \<open>C39. \<open>run\<close> of the 6502 terminates: from every state it returns, it overshoots its budget by at most eight cycles, it
  executes something whenever the budget is not zero, and it stops early only on a run break or a halted core.\<close>

theorem run_6502_returns:
  assumes "unat n + 9 < 2 ^ 64"
  shows "\<exists>used s'. n_run B n s = Some (used, s') \<and> unat used < unat n + 9 \<and> (n \<noteq> 0 \<longrightarrow> 0 < unat used)
    \<and> (n \<le> used \<or> n_RunBreak s' \<or> n_Jammed s')"
  by (rule run_6502_loop [OF assms])

theorem run_6502_returns_witness:
  "\<exists>used s'. n_run flat_bus 1000 (m6502_new (\<lambda>_. 0xEA)) = Some (used, s') \<and> 0 < unat used \<and> unat used < 1009"
  using run_6502_returns [of 1000 flat_bus "m6502_new (\<lambda>_. 0xEA)"] by auto

text \<open>C40. NMOS decimal arithmetic: on two packed decimal bytes \<open>opADC\<close> and \<open>opSBC\<close> leave the packed decimal sum and
  difference modulo 100 in the accumulator, and the carry says that the sum reached 100, or that the difference did not
  borrow.\<close>

theorem decimal_6502:
  assumes "has (n_P s) M6502_D" "bcd_ok 2 (unat (n_A s))" "bcd_ok 2 (unat v)"
  shows "let a = bcd 2 (unat (n_A s)); b = bcd 2 (unat v); carry = of_bool (has (n_P s) M6502_C) :: nat;
      s1 = n_opADC v s; s2 = n_opSBC v s
    in bcd_ok 2 (unat (n_A s1)) \<and> bcd 2 (unat (n_A s1)) = (a + b + carry) mod 100 \<and> has (n_P s1) M6502_C = (100 \<le> a + b + carry)
     \<and> bcd_ok 2 (unat (n_A s2)) \<and> int (bcd 2 (unat (n_A s2))) = (int a - int b - (1 - int carry)) mod 100
     \<and> has (n_P s2) M6502_C = (b + 1 \<le> a + carry)"
  using adc_decimal_6502 [OF assms] sbc_decimal_6502 [OF assms] by (cases "has (n_P s) M6502_C") (simp_all add: Let_def, linarith)

theorem decimal_6502_witness:
  "bcd 2 (unat (n_A (n_opADC 0x46 ((m6502_new ())\<lparr>n_A := 0x58, n_P := 0x09\<rparr>)))) = 5
   \<and> int (bcd 2 (unat (n_A (n_opSBC 0x46 ((m6502_new ())\<lparr>n_A := 0x58, n_P := 0x09\<rparr>))))) = 12"
proof -
  let ?s = "(m6502_new ())\<lparr>n_A := 0x58, n_P := 0x09\<rparr>"
  have "has (n_P ?s) M6502_D" "bcd_ok 2 (unat (n_A ?s))" "bcd_ok 2 (unat (0x46 :: u8))"
    by (simp_all add: has_def M6502_D_def bcd_2)
  from decimal_6502 [OF this] show ?thesis by (simp add: Let_def bcd_2 has_def M6502_C_def)
qed

end
