(* ===== verification/ScpuScheduler.thy ===== *)
theory ScpuScheduler
  imports ScpuMachine WriteBufferProps W65Run M6502
begin

text \<open>
  The frame scheduler of the accelerator (\<open>Source/SuperCPU/supercpu.h\<close>, \<open>supercpu.cpp\<close>): \<open>CSuperCPU::runFrame\<close> with the
  raster-aware drain of the write mirror, the display scrub, the repair diagnostic and the two ways to switch the
  physical mirror off and on, over the wired machine of \<open>ScpuMachine\<close>.

  The processor is the interface \<open>ICpu\<close> (a record of its operations): it runs the machine it is attached to and either
  returns the cycles used, or does not return (\<open>None\<close>). Ticks, budgets and byte counts stay far
  below 32 bits and are \<open>nat\<close>; the fields \<open>m_CPU\<close>, \<open>m_Bus\<close> are non-null once \<open>init\<close> has succeeded (\<open>ss_Wired\<close>).
  \<open>m_WriteBuffer\<close> is the buffer the registers are attached to.
\<close>

unbundle bit_operations_syntax

section \<open>State\<close>

datatype SCPUResyncDiagnosticPhase = SCPU_RESYNC_DIAG_IDLE | SCPU_RESYNC_DIAG_HOLD | SCPU_RESYNC_DIAG_REPAIRING
  | SCPU_RESYNC_DIAG_COMPLETE

definition SCPU_MIRROR_DISPLAY_BYTES_DEFAULT :: nat where "SCPU_MIRROR_DISPLAY_BYTES_DEFAULT = 1024"
definition SCPU_MIRROR_SCREEN_BYTES_PER_OPPORTUNITY :: nat where "SCPU_MIRROR_SCREEN_BYTES_PER_OPPORTUNITY = 256"

record scheduler =
  ss_Wired :: bool
  ss_BootmapEnabled :: bool
  ss_MirrorDisplayBudget :: nat
  ss_MirrorHalted :: bool
  ss_DisplayScrubEnabled :: bool
  ss_DisplayScrubMasked :: bool
  ss_DisplayScrubPeriodSeconds :: nat
  ss_DisplayScrubPhaseOn :: bool
  ss_DisplayScrubPhaseStart :: u64
  ss_DisplayScrubPhaseGeneration :: u32
  ss_DisplayScrubBitmapSeen :: bool
  ss_AwaitingDrain :: bool
  ss_Holding :: bool
  ss_Phase :: SCPUResyncDiagnosticPhase
  ss_FramesRemaining :: nat
  ss_Generation :: u32
  ss_StartHash :: u32
  ss_ShadowChanged :: bool
  ss_RepairCallsRemaining :: nat
  ss_FrameTickDebt :: nat

definition scheduler_new :: scheduler where
  "scheduler_new =
     \<lparr> ss_Wired = False, ss_BootmapEnabled = False, ss_MirrorDisplayBudget = SCPU_MIRROR_DISPLAY_BYTES_DEFAULT,
       ss_MirrorHalted = False, ss_DisplayScrubEnabled = False, ss_DisplayScrubMasked = True, ss_DisplayScrubPeriodSeconds = 0,
       ss_DisplayScrubPhaseOn = False, ss_DisplayScrubPhaseStart = 0, ss_DisplayScrubPhaseGeneration = 0,
       ss_DisplayScrubBitmapSeen = False, ss_AwaitingDrain = False, ss_Holding = False, ss_Phase = SCPU_RESYNC_DIAG_IDLE,
       ss_FramesRemaining = 0, ss_Generation = 0, ss_StartHash = 0, ss_ShadowChanged = False, ss_RepairCallsRemaining = 0,
       ss_FrameTickDebt = 0 \<rparr>"

text \<open>What the processor runs on, and the processor.\<close>

record 'h machine =
  ma_M :: c64_memory
  ma_R :: scpu_regs
  ma_h :: 'h
  ma_Reu :: "(c64_memory \<times> 'h scpu_state) creu"

record ('c, 'h) icpu =
  ic_reset :: "'c \<Rightarrow> 'c"
  ic_run :: "u64 \<Rightarrow> 'c \<Rightarrow> (u64 \<times> 'c) option"
  ic_machine :: "'c \<Rightarrow> 'h machine"
  ic_with :: "'h machine \<Rightarrow> 'c \<Rightarrow> 'c"

definition w65_icpu :: "'h machine buses \<Rightarrow> ('h machine w65, 'h) icpu" where
  "w65_icpu B = \<lparr> ic_reset = exec_state (w65_reset B), ic_run = w65_run B, ic_machine = w_bus, ic_with = (\<lambda>y c. c\<lparr>w_bus := y\<rparr>) \<rparr>"

definition m6502_icpu :: "'h machine icpu_bus \<Rightarrow> ('h machine m6502, 'h) icpu" where
  "m6502_icpu B = \<lparr> ic_reset = exec_state (n_reset B), ic_run = n_run B, ic_machine = n_bus, ic_with = (\<lambda>y c. c\<lparr>n_bus := y\<rparr>) \<rparr>"

definition iec_busy :: "'h machine \<Rightarrow> bool" where "iec_busy y = iecBusActive (c_T (ma_M y))"
definition screen_base :: "'h machine \<Rightarrow> u32" where "screen_base y = activeScreenBase (c_D (ma_M y))"
definition bitmap_base :: "'h machine \<Rightarrow> u32" where "bitmap_base y = activeBitmapBase (c_P (ma_M y)) (c_D (ma_M y))"
definition charset_base :: "'h machine \<Rightarrow> u32" where "charset_base y = activeCharsetBase (c_P (ma_M y)) (c_D (ma_M y))"

definition buffer :: "'h machine \<Rightarrow> wb option" where "buffer y = rg_WriteBuffer (ma_R y)"
definition buffer_empty :: "'h machine \<Rightarrow> bool" where
  "buffer_empty y = (case buffer y of Some w \<Rightarrow> wb_Count w = 0 | None \<Rightarrow> True)"

text \<open>An operation of the write buffer on the bus.\<close>

definition on_buffer :: "(wb_env \<Rightarrow> wb \<times> 'h \<Rightarrow> wb \<times> 'h) \<Rightarrow> 'h machine \<Rightarrow> 'h machine" where
  "on_buffer f y =
     (case buffer y of
        Some w \<Rightarrow> (let (w, h) = f (mem_env (ma_M y)) (w, ma_h y) in y\<lparr>ma_R := (ma_R y)\<lparr>rg_WriteBuffer := Some w\<rparr>, ma_h := h\<rparr>)
      | None \<Rightarrow> y)"

definition raster_line :: "'h ic64_bus \<Rightarrow> 'h machine \<Rightarrow> u16 \<times> 'h machine" where
  "raster_line B y = (let (line, h) = cb_rasterLine B (ma_h y) in (line, y\<lparr>ma_h := h\<rparr>))"

definition signals :: "'h ic64_bus \<Rightarrow> 'h machine \<Rightarrow> C64Signals" where
  "signals B y = cb_signals B (ma_h y)"

section \<open>Raster-aware drain\<close>

definition c64LineInSpriteFetchSpan :: "(u8 \<Rightarrow> u8) \<Rightarrow> u16 \<Rightarrow> bool" where
  "c64LineInSpriteFetchSpan vic line \<longleftrightarrow>
     (\<exists>n \<in> set [0..<8]. bit (vic 0x15) n
        \<and> (let y = unat (vic (of_nat (1 + 2 * n))) in unat line + 3 \<ge> y \<and> unat line < y + 21))"

text \<open>What one raster sample authorises: whether it is inside the picture, the range that goes first (matrix or
  bitmap), and the bytes; \<open>None\<close> ends the drain.\<close>

record opportunity =
  op_inDisplay :: bool
  op_priority :: "(u32 \<times> u32) option"
  op_chunk :: nat

definition lines_left :: "C64VideoStandard \<Rightarrow> u16 \<Rightarrow> nat" where
  "lines_left v line =
     (if line > c64DisplayLastLine v then (c64RasterLines v - unat line) + unat (c64DisplayFirstLine v)
      else unat (c64DisplayFirstLine v) - unat line)"

definition authorise ::
    "C64VideoStandard \<Rightarrow> (u8 \<Rightarrow> u8) \<Rightarrow> u32 \<Rightarrow> u32 \<Rightarrow> u16 \<Rightarrow> nat \<Rightarrow> nat \<Rightarrow> nat \<Rightarrow> wb \<Rightarrow> opportunity option" where
  "authorise v vic screenBase bitmapBase line displayLeft transferLeft screenLeft w =
     (let limit = (\<lambda>inDisplay priority bytes.
            let chunk = min bytes 64
            in if chunk = 0 then None else Some \<lparr> op_inDisplay = inDisplay, op_priority = priority, op_chunk = chunk \<rparr>)
      in if c64RasterIsSafeForBulkTransfer v line then
           let budgetBytes = (lines_left v line * c64CyclesPerLine v * 3) div 4;
               screenPending = (screenBase < 0x10000 \<and> hasPendingInRange w screenBase 1000);
               bitmapPending = (bitmapBase < 0x10000 \<and> hasPendingInRange w bitmapBase 8000)
           in if screenPending \<or> bitmapPending then
                if screenLeft = 0 then None
                else limit False (Some (if screenPending then (screenBase, 1000) else (bitmapBase, 8000))) (min budgetBytes screenLeft)
              else if transferLeft = 0 then None
              else limit False None (min budgetBytes transferLeft)
         else if unat line < c64RasterLines v \<and> displayLeft \<noteq> 0 \<and> transferLeft \<noteq> 0 \<and> \<not> c64LineInSpriteFetchSpan vic line
         then limit True None (min displayLeft transferLeft)
         else None)"

definition deliver :: "'h ic64_bus \<Rightarrow> wb_env \<Rightarrow> u32 \<Rightarrow> u32 \<Rightarrow> opportunity \<Rightarrow> wb \<times> 'h \<Rightarrow> wb \<times> 'h" where
  "deliver B E screenBase bitmapBase p s =
     snd (case op_priority p of
            Some (base, len) \<Rightarrow> flushRangeUpTo B E base len (op_chunk p) s
          | None \<Rightarrow> flushUpToPolicy B E (op_chunk p) (op_inDisplay p)
                      (if op_inDisplay p then screenBase else NO_REGION) (if op_inDisplay p then bitmapBase else NO_REGION) s)"

function drain_loop ::
    "'h ic64_bus \<Rightarrow> wb_env \<Rightarrow> C64VideoStandard \<Rightarrow> (u8 \<Rightarrow> u8) \<Rightarrow> u32 \<Rightarrow> u32 \<Rightarrow> nat \<Rightarrow> nat \<Rightarrow> nat \<Rightarrow> wb \<times> 'h \<Rightarrow> wb \<times> 'h" where
  "drain_loop B E v vic screenBase bitmapBase displayLeft transferLeft screenLeft (w, h) =
     (if wb_Count w = 0 \<or> transferLeft = 0 \<and> screenLeft = 0 then (w, h)
      else
        let (line, h) = cb_rasterLine B h
        in case authorise v vic screenBase bitmapBase line displayLeft transferLeft screenLeft w of
             None \<Rightarrow> (w, h)
           | Some p \<Rightarrow>
               let (w', h) = deliver B E screenBase bitmapBase p (w, h); sent = wb_Count w - wb_Count w'
               in if wb_Count w' \<ge> wb_Count w then (w', h)
                  else if op_priority p \<noteq> None
                  then drain_loop B E v vic screenBase bitmapBase displayLeft transferLeft (screenLeft - sent) (w', h)
                  else drain_loop B E v vic screenBase bitmapBase (if op_inDisplay p then displayLeft - sent else displayLeft)
                         (transferLeft - sent) screenLeft (w', h))"
  by pat_completeness auto
termination
  by (relation "measure (\<lambda>(B, E, v, vic, screenBase, bitmapBase, displayLeft, transferLeft, screenLeft, s). wb_Count (fst s))")
    (auto simp: not_le, (metis fst_conv)+)

definition flushMirrorsRasterAware :: "'h ic64_bus \<Rightarrow> nat \<Rightarrow> nat \<Rightarrow> nat \<Rightarrow> 'h machine \<Rightarrow> 'h machine" where
  "flushMirrorsRasterAware B displayBudget transferBudget screenBudget y =
     on_buffer (\<lambda>E. drain_loop B E (sig_video (signals B y)) (vd_RegShadow (c_D (ma_M y))) (screen_base y) (bitmap_base y)
                      displayBudget transferBudget screenBudget) y"

section \<open>Switching the physical mirror\<close>

definition on_timing :: "(c64t \<Rightarrow> c64t) \<Rightarrow> 'h machine \<Rightarrow> 'h machine" where
  "on_timing f y = y\<lparr>ma_M := (ma_M y)\<lparr>c_T := f (c_T (ma_M y))\<rparr>\<rparr>"

definition disablePhysicalMirror :: "scheduler \<times> 'h machine \<Rightarrow> scheduler \<times> 'h machine" where
  "disablePhysicalMirror = (\<lambda>(s, y).
     (s\<lparr>ss_MirrorHalted := True\<rparr>,
      on_timing (enablePostedWriteTiming True) (on_buffer (\<lambda>E (w, h). (setDeliveryEnabled False (discard w), h)) y)))"

text \<open>The visible working set is queued again: matrix, bitmap or character set, and the shapes of the enabled sprites.\<close>

definition requeue :: "u32 \<Rightarrow> u32 \<Rightarrow> 'h machine \<Rightarrow> 'h machine" where
  "requeue base len y =
     (if base < 0x10000 then on_buffer (\<lambda>E (w, h). (invalidateRange E (ucast base) len w, h)) y else y)"

definition requeue_sprite :: "nat \<Rightarrow> 'h machine \<Rightarrow> 'h machine" where
  "requeue_sprite n y =
     (let M = ma_M y
      in if \<not> bit (vicRegister (c_D M) 0x15) n then y
         else
           let pointer = c_RAM M (ucast (activeVICScreenBase (c_P M) (c_D M) + 0x3F8 + of_nat n))
           in requeue (activeVICBankBase (c_P M) + ucast pointer * 64) 64 y)"

definition requeue_display :: "'h machine \<Rightarrow> 'h machine" where
  "requeue_display y =
     (let y = requeue (screen_base y) 1024 y;
          y = (if bitmap_base y < 0x10000 then requeue (bitmap_base y) 8192 y else requeue (charset_base y) 2048 y)
      in fold requeue_sprite [0..<8] y)"

definition enablePhysicalMirror :: "'h ic64_bus \<Rightarrow> scheduler \<times> 'h machine \<Rightarrow> scheduler \<times> 'h machine" where
  "enablePhysicalMirror B = (\<lambda>(s, y).
     let y = y\<lparr>ma_h := snd (cb_read B 0xD01F (snd (cb_read B 0xD01E (ma_h y))))\<rparr>;
         y = on_buffer (\<lambda>E (w, h). (setDeliveryEnabled True (discard w), h)) y;
         y = on_timing (enablePostedWriteTiming False) y
     in (s\<lparr>ss_MirrorHalted := False\<rparr>, requeue_display y))"

section \<open>The display scrub and the repair diagnostic\<close>

definition setDisplayScrub :: "bool \<Rightarrow> bool \<Rightarrow> nat \<Rightarrow> scheduler \<Rightarrow> scheduler" where
  "setDisplayScrub enabled masked periodSeconds s =
     s\<lparr>ss_DisplayScrubEnabled := enabled, ss_DisplayScrubMasked := masked, ss_DisplayScrubPeriodSeconds := periodSeconds,
       ss_DisplayScrubPhaseOn := (enabled \<and> periodSeconds = 0), ss_DisplayScrubPhaseStart := 0,
       ss_DisplayScrubPhaseGeneration := 0, ss_DisplayScrubBitmapSeen := False\<rparr>"

definition updateDisplayScrubPhase :: "'h ic64_bus \<Rightarrow> bool \<Rightarrow> scheduler \<times> 'h machine \<Rightarrow> scheduler \<times> 'h machine" where
  "updateDisplayScrubPhase B bitmapActive = (\<lambda>(s, y).
     let (next, s, y) =
           (if ss_DisplayScrubEnabled s \<and> ss_DisplayScrubPeriodSeconds s \<noteq> 0 then
              let hz = cb_hostCyclesPerSec B (ma_h y);
                  (now, h) = cb_hostCycles B (ma_h y);
                  y = y\<lparr>ma_h := h\<rparr>;
                  s = (if bitmapActive \<and> \<not> ss_DisplayScrubBitmapSeen s
                       then s\<lparr>ss_DisplayScrubBitmapSeen := True, ss_DisplayScrubPhaseStart := now\<rparr> else s);
                  interval = of_nat (ss_DisplayScrubPeriodSeconds s) * ucast hz :: u64
              in (if hz \<noteq> 0 \<and> ss_DisplayScrubBitmapSeen s
                  then interval \<noteq> 0 \<and> ((now - ss_DisplayScrubPhaseStart s) div interval) AND 1 \<noteq> 0 else False, s, y)
            else (ss_DisplayScrubEnabled s, s, y))
     in if next \<noteq> ss_DisplayScrubPhaseOn s
        then (s\<lparr>ss_DisplayScrubPhaseOn := next, ss_DisplayScrubPhaseGeneration := ss_DisplayScrubPhaseGeneration s + 1\<rparr>, y)
        else (s, y))"

definition hash_region :: "(u16 \<Rightarrow> u8) \<Rightarrow> u32 \<Rightarrow> nat \<Rightarrow> u32 \<Rightarrow> u32" where
  "hash_region ram base len hash =
     (if base \<ge> 0x10000 then hash
      else fold (\<lambda>i hash. (hash XOR ucast (ram (ucast (base + of_nat i)))) * 16777619) [0..<len] hash)"

definition displayShadowHash :: "'h machine \<Rightarrow> u32" where
  "displayShadowHash y =
     hash_region (c_RAM (ma_M y)) (bitmap_base y) 8192 (hash_region (c_RAM (ma_M y)) (screen_base y) 1024 2166136261)"

definition repair_graphics :: "'h machine \<Rightarrow> u32 \<times> u32" where
  "repair_graphics y =
     (let bitmapActive = (bitmap_base y < 0x10000); graphics = (if bitmapActive then bitmap_base y else charset_base y)
      in (graphics, if graphics < 0x10000 then if bitmapActive then 8192 else 2048 else 0))"

definition updateResyncDiagnostic :: "bool \<Rightarrow> C64VideoStandard \<Rightarrow> 'h machine \<Rightarrow> scheduler \<Rightarrow> scheduler" where
  "updateResyncDiagnostic sawIEC video y s =
     (if sawIEC then
        s\<lparr>ss_AwaitingDrain := True, ss_Holding := False, ss_Phase := SCPU_RESYNC_DIAG_IDLE, ss_FramesRemaining := 0,
          ss_ShadowChanged := False, ss_RepairCallsRemaining := 0\<rparr>
      else if ss_AwaitingDrain s then
        if \<not> buffer_empty y then s
        else s\<lparr>ss_AwaitingDrain := False, ss_Holding := True, ss_Phase := SCPU_RESYNC_DIAG_HOLD,
               ss_FramesRemaining := (if video = VIDEO_PAL then 500 else 600), ss_StartHash := displayShadowHash y,
               ss_ShadowChanged := False, ss_RepairCallsRemaining := 0, ss_Generation := ss_Generation s + 1\<rparr>
      else if ss_Holding s then
        let s = s\<lparr>ss_FramesRemaining := ss_FramesRemaining s - 1\<rparr>
        in if ss_FramesRemaining s \<noteq> 0 then s
           else s\<lparr>ss_Holding := False, ss_ShadowChanged := (displayShadowHash y \<noteq> ss_StartHash s),
                  ss_RepairCallsRemaining := 16 * (1 + unat (snd (repair_graphics y)) div 1024),
                  ss_Phase := SCPU_RESYNC_DIAG_REPAIRING, ss_Generation := ss_Generation s + 1\<rparr>
      else s)"

definition runResyncDiagnosticRepair :: "'h ic64_bus \<Rightarrow> scheduler \<times> 'h machine \<Rightarrow> scheduler \<times> 'h machine" where
  "runResyncDiagnosticRepair B = (\<lambda>(s, y).
     if ss_Phase s \<noteq> SCPU_RESYNC_DIAG_REPAIRING \<or> ss_RepairCallsRemaining s = 0 \<or> ss_MirrorHalted s \<or> iec_busy y
        \<or> \<not> buffer_empty y then (s, y)
     else
       let v = sig_video (signals B y); (line, y) = raster_line B y
       in if \<not> c64RasterIsSafeForBulkTransfer v line then (s, y)
          else
            let (graphics, len) = repair_graphics y;
                y = on_buffer (\<lambda>E p. snd (resyncDisplayed B E (screen_base y) graphics len 64 False True False p)) y;
                s = s\<lparr>ss_RepairCallsRemaining := ss_RepairCallsRemaining s - 1\<rparr>
            in if ss_RepairCallsRemaining s = 0
               then (s\<lparr>ss_Phase := SCPU_RESYNC_DIAG_COMPLETE, ss_Generation := ss_Generation s + 1\<rparr>, y) else (s, y))"

section \<open>One frame\<close>

definition frame_ticks :: "C64VideoStandard \<Rightarrow> nat" where
  "frame_ticks v = c64CyclesPerLine v * c64RasterLines v * (unat SCPU_TURBO_HZ div unat SCPU_NORMAL_HZ)"

definition ticks_per_cycle :: "'h machine \<Rightarrow> u32 \<Rightarrow> nat" where
  "ticks_per_cycle y selectedHz =
     unat SCPU_TURBO_HZ div unat (if iecThrottleActive (c_T (ma_M y)) then SCPU_NORMAL_HZ else selectedHz)"

text \<open>A pending speed change re-arms the pacer.\<close>

definition apply_speed :: "'h ic64_bus \<Rightarrow> u32 \<Rightarrow> 'h machine \<Rightarrow> 'h machine" where
  "apply_speed B selectedHz y =
     (let (changed, R) = consumeSpeedChanged (ma_R y); y = y\<lparr>ma_R := R\<rparr>
      in if changed then
           let (t, h) = setPacing (Some B) (ucast (cb_hostCyclesPerSec B (ma_h y))) selectedHz (c_T (ma_M y)) (ma_h y)
           in y\<lparr>ma_M := (ma_M y)\<lparr>c_T := t\<rparr>, ma_h := h\<rparr>
         else y)"

record 'c frame_run =
  fr_ticksUsed :: nat
  fr_executed :: nat
  fr_sawIEC :: bool
  fr_sched :: scheduler
  fr_cpu :: 'c

text \<open>The mirror traffic between two slices.\<close>

definition slice_flush :: "'h ic64_bus \<Rightarrow> nat \<Rightarrow> nat \<Rightarrow> scheduler \<Rightarrow> 'h machine \<Rightarrow> 'h machine" where
  "slice_flush B display transfer s y =
     (if \<not> ss_MirrorHalted s \<and> \<not> iec_busy y \<and> \<not> buffer_empty y
      then flushMirrorsRasterAware B display transfer SCPU_MIRROR_SCREEN_BYTES_PER_OPPORTUNITY y else y)"

definition slice_scrub :: "'h ic64_bus \<Rightarrow> u32 \<Rightarrow> scheduler \<Rightarrow> 'h machine \<Rightarrow> 'h machine" where
  "slice_scrub B scrubBitmapBase s y =
     (if ss_DisplayScrubEnabled s \<and> \<not> ss_MirrorHalted s \<and> sig_machine (signals B y) = MACHINE_C64 \<and> scrubBitmapBase < 0x10000
         \<and> has (vd_RegShadow (c_D (ma_M y)) 0x11) 0x10 \<and> \<not> iec_busy y \<and> buffer_empty y
      then
        let v = sig_video (signals B y); (line, y) = raster_line B y
        in if c64RasterIsSafeForBulkTransfer v line
           then on_buffer (\<lambda>E p. snd (resyncDisplayed B E (screen_base y) scrubBitmapBase 8192 32 (ss_DisplayScrubMasked s)
                                        (ss_DisplayScrubPhaseOn s) False p)) y
           else y
      else y)"

definition frame_slice ::
    "('c, 'h) icpu \<Rightarrow> 'h ic64_bus \<Rightarrow> nat \<Rightarrow> nat \<Rightarrow> nat \<Rightarrow> 'c frame_run \<Rightarrow> 'c frame_run option" where
  "frame_slice K B frameTicks display transfer f =
     (let y = ic_machine K (fr_cpu f); scrubBitmapBase = bitmap_base y;
          (s, y) = updateDisplayScrubPhase B (scrubBitmapBase < 0x10000) (fr_sched f, y);
          selectedHz = currentClockHz (ma_R y);
          y = apply_speed B selectedHz y;
          perCycle = ticks_per_cycle y selectedHz;
          budget = (frameTicks - fr_ticksUsed f + perCycle - 1) div perCycle;
          sliceBudget = (frameTicks div 128 + perCycle - 1) div perCycle
      in case ic_run K (of_nat (min budget sliceBudget)) (ic_with K y (fr_cpu f)) of
           None \<Rightarrow> None
         | Some (cycles, c) \<Rightarrow>
             let y = ic_machine K c; ticksUsed = fr_ticksUsed f + unat cycles * perCycle;
                 y' = (if ticksUsed < frameTicks then slice_scrub B scrubBitmapBase s (slice_flush B display transfer s y) else y)
             in Some \<lparr> fr_ticksUsed = ticksUsed, fr_executed = fr_executed f + unat cycles, fr_sawIEC = (fr_sawIEC f \<or> iec_busy y),
                       fr_sched = s, fr_cpu = ic_with K y' c \<rparr>)"

partial_function (option) frame_slices ::
    "('c, 'h) icpu \<Rightarrow> 'h ic64_bus \<Rightarrow> nat \<Rightarrow> nat \<Rightarrow> nat \<Rightarrow> 'c frame_run \<Rightarrow> 'c frame_run option" where
  "frame_slices K B frameTicks display transfer f =
     (if fr_ticksUsed f < frameTicks
      then case frame_slice K B frameTicks display transfer f of
             None \<Rightarrow> None | Some f' \<Rightarrow> frame_slices K B frameTicks display transfer f'
      else Some f)"

text \<open>Running on to the border, the drain there, and the sweep with what the border has left.\<close>

definition approach ::
    "('c, 'h) icpu \<Rightarrow> 'h ic64_bus \<Rightarrow> u16 \<Rightarrow> 'c frame_run \<Rightarrow> 'c frame_run option" where
  "approach K B line f =
     (let y = ic_machine K (fr_cpu f); v = sig_video (signals B y)
      in if unat line < c64RasterLines v \<and> \<not> c64RasterIsSafeForBulkTransfer v line then
           let linesToGo = unat (c64DisplayLastLine v) + 1 - unat line;
               approachTicks = linesToGo * c64CyclesPerLine v * (unat SCPU_TURBO_HZ div unat SCPU_NORMAL_HZ);
               perCycle = ticks_per_cycle y (currentClockHz (ma_R y))
           in case ic_run K (of_nat (approachTicks div perCycle)) (fr_cpu f) of
                None \<Rightarrow> None
              | Some (cycles, c) \<Rightarrow>
                  Some (f\<lparr>fr_executed := fr_executed f + unat cycles, fr_cpu := c,
                          fr_sched := (fr_sched f)\<lparr>ss_FrameTickDebt := ss_FrameTickDebt (fr_sched f) + unat cycles * perCycle\<rparr>\<rparr>)
         else Some f)"

definition border_sweep :: "'h ic64_bus \<Rightarrow> nat \<Rightarrow> scheduler \<Rightarrow> 'h machine \<Rightarrow> 'h machine" where
  "border_sweep B transfer s y =
     (if buffer_empty y \<and> \<not> ss_AwaitingDrain s \<and> \<not> ss_Holding s
         \<and> (ss_Phase s = SCPU_RESYNC_DIAG_IDLE \<or> ss_Phase s = SCPU_RESYNC_DIAG_COMPLETE)
         \<and> sig_machine (signals B y) \<noteq> MACHINE_C128
      then
        let v = sig_video (signals B y); (line, y) = raster_line B y
        in if c64RasterIsSafeForBulkTransfer v line \<and> lines_left v line \<ge> 12
           then on_buffer (\<lambda>E. resyncSweep B E transfer) y else y
      else y)"

definition border_drain ::
    "('c, 'h) icpu \<Rightarrow> 'h ic64_bus \<Rightarrow> nat \<Rightarrow> nat \<Rightarrow> 'c frame_run \<Rightarrow> 'c frame_run option" where
  "border_drain K B display transfer f =
     (let y = ic_machine K (fr_cpu f)
      in if \<not> ss_MirrorHalted (fr_sched f) \<and> \<not> buffer_empty y \<and> \<not> iec_busy y then
           let (line, y) = raster_line B y
           in case approach K B line (f\<lparr>fr_cpu := ic_with K y (fr_cpu f)\<rparr>) of
                None \<Rightarrow> None
              | Some f \<Rightarrow>
                  let s = fr_sched f; y = ic_machine K (fr_cpu f)
                  in if \<not> ss_MirrorHalted s \<and> \<not> iec_busy y
                     then Some (f\<lparr>fr_cpu := ic_with K (border_sweep B transfer s
                            (flushMirrorsRasterAware B display transfer SCPU_MIRROR_SCREEN_BYTES_PER_OPPORTUNITY y)) (fr_cpu f)\<rparr>)
                     else Some f
         else Some f)"

definition pair_raster :: "'h ic64_bus \<Rightarrow> 'h machine \<Rightarrow> 'h machine" where
  "pair_raster B y =
     (if vl_Enabled (c_L (ma_M y)) \<and> \<not> iec_busy y then
        let (line, y) = raster_line B y
        in if line \<noteq> 0xFFFF
           then y\<lparr>ma_M := (ma_M y)\<lparr>c_L := noteRasterCoarse (ucast (c64Now (t_clk (c_T (ma_M y))))) line (c_L (ma_M y))\<rparr>\<rparr> else y
      else y)"

definition runFrame :: "('c, 'h) icpu \<Rightarrow> 'h ic64_bus \<Rightarrow> scheduler \<times> 'c \<Rightarrow> (nat \<times> scheduler \<times> 'c) option" where
  "runFrame K B = (\<lambda>(s, c).
     if \<not> ss_Wired s then Some (0, s, c)
     else
       let y = ic_machine K c; v = sig_video (signals B y); frameTicks = frame_ticks v;
           repaid = min (ss_FrameTickDebt s) frameTicks;
           display = (ss_MirrorDisplayBudget s + 15) div 16;
           transfer = (if display \<noteq> 0 then display else 64);
           start = \<lparr> fr_ticksUsed = repaid, fr_executed = 0, fr_sawIEC = iec_busy y,
                     fr_sched = s\<lparr>ss_FrameTickDebt := ss_FrameTickDebt s - repaid\<rparr>, fr_cpu = c \<rparr>
       in case frame_slices K B frameTicks display transfer start of
            None \<Rightarrow> None
          | Some f \<Rightarrow>
              let y = ic_machine K (fr_cpu f);
                  f = f\<lparr>fr_sched := updateResyncDiagnostic (fr_sawIEC f) (sig_video (signals B y)) y (fr_sched f)\<rparr>
              in case border_drain K B display transfer f of
                   None \<Rightarrow> None
                 | Some f \<Rightarrow>
                     let (s, y) = runResyncDiagnosticRepair B (fr_sched f, ic_machine K (fr_cpu f))
                     in Some (fr_executed f, s, ic_with K (pair_raster B y) (fr_cpu f)))"

section \<open>Reset and the main loop\<close>

text \<open>Bank 1 serves the BASIC and both KERNAL windows: it is seeded with the host's images.\<close>

definition seed_bank1 :: "c64_memory \<Rightarrow> (u16 \<Rightarrow> u8) \<Rightarrow> u16 \<Rightarrow> u8" where
  "seed_bank1 M bank a =
     (if 0x6000 \<le> a \<and> a < 0x8000 then c_Kernal M (a - 0x6000)
      else if 0xE000 \<le> a then c_Kernal M (a - 0xE000)
      else if 0xA000 \<le> a \<and> a < 0xC000 then c_Basic M (a - 0xA000)
      else bank a)"

definition reset_scheduler :: "scheduler \<Rightarrow> scheduler" where
  "reset_scheduler s =
     s\<lparr>ss_FrameTickDebt := 0, ss_DisplayScrubPhaseStart := 0,
       ss_DisplayScrubPhaseOn := (ss_DisplayScrubEnabled s \<and> ss_DisplayScrubPeriodSeconds s = 0),
       ss_DisplayScrubBitmapSeen := False, ss_AwaitingDrain := False, ss_Holding := False, ss_Phase := SCPU_RESYNC_DIAG_IDLE,
       ss_FramesRemaining := 0, ss_StartHash := 0, ss_ShadowChanged := False, ss_RepairCallsRemaining := 0\<rparr>"

definition scpu_reset ::
    "('c, 'h) icpu \<Rightarrow> 'h ic64_bus \<Rightarrow> (u32 \<Rightarrow> u8) option \<Rightarrow> u32 \<Rightarrow> scheduler \<times> 'c \<Rightarrow> scheduler \<times> 'c" where
  "scpu_reset K B romImage romLength = (\<lambda>(s, c).
     let y = on_buffer (\<lambda>E (w, h). (discard w, h)) (ic_machine K c);
         (M, reu, R, h) = mem_reset (scpu_machine B) (ma_M y) (ma_Reu y, ma_R y, ma_h y);
         usable = (ss_BootmapEnabled s \<and> romImage \<noteq> None \<and> romLength \<ge> 0x10000);
         M = setBootmapROM (if usable then romImage else None) (if usable then romLength else 0) M;
         R = trackBootmap (if usable then Some False else None) R;
         R = R\<lparr>rg_Bank1 := map_option (seed_bank1 M) (rg_Bank1 R)\<rparr>;
         R = regs_reset (trackKernalShadow (Some 0xE000) R);
         y = on_buffer (\<lambda>E (w, h). (resetStats w, h)) \<lparr> ma_M = M, ma_R = R, ma_h = h, ma_Reu = reu \<rparr>;
         (t, h) = resyncPacing (Some B) (c_T (ma_M y)) (ma_h y);
         y = y\<lparr>ma_M := (ma_M y)\<lparr>c_T := t\<rparr>, ma_h := h\<rparr>
     in (reset_scheduler s, ic_reset K (ic_with K y c)))"

text \<open>\<open>run()\<close> calls the frame hook after every frame and returns when it says so.\<close>

partial_function (option) run_until_stopped ::
    "('c, 'h) icpu \<Rightarrow> 'h ic64_bus \<Rightarrow> (scheduler \<times> 'c \<Rightarrow> bool \<times> scheduler \<times> 'c) \<Rightarrow> scheduler \<times> 'c \<Rightarrow> (scheduler \<times> 'c) option" where
  "run_until_stopped K B hook s =
     (case runFrame K B s of
        None \<Rightarrow> None
      | Some (executed, s') \<Rightarrow>
          let (stop, s'') = hook s' in if stop then Some s'' else run_until_stopped K B hook s'')"

end
