(* ===== verification/ScpuSchedulerProps.thy ===== *)
theory ScpuSchedulerProps
  imports ScpuScheduler C64TimingProps VicRenderer M6502Props
begin

text \<open>
  What the frame scheduler guarantees. \<open>sent_by\<close> relates the write buffer before and after a drain (\<open>drain_sent\<close>,
  \<open>drain_in_picture\<close>, by the loop rule \<open>drain_keeps\<close>). The locale \<open>scheduled_cpu\<close> states what the scheduler relies on
  of a processor and carries the accounting of ticks from a slice to a frame (\<open>frame_runs\<close>); the 65816 core is an
  interpretation. \<open>requeued\<close> follows the pending set through the hand-over of the picture to the physical mirror.
\<close>

unbundle bit_operations_syntax

section \<open>What a drain takes from the queue\<close>

text \<open>\<open>sent_by P m w w'\<close>: at most \<open>m\<close> entries left the queue of \<open>w\<close>, all of them addresses in \<open>P\<close>, and nothing was
  added.\<close>

definition sent_by :: "(u16 \<Rightarrow> bool) \<Rightarrow> nat \<Rightarrow> wb \<Rightarrow> wb \<Rightarrow> bool" where
  "sent_by P m w w' \<longleftrightarrow>
     wb_inv w' \<and> wb_Bus w' \<and> wb_Count w' \<le> wb_Count w \<and> wb_Count w \<le> wb_Count w' + m
     \<and> (\<forall>a. isDirty w' a \<longrightarrow> isDirty w a) \<and> (\<forall>a. isDirty w a \<and> \<not> P a \<longrightarrow> isDirty w' a)"

lemma sent_by_refl: "wb_inv w \<Longrightarrow> wb_Bus w \<Longrightarrow> sent_by P m w w"
  by (simp add: sent_by_def)

lemma sent_by_trans: "sent_by P m w w' \<Longrightarrow> sent_by P k w' w'' \<Longrightarrow> sent_by P (m + k) w w''"
  unfolding sent_by_def by (intro conjI; (elim conjE; linarith)?; blast)

lemma sent_by_mono: "sent_by P m w w' \<Longrightarrow> m \<le> k \<Longrightarrow> (\<And>a. P a \<Longrightarrow> Q a) \<Longrightarrow> sent_by Q k w w'"
  unfolding sent_by_def by auto

lemma sent_by_start: "sent_by P m w w' \<Longrightarrow> wb_inv w' \<and> wb_Bus w'"
  by (simp add: sent_by_def)

lemma sent_by_cong:
  "sent_by P m w w' \<Longrightarrow> wb_inv w'' \<Longrightarrow> wb_Bus w'' = wb_Bus w' \<Longrightarrow> wb_Count w'' = wb_Count w' \<Longrightarrow> wb_Dirty w'' = wb_Dirty w'
    \<Longrightarrow> sent_by P m w w''"
  by (simp add: sent_by_def isDirty_def)

lemma chunk_sent:
  assumes "wb_inv w" "wb_Bus w" "flushSelectedChunk B E m sel (w, h) = (n, w', h')"
  shows "sent_by (takes E sel) n w w'" "n \<le> m"
proof (atomize (full), cases "wb_Count w = 0 \<or> m = 0")
  case True
  then show "sent_by (takes E sel) n w w' \<and> n \<le> m"
    using assms chunk_idle [of w m B E sel h] by (auto simp: sent_by_def)
next
  case False
  then have go: "wb_Count w \<noteq> 0" "m \<noteq> 0" by simp_all
  obtain p1 p2 as where q: "queue w = p1 @ p2" "as = filter (takes E sel) p1" "n = length as"
    "queue w' = p2 @ filter (\<lambda>a. \<not> takes E sel a) p1" "n \<le> min m SCPU_WRITEBUF_CHUNK" "wb_inv w'"
    "\<forall>b. isDirty w' b = (b \<notin> set as \<and> isDirty w b)" "wb_Bus w'"
    by (rule chunk_spec [OF assms(1) go assms(2,3)]) (rule that)
  have "wb_Count w = wb_Count w' + n"
    using arg_cong [OF q(1), of length] arg_cong [OF q(4), of length] q(2,3)
      sum_length_filter_compl [of "takes E sel" p1] by simp
  then show "sent_by (takes E sel) n w w' \<and> n \<le> m" using q by (auto simp: sent_by_def)
qed

lemma policy_loop_sent:
  "wb_inv w \<Longrightarrow> wb_Bus w \<Longrightarrow> policy_loop B E d sb bb m s (w, h) = (s', w', h')
    \<Longrightarrow> sent_by (takes E (policy_selection d sb bb)) (m - s) w w'"
proof (induction "m - s" arbitrary: s w h rule: less_induct)
  case less
  show ?case
  proof (cases "wb_Count w > 0 \<and> s < m")
    case False then show ?thesis using less.prems by (auto simp: policy_loop_stop sent_by_refl)
  next
    case True
    obtain n w1 h1 where c: "flushSelectedChunk B E (m - s) (policy_selection d sb bb) (w, h) = (n, w1, h1)"
      by (metis prod_cases3)
    note step = policy_loop_step [OF conjunct1 [OF True] conjunct2 [OF True] c]
    note sent = chunk_sent [OF less.prems(1,2) c]
    show ?thesis
    proof (cases "n = 0")
      case True
      then have "w' = rememberNoProgress E d sb bb (on_stats (\<lambda>s. s\<lparr>st_PolicyZeroProgressScans := st_PolicyZeroProgressScans s + 1\<rparr>) w1)"
        using less.prems(3) step by simp
      then show ?thesis using sent sent_by_start [OF sent(1)]
        by (auto intro!: sent_by_cong [OF sent_by_mono [OF sent(1)]])
    next
      case False
      then have "m - (s + n) < m - s" using True by linarith
      from less.hyps [OF this] sent_by_start [OF sent(1)] less.prems(3) step False
      have "sent_by (takes E (policy_selection d sb bb)) (m - (s + n)) w1 w'" by simp
      from sent_by_trans [OF sent(1) this] sent(2) show ?thesis by (auto elim: sent_by_mono)
    qed
  qed
qed

lemma range_loop_sent:
  "wb_inv w \<Longrightarrow> wb_Bus w \<Longrightarrow> range_loop B E base len m s (w, h) = (s', w', h')
    \<Longrightarrow> sent_by (takes E (range_selection base len)) (m - s) w w'"
proof (induction "m - s" arbitrary: s w h rule: less_induct)
  case less
  show ?case
  proof (cases "wb_Count w > 0 \<and> s < m \<and> hasPendingInRange w base len")
    case False then show ?thesis using less.prems by (auto simp: range_loop_stop sent_by_refl)
  next
    case True
    then have go: "wb_Count w > 0" "s < m" "hasPendingInRange w base len" by simp_all
    obtain n w1 h1 where c: "flushSelectedChunk B E (m - s) (range_selection base len) (w, h) = (n, w1, h1)"
      by (metis prod_cases3)
    note step = range_loop_step [OF go c]
    note sent = chunk_sent [OF less.prems(1,2) c]
    show ?thesis
    proof (cases "n = 0")
      case True then show ?thesis using less.prems(3) step sent by (auto elim: sent_by_mono)
    next
      case False
      then have "m - (s + n) < m - s" using go by linarith
      from less.hyps [OF this] sent_by_start [OF sent(1)] less.prems(3) step False
      have "sent_by (takes E (range_selection base len)) (m - (s + n)) w1 w'" by simp
      from sent_by_trans [OF sent(1) this] sent(2) show ?thesis by (auto elim: sent_by_mono)
    qed
  qed
qed

lemma policy_sent:
  assumes "wb_inv w" "wb_Bus w" "flushUpToPolicy B E m d sb bb (w, h) = (n, w', h')"
  shows "sent_by (takes E (policy_selection d sb bb)) m w w'"
proof -
  obtain s w1 h1 where l: "policy_loop B E d sb bb m 0 (w, h) = (s, w1, h1)" by (metis prod_cases3)
  have "sent_by (takes E (policy_selection d sb bb)) m w w1" using policy_loop_sent [OF assms(1,2) l] by simp
  then show ?thesis using assms l
    by (auto simp: flushUpToPolicy_def count_flush_def sent_by_def isDirty_def Let_def split: if_splits)
qed

lemma range_sent:
  assumes "wb_inv w" "wb_Bus w" "flushRangeUpTo B E base len m (w, h) = (n, w', h')"
  shows "sent_by (takes E (range_selection base len)) m w w'"
proof -
  obtain s w1 h1 where l: "range_loop B E base len m 0 (w, h) = (s, w1, h1)" by (metis prod_cases3)
  have "sent_by (takes E (range_selection base len)) m w w1" using range_loop_sent [OF assms(1,2) l] by simp
  then show ?thesis using assms l
    by (auto simp: flushRangeUpTo_def count_flush_def sent_by_def isDirty_def Let_def split: if_splits)
qed

section \<open>One opportunity and the drain\<close>

text \<open>What may be sent while the raster is in the picture: neither matrix nor bitmap nor a block under a sprite.\<close>

definition cold :: "wb_env \<Rightarrow> u32 \<Rightarrow> u32 \<Rightarrow> u16 \<Rightarrow> bool" where
  "cold E screenBase bitmapBase a \<longleftrightarrow>
     \<not> addressInRange a screenBase 1000 \<and> \<not> addressInRange a bitmapBase 8000 \<and> \<not> is_hot E a"

lemma takes_cold: "takes E (policy_selection True sb bb) a = cold E sb bb a"
  by (auto simp: takes_def policy_selection_def cold_def Let_def)

lemma deliver_sent:
  assumes "wb_inv w" "wb_Bus w" "deliver B E sb bb p (w, h) = (w', h')"
  shows "sent_by (\<lambda>a. op_inDisplay p \<and> op_priority p = None \<longrightarrow> cold E sb bb a) (op_chunk p) w w'"
proof (cases "op_priority p")
  case None
  then obtain n where r: "flushUpToPolicy B E (op_chunk p) (op_inDisplay p)
      (if op_inDisplay p then sb else NO_REGION) (if op_inDisplay p then bb else NO_REGION) (w, h) = (n, w', h')"
    using assms(3) by (simp add: deliver_def) (metis prod.collapse)
  show ?thesis using None by (auto intro: sent_by_mono [OF policy_sent [OF assms(1,2) r]] simp: takes_cold)
next
  case (Some r)
  obtain base len where "r = (base, len)" by (cases r)
  then obtain n where r: "flushRangeUpTo B E base len (op_chunk p) (w, h) = (n, w', h')"
    using assms(3) Some by (simp add: deliver_def) (metis prod.collapse)
  show ?thesis using Some by (auto intro: sent_by_mono [OF range_sent [OF assms(1,2) r]])
qed

lemma authorise_Some:
  assumes "authorise v vic sb bb line dl tr sl w = Some p"
  shows "0 < op_chunk p" "op_chunk p \<le> 64"
    "op_priority p \<noteq> None \<longrightarrow> op_chunk p \<le> sl \<and> \<not> op_inDisplay p"
    "op_priority p = None \<longrightarrow> op_chunk p \<le> tr"
    "op_inDisplay p \<longrightarrow> op_chunk p \<le> dl \<and> \<not> c64LineInSpriteFetchSpan vic line \<and> unat line < c64RasterLines v"
    "op_inDisplay p = (\<not> c64RasterIsSafeForBulkTransfer v line)"
  using assms by (auto simp: authorise_def Let_def split: if_splits)

declare drain_loop.simps [simp del]

lemma drain_stop:
  "wb_Count w = 0 \<or> tr = 0 \<and> sl = 0 \<Longrightarrow> drain_loop B E v vic sb bb dl tr sl (w, h) = (w, h)"
  by (subst drain_loop.simps) (simp only: if_True)

lemma drain_step:
  assumes "wb_Count w \<noteq> 0" "tr \<noteq> 0 \<or> sl \<noteq> 0" "cb_rasterLine B h = (line, h1)"
  shows "drain_loop B E v vic sb bb dl tr sl (w, h) =
    (case authorise v vic sb bb line dl tr sl w of
       None \<Rightarrow> (w, h1)
     | Some p \<Rightarrow> (case deliver B E sb bb p (w, h1) of (w', h') \<Rightarrow>
         if wb_Count w' \<ge> wb_Count w then (w', h')
         else if op_priority p \<noteq> None
         then drain_loop B E v vic sb bb dl tr (sl - (wb_Count w - wb_Count w')) (w', h')
         else drain_loop B E v vic sb bb (if op_inDisplay p then dl - (wb_Count w - wb_Count w') else dl)
                (tr - (wb_Count w - wb_Count w')) sl (w', h')))"
proof -
  have "\<not> (wb_Count w = 0 \<or> tr = 0 \<and> sl = 0)" using assms(1,2) by simp
  then show ?thesis
    by (subst drain_loop.simps) (simp only: if_False assms(3) Let_def prod.case case_prod_beta fst_conv snd_conv)
qed

text \<open>A relation between the budgets left, the buffer and the host that every sample and every opportunity keeps.\<close>

lemma drain_keeps:
  assumes raster: "\<And>dl tr sl w h. I dl tr sl w h \<Longrightarrow> I dl tr sl w (snd (cb_rasterLine B h))"
    and step: "\<And>dl tr sl w h line h1 p w1 h2. I dl tr sl w h1 \<Longrightarrow> cb_rasterLine B h = (line, h1)
      \<Longrightarrow> authorise v vic sb bb line dl tr sl w = Some p \<Longrightarrow> deliver B E sb bb p (w, h1) = (w1, h2)
      \<Longrightarrow> I (if op_inDisplay p \<and> op_priority p = None then dl - (wb_Count w - wb_Count w1) else dl)
            (if op_priority p = None then tr - (wb_Count w - wb_Count w1) else tr)
            (if op_priority p = None then sl else sl - (wb_Count w - wb_Count w1)) w1 h2"
  shows "I dl tr sl w h \<Longrightarrow> drain_loop B E v vic sb bb dl tr sl (w, h) = (w', h') \<Longrightarrow> \<exists>dl' tr' sl'. I dl' tr' sl' w' h'"
proof (induction "wb_Count w" arbitrary: dl tr sl w h rule: less_induct)
  case less
  show ?case
  proof (cases "wb_Count w = 0 \<or> tr = 0 \<and> sl = 0")
    case True then show ?thesis using less.prems by (auto simp: drain_stop)
  next
    case False
    obtain line h1 where r: "cb_rasterLine B h = (line, h1)" by fastforce
    have go: "wb_Count w \<noteq> 0" "tr \<noteq> 0 \<or> sl \<noteq> 0" using False by auto
    note run = less.prems(2) [unfolded drain_step [OF go r]]
    have I1: "I dl tr sl w h1" using raster [OF less.prems(1)] r by simp
    show ?thesis
    proof (cases "authorise v vic sb bb line dl tr sl w")
      case None then show ?thesis using run I1 by auto
    next
      case (Some p)
      obtain w1 h2 where d: "deliver B E sb bb p (w, h1) = (w1, h2)" by fastforce
      note I2 = step [OF I1 r Some d]
      show ?thesis
      proof (cases "wb_Count w \<le> wb_Count w1")
        case True then show ?thesis using run I2 unfolding Some option.case d prod.case by auto
      next
        case F: False
        show ?thesis
        proof (cases "op_priority p = None")
          case True
          then show ?thesis using run F I2 unfolding Some option.case d prod.case
            by (intro less.hyps [OF _ I2]) auto
        next
          case False
          then show ?thesis using run F I2 unfolding Some option.case d prod.case
            by (intro less.hyps [OF _ I2]) auto
        qed
      qed
    qed
  qed
qed

text \<open>At most the two budgets are sent, whatever the bus and the raster do.\<close>

lemma drain_sent:
  assumes "wb_inv w" "wb_Bus w" "drain_loop B E v vic sb bb dl tr sl (w, h) = (w', h')"
  shows "sent_by (\<lambda>_. True) (tr + sl) w w'"
proof -
  define I where "I = (\<lambda>(dl' :: nat) tr' sl' wi (hi :: 'a). tr' \<le> tr \<and> sl' \<le> sl \<and> sent_by (\<lambda>_. True) ((tr - tr') + (sl - sl')) w wi)"
  have "\<exists>dl' tr' sl'. I dl' tr' sl' w' h'"
  proof (rule drain_keeps [OF _ _ _ assms(3)])
    show "I dl tr sl w h" using assms(1,2) by (simp add: I_def sent_by_refl)
  next
    fix dl tr' sl' wi hi line h1 p w1 h2
    assume I: "I dl tr' sl' wi h1" and a: "authorise v vic sb bb line dl tr' sl' wi = Some p"
      and d: "deliver B E sb bb p (wi, h1) = (w1, h2)"
    have s: "sent_by (\<lambda>_. True) ((tr - tr') + (sl - sl')) w wi" using I unfolding I_def by blast
    have inv: "wb_inv wi" "wb_Bus wi" using sent_by_start [OF s] by simp_all
    have s1: "sent_by (\<lambda>_. True) (op_chunk p) wi w1" by (rule sent_by_mono [OF deliver_sent [OF inv d]]) simp_all
    then have c: "wb_Count wi - wb_Count w1 \<le> op_chunk p" and s2: "sent_by (\<lambda>_. True) (wb_Count wi - wb_Count w1) wi w1"
      by (auto simp: sent_by_def)
    note A = authorise_Some [OF a]
    show "I (if op_inDisplay p \<and> op_priority p = None then dl - (wb_Count wi - wb_Count w1) else dl)
            (if op_priority p = None then tr' - (wb_Count wi - wb_Count w1) else tr')
            (if op_priority p = None then sl' else sl' - (wb_Count wi - wb_Count w1)) w1 h2"
      using I c A(3,4) sent_by_mono [OF sent_by_trans [OF s s2]] by (auto simp: I_def)
  qed (unfold I_def)
  then obtain dl' tr' sl' where "sent_by (\<lambda>_. True) ((tr - tr') + (sl - sl')) w w'" by (auto simp: I_def)
  then show ?thesis by (rule sent_by_mono) simp_all
qed

text \<open>The same while the raster stays inside the picture: the display ration, and cold traffic only.\<close>

lemma drain_in_picture:
  assumes "wb_inv w" "wb_Bus w" "drain_loop B E v vic sb bb dl tr sl (w, h) = (w', h')"
    and picture: "\<And>h. \<not> c64RasterIsSafeForBulkTransfer v (fst (cb_rasterLine B h))"
  shows "sent_by (cold E sb bb) (min dl tr) w w'"
proof -
  define I where "I = (\<lambda>dl' tr' (sl' :: nat) wi (hi :: 'a).
    dl' \<le> dl \<and> tr' \<le> tr \<and> dl - dl' = tr - tr' \<and> sent_by (cold E sb bb) (dl - dl') w wi)"
  have "\<exists>dl' tr' sl'. I dl' tr' sl' w' h'"
  proof (rule drain_keeps [OF _ _ _ assms(3)])
    show "I dl tr sl w h" using assms(1,2) by (simp add: I_def sent_by_refl)
  next
    fix dl' tr' sl' wi hi line h1 p w1 h2
    assume I: "I dl' tr' sl' wi h1" and r: "cb_rasterLine B hi = (line, h1)"
      and a: "authorise v vic sb bb line dl' tr' sl' wi = Some p" and d: "deliver B E sb bb p (wi, h1) = (w1, h2)"
    have s: "sent_by (cold E sb bb) (dl - dl') w wi" using I unfolding I_def by blast
    have inv: "wb_inv wi" "wb_Bus wi" using sent_by_start [OF s] by simp_all
    note A = authorise_Some [OF a]
    have disp: "op_inDisplay p" using A(6) picture [of hi] r by simp
    then have none: "op_priority p = None" using A(3) by blast
    note disp = disp none
    have s1: "sent_by (cold E sb bb) (op_chunk p) wi w1"
      by (rule sent_by_mono [OF deliver_sent [OF inv d]]) (simp_all add: disp)
    then have c: "wb_Count wi - wb_Count w1 \<le> op_chunk p" and s2: "sent_by (cold E sb bb) (wb_Count wi - wb_Count w1) wi w1"
      by (auto simp: sent_by_def)
    have "dl - (dl' - (wb_Count wi - wb_Count w1)) = (dl - dl') + (wb_Count wi - wb_Count w1)"
      "tr - (tr' - (wb_Count wi - wb_Count w1)) = (tr - tr') + (wb_Count wi - wb_Count w1)"
      using I c A(4,5) disp by (auto simp: I_def)
    then show "I (if op_inDisplay p \<and> op_priority p = None then dl' - (wb_Count wi - wb_Count w1) else dl')
            (if op_priority p = None then tr' - (wb_Count wi - wb_Count w1) else tr')
            (if op_priority p = None then sl' else sl' - (wb_Count wi - wb_Count w1)) w1 h2"
      using I sent_by_trans [OF s s2] by (auto simp: I_def disp intro: le_trans [OF diff_le_self])
  qed (unfold I_def)
  then obtain dl' tr' where "dl' \<le> dl" "tr' \<le> tr" "dl - dl' = tr - tr'" "sent_by (cold E sb bb) (dl - dl') w w'"
    by (auto simp: I_def)
  then show ?thesis by (intro sent_by_mono [where k = "min dl tr"]) auto
qed

section \<open>A processor the scheduler may drive\<close>

text \<open>What the scheduler relies on: \<open>run\<close> returns, uses at least one cycle, and overshoots its budget by at most eight.\<close>

locale scheduled_cpu =
  fixes K :: "('c, 'h) icpu" and ok :: "'c \<Rightarrow> bool"
  assumes run_ok: "ok c \<Longrightarrow> n \<noteq> 0 \<Longrightarrow> unat n + 9 < 2 ^ 64
      \<Longrightarrow> \<exists>used c'. ic_run K n c = Some (used, c') \<and> ok c' \<and> 0 < unat used \<and> unat used < unat n + 9"
    and with_ok: "ok c \<Longrightarrow> ok (ic_with K y c)"
    and machine_with: "ic_machine K (ic_with K y c) = y"

text \<open>The 65816 core is one, over any buses.\<close>

lemma run_loop_progress:
  fixes B :: "'b buses"
  assumes "cpu_ok s" "\<not> m_RunBreak s" "n \<noteq> 0" "unat n + 9 < 2 ^ 64" "run_loop B (m_Cycles s) n s = Some p"
  shows "1 \<le> elapsed (m_Cycles s) (snd p)"
proof -
  define start where "start = m_Cycles s"
  define b where "b = (\<lambda>(halted, s :: 'b w65). \<not> halted \<and> m_Cycles s - start < n \<and> \<not> m_RunBreak s)"
  define it where "it = (\<lambda>(halted :: bool, s). let s' = exec_state (run_iteration B start n) s in (m_Stopped s', s'))"
  have run: "while_option b it (False, s) = Some p"
    using assms(5) by (simp add: run_loop_def b_def it_def start_def)
  have inv: "run_inv start n (False, s)"
    using assms(1) by (simp add: run_inv_def elapsed_def start_def)
  have bI: "b q = (\<not> fst q \<and> m_Cycles (snd q) - start < n \<and> \<not> m_RunBreak (snd q))"
    and itI: "it q = (m_Stopped (exec_state (run_iteration B start n) (snd q)), exec_state (run_iteration B start n) (snd q))" for q
    by (simp_all add: b_def it_def case_prod_beta Let_def)
  have step: "run_inv start n (it q) \<and> elapsed start (snd q) < elapsed start (snd (it q))" if "run_inv start n q" "b q" for q
    using run_step [OF that(1) that(2) [unfolded bI] assms(4), of B] elapsed_iteration [of "snd q" start n B] that assms(4)
    by (simp add: itI bI run_inv_def elapsed_def word_less_nat_alt)
  have b0: "b (False, s)" using assms(2,3) by (simp add: bI start_def word_neq_0_conv)
  have run': "while_option b it (it (False, s)) = Some p"
    using run b0 by (subst (asm) while_option_unfold) simp
  have "run_inv start n p \<and> 1 \<le> elapsed start (snd p)"
  proof (rule while_option_rule [OF _ run'])
    show "run_inv start n (it (False, s)) \<and> 1 \<le> elapsed start (snd (it (False, s)))" using step [OF inv b0] by simp
  next
    fix q assume "run_inv start n q \<and> 1 \<le> elapsed start (snd q)" "b q"
    then show "run_inv start n (it q) \<and> 1 \<le> elapsed start (snd (it q))" using step [of q] by linarith
  qed
  then show ?thesis by (simp add: start_def)
qed

lemma w65_run_progress:
  assumes "cpu_ok s" "n \<noteq> 0" "unat n + 9 < 2 ^ 64"
  shows "\<exists>used s'. w65_run B n s = Some (used, s') \<and> cpu_ok s' \<and> 0 < unat used \<and> unat used < unat n + 9"
proof -
  define s0 where "s0 = rebuildPending (s\<lparr>m_RunBreak := False\<rparr>)"
  have s0: "m_Cycles s0 = m_Cycles s" "\<not> m_RunBreak s0" by (simp_all add: s0_def rebuildPending_def)
  have "width_view s0 = width_view s" by (simp add: s0_def rebuildPending_def width_view_def)
  then have ok: "cpu_ok s0" using assms(1) cpu_ok_cong by blast
  then have "run_inv (m_Cycles s) n (False, s0)" by (simp add: run_inv_def elapsed_def s0)
  from run_loop_returns [OF this assms(3), of B] obtain p where
    p: "run_loop B (m_Cycles s) n s0 = Some p" "run_inv (m_Cycles s) n p" by blast
  have "1 \<le> elapsed (m_Cycles s) (snd p)"
    using run_loop_progress [OF ok s0(2) assms(2,3)] p(1) unfolding s0(1) by blast
  then show ?thesis using p by (auto simp: w65_run_def s0_def run_inv_def elapsed_def case_prod_beta)
qed

interpretation w65_cpu: scheduled_cpu "w65_icpu B" cpu_ok
proof
  show "cpu_ok c \<Longrightarrow> cpu_ok (ic_with (w65_icpu B) y c)" for c y
    using cpu_ok_cong [of "c\<lparr>w_bus := y\<rparr>" c] by (simp add: w65_icpu_def width_view_def)
qed (simp_all add: w65_icpu_def w65_run_progress)

text \<open>So is the 6502, from any state.\<close>

interpretation m6502_cpu: scheduled_cpu "m6502_icpu B" "\<lambda>_. True"
  by unfold_locales (use run_6502_loop in \<open>fastforce simp: m6502_icpu_def\<close>)+

section \<open>The ticks of a frame\<close>

lemma per_cycle: "hz \<in> {SCPU_TURBO_HZ, SCPU_NORMAL_HZ} \<Longrightarrow> ticks_per_cycle y hz \<in> {1, 20}"
  by (auto simp: ticks_per_cycle_def SCPU_TURBO_HZ_def SCPU_NORMAL_HZ_def)

lemma clock_rates: "currentClockHz R \<in> {SCPU_TURBO_HZ, SCPU_NORMAL_HZ}"
  by (simp add: currentClockHz_def)

lemma frame_ticks_values [simp]:
  "frame_ticks VIDEO_PAL = 393120" "frame_ticks VIDEO_NTSC_R8 = 341900" "frame_ticks VIDEO_NTSC_R56A = 335360"
  by (simp_all add: frame_ticks_def SCPU_TURBO_HZ_def SCPU_NORMAL_HZ_def)

lemma frame_ticks_range: "335360 \<le> frame_ticks v" "frame_ticks v \<le> 393120"
  by (cases v; simp)+

lemma scrub_debt [simp]: "ss_FrameTickDebt (fst (updateDisplayScrubPhase B b (s, y))) = ss_FrameTickDebt s"
  by (simp add: updateDisplayScrubPhase_def Let_def case_prod_beta)

lemma diagnostic_debt [simp]: "ss_FrameTickDebt (updateResyncDiagnostic saw v y s) = ss_FrameTickDebt s"
  by (simp add: updateResyncDiagnostic_def Let_def)

lemma repair_debt [simp]: "ss_FrameTickDebt (fst (runResyncDiagnosticRepair B (s, y))) = ss_FrameTickDebt s"
  by (simp add: runResyncDiagnosticRepair_def Let_def case_prod_beta)

text \<open>\<open>spent e t\<close>: \<open>t\<close> ticks were charged for \<open>e\<close> processor cycles, each at 20 MHz or at 1 MHz.\<close>

definition spent :: "nat \<Rightarrow> nat \<Rightarrow> bool" where "spent e t \<longleftrightarrow> e \<le> t \<and> t \<le> 20 * e"

lemma spent_add: "spent e t \<Longrightarrow> p \<in> {1, 20} \<Longrightarrow> spent (e + u) (t + u * p)"
  by (auto simp: spent_def)

lemma spent_zero [simp]: "spent 0 0" by (simp add: spent_def)

text \<open>A budget in cycles covers the ticks left, and with the overshoot stays within 180 ticks.\<close>

lemma budget_ceiling:
  assumes "p \<in> {1, 20 :: nat}" "0 < left" "128 \<le> T" "T < 2 ^ 32" "left \<le> T"
  defines "n \<equiv> min ((left + p - 1) div p) ((T div 128 + p - 1) div p)"
  shows "0 < n" "n < 2 ^ 32" "u < n + 9 \<Longrightarrow> u * p < left + 180"
proof -
  have "1 \<le> T div 128" using assms(3) by (simp add: Suc_le_eq div_greater_zero_iff)
  then show "0 < n" using assms(1,2) by (auto simp: n_def div_greater_zero_iff)
  have "n \<le> left" using assms(1) by (auto simp: n_def min_le_iff_disj)
  then show "n < 2 ^ 32" using assms(4,5) by linarith
  assume u: "u < n + 9"
  have "n * p < left + p" using assms(1) by (auto simp: n_def min_def)
  moreover have "u * p \<le> (n + 8) * p" using u by (intro mult_right_mono) simp_all
  ultimately show "u * p < left + 180" using assms(1) by (auto simp: algebra_simps)
qed

context scheduled_cpu
begin

text \<open>One slice returns, makes progress, and overshoots the frame by less than 180 ticks.\<close>

lemma slice_runs:
  assumes "ok (fr_cpu f)" "fr_ticksUsed f < T" "128 \<le> T" "T < 2 ^ 32"
  obtains f' u p where "frame_slice K B T d t f = Some f'" "ok (fr_cpu f')" "p \<in> {1, 20}" "0 < u"
    "fr_ticksUsed f' = fr_ticksUsed f + u * p" "fr_executed f' = fr_executed f + u" "fr_ticksUsed f' < T + 180"
    "ss_FrameTickDebt (fr_sched f') = ss_FrameTickDebt (fr_sched f)"
proof -
  define y0 where "y0 = ic_machine K (fr_cpu f)"
  obtain s y1 where u: "updateDisplayScrubPhase B (bitmap_base y0 < 0x10000) (fr_sched f, y0) = (s, y1)" by fastforce
  define y where "y = apply_speed B (currentClockHz (ma_R y1)) y1"
  define p where "p = ticks_per_cycle y (currentClockHz (ma_R y1))"
  have p: "p \<in> {1, 20}" unfolding p_def by (rule per_cycle [OF clock_rates])
  define n where "n = min ((T - fr_ticksUsed f + p - 1) div p) ((T div 128 + p - 1) div p)"
  have left: "0 < T - fr_ticksUsed f" "T - fr_ticksUsed f \<le> T" using assms(2) by simp_all
  note N = budget_ceiling [OF p left(1) assms(3,4) left(2), folded n_def]
  have un: "unat (of_nat n :: u64) = n" using N(2) by (simp add: unat_of_nat)
  have n0: "(of_nat n :: u64) \<noteq> 0" using N(1) un by (metis less_irrefl unsigned_0)
  obtain used c where r: "ic_run K (of_nat n) (ic_with K y (fr_cpu f)) = Some (used, c)" "ok c" "0 < unat used" "unat used < n + 9"
    using run_ok [OF with_ok [OF assms(1), of y] n0] N(2) unfolding un by auto
  have debt: "ss_FrameTickDebt s = ss_FrameTickDebt (fr_sched f)"
    using scrub_debt [of B "bitmap_base y0 < 0x10000" "fr_sched f" y0] u by simp
  have run: "\<exists>f'. frame_slice K B T d t f = Some f' \<and> ok (fr_cpu f') \<and> fr_ticksUsed f' = fr_ticksUsed f + unat used * p
      \<and> fr_executed f' = fr_executed f + unat used \<and> fr_sched f' = s"
    unfolding frame_slice_def Let_def y0_def [symmetric] u prod.case
    unfolding y_def [symmetric] unfolding p_def [symmetric] unfolding n_def [symmetric] r(1) option.case prod.case
    using r(2) by (simp add: with_ok)
  have "fr_ticksUsed f + unat used * p < T + 180" using N(3) [OF r(4)] assms(2) by linarith
  then show thesis using run debt p r(3) that by metis
qed

lemma slices_run:
  "ok (fr_cpu f) \<Longrightarrow> r \<le> fr_ticksUsed f \<Longrightarrow> fr_ticksUsed f < T + 180 \<Longrightarrow> spent (fr_executed f) (fr_ticksUsed f - r)
    \<Longrightarrow> 128 \<le> T \<Longrightarrow> T < 2 ^ 32
    \<Longrightarrow> \<exists>f'. frame_slices K B T d t f = Some f' \<and> ok (fr_cpu f') \<and> T \<le> fr_ticksUsed f' \<and> fr_ticksUsed f' < T + 180
          \<and> r \<le> fr_ticksUsed f' \<and> spent (fr_executed f') (fr_ticksUsed f' - r)
          \<and> ss_FrameTickDebt (fr_sched f') = ss_FrameTickDebt (fr_sched f)"
proof (induction "T - fr_ticksUsed f" arbitrary: f rule: less_induct)
  case less
  show ?case
  proof (cases "fr_ticksUsed f < T")
    case False
    then show ?thesis using less.prems by (subst frame_slices.simps) auto
  next
    case True
    obtain f' u p where s: "frame_slice K B T d t f = Some f'" "ok (fr_cpu f')" "p \<in> {1, 20}" "0 < u"
      "fr_ticksUsed f' = fr_ticksUsed f + u * p" "fr_executed f' = fr_executed f + u" "fr_ticksUsed f' < T + 180"
      "ss_FrameTickDebt (fr_sched f') = ss_FrameTickDebt (fr_sched f)"
      by (rule slice_runs [OF less.prems(1) True less.prems(5,6)]) (rule that)
    have "0 < u * p" using s(3,4) by auto
    then have smaller: "T - fr_ticksUsed f' < T - fr_ticksUsed f" and more: "r \<le> fr_ticksUsed f'"
      using s(5) True less.prems(2) by linarith+
    have "fr_ticksUsed f' - r = (fr_ticksUsed f - r) + u * p" using s(5) less.prems(2) by simp
    then have "spent (fr_executed f') (fr_ticksUsed f' - r)"
      using spent_add [OF less.prems(4) s(3), of u] s(6) by simp
    from less.hyps [OF smaller s(2) more s(7) this less.prems(5,6)] s(1,8) True show ?thesis
      by (subst frame_slices.simps) simp
  qed
qed

text \<open>Running on to the border: fewer ticks than a frame, all of them owed to the next one.\<close>

lemma approach_runs:
  fixes B :: "'h ic64_bus"
  assumes "ok (fr_cpu f)"
  defines "v \<equiv> sig_video (signals B (ic_machine K (fr_cpu f)))"
  shows "\<exists>f' u x. approach K B line f = Some f' \<and> ok (fr_cpu f') \<and> spent u x \<and> x < frame_ticks v
     \<and> fr_executed f' = fr_executed f + u \<and> ss_FrameTickDebt (fr_sched f') = ss_FrameTickDebt (fr_sched f) + x"
proof (cases "unat line < c64RasterLines v \<and> \<not> c64RasterIsSafeForBulkTransfer v line")
  case False
  then have "approach K B line f = Some f" by (simp only: approach_def v_def [symmetric] Let_def if_False)
  moreover have "spent 0 0 \<and> 0 < frame_ticks v" using frame_ticks_range(1) [of v] by simp
  ultimately show ?thesis using assms(1) by (metis add_0_right)
next
  case True
  define y where "y = ic_machine K (fr_cpu f)"
  define togo where "togo = unat (c64DisplayLastLine v) + 1 - unat line"
  define ticks where "ticks = togo * c64CyclesPerLine v * 20"
  define p where "p = ticks_per_cycle y (currentClockHz (ma_R y))"
  have p: "p \<in> {1, 20}" unfolding p_def by (rule per_cycle [OF clock_rates])
  have line: "c64DisplayFirstLine v \<le> line" "line \<le> c64DisplayLastLine v"
    using True by (auto simp: c64RasterIsSafeForBulkTransfer_def not_less)
  have per: "60 \<le> c64CyclesPerLine v" "200 * c64CyclesPerLine v * 20 + 160 < frame_ticks v" by (cases v; simp)+
  have "0 < togo" using line(2) by (simp add: togo_def word_le_nat_alt)
  then have a: "60 \<le> togo * c64CyclesPerLine v" using mult_le_mono [of 1 togo 60 "c64CyclesPerLine v"] per(1) by simp
  have "togo \<le> 200"
    using line(1) by (cases v; simp add: togo_def c64DisplayFirstLine_def c64DisplayLastLine_def word_le_nat_alt)
  then have b: "togo * c64CyclesPerLine v \<le> 200 * c64CyclesPerLine v" by (rule mult_le_mono1)
  have ticks: "1200 \<le> ticks" "ticks + 160 < frame_ticks v" using a b per(2) unfolding ticks_def by linarith+
  have turbo: "unat SCPU_TURBO_HZ div unat SCPU_NORMAL_HZ = 20" by (simp add: SCPU_TURBO_HZ_def SCPU_NORMAL_HZ_def)
  define n where "n = ticks div p"
  have n: "0 < n" "n * p \<le> ticks" "n \<le> ticks" using ticks(1) p by (auto simp: n_def)
  have small: "n < 2 ^ 32" using n(3) ticks(2) frame_ticks_range(2) [of v] by simp
  have un: "unat (of_nat n :: u64) = n" using small by (simp add: unat_of_nat)
  have n0: "(of_nat n :: u64) \<noteq> 0" using n(1) un by (metis less_irrefl unsigned_0)
  obtain used c where r: "ic_run K (of_nat n) (fr_cpu f) = Some (used, c)" "ok c" "unat used < n + 9"
    using run_ok [OF assms(1) n0] small unfolding un by auto
  have "unat used * p \<le> (n + 8) * p" using r(3) by (intro mult_right_mono) simp_all
  then have x: "unat used * p < frame_ticks v" using n(2) ticks(2) p by (auto simp: algebra_simps)
  have "approach K B line f = Some (f\<lparr>fr_executed := fr_executed f + unat used, fr_cpu := c,
      fr_sched := (fr_sched f)\<lparr>ss_FrameTickDebt := ss_FrameTickDebt (fr_sched f) + unat used * p\<rparr>\<rparr>)"
    using True unfolding approach_def Let_def unfolding v_def [symmetric] unfolding y_def [symmetric]
    unfolding p_def [symmetric] togo_def [symmetric] turbo unfolding ticks_def [symmetric] unfolding n_def [symmetric] r(1)
    by simp
  moreover have "spent (unat used) (unat used * p)" using spent_add [OF spent_zero p] by simp
  ultimately show ?thesis using r(2) x by (intro exI conjI) auto
qed

end

context scheduled_cpu
begin

lemma border_runs:
  assumes "ok (fr_cpu f)" "\<And>h. sig_video (cb_signals B h) = v"
  shows "\<exists>f' u x. border_drain K B d t f = Some f' \<and> ok (fr_cpu f') \<and> spent u x \<and> x < frame_ticks v
     \<and> fr_executed f' = fr_executed f + u \<and> ss_FrameTickDebt (fr_sched f') = ss_FrameTickDebt (fr_sched f) + x"
proof -
  define y where "y = ic_machine K (fr_cpu f)"
  show ?thesis
  proof (cases "\<not> ss_MirrorHalted (fr_sched f) \<and> \<not> buffer_empty y \<and> \<not> iec_busy y")
    case False
    then have "border_drain K B d t f = Some f" by (simp only: border_drain_def y_def [symmetric] Let_def if_False)
    moreover have "spent 0 0 \<and> 0 < frame_ticks v" using frame_ticks_range(1) [of v] by simp
    ultimately show ?thesis using assms(1) by (metis add_0_right)
  next
    case True
    obtain line y1 where l: "raster_line B y = (line, y1)" by fastforce
    have sv: "sig_video (signals B m) = v" for m using assms(2) by (simp add: signals_def)
    obtain f1 u x where a: "approach K B line (f\<lparr>fr_cpu := ic_with K y1 (fr_cpu f)\<rparr>) = Some f1" "ok (fr_cpu f1)" "spent u x"
      "x < frame_ticks v" "fr_executed f1 = fr_executed f + u"
      "ss_FrameTickDebt (fr_sched f1) = ss_FrameTickDebt (fr_sched f) + x"
      using approach_runs [of "f\<lparr>fr_cpu := ic_with K y1 (fr_cpu f)\<rparr>" B line] with_ok [OF assms(1)] unfolding sv by auto
    have "\<exists>f'. border_drain K B d t f = Some f' \<and> ok (fr_cpu f') \<and> fr_executed f' = fr_executed f1 \<and> fr_sched f' = fr_sched f1"
      using True unfolding border_drain_def Let_def y_def [symmetric] l prod.case a(1) option.case
      by (simp add: with_ok [OF a(2)] a(2))
    then show ?thesis using a(3-6) by metis
  qed
qed

text \<open>A frame: it returns, and the ticks it spends and the ticks owed before and after balance one frame of the C64.\<close>

lemma frame_runs:
  assumes "ss_Wired s" "ok c" "\<And>h. sig_video (cb_signals B h) = v" "ss_FrameTickDebt s < frame_ticks v"
  shows "\<exists>executed s' c' E. runFrame K B (s, c) = Some (executed, s', c') \<and> ok c' \<and> spent executed E
     \<and> frame_ticks v + ss_FrameTickDebt s' \<le> E + ss_FrameTickDebt s
     \<and> E + ss_FrameTickDebt s < frame_ticks v + ss_FrameTickDebt s' + 180 \<and> ss_FrameTickDebt s' < frame_ticks v"
proof -
  have sv: "sig_video (signals B m) = v" for m using assms(3) by (simp add: signals_def)
  define y where "y = ic_machine K c"
  define T where "T = frame_ticks v"
  have T: "128 \<le> T" "T < 2 ^ 32" using frame_ticks_range [of v] by (simp_all add: T_def)
  define r where "r = ss_FrameTickDebt s"
  have rT: "r < T" "min (ss_FrameTickDebt s) T = r" "ss_FrameTickDebt s - r = 0" using assms(4) by (simp_all add: r_def T_def)
  define d where "d = (ss_MirrorDisplayBudget s + 15) div 16"
  define t where "t = (if d \<noteq> 0 then d else 64)"
  define f where "f = \<lparr> fr_ticksUsed = r, fr_executed = 0, fr_sawIEC = iec_busy y,
                        fr_sched = s\<lparr>ss_FrameTickDebt := 0\<rparr>, fr_cpu = c \<rparr>"
  obtain f1 where f1: "frame_slices K B T d t f = Some f1" "ok (fr_cpu f1)" "T \<le> fr_ticksUsed f1" "fr_ticksUsed f1 < T + 180"
    "spent (fr_executed f1) (fr_ticksUsed f1 - r)" "ss_FrameTickDebt (fr_sched f1) = 0"
    using slices_run [of f r T B d t] assms(2) rT(1) T by (auto simp: f_def)
  define f2 where "f2 = f1\<lparr>fr_sched := updateResyncDiagnostic (fr_sawIEC f1) (sig_video (signals B (ic_machine K (fr_cpu f1))))
    (ic_machine K (fr_cpu f1)) (fr_sched f1)\<rparr>"
  have f2: "ok (fr_cpu f2)" "fr_executed f2 = fr_executed f1" "ss_FrameTickDebt (fr_sched f2) = 0"
    using f1(2,6) by (simp_all add: f2_def)
  obtain f3 u x where f3: "border_drain K B d t f2 = Some f3" "ok (fr_cpu f3)" "spent u x" "x < T"
    "fr_executed f3 = fr_executed f2 + u" "ss_FrameTickDebt (fr_sched f3) = ss_FrameTickDebt (fr_sched f2) + x"
    using border_runs [OF f2(1) assms(3), of d t] unfolding T_def by blast
  obtain s' y' where q: "runResyncDiagnosticRepair B (fr_sched f3, ic_machine K (fr_cpu f3)) = (s', y')" by fastforce
  have s': "ss_FrameTickDebt s' = x"
    using repair_debt [of B "fr_sched f3" "ic_machine K (fr_cpu f3)"] q f3(6) f2(3) by simp
  have run: "runFrame K B (s, c) = Some (fr_executed f3, s', ic_with K (pair_raster B y') (fr_cpu f3))"
  proof -
    have sl: "frame_slices K B (frame_ticks (sig_video (signals B (ic_machine K c)))) ((ss_MirrorDisplayBudget s + 15) div 16)
        (if (ss_MirrorDisplayBudget s + 15) div 16 \<noteq> 0 then (ss_MirrorDisplayBudget s + 15) div 16 else 64)
        \<lparr> fr_ticksUsed = min (ss_FrameTickDebt s) (frame_ticks (sig_video (signals B (ic_machine K c)))), fr_executed = 0,
          fr_sawIEC = iec_busy (ic_machine K c),
          fr_sched = s\<lparr>ss_FrameTickDebt := ss_FrameTickDebt s - min (ss_FrameTickDebt s) (frame_ticks (sig_video (signals B (ic_machine K c))))\<rparr>,
          fr_cpu = c \<rparr> = Some f1"
      using f1(1) unfolding sv T_def [symmetric] rT d_def t_def f_def y_def .
    show ?thesis using assms(1)
      unfolding runFrame_def Let_def prod.case sl option.case f2_def [symmetric] f3(1) [unfolded d_def t_def] q
      by simp
  qed
  have "spent (fr_executed f3) (fr_ticksUsed f1 - r + x)" using f1(5) f3(3,5) f2(2) by (simp add: spent_def)
  moreover have "r \<le> fr_ticksUsed f1" using f1(3) rT(1) by simp
  ultimately have "spent (fr_executed f3) (fr_ticksUsed f1 - r + x) \<and> T + ss_FrameTickDebt s' \<le> (fr_ticksUsed f1 - r + x) + ss_FrameTickDebt s
     \<and> (fr_ticksUsed f1 - r + x) + ss_FrameTickDebt s < T + ss_FrameTickDebt s' + 180 \<and> ss_FrameTickDebt s' < T"
    using f1(3,4) f3(4) s' unfolding r_def [symmetric] by simp
  then show ?thesis using run with_ok [OF f3(2)] unfolding T_def by blast
qed

end

section \<open>Handing the picture back\<close>

text \<open>The policy of a buffer, and a buffer whose pending set is what the policy admits of a set of addresses.\<close>

definition policy_view :: "wb \<Rightarrow> SCPUOptMode \<times> bool \<times> bool \<times> u16 \<times> u16" where
  "policy_view w = (wb_Mode w, wb_ExcludeZPStack w, wb_RAMUnderIOAccessible w, wb_RangeLo w, wb_RangeHi w)"

lemma policy_shouldMirror: "policy_view w' = policy_view w \<Longrightarrow> shouldMirror w' a = shouldMirror w a"
  by (simp add: policy_view_def shouldMirror_def policy_refuses_def io_window_def)

definition requeued :: "(u16 \<Rightarrow> u8) \<Rightarrow> wb \<Rightarrow> u16 set \<Rightarrow> wb \<Rightarrow> bool" where
  "requeued ram w0 S w \<longleftrightarrow>
     wb_inv w \<and> wb_DeliveryEnabled w \<and> policy_view w = policy_view w0 \<and> (\<forall>b. \<not> bitmap_get (wb_Synced w) b)
     \<and> (\<forall>b. isDirty w b \<longleftrightarrow> b \<in> S \<and> shouldMirror w0 b) \<and> (\<forall>b. isDirty w b \<longrightarrow> wb_PendingValue w b = ram b)"

lemma enqueue_policy: "policy_view (enqueue a v w) = policy_view w" "wb_DeliveryEnabled (enqueue a v w) = wb_DeliveryEnabled w"
proof -
  have m: "wb_ExcludeZPStack (moveDirtyToTail a w) = wb_ExcludeZPStack w" "wb_RAMUnderIOAccessible (moveDirtyToTail a w) = wb_RAMUnderIOAccessible w"
    "wb_RangeLo (moveDirtyToTail a w) = wb_RangeLo w" "wb_RangeHi (moveDirtyToTail a w) = wb_RangeHi w" "wb_Mode (moveDirtyToTail a w) = wb_Mode w"
    "wb_DeliveryEnabled (moveDirtyToTail a w) = wb_DeliveryEnabled w" for w
    by (subst move_frame, simp)+
  show "policy_view (enqueue a v w) = policy_view w" "wb_DeliveryEnabled (enqueue a v w) = wb_DeliveryEnabled w"
    by (simp_all add: policy_view_def enqueue_def Let_def setDirty_def m)
qed

lemma requeued_write:
  assumes r: "requeued ram w0 S w" and E: "\<not> relocating E"
  shows "requeued ram w0 (insert a S) (snd (onRamWrite E a (ram a) w))"
proof -
  have R: "wb_inv w" "wb_DeliveryEnabled w" "policy_view w = policy_view w0" "\<And>b. \<not> bitmap_get (wb_Synced w) b"
    "\<And>b. isDirty w b = (b \<in> S \<and> shouldMirror w0 b)" "\<And>b. isDirty w b \<Longrightarrow> wb_PendingValue w b = ram b"
    using r unfolding requeued_def by blast+
  have pol: "shouldMirror w a = shouldMirror w0 a" by (rule policy_shouldMirror [OF R(3)])
  have run: "onRamWrite E a (ram a) w = mirror_write E a (ram a) w" using R(2) E by (simp add: onRamWrite_def relocate_write_def)
  have fresh: "\<not> eliminates E w a (ram a)" using R(4) by (simp add: eliminates_def split: option.split)
  show ?thesis
  proof (cases "shouldMirror w0 a")
    case True
    then have e: "snd (onRamWrite E a (ram a) w) = enqueue a (ram a) w" using fresh pol by (simp add: run mirror_write_def)
    note Q = enqueue_spec [OF R(1), of a "ram a"]
    have "isDirty (enqueue a (ram a) w) b = (b \<in> insert a S \<and> shouldMirror w0 b)" for b using Q R(5) True by auto
    moreover have "wb_PendingValue (enqueue a (ram a) w) b = ram b" if "isDirty (enqueue a (ram a) w) b" for b
      using Q R(6) that by auto
    ultimately show ?thesis unfolding e requeued_def enqueue_policy using Q R(2-4) by simp
  next
    case False
    define w1 where "w1 = snd (mirror_write E a (ram a) w)"
    have c: "countSuppressed a w = w \<or> (\<exists>s. countSuppressed a w = w\<lparr>wb_Stats := s\<rparr>)" by (auto simp: countSuppressed_def)
    have "wb_inv w1 \<and> wb_DeliveryEnabled w1 = wb_DeliveryEnabled w \<and> policy_view w1 = policy_view w
      \<and> wb_Synced w1 = bitmap_clear a (wb_Synced w) \<and> wb_Dirty w1 = wb_Dirty w \<and> wb_PendingValue w1 = wb_PendingValue w"
      using c R(1) False pol by (elim disjE exE) (simp_all add: w1_def mirror_write_def unsync_def policy_view_def)
    then show ?thesis
      unfolding run w1_def [symmetric] requeued_def using R False by (simp add: isDirty_def) blast
  qed
qed

text \<open>The addresses of a block, wrapping at 64 KB as the 16-bit parameter of \<open>invalidateRange\<close> does.\<close>

definition block :: "u32 \<Rightarrow> nat \<Rightarrow> u16 set" where
  "block base len = (if base < 0x10000 then (\<lambda>i. ucast base + of_nat i) ` {..<len} else {})"

lemma requeued_invalidate:
  "requeued ram w0 S w \<Longrightarrow> \<not> relocating E \<Longrightarrow> we_RAM E = Some ram
    \<Longrightarrow> requeued ram w0 ((\<lambda>i. a + of_nat i) ` {..<k} \<union> S) (invalidate_from E a k w)"
proof (induction k arbitrary: a w S)
  case (Suc k)
  have "(\<lambda>i. a + of_nat i) ` {..<Suc k} = insert a ((\<lambda>i. a + 1 + of_nat i) ` {..<k})"
    unfolding lessThan_Suc_eq_insert_0 image_insert image_image by (simp add: algebra_simps)
  then show ?case
    using Suc.IH [OF requeued_write [OF Suc.prems(1,2), of a] Suc.prems(2,3), of "a + 1"] Suc.prems(3) by simp
qed simp

text \<open>The visible working set: matrix, bitmap or character set, and the shapes of the enabled sprites.\<close>

definition shape_of :: "'h machine \<Rightarrow> nat \<Rightarrow> u16 set" where
  "shape_of y n =
     (let M = ma_M y
      in if bit (vicRegister (c_D M) 0x15) n
         then block (activeVICBankBase (c_P M) + ucast (c_RAM M (ucast (activeVICScreenBase (c_P M) (c_D M) + 0x3F8 + of_nat n))) * 64) 64
         else {})"

definition picture :: "'h machine \<Rightarrow> u16 set" where
  "picture y =
     block (screen_base y) 1024
     \<union> (if bitmap_base y < 0x10000 then block (bitmap_base y) 8192 else block (charset_base y) 2048)
     \<union> (\<Union>n < 8. shape_of y n)"

text \<open>\<open>same_memory\<close>: what \<open>requeue\<close> leaves alone.\<close>

definition queued_picture :: "'h machine \<Rightarrow> wb \<Rightarrow> u16 set \<Rightarrow> 'h machine \<Rightarrow> bool" where
  "queued_picture y0 w0 S y \<longleftrightarrow>
     c_RAM (ma_M y) = c_RAM (ma_M y0) \<and> c_D (ma_M y) = c_D (ma_M y0) \<and> c_P (ma_M y) = c_P (ma_M y0)
     \<and> (\<exists>w. buffer y = Some w \<and> requeued (c_RAM (ma_M y0)) w0 S w)"

lemma bases_cong:
  "c_D (ma_M y) = c_D (ma_M y') \<Longrightarrow> c_P (ma_M y) = c_P (ma_M y') \<Longrightarrow>
     screen_base y = screen_base y' \<and> bitmap_base y = bitmap_base y' \<and> charset_base y = charset_base y'"
  by (simp add: screen_base_def bitmap_base_def charset_base_def)

lemma requeue_queues:
  assumes "queued_picture y0 w0 S y" "\<not> relocating (mem_env (ma_M y0))" "n = unat len"
  shows "queued_picture y0 w0 (block base n \<union> S) (requeue base len y)"
proof (cases "base < 0x10000")
  case True
  obtain w where w: "buffer y = Some w" "requeued (c_RAM (ma_M y0)) w0 S w" using assms(1) by (auto simp: queued_picture_def)
  have E: "\<not> relocating (mem_env (ma_M y))" "we_RAM (mem_env (ma_M y)) = Some (c_RAM (ma_M y0))"
    using assms(1,2) by (simp_all add: relocating_def mem_env_def queued_picture_def)
  show ?thesis
    using assms(1,3) True w(1) requeued_invalidate [OF w(2) E, of "ucast base" n]
    by (simp add: queued_picture_def requeue_def on_buffer_def buffer_def invalidateRange_def block_def)
next
  case False then show ?thesis using assms(1) by (simp add: requeue_def block_def)
qed

lemma requeue_sprite_queues:
  assumes "queued_picture y0 w0 S y" "\<not> relocating (mem_env (ma_M y0))"
  shows "queued_picture y0 w0 (shape_of y0 n \<union> S) (requeue_sprite n y)"
proof -
  have m: "c_RAM (ma_M y) = c_RAM (ma_M y0)" "c_D (ma_M y) = c_D (ma_M y0)" "c_P (ma_M y) = c_P (ma_M y0)"
    using assms(1) by (simp_all add: queued_picture_def)
  show ?thesis
    using assms(1) requeue_queues [OF assms, of 64 64] by (simp add: requeue_sprite_def shape_of_def Let_def m)
qed

lemma sprites_queue:
  "queued_picture y0 w0 S y \<Longrightarrow> \<not> relocating (mem_env (ma_M y0))
    \<Longrightarrow> queued_picture y0 w0 (S \<union> (\<Union>n \<in> set ns. shape_of y0 n)) (fold requeue_sprite ns y)"
proof (induction ns arbitrary: S y)
  case (Cons n ns)
  from Cons.IH [OF requeue_sprite_queues [OF Cons.prems] Cons.prems(2)] show ?case by (simp add: Un_ac)
qed simp

lemma display_queues:
  assumes "queued_picture y0 w0 {} y" "\<not> relocating (mem_env (ma_M y0))"
  shows "queued_picture y0 w0 (picture y0) (requeue_display y)"
proof -
  define y1 where "y1 = requeue (screen_base y) 1024 y"
  define y2 where "y2 = (if bitmap_base y1 < 0x10000 then requeue (bitmap_base y1) 8192 y1 else requeue (charset_base y1) 2048 y1)"
  have b: "screen_base y = screen_base y0" using assms(1) bases_cong [of y y0] by (simp add: queued_picture_def)
  have q1: "queued_picture y0 w0 (block (screen_base y0) 1024) y1"
    unfolding y1_def b using requeue_queues [OF assms, of 1024 1024] by simp
  have b1: "bitmap_base y1 = bitmap_base y0" "charset_base y1 = charset_base y0"
    using q1 bases_cong [of y1 y0] by (simp_all add: queued_picture_def)
  have q2: "queued_picture y0 w0 ((if bitmap_base y0 < 0x10000 then block (bitmap_base y0) 8192 else block (charset_base y0) 2048)
      \<union> block (screen_base y0) 1024) y2"
    using requeue_queues [OF q1 assms(2), of 8192 8192] requeue_queues [OF q1 assms(2), of 2048 2048] by (simp add: y2_def b1)
  have "requeue_display y = fold requeue_sprite [0..<8] y2"
    by (simp only: requeue_display_def Let_def y1_def y2_def)
  then show ?thesis using sprites_queue [OF q2 assms(2), of "[0..<8]"]
    by (simp add: picture_def Un_ac atLeast0LessThan)
qed

section \<open>The properties\<close>

text \<open>C34. One drain of the mirror at a scheduler opportunity is rationed and safe: from any consistent buffer on a live
  bus it returns with the buffer consistent, at most the two allowances left the queue, nothing was added, and what was
  not sent is still queued; and while the raster stays inside the picture only the display ration is sent, and no byte
  of the screen matrix, of the bitmap or of a shape block in use.\<close>

theorem drain_is_rationed:
  assumes "buffer y = Some w" "wb_inv w" "wb_Bus w"
  shows "\<exists>w'. buffer (flushMirrorsRasterAware B display transfer screen y) = Some w'
    \<and> sent_by (\<lambda>_. True) (transfer + screen) w w'
    \<and> ((\<forall>h. \<not> c64RasterIsSafeForBulkTransfer (sig_video (signals B y)) (fst (cb_rasterLine B h)))
       \<longrightarrow> sent_by (cold (mem_env (ma_M y)) (screen_base y) (bitmap_base y)) (min display transfer) w w')"
proof -
  obtain w' h' where d: "drain_loop B (mem_env (ma_M y)) (sig_video (signals B y)) (vd_RegShadow (c_D (ma_M y)))
      (screen_base y) (bitmap_base y) display transfer screen (w, ma_h y) = (w', h')" by fastforce
  have "buffer (flushMirrorsRasterAware B display transfer screen y) = Some w'"
    using assms(1) d by (simp add: flushMirrorsRasterAware_def on_buffer_def buffer_def)
  then show ?thesis using drain_sent [OF assms(2,3) d] drain_in_picture [OF assms(2,3) d] by blast
qed

text \<open>A queued byte of the screen matrix, and a raster that stays on line 100.\<close>

definition line_100_bus :: "nat ic64_bus" where "line_100_bus = counter_bus\<lparr>cb_rasterLine := (\<lambda>h. (100, h))\<rparr>"

lemma line_100_in_picture:
  "\<not> c64RasterIsSafeForBulkTransfer (sig_video (signals line_100_bus y)) (fst (cb_rasterLine line_100_bus h))"
  by (simp add: c64RasterIsSafeForBulkTransfer_def line_100_bus_def counter_bus_def signals_def
      c64DisplayFirstLine_def c64DisplayLastLine_def)

definition demo_machine :: "wb \<Rightarrow> nat machine \<Rightarrow> nat machine" where
  "demo_machine w y =
     y\<lparr>ma_M := (ma_M y)\<lparr>c_D := (c_D (ma_M y))\<lparr>vd_SpritePtrBase := 0x07F8, vd_RelocCount := 0\<rparr>\<rparr>,
       ma_R := (ma_R y)\<lparr>rg_WriteBuffer := Some w\<rparr>\<rparr>"

lemma demo_machine_simps:
  "buffer (demo_machine w y) = Some w" "screen_base (demo_machine w y) = 0x0400" "\<not> relocating (mem_env (ma_M (demo_machine w y)))"
  by (simp_all add: demo_machine_def buffer_def screen_base_def activeScreenBase_def relocating_def mem_env_def NO_BASE_def)

theorem drain_is_rationed_witness:
  "\<forall>y. \<exists>w'. buffer (flushMirrorsRasterAware line_100_bus 64 64 256 (demo_machine demo_queued y)) = Some w' \<and> isDirty w' 0x0400"
proof
  fix y :: "nat machine"
  have i: "wb_inv demo_queued"
    using reachable_inv [OF demo_queued_reachable [of host_c64_bus "\<lambda>_ _. 0" False host_bus_new]] by blast
  have c: "\<not> cold E 0x0400 bb 0x0400" for E bb by (simp add: cold_def addressInRange_def)
  from drain_is_rationed [OF demo_machine_simps(1) i demo_queued_simps(4), of line_100_bus 64 64 256 y] line_100_in_picture
  show "\<exists>w'. buffer (flushMirrorsRasterAware line_100_bus 64 64 256 (demo_machine demo_queued y)) = Some w' \<and> isDirty w' 0x0400"
    using c demo_queued_simps(5) [of "0x0400"] unfolding demo_machine_simps(2) sent_by_def by blast
qed

text \<open>C35. A frame of the 65816 core returns, on whatever buses it runs, and pays for itself: the 20 MHz ticks it charges
  (between one and twenty for each executed cycle), together with the ticks owed from the last frame, are one frame
  of the C64 plus the ticks then owed to the next, within 180 ticks; and less than a frame is ever owed.\<close>

theorem frame_balances:
  fixes buses :: "'h machine buses" and B :: "'h ic64_bus"
  assumes "ss_Wired s" "cpu_ok c" "\<And>h. sig_video (cb_signals B h) = v" "ss_FrameTickDebt s < frame_ticks v"
  shows "\<exists>executed s' c' ticks. runFrame (w65_icpu buses) B (s, c) = Some (executed, s', c') \<and> cpu_ok c'
    \<and> executed \<le> ticks \<and> ticks \<le> 20 * executed
    \<and> frame_ticks v + ss_FrameTickDebt s' \<le> ticks + ss_FrameTickDebt s
    \<and> ticks + ss_FrameTickDebt s < frame_ticks v + ss_FrameTickDebt s' + 180
    \<and> ss_FrameTickDebt s' < frame_ticks v"
proof -
  obtain executed s' c' E where "runFrame (w65_icpu buses) B (s, c) = Some (executed, s', c') \<and> cpu_ok c' \<and> spent executed E
     \<and> frame_ticks v + ss_FrameTickDebt s' \<le> E + ss_FrameTickDebt s
     \<and> E + ss_FrameTickDebt s < frame_ticks v + ss_FrameTickDebt s' + 180 \<and> ss_FrameTickDebt s' < frame_ticks v"
    using w65_cpu.frame_runs [OF assms] by blast
  then show ?thesis by (intro exI [of _ executed] exI [of _ s'] exI [of _ c'] exI [of _ E]) (simp add: spent_def)
qed

text \<open>The same for the 6502 core.\<close>

lemma frame_balances_6502:
  assumes "ss_Wired s" "\<And>h. sig_video (cb_signals B h) = v" "ss_FrameTickDebt s < frame_ticks v"
  shows "\<exists>executed s' c' ticks. runFrame (m6502_icpu bus) B (s, c) = Some (executed, s', c') \<and> spent executed ticks
    \<and> frame_ticks v + ss_FrameTickDebt s' \<le> ticks + ss_FrameTickDebt s
    \<and> ticks + ss_FrameTickDebt s < frame_ticks v + ss_FrameTickDebt s' + 180"
  using m6502_cpu.frame_runs [OF assms(1) TrueI assms(2,3)] by blast

text \<open>A core on a bus that reads NOP everywhere, over any machine.\<close>

definition nop_buses :: "nat machine buses" where
  "nop_buses = \<lparr> m_Bus = \<lparr> ib_read8 = (\<lambda>_ _ b. (0xEA, b)), ib_write8 = (\<lambda>_ _ b. (False, b)), ib_irqAsserted = (\<lambda>b. (False, b)),
     ib_nmiAsserted = (\<lambda>b. (False, b)), ib_tick = (\<lambda>_ b. (False, b)) \<rparr>, m_FastBus = None \<rparr>"

theorem frame_balances_witness:
  "\<forall>y. \<exists>executed s' c'. runFrame (w65_icpu nop_buses) counter_bus (scheduler_new\<lparr>ss_Wired := True\<rparr>, w65_new y) = Some (executed, s', c')
     \<and> 19656 \<le> executed \<and> ss_FrameTickDebt s' < 393120"
proof
  fix y :: "nat machine"
  have v: "sig_video (cb_signals counter_bus h) = VIDEO_PAL" for h by (simp add: counter_bus_def)
  have s: "ss_Wired (scheduler_new\<lparr>ss_Wired := True\<rparr>)" "ss_FrameTickDebt (scheduler_new\<lparr>ss_Wired := True\<rparr>) < frame_ticks VIDEO_PAL"
    "ss_FrameTickDebt (scheduler_new\<lparr>ss_Wired := True\<rparr>) = 0"
    by (simp_all add: scheduler_new_def)
  from frame_balances [OF s(1) w65_new_ok v s(2), of nop_buses y] obtain executed s' c' ticks where
    r: "runFrame (w65_icpu nop_buses) counter_bus (scheduler_new\<lparr>ss_Wired := True\<rparr>, w65_new y) = Some (executed, s', c')"
    "ticks \<le> 20 * executed" "393120 + ss_FrameTickDebt s' \<le> ticks" "ss_FrameTickDebt s' < 393120"
    unfolding s(3) by auto
  then have "19656 \<le> executed" by linarith
  then show "\<exists>executed s' c'. runFrame (w65_icpu nop_buses) counter_bus (scheduler_new\<lparr>ss_Wired := True\<rparr>, w65_new y)
      = Some (executed, s', c') \<and> 19656 \<le> executed \<and> ss_FrameTickDebt s' < 393120" using r by blast
qed

text \<open>C36. The fetch span that keeps bursts away from sprites ignores vertical expansion: on the lower half of a
  Y-expanded sprite, where the VIC still fetches and shows it, the drain authorises a burst inside the picture.\<close>

theorem expanded_sprite_span_missed:
  assumes vic: "\<And>m. bit (vr_vic st 0x15) m \<longleftrightarrow> m = n" "bit (vr_vic st 0x17) n" and n: "n < 8" and k: "21 \<le> k" "k < 42"
    and line: "unat line = unat (vr_vic st (1 + 2 * n)) + k" "c64DisplayFirstLine v \<le> line" "line \<le> c64DisplayLastLine v"
    and left: "display \<noteq> 0" "transfer \<noteq> 0"
  shows "sprite_line st (unat line - 15) n = Some (k div 2)
    \<and> authorise v (\<lambda>a. vr_vic st (unat a)) screen bitmap line display transfer screenLeft w
        = Some \<lparr> op_inDisplay = True, op_priority = None, op_chunk = min (min display transfer) 64 \<rparr>"
proof -
  have a: "unat (of_nat (1 + 2 * n) :: u8) = 1 + 2 * n" using n by (simp add: unat_of_nat del: of_nat_Suc of_nat_add of_nat_mult)
  have "\<not> c64LineInSpriteFetchSpan (\<lambda>a. vr_vic st (unat a)) line"
    using k(1) line(1) a by (auto simp: c64LineInSpriteFetchSpan_def Let_def vic(1) simp del: of_nat_Suc of_nat_add of_nat_mult)
  moreover have "unat line < c64RasterLines v" "\<not> c64RasterIsSafeForBulkTransfer v line"
    using line(2,3) by (cases v; simp add: c64RasterIsSafeForBulkTransfer_def c64DisplayFirstLine_def c64DisplayLastLine_def word_le_nat_alt not_less)+
  moreover have "sprite_line st (unat line - 15) n = Some (k div 2)"
    using vic(2) k line(1) by (simp add: sprite_line_def sprite_top_def Let_def mult.commute)
  ultimately show ?thesis using left by (simp add: authorise_def Let_def)
qed

theorem expanded_sprite_span_missed_witness:
  "\<forall>st :: VICRenderState. authorise VIDEO_PAL (\<lambda>a. vr_vic (st\<lparr>vr_vic := (\<lambda>_. 0)(0x15 := 1, 0x17 := 1, 1 := 100)\<rparr>) (unat a)) 0x0400 0xFFFFFFFF 130 64 64 256 demo_queued
     = Some \<lparr> op_inDisplay = True, op_priority = None, op_chunk = 64 \<rparr>"
proof
  fix st :: VICRenderState
  let ?st = "st\<lparr>vr_vic := (\<lambda>_. 0)(0x15 := 1, 0x17 := 1, 1 := 100)\<rparr>"
  have b: "bit (vr_vic ?st 0x15) m \<longleftrightarrow> m = 0" for m by (simp add: bit_1_iff)
  show "authorise VIDEO_PAL (\<lambda>a. vr_vic ?st (unat a)) 0x0400 0xFFFFFFFF 130 64 64 256 demo_queued
     = Some \<lparr> op_inDisplay = True, op_priority = None, op_chunk = 64 \<rparr>"
    using expanded_sprite_span_missed [of ?st 0 30 130 VIDEO_PAL 64 64 "0x0400" "0xFFFFFFFF" 256 demo_queued] b
    by (simp add: c64DisplayFirstLine_def c64DisplayLastLine_def)
qed

text \<open>C37. Switching the physical mirror on again queues the visible picture for delivery, and nothing else: with no
  relocation in force, the pending bytes are those addresses of the screen matrix, of the bitmap (or the
  character set in text mode) and of the shapes of the enabled sprites that the policy admits, each with its value in the shadow.\<close>

theorem mirror_on_requeues_picture:
  assumes "buffer y = Some w" "\<not> relocating (mem_env (ma_M y))" "enablePhysicalMirror B (s, y) = (s', y')"
  shows "\<not> ss_MirrorHalted s' \<and> (\<exists>w'. buffer y' = Some w' \<and> wb_inv w'
    \<and> (\<forall>a. isDirty w' a \<longleftrightarrow> a \<in> picture y \<and> shouldMirror w a) \<and> (\<forall>a. isDirty w' a \<longrightarrow> wb_PendingValue w' a = c_RAM (ma_M y) a))"
proof -
  define y1 where "y1 = on_timing (enablePostedWriteTiming False)
    (on_buffer (\<lambda>E (w, h). (setDeliveryEnabled True (discard w), h)) (y\<lparr>ma_h := snd (cb_read B 0xD01F (snd (cb_read B 0xD01E (ma_h y))))\<rparr>))"
  have run: "s' = s\<lparr>ss_MirrorHalted := False\<rparr>" "y' = requeue_display y1"
    using assms(3) by (simp_all add: enablePhysicalMirror_def y1_def Let_def)
  define w1 where "w1 = setDeliveryEnabled True (discard w)"
  have w1: "wb_inv w1" "\<not> isDirty w1 b" "\<not> bitmap_get (wb_Synced w1) b" "wb_DeliveryEnabled w1" "policy_view w1 = policy_view w" for b
    by (auto simp: w1_def setDeliveryEnabled_def discard_def clearDirty_def policy_view_def isDirty_def intro!: inv_empty)
  have y1: "c_RAM (ma_M y1) = c_RAM (ma_M y)" "c_D (ma_M y1) = c_D (ma_M y)" "c_P (ma_M y1) = c_P (ma_M y)" "buffer y1 = Some w1"
    using assms(1) by (simp_all add: y1_def on_timing_def on_buffer_def buffer_def w1_def)
  have "queued_picture y w {} y1" using w1 y1 by (simp add: queued_picture_def requeued_def)
  from display_queues [OF this assms(2)] show ?thesis by (auto simp: run queued_picture_def requeued_def)
qed


theorem mirror_on_requeues_picture_witness:
  "\<forall>y. \<exists>s' y' w'. enablePhysicalMirror counter_bus (scheduler_new, demo_machine demo_start y) = (s', y')
     \<and> buffer y' = Some w' \<and> isDirty w' 0x0400"
proof
  fix y :: "nat machine"
  obtain s' y' where e: "enablePhysicalMirror counter_bus (scheduler_new, demo_machine demo_start y) = (s', y')" by fastforce
  have "(0x0400 :: u16) \<in> block 0x0400 1024" by (auto simp: block_def image_iff intro!: bexI [of _ 0])
  then have "0x0400 \<in> picture (demo_machine demo_start y)" by (simp add: picture_def demo_machine_simps)
  then show "\<exists>s' y' w'. enablePhysicalMirror counter_bus (scheduler_new, demo_machine demo_start y) = (s', y')
     \<and> buffer y' = Some w' \<and> isDirty w' 0x0400"
    using mirror_on_requeues_picture [OF demo_machine_simps(1,3) e] e demo_mirrors by auto
qed

end
