(* ===== verification/Spec2Isabelle.thy ===== *)
theory Spec2Isabelle
  imports W65Run ReuProps WriteBufferProps Banking ScpuRegsProps MemoryMap C64TimingProps ScpuMachine VicRasterProps VicRendererProps M6502Props ScpuSchedulerProps
begin

text \<open>
  SCPU-EMU: a CMD SuperCPU emulation for the C64/C128. Header to follow.
\<close>

end
